(* ===== verification/Prelude.thy ===== *)
theory Prelude
  imports Main "HOL-Library.Word" "HOL-Library.Sublist"
begin

text \<open>
  Shared vocabulary of the development: the machine integers of the target (an ILP32 ARM
  Android system, so \<open>int\<close>, \<open>long\<close>, \<open>size_t\<close> and pointers are 32 bits wide), the
  outcomes that C leaves undefined, and the generic list lemmas the components use.
\<close>

section \<open>Machine integers\<close>

type_synonym u8 = "8 word"
type_synonym u16 = "16 word"
type_synonym u32 = "32 word"
type_synonym u64 = "64 word"

text \<open>Conversion of a wider integer to \<open>int\<close>: the two's complement reading of the low 32 bits.\<close>

definition to_int32 :: "int \<Rightarrow> int" where
  "to_int32 x = (x + 2147483648) mod 4294967296 - 2147483648"

lemma to_int32_id [simp]:
  "- 2147483648 \<le> x \<Longrightarrow> x < 2147483648 \<Longrightarrow> to_int32 x = x"
  by (simp add: to_int32_def)

lemma to_int32_range: "- 2147483648 \<le> to_int32 x \<and> to_int32 x < 2147483648"
  using pos_mod_bound [of 4294967296 "x + 2147483648"]
    pos_mod_sign [of 4294967296 "x + 2147483648"]
  by (simp add: to_int32_def)

text \<open>Saturation, as \<open>strtol\<close> and its kin do on overflow.\<close>

definition saturate :: "int \<Rightarrow> int \<Rightarrow> int \<Rightarrow> int" where
  "saturate lo hi x = (if x < lo then lo else if hi < x then hi else x)"

lemma saturate_id [simp]: "lo \<le> x \<Longrightarrow> x \<le> hi \<Longrightarrow> saturate lo hi x = x"
  by (simp add: saturate_def)

lemma saturate_range: "lo \<le> hi \<Longrightarrow> lo \<le> saturate lo hi x \<and> saturate lo hi x \<le> hi"
  by (simp add: saturate_def)

section \<open>Undefined behaviour\<close>

text \<open>
  A C function whose execution can be undefined returns \<open>ub + 'a\<close>: \<open>Inl\<close> names what
  goes wrong, \<open>Inr\<close> holds the result.
\<close>

datatype ub =
    Null_Deref       \<comment> \<open>a NULL pointer is dereferenced\<close>
  | Out_Of_Bounds    \<comment> \<open>an access outside the object pointed into\<close>
  | Signed_Overflow  \<comment> \<open>the result of signed arithmetic is out of range\<close>
  | Bad_Shift        \<comment> \<open>a shift by the width of the type or more\<close>
  | Division_By_Zero \<comment> \<open>integer division by zero\<close>
  | Invalid_Free     \<comment> \<open>\<open>free\<close> of a pointer that no allocation returned\<close>
  | Use_After_Free   \<comment> \<open>a pointer into memory that has been freed or moved is followed\<close>
  | Indeterminate    \<comment> \<open>an object that was never set is read\<close>

definition bindE :: "'e + 'a \<Rightarrow> ('a \<Rightarrow> 'e + 'b) \<Rightarrow> 'e + 'b" where
  "bindE m f = (case m of Inl e \<Rightarrow> Inl e | Inr x \<Rightarrow> f x)"

lemma bindE_simps [simp]:
  "bindE (Inl e) f = Inl e"
  "bindE (Inr x) f = f x"
  by (simp_all add: bindE_def)

lemma bindE_eq_Inr [simp]:
  "bindE m f = Inr y \<longleftrightarrow> (\<exists>x. m = Inr x \<and> f x = Inr y)"
  by (cases m) auto

lemma bindE_eq_Inl:
  "bindE m f = Inl e \<longleftrightarrow> m = Inl e \<or> (\<exists>x. m = Inr x \<and> f x = Inl e)"
  by (cases m) auto

text \<open>Whether a computation has a result.\<close>

definition defined :: "'e + 'a \<Rightarrow> bool" where
  "defined m \<longleftrightarrow> (\<exists>x. m = Inr x)"

lemma defined_simps [simp]: "defined (Inr x)" "\<not> defined (Inl e)"
  by (simp_all add: defined_def)

lemma defined_bindE: "defined m \<Longrightarrow> (\<And>x. m = Inr x \<Longrightarrow> defined (f x)) \<Longrightarrow> defined (bindE m f)"
  by (auto simp: defined_def)

lemma definedD: "defined m \<Longrightarrow> \<exists>x. m = Inr x"
  by (simp add: defined_def)

lemma defined_if: "defined (if b then x else y) \<longleftrightarrow> (if b then defined x else defined y)"
  by simp

text \<open>
  What holds of the result, if there is one. The rules in \<open>post_rules\<close> take a computation
  apart, goal by goal.
\<close>

definition post :: "('a \<Rightarrow> bool) \<Rightarrow> 'e + 'a \<Rightarrow> bool" where
  "post Q m \<longleftrightarrow> (\<forall>x. m = Inr x \<longrightarrow> Q x)"

named_theorems post_rules

lemma post_simps [simp]: "post Q (Inr x) = Q x" "post Q (Inl e)"
  by (simp_all add: post_def)

lemma post_bindE [post_rules]: "(\<And>x. m = Inr x \<Longrightarrow> post Q (f x)) \<Longrightarrow> post Q (bindE m f)"
  by (auto simp: post_def)

lemma post_if [post_rules]:
  "(b \<Longrightarrow> post Q x) \<Longrightarrow> (\<not> b \<Longrightarrow> post Q y) \<Longrightarrow> post Q (if b then x else y)"
  by simp

lemma post_option [post_rules]:
  "(a = None \<Longrightarrow> post Q x) \<Longrightarrow> (\<And>y. a = Some y \<Longrightarrow> post Q (f y)) \<Longrightarrow>
     post Q (case a of None \<Rightarrow> x | Some y \<Rightarrow> f y)"
  by (cases a) auto

lemma post_prod [post_rules]:
  "(\<And>x y. p = (x, y) \<Longrightarrow> post Q (f x y)) \<Longrightarrow> post Q (case p of (x, y) \<Rightarrow> f x y)"
  by (cases p) auto

lemma post_let [post_rules]: "(\<And>x. x = a \<Longrightarrow> post Q (f x)) \<Longrightarrow> post Q (let x = a in f x)"
  by (simp add: Let_def)

lemma postD: "post Q m \<Longrightarrow> m = Inr x \<Longrightarrow> Q x"
  by (simp add: post_def)

lemma post_mono: "post P m \<Longrightarrow> (\<And>x. P x \<Longrightarrow> Q x) \<Longrightarrow> post Q m"
  by (simp add: post_def)

text \<open>A loop whose body may stop it: the first \<open>Inl\<close> ends the loop.\<close>

fun foldE :: "('a \<Rightarrow> 's \<Rightarrow> 'e + 's) \<Rightarrow> 'a list \<Rightarrow> 's \<Rightarrow> 'e + 's" where
  "foldE f [] s = Inr s"
| "foldE f (x # xs) s = bindE (f x s) (foldE f xs)"

lemma foldE_append: "foldE f (xs @ ys) s = bindE (foldE f xs s) (foldE f ys)"
proof (induction xs arbitrary: s)
  case Nil
  then show ?case by simp
next
  case (Cons x xs)
  then show ?case by (cases "f x s") auto
qed

lemma foldE_inv:
  assumes "foldE f xs s = Inr s'" and "I s"
    and "\<And>x s s'. x \<in> set xs \<Longrightarrow> I s \<Longrightarrow> f x s = Inr s' \<Longrightarrow> I s'"
  shows "I s'"
  using assms
proof (induction xs arbitrary: s)
  case Nil
  then show ?case by simp
next
  case (Cons x xs)
  from Cons.prems(1) obtain t where t: "f x s = Inr t" "foldE f xs t = Inr s'" by auto
  have "I t" using Cons.prems(3) [OF _ Cons.prems(2) t(1)] by simp
  show ?case by (rule Cons.IH [OF t(2) \<open>I t\<close>]) (rule Cons.prems(3), auto)
qed

lemma foldE_total: "(\<And>x s. f x s = Inr (g x s)) \<Longrightarrow> foldE f xs s = Inr (fold g xs s)"
  by (induction xs arbitrary: s) auto

text \<open>A pointer that must not be NULL.\<close>

definition deref :: "'a option \<Rightarrow> ub + 'a" where
  "deref p = (case p of None \<Rightarrow> Inl Null_Deref | Some x \<Rightarrow> Inr x)"

lemma deref_simps [simp]:
  "deref None = Inl Null_Deref"
  "deref (Some x) = Inr x"
  "deref p = Inr x \<longleftrightarrow> p = Some x"
  "defined (deref p) \<longleftrightarrow> p \<noteq> None"
  by (auto simp: deref_def defined_def split: option.splits)

section \<open>Lists\<close>

lemma takeWhile_all [simp]:
  "(\<And>x. x \<in> set xs \<Longrightarrow> P x) \<Longrightarrow> takeWhile P xs = xs"
  by (simp add: takeWhile_eq_all_conv)

lemma dropWhile_all:
  "(\<And>x. x \<in> set xs \<Longrightarrow> P x) \<Longrightarrow> dropWhile P xs = []"
  by (simp add: dropWhile_eq_Nil_conv)

lemma takeWhile_append_stop:
  "(\<And>x. x \<in> set xs \<Longrightarrow> P x) \<Longrightarrow> ys = [] \<or> \<not> P (hd ys) \<Longrightarrow> takeWhile P (xs @ ys) = xs"
  by (cases ys) (auto simp: takeWhile_append)

lemma dropWhile_append_stop:
  "(\<And>x. x \<in> set xs \<Longrightarrow> P x) \<Longrightarrow> ys = [] \<or> \<not> P (hd ys) \<Longrightarrow> dropWhile P (xs @ ys) = ys"
  by (cases ys) (auto simp: dropWhile_append)

lemma dropWhile_stop: "xs = [] \<or> \<not> P (hd xs) \<Longrightarrow> dropWhile P xs = xs"
  by (cases xs) auto

lemma length_dropWhile_less:
  "xs \<noteq> [] \<Longrightarrow> P (hd xs) \<Longrightarrow> length (dropWhile P xs) < length xs"
  by (cases xs) (auto simp: length_dropWhile_le le_imp_less_Suc)

lemma hd_dropWhile_not: "dropWhile P xs \<noteq> [] \<Longrightarrow> \<not> P (hd (dropWhile P xs))"
  by (rule hd_dropWhile)

lemma take_take_append [simp]: "take m (take m xs @ ys) = take m (xs @ ys)"
  by (cases "length xs \<le> m") (auto simp: min_def)

text \<open>Runs of a step function over a list of inputs, and what every step keeps.\<close>

locale preserving =
  fixes step :: "'i \<Rightarrow> 's \<Rightarrow> 's"
    and inv :: "'s \<Rightarrow> bool"
  assumes step_inv: "inv s \<Longrightarrow> inv (step i s)"
begin

lemma fold_inv: "inv s \<Longrightarrow> inv (fold step is s)"
  by (induction "is" arbitrary: s) (auto intro: step_inv)

lemma fold_prefix_inv: "inv s \<Longrightarrow> prefix js is \<Longrightarrow> inv (fold step js s)"
  by (rule fold_inv)

end

end
