(* ===== verification/CString.thy ===== *)
theory CString
  imports Prelude
begin

text \<open>
  The parts of the C library's string handling that the program uses, over \<open>string\<close> (a
  list of bytes, without the terminating NUL): \<open>isspace\<close>, \<open>strchr\<close>, \<open>strncmp\<close> on a
  prefix, \<open>strtok_r\<close>, \<open>strtol\<close> and \<open>strtoll\<close>, the conversions of \<open>printf\<close> and the
  directives of \<open>sscanf\<close>. The lemmas relate printing to parsing and tokens to the text
  they were cut from.
\<close>

section \<open>Characters and terminators\<close>

abbreviation NUL :: char where "NUL \<equiv> CHR 0x00"
abbreviation TAB :: char where "TAB \<equiv> CHR 0x09"
abbreviation NL :: char where "NL \<equiv> CHR 0x0A"
abbreviation SPC :: char where "SPC \<equiv> CHR 0x20"

text \<open>A byte buffer read as a C string ends at its first NUL.\<close>

definition cstr :: "string \<Rightarrow> string" where
  "cstr s = takeWhile (\<lambda>c. c \<noteq> NUL) s"

lemma cstr_id [simp]: "NUL \<notin> set s \<Longrightarrow> cstr s = s"
  by (auto simp: cstr_def)

lemma cstr_no_NUL [simp]: "NUL \<notin> set (cstr s)"
  by (auto simp: cstr_def dest: set_takeWhileD)

text \<open>The \<open>%s\<close> conversion; the C library of Android prints a NULL pointer as (null).\<close>

definition printf_s :: "string option \<Rightarrow> string" where
  "printf_s p = (case p of Some s \<Rightarrow> s | None \<Rightarrow> ''(null)'')"

lemma printf_s_simps [simp]: "printf_s (Some s) = s" "printf_s None = ''(null)''"
  by (simp_all add: printf_s_def)

text \<open>\<open>isspace\<close> of the C locale.\<close>

definition isspace :: "char \<Rightarrow> bool" where
  "isspace c \<longleftrightarrow> c = SPC \<or> c = TAB \<or> c = NL \<or> c = CHR 0x0B \<or> c = CHR 0x0C \<or> c = CHR 0x0D"

definition is_digit :: "char \<Rightarrow> bool" where
  "is_digit c \<longleftrightarrow> c \<in> set ''0123456789''"

lemma is_digit_not_space: "is_digit c \<Longrightarrow> \<not> isspace c"
  by (auto simp: is_digit_def isspace_def)

section \<open>Searching and comparing\<close>

text \<open>\<open>strchr\<close> returns the suffix that starts at the first occurrence.\<close>

definition strchr :: "string \<Rightarrow> char \<Rightarrow> string option" where
  "strchr s c = (if c \<in> set s then Some (dropWhile (\<lambda>x. x \<noteq> c) s) else None)"

lemma strchr_None: "strchr s c = None \<longleftrightarrow> c \<notin> set s"
  by (simp add: strchr_def)

lemma strchr_absent [simp]: "c \<notin> set s \<Longrightarrow> strchr s c = None"
  by (simp add: strchr_def)

lemma strchr_append:
  "c \<notin> set s \<Longrightarrow> strchr (s @ c # t) c = Some (c # t)"
  by (auto simp: strchr_def dropWhile_append)

lemma strchr_SomeD:
  "strchr s c = Some t \<Longrightarrow> \<exists>u. t = c # u \<and> s = takeWhile (\<lambda>x. x \<noteq> c) s @ c # u"
proof -
  assume a: "strchr s c = Some t"
  then have c: "c \<in> set s" and t: "t = dropWhile (\<lambda>x. x \<noteq> c) s"
    by (auto simp: strchr_def split: if_splits)
  from c have "dropWhile (\<lambda>x. x \<noteq> c) s \<noteq> []" by (auto simp: dropWhile_eq_Nil_conv)
  then obtain x u where u: "dropWhile (\<lambda>x. x \<noteq> c) s = x # u" by (meson neq_Nil_conv)
  then have "x = c" using hd_dropWhile [of "\<lambda>x. x \<noteq> c" s] by auto
  with u t show ?thesis using takeWhile_dropWhile_id [of "\<lambda>x. x \<noteq> c" s] by auto
qed

text \<open>\<open>!strncmp(p, name, strlen(name))\<close>: \<open>name\<close> is a prefix of \<open>p\<close>.\<close>

definition has_prefix :: "string \<Rightarrow> string \<Rightarrow> bool" where
  "has_prefix p name \<longleftrightarrow> take (length name) p = name"

lemma has_prefix_iff: "has_prefix p name \<longleftrightarrow> (\<exists>r. p = name @ r)"
  by (auto simp: has_prefix_def) (metis append_take_drop_id)

lemma has_prefix_append [simp]: "has_prefix (name @ r) name"
  by (simp add: has_prefix_def)

text \<open>\<open>strstr\<close>, as a test.\<close>

fun contains :: "string \<Rightarrow> string \<Rightarrow> bool" where
  "contains [] pat = (pat = [])"
| "contains (c # s) pat = (has_prefix (c # s) pat \<or> contains s pat)"

lemma contains_iff: "contains s pat \<longleftrightarrow> (\<exists>u v. s = u @ pat @ v)"
proof (induction s)
  case Nil
  then show ?case by auto
next
  case (Cons c s)
  show ?case
  proof
    assume "contains (c # s) pat"
    then consider "has_prefix (c # s) pat" | "contains s pat" by auto
    then show "\<exists>u v. c # s = u @ pat @ v"
    proof cases
      case 1
      then obtain v where "c # s = [] @ pat @ v" by (auto simp: has_prefix_iff)
      then show ?thesis by blast
    next
      case 2
      with Cons.IH obtain u v where "s = u @ pat @ v" by blast
      then have "c # s = (c # u) @ pat @ v" by simp
      then show ?thesis by blast
    qed
  next
    assume "\<exists>u v. c # s = u @ pat @ v"
    then obtain u v where e: "c # s = u @ pat @ v" by blast
    show "contains (c # s) pat"
    proof (cases u)
      case Nil
      with e have "has_prefix (c # s) pat" by simp
      then show ?thesis by simp
    next
      case (Cons d u')
      with e have "s = u' @ pat @ v" by simp
      with Cons.IH show ?thesis by auto
    qed
  qed
qed

section \<open>Tokens\<close>

text \<open>
  \<open>strtok_r\<close> skips delimiters, returns the run up to the next one and remembers what
  follows it; the result is the token and the text the next call continues with.
\<close>

definition strtok_r :: "string \<Rightarrow> string \<Rightarrow> (string \<times> string) option" where
  "strtok_r ds s =
     (let t = dropWhile (\<lambda>c. c \<in> set ds) s
      in if t = [] then None
         else Some (takeWhile (\<lambda>c. c \<notin> set ds) t, drop 1 (dropWhile (\<lambda>c. c \<notin> set ds) t)))"

lemma strtok_r_shorter: "strtok_r ds s = Some (t, r) \<Longrightarrow> length r < length s"
proof -
  assume a: "strtok_r ds s = Some (t, r)"
  let ?u = "dropWhile (\<lambda>c. c \<in> set ds) s"
  from a have "?u \<noteq> []" and r: "r = drop 1 (dropWhile (\<lambda>c. c \<notin> set ds) ?u)"
    by (auto simp: strtok_r_def Let_def split: if_splits)
  then have "\<not> hd ?u \<in> set ds"
    using hd_dropWhile_not [of "\<lambda>c. c \<in> set ds" s] by blast
  with \<open>?u \<noteq> []\<close> have "length (dropWhile (\<lambda>c. c \<notin> set ds) ?u) < length ?u"
    by (intro length_dropWhile_less) auto
  moreover have "length ?u \<le> length s" by (rule length_dropWhile_le)
  ultimately show ?thesis using r by simp
qed

lemma strtok_r_token:
  "strtok_r ds s = Some (t, r) \<Longrightarrow> t \<noteq> [] \<and> (\<forall>c\<in>set t. c \<notin> set ds \<and> c \<in> set s)"
proof -
  assume a: "strtok_r ds s = Some (t, r)"
  let ?u = "dropWhile (\<lambda>c. c \<in> set ds) s"
  from a have u: "?u \<noteq> []" and t: "t = takeWhile (\<lambda>c. c \<notin> set ds) ?u"
    by (auto simp: strtok_r_def Let_def split: if_splits)
  then have "\<not> hd ?u \<in> set ds"
    using hd_dropWhile_not [of "\<lambda>c. c \<in> set ds" s] by blast
  with u t have "t \<noteq> []" by (cases ?u) auto
  moreover have "\<forall>c\<in>set t. c \<notin> set ds \<and> c \<in> set s"
    using t by (auto dest!: set_takeWhileD set_dropWhileD)
  ultimately show ?thesis by blast
qed

lemma strtok_r_None: "strtok_r ds s = None \<longleftrightarrow> set s \<subseteq> set ds"
  by (auto simp: strtok_r_def Let_def dropWhile_eq_Nil_conv)

text \<open>A token followed by a delimiter, or by the end of the text, is cut off as it stands.\<close>

lemma strtok_r_append:
  assumes "t \<noteq> []" and "\<forall>c\<in>set t. c \<notin> set ds" and "d \<in> set ds"
  shows "strtok_r ds (t @ d # r) = Some (t, r)"
proof -
  from assms(1,2) have "dropWhile (\<lambda>c. c \<in> set ds) (t @ d # r) = t @ d # r"
    by (intro dropWhile_stop) (cases t, auto)
  moreover from assms have "takeWhile (\<lambda>c. c \<notin> set ds) (t @ d # r) = t"
    by (intro takeWhile_append_stop) auto
  moreover from assms have "dropWhile (\<lambda>c. c \<notin> set ds) (t @ d # r) = d # r"
    by (intro dropWhile_append_stop) auto
  ultimately show ?thesis using assms(1) by (simp add: strtok_r_def Let_def)
qed

lemma strtok_r_last:
  assumes "t \<noteq> []" and "\<forall>c\<in>set t. c \<notin> set ds"
  shows "strtok_r ds t = Some (t, [])"
proof -
  from assms have "dropWhile (\<lambda>c. c \<in> set ds) t = t"
    by (intro dropWhile_stop) (cases t, auto)
  moreover from assms have "dropWhile (\<lambda>c. c \<notin> set ds) t = []"
    by (intro dropWhile_all) auto
  moreover from assms have "takeWhile (\<lambda>c. c \<notin> set ds) t = t"
    by (intro takeWhile_all) auto
  ultimately show ?thesis using assms by (simp only: strtok_r_def Let_def) simp
qed

text \<open>The tokens of the loop \<open>for (p = strtok_r(s, ..); p; p = strtok_r(NULL, ..))\<close>.\<close>

function strtok_all :: "string \<Rightarrow> string \<Rightarrow> string list" where
  "strtok_all ds s =
     (case strtok_r ds s of None \<Rightarrow> [] | Some (t, r) \<Rightarrow> t # strtok_all ds r)"
  by pat_completeness auto
termination
  by (relation "measure (\<lambda>(ds, s). length s)") (auto dest: strtok_r_shorter)

declare strtok_all.simps [simp del]

lemma strtok_all_tokens:
  "t \<in> set (strtok_all ds s) \<Longrightarrow> t \<noteq> [] \<and> (\<forall>c\<in>set t. c \<notin> set ds \<and> c \<in> set s)"
proof (induction ds s rule: strtok_all.induct)
  case (1 ds s)
  show ?case
  proof (cases "strtok_r ds s")
    case None
    with 1 show ?thesis by (simp add: strtok_all.simps [of ds s])
  next
    case (Some p)
    obtain u r where p: "p = (u, r)" by (cases p)
    with Some have tok: "strtok_r ds s = Some (u, r)" by simp
    from "1.prems" tok have "t = u \<or> t \<in> set (strtok_all ds r)"
      by (simp add: strtok_all.simps [of ds s])
    then show ?thesis
    proof
      assume "t = u"
      with strtok_r_token [OF tok] show ?thesis by simp
    next
      assume "t \<in> set (strtok_all ds r)"
      with "1.IH" tok have "t \<noteq> [] \<and> (\<forall>c\<in>set t. c \<notin> set ds \<and> c \<in> set r)" by simp
      moreover have "set r \<subseteq> set s"
        using tok by (auto simp: strtok_r_def Let_def split: if_splits
            dest!: in_set_dropD set_dropWhileD)
      ultimately show ?thesis by blast
    qed
  qed
qed

text \<open>Joining tokens with a separator and cutting the text again gives the tokens.\<close>

fun join :: "char \<Rightarrow> string list \<Rightarrow> string" where
  "join d [] = []"
| "join d [t] = t"
| "join d (t # ts) = t @ d # join d ts"

lemma join_Cons: "ts \<noteq> [] \<Longrightarrow> join d (t # ts) = t @ d # join d ts"
  by (cases ts) auto

lemma strtok_all_join:
  assumes "d \<in> set ds" and "\<forall>t\<in>set ts. t \<noteq> [] \<and> (\<forall>c\<in>set t. c \<notin> set ds)"
  shows "strtok_all ds (join d ts) = ts"
  using assms(2)
proof (induction ts)
  case Nil
  then show ?case by (simp add: strtok_all.simps strtok_r_def)
next
  case (Cons t ts)
  show ?case
  proof (cases "ts = []")
    case True
    have "strtok_all ds [] = []" by (simp add: strtok_all.simps strtok_r_def)
    with True Cons.prems show ?thesis
      by (simp add: strtok_all.simps [of ds t] strtok_r_last)
  next
    case False
    with Cons assms(1) show ?thesis
      by (simp add: join_Cons strtok_all.simps [of ds "t @ d # join d ts"] strtok_r_append)
  qed
qed

end
