(* ===== verification/CNumber.thy ===== *)
theory CNumber
  imports CString
begin

text \<open>
  Numbers and text: the \<open>%u\<close>, \<open>%d\<close> and \<open>%lu\<close> conversions of \<open>printf\<close>, the family
  of \<open>strtol\<close>, and a small interpreter for the \<open>sscanf\<close> formats of the program. The
  lemmas show that parsing undoes printing.
\<close>

section \<open>Printing\<close>

definition digit_char :: "nat \<Rightarrow> char" where
  "digit_char n = ''0123456789'' ! n"

fun show_nat :: "nat \<Rightarrow> string" where
  "show_nat n = (if n < 10 then [digit_char n] else show_nat (n div 10) @ [digit_char (n mod 10)])"

declare show_nat.simps [simp del]

text \<open>\<open>%u\<close> and \<open>%d\<close> of an \<open>int\<close>-sized argument.\<close>

definition show_u32 :: "u32 \<Rightarrow> string" where
  "show_u32 w = show_nat (unat w)"

definition show_int :: "int \<Rightarrow> string" where
  "show_int i = (if i < 0 then CHR ''-'' # show_nat (nat (- i)) else show_nat (nat i))"

text \<open>\<open>snprintf\<close> into a buffer of \<open>size\<close> bytes keeps at most \<open>size - 1\<close> characters.\<close>

definition snprintf :: "nat \<Rightarrow> string \<Rightarrow> string" where
  "snprintf n s = take (n - 1) s"

lemma snprintf_id [simp]: "length s < n \<Longrightarrow> snprintf n s = s"
  by (simp add: snprintf_def)

lemma snprintf_length: "0 < n \<Longrightarrow> length (snprintf n s) < n"
  by (auto simp: snprintf_def)

definition PATH_MAX :: nat where "PATH_MAX = 4096"

section \<open>Digits\<close>

definition digit_val :: "char \<Rightarrow> nat" where
  "digit_val c =
     (let n = of_char c
      in if 48 \<le> n \<and> n \<le> 57 then n - 48
         else if 97 \<le> n \<and> n \<le> 122 then n - 87
         else if 65 \<le> n \<and> n \<le> 90 then n - 55
         else 36)"

definition digit_in :: "nat \<Rightarrow> char \<Rightarrow> bool" where
  "digit_in b c \<longleftrightarrow> digit_val c < b"

fun digits_value :: "nat \<Rightarrow> nat \<Rightarrow> string \<Rightarrow> nat" where
  "digits_value b acc [] = acc"
| "digits_value b acc (c # cs) = digits_value b (acc * b + digit_val c) cs"

lemma less_10_cases: "n < (10::nat) \<Longrightarrow>
  n = 0 \<or> n = 1 \<or> n = 2 \<or> n = 3 \<or> n = 4 \<or> n = 5 \<or> n = 6 \<or> n = 7 \<or> n = 8 \<or> n = 9"
  by arith

lemma digit_char_facts:
  assumes "n < 10"
  shows "digit_val (digit_char n) = n" and "(of_char (digit_char n) :: nat) = 48 + n" and "is_digit (digit_char n)"
    and "digit_char n \<noteq> CHR ''-''" and "digit_char n \<noteq> CHR ''+''"
  using less_10_cases [OF assms]
  by (auto simp: digit_char_def digit_val_def is_digit_def Let_def)

lemma is_digit_in_10: "is_digit c \<longleftrightarrow> digit_in 10 c"
proof
  assume "is_digit c"
  then show "digit_in 10 c"
    by (auto simp: is_digit_def digit_in_def digit_val_def Let_def)
next
  assume "digit_in 10 c"
  then have b: "48 \<le> (of_char c :: nat)" "(of_char c :: nat) \<le> 57"
    by (auto simp: digit_in_def digit_val_def Let_def split: if_splits)
  define n :: nat where "n = of_char c - 48"
  have "n < 10" using b by (simp add: n_def)
  then have "(of_char (digit_char n) :: nat) = of_char c"
    using b by (simp only: digit_char_facts) (simp add: n_def)
  then have "c = digit_char n" by simp
  then show "is_digit c" using digit_char_facts(3) [OF \<open>n < 10\<close>] by simp
qed

lemma digits_value_append:
  "digits_value b acc (xs @ ys) = digits_value b (digits_value b acc xs) ys"
  by (induction xs arbitrary: acc) auto

lemma show_nat_nonempty [simp]: "show_nat n \<noteq> []"
  by (subst show_nat.simps) simp

lemma show_nat_digits: "c \<in> set (show_nat n) \<Longrightarrow> is_digit c"
proof (induction n rule: show_nat.induct)
  case (1 n)
  then show ?case
    by (subst (asm) (2) show_nat.simps) (auto simp: digit_char_facts split: if_splits)
qed

lemma digits_value_show_nat: "digits_value 10 0 (show_nat n) = n"
proof (induction n rule: show_nat.induct)
  case (1 n)
  then show ?case
    by (subst show_nat.simps) (auto simp: digits_value_append digit_char_facts)
qed

lemma length_show_nat: "n < 10 ^ k \<Longrightarrow> 0 < k \<Longrightarrow> length (show_nat n) \<le> k"
proof (induction n arbitrary: k rule: show_nat.induct)
  case (1 n)
  show ?case
  proof (cases "n < 10")
    case True
    with 1 show ?thesis by (simp add: show_nat.simps [of n])
  next
    case False
    with 1(2) have "n div 10 < 10 ^ (k - 1)" "0 < k - 1"
      by (cases k; cases "k - 1"; simp add: less_mult_imp_div_less mult.commute)+
    with 1(1) False show ?thesis by (fastforce simp: show_nat.simps [of n])
  qed
qed

lemma length_show_u32: "length (show_u32 n) \<le> 10"
proof -
  have "unat n < 2 ^ 32" using unsigned_less [of n, where 'a = nat] by simp
  then have "unat n < 10 ^ 10" by simp
  then show ?thesis unfolding show_u32_def by (intro length_show_nat) simp_all
qed

lemma show_nat_inj: "show_nat m = show_nat n \<Longrightarrow> m = n"
  by (metis digits_value_show_nat)

lemma hd_show_nat: "is_digit (hd (show_nat n))"
  using show_nat_digits [of "hd (show_nat n)" n] by simp

lemma show_nat_not_space: "c \<in> set (show_nat n) \<Longrightarrow> \<not> isspace c"
  using show_nat_digits is_digit_not_space by blast

section \<open>The strtol family\<close>

text \<open>An optional sign: whether the number is negated, and the text after it.\<close>

fun strip_sign :: "string \<Rightarrow> bool \<times> string" where
  "strip_sign (c # s) =
     (if c = CHR ''-'' then (True, s) else if c = CHR ''+'' then (False, s) else (False, c # s))"
| "strip_sign [] = (False, [])"

text \<open>The base and the digits' start: base 0 reads the C prefixes \<open>0x\<close> and \<open>0\<close>.\<close>

definition strip_base :: "nat \<Rightarrow> string \<Rightarrow> nat \<times> string" where
  "strip_base b s =
     (if b = 0 then
        (case s of
           z # x # d # r \<Rightarrow>
             if z = CHR ''0'' \<and> (x = CHR ''x'' \<or> x = CHR ''X'') \<and> digit_in 16 d then (16, d # r)
             else if z = CHR ''0'' then (8, s) else (10, s)
         | z # r \<Rightarrow> if z = CHR ''0'' then (8, s) else (10, s)
         | [] \<Rightarrow> (10, s))
      else (b, s))"

text \<open>The value, saturated to the type's range, and the text \<open>endptr\<close> points to.\<close>

definition strtol :: "int \<Rightarrow> int \<Rightarrow> nat \<Rightarrow> string \<Rightarrow> int \<times> string" where
  "strtol lo hi base s =
     (let (neg, s1) = strip_sign (dropWhile isspace s);
          (b, s2) = strip_base base s1;
          ds = takeWhile (digit_in b) s2;
          v = int (digits_value b 0 ds)
      in if ds = [] then (0, s)
         else (saturate lo hi (if neg then - v else v), dropWhile (digit_in b) s2))"

abbreviation strtol32 :: "nat \<Rightarrow> string \<Rightarrow> int \<times> string" where
  "strtol32 \<equiv> strtol (- 2147483648) 2147483647"

abbreviation strtoll :: "nat \<Rightarrow> string \<Rightarrow> int \<times> string" where
  "strtoll \<equiv> strtol (- 9223372036854775808) 9223372036854775807"

lemma strip_sign_digit: "s \<noteq> [] \<Longrightarrow> is_digit (hd s) \<Longrightarrow> strip_sign s = (False, s)"
  by (cases s) (auto simp: is_digit_def)

lemma strtol_range:
  "lo \<le> 0 \<Longrightarrow> 0 \<le> hi \<Longrightarrow> lo \<le> fst (strtol lo hi b s) \<and> fst (strtol lo hi b s) \<le> hi"
  by (auto simp: strtol_def Let_def saturate_range split: prod.splits)

lemma strtol_show_nat:
  assumes "int n \<le> hi" and "lo \<le> 0"
  shows "strtol lo hi 10 (show_nat n) = (int n, [])"
proof -
  have d: "\<And>c. c \<in> set (show_nat n) \<Longrightarrow> digit_in 10 c"
    using show_nat_digits is_digit_in_10 by blast
  have "dropWhile isspace (show_nat n) = show_nat n"
    using hd_show_nat is_digit_not_space by (intro dropWhile_stop) blast
  moreover have "strip_sign (show_nat n) = (False, show_nat n)"
    by (simp add: strip_sign_digit hd_show_nat)
  moreover have "takeWhile (digit_in 10) (show_nat n) = show_nat n"
    using d by (rule takeWhile_all)
  moreover have "dropWhile (digit_in 10) (show_nat n) = []"
    using d by (rule dropWhile_all)
  ultimately show ?thesis using assms
    by (simp add: strtol_def strip_base_def digits_value_show_nat)
qed

section \<open>sscanf\<close>

text \<open>
  The directives of the program's formats: a literal character, \<open>%u\<close> and \<open>%s\<close>. A run
  returns the converted values, so their number is \<open>sscanf\<close>'s result; it stops at the
  first directive that does not match. \<open>%u\<close> converts like \<open>strtoul\<close>, which saturates
  at \<open>ULONG_MAX\<close> and negates after a minus sign.
\<close>

datatype scan_dir = Lit char | Unsigned | Str

datatype scan_val = VUnsigned u32 | VStr string

definition scan_unsigned :: "string \<Rightarrow> (u32 \<times> string) option" where
  "scan_unsigned s =
     (let (neg, s1) = strip_sign (dropWhile isspace s);
          ds = takeWhile is_digit s1;
          v = digits_value 10 0 ds
      in if ds = [] then None
         else Some (if 4294967295 < v then 4294967295
                    else if neg then - of_nat v else of_nat v, dropWhile is_digit s1))"

fun sscanf :: "scan_dir list \<Rightarrow> string \<Rightarrow> scan_val list" where
  "sscanf [] s = []"
| "sscanf (Lit c # ds) s =
     (case s of x # r \<Rightarrow> if x = c then sscanf ds r else [] | [] \<Rightarrow> [])"
| "sscanf (Unsigned # ds) s =
     (case scan_unsigned s of Some (v, r) \<Rightarrow> VUnsigned v # sscanf ds r | None \<Rightarrow> [])"
| "sscanf (Str # ds) s =
     (let s1 = dropWhile isspace s; t = takeWhile (\<lambda>c. \<not> isspace c) s1
      in if t = [] then [] else VStr t # sscanf ds (dropWhile (\<lambda>c. \<not> isspace c) s1))"

definition lits :: "string \<Rightarrow> scan_dir list" where
  "lits s = map Lit s"

lemma sscanf_lits [simp]: "sscanf (lits p @ ds) (p @ s) = sscanf ds s"
  by (induction p) (auto simp: lits_def)

lemma sscanf_lits_end: "sscanf (lits p @ ds) p = sscanf ds []"
  using sscanf_lits [of p ds "[]"] by simp

lemma sscanf_lits_mismatch: "\<not> has_prefix s p \<Longrightarrow> sscanf (lits p @ ds) s = []"
proof (induction p arbitrary: s)
  case Nil
  then show ?case by (simp add: has_prefix_def)
next
  case (Cons c p)
  then show ?case by (cases s) (auto simp: lits_def has_prefix_def)
qed

lemma scan_unsigned_show_nat:
  assumes "n < 4294967296" and "r = [] \<or> \<not> is_digit (hd r)"
  shows "scan_unsigned (show_nat n @ r) = Some (of_nat n, r)"
proof -
  have d: "\<And>c. c \<in> set (show_nat n) \<Longrightarrow> is_digit c" by (rule show_nat_digits)
  have h: "hd (show_nat n @ r) = hd (show_nat n)" by simp
  have "dropWhile isspace (show_nat n @ r) = show_nat n @ r"
    using hd_show_nat is_digit_not_space by (intro dropWhile_stop) (simp add: h)
  moreover have "strip_sign (show_nat n @ r) = (False, show_nat n @ r)"
    by (intro strip_sign_digit) (simp_all add: h hd_show_nat)
  moreover have "takeWhile is_digit (show_nat n @ r) = show_nat n"
    using d assms(2) by (intro takeWhile_append_stop) auto
  moreover have "dropWhile is_digit (show_nat n @ r) = r"
    using d assms(2) by (intro dropWhile_append_stop) auto
  ultimately show ?thesis using assms(1)
    by (simp add: scan_unsigned_def digits_value_show_nat)
qed

lemma scan_unsigned_show_u32:
  "r = [] \<or> \<not> is_digit (hd r) \<Longrightarrow> scan_unsigned (show_u32 w @ r) = Some (w, r)"
  using scan_unsigned_show_nat [of "unat w" r] unsigned_less [of w, where 'a = nat]
  by (simp add: show_u32_def)

lemma show_u32_inj [simp]: "show_u32 v = show_u32 w \<longleftrightarrow> v = w"
  by (metis show_u32_def show_nat_inj unsigned_word_eqI)

end
