(* ===== verification/UtilString.thy ===== *)
theory UtilString
  imports CNumber
begin

text \<open>
  The string routines of src/util.c: \<open>strlcpy\<close>, \<open>strlcat\<close> (the CUPS versions, with their
  unsigned size arithmetic) and the scanner of \<open>dump_strings\<close>. A destination buffer is the
  C string it holds; a result of \<open>n\<close> characters occupies \<open>n + 1\<close> bytes of it.
\<close>

section \<open>Bounded copies\<close>

definition strlcat :: "string \<Rightarrow> string \<Rightarrow> u32 \<Rightarrow> string \<times> nat" where
  "strlcat dst src n =
     (let dstlen = length dst;
          n = n - of_nat (dstlen + 1)
      in if n = 0 then (dst, dstlen)
         else
           let srclen = length src;
               srclen = (if unat n < srclen then unat n else srclen)
           in (dst @ take srclen src, dstlen + srclen))"

definition strlcpy :: "string \<Rightarrow> u32 \<Rightarrow> string \<times> nat" where
  "strlcpy src n =
     (let n = n - 1;
          srclen = length src;
          srclen = (if unat n < srclen then unat n else srclen)
      in (take srclen src, srclen))"

lemma unat_room:
  assumes "k < unat n"
  shows "unat (n - of_nat (k + 1) :: u32) = unat n - (k + 1)"
proof -
  have b: "unat n < 2 ^ 32" using unsigned_less [of n, where 'a = nat] by simp
  with assms have k: "unat (of_nat (k + 1) :: u32) = k + 1"
    by (simp only: unat_of_nat) simp
  then have "(of_nat (k + 1) :: u32) \<le> n"
    using assms by (simp only: word_le_nat_alt)
  with k show ?thesis by (simp only: unat_sub)
qed

lemma strlcat_take:
  assumes "length dst < unat n"
  shows "fst (strlcat dst src n) = take (unat n - 1) (dst @ src)"
proof -
  let ?n = "n - of_nat (length dst + 1)"
  have u: "unat ?n = unat n - (length dst + 1)" using assms by (rule unat_room)
  show ?thesis
  proof (cases "?n = 0")
    case True
    with u have "unat n - (length dst + 1) = 0" by simp
    with assms have "unat n - 1 = length dst" by linarith
    with True show ?thesis by (simp add: strlcat_def)
  next
    case False
    have "fst (strlcat dst src n) = dst @ take (min (unat ?n) (length src)) src"
      using False by (auto simp: strlcat_def Let_def min_def)
    also have "\<dots> = dst @ take (unat ?n) src" by (simp add: min_def)
    finally show ?thesis using u assms by simp
  qed
qed

lemma strlcat_length: "snd (strlcat dst src n) = length (fst (strlcat dst src n))"
  by (auto simp: strlcat_def Let_def)

lemma strlcat_bound: "length dst < unat n \<Longrightarrow> length (fst (strlcat dst src n)) < unat n"
  by (simp add: strlcat_take)

lemma strlcpy_take: "n \<noteq> 0 \<Longrightarrow> fst (strlcpy src n) = take (unat n - 1) src"
  by (auto simp: strlcpy_def Let_def unat_minus_one)

lemma strlcpy_bound: "n \<noteq> 0 \<Longrightarrow> length (fst (strlcpy src n)) < unat n"
  by (simp add: strlcpy_take word_neq_0_conv word_less_nat_alt)

text \<open>A size of 0 wraps to \<open>SIZE_MAX\<close>, so nothing bounds the copy.\<close>

lemma strlcpy_zero: "length src \<le> 4294967295 \<Longrightarrow> fst (strlcpy src 0) = src"
  by (auto simp: strlcpy_def Let_def unsigned_minus_1_eq_mask mask_eq_exp_minus_1)

section \<open>Printable runs of a file\<close>

definition isprint :: "char \<Rightarrow> bool" where
  "isprint c \<longleftrightarrow> 32 \<le> (of_char c :: nat) \<and> (of_char c :: nat) < 127"

text \<open>
  The loop of \<open>dump_strings\<close>: the run collected so far, the results so far, and the bytes
  that are left; the end of the list is EOF, which ends the last run. The loop stops when
  a run ends with \<open>size\<close> results stored.
\<close>

fun dump_loop :: "(string \<Rightarrow> bool) \<Rightarrow> nat \<Rightarrow> string \<Rightarrow> string list \<Rightarrow> string \<Rightarrow> string list" where
  "dump_loop cb n run res [] =
     (if run \<noteq> [] \<and> length res < n \<and> cb run then res @ [run] else res)"
| "dump_loop cb n run res (c # cs) =
     (if isprint c \<or> c = TAB then dump_loop cb n (run @ [c]) res cs
      else if run \<noteq> [] then
        (if length res < n then
           dump_loop cb n [] (if cb run then res @ [run] else res) cs
         else res)
      else dump_loop cb n [] res cs)"

definition dump_strings :: "string option \<Rightarrow> nat \<Rightarrow> (string \<Rightarrow> bool) option \<Rightarrow> string list option" where
  "dump_strings file n cb =
     (case file of None \<Rightarrow> None
      | Some bytes \<Rightarrow> Some (dump_loop (case cb of None \<Rightarrow> (\<lambda>_. True) | Some f \<Rightarrow> f) n [] [] bytes))"

text \<open>The specification: the maximal printable runs, those the callback accepts, the first \<open>n\<close>.\<close>

definition printable :: "char \<Rightarrow> bool" where
  "printable c \<longleftrightarrow> isprint c \<or> c = TAB"

fun printable_runs :: "string \<Rightarrow> string \<Rightarrow> string list" where
  "printable_runs run [] = (if run \<noteq> [] then [run] else [])"
| "printable_runs run (c # cs) =
     (if printable c then printable_runs (run @ [c]) cs
      else (if run \<noteq> [] then [run] else []) @ printable_runs [] cs)"

lemma dump_loop_full: "n \<le> length res \<Longrightarrow> dump_loop cb n run res cs = res"
  by (induction cb n run res cs rule: dump_loop.induct) auto

lemma dump_loop_eq:
  "length res \<le> n \<Longrightarrow>
   dump_loop cb n run res cs = take n (res @ filter cb (printable_runs run cs))"
proof (induction cb n run res cs rule: dump_loop.induct)
  case (1 cb n run res)
  then show ?case by auto
next
  case (2 cb n run res c cs)
  then show ?case by (auto simp: printable_def dump_loop_full)
qed

lemma printable_runs_spec:
  assumes "\<forall>c\<in>set run. printable c" and "t \<in> set (printable_runs run cs)"
  shows "t \<noteq> [] \<and> (\<forall>c\<in>set t. printable c) \<and> sublist t (run @ cs)"
  using assms
proof (induction run cs rule: printable_runs.induct)
  case (1 run)
  then show ?case by (auto split: if_splits)
next
  case (2 run c cs)
  show ?case
  proof (cases "printable c")
    case True
    with 2 show ?thesis by auto
  next
    case False
    from False "2.prems" consider "run \<noteq> []" "t = run" | "t \<in> set (printable_runs [] cs)"
      by (auto split: if_splits)
    then show ?thesis
    proof cases
      case 1
      with "2.prems"(1) show ?thesis by auto
    next
      case 2
      with "2.IH"(2) [OF False] have "t \<noteq> [] \<and> (\<forall>c\<in>set t. printable c) \<and> sublist t cs"
        by simp
      then obtain u v where "t \<noteq> []" "\<forall>c\<in>set t. printable c" "cs = u @ t @ v"
        by (auto simp: sublist_def)
      then have "run @ c # cs = (run @ c # u) @ t @ v" by simp
      then have "sublist t (run @ c # cs)" by (simp only: sublist_def) blast
      with \<open>t \<noteq> []\<close> \<open>\<forall>c\<in>set t. printable c\<close> show ?thesis by blast
    qed
  qed
qed

section \<open>Properties\<close>

text \<open>Appending to a string that fits its buffer keeps it within the buffer: \<open>strlcat\<close>
  yields the longest prefix of the concatenation that leaves room for the NUL, and returns
  its length.\<close>

theorem strlcat_prefix:
  assumes "length dst < unat n"
  shows "strlcat dst src n = (take (unat n - 1) (dst @ src), length (take (unat n - 1) (dst @ src)))
    \<and> length (fst (strlcat dst src n)) < unat n"
proof -
  have "fst (strlcat dst src n) = take (unat n - 1) (dst @ src)" using assms by (rule strlcat_take)
  with strlcat_length [of dst src n] strlcat_bound [OF assms, of src] show ?thesis
    by (cases "strlcat dst src n") (simp only: fst_conv snd_conv)
qed

theorem strlcat_prefix_witness: "fst (strlcat ''ab'' ''cdef'' 5) = ''abcd''"
  using strlcat_prefix [of "''ab''" "5" "''cdef''"] by simp

text \<open>\<open>dump_strings\<close> returns the first \<open>size\<close> of the maximal printable runs of the file
  that the callback accepts, in the order of the file, and -1 when there is no file.\<close>

theorem dump_strings_spec:
  "dump_strings f n cb =
     map_option (\<lambda>bytes. take n (filter (case cb of None \<Rightarrow> (\<lambda>_. True) | Some g \<Rightarrow> g)
                                   (printable_runs [] bytes))) f"
  by (cases f) (simp_all add: dump_strings_def dump_loop_eq)

end
