(* ===== verification/FsFlags.thy ===== *)
theory FsFlags
  imports UtilString
begin

unbundle bit_operations_syntax

text \<open>
  The flag columns of an fstab, lib/fs_mgr/fs_mgr.c: the two flag tables, the values a flag
  may carry, and \<open>parse_flags\<close>, which reads a comma separated column into a flag word, the
  carried values and the text of the options it does not know.
\<close>

section \<open>The flag tables\<close>

definition MS_RDONLY :: u32 where "MS_RDONLY = 0x1"
definition MS_NOSUID :: u32 where "MS_NOSUID = 0x2"
definition MS_NODEV :: u32 where "MS_NODEV = 0x4"
definition MS_NOEXEC :: u32 where "MS_NOEXEC = 0x8"
definition MS_SYNCHRONOUS :: u32 where "MS_SYNCHRONOUS = 0x10"
definition MS_REMOUNT :: u32 where "MS_REMOUNT = 0x20"
definition MS_NOATIME :: u32 where "MS_NOATIME = 0x400"
definition MS_NODIRATIME :: u32 where "MS_NODIRATIME = 0x800"
definition MS_BIND :: u32 where "MS_BIND = 0x1000"
definition MS_REC :: u32 where "MS_REC = 0x4000"
definition MS_UNBINDABLE :: u32 where "MS_UNBINDABLE = 0x20000"
definition MS_PRIVATE :: u32 where "MS_PRIVATE = 0x40000"
definition MS_SLAVE :: u32 where "MS_SLAVE = 0x80000"
definition MS_SHARED :: u32 where "MS_SHARED = 0x100000"

lemmas MS_defs = MS_RDONLY_def MS_NOSUID_def MS_NODEV_def MS_NOEXEC_def MS_SYNCHRONOUS_def
  MS_REMOUNT_def MS_NOATIME_def MS_NODIRATIME_def MS_BIND_def MS_REC_def MS_UNBINDABLE_def
  MS_PRIVATE_def MS_SLAVE_def MS_SHARED_def

definition MF_WAIT :: u32 where "MF_WAIT = 0x1"
definition MF_CHECK :: u32 where "MF_CHECK = 0x2"
definition MF_CRYPT :: u32 where "MF_CRYPT = 0x4"
definition MF_NONREMOVABLE :: u32 where "MF_NONREMOVABLE = 0x8"
definition MF_VOLDMANAGED :: u32 where "MF_VOLDMANAGED = 0x10"
definition MF_LENGTH :: u32 where "MF_LENGTH = 0x20"
definition MF_RECOVERYONLY :: u32 where "MF_RECOVERYONLY = 0x40"
definition MF_SWAPPRIO :: u32 where "MF_SWAPPRIO = 0x80"
definition MF_ZRAMSIZE :: u32 where "MF_ZRAMSIZE = 0x100"
definition MF_VERIFY :: u32 where "MF_VERIFY = 0x200"
definition MF_MULTIBOOT :: u32 where "MF_MULTIBOOT = 0x400"
definition MF_NOEMULATEDSD :: u32 where "MF_NOEMULATEDSD = 0x400"

lemmas MF_defs = MF_WAIT_def MF_CHECK_def MF_CRYPT_def MF_NONREMOVABLE_def
  MF_VOLDMANAGED_def MF_LENGTH_def MF_RECOVERYONLY_def MF_SWAPPRIO_def MF_ZRAMSIZE_def
  MF_VERIFY_def MF_MULTIBOOT_def MF_NOEMULATEDSD_def

type_synonym flag_list = "(string \<times> u32) list"

definition mount_flags :: flag_list where
  "mount_flags =
     [(''noatime'', MS_NOATIME),
      (''noexec'', MS_NOEXEC),
      (''nosuid'', MS_NOSUID),
      (''nodev'', MS_NODEV),
      (''nodiratime'', MS_NODIRATIME),
      (''ro'', MS_RDONLY),
      (''rw'', 0),
      (''remount'', MS_REMOUNT),
      (''bind'', MS_BIND),
      (''rec'', MS_REC),
      (''unbindable'', MS_UNBINDABLE),
      (''private'', MS_PRIVATE),
      (''slave'', MS_SLAVE),
      (''shared'', MS_SHARED),
      (''sync'', MS_SYNCHRONOUS),
      (''defaults'', 0)]"

definition fs_mgr_flags :: flag_list where
  "fs_mgr_flags =
     [(''wait'', MF_WAIT),
      (''check'', MF_CHECK),
      (''encryptable='', MF_CRYPT),
      (''nonremovable'', MF_NONREMOVABLE),
      (''voldmanaged='', MF_VOLDMANAGED),
      (''length='', MF_LENGTH),
      (''recoveryonly'', MF_RECOVERYONLY),
      (''swapprio='', MF_SWAPPRIO),
      (''zramsize='', MF_ZRAMSIZE),
      (''verify'', MF_VERIFY),
      (''noemulatedsd'', MF_NOEMULATEDSD),
      (''multiboot'', MF_MULTIBOOT),
      (''defaults'', 0)]"

section \<open>The values a flag carries\<close>

record flag_values =
  fv_key_loc :: "string option"
  fv_part_length :: int
  fv_label :: "string option"
  fv_partnum :: int
  fv_swap_prio :: int
  fv_zram_size :: u32

definition initial_values :: flag_values where
  "initial_values = \<lparr>fv_key_loc = None, fv_part_length = 0, fv_label = None,
     fv_partnum = - 1, fv_swap_prio = - 1, fv_zram_size = 0\<rparr>"

text \<open>\<open>strchr(p, '=') + 1\<close>: a NULL result of \<open>strchr\<close> makes the access undefined.\<close>

definition after_char :: "string \<Rightarrow> char \<Rightarrow> ub + string" where
  "after_char p c = bindE (deref (strchr p c)) (\<lambda>s. Inr (tl s))"

text \<open>The chain of tests on the flag of the table entry that matched the token \<open>p\<close>.\<close>

definition store_value :: "u32 \<Rightarrow> string \<Rightarrow> flag_values \<Rightarrow> ub + flag_values" where
  "store_value flag p v =
     (if flag = MF_CRYPT then
        bindE (after_char p (CHR ''='')) (\<lambda>s. Inr (v\<lparr>fv_key_loc := Some s\<rparr>))
      else if flag = MF_LENGTH then
        bindE (after_char p (CHR ''='')) (\<lambda>s. Inr (v\<lparr>fv_part_length := fst (strtoll 0 s)\<rparr>))
      else if flag = MF_VOLDMANAGED then
        bindE (after_char p (CHR ''='')) (\<lambda>label_start.
          (case strchr p (CHR '':'') of
             None \<Rightarrow> Inr v
           | Some label_end \<Rightarrow>
               let part_start = tl label_end;
                   label = take (length label_start - length label_end) label_start;
                   partnum = (if part_start = ''auto'' then - 1 else fst (strtol32 0 part_start))
               in Inr (v\<lparr>fv_label := Some label, fv_partnum := partnum\<rparr>)))
      else if flag = MF_SWAPPRIO then
        bindE (after_char p (CHR ''='')) (\<lambda>s. Inr (v\<lparr>fv_swap_prio := to_int32 (fst (strtoll 0 s))\<rparr>))
      else if flag = MF_ZRAMSIZE then
        bindE (after_char p (CHR ''='')) (\<lambda>s. Inr (v\<lparr>fv_zram_size := of_int (fst (strtoll 0 s))\<rparr>))
      else Inr v)"

section \<open>The parser\<close>

text \<open>The first entry of the table whose name is a prefix of the token.\<close>

fun find_flag :: "flag_list \<Rightarrow> string \<Rightarrow> u32 option" where
  "find_flag [] p = None"
| "find_flag ((name, flag) # fl) p = (if has_prefix p name then Some flag else find_flag fl p)"

text \<open>
  The state of the loop: the flag word \<open>f\<close>, \<open>flag_vals\<close> (\<open>None\<close> for NULL) and the text
  in \<open>fs_options\<close> (\<open>None\<close> for NULL).
\<close>

record parse_state =
  ps_f :: u32
  ps_vals :: "flag_values option"
  ps_opts :: "string option"

definition parse_flag_token ::
  "flag_list \<Rightarrow> u32 \<Rightarrow> string \<Rightarrow> parse_state \<Rightarrow> ub + parse_state" where
  "parse_flag_token fl opts_len p st =
     (case find_flag fl p of
        Some flag \<Rightarrow>
          let st = st\<lparr>ps_f := ps_f st OR flag\<rparr> in
          (case ps_vals st of
             None \<Rightarrow> Inr st
           | Some v \<Rightarrow> bindE (store_value flag p v) (\<lambda>v. Inr (st\<lparr>ps_vals := Some v\<rparr>)))
      | None \<Rightarrow>
          (case ps_opts st of
             Some o1 \<Rightarrow>
               let o2 = fst (strlcat o1 p opts_len);
                   o3 = fst (strlcat o2 '','' opts_len)
               in Inr (st\<lparr>ps_opts := Some o3\<rparr>)
           | None \<Rightarrow> Inr st))"

definition parse_flags ::
  "string \<Rightarrow> flag_list \<Rightarrow> bool \<Rightarrow> u32 option \<Rightarrow> ub + parse_state" where
  "parse_flags flags fl want_vals fs_options_len =
     (let st = \<lparr>ps_f = 0,
                ps_vals = (if want_vals then Some initial_values else None),
                ps_opts = (case fs_options_len of None \<Rightarrow> None | Some _ \<Rightarrow> Some [])\<rparr>;
          opts_len = (case fs_options_len of None \<Rightarrow> 0 | Some n \<Rightarrow> n)
      in bindE (foldE (parse_flag_token fl opts_len) (strtok_all '','' flags) st)
           (\<lambda>st. Inr (case ps_opts st of
                        Some o1 \<Rightarrow> st\<lparr>ps_opts := Some (if o1 \<noteq> [] then butlast o1 else o1)\<rparr>
                      | None \<Rightarrow> st)))"

section \<open>What the parser computes\<close>

definition flag_bits :: "flag_list \<Rightarrow> string \<Rightarrow> u32" where
  "flag_bits fl p = (case find_flag fl p of Some flag \<Rightarrow> flag | None \<Rightarrow> 0)"

definition or_bits :: "u32 list \<Rightarrow> u32" where
  "or_bits ws = foldr (OR) ws 0"

lemma or_bits_simps [simp]: "or_bits [] = 0" "or_bits (w # ws) = w OR or_bits ws"
  by (simp_all add: or_bits_def)

lemma bit_or_bits: "bit (or_bits ws) n \<longleftrightarrow> (\<exists>w\<in>set ws. bit w n)"
  by (induction ws) (auto simp: bit_or_iff)

lemma parse_flag_token_f:
  "parse_flag_token fl n p st = Inr st' \<Longrightarrow> ps_f st' = ps_f st OR flag_bits fl p"
  by (auto simp: parse_flag_token_def flag_bits_def Let_def split: option.splits)

lemma foldE_tokens_f:
  "foldE (parse_flag_token fl n) ts st = Inr st' \<Longrightarrow>
   ps_f st' = ps_f st OR or_bits (map (flag_bits fl) ts)"
proof (induction ts arbitrary: st)
  case Nil
  then show ?case by simp
next
  case (Cons t ts)
  then obtain u where "parse_flag_token fl n t st = Inr u"
    "foldE (parse_flag_token fl n) ts u = Inr st'" by auto
  with Cons.IH [of u] parse_flag_token_f [of fl n t st u] show ?case
    by (simp add: or.assoc)
qed

lemma parse_flags_f:
  "parse_flags flags fl vals len = Inr st \<Longrightarrow>
   ps_f st = or_bits (map (flag_bits fl) (strtok_all '','' flags))"
  by (auto simp: parse_flags_def Let_def split: option.splits dest!: foldE_tokens_f)

text \<open>
  The options text: each unknown token and a comma, truncated to the buffer, less the last
  character.
\<close>

definition unknown_tokens :: "flag_list \<Rightarrow> string list \<Rightarrow> string list" where
  "unknown_tokens fl ts = filter (\<lambda>t. find_flag fl t = None) ts"

definition comma_each :: "string list \<Rightarrow> string" where
  "comma_each ts = concat (map (\<lambda>t. t @ '','') ts)"

lemma comma_each_simps [simp]:
  "comma_each [] = []" "comma_each (t # ts) = t @ '','' @ comma_each ts"
  by (simp_all add: comma_each_def)

lemma butlast_comma_each: "butlast (comma_each ts) = join (CHR '','') ts"
proof (induction ts)
  case Nil
  then show ?case by simp
next
  case (Cons t ts)
  show ?case
  proof (cases "ts = []")
    case True
    then show ?thesis by (simp add: butlast_append)
  next
    case False
    then have "comma_each ts \<noteq> []" by (cases ts) auto
    with False Cons show ?thesis by (simp add: butlast_append join_Cons)
  qed
qed

lemma foldE_tokens_opts:
  assumes "foldE (parse_flag_token fl n) ts st = Inr st'"
    and "ps_opts st = Some u" and "length u < unat n"
  shows "ps_opts st' = Some (take (unat n - 1) (u @ comma_each (unknown_tokens fl ts)))"
  using assms
proof (induction ts arbitrary: st u)
  case Nil
  then show ?case by (simp add: unknown_tokens_def)
next
  case (Cons t ts)
  then obtain v where v: "parse_flag_token fl n t st = Inr v"
    "foldE (parse_flag_token fl n) ts v = Inr st'" by auto
  show ?case
  proof (cases "find_flag fl t")
    case None
    let ?m = "unat n - 1"
    let ?o3 = "fst (strlcat (fst (strlcat u t n)) '','' n)"
    from None v(1) Cons.prems(2) have o3: "ps_opts v = Some ?o3"
      by (auto simp: parse_flag_token_def Let_def)
    have b: "length (fst (strlcat u t n)) < unat n"
      using Cons.prems(3) by (rule strlcat_bound)
    have e: "?o3 = take ?m (u @ t @ '','')"
      unfolding strlcat_take [OF b] unfolding strlcat_take [OF Cons.prems(3)]
      by (simp only: take_take_append append_assoc)
    have "length ?o3 < unat n" using b by (rule strlcat_bound)
    with Cons.IH [OF v(2) o3] None
    have "ps_opts st' = Some (take ?m (?o3 @ comma_each (unknown_tokens fl ts)))" by simp
    also have "take ?m (?o3 @ comma_each (unknown_tokens fl ts)) =
        take ?m (u @ t @ '','' @ comma_each (unknown_tokens fl ts))"
      by (simp only: e take_take_append append_assoc)
    finally show ?thesis using None by (simp add: unknown_tokens_def)
  next
    case (Some flag)
    with v(1) Cons.prems(2) have "ps_opts v = Some u"
      by (auto simp: parse_flag_token_def Let_def split: option.splits)
    from Cons.IH [OF v(2) this Cons.prems(3)] Some show ?thesis
      by (simp add: unknown_tokens_def)
  qed
qed

lemma parse_flags_opts:
  assumes "parse_flags flags fl vals (Some n) = Inr st" and "0 < n"
  shows "ps_opts st =
    Some (butlast (take (unat n - 1) (comma_each (unknown_tokens fl (strtok_all '','' flags)))))"
proof -
  let ?init = "\<lparr>ps_f = 0, ps_vals = if vals then Some initial_values else None, ps_opts = Some []\<rparr>"
  from assms(1) obtain u where
    u: "foldE (parse_flag_token fl n) (strtok_all '','' flags) ?init = Inr u"
    and st: "st = (case ps_opts u of Some o1 \<Rightarrow>
       u\<lparr>ps_opts := Some (if o1 \<noteq> [] then butlast o1 else o1)\<rparr> | None \<Rightarrow> u)"
    by (auto simp: parse_flags_def Let_def)
  have "0 < unat n" using assms(2) by (simp add: word_less_nat_alt)
  with foldE_tokens_opts [OF u, of "[]"] st show ?thesis by auto
qed

section \<open>The two columns never fail to parse\<close>

text \<open>
  Every table entry whose flag makes \<open>store_value\<close> look for an equals sign has one in its
  name, so a token that matches it has one too.
\<close>

lemma find_flag_SomeD:
  "find_flag fl p = Some flag \<Longrightarrow> \<exists>name. (name, flag) \<in> set fl \<and> has_prefix p name"
  by (induction fl p rule: find_flag.induct) (auto split: if_splits)

lemma has_prefix_set: "has_prefix p name \<Longrightarrow> c \<in> set name \<Longrightarrow> c \<in> set p"
  by (auto simp: has_prefix_iff)

definition carries_value :: "u32 \<Rightarrow> bool" where
  "carries_value flag \<longleftrightarrow>
     flag \<in> {MF_CRYPT, MF_LENGTH, MF_VOLDMANAGED, MF_SWAPPRIO, MF_ZRAMSIZE}"

lemma fs_mgr_flags_equals:
  "(name, flag) \<in> set fs_mgr_flags \<Longrightarrow> carries_value flag \<Longrightarrow> CHR ''='' \<in> set name"
  by (auto simp: fs_mgr_flags_def carries_value_def MF_defs)

lemma after_char_total: "c \<in> set p \<Longrightarrow> \<exists>s. after_char p c = Inr s"
  by (auto simp: after_char_def strchr_def)

lemma store_value_total:
  assumes "carries_value flag \<Longrightarrow> CHR ''='' \<in> set p"
  shows "\<exists>v'. store_value flag p v = Inr v'"
proof (cases "carries_value flag")
  case True
  with assms after_char_total obtain s where "after_char p (CHR ''='') = Inr s" by blast
  then show ?thesis
    by (auto simp: store_value_def Let_def split: option.splits)
next
  case False
  then show ?thesis by (auto simp: store_value_def carries_value_def)
qed

lemma parse_flag_token_total:
  assumes "ps_vals st = None \<or> fl = fs_mgr_flags"
  shows "\<exists>st'. parse_flag_token fl n p st = Inr st' \<and> (ps_vals st = None \<longrightarrow> ps_vals st' = None)"
proof (cases "find_flag fl p")
  case None
  then show ?thesis by (auto simp: parse_flag_token_def Let_def split: option.splits)
next
  case (Some flag)
  show ?thesis
  proof (cases "ps_vals st")
    case None
    with Some show ?thesis by (auto simp: parse_flag_token_def Let_def)
  next
    case (Some v)
    with assms have fl: "fl = fs_mgr_flags" by simp
    from \<open>find_flag fl p = Some flag\<close> have "carries_value flag \<Longrightarrow> CHR ''='' \<in> set p"
      using fs_mgr_flags_equals has_prefix_set by (auto simp: fl dest!: find_flag_SomeD)
    then obtain v' where "store_value flag p v = Inr v'" using store_value_total by blast
    with Some \<open>find_flag fl p = Some flag\<close> show ?thesis
      by (auto simp: parse_flag_token_def Let_def)
  qed
qed

lemma foldE_tokens_total:
  "ps_vals st = None \<or> fl = fs_mgr_flags \<Longrightarrow>
   \<exists>st'. foldE (parse_flag_token fl n) ts st = Inr st'"
proof (induction ts arbitrary: st)
  case Nil
  then show ?case by simp
next
  case (Cons t ts)
  from parse_flag_token_total [OF Cons.prems, of n t] obtain u where
    u: "parse_flag_token fl n t st = Inr u" and "ps_vals st = None \<longrightarrow> ps_vals u = None"
    by (elim exE conjE)
  with Cons.prems have "ps_vals u = None \<or> fl = fs_mgr_flags" by auto
  with Cons.IH [of u] u show ?case by simp
qed

lemma parse_flags_total:
  assumes "\<not> vals \<or> fl = fs_mgr_flags"
  shows "\<exists>st. parse_flags flags fl vals len = Inr st"
proof -
  let ?st = "\<lparr>ps_f = 0, ps_vals = (if vals then Some initial_values else None),
     ps_opts = (case len of None \<Rightarrow> None | Some _ \<Rightarrow> Some [])\<rparr>"
  have "ps_vals ?st = None \<or> fl = fs_mgr_flags" using assms by auto
  then obtain st where "foldE (parse_flag_token fl (case len of None \<Rightarrow> 0 | Some n \<Rightarrow> n))
      (strtok_all '','' flags) ?st = Inr st"
    using foldE_tokens_total [of ?st fl] by blast
  then show ?thesis by (simp add: parse_flags_def)
qed

section \<open>The carried key location\<close>

definition key_tokens :: "string list \<Rightarrow> string list" where
  "key_tokens ts = filter (\<lambda>t. has_prefix t ''encryptable='') ts"

lemma find_flag_crypt:
  "find_flag fs_mgr_flags p = Some MF_CRYPT \<longleftrightarrow> has_prefix p ''encryptable=''"
proof (cases p)
  case Nil
  then show ?thesis by (simp add: fs_mgr_flags_def has_prefix_def)
next
  case (Cons c p')
  then show ?thesis by (auto simp: fs_mgr_flags_def has_prefix_def MF_defs)
qed

lemma after_encryptable: "has_prefix p ''encryptable='' \<Longrightarrow> after_char p (CHR ''='') = Inr (drop 12 p)"
proof -
  assume "has_prefix p ''encryptable=''"
  then obtain r where p: "p = ''encryptable='' @ r" by (auto simp: has_prefix_iff)
  have "strchr p (CHR ''='') = Some (CHR ''='' # r)"
    using strchr_append [of "CHR ''=''" "''encryptable''" r] p by simp
  with p show ?thesis by (simp add: after_char_def)
qed

lemma store_value_key_loc:
  assumes "store_value flag p v = Inr v'" and "flag \<noteq> MF_CRYPT"
  shows "fv_key_loc v' = fv_key_loc v"
  using assms
  by (cases "strchr p (CHR '':'')") (auto simp: store_value_def Let_def split: if_splits)

lemma parse_flag_token_key_loc:
  assumes "parse_flag_token fs_mgr_flags n p st = Inr st'" and "ps_vals st = Some v"
  shows "\<exists>v'. ps_vals st' = Some v' \<and>
    fv_key_loc v' = (if has_prefix p ''encryptable='' then Some (drop 12 p) else fv_key_loc v)"
proof (cases "find_flag fs_mgr_flags p")
  case None
  then have "\<not> has_prefix p ''encryptable=''" using find_flag_crypt by force
  with None assms show ?thesis
    by (auto simp: parse_flag_token_def Let_def split: option.splits)
next
  case (Some flag)
  with assms obtain v' where v': "store_value flag p v = Inr v'" "ps_vals st' = Some v'"
    by (auto simp: parse_flag_token_def Let_def)
  show ?thesis
  proof (cases "flag = MF_CRYPT")
    case True
    with Some have "has_prefix p ''encryptable=''" using find_flag_crypt by simp
    with True v' show ?thesis by (auto simp: store_value_def after_encryptable)
  next
    case False
    with Some have "\<not> has_prefix p ''encryptable=''" using find_flag_crypt by force
    with store_value_key_loc [OF v'(1) False] v'(2) show ?thesis by simp
  qed
qed

lemma foldE_tokens_key_loc:
  assumes "foldE (parse_flag_token fs_mgr_flags n) ts st = Inr st'" and "ps_vals st = Some v"
  shows "\<exists>v'. ps_vals st' = Some v' \<and>
    fv_key_loc v' = (if key_tokens ts = [] then fv_key_loc v
                     else Some (drop 12 (last (key_tokens ts))))"
  using assms
proof (induction ts arbitrary: st v)
  case Nil
  then show ?case by (simp add: key_tokens_def)
next
  case (Cons t ts)
  then obtain u where u: "parse_flag_token fs_mgr_flags n t st = Inr u"
    "foldE (parse_flag_token fs_mgr_flags n) ts u = Inr st'" by auto
  from parse_flag_token_key_loc [OF u(1) Cons.prems(2)] obtain x where
    x: "ps_vals u = Some x" "fv_key_loc x =
      (if has_prefix t ''encryptable='' then Some (drop 12 t) else fv_key_loc v)" by blast
  from Cons.IH [OF u(2) x(1)] x(2) show ?case by (auto simp: key_tokens_def)
qed

lemma parse_flags_key_loc:
  assumes "parse_flags flags fs_mgr_flags True None = Inr st"
  shows "\<exists>v. ps_vals st = Some v \<and>
    fv_key_loc v = (let ts = key_tokens (strtok_all '','' flags)
                    in if ts = [] then None else Some (drop 12 (last ts)))"
proof -
  let ?init = "\<lparr>ps_f = 0, ps_vals = Some initial_values, ps_opts = None\<rparr>"
  from assms obtain u where
    u: "foldE (parse_flag_token fs_mgr_flags 0) (strtok_all '','' flags) ?init = Inr u"
    and st: "ps_vals st = ps_vals u"
    by (auto simp: parse_flags_def Let_def split: option.splits)
  from foldE_tokens_key_loc [OF u, of initial_values] st show ?thesis
    by (auto simp: Let_def initial_values_def)
qed

section \<open>Properties\<close>


lemma butlast_take_less: "butlast (take k c) = take (k - 1) (butlast c)"
proof -
  have "min (length c) k - 1 = min (k - 1) (length c - 1)" by (auto simp: min_def)
  then show ?thesis by (simp add: butlast_conv_take)
qed

text \<open>The options text of a column is made of its unknown tokens in order, with commas
  between them, as far as the buffer of \<open>n\<close> bytes holds it.\<close>

theorem parse_flags_options:
  assumes "0 < n" and "parse_flags flags fl vals (Some n) = Inr st"
  shows "\<exists>opts. ps_opts st = Some opts \<and> length opts < unat n \<and>
    prefix opts (join (CHR '','') (unknown_tokens fl (strtok_all '','' flags))) \<and>
    (length (comma_each (unknown_tokens fl (strtok_all '','' flags))) < unat n \<longrightarrow>
       opts = join (CHR '','') (unknown_tokens fl (strtok_all '','' flags)))"
proof -
  let ?ts = "unknown_tokens fl (strtok_all '','' flags)"
  let ?c = "comma_each ?ts"
  have o: "ps_opts st = Some (butlast (take (unat n - 1) ?c))"
    using parse_flags_opts [OF assms(2,1)] .
  have pos: "0 < unat n" using assms(1) by (simp add: word_less_nat_alt)
  have j: "join (CHR '','') ?ts = butlast ?c" by (simp add: butlast_comma_each)
  have "butlast (take (unat n - 1) ?c) = take (unat n - 2) (butlast ?c)"
    unfolding butlast_take_less by (simp add: numeral_2_eq_2)
  then have "prefix (butlast (take (unat n - 1) ?c)) (join (CHR '','') ?ts)"
    unfolding j by (simp add: take_is_prefix)
  moreover have "length (butlast (take (unat n - 1) ?c)) < unat n" using pos by auto
  moreover have "length ?c < unat n \<Longrightarrow> butlast (take (unat n - 1) ?c) = join (CHR '','') ?ts"
    unfolding j by simp
  ultimately show ?thesis using o by blast
qed

text \<open>For the witness: one unknown option among two known ones.\<close>

theorem parse_flags_options_witness:
  "\<exists>st. parse_flags ''noatime,data=x,ro'' mount_flags False (Some 1024) = Inr st \<and>
     (\<exists>opts. ps_opts st = Some opts \<and> length opts < 1024)"
proof -
  obtain st where st: "parse_flags ''noatime,data=x,ro'' mount_flags False (Some 1024) = Inr st"
    using parse_flags_total [of False mount_flags] by blast
  from parse_flags_options [OF _ st] have "\<exists>opts. ps_opts st = Some opts \<and> length opts < unat (1024 :: u32)"
    by auto
  with st show ?thesis by simp
qed

end
