(* ===== verification/Os.thy ===== *)
theory Os
  imports CNumber
begin

text \<open>
  The environment: the kernel, the stdio streams, libblkid's probe and the tracy library
  the program is linked against. None of it is source code of the program, so it is a
  parameter, an \<open>os\<close>: a function that answers a call from the calls made before it. The
  program's side of the world is the trail of the calls made so far and \<open>errno\<close>.
\<close>

section \<open>Calls and replies\<close>

type_synonym dev = "u32 \<times> u32"   \<comment> \<open>\<open>dev_t\<close> as the pair \<open>makedev\<close> packs\<close>

text \<open>The seven words of \<open>struct tracy_sc_args\<close>, and the returned value.\<close>

record sc_args =
  a0 :: u32
  a1 :: u32
  a2 :: u32
  a3 :: u32
  a4 :: u32
  a5 :: u32
  return_code :: int

datatype tracy_call =
    Read_Mem u32 nat            \<comment> \<open>\<open>tracy_read_mem\<close>: address and length\<close>
  | Write_Mem u32 string        \<comment> \<open>\<open>tracy_write_mem\<close>: address and the bytes\<close>
  | Mmap nat                    \<comment> \<open>\<open>tracy_mmap\<close> of an anonymous private mapping\<close>
  | Munmap u32 nat              \<comment> \<open>\<open>tracy_munmap\<close>\<close>
  | Modify_Args sc_args         \<comment> \<open>\<open>tracy_modify_syscall_args\<close>\<close>
  | Set_Hook string string      \<comment> \<open>\<open>tracy_set_hook\<close>: system call and hook function\<close>
  | Tracy_Init u32
  | Tracy_Exec "string list"
  | Tracy_Attach int
  | Tracy_Quit int
  | Tracy_Main
  | Tracy_Free

datatype path_call =
    Mkdir string u32
  | Mknod string u32 dev
  | Mount "string option" string "string option" u32 "string option"
  | Umount string
  | Chmod string u32
  | Chown string nat nat
  | Unlink string
  | Stat string
  | Lstat string
  | Realpath string

datatype fd_call =
    Open string u32
  | Read int nat
  | Lseek int nat
  | Write int string
  | Fcntl int
  | Dup2 int int
  | Ioctl int string
  | Close int

datatype stream_call =
    Fopen string string
  | Fread int
  | Rewind int
  | Fputs int string
  | Fclose int
  | Opendir string
  | Readdir int
  | Closedir int

datatype proc_call =
    Fork_Exec "string list"     \<comment> \<open>\<open>fork\<close> with \<open>execve\<close>, else \<open>exit(0)\<close>, in the child\<close>
  | Waitpid int
  | Execve string "string list"
  | Fork
  | Sigaction
  | Kill int
  | Clock_Gettime
  | Usleep nat

datatype call =
    Path path_call
  | Fd fd_call
  | Stream stream_call
  | Proc proc_call
  | Blkid_Fullprobe string      \<comment> \<open>a new probe of a device, and \<open>blkid_do_fullprobe\<close> on it\<close>
  | Blkid_Lookup string         \<comment> \<open>\<open>blkid_probe_lookup_value\<close> on the probe\<close>
  | Blkid_Free                  \<comment> \<open>\<open>blkid_free_probe\<close>\<close>
  | Tracy tracy_call

datatype dtype = DT_REG | DT_LNK | DT_OTHER

text \<open>
  A negative \<open>rc\<close> is the failure of a call (a NULL pointer where the C function returns
  one) and \<open>eno\<close> is the error number it leaves. \<open>data\<close> holds the bytes a call delivers,
  \<open>rc\<close> of the clock is its time in seconds, \<open>rdev\<close>, \<open>is_lnk\<close> the parts of \<open>struct stat\<close> the program reads, \<open>dirents\<close> the
  entries of a directory stream.
\<close>

record reply =
  rc :: int
  eno :: int
  data :: string
  dirents :: "(dtype \<times> string) list"
  rdev :: dev
  is_lnk :: bool

definition ok_reply :: "int \<Rightarrow> reply" where
  "ok_reply v = \<lparr>rc = v, eno = 0, data = [], dirents = [], rdev = (0, 0), is_lnk = False\<rparr>"

definition err_reply :: "int \<Rightarrow> reply" where
  "err_reply e = \<lparr>rc = - 1, eno = e, data = [], dirents = [], rdev = (0, 0), is_lnk = False\<rparr>"

lemma reply_simps [simp]:
  "rc (ok_reply v) = v" "data (ok_reply v) = []" "is_lnk (ok_reply v) = False"
  "dirents (ok_reply v) = []" "rdev (ok_reply v) = (0, 0)"
  "rc (err_reply e) = - 1" "eno (err_reply e) = e" "data (err_reply e) = []"
  by (simp_all add: ok_reply_def err_reply_def)

type_synonym os = "call list \<Rightarrow> call \<Rightarrow> reply"

section \<open>The world\<close>

record world =
  trail :: "call list"
  errno :: int

definition initial_world :: world where
  "initial_world = \<lparr>trail = [], errno = 0\<rparr>"

text \<open>
  A call is appended to the trail. A failing call leaves its error number in \<open>errno\<close>. A
  successful one leaves \<open>errno\<close> alone, except that \<open>realpath\<close> and the functions of the
  libraries make calls of their own, so \<open>errno\<close> may be anything after them.
\<close>

fun keeps_errno :: "call \<Rightarrow> bool" where
  "keeps_errno (Path (Realpath _)) = False"
| "keeps_errno (Blkid_Fullprobe _) = False"
| "keeps_errno (Blkid_Lookup _) = False"
| "keeps_errno Blkid_Free = False"
| "keeps_errno (Tracy _) = False"
| "keeps_errno _ = True"

definition sys :: "os \<Rightarrow> call \<Rightarrow> world \<Rightarrow> reply \<times> world" where
  "sys os c w =
     (let r = os (trail w) c
      in (r, w\<lparr>trail := trail w @ [c],
               errno := (if rc r < 0 \<or> \<not> keeps_errno c then eno r else errno w)\<rparr>))"

lemma sys_fst [simp]: "fst (sys os c w) = os (trail w) c"
  by (simp add: sys_def Let_def)

lemma sys_trail [simp]: "trail (snd (sys os c w)) = trail w @ [c]"
  by (simp add: sys_def Let_def)

lemma sys_errno [simp]:
  "errno (snd (sys os c w)) =
     (if rc (os (trail w) c) < 0 \<or> \<not> keeps_errno c then eno (os (trail w) c) else errno w)"
  by (simp add: sys_def Let_def)

lemma sys_eq:
  "sys os c w = (os (trail w) c,
     \<lparr>trail = trail w @ [c],
      errno = (if rc (os (trail w) c) < 0 \<or> \<not> keeps_errno c
               then eno (os (trail w) c) else errno w)\<rparr>)"
  by (cases w) (simp add: sys_def Let_def)

text \<open>The calls an operation added to the trail.\<close>

definition calls_since :: "world \<Rightarrow> world \<Rightarrow> call list" where
  "calls_since w w' = drop (length (trail w)) (trail w')"

definition extends :: "world \<Rightarrow> world \<Rightarrow> bool" where
  "extends w w' \<longleftrightarrow> (\<exists>cs. trail w' = trail w @ cs)"

lemma extends_refl [simp, intro]: "extends w w"
  by (simp add: extends_def)

lemma extends_trans [trans]: "extends u v \<Longrightarrow> extends v w \<Longrightarrow> extends u w"
  by (auto simp: extends_def)

lemma extends_sys [simp, intro]: "extends w (snd (sys os c w))"
  by (simp add: extends_def)

lemma calls_since_same [simp]: "calls_since w w = []"
  by (simp add: calls_since_def)

lemma calls_since_trail [simp]: "trail w' = trail w @ cs \<Longrightarrow> calls_since w w' = cs"
  by (simp add: calls_since_def)

lemma calls_since_trans:
  "extends u v \<Longrightarrow> extends v w \<Longrightarrow> calls_since u w = calls_since u v @ calls_since v w"
  by (auto simp: extends_def)

text \<open>The error numbers, mode bits and open flags the program names.\<close>

definition EEXIST :: int where "EEXIST = 17"
definition ENOENT :: int where "ENOENT = 2"
definition ECHILD :: int where "ECHILD = 10"

definition S_IFBLK :: u32 where "S_IFBLK = 0x6000"
definition S_IFCHR :: u32 where "S_IFCHR = 0x2000"
definition S_IRWX_all :: u32 where "S_IRWX_all = 511"   \<comment> \<open>\<open>S_IRWXU | S_IRWXG | S_IRWXO\<close>\<close>

definition O_RDONLY :: u32 where "O_RDONLY = 0"
definition O_WRONLY :: u32 where "O_WRONLY = 1"
definition O_ACCMODE :: u32 where "O_ACCMODE = 3"
definition O_NOFOLLOW :: u32 where "O_NOFOLLOW = 0x8000"   \<comment> \<open>the value of ARM Linux\<close>
definition AT_SYMLINK_NOFOLLOW :: u32 where "AT_SYMLINK_NOFOLLOW = 0x100"

end
