(* ===== verification/Fstab.thy ===== *)
theory Fstab
  imports FsFlags Os
begin

text \<open>
  The fstab of lib/fs_mgr: \<open>struct fstab_rec\<close> and \<open>struct fstab\<close>, the reader
  \<open>do_fs_mgr_read_fstab\<close> with its two passes over the file, and the predicates and lookups
  on the records. A pointer field of a record is an option, \<open>None\<close> for NULL, since the
  records are zeroed first and \<open>fs_mgr_add_entry\<close> fills three fields only.
\<close>

section \<open>Records\<close>

record fstab_rec =
  blk_device :: "string option"
  mount_point :: "string option"
  fs_type :: "string option"
  fs_options_unparsed :: "string option"
  fs_mgr_flags_unparsed :: "string option"
  unhandled_columns :: "string option"
  rec_flags :: u32
  fs_options :: "string option"
  rec_fs_mgr_flags :: u32
  rec_key_loc :: "string option"
  part_length :: int
  rec_label :: "string option"
  partnum :: int
  swap_prio :: int
  zram_size :: u32
  stat_rdev :: dev                      \<comment> \<open>\<open>statbuf.st_rdev\<close>\<close>
  replacement_device :: "string option"
  replacement_bind :: bool
  stub_device :: "string option"

definition zero_rec :: fstab_rec where
  "zero_rec = \<lparr>blk_device = None, mount_point = None, fs_type = None,
     fs_options_unparsed = None, fs_mgr_flags_unparsed = None, unhandled_columns = None,
     rec_flags = 0, fs_options = None, rec_fs_mgr_flags = 0, rec_key_loc = None,
     part_length = 0, rec_label = None, partnum = 0, swap_prio = 0, zram_size = 0,
     stat_rdev = (0, 0), replacement_device = None, replacement_bind = False,
     stub_device = None\<rparr>"

record fstab =
  num_entries :: nat
  recs :: "fstab_rec list"
  fstab_filename :: string
  twrp :: bool

section \<open>Lines\<close>

text \<open>
  The lines \<open>getline\<close> delivers, their newline cut off, as C strings. The loop ends at the
  end of the data; a last line without a newline counts.
\<close>

function getlines :: "string \<Rightarrow> string list" where
  "getlines s =
     (if s = [] then []
      else cstr (takeWhile (\<lambda>c. c \<noteq> NL) s) # getlines (drop 1 (dropWhile (\<lambda>c. c \<noteq> NL) s)))"
  by pat_completeness auto
termination
proof (relation "measure length")
  fix s :: string
  assume "s \<noteq> []"
  then show "(drop 1 (dropWhile (\<lambda>c. c \<noteq> NL) s), s) \<in> measure length"
    using length_dropWhile_le [of "\<lambda>c. c \<noteq> NL" s] by (cases s) auto
qed simp

declare getlines.simps [simp del]

lemma getlines_Nil [simp]: "getlines [] = []"
  by (simp add: getlines.simps)

lemma getlines_line:
  "NL \<notin> set l \<Longrightarrow> getlines (l @ NL # s) = cstr l # getlines s"
  by (simp add: getlines.simps [of "l @ NL # s"] takeWhile_append dropWhile_append)

text \<open>Comments and blank lines are skipped.\<close>

definition significant :: "string \<Rightarrow> bool" where
  "significant line =
     (let p = dropWhile isspace line in \<not> (p = [] \<or> hd p = CHR ''#''))"

definition count_entries :: "string list \<Rightarrow> nat" where
  "count_entries ls = length (filter significant ls)"

section \<open>One record\<close>

definition delim :: string where "delim = [SPC, TAB]"

definition FS_OPTIONS_LEN :: u32 where "FS_OPTIONS_LEN = 1024"

text \<open>The loop that collects the columns after the third of a TWRP line, each with a space.\<close>

definition collect_unhandled :: "string \<Rightarrow> string option" where
  "collect_unhandled rest =
     (let ts = strtok_all delim rest
      in if ts = [] then None else Some (concat (map (\<lambda>t. t @ '' '') ts)))"

text \<open>The common end of a record: what \<open>flag_vals\<close> holds is stored.\<close>

definition finish_rec :: "flag_values \<Rightarrow> fstab_rec \<Rightarrow> fstab_rec" where
  "finish_rec v r =
     r\<lparr>rec_key_loc := fv_key_loc v, part_length := fv_part_length v, rec_label := fv_label v,
       partnum := fv_partnum v, swap_prio := fv_swap_prio v, zram_size := fv_zram_size v\<rparr>"

text \<open>
  A TWRP record leaves \<open>flag_vals\<close> as it was, so \<open>v\<close> is what the reader's stack held.
  The result is \<open>None\<close> where the code goes to \<open>err\<close>.
\<close>

definition parse_twrp_rec :: "flag_values \<Rightarrow> string \<Rightarrow> (fstab_rec \<times> flag_values) option" where
  "parse_twrp_rec v line =
     (case strtok_r delim line of None \<Rightarrow> None | Some (mp, l1) \<Rightarrow>
      (case strtok_r delim l1 of None \<Rightarrow> None | Some (ty, l2) \<Rightarrow>
       (case strtok_r delim l2 of None \<Rightarrow> None | Some (dev, l3) \<Rightarrow>
          Some (finish_rec v
                  (zero_rec\<lparr>mount_point := Some mp, fs_type := Some ty, blk_device := Some dev,
                     unhandled_columns := collect_unhandled l3,
                     fs_options_unparsed := Some ''defaults'', fs_options := Some [],
                     rec_flags := 0, fs_mgr_flags_unparsed := Some ''defaults'',
                     rec_fs_mgr_flags := 0\<rparr>), v))))"

definition parse_plain_rec :: "string \<Rightarrow> ub + (fstab_rec \<times> flag_values) option" where
  "parse_plain_rec line =
     (case strtok_r delim line of None \<Rightarrow> Inr None | Some (dev, l1) \<Rightarrow>
      (case strtok_r delim l1 of None \<Rightarrow> Inr None | Some (mp, l2) \<Rightarrow>
       (case strtok_r delim l2 of None \<Rightarrow> Inr None | Some (ty, l3) \<Rightarrow>
        (case strtok_r delim l3 of None \<Rightarrow> Inr None | Some (mflags, l4) \<Rightarrow>
           bindE (parse_flags mflags mount_flags False (Some FS_OPTIONS_LEN)) (\<lambda>m.
             let opts = (case ps_opts m of Some t \<Rightarrow> (if t \<noteq> [] then Some t else None)
                                         | None \<Rightarrow> None) in
             (case strtok_r delim l4 of None \<Rightarrow> Inr None | Some (fflags, _) \<Rightarrow>
                bindE (parse_flags fflags fs_mgr_flags True None) (\<lambda>f.
                  bindE (deref (ps_vals f)) (\<lambda>v.
                    Inr (Some (finish_rec v
                      (zero_rec\<lparr>blk_device := Some dev, mount_point := Some mp,
                         fs_type := Some ty, fs_options_unparsed := Some mflags,
                         rec_flags := ps_f m, fs_options := opts,
                         fs_mgr_flags_unparsed := Some fflags,
                         rec_fs_mgr_flags := ps_f f\<rparr>), v))))))))))"

definition parse_rec ::
  "bool \<Rightarrow> flag_values \<Rightarrow> string \<Rightarrow> ub + (fstab_rec \<times> flag_values) option" where
  "parse_rec tw v line = (if tw then Inr (parse_twrp_rec v line) else parse_plain_rec line)"

section \<open>The reader\<close>

text \<open>
  The second pass: \<open>room\<close> is \<open>entries - cnt\<close>, the records still allocated; when it is
  used up the loop breaks. The result is False with the finished records where the code goes
  to \<open>err\<close>.
\<close>

fun read_recs ::
  "bool \<Rightarrow> flag_values \<Rightarrow> nat \<Rightarrow> string list \<Rightarrow> ub + (bool \<times> fstab_rec list)" where
  "read_recs tw v room [] = Inr (True, [])"
| "read_recs tw v room (line # ls) =
     (if \<not> significant line then read_recs tw v room ls
      else if room = 0 then Inr (True, [])
      else bindE (parse_rec tw v line) (\<lambda>res.
             case res of None \<Rightarrow> Inr (False, [])
             | Some (r, v') \<Rightarrow>
                 bindE (read_recs tw v' (room - 1) ls) (\<lambda>(ok, rs). Inr (ok, r # rs))))"

text \<open>
  \<open>fs_mgr_free_fstab\<close> frees the strings of the records. All come from \<open>strdup\<close>, except
  the key location and the label of a TWRP record, which are what the uninitialised
  \<open>flag_vals\<close> held: of them only NULL can be freed.
\<close>

definition fs_mgr_free_fstab :: "bool \<Rightarrow> fstab_rec list \<Rightarrow> ub + unit" where
  "fs_mgr_free_fstab tw rs =
     (if tw \<and> list_ex (\<lambda>r. rec_key_loc r \<noteq> None \<or> rec_label r \<noteq> None) rs
      then Inl Invalid_Free else Inr ())"

text \<open>
  \<open>indet\<close> is the indeterminate value of the uninitialised \<open>flag_vals\<close>. The file is read
  twice, so the two passes may see different data.
\<close>

definition do_fs_mgr_read_fstab ::
  "os \<Rightarrow> flag_values \<Rightarrow> string \<Rightarrow> bool \<Rightarrow> world \<Rightarrow> (ub + fstab option) \<times> world" where
  "do_fs_mgr_read_fstab os indet fstab_path tw w =
     (let (r, w) = sys os (Stream (Fopen fstab_path ''r'')) w in
      if rc r < 0 then (Inr None, w)
      else
        let f = rc r;
            (r, w) = sys os (Stream (Fread f)) w;
            entries = count_entries (getlines (data r)) in
        if entries = 0 then
          let (_, w) = sys os (Stream (Fclose f)) w in (Inr None, w)
        else
          let (_, w) = sys os (Stream (Rewind f)) w;
              (r, w) = sys os (Stream (Fread f)) w;
              res = read_recs tw indet entries (getlines (data r));
              (_, w) = sys os (Stream (Fclose f)) w
          in (bindE res (\<lambda>(ok, rs).
                if ok then Inr (Some \<lparr>num_entries = entries,
                                  recs = rs @ replicate (entries - length rs) zero_rec,
                                  fstab_filename = fstab_path, twrp = tw\<rparr>)
                else bindE (fs_mgr_free_fstab tw rs) (\<lambda>_. Inr None)), w))"

definition fs_mgr_read_fstab ::
  "os \<Rightarrow> flag_values \<Rightarrow> string \<Rightarrow> world \<Rightarrow> (ub + fstab option) \<times> world" where
  "fs_mgr_read_fstab os indet fstab_path w = do_fs_mgr_read_fstab os indet fstab_path False w"

section \<open>Facts about the reader\<close>

text \<open>The parser of a plain record is defined on every line.\<close>

lemma parse_plain_rec_total: "\<exists>res. parse_plain_rec line = Inr res"
proof -
  have m: "defined (parse_flags s mount_flags False (Some n))" for s n
    using parse_flags_total [of False mount_flags] by (simp add: defined_def)
  have f: "defined (parse_flags s fs_mgr_flags True None)" for s
    using parse_flags_total [of True fs_mgr_flags] by (simp add: defined_def)
  have v: "defined (deref (ps_vals st))" if "parse_flags s fs_mgr_flags True None = Inr st" for s st
    using parse_flags_key_loc [OF that] by (auto simp: defined_def)
  have "defined (parse_plain_rec line)"
    unfolding parse_plain_rec_def Let_def
    by (auto split: option.split prod.split intro!: defined_bindE m f v)
  then show ?thesis by (rule definedD)
qed

lemma parse_rec_total: "\<exists>res. parse_rec tw v line = Inr res"
  using parse_plain_rec_total by (simp add: parse_rec_def)

text \<open>A significant line has a first column, so the first error branch is never taken.\<close>

lemma significant_first_column: "significant line \<Longrightarrow> strtok_r delim line \<noteq> None"
proof
  assume s: "significant line" and "strtok_r delim line = None"
  then have "set line \<subseteq> {SPC, TAB}" by (simp add: strtok_r_None delim_def)
  then have "dropWhile isspace line = []" by (auto simp: isspace_def intro!: dropWhile_all)
  with s show False by (simp add: significant_def)
qed

lemma read_recs_defined: "defined (read_recs tw v room ls)"
proof (induction ls arbitrary: v room)
  case Nil
  then show ?case by simp
next
  case (Cons l ls)
  have "defined (parse_rec tw v l)" using parse_rec_total by (simp add: defined_def)
  with Cons.IH show ?case
    by (auto intro!: defined_bindE split: option.split prod.split)
qed

text \<open>A TWRP line leaves the flag values alone and stores them in its record.\<close>

lemma parse_twrp_recD:
  "parse_twrp_rec v line = Some (r, v') \<Longrightarrow>
     v' = v \<and> rec_key_loc r = fv_key_loc v \<and> rec_label r = fv_label v"
  by (auto simp: parse_twrp_rec_def finish_rec_def split: option.splits prod.splits)

lemma read_recs_twrp_vals:
  "read_recs True v room ls = Inr (ok, rs) \<Longrightarrow> x \<in> set rs \<Longrightarrow>
     rec_key_loc x = fv_key_loc v \<and> rec_label x = fv_label v"
proof (induction ls arbitrary: room rs)
  case Nil
  then show ?case by simp
next
  case (Cons l ls)
  show ?case
  proof (cases "significant l \<and> room \<noteq> 0 \<and> parse_twrp_rec v l \<noteq> None")
    case False
    with Cons show ?thesis by (cases "parse_twrp_rec v l") (auto simp: parse_rec_def split: if_splits)
  next
    case True
    then obtain r v' where p: "parse_twrp_rec v l = Some (r, v')" by auto
    with True Cons.prems(1) obtain rs' where
      "read_recs True v' (room - 1) ls = Inr (ok, rs')" "rs = r # rs'"
      by (auto simp: parse_rec_def)
    with Cons.IH [of "room - 1" rs'] Cons.prems(2) parse_twrp_recD [OF p] show ?thesis by auto
  qed
qed

text \<open>One record per significant line, in the order of the lines.\<close>

definition rec_of_line :: "bool \<Rightarrow> string \<Rightarrow> fstab_rec \<Rightarrow> bool" where
  "rec_of_line tw line r \<longleftrightarrow> (\<exists>v v'. parse_rec tw v line = Inr (Some (r, v')))"

lemma read_recs_lines:
  "read_recs tw v room ls = Inr (True, rs) \<Longrightarrow>
   list_all2 (rec_of_line tw) (take room (filter significant ls)) rs"
proof (induction tw v room ls arbitrary: rs rule: read_recs.induct)
  case (1 tw v room)
  then show ?case by simp
next
  case (2 tw v room line ls)
  show ?case
  proof (cases "significant line")
    case False
    with 2 show ?thesis by simp
  next
    case True
    show ?thesis
    proof (cases "room = 0")
      case True
      with 2 \<open>significant line\<close> show ?thesis by simp
    next
      case False
      with True "2.prems" obtain r v' rs' where
        p: "parse_rec tw v line = Inr (Some (r, v'))"
        and m: "read_recs tw v' (room - 1) ls = Inr (True, rs')" and rs: "rs = r # rs'"
        by (auto split: option.splits)
      have "list_all2 (rec_of_line tw) (take (room - 1) (filter significant ls)) rs'"
        using "2.IH"(2) [OF _ _ m] True False by simp
      moreover have "rec_of_line tw line r" using p by (auto simp: rec_of_line_def)
      ultimately show ?thesis using True False rs by (cases room) auto
    qed
  qed
qed

lemma read_recs_room: "read_recs tw v room ls = Inr (True, rs) \<Longrightarrow> length rs \<le> room"
  by (drule read_recs_lines, drule list_all2_lengthD) simp

lemma read_fstab_SomeD:
  assumes "do_fs_mgr_read_fstab os indet path tw w = (Inr (Some f), w')"
  obtains n d rs where "0 < n" and "read_recs tw indet n (getlines d) = Inr (True, rs)"
    and "f = \<lparr>num_entries = n, recs = rs @ replicate (n - length rs) zero_rec,
              fstab_filename = path, twrp = tw\<rparr>"
  using assms
  by (auto simp: do_fs_mgr_read_fstab_def Let_def split_beta split: if_splits option.splits)

lemma read_fstab_shape:
  assumes "do_fs_mgr_read_fstab os indet path tw w = (Inr (Some f), w')"
  shows "0 < num_entries f \<and> length (recs f) = num_entries f \<and> twrp f = tw \<and>
    fstab_filename f = path"
  using assms by (rule read_fstab_SomeD) (auto dest: read_recs_room)

section \<open>Predicates on records\<close>

definition fs_mgr_is_voldmanaged :: "fstab_rec \<Rightarrow> u32" where
  "fs_mgr_is_voldmanaged r = rec_fs_mgr_flags r AND MF_VOLDMANAGED"

definition fs_mgr_is_nonremovable :: "fstab_rec \<Rightarrow> u32" where
  "fs_mgr_is_nonremovable r = rec_fs_mgr_flags r AND MF_NONREMOVABLE"

definition fs_mgr_is_encryptable :: "fstab_rec \<Rightarrow> u32" where
  "fs_mgr_is_encryptable r = rec_fs_mgr_flags r AND MF_CRYPT"

definition fs_mgr_is_noemulatedsd :: "fstab_rec \<Rightarrow> u32" where
  "fs_mgr_is_noemulatedsd r = rec_fs_mgr_flags r AND MF_NOEMULATEDSD"

definition fs_mgr_is_wait :: "fstab_rec \<Rightarrow> u32" where
  "fs_mgr_is_wait r = rec_fs_mgr_flags r AND MF_WAIT"

definition fs_mgr_is_multiboot :: "fstab_rec \<Rightarrow> u32" where
  "fs_mgr_is_multiboot r = rec_fs_mgr_flags r AND MF_MULTIBOOT"

section \<open>Lookups\<close>

text \<open>
  \<open>fs_mgr_get_entry_for_mount_point\<close>: the position of the first record whose mount point
  is the path or a directory above it.
\<close>

definition covers :: "string \<Rightarrow> string \<Rightarrow> bool" where
  "covers mp path =
     (has_prefix path mp \<and>
      (let rest = drop (length mp) path in rest = [] \<or> hd rest = CHR ''/''))"

fun entry_for_mount_point :: "fstab_rec list \<Rightarrow> string \<Rightarrow> ub + fstab_rec option" where
  "entry_for_mount_point [] path = Inr None"
| "entry_for_mount_point (r # rs) path =
     bindE (deref (mount_point r)) (\<lambda>mp.
       if covers mp path then Inr (Some r) else entry_for_mount_point rs path)"

definition fs_mgr_get_entry_for_mount_point ::
  "fstab option \<Rightarrow> string \<Rightarrow> ub + fstab_rec option" where
  "fs_mgr_get_entry_for_mount_point f path =
     (case f of None \<Rightarrow> Inr None | Some f \<Rightarrow> entry_for_mount_point (recs f) path)"

lemma covers_iff: "covers mp path \<longleftrightarrow> (\<exists>rest. path = mp @ rest \<and> (rest = [] \<or> hd rest = CHR ''/''))"
  by (auto simp: covers_def has_prefix_iff Let_def)

lemma entry_for_mount_point_Some:
  "entry_for_mount_point rs path = Inr (Some r) \<Longrightarrow>
   \<exists>xs ys mp. rs = xs @ r # ys \<and> mount_point r = Some mp \<and> covers mp path \<and>
     (\<forall>x\<in>set xs. \<exists>m. mount_point x = Some m \<and> \<not> covers m path)"
proof (induction rs)
  case Nil
  then show ?case by simp
next
  case (Cons a rs)
  then obtain mp where mp: "mount_point a = Some mp" by auto
  show ?case
  proof (cases "covers mp path")
    case True
    with Cons.prems mp have "r = a" by simp
    with mp True show ?thesis
      by (intro exI [of _ "[]"] exI [of _ rs] exI [of _ mp]) simp
  next
    case False
    with Cons mp obtain xs ys m where
      "rs = xs @ r # ys \<and> mount_point r = Some m \<and> covers m path \<and>
       (\<forall>x\<in>set xs. \<exists>m. mount_point x = Some m \<and> \<not> covers m path)" by auto
    with mp False show ?thesis
      by (intro exI [of _ "a # xs"] exI [of _ ys] exI [of _ m]) simp
  qed
qed

lemma entry_for_mount_point_None:
  "entry_for_mount_point rs path = Inr None \<longleftrightarrow>
   (\<forall>x\<in>set rs. \<exists>m. mount_point x = Some m \<and> \<not> covers m path)"
  by (induction rs) auto

lemma entry_for_mount_point_total:
  "\<forall>x\<in>set rs. mount_point x \<noteq> None \<Longrightarrow> defined (entry_for_mount_point rs path)"
  by (induction rs) (auto intro!: defined_bindE)

text \<open>\<open>fs_mgr_add_entry\<close> grows the record array by one record with three fields set.\<close>

definition fs_mgr_add_entry :: "fstab \<Rightarrow> string \<Rightarrow> string \<Rightarrow> string \<Rightarrow> int \<Rightarrow> fstab" where
  "fs_mgr_add_entry f mp ty dev len =
     f\<lparr>recs := recs f @ [zero_rec\<lparr>mount_point := Some mp, fs_type := Some ty,
                                 blk_device := Some dev, part_length := 0\<rparr>],
       num_entries := num_entries f + 1\<rparr>"

section \<open>Properties\<close>

text \<open>A token sets the bit of multiboot when it starts with one of the two names.\<close>

lemma multiboot_bit:
  "bit (flag_bits fs_mgr_flags t) 10 \<longleftrightarrow> has_prefix t ''noemulatedsd'' \<or> has_prefix t ''multiboot''"
proof (cases t)
  case Nil
  then show ?thesis by (simp add: flag_bits_def fs_mgr_flags_def has_prefix_def)
next
  case (Cons c t')
  then show ?thesis
    by (auto simp: flag_bits_def fs_mgr_flags_def has_prefix_def MF_defs)
qed

lemma parse_plain_recD:
  assumes "parse_plain_rec line = Inr (Some (r, v))"
  shows "\<exists>mflags fflags m f. fs_options_unparsed r = Some mflags \<and> fs_mgr_flags_unparsed r = Some fflags \<and>
    parse_flags mflags mount_flags False (Some FS_OPTIONS_LEN) = Inr m \<and> rec_flags r = ps_f m \<and>
    parse_flags fflags fs_mgr_flags True None = Inr f \<and> rec_fs_mgr_flags r = ps_f f"
  using assms
  by (auto simp: parse_plain_rec_def finish_rec_def Let_def split: option.splits prod.splits)

text \<open>A record is a multiboot record exactly when its flags column has a token that starts
  with multiboot or, since the two flags share a bit, with noemulatedsd.\<close>

theorem multiboot_flag:
  assumes "parse_plain_rec line = Inr (Some (r, v))"
  shows "fs_mgr_is_multiboot r \<noteq> 0 \<longleftrightarrow>
    (\<exists>fflags. fs_mgr_flags_unparsed r = Some fflags \<and>
      (\<exists>t\<in>set (strtok_all '','' fflags). has_prefix t ''multiboot'' \<or> has_prefix t ''noemulatedsd''))"
proof -
  obtain fflags f where ff: "fs_mgr_flags_unparsed r = Some fflags"
    and f: "parse_flags fflags fs_mgr_flags True None = Inr f" "rec_fs_mgr_flags r = ps_f f"
    using parse_plain_recD [OF assms] by blast
  have "MF_MULTIBOOT = push_bit 10 1" by (simp add: MF_MULTIBOOT_def)
  then have "fs_mgr_is_multiboot r \<noteq> 0 \<longleftrightarrow> bit (rec_fs_mgr_flags r) 10"
    by (simp only: fs_mgr_is_multiboot_def bit_iff_and_push_bit_not_eq_0)
  also have "\<dots> \<longleftrightarrow> (\<exists>t\<in>set (strtok_all '','' fflags). bit (flag_bits fs_mgr_flags t) 10)"
    using parse_flags_f [OF f(1)] by (simp add: f(2) bit_or_bits)
  finally show ?thesis using ff multiboot_bit by auto
qed

theorem multiboot_flag_witness:
  "\<exists>r v. parse_plain_rec ''/dev/x /data ext4 ro wait,noemulatedsd'' = Inr (Some (r, v)) \<and>
     fs_mgr_is_multiboot r \<noteq> 0"
proof -
  obtain m where m: "parse_flags ''ro'' mount_flags False (Some FS_OPTIONS_LEN) = Inr m"
    using parse_flags_total [of False mount_flags] by blast
  obtain f where f: "parse_flags ''wait,noemulatedsd'' fs_mgr_flags True None = Inr f"
    using parse_flags_total [of True fs_mgr_flags] by blast
  obtain u where "ps_vals f = Some u" using parse_flags_key_loc [OF f] by auto
  with m f obtain r v where
    p: "parse_plain_rec ''/dev/x /data ext4 ro wait,noemulatedsd'' = Inr (Some (r, v))"
       "fs_mgr_flags_unparsed r = Some ''wait,noemulatedsd''"
    by (simp add: parse_plain_rec_def strtok_r_def Let_def delim_def finish_rec_def)
  have "strtok_all '','' ''wait,noemulatedsd'' = [''wait'', ''noemulatedsd'']"
    by (simp add: strtok_r_def strtok_all.simps Let_def)
  then show ?thesis using multiboot_flag [OF p(1)] p by (auto simp: has_prefix_def)
qed

lemma free_fstab_defined:
  assumes "read_recs tw v room ls = Inr (ok, rs)"
    and "tw \<longrightarrow> fv_key_loc v = None \<and> fv_label v = None"
  shows "defined (fs_mgr_free_fstab tw rs)"
  using read_recs_twrp_vals [of v room ls ok rs] assms
  by (cases tw) (auto simp: fs_mgr_free_fstab_def list_ex_iff)



text \<open>C26. When a line of a TWRP fstab cannot be parsed after one that could, the error path frees
  whatever the stack held in two pointers that were never set.\<close>

theorem twrp_error_frees_garbage:
  assumes "0 \<le> rc (os (trail w) (Stream (Fopen path ''r'')))"
    and "\<forall>cs. data (os cs (Stream (Fread (rc (os (trail w) (Stream (Fopen path ''r''))))))) = text"
    and "filter significant (getlines text) = good # bad # ls"
    and "parse_twrp_rec indet good \<noteq> None" and "parse_twrp_rec indet bad = None"
    and "fv_key_loc indet \<noteq> None \<or> fv_label indet \<noteq> None"
  shows "fst (do_fs_mgr_read_fstab os indet path True w) = Inl Invalid_Free"
proof -
  obtain r v where r: "parse_twrp_rec indet good = Some (r, v)" using assms(4) by auto
  have v: "v = indet" "rec_key_loc r = fv_key_loc indet" "rec_label r = fv_label indet"
    using parse_twrp_recD [OF r] by simp_all
  have filt: "read_recs True u room ls = read_recs True u room (filter significant ls)" for u room ls
    by (induction ls arbitrary: u room) (simp_all cong: option.case_cong)
  let ?n = "count_entries (getlines text)"
  have n: "?n = Suc (Suc (length ls))" using assms(3) by (simp add: count_entries_def)
  have sig: "significant good" "significant bad"
    using arg_cong [OF assms(3), of set] by auto
  have "read_recs True indet ?n (getlines text) = Inr (False, [r])"
    unfolding filt [of _ _ "getlines text"] assms(3) n
    using sig r assms(5) v(1) by (simp add: parse_rec_def)
  moreover have "fs_mgr_free_fstab True [r] = Inl Invalid_Free"
    using assms(6) v by (simp add: fs_mgr_free_fstab_def)
  ultimately show ?thesis using assms(1,2) n
    by (simp add: do_fs_mgr_read_fstab_def Let_def split_beta)
qed

theorem twrp_error_frees_garbage_witness:
  "fst (do_fs_mgr_read_fstab (\<lambda>_ _. (ok_reply 3)\<lparr>data := ''/data ext4 /dev/x'' @ NL # ''/cache''\<rparr>)
     (initial_values\<lparr>fv_label := Some ''?''\<rparr>) ''f'' True initial_world) = Inl Invalid_Free"
proof -
  let ?text = "''/data ext4 /dev/x'' @ NL # ''/cache''"
  have "filter significant (getlines ?text) = [''/data ext4 /dev/x'', ''/cache'']"
    by (simp add: getlines.simps cstr_def significant_def isspace_def)
  from twrp_error_frees_garbage [OF _ _ this, of "\<lambda>_ _. (ok_reply 3)\<lparr>data := ?text\<rparr>" initial_world "''f''"
      "initial_values\<lparr>fv_label := Some ''?''\<rparr>"]
  show ?thesis by (simp add: parse_twrp_rec_def strtok_r_def delim_def)
qed


definition one_file_os :: "string \<Rightarrow> os" where
  "one_file_os text cs c =
     (case c of Stream (Fread _) \<Rightarrow> (ok_reply 0)\<lparr>data := text\<rparr> | _ \<Rightarrow> ok_reply 3)"


text \<open>The lookup by mount point returns the first record whose mount point is the path or
  a directory above it.\<close>

theorem lookup_first_covering:
  assumes "\<forall>r\<in>set (recs f). mount_point r \<noteq> None"
  shows "fs_mgr_get_entry_for_mount_point (Some f) path =
      Inr (find (\<lambda>r. \<exists>mp rest. mount_point r = Some mp \<and> path = mp @ rest \<and>
                      (rest = [] \<or> hd rest = CHR ''/'')) (recs f))"
proof -
  have "entry_for_mount_point rs path =
      Inr (find (\<lambda>r. \<exists>mp rest. mount_point r = Some mp \<and> path = mp @ rest \<and>
                      (rest = [] \<or> hd rest = CHR ''/'')) rs)"
    if "\<forall>r\<in>set rs. mount_point r \<noteq> None" for rs
    using that
  proof (induction rs)
    case Nil
    then show ?case by simp
  next
    case (Cons r rs)
    then obtain mp where mp: "mount_point r = Some mp" by auto
    then have "(\<exists>m rest. mount_point r = Some m \<and> path = m @ rest \<and>
        (rest = [] \<or> hd rest = CHR ''/'')) = covers mp path" by (auto simp: covers_iff)
    with Cons mp show ?case by (simp del: ex_simps)
  qed
  with assms show ?thesis by (simp add: fs_mgr_get_entry_for_mount_point_def)
qed

theorem lookup_first_covering_witness:
  "fs_mgr_get_entry_for_mount_point
     (Some \<lparr>num_entries = 1, recs = [zero_rec\<lparr>mount_point := Some ''/data''\<rparr>], fstab_filename = [],
            twrp = False\<rparr>) ''/database'' = Inr None"
  using lookup_first_covering [of "\<lparr>num_entries = 1, recs = [zero_rec\<lparr>mount_point := Some ''/data''\<rparr>],
    fstab_filename = [], twrp = False\<rparr>" "''/database''"]
  by (simp add: zero_rec_def)

end
