(* ===== verification/Exec.thy ===== *)
theory Exec
  imports Os
begin

text \<open>
  The helpers of src/util.c that run a program in a child process: \<open>do_exec\<close> and the
  argument vectors built for the busybox tools, mkfs and e2fsck. Every vector is an array
  \<open>par\<close> of 64 pointers filled from the front and ended by NULL.
\<close>

section \<open>Running a child\<close>

text \<open>
  The child replaces itself with \<open>args\<close>, or exits with 0 when that fails. The parent waits
  for it; \<open>status\<close> keeps its initial 0 when \<open>waitpid\<close> fails.
\<close>

definition do_exec :: "os \<Rightarrow> string list \<Rightarrow> world \<Rightarrow> int \<times> world" where
  "do_exec os args w =
     (let (r, w) = sys os (Proc (Fork_Exec args)) w;
          pid = rc r;
          (r, w) = sys os (Proc (Waitpid pid)) w
      in (if rc r < 0 then 0 else rc r, w))"

lemma do_exec_trail:
  "trail (snd (do_exec os args w)) =
     trail w @ [Proc (Fork_Exec args), Proc (Waitpid (rc (os (trail w) (Proc (Fork_Exec args)))))]"
  by (simp add: do_exec_def Let_def split_beta)

lemma extends_do_exec [simp, intro]: "extends w (snd (do_exec os args w))"
  by (simp add: extends_def do_exec_trail)

section \<open>Argument vectors\<close>

definition PATH_MULTIBOOT_BUSYBOX :: string where
  "PATH_MULTIBOOT_BUSYBOX = ''/multiboot/sbin/busybox''"

text \<open>A NULL among the pointers ends the vector.\<close>

definition argv :: "string option list \<Rightarrow> string list" where
  "argv par = map the (takeWhile (\<lambda>a. a \<noteq> None) par)"

lemma argv_simps [simp]:
  "argv [] = []" "argv (None # par) = []" "argv (Some a # par) = a # argv par"
  by (simp_all add: argv_def)

definition set_loop_args :: "string option \<Rightarrow> string \<Rightarrow> bool \<Rightarrow> string list" where
  "set_loop_args device file ro =
     argv ([Some PATH_MULTIBOOT_BUSYBOX, Some ''losetup''] @ (if ro then [Some ''-r''] else []) @
       [device, Some file])"

definition set_loop :: "os \<Rightarrow> string option \<Rightarrow> string \<Rightarrow> bool \<Rightarrow> world \<Rightarrow> int \<times> world" where
  "set_loop os device file ro w = do_exec os (set_loop_args device file ro) w"

definition util_copy_args :: "string \<Rightarrow> string \<Rightarrow> bool \<Rightarrow> bool \<Rightarrow> string list" where
  "util_copy_args source target recursive force =
     [PATH_MULTIBOOT_BUSYBOX, ''cp''] @ (if recursive then [''-R''] else []) @
     (if force then [''-f''] else []) @ [source, target]"

definition util_copy :: "os \<Rightarrow> string \<Rightarrow> string \<Rightarrow> bool \<Rightarrow> bool \<Rightarrow> world \<Rightarrow> int \<times> world" where
  "util_copy os source target recursive force w =
     do_exec os (util_copy_args source target recursive force) w"

definition util_chmod_args :: "string \<Rightarrow> string \<Rightarrow> bool \<Rightarrow> string list" where
  "util_chmod_args path mode recursive =
     [PATH_MULTIBOOT_BUSYBOX, ''chmod''] @ (if recursive then [''-R''] else []) @ [mode, path]"

definition util_chmod :: "os \<Rightarrow> string \<Rightarrow> string \<Rightarrow> bool \<Rightarrow> world \<Rightarrow> int \<times> world" where
  "util_chmod os path mode recursive w = do_exec os (util_chmod_args path mode recursive) w"

text \<open>The command of \<open>format_path\<close> is printed into a buffer of \<open>PATH_MAX + 30\<close> bytes.\<close>

definition format_path_command :: "string \<Rightarrow> string" where
  "format_path_command path =
     snprintf (PATH_MAX + 30) (PATH_MULTIBOOT_BUSYBOX @ '' rm -Rf '' @ path)"

definition format_path :: "os \<Rightarrow> string \<Rightarrow> world \<Rightarrow> int \<times> world" where
  "format_path os path w =
     do_exec os [PATH_MULTIBOOT_BUSYBOX, ''sh'', ''-c'', format_path_command path] w"

definition make_ext4fs :: "os \<Rightarrow> string option \<Rightarrow> world \<Rightarrow> int \<times> world" where
  "make_ext4fs os path w = do_exec os (argv [Some ''/multiboot/sbin/mkfs.ext4'', path]) w"

definition check_fs_nomount :: "os \<Rightarrow> string option \<Rightarrow> world \<Rightarrow> int \<times> world" where
  "check_fs_nomount os path w =
     do_exec os (argv [Some ''/multiboot/sbin/e2fsck'', Some ''-fy'', path]) w"

definition sed_replace :: "os \<Rightarrow> string \<Rightarrow> string \<Rightarrow> world \<Rightarrow> int \<times> world" where
  "sed_replace os file regex w =
     do_exec os [PATH_MULTIBOOT_BUSYBOX, ''sed'', ''-i'', regex, file] w"

text \<open>
  The literals of the sed commands escape each slash of a path with a backslash.
\<close>

definition sed_escape :: "string \<Rightarrow> string" where
  "sed_escape s = concat (map (\<lambda>c. if c = CHR ''/'' then [CHR 0x5C, c] else [c]) s)"

definition patch_vold :: "os \<Rightarrow> world \<Rightarrow> int \<times> world" where
  "patch_vold os w =
     sed_replace os ''/init.rc''
       (''s/'' @ sed_escape ''/system/bin/vold'' @ ''/'' @
        sed_escape ''/multiboot/sbin/init voldwrapper'' @ ''/g'') w"

lemmas exec_defs = set_loop_def util_copy_def util_chmod_def format_path_def make_ext4fs_def
  check_fs_nomount_def sed_replace_def patch_vold_def

text \<open>
  \<open>get_blknum\<close>: the number of 512 byte sectors. The test on the descriptor is for 0, so a
  failed \<open>open\<close> goes on to an \<open>ioctl\<close> on -1.
\<close>

definition get_blknum :: "os \<Rightarrow> string \<Rightarrow> world \<Rightarrow> nat \<times> world" where
  "get_blknum os path w =
     (let (r, w) = sys os (Fd (Open path O_RDONLY)) w; fd = rc r in
      if fd = 0 then (0, w)
      else
        let (r, w) = sys os (Fd (Ioctl fd ''BLKGETSIZE'')) w in
        if rc r = - 1 then (0, w)
        else let n = nat (rc r); (_, w) = sys os (Fd (Close fd)) w in (n, w))"

definition create_raw_image_args :: "string option \<Rightarrow> string \<Rightarrow> nat \<Rightarrow> string list" where
  "create_raw_image_args source target numblocks =
     [PATH_MULTIBOOT_BUSYBOX, ''dd'',
      (case source of Some s \<Rightarrow> snprintf PATH_MAX (''if='' @ s)
                    | None \<Rightarrow> ''if=/multiboot/dev/zero''),
      snprintf PATH_MAX (''of='' @ target),
      snprintf PATH_MAX (''bs='' @ show_nat 512),
      snprintf PATH_MAX (''count='' @ show_nat numblocks)]"

definition createRawImage ::
  "os \<Rightarrow> string option \<Rightarrow> string \<Rightarrow> nat \<Rightarrow> world \<Rightarrow> int \<times> world" where
  "createRawImage os source target blocks w =
     (let (numblocks, w) = (case source of Some s \<Rightarrow> get_blknum os s w | None \<Rightarrow> (blocks, w))
      in do_exec os (create_raw_image_args source target numblocks) w)"

section \<open>Facts\<close>

text \<open>The vectors with their NULL fit the 64 pointers of \<open>par\<close>.\<close>

lemma args_fit:
  "length (set_loop_args d f ro) < 64" "length (util_copy_args s t re fo) < 64"
  "length (util_chmod_args p m re) < 64" "length (create_raw_image_args so t n) < 64"
  by (cases d) (simp_all add: set_loop_args_def util_copy_args_def util_chmod_args_def
      create_raw_image_args_def)

lemma extends_createRawImage: "extends w (snd (createRawImage os source target blocks w))"
proof -
  have "extends w (snd (get_blknum os s w))" for s
    by (simp add: get_blknum_def Let_def split_beta extends_def)
  then show ?thesis
    by (auto simp: createRawImage_def Let_def split_beta split: option.split
        intro: extends_trans)
qed

text \<open>
  The command keeps the whole path up to 4094 characters. One more still fits a \<open>PATH_MAX\<close>
  buffer, but here its last character is cut off.
\<close>

lemma length_format_prefix: "length (PATH_MULTIBOOT_BUSYBOX @ '' rm -Rf '') = 31"
  by (simp add: PATH_MULTIBOOT_BUSYBOX_def)

lemma format_path_command_id:
  "length path < 4095 \<Longrightarrow> format_path_command path = PATH_MULTIBOOT_BUSYBOX @ '' rm -Rf '' @ path"
  using length_format_prefix by (simp add: format_path_command_def PATH_MAX_def)

lemma format_path_command_cut:
  assumes "length path = 4095"
  shows "format_path_command path = PATH_MULTIBOOT_BUSYBOX @ '' rm -Rf '' @ butlast path"
proof -
  let ?p = "PATH_MULTIBOOT_BUSYBOX @ '' rm -Rf ''"
  have "format_path_command path = take 4125 (?p @ path)"
    by (simp add: format_path_command_def PATH_MAX_def snprintf_def)
  also have "\<dots> = ?p @ take 4094 path"
    by (simp add: PATH_MULTIBOOT_BUSYBOX_def)
  also have "take 4094 path = butlast path" using assms by (simp add: butlast_conv_take)
  finally show ?thesis by simp
qed

text \<open>
  \<open>create_ums_script\<close> writes a shell script that exports \<open>file\<close> as USB mass storage.
\<close>

definition ums_script_lines :: "string \<Rightarrow> string list" where
  "ums_script_lines file =
     [''#!/sbin/sh'' @ [NL],
      ''stop adbd'' @ [NL],
      ''echo 0 > /sys/class/android_usb/android0/enable'' @ [NL],
      ''echo mtp,adb,mass_storage > /sys/class/android_usb/android0/functions'' @ [NL],
      ''echo '',
      file,
      '' > /sys/devices/platform/msm_hsusb/gadget/lun0/file'' @ [NL],
      ''echo 0 > /sys/devices/platform/msm_hsusb/gadget/lun0/cdrom'' @ [NL],
      ''echo 0 > /sys/devices/platform/msm_hsusb/gadget/lun0/ro'' @ [NL],
      ''echo 1 > /sys/class/android_usb/android0/enable'' @ [NL],
      ''start adbd'' @ [NL],
      ''setprop sys.usb.state mtp,adb,mass_storage'' @ [NL],
      ''while true; do sleep 10000; done'' @ [NL]]"

definition create_ums_script :: "os \<Rightarrow> string \<Rightarrow> string \<Rightarrow> world \<Rightarrow> int \<times> world" where
  "create_ums_script os path file w =
     (let (r, w) = sys os (Stream (Fopen path ''w'')) w in
      if rc r < 0 then (- 1, w)
      else
        let f = rc r;
            w = fold (\<lambda>s w. snd (sys os (Stream (Fputs f s)) w)) (ums_script_lines file) w;
            (_, w) = sys os (Stream (Fclose f)) w
        in (0, w))"

lemma fold_fputs_trail:
  "trail (fold (\<lambda>s w. snd (sys os (Stream (Fputs f s)) w)) ls w) =
     trail w @ map (\<lambda>s. Stream (Fputs f s)) ls"
  by (induction ls arbitrary: w) auto

lemma create_ums_script_trail:
  assumes "0 \<le> rc (os (trail w) (Stream (Fopen path ''w'')))"
  shows "trail (snd (create_ums_script os path file w)) =
    (let f = rc (os (trail w) (Stream (Fopen path ''w'')))
     in trail w @ [Stream (Fopen path ''w'')] @
        map (\<lambda>s. Stream (Fputs f s)) (ums_script_lines file) @ [Stream (Fclose f)])"
  using assms
  by (simp add: create_ums_script_def Let_def split_beta fold_fputs_trail del: ums_script_lines_def)

text \<open>The command that empties a directory holds its path up to 4094 characters; the last
  character of a path of the greatest length is cut off.\<close>

lemma format_path_cut:
  assumes "length path < PATH_MAX"
  shows "format_path_command path = PATH_MULTIBOOT_BUSYBOX @ '' rm -Rf '' @ take 4094 path"
proof (cases "length path = 4095")
  case True
  then show ?thesis by (simp add: format_path_command_cut butlast_conv_take)
next
  case False
  with assms show ?thesis by (simp add: format_path_command_id PATH_MAX_def)
qed

end
