(* ===== verification/FsMount.thy ===== *)
theory FsMount
  imports Fstab Exec
begin

text \<open>
  Mounting by fstab entry, lib/fs_mgr/fs_mgr.c: waiting for a device, checking its
  filesystem, comparing mount points, \<open>fs_mgr_do_mount\<close> and \<open>fs_mgr_get_crypt_info\<close>.
\<close>

section \<open>Waiting\<close>

definition gettime :: "os \<Rightarrow> world \<Rightarrow> int \<times> world" where
  "gettime os w =
     (let (r, w) = sys os (Proc Clock_Gettime) w in (if rc r < 0 then 0 else rc r, w))"

text \<open>
  The loop of \<open>wait_for_file\<close>. Nothing but the clock bounds it, so it takes fuel; the
  result is \<open>None\<close> when the fuel is used up.
\<close>

fun wait_loop :: "nat \<Rightarrow> os \<Rightarrow> string \<Rightarrow> int \<Rightarrow> int \<Rightarrow> world \<Rightarrow> int option \<times> world" where
  "wait_loop 0 os filename timeout_time ret w = (None, w)"
| "wait_loop (Suc n) os filename timeout_time ret w =
     (let (t, w) = gettime os w in
      if \<not> t < timeout_time then (Some ret, w)
      else
        let (r, w) = sys os (Path (Stat filename)) w; ret = rc r in
        if \<not> ret < 0 then (Some ret, w)
        else let (_, w) = sys os (Proc (Usleep 10000)) w
             in wait_loop n os filename timeout_time ret w)"

definition wait_for_file :: "nat \<Rightarrow> os \<Rightarrow> string \<Rightarrow> int \<Rightarrow> world \<Rightarrow> int option \<times> world" where
  "wait_for_file fuel os filename timeout w =
     (let (t, w) = gettime os w in wait_loop fuel os filename (t + timeout) (- 1) w)"

text \<open>
  A clock that runs: between two readings it advances at least by the time slept, ten
  milliseconds a call.
\<close>

definition sleeps :: "call list \<Rightarrow> nat" where
  "sleeps cs = length (filter (\<lambda>c. c = Proc (Usleep 10000)) cs)"

definition clock_runs :: "os \<Rightarrow> bool" where
  "clock_runs os \<longleftrightarrow>
     (\<forall>cs ds. 0 \<le> rc (os cs (Proc Clock_Gettime)) \<and>
       rc (os cs (Proc Clock_Gettime)) + int (sleeps ds) div 100
         \<le> rc (os (cs @ ds) (Proc Clock_Gettime)))"

lemma sleeps_simps [simp]:
  "sleeps [] = 0" "sleeps (xs @ ys) = sleeps xs + sleeps ys"
  "sleeps [Proc (Usleep 10000)] = 1" "c \<noteq> Proc (Usleep 10000) \<Longrightarrow> sleeps (c # cs) = sleeps cs"
  "sleeps (Proc (Usleep 10000) # cs) = Suc (sleeps cs)"
  by (simp_all add: sleeps_def)

lemma clock_reading:
  assumes "clock_runs os" and "limit \<le> rc (os base (Proc Clock_Gettime)) + timeout"
    and "0 \<le> timeout" and "100 * nat timeout \<le> sleeps ds"
  shows "limit \<le> rc (os (base @ ds) (Proc Clock_Gettime))"
proof -
  have "timeout \<le> int (sleeps ds) div 100" using assms(3,4) by linarith
  moreover have "rc (os base (Proc Clock_Gettime)) + int (sleeps ds) div 100
      \<le> rc (os (base @ ds) (Proc Clock_Gettime))"
    using assms(1) unfolding clock_runs_def by blast
  ultimately show ?thesis using assms(2) by linarith
qed

lemma wait_loop_returns:
  assumes clock: "clock_runs os"
    and limit: "limit \<le> rc (os base (Proc Clock_Gettime)) + timeout" "0 \<le> timeout"
    and "trail w = base @ ds" and "0 < fuel" and "100 * nat timeout < fuel + sleeps ds"
  shows "\<exists>ret. fst (wait_loop fuel os filename limit r0 w) = Some ret"
  using assms(4-6)
proof (induction fuel arbitrary: w r0 ds)
  case 0
  then show ?case by simp
next
  case (Suc n)
  let ?t = "rc (os (base @ ds) (Proc Clock_Gettime))"
  have nonneg: "0 \<le> ?t" using clock unfolding clock_runs_def by blast
  show ?case
  proof (cases "limit \<le> ?t")
    case True
    with Suc.prems nonneg show ?thesis by (simp add: gettime_def Let_def split_beta)
  next
    case False
    with clock_reading [OF clock limit] have "sleeps ds < 100 * nat timeout"
      by (meson not_le)
    with Suc.prems have n: "0 < n" "100 * nat timeout < n + (sleeps ds + 1)" by auto
    let ?w1 = "snd (sys os (Proc Clock_Gettime) w)"
    let ?w2 = "snd (sys os (Path (Stat filename)) ?w1)"
    let ?w3 = "snd (sys os (Proc (Usleep 10000)) ?w2)"
    let ?ds = "ds @ [Proc Clock_Gettime, Path (Stat filename), Proc (Usleep 10000)]"
    have "trail ?w3 = base @ ?ds" "sleeps ?ds = sleeps ds + 1" using Suc.prems(1) by simp_all
    with n have "\<exists>ret. fst (wait_loop n os filename limit r ?w3) = Some ret" for r
      using Suc.IH [of ?w3 ?ds r] by simp
    with False Suc.prems(1) nonneg show ?thesis
      by (simp add: gettime_def Let_def split_beta)
  qed
qed

lemma wait_for_file_returns:
  assumes "clock_runs os" and "0 \<le> timeout" and "100 * nat timeout < fuel"
  shows "\<exists>ret. fst (wait_for_file fuel os filename timeout w) = Some ret"
proof -
  have "0 \<le> rc (os (trail w) (Proc Clock_Gettime))"
    using assms(1) unfolding clock_runs_def by blast
  then show ?thesis
    using assms wait_loop_returns [of os _ "trail w" timeout
        "snd (sys os (Proc Clock_Gettime) w)" "[Proc Clock_Gettime]" fuel filename]
    by (simp add: wait_for_file_def gettime_def Let_def split_beta)
qed

section \<open>Checking a filesystem\<close>

definition E2FSCK_BIN :: string where "E2FSCK_BIN = ''/multiboot/e2fsck''"

definition is_ext :: "string \<Rightarrow> bool" where
  "is_ext t \<longleftrightarrow> t = ''ext2'' \<or> t = ''ext3'' \<or> t = ''ext4''"

definition check_fs :: "os \<Rightarrow> string \<Rightarrow> string \<Rightarrow> string \<Rightarrow> world \<Rightarrow> world" where
  "check_fs os blk ty target w =
     (if is_ext ty then
        let (r, w) = sys os (Path (Mount (Some blk) target (Some ty)
                       (MS_NOATIME OR MS_NOEXEC OR MS_NOSUID)
                       (Some ''nomblk_io_submit,errors=remount-ro''))) w;
            w = (if rc r = 0 then snd (sys os (Path (Umount target)) w) else w)
        in snd (do_exec os [E2FSCK_BIN, ''-y'', blk] w)
      else w)"

lemma extends_check_fs: "extends w (check_fs os blk ty target w)"
  by (auto simp: check_fs_def Let_def split_beta extends_def do_exec_trail)

section \<open>Comparing mount points\<close>

text \<open>The loop of \<open>remove_trailing_slashes\<close>; on the empty string it reads before the buffer.\<close>

function strip_slashes :: "string \<Rightarrow> string" where
  "strip_slashes n =
     (if 1 < length n \<and> last n = CHR ''/'' then strip_slashes (butlast n) else n)"
  by pat_completeness auto
termination by (relation "measure length") auto

declare strip_slashes.simps [simp del]

definition remove_trailing_slashes :: "string \<Rightarrow> ub + string" where
  "remove_trailing_slashes n = (if n = [] then Inl Out_Of_Bounds else Inr (strip_slashes n))"

definition fs_match :: "string option \<Rightarrow> string option \<Rightarrow> ub + bool" where
  "fs_match in1 in2 =
     bindE (deref in1) (\<lambda>s1. bindE (deref in2) (\<lambda>s2.
     bindE (remove_trailing_slashes s1) (\<lambda>n1. bindE (remove_trailing_slashes s2) (\<lambda>n2.
       Inr (n1 = n2)))))"

lemma strip_slashes_short: "length n \<le> 1 \<Longrightarrow> strip_slashes n = n"
  by (simp add: strip_slashes.simps [of n])

lemma strip_slashes_snoc: "n \<noteq> [] \<Longrightarrow> strip_slashes (n @ ''/'') = strip_slashes n"
  by (simp add: strip_slashes.simps [of "n @ ''/''"])

lemma strip_slashes_stable: "last n \<noteq> CHR ''/'' \<Longrightarrow> strip_slashes n = n"
  by (simp add: strip_slashes.simps [of n])

lemma strip_slashes_append: "n \<noteq> [] \<Longrightarrow> strip_slashes (n @ replicate k (CHR ''/'')) = strip_slashes n"
proof (induction k)
  case 0
  then show ?case by simp
next
  case (Suc k)
  then show ?case
    using strip_slashes_snoc [of "n @ replicate k (CHR ''/'')"]
    by (simp add: replicate_append_same)
qed

lemma strip_slashes_spec:
  "n \<noteq> [] \<Longrightarrow> \<exists>k. n = strip_slashes n @ replicate k (CHR ''/'') \<and> strip_slashes n \<noteq> [] \<and>
     (length (strip_slashes n) = 1 \<or> last (strip_slashes n) \<noteq> CHR ''/'')"
proof (induction n rule: strip_slashes.induct)
  case (1 n)
  show ?case
  proof (cases "1 < length n \<and> last n = CHR ''/''")
    case True
    then have b: "butlast n \<noteq> []" by (cases n) auto
    with 1 True obtain k where
      k: "butlast n = strip_slashes (butlast n) @ replicate k (CHR ''/'')"
         "strip_slashes (butlast n) \<noteq> []"
         "length (strip_slashes (butlast n)) = 1 \<or> last (strip_slashes (butlast n)) \<noteq> CHR ''/''"
      by blast
    have "n = butlast n @ [CHR ''/'']" using True 1 by (metis append_butlast_last_id)
    also have "\<dots> = strip_slashes (butlast n) @ replicate (Suc k) (CHR ''/'')"
      using k(1) by (metis append.assoc replicate_append_same replicate_Suc)
    finally have n: "n = strip_slashes (butlast n) @ replicate (Suc k) (CHR ''/'')" .
    have "strip_slashes n = strip_slashes (butlast n)"
      using True by (simp add: strip_slashes.simps [of n])
    with n k(2,3) show ?thesis by metis
  next
    case False
    then have "strip_slashes n = n" by (subst strip_slashes.simps) (simp only: if_False)
    moreover have "length n = 1 \<or> last n \<noteq> CHR ''/''" using False "1.prems" by (cases n) auto
    ultimately show ?thesis using "1.prems" by (intro exI [of _ 0]) simp
  qed
qed

section \<open>Mounting\<close>

definition fs_set_blk_ro :: "os \<Rightarrow> string \<Rightarrow> world \<Rightarrow> world" where
  "fs_set_blk_ro os blockdev w =
     (let (r, w) = sys os (Fd (Open blockdev O_RDONLY)) w in
      if rc r < 0 then w
      else let (_, w) = sys os (Fd (Ioctl (rc r) ''BLKROSET'')) w
           in snd (sys os (Fd (Close (rc r))) w))"

definition mount_wrapper ::
  "os \<Rightarrow> string \<Rightarrow> string \<Rightarrow> string option \<Rightarrow> u32 \<Rightarrow> string option \<Rightarrow> world \<Rightarrow> int \<times> world" where
  "mount_wrapper os source target ty mountflags opts w =
     (let (r, w) = sys os (Path (Mount (Some source) target ty mountflags opts)) w
      in (rc r, if rc r = 0 \<and> mountflags AND MS_RDONLY \<noteq> 0 then fs_set_blk_ro os source w else w))"

text \<open>
  \<open>fs_mgr_do_mount\<close> works on the first record whose mount point matches. Without a match it
  prints the mount point of \<open>recs[num_entries]\<close>, outside the array. The outer \<open>None\<close> is
  the wait that does not end within the fuel.
\<close>

fun do_mount_loop ::
  "nat \<Rightarrow> os \<Rightarrow> fstab_rec list \<Rightarrow> string \<Rightarrow> string \<Rightarrow> string option \<Rightarrow> world \<Rightarrow>
   (ub + int) option \<times> world" where
  "do_mount_loop fuel os [] n_name n_blk tmp w = (Some (Inl Out_Of_Bounds), w)"
| "do_mount_loop fuel os (r # rs) n_name n_blk tmp w =
     (case fs_match (mount_point r) (Some n_name) of
        Inl e \<Rightarrow> (Some (Inl e), w)
      | Inr False \<Rightarrow> do_mount_loop fuel os rs n_name n_blk tmp w
      | Inr True \<Rightarrow>
         (case (fs_type r, mount_point r) of
            (Some ty, Some mp) \<Rightarrow>
              if ty = ''swap'' \<or> ty = ''emmc'' \<or> ty = ''mtd'' then (Some (Inr (- 1)), w)
              else
                let (waited, w) =
                      (if rec_fs_mgr_flags r AND MF_WAIT \<noteq> 0
                       then wait_for_file fuel os n_blk 20 w else (Some 0, w)) in
                (case waited of
                   None \<Rightarrow> (None, w)
                 | Some _ \<Rightarrow>
                     let w = (if rec_fs_mgr_flags r AND MF_CHECK \<noteq> 0
                              then check_fs os n_blk ty mp w else w);
                         m = (case tmp of Some t \<Rightarrow> t | None \<Rightarrow> mp);
                         (ret, w) = mount_wrapper os n_blk m (Some ty) (rec_flags r) (fs_options r) w
                     in (Some (Inr (if ret \<noteq> 0 then - 1 else 0)), w))
          | _ \<Rightarrow> (Some (Inl Null_Deref), w)))"

definition fs_mgr_do_mount ::
  "nat \<Rightarrow> os \<Rightarrow> fstab option \<Rightarrow> string \<Rightarrow> string \<Rightarrow> string option \<Rightarrow> world \<Rightarrow>
   (ub + int) option \<times> world" where
  "fs_mgr_do_mount fuel os f n_name n_blk tmp w =
     (case f of None \<Rightarrow> (Some (Inr (- 1)), w)
      | Some f \<Rightarrow> do_mount_loop fuel os (recs f) n_name n_blk tmp w)"

lemma do_mount_no_match:
  "\<forall>r\<in>set rs. fs_match (mount_point r) (Some n_name) = Inr False \<Longrightarrow>
   do_mount_loop fuel os rs n_name n_blk tmp w = (Some (Inl Out_Of_Bounds), w)"
  by (induction rs) auto

lemma do_mount_skip:
  "\<forall>r\<in>set xs. fs_match (mount_point r) (Some n_name) = Inr False \<Longrightarrow>
   do_mount_loop fuel os (xs @ rs) n_name n_blk tmp w = do_mount_loop fuel os rs n_name n_blk tmp w"
  by (induction xs) auto

text \<open>
  \<open>fs_mgr_get_crypt_info\<close>: the key location and the device of the first encryptable record
  that vold does not manage. The two buffers hold the empty string when there is none.
\<close>

fun crypt_loop :: "fstab_rec list \<Rightarrow> bool \<Rightarrow> bool \<Rightarrow> u32 \<Rightarrow> ub + string \<times> string" where
  "crypt_loop [] want_key want_dev n = Inr ([], [])"
| "crypt_loop (r # rs) want_key want_dev n =
     (if rec_fs_mgr_flags r AND MF_VOLDMANAGED \<noteq> 0 then crypt_loop rs want_key want_dev n
      else if rec_fs_mgr_flags r AND MF_CRYPT = 0 then crypt_loop rs want_key want_dev n
      else
        bindE (if want_key then bindE (deref (rec_key_loc r)) (\<lambda>k. Inr (fst (strlcpy k n)))
               else Inr []) (\<lambda>key.
        bindE (if want_dev then bindE (deref (blk_device r)) (\<lambda>d. Inr (fst (strlcpy d n)))
               else Inr []) (\<lambda>dev. Inr (key, dev))))"

definition fs_mgr_get_crypt_info ::
  "fstab option \<Rightarrow> bool \<Rightarrow> bool \<Rightarrow> u32 \<Rightarrow> ub + int \<times> string \<times> string" where
  "fs_mgr_get_crypt_info f want_key want_dev n =
     (case f of None \<Rightarrow> Inr (- 1, [], [])
      | Some f \<Rightarrow> bindE (crypt_loop (recs f) want_key want_dev n) (\<lambda>b. Inr (0, b)))"

lemma crypt_loop_bound:
  "crypt_loop rs wk wd n = Inr (k, d) \<Longrightarrow> n \<noteq> 0 \<Longrightarrow> length k < unat n \<and> length d < unat n"
proof (induction rs)
  case Nil
  then show ?case by (simp add: word_neq_0_conv word_less_nat_alt)
next
  case (Cons r rs)
  have z: "0 < unat n" using Cons.prems(2) by (simp add: word_neq_0_conv word_less_nat_alt)
  from Cons show ?case
    by (auto simp: strlcpy_bound z split: if_splits)
qed

section \<open>Properties\<close>

text \<open>Two paths match exactly when they are the same up to trailing slashes.\<close>

theorem fs_match_iff:
  assumes "n1 \<noteq> []" and "n2 \<noteq> []"
  shows "fs_match (Some n1) (Some n2) =
    Inr (\<exists>n j k. n \<noteq> [] \<and> n1 = n @ replicate j (CHR ''/'') \<and> n2 = n @ replicate k (CHR ''/''))"
proof -
  have "strip_slashes n1 = strip_slashes n2 \<longleftrightarrow>
      (\<exists>n j k. n \<noteq> [] \<and> n1 = n @ replicate j (CHR ''/'') \<and> n2 = n @ replicate k (CHR ''/''))"
    using strip_slashes_spec [OF assms(1)] strip_slashes_spec [OF assms(2)] strip_slashes_append
    by metis
  with assms show ?thesis by (simp add: fs_match_def remove_trailing_slashes_def)
qed

theorem fs_match_iff_witness: "fs_match (Some ''/data'') (Some ''/data//'') = Inr True"
proof -
  have "\<exists>n j k. n \<noteq> [] \<and> ''/data'' = n @ replicate j (CHR ''/'') \<and>
      ''/data//'' = n @ replicate k (CHR ''/'')"
    by (intro exI [of _ "''/data''"] exI [of _ 0] exI [of _ 2]) (simp add: numeral_2_eq_2)
  then show ?thesis by (subst fs_match_iff) simp_all
qed

text \<open>When no record matches, \<open>fs_mgr_do_mount\<close> makes no call and then reads the record
  after the last one.\<close>

theorem do_mount_unmatched:
  assumes "\<forall>r\<in>set (recs f). fs_match (mount_point r) (Some n_name) = Inr False"
  shows "fs_mgr_do_mount fuel os (Some f) n_name blk tmp w = (Some (Inl Out_Of_Bounds), w)"
  using assms by (simp add: fs_mgr_do_mount_def do_mount_no_match)

theorem do_mount_unmatched_witness:
  "fs_mgr_do_mount 0 (\<lambda>_ _. ok_reply 0)
     (Some \<lparr>num_entries = 1, recs = [zero_rec\<lparr>mount_point := Some ''/a''\<rparr>], fstab_filename = [],
            twrp = False\<rparr>) ''/b'' [] None initial_world = (Some (Inl Out_Of_Bounds), initial_world)"
  by (rule do_mount_unmatched)
     (simp add: zero_rec_def fs_match_def remove_trailing_slashes_def strip_slashes_stable)

text \<open>Waiting for a file ends within its timeout's number of polls when the clock runs:
  a hundred polls of ten milliseconds for each second.\<close>

theorem wait_for_file_ends:
  assumes "clock_runs os" and "0 \<le> timeout" and "100 * nat timeout < fuel"
  shows "\<exists>ret. fst (wait_for_file fuel os filename timeout w) = Some ret"
  using assms by (rule wait_for_file_returns)

definition ticking_os :: os where
  "ticking_os cs c = (if c = Proc Clock_Gettime then ok_reply (int (sleeps cs) div 100) else err_reply 2)"

lemma ticking_os_runs: "clock_runs ticking_os"
  unfolding clock_runs_def
proof (intro allI conjI)
  fix cs ds
  show "0 \<le> rc (ticking_os cs (Proc Clock_Gettime))" by (simp add: ticking_os_def)
  show "rc (ticking_os cs (Proc Clock_Gettime)) + int (sleeps ds) div 100
      \<le> rc (ticking_os (cs @ ds) (Proc Clock_Gettime))"
    by (simp add: ticking_os_def)
qed

theorem wait_for_file_ends_witness:
  "\<exists>ret. fst (wait_for_file 2001 ticking_os ''/dev/block/x'' 20 initial_world) = Some ret"
  by (rule wait_for_file_ends [OF ticking_os_runs]) simp_all

text \<open>The key location and the device that are returned fit the caller's buffers.\<close>

theorem crypt_info_bound:
  assumes "n \<noteq> 0" and "fs_mgr_get_crypt_info f want_key want_dev n = Inr (v, key, dev)"
  shows "length key < unat n \<and> length dev < unat n"
  using assms
  by (cases f) (auto simp: fs_mgr_get_crypt_info_def word_neq_0_conv word_less_nat_alt dest: crypt_loop_bound)

theorem crypt_info_bound_witness:
  "\<exists>v key dev. fs_mgr_get_crypt_info
     (Some \<lparr>num_entries = 1, recs = [zero_rec\<lparr>blk_device := Some ''/dev/block/mmcblk0p14'',
        rec_fs_mgr_flags := MF_CRYPT, rec_key_loc := Some ''footer''\<rparr>], fstab_filename = [],
        twrp = False\<rparr>) True True 8 = Inr (v, key, dev) \<and> length dev < 8"
proof -
  obtain v key dev where c: "fs_mgr_get_crypt_info
     (Some \<lparr>num_entries = 1, recs = [zero_rec\<lparr>blk_device := Some ''/dev/block/mmcblk0p14'',
        rec_fs_mgr_flags := MF_CRYPT, rec_key_loc := Some ''footer''\<rparr>], fstab_filename = [],
        twrp = False\<rparr>) True True 8 = Inr (v, key, dev)"
    by (simp add: fs_mgr_get_crypt_info_def MF_defs zero_rec_def)
  from crypt_info_bound [OF _ c] have "length dev < unat (8 :: u32)" by simp
  with c show ?thesis by auto
qed

end
