(* ===== verification/UtilPath.thy ===== *)
theory UtilPath
  imports FsMount
begin

text \<open>
  The helpers of src/util.c that work on paths and on a traced process: \<open>mkpath\<close>,
  \<open>util_mount\<close>, \<open>make_loop\<close>, \<open>get_fstype\<close>, \<open>get_process_name_by_pid\<close> and the three
  functions that move a path argument between the tracer and its child.
\<close>

section \<open>Names of processes\<close>

text \<open>
  The buffer of 1024 bytes first holds the name of the proc file, and the bytes read from
  that file replace its front. The result is the whole buffer.
\<close>

definition pid_file :: "int \<Rightarrow> string" where
  "pid_file pid = snprintf 1024 (''/proc/'' @ show_int pid @ ''/cmdline'')"

definition overwrite :: "string \<Rightarrow> string \<Rightarrow> string" where
  "overwrite buf bytes = bytes @ drop (length bytes) buf"

definition get_process_name_by_pid :: "os \<Rightarrow> int \<Rightarrow> world \<Rightarrow> string \<times> world" where
  "get_process_name_by_pid os pid w =
     (let file = pid_file pid;
          name = file @ replicate (1024 - length file) NUL;
          (r, w) = sys os (Stream (Fopen file ''r'')) w in
      if rc r < 0 then (name, w)
      else
        let f = rc r;
            (r, w) = sys os (Stream (Fread f)) w;
            bytes = take 1024 (data r);
            size = length bytes;
            name = overwrite name bytes;
            name = (if 0 < size \<and> name ! (size - 1) = NL then name[size - 1 := NUL] else name);
            (_, w) = sys os (Stream (Fclose f)) w
        in (name, w))"

lemma overwrite_length: "length bytes \<le> length buf \<Longrightarrow> length (overwrite buf bytes) = length buf"
  by (simp add: overwrite_def)

lemma process_name_length: "length (fst (get_process_name_by_pid os pid w)) = 1024"
proof -
  have "length (pid_file pid) < 1024" unfolding pid_file_def by (rule snprintf_length) simp
  then show ?thesis
    by (simp add: get_process_name_by_pid_def Let_def split_beta overwrite_length)
qed

section \<open>Directories\<close>

text \<open>
  \<open>dirname\<close>: trailing slashes, the last component and the slashes before it are removed.
  The C library of Android has a buffer of \<open>MAXPATHLEN\<close> bytes for the result and returns
  NULL with \<open>ENAMETOOLONG\<close> when it does not fit.
\<close>

definition is_slash :: "char \<Rightarrow> bool" where
  "is_slash c \<longleftrightarrow> c = CHR ''/''"

definition dir_part :: "string \<Rightarrow> string" where
  "dir_part s =
     (let base = dropWhile is_slash (rev s);
          d = dropWhile (\<lambda>c. \<not> is_slash c) base;
          e = dropWhile is_slash d
      in if s = [] then ''.''
         else if base = [] then ''/''
         else if d = [] then ''.''
         else if e = [] then ''/''
         else rev e)"

definition dirname :: "string \<Rightarrow> string option" where
  "dirname s = (if length (dir_part s) > PATH_MAX then None else Some (dir_part s))"

definition ENAMETOOLONG :: int where "ENAMETOOLONG = 36"

definition path_rank :: "string \<Rightarrow> nat" where
  "path_rank s = (if s = ''.'' \<or> s = ''/'' then 0 else Suc (length s))"

lemma length_dropWhile_run: "xs \<noteq> [] \<Longrightarrow> P (hd xs) \<Longrightarrow> Suc (length (dropWhile P xs)) \<le> length xs"
  using length_dropWhile_less [of xs P] by simp

lemma dir_part_rank:
  assumes "s \<noteq> ''.''" and "s \<noteq> ''/''"
  shows "path_rank (dir_part s) < path_rank s"
proof -
  let ?base = "dropWhile is_slash (rev s)"
  let ?d = "dropWhile (\<lambda>c. \<not> is_slash c) ?base"
  let ?e = "dropWhile is_slash ?d"
  have r: "path_rank s = Suc (length s)" using assms by (simp add: path_rank_def)
  show ?thesis
  proof (cases "s = [] \<or> ?base = [] \<or> ?d = [] \<or> ?e = []")
    case True
    then have "dir_part s = ''.'' \<or> dir_part s = ''/''"
      by (auto simp only: dir_part_def Let_def if_True if_False split: if_splits)
    then show ?thesis unfolding r by (auto simp: path_rank_def)
  next
    case False
    then have "dir_part s = rev ?e"
      by (simp only: dir_part_def Let_def de_Morgan_disj if_False simp_thms)
    moreover have "is_slash (hd ?d)" using False hd_dropWhile [of "\<lambda>c. \<not> is_slash c" ?base] by blast
    then have "length ?e < length ?d" using False by (intro length_dropWhile_less) auto
    moreover have "length ?d \<le> length s"
      by (metis length_dropWhile_le length_rev order_trans)
    ultimately show ?thesis unfolding r by (auto simp: path_rank_def)
  qed
qed

text \<open>\<open>mkpath\<close>: the parent first, then the directory; one that exists already is no error.\<close>

function mkpath :: "os \<Rightarrow> u32 \<Rightarrow> string \<Rightarrow> world \<Rightarrow> int \<times> world" where
  "mkpath os mode s w =
     (if s = ''.'' \<or> s = ''/'' then (0, w)
      else
        (case dirname s of
           None \<Rightarrow> (- 1, w\<lparr>errno := ENAMETOOLONG\<rparr>)
         | Some up \<Rightarrow>
             let (rv, w) = mkpath os mode up w in
             if rv = - 1 \<and> errno w \<noteq> EEXIST then (- 1, w)
             else
               let (r, w) = sys os (Path (Mkdir s mode)) w
               in (if rc r = - 1 \<and> errno w \<noteq> EEXIST then - 1 else 0, w)))"
  by pat_completeness auto
termination
  by (relation "measure (\<lambda>(_, _, s, _). path_rank s)")
     (auto simp: dirname_def dir_part_rank split: if_splits)

declare mkpath.simps [simp del]

text \<open>The directories above a path, from the root down, and the loop over them.\<close>

function ancestors :: "string \<Rightarrow> string list" where
  "ancestors s =
     (if s = ''.'' \<or> s = ''/'' then [] else ancestors (dir_part s) @ [s])"
  by pat_completeness auto
termination
  by (relation "measure path_rank") (auto simp: dir_part_rank)

declare ancestors.simps [simp del]

fun make_dirs :: "os \<Rightarrow> u32 \<Rightarrow> string list \<Rightarrow> world \<Rightarrow> int \<times> world" where
  "make_dirs os mode [] w = (0, w)"
| "make_dirs os mode (d # ds) w =
     (let (r, w) = sys os (Path (Mkdir d mode)) w in
      if rc r = - 1 \<and> errno w \<noteq> EEXIST then (- 1, w) else make_dirs os mode ds w)"

lemma make_dirs_append:
  "make_dirs os mode (ds @ es) w =
     (let (rv, w) = make_dirs os mode ds w in
      if rv = - 1 then (- 1, w) else make_dirs os mode es w)"
  by (induction ds arbitrary: w) (auto simp: Let_def split_beta)

lemma make_dirs_rv: "fst (make_dirs os mode ds w) = 0 \<or>
    fst (make_dirs os mode ds w) = - 1 \<and> errno (snd (make_dirs os mode ds w)) \<noteq> EEXIST"
  by (induction ds arbitrary: w) (auto simp: Let_def split_beta)

lemma length_dir_part: "length (dir_part s) \<le> max 1 (length s)"
proof (cases "s = ''.'' \<or> s = ''/''")
  case True
  then show ?thesis by (auto simp: dir_part_def is_slash_def)
next
  case False
  then have "path_rank (dir_part s) < Suc (length s)" using dir_part_rank [of s] by (simp add: path_rank_def)
  then show ?thesis by (auto simp: path_rank_def split: if_splits)
qed

lemma mkpath_make_dirs:
  "length s \<le> PATH_MAX \<Longrightarrow> mkpath os mode s w = make_dirs os mode (ancestors s) w"
proof (induction s arbitrary: w rule: ancestors.induct)
  case (1 s)
  show ?case
  proof (cases "s = ''.'' \<or> s = ''/''")
    case True
    then show ?thesis by (simp add: mkpath.simps [of os mode s w] ancestors.simps [of s])
  next
    case False
    have short: "length (dir_part s) \<le> PATH_MAX"
      using length_dir_part [of s] 1(2) by (simp add: PATH_MAX_def)
    then have d: "dirname s = Some (dir_part s)" by (simp add: dirname_def)
    have IH: "mkpath os mode (dir_part s) w = make_dirs os mode (ancestors (dir_part s)) w" for w
      using 1(1) False short by simp
    obtain rv w' where rv: "make_dirs os mode (ancestors (dir_part s)) w = (rv, w')" by force
    have "rv = 0 \<or> rv = - 1 \<and> errno w' \<noteq> EEXIST"
      using make_dirs_rv [of os mode "ancestors (dir_part s)" w] by (simp add: rv)
    with False d IH rv show ?thesis
      by (auto simp: mkpath.simps [of os mode s w] ancestors.simps [of s] make_dirs_append
          Let_def split_beta)
  qed
qed

section \<open>Mounting\<close>

text \<open>
  The type that libblkid's probe finds. The string belongs to the probe, which is freed
  before the string is returned: what a reader finds is what that memory holds after the
  free, the \<open>data\<close> of the answer to \<open>Blkid_Free\<close>.
\<close>

definition get_fstype :: "os \<Rightarrow> string \<Rightarrow> world \<Rightarrow> string option \<times> world" where
  "get_fstype os device w =
     (let (r, w) = sys os (Blkid_Fullprobe device) w in
      if rc r \<noteq> 0 then let (_, w) = sys os Blkid_Free w in (None, w)
      else
        let (r, w) = sys os (Blkid_Lookup ''TYPE'') w in
        if rc r < 0 then let (_, w) = sys os Blkid_Free w in (None, w)
        else let (r, w) = sys os Blkid_Free w in (Some (cstr (data r)), w))"

text \<open>The freed memory still holds the type: what the callers of \<open>get_fstype\<close> rely on.\<close>

definition free_keeps_data :: "os \<Rightarrow> bool" where
  "free_keeps_data os \<longleftrightarrow>
     (\<forall>cs. data (os (cs @ [Blkid_Lookup ''TYPE'']) Blkid_Free) = data (os cs (Blkid_Lookup ''TYPE'')))"

definition fstype_or_ext4 :: "string option \<Rightarrow> string" where
  "fstype_or_ext4 t = (case t of Some t \<Rightarrow> t | None \<Rightarrow> ''ext4'')"

text \<open>
  \<open>util_mount\<close> of a source that is not NULL, as in every call. The type is looked up when
  none is given and the mount is no bind mount; the filesystem is checked unless it is one.
\<close>

definition util_mount ::
  "os \<Rightarrow> string \<Rightarrow> string \<Rightarrow> string option \<Rightarrow> u32 \<Rightarrow> string option \<Rightarrow> world \<Rightarrow> int \<times> world" where
  "util_mount os source target ty mountflags opts w =
     (let (rv, w) = mkpath os S_IRWX_all target w in
      if rv \<noteq> 0 then (- 1, w)
      else
        let bind = mountflags AND MS_BIND \<noteq> 0;
            (ty, w) = (if ty = None \<and> \<not> bind
                       then let (t, w) = get_fstype os source w in (Some (fstype_or_ext4 t), w)
                       else (ty, w));
            w = (case ty of
                   Some t \<Rightarrow> (if \<not> bind then check_fs os source t target w else w)
                 | None \<Rightarrow> w);
            (r, w) = sys os (Path (Mount (Some source) target ty mountflags opts)) w
        in (rc r, w))"

section \<open>Loop devices\<close>

text \<open>
  \<open>loops_created\<close> is the function's static counter. The name that is returned is a copy
  of \<open>buf\<close>, which holds the path only when the argument is NULL; else it is
  indeterminate, the argument \<open>indet\<close>.
\<close>

definition loop_path :: "int \<Rightarrow> string" where
  "loop_path minor = snprintf PATH_MAX (''/multiboot/dev/block/loop'' @ show_int minor)"

definition make_loop ::
  "os \<Rightarrow> string \<Rightarrow> string option \<Rightarrow> int \<Rightarrow> world \<Rightarrow> string option \<times> int \<times> world" where
  "make_loop os indet path loops_created w =
     (let minor = to_int32 (255 - loops_created);
          buf = (if path = None then loop_path minor else indet);
          node = (case path of None \<Rightarrow> buf | Some p \<Rightarrow> p);
          (r, w) = sys os (Path (Mknod node (384 + S_IFBLK) (7, word_of_int minor))) w in
      if rc r \<noteq> 0 then (None, loops_created, w)
      else (Some buf, to_int32 (loops_created + 1), w))"

section \<open>Arguments of a traced process\<close>

text \<open>
  \<open>get_patharg\<close> reads \<open>PATH_MAX\<close> bytes from the child into a buffer of that size, so a path
  without a NUL among them is used past the buffer's end. With \<open>real\<close> set and an existing
  file the result is what \<open>realpath\<close> returns, provided \<open>errno\<close> is 0 then.
\<close>

definition get_patharg :: "os \<Rightarrow> u32 \<Rightarrow> bool \<Rightarrow> world \<Rightarrow> ub + (string option \<times> world)" where
  "get_patharg os addr real w =
     (let (r, w) = sys os (Tracy (Read_Mem addr PATH_MAX)) w in
      if rc r < 0 then Inr (None, w)
      else
        let path = cstr (data r) in
        if PATH_MAX \<le> length path then Inl Out_Of_Bounds
        else if real then
          let (r, w) = sys os (Path (Stat path)) w in
          if rc r = 0 then
            let (r, w) = sys os (Path (Realpath path)) w in
            if 0 \<le> rc r \<and> errno w = 0 then Inr (Some (data r), w) else Inr (None, w)
          else Inr (Some path, w)
        else Inr (Some path, w))"

text \<open>
  \<open>copy_patharg\<close>: the address, 0 for NULL. The new address is what \<open>tracy_mmap\<close> delivers;
  on a failed write the length of the path is unmapped, not that of the mapping.
\<close>

definition copy_patharg :: "os \<Rightarrow> string \<Rightarrow> world \<Rightarrow> u32 \<times> world" where
  "copy_patharg os path w =
     (let len = length path + 1 in
      if PATH_MAX + 1 < len then (0, w)
      else
        let (r, w) = sys os (Tracy (Mmap (PATH_MAX + 1))) w; path_new = of_int (rc r) in
        if rc r < 0 \<or> path_new = 0 then (0, w)
        else
          let (r, w) = sys os (Tracy (Write_Mem path_new (path @ [NUL]))) w in
          if rc r < 0 then
            let (_, w) = sys os (Tracy (Munmap path_new len)) w in (0, w)
          else (path_new, w))"

definition free_patharg :: "os \<Rightarrow> u32 \<Rightarrow> world \<Rightarrow> world" where
  "free_patharg os addr w = snd (sys os (Tracy (Munmap addr (PATH_MAX + 1))) w)"

section \<open>Facts\<close>

lemma get_fstype_found:
  assumes "free_keeps_data os" and "rc (os (trail w) (Blkid_Fullprobe dev)) = 0"
    and "0 \<le> rc (os (trail w @ [Blkid_Fullprobe dev]) (Blkid_Lookup ''TYPE''))"
  shows "fst (get_fstype os dev w) =
    Some (cstr (data (os (trail w @ [Blkid_Fullprobe dev]) (Blkid_Lookup ''TYPE''))))"
proof -
  have "data (os ((trail w @ [Blkid_Fullprobe dev]) @ [Blkid_Lookup ''TYPE'']) Blkid_Free) =
      data (os (trail w @ [Blkid_Fullprobe dev]) (Blkid_Lookup ''TYPE''))"
    using assms(1) unfolding free_keeps_data_def by blast
  with assms(2,3) show ?thesis by (simp add: get_fstype_def Let_def split_beta)
qed

text \<open>A call that succeeds whenever it is made has made its names apart.\<close>

lemma show_int_inj: "0 \<le> m \<Longrightarrow> 0 \<le> n \<Longrightarrow> show_int m = show_int n \<Longrightarrow> m = n"
  by (auto simp: show_int_def dest: show_nat_inj)

lemma make_loop_Some:
  "make_loop os indet None n w = (Some p, n', w') \<Longrightarrow>
     p = loop_path (to_int32 (255 - n)) \<and> n' = to_int32 (n + 1)"
  by (auto simp: make_loop_def Let_def split_beta split: if_splits)

lemma copy_patharg_cases:
  assumes "copy_patharg os path w = (a, w')"
  shows "a = 0 \<or> (length path \<le> PATH_MAX \<and>
    trail w' = trail w @ [Tracy (Mmap (PATH_MAX + 1)), Tracy (Write_Mem a (path @ [NUL]))])"
  using assms by (auto simp: copy_patharg_def Let_def split_beta split: if_splits)

section \<open>Properties\<close>

text \<open>C36. \<open>mkpath\<close> terminates and is the loop that makes the directories above the path from
  the root down and then the path, stopping with -1 at the first that can neither be made
  nor exists already.\<close>

theorem mkpath_refines_loop:
  assumes "length s \<le> PATH_MAX"
  shows "mkpath os mode s w = make_dirs os mode (ancestors s) w"
  using assms by (rule mkpath_make_dirs)

theorem mkpath_refines_loop_witness:
  "mkpath (\<lambda>_ _. ok_reply 0) 511 ''/a/b//c'' initial_world =
     make_dirs (\<lambda>_ _. ok_reply 0) 511 [''/a'', ''/a/b'', ''/a/b//c''] initial_world"
proof -
  have "ancestors ''/a/b//c'' = [''/a'', ''/a/b'', ''/a/b//c'']"
    by (simp add: ancestors.simps dir_part_def is_slash_def)
  then show ?thesis
    using mkpath_refines_loop [of "''/a/b//c''" "\<lambda>_ _. ok_reply 0" 511 initial_world]
    by (simp add: PATH_MAX_def)
qed

text \<open>A path that is copied into a traced process arrives there whole, with its NUL, in a
  mapping that is large enough; when the copy fails nothing is returned, and only as much of
  the mapping is given back as the path is long.\<close>

theorem copy_patharg_effect:
  "case copy_patharg os path w of (a, w') \<Rightarrow>
     if a \<noteq> 0 then
       length path \<le> PATH_MAX \<and>
       trail w' = trail w @ [Tracy (Mmap (PATH_MAX + 1)), Tracy (Write_Mem a (path @ [NUL]))]
     else
       trail w' \<in> {trail w, trail w @ [Tracy (Mmap (PATH_MAX + 1))]} \<or>
       (\<exists>b. trail w' = trail w @ [Tracy (Mmap (PATH_MAX + 1)), Tracy (Write_Mem b (path @ [NUL])),
                                 Tracy (Munmap b (length path + 1))])"
  by (auto simp: copy_patharg_def Let_def split_beta)

lemma loop_path_inj:
  assumes "0 \<le> m" "m \<le> 255" "0 \<le> n" "n \<le> 255" "loop_path m = loop_path n"
  shows "m = n"
proof -
  have l: "length (show_int k) < 10" if "0 \<le> k" "k \<le> 255" for k
  proof -
    have "nat k < 1000" using that by arith
    then have "length (show_nat (nat k)) \<le> 3" using length_show_nat [of "nat k" 3] by simp
    with that show ?thesis by (simp add: show_int_def)
  qed
  have "loop_path k = ''/multiboot/dev/block/loop'' @ show_int k" if "0 \<le> k" "k \<le> 255" for k
    unfolding loop_path_def using l [OF that] by (intro snprintf_id) (simp add: PATH_MAX_def)
  with assms have "show_int m = show_int n" by simp
  with assms show ?thesis by (intro show_int_inj) simp_all
qed

end
