(* ===== verification/Bytes.thy ===== *)
theory Bytes
  imports CString
begin

text \<open>
  On-disk data: the value of a little-endian or big-endian field (the macros \<open>le32_to_cpu\<close>,
  \<open>be32_to_cpu\<close> and their kin of src/bitops.h applied to a member of a packed struct that is
  laid over a buffer), the layout of such a struct as the list of its members with their
  sizes, and the reading of a member.
\<close>

section \<open>Little-endian fields\<close>

fun le_value :: "string \<Rightarrow> nat" where
  "le_value [] = 0"
| "le_value (c # cs) = of_char c + 256 * le_value cs"

fun le_bytes :: "nat \<Rightarrow> nat \<Rightarrow> string" where
  "le_bytes 0 v = []"
| "le_bytes (Suc n) v = char_of (v mod 256) # le_bytes n (v div 256)"

lemma le_bytes_length [simp]: "length (le_bytes n v) = n"
  by (induction n arbitrary: v) auto

lemma le_value_bytes: "v < 256 ^ n \<Longrightarrow> le_value (le_bytes n v) = v"
proof (induction n arbitrary: v)
  case 0
  then show ?case by simp
next
  case (Suc n)
  then have "v div 256 < 256 ^ n" by (simp add: less_mult_imp_div_less mult.commute)
  with Suc.IH show ?case by simp
qed

lemma le_value_bound: "le_value s < 256 ^ length s"
proof (induction s)
  case Nil
  then show ?case by simp
next
  case (Cons c s)
  have "of_char c < (256::nat)" by simp
  moreover have "le_value s + 1 \<le> 256 ^ length s" using Cons.IH by simp
  then have "256 * le_value s + 256 \<le> 256 * 256 ^ length s"
    by (metis add_mult_distrib2 mult.right_neutral mult_le_mono2)
  ultimately show ?case unfolding le_value.simps length_Cons power_Suc by linarith
qed

lemma le_value_append: "le_value (s @ t) = le_value s + 256 ^ length s * le_value t"
  by (induction s) (auto simp: algebra_simps)

lemma le_value_zeros: "le_value s = 0 \<longleftrightarrow> set s \<subseteq> {NUL}"
proof (induction s)
  case Nil
  then show ?case by simp
next
  case (Cons c s)
  have "of_char c = (0::nat) \<longleftrightarrow> c = NUL" using of_char_eq_iff [of c NUL, where 'a = nat] by simp
  with Cons show ?case by auto
qed

lemma le_value_inject: "length s = length t \<Longrightarrow> le_value s = le_value t \<longleftrightarrow> s = t"
proof (induction s arbitrary: t)
  case Nil
  then show ?case by simp
next
  case (Cons c s)
  then obtain d u where t: "t = d # u" "length s = length u" by (cases t) auto
  have "a + 256 * x = b + 256 * y \<longleftrightarrow> a = b \<and> x = y" if "a < 256" "b < 256" for a b x y :: nat
    using that by (metis add_right_cancel mod_mult_self2 mod_less mult_cancel1 nat_add_left_cancel_less not_less0 numeral_neq_zero add_left_cancel)
  then have "of_char c + 256 * le_value s = of_char d + 256 * le_value u \<longleftrightarrow>
      of_char c = (of_char d :: nat) \<and> le_value s = le_value u"
    by simp
  then show ?case using t Cons.IH by simp
qed

lemma le_bytes_value: "le_bytes (length s) (le_value s) = s"
  by (induction s) simp_all

text \<open>A big-endian value is the little-endian value of the reversed bytes, as \<open>bswap_32\<close> has it.\<close>

definition be_value :: "string \<Rightarrow> nat" where
  "be_value s = le_value (rev s)"

definition be_bytes :: "nat \<Rightarrow> nat \<Rightarrow> string" where
  "be_bytes n v = rev (le_bytes n v)"

lemma be_bytes_length [simp]: "length (be_bytes n v) = n"
  by (simp add: be_bytes_def)

lemma be_value_bytes: "v < 256 ^ n \<Longrightarrow> be_value (be_bytes n v) = v"
  by (simp add: be_value_def be_bytes_def le_value_bytes)

lemma be_bytes_value: "be_bytes (length s) (be_value s) = s"
  using le_bytes_value [of "rev s"] by (simp add: be_bytes_def be_value_def)

lemma be_value_bound: "be_value s < 256 ^ length s"
  using le_value_bound [of "rev s"] by (simp add: be_value_def)

lemma be_value_inject: "length s = length t \<Longrightarrow> be_value s = be_value t \<longleftrightarrow> s = t"
  by (simp add: be_value_def le_value_inject)

lemma be_value_Cons: "be_value (c # cs) = of_char c * 256 ^ length cs + be_value cs"
  by (simp add: be_value_def le_value_append)

lemma be_value_Nil [simp]: "be_value [] = 0"
  by (simp add: be_value_def)

section \<open>Members of a packed struct\<close>

fun offset_of :: "string \<Rightarrow> (string \<times> nat) list \<Rightarrow> nat" where
  "offset_of name [] = 0"
| "offset_of name ((n, sz) # fs) = (if n = name then 0 else sz + offset_of name fs)"

definition sizeof :: "(string \<times> nat) list \<Rightarrow> nat" where
  "sizeof fs = sum_list (map snd fs)"

definition member :: "(string \<times> nat) list \<Rightarrow> string \<Rightarrow> string \<Rightarrow> string" where
  "member fs name bytes =
     (case map_of fs name of
        Some sz \<Rightarrow> take sz (drop (offset_of name fs) bytes)
      | None \<Rightarrow> [])"

definition le_member :: "(string \<times> nat) list \<Rightarrow> string \<Rightarrow> string \<Rightarrow> nat" where
  "le_member fs name bytes = le_value (member fs name bytes)"

definition be_member :: "(string \<times> nat) list \<Rightarrow> string \<Rightarrow> string \<Rightarrow> nat" where
  "be_member fs name bytes = be_value (member fs name bytes)"

lemma length_member:
  "map_of fs name = Some sz \<Longrightarrow> length (member fs name bytes) =
     min sz (length bytes - offset_of name fs)"
  by (simp add: member_def min.commute)

lemma le_member_bound:
  assumes "map_of fs name = Some sz"
  shows "le_member fs name bytes < 256 ^ sz"
proof -
  have "le_member fs name bytes < 256 ^ length (member fs name bytes)"
    unfolding le_member_def by (rule le_value_bound)
  also have "\<dots> \<le> 256 ^ sz" using assms by (simp add: length_member)
  finally show ?thesis .
qed

text \<open>A member lies inside the struct it belongs to.\<close>

lemma member_inside: "map_of fs name = Some sz \<Longrightarrow> offset_of name fs + sz \<le> sizeof fs"
  by (induction fs) (auto simp: sizeof_def split: if_splits)

end
