(* ===== verification/ExtFs.thy ===== *)
theory ExtFs
  imports UtilPath Bytes
begin

text \<open>
  Format detection, lib/fs/fs.c and lib/fs/fstypes/ext2.c: the layout of the ext superblock,
  the copy of it that is kept while a file is open, and the comparison when it is closed.
\<close>

section \<open>The superblock\<close>

text \<open>The packed members of \<open>struct ext2_super_block\<close> and their sizes in bytes.\<close>

definition ext2_super_block :: "(string \<times> nat) list" where
  "ext2_super_block =
    [(''s_inodes_count'', 4), (''s_blocks_count'', 4), (''s_r_blocks_count'', 4),
     (''s_free_blocks_count'', 4), (''s_free_inodes_count'', 4), (''s_first_data_block'', 4),
     (''s_log_block_size'', 4), (''s_dummy3'', 28), (''s_magic'', 2), (''s_state'', 2),
     (''s_errors'', 2), (''s_minor_rev_level'', 2), (''s_lastcheck'', 4),
     (''s_checkinterval'', 4), (''s_creator_os'', 4), (''s_rev_level'', 4),
     (''s_def_resuid'', 2), (''s_def_resgid'', 2), (''s_first_ino'', 4), (''s_inode_size'', 2),
     (''s_block_group_nr'', 2), (''s_feature_compat'', 4), (''s_feature_incompat'', 4),
     (''s_feature_ro_compat'', 4), (''s_uuid'', 16), (''s_volume_name'', 16),
     (''s_last_mounted'', 64), (''s_algorithm_usage_bitmap'', 4), (''s_prealloc_blocks'', 1),
     (''s_prealloc_dir_blocks'', 1), (''s_reserved_gdt_blocks'', 2), (''s_journal_uuid'', 16),
     (''s_journal_inum'', 4), (''s_journal_dev'', 4), (''s_last_orphan'', 4),
     (''s_hash_seed'', 16), (''s_def_hash_version'', 1), (''s_jnl_backup_type'', 1),
     (''s_reserved_word_pad'', 2), (''s_default_mount_opts'', 4), (''s_first_meta_bg'', 4),
     (''s_mkfs_time'', 4), (''s_jnl_blocks'', 68), (''s_blocks_count_hi'', 4),
     (''s_r_blocks_count_hi'', 4), (''s_free_blocks_hi'', 4), (''s_min_extra_isize'', 2),
     (''s_want_extra_isize'', 2), (''s_flags'', 4), (''s_raid_stride'', 2),
     (''s_mmp_interval'', 2), (''s_mmp_block'', 8), (''s_raid_stripe_width'', 4),
     (''s_reserved'', 652)]"

definition s_mkfs_time :: "string \<Rightarrow> nat" where
  "s_mkfs_time sb = le_value (member ext2_super_block ''s_mkfs_time'' sb)"

definition s_lastcheck :: "string \<Rightarrow> nat" where
  "s_lastcheck sb = le_value (member ext2_super_block ''s_lastcheck'' sb)"

definition EXT_SB_OFF :: nat where "EXT_SB_OFF = 0x400"
definition EXT_MAG_OFF :: nat where "EXT_MAG_OFF = 0x38"

lemma super_block_layout:
  "sizeof ext2_super_block = 1024"
  "offset_of ''s_magic'' ext2_super_block = EXT_MAG_OFF"
  "offset_of ''s_lastcheck'' ext2_super_block = 64"
  "offset_of ''s_mkfs_time'' ext2_super_block = 264"
  by (simp_all add: sizeof_def ext2_super_block_def EXT_MAG_OFF_def)

lemma super_block_times:
  "s_lastcheck sb = le_value (take 4 (drop 64 sb))"
  "s_mkfs_time sb = le_value (take 4 (drop 264 sb))"
  by (simp_all add: s_lastcheck_def s_mkfs_time_def member_def super_block_layout)
     (simp_all add: ext2_super_block_def)

section \<open>Open files\<close>

text \<open>\<open>struct fd_info\<close>, without the pointer to the child; \<open>fs_pdata\<close> is the superblock's bytes.\<close>

record fd_info =
  fdi_fd :: int
  filename :: string
  fdi_fs_type :: "string option"
  fs_pdata :: "string option"
  device :: "string option"

definition blank_fdinfo :: "int \<Rightarrow> string \<Rightarrow> fd_info" where
  "blank_fdinfo fd name =
     \<lparr>fdi_fd = fd, filename = name, fdi_fs_type = None, fs_pdata = None, device = None\<rparr>"

text \<open>
  \<open>ext2_pre\<close> keeps the buffer it allocated even when the read falls short; what the read
  did not fill is the indeterminate content \<open>indet\<close> of the new block.
\<close>

definition ext2_pre :: "os \<Rightarrow> string \<Rightarrow> string \<Rightarrow> fd_info \<Rightarrow> world \<Rightarrow> int \<times> fd_info \<times> world" where
  "ext2_pre os indet dev fdi w =
     (let (r, w) = sys os (Fd (Open dev O_RDONLY)) w; fd = rc r in
      if fd = 0 then (0, fdi, w)
      else
        let (_, w) = sys os (Fd (Lseek fd EXT_SB_OFF)) w;
            (r, w) = sys os (Fd (Read fd (sizeof ext2_super_block))) w;
            bytes = take (nat (rc r)) (data r);
            fdi = fdi\<lparr>fs_pdata := Some (overwrite indet bytes)\<rparr> in
        if rc r \<noteq> int (sizeof ext2_super_block) then (0, fdi, w)
        else let (_, w) = sys os (Fd (Close fd)) w in (0, fdi, w))"

definition ext2_was_format :: "os \<Rightarrow> string \<Rightarrow> fd_info \<Rightarrow> world \<Rightarrow> bool \<times> world" where
  "ext2_was_format os dev fdi w =
     (case fs_pdata fdi of
        None \<Rightarrow> (False, w)
      | Some sb_pre \<Rightarrow>
          let (r, w) = sys os (Fd (Open dev O_RDONLY)) w; fd = rc r in
          if fd = 0 then (False, w)
          else
            let (_, w) = sys os (Fd (Lseek fd EXT_SB_OFF)) w;
                (r, w) = sys os (Fd (Read fd (sizeof ext2_super_block))) w;
                sb = data r in
            if rc r \<noteq> int (sizeof ext2_super_block) then (False, w)
            else
              let fmt = s_mkfs_time sb > s_mkfs_time sb_pre \<or> s_lastcheck sb < s_lastcheck sb_pre;
                  (_, w) = sys os (Fd (Close fd)) w
              in (fmt, w))"

definition ext2_cleanup :: "fd_info \<Rightarrow> fd_info" where
  "ext2_cleanup fdi = fdi\<lparr>fs_pdata := None\<rparr>"

text \<open>
  The dispatch on the type of lib/fs/fs.c. A NULL type is passed to \<open>strcmp\<close>. An
  \<open>fd_info\<close> has a device exactly when it has a type, so a NULL device meets the same end.
\<close>

definition fs_pre :: "os \<Rightarrow> string \<Rightarrow> fd_info \<Rightarrow> world \<Rightarrow> ub + (fd_info \<times> world)" where
  "fs_pre os indet fdi w =
     bindE (deref (fdi_fs_type fdi)) (\<lambda>ty.
       if ty = ''ext4'' then
         bindE (deref (device fdi)) (\<lambda>dev. Inr (snd (ext2_pre os indet dev fdi w)))
       else Inr (fdi, w))"

definition fs_was_format :: "os \<Rightarrow> fd_info \<Rightarrow> world \<Rightarrow> ub + (bool \<times> world)" where
  "fs_was_format os fdi w =
     bindE (deref (device fdi)) (\<lambda>dev.
     let (t, w) = get_fstype os dev w; fstype = fstype_or_ext4 t in
     bindE (deref (fdi_fs_type fdi)) (\<lambda>ty.
       if ty \<noteq> fstype then Inr (True, w)
       else if fstype = ''ext4'' then Inr (ext2_was_format os dev fdi w)
       else Inr (False, w)))"

definition fs_cleanup :: "fd_info \<Rightarrow> ub + fd_info" where
  "fs_cleanup fdi =
     bindE (deref (fdi_fs_type fdi)) (\<lambda>ty. Inr (if ty = ''ext4'' then ext2_cleanup fdi else fdi))"

section \<open>Facts\<close>

text \<open>In world \<open>w\<close> the device can be opened and its superblock is \<open>sb\<close>.\<close>

definition superblock_is :: "os \<Rightarrow> world \<Rightarrow> string \<Rightarrow> string \<Rightarrow> bool" where
  "superblock_is os w dev sb \<longleftrightarrow>
     (let c1 = Fd (Open dev O_RDONLY); fd = rc (os (trail w) c1); c2 = Fd (Lseek fd EXT_SB_OFF);
          r = os (trail w @ [c1, c2]) (Fd (Read fd 1024))
      in fd \<noteq> 0 \<and> rc r = 1024 \<and> data r = sb \<and> length sb = 1024)"

lemma ext2_pre_keeps_superblock:
  assumes "superblock_is os w dev sb" and "length indet = 1024"
  shows "fs_pdata (fst (snd (ext2_pre os indet dev fdi w))) = Some sb"
  using assms
  by (simp add: superblock_is_def ext2_pre_def Let_def split_beta super_block_layout overwrite_def)

lemma ext2_was_format_eq:
  assumes "superblock_is os w dev sb"
  shows "fst (ext2_was_format os dev fdi w) =
    (case fs_pdata fdi of None \<Rightarrow> False
     | Some pre \<Rightarrow> s_mkfs_time pre < s_mkfs_time sb \<or> s_lastcheck sb < s_lastcheck pre)"
  using assms
  by (auto simp: superblock_is_def ext2_was_format_def Let_def split_beta super_block_layout
      split: option.splits)

lemma fs_pre_no_type: "fdi_fs_type fdi = None \<Longrightarrow> fs_pre os indet fdi w = Inl Null_Deref"
  by (simp add: fs_pre_def)

section \<open>Properties\<close>


definition one_superblock_os :: "string \<Rightarrow> os" where
  "one_superblock_os sb cs c =
     (case c of
        Fd (Open _ _) \<Rightarrow> ok_reply 3
      | Fd (Read _ _) \<Rightarrow> (ok_reply 1024)\<lparr>data := sb\<rparr>
      | Blkid_Free \<Rightarrow> (ok_reply 0)\<lparr>data := ''ext4''\<rparr>
      | _ \<Rightarrow> ok_reply 0)"


end
