(* ===== verification/Uevent.thy ===== *)
theory Uevent
  imports Os
begin

text \<open>
  The block device table of lib/uevent.c: the parser of the kernel's uevent files, the scan
  of /sys/class/block, the lookup of a device by path, and the functions built on it. A
  device path is /dev/block/mmcblkXpY or ends in the partition's name after by-name.
\<close>

section \<open>Data\<close>

datatype uevent_type = UEVENT_TYPE_UNKNOWN | UEVENT_TYPE_DISK | UEVENT_TYPE_PARTITION

record sys_block_uevent =
  linux_major :: u32
  linux_minor :: u32
  part_major :: u32
  part_minor :: u32
  devname :: "string option"
  partname :: "string option"
  ev_type :: uevent_type

definition zero_event :: sys_block_uevent where
  "zero_event = \<lparr>linux_major = 0, linux_minor = 0, part_major = 0, part_minor = 0,
     devname = None, partname = None, ev_type = UEVENT_TYPE_UNKNOWN\<rparr>"

text \<open>\<open>struct sys_block_info\<close> is its entries in order.\<close>

type_synonym sys_block_info = "sys_block_uevent list"

section \<open>Trimming and integers\<close>

text \<open>\<open>copy_trim\<close> skips leading space, then moves the end back over trailing space.\<close>

definition copy_trim :: "string \<Rightarrow> string" where
  "copy_trim s =
     (let t = dropWhile isspace s
      in if t = [] then [] else rev (dropWhile isspace (rev t)))"

text \<open>\<open>getInt\<close>: -1 when anything follows the number.\<close>

definition getInt :: "string \<Rightarrow> int" where
  "getInt s = (let (ret, endptr) = strtol32 10 s in if endptr \<noteq> [] then - 1 else ret)"

section \<open>The uevent file\<close>

text \<open>
  \<open>fgets\<close> with a buffer of \<open>n + 1\<close> bytes: a piece ends after a newline or \<open>n\<close> bytes.
\<close>

definition fgets_piece :: "nat \<Rightarrow> string \<Rightarrow> string" where
  "fgets_piece n s =
     (let l = takeWhile (\<lambda>c. c \<noteq> NL) s;
          l = (if length l < length s then l @ [NL] else l)
      in take n l)"

lemma fgets_piece_nonempty: "0 < n \<Longrightarrow> s \<noteq> [] \<Longrightarrow> fgets_piece n s \<noteq> []"
  by (cases s) (auto simp: fgets_piece_def Let_def)

function fgets_all :: "nat \<Rightarrow> string \<Rightarrow> string list" where
  "fgets_all n s =
     (if n = 0 \<or> s = [] then []
      else cstr (fgets_piece n s) # fgets_all n (drop (length (fgets_piece n s)) s))"
  by pat_completeness auto
termination
  by (relation "measure (\<lambda>(n, s). length s)") (auto simp: fgets_piece_nonempty)

declare fgets_all.simps [simp del]

text \<open>The chain of comparisons on the name of a line.\<close>

definition set_field :: "string \<Rightarrow> string \<Rightarrow> sys_block_uevent \<Rightarrow> sys_block_uevent" where
  "set_field name value e =
     (if name = ''MAJOR'' then e\<lparr>linux_major := of_int (getInt value)\<rparr>
      else if name = ''MINOR'' then e\<lparr>linux_minor := of_int (getInt value)\<rparr>
      else if name = ''PARTN'' then e\<lparr>part_minor := of_int (getInt value)\<rparr>
      else if name = ''DEVNAME'' then e\<lparr>devname := Some value\<rparr>
      else if name = ''PARTNAME'' then e\<lparr>partname := Some value\<rparr>
      else if name = ''DEVTYPE'' then
        e\<lparr>ev_type := (if value = ''disk'' then UEVENT_TYPE_DISK
                      else if value = ''partition'' then UEVENT_TYPE_PARTITION
                      else UEVENT_TYPE_UNKNOWN)\<rparr>
      else e)"

text \<open>
  One line: \<open>strtok\<close> cuts the name and the value at the equals signs. Without a second
  token \<open>copy_trim\<close> is called with NULL, which it dereferences.
\<close>

definition uevent_line :: "string \<Rightarrow> sys_block_uevent \<Rightarrow> ub + sys_block_uevent" where
  "uevent_line line e =
     (case strtok_r ''='' line of
        None \<Rightarrow> Inl Null_Deref
      | Some (t1, rest) \<Rightarrow>
          (case strtok_r ''='' rest of
             None \<Rightarrow> Inl Null_Deref
           | Some (t2, _) \<Rightarrow>
               Inr (set_field (copy_trim t1) (copy_trim t2) e)))"

definition mmcblk_format :: "scan_dir list" where
  "mmcblk_format = lits ''mmcblk'' @ [Unsigned] @ lits ''p'' @ [Unsigned]"

text \<open>The two numbers after the last line, from the device's name; a NULL name is dereferenced.\<close>

definition mmc_numbers :: "sys_block_uevent \<Rightarrow> ub + sys_block_uevent" where
  "mmc_numbers e =
     bindE (deref (devname e)) (\<lambda>name.
       Inr (case sscanf mmcblk_format name of
              [VUnsigned maj, VUnsigned mnr] \<Rightarrow> e\<lparr>part_major := maj, part_minor := mnr\<rparr>
            | _ \<Rightarrow> e))"

definition parse_uevent :: "string \<Rightarrow> ub + sys_block_uevent" where
  "parse_uevent text =
     bindE (foldE uevent_line (fgets_all 127 text) zero_event) mmc_numbers"

definition add_uevent_entry ::
  "os \<Rightarrow> string \<Rightarrow> sys_block_info \<times> world \<Rightarrow> ub + (sys_block_info \<times> world)" where
  "add_uevent_entry os filename = (\<lambda>(info, w).
     let (r, w) = sys os (Stream (Fopen filename ''r'')) w in
     if rc r < 0 then Inr (info, w)
     else
       let fp = rc r; (r, w) = sys os (Stream (Fread fp)) w in
       bindE (parse_uevent (data r)) (\<lambda>e.
         let (_, w) = sys os (Stream (Fclose fp)) w in Inr (info @ [e], w)))"

section \<open>All block devices\<close>

definition UEVENT_PATH_BLOCK_DEVICES :: string where
  "UEVENT_PATH_BLOCK_DEVICES = ''/sys/class/block''"

text \<open>
  Only symbolic links are read; the result of \<open>add_uevent_entry\<close> is ignored. \<open>None\<close> is
  the NULL returned when the directory cannot be opened or closed.
\<close>

definition get_block_devices :: "os \<Rightarrow> world \<Rightarrow> ub + (sys_block_info option \<times> world)" where
  "get_block_devices os w =
     (let path = UEVENT_PATH_BLOCK_DEVICES; (r, w) = sys os (Stream (Opendir path)) w in
      if rc r < 0 then Inr (None, w)
      else
        let d = rc r; (r, w) = sys os (Stream (Readdir d)) w;
            names = map snd (filter (\<lambda>(ty, _). ty = DT_LNK) (dirents r)) in
        bindE (foldE (\<lambda>n. add_uevent_entry os
                            (snprintf PATH_MAX (path @ ''/'' @ n @ ''/uevent''))) names ([], w))
          (\<lambda>(info, w).
             let (r, w) = sys os (Stream (Closedir d)) w
             in Inr (if rc r \<noteq> 0 then None else Some info, w)))"

section \<open>Lookup\<close>

definition basename :: "string \<Rightarrow> string" where
  "basename path =
     (let p = rev (dropWhile (\<lambda>c. c = CHR ''/'') (rev path))
      in if path = [] then ''.''
         else if p = [] then ''/''
         else rev (takeWhile (\<lambda>c. c \<noteq> CHR ''/'') (rev p)))"

definition dev_block_format :: "scan_dir list" where
  "dev_block_format = lits ''/dev/block/mmcblk'' @ [Unsigned] @ lits ''p'' @ [Unsigned]"

text \<open>
  The test of the loop. For a by-name path the numbers are never set, so \<open>maj\<close> and \<open>mnr\<close>
  are whatever the stack holds, and the second test still uses them.
\<close>

definition event_matches :: "string option \<Rightarrow> u32 \<Rightarrow> u32 \<Rightarrow> sys_block_uevent \<Rightarrow> bool" where
  "event_matches name maj mnr e \<longleftrightarrow>
     (name \<noteq> None \<and> partname e \<noteq> None \<and> partname e = name) \<or>
     (part_major e = maj \<and> part_minor e = mnr)"

text \<open>
  \<open>indet\<close> is the indeterminate value of the two numbers. The result is the first entry
  that matches; \<open>None\<close> is NULL.
\<close>

definition get_blockinfo_for_path ::
  "u32 \<times> u32 \<Rightarrow> sys_block_info \<Rightarrow> string \<Rightarrow> sys_block_uevent option" where
  "get_blockinfo_for_path indet info path =
     (if contains path ''by-name'' then
        find (event_matches (Some (basename path)) (fst indet) (snd indet)) info
      else
        (case sscanf dev_block_format path of
           [VUnsigned maj, VUnsigned mnr] \<Rightarrow> find (event_matches None maj mnr) info
         | _ \<Rightarrow> None))"

definition mmc_path :: "u32 \<Rightarrow> u32 \<Rightarrow> string" where
  "mmc_path maj mnr = ''/dev/block/mmcblk'' @ show_u32 maj @ ''p'' @ show_u32 mnr"

definition uevent_realpath :: "u32 \<times> u32 \<Rightarrow> sys_block_info \<Rightarrow> string \<Rightarrow> string option" where
  "uevent_realpath indet info path =
     (case get_blockinfo_for_path indet info path of
        None \<Rightarrow> None
      | Some bi \<Rightarrow> Some (mmc_path (part_major bi) (part_minor bi)))"

text \<open>\<open>uevent_stat\<close> sets \<open>st_rdev\<close> to the device number of the entry, or returns -1.\<close>

definition uevent_stat :: "u32 \<times> u32 \<Rightarrow> sys_block_info \<Rightarrow> string \<Rightarrow> dev option" where
  "uevent_stat indet info path =
     (case get_blockinfo_for_path indet info path of
        None \<Rightarrow> None
      | Some bi \<Rightarrow> Some (linux_major bi, linux_minor bi))"

definition PATH_MOUNTPOINT_DEV :: string where "PATH_MOUNTPOINT_DEV = ''/multiboot/dev''"

definition uevent_create_nodes :: "os \<Rightarrow> sys_block_info \<Rightarrow> string \<Rightarrow> world \<Rightarrow> world" where
  "uevent_create_nodes os info path w =
     (let (_, w) = sys os (Path (Mkdir (PATH_MOUNTPOINT_DEV @ ''/block'') 493)) w
      in fold (\<lambda>e w. snd (sys os (Path (Mknod
                 (snprintf PATH_MAX (path @ ''/block/'' @ printf_s (devname e)))
                 (S_IFBLK + 384) (linux_major e, linux_minor e))) w)) info w)"

section \<open>Facts\<close>

lemma sscanf_mmc_path:
  "sscanf dev_block_format (mmc_path maj mnr) = [VUnsigned maj, VUnsigned mnr]"
proof -
  have p: "\<not> is_digit (CHR ''p'')" by (simp add: is_digit_def)
  have "scan_unsigned (show_u32 maj @ ''p'' @ show_u32 mnr) = Some (maj, ''p'' @ show_u32 mnr)"
    using p by (intro scan_unsigned_show_u32) simp
  moreover have "scan_unsigned (show_u32 mnr) = Some (mnr, [])"
    using scan_unsigned_show_u32 [of "[]" mnr] by simp
  ultimately show ?thesis
    by (simp add: dev_block_format_def mmc_path_def lits_def)
qed

text \<open>The digits of a number hold none of the letters of by-name.\<close>

lemma show_u32_digits: "c \<in> set (show_u32 n) \<Longrightarrow> is_digit c"
  by (simp add: show_u32_def show_nat_digits)

lemma mmc_path_not_by_name: "\<not> contains (mmc_path maj mnr) ''by-name''"
proof
  assume "contains (mmc_path maj mnr) ''by-name''"
  then obtain u v where "mmc_path maj mnr = u @ ''by-name'' @ v"
    by (auto simp: contains_iff)
  then have "CHR ''y'' \<in> set (mmc_path maj mnr)"
    by (simp only: set_append) simp
  then show False
    by (auto simp: mmc_path_def is_digit_def dest!: show_u32_digits)
qed

lemma get_blockinfo_mmc_path:
  "get_blockinfo_for_path indet info (mmc_path maj mnr) =
     find (\<lambda>e. part_major e = maj \<and> part_minor e = mnr) info"
  by (simp add: get_blockinfo_for_path_def mmc_path_not_by_name sscanf_mmc_path
      event_matches_def [abs_def])

lemma find_SomeD: "find P xs = Some x \<Longrightarrow> P x \<and> x \<in> set xs"
  by (auto simp: find_Some_iff)

lemma get_blockinfo_mem: "get_blockinfo_for_path indet info path = Some e \<Longrightarrow> e \<in> set info"
  by (auto simp: get_blockinfo_for_path_def split: if_splits list.splits scan_val.splits
      dest: find_SomeD)

text \<open>
  The interface the clients rely on: the canonical path of an entry that was found leads
  to an entry with the same partition numbers, whatever the path was.
\<close>

locale block_table =
  fixes lookup :: "'p \<Rightarrow> 'e option"
    and canon :: "'e \<Rightarrow> 'p"
  assumes canon_found: "lookup p = Some e \<Longrightarrow> \<exists>e'. lookup (canon e) = Some e'"
    and canon_same: "lookup p = Some e \<Longrightarrow> lookup (canon e) = Some e' \<Longrightarrow> canon e' = canon e"
begin

definition resolve :: "'p \<Rightarrow> 'p" where
  "resolve p = (case lookup p of None \<Rightarrow> p | Some e \<Rightarrow> canon e)"

lemma resolve_idem: "resolve (resolve p) = resolve p"
proof (cases "lookup p")
  case None
  then show ?thesis by (simp add: resolve_def)
next
  case (Some e)
  then obtain e' where e': "lookup (canon e) = Some e'" using canon_found by blast
  have "canon e' = canon e" by (rule canon_same [OF Some e'])
  then show ?thesis by (simp add: resolve_def Some e')
qed

lemma resolve_found: "lookup p \<noteq> None \<Longrightarrow> lookup (resolve p) \<noteq> None"
  using canon_found by (auto simp: resolve_def)

end

interpretation mmc: block_table "get_blockinfo_for_path indet info"
  "\<lambda>e. mmc_path (part_major e) (part_minor e)"
proof
  fix p e
  assume "get_blockinfo_for_path indet info p = Some e"
  then have "e \<in> set info" by (rule get_blockinfo_mem)
  then show "\<exists>e'. get_blockinfo_for_path indet info (mmc_path (part_major e) (part_minor e)) = Some e'"
    by (auto simp: get_blockinfo_mmc_path find_None_iff not_None_eq [symmetric])
next
  fix p e e'
  assume "get_blockinfo_for_path indet info (mmc_path (part_major e) (part_minor e)) = Some e'"
  then show "mmc_path (part_major e') (part_minor e') = mmc_path (part_major e) (part_minor e)"
    by (auto simp: get_blockinfo_mmc_path dest!: find_SomeD)
qed

text \<open>What \<open>copy_trim\<close> returns: the text less the space at both ends.\<close>

lemma copy_trim_spec:
  "\<exists>u v. s = u @ copy_trim s @ v \<and> (\<forall>c\<in>set u \<union> set v. isspace c) \<and>
     (copy_trim s \<noteq> [] \<longrightarrow> \<not> isspace (hd (copy_trim s)) \<and> \<not> isspace (last (copy_trim s)))"
proof -
  let ?t = "dropWhile isspace s"
  let ?u = "takeWhile isspace s"
  show ?thesis
  proof (cases "?t = []")
    case True
    have "copy_trim s = []" unfolding copy_trim_def Let_def by (rule if_P [OF True])
    moreover have "\<forall>c\<in>set s. isspace c" by (rule iffD1 [OF dropWhile_eq_Nil_conv True])
    ultimately show ?thesis by (intro exI [of _ s] exI [of _ "[]"]) simp
  next
    case False
    let ?r = "rev (dropWhile isspace (rev ?t))"
    let ?v = "rev (takeWhile isspace (rev ?t))"
    have r: "copy_trim s = ?r" unfolding copy_trim_def Let_def by (rule if_not_P [OF False])
    have t: "?t = ?r @ ?v"
      by (metis rev_append rev_rev_ident takeWhile_dropWhile_id)
    then have s: "s = ?u @ ?r @ ?v" by (metis takeWhile_dropWhile_id)
    have h: "\<not> isspace (hd ?t)" using False by (rule hd_dropWhile)
    have "hd ?t \<in> set (rev ?t)"
      using hd_in_set [OF False] by (simp only: set_rev)
    have ne: "?r \<noteq> []"
    proof
      assume "?r = []"
      then have "dropWhile isspace (rev ?t) = []" by simp
      then have "\<forall>c\<in>set (rev ?t). isspace c" by (rule iffD1 [OF dropWhile_eq_Nil_conv])
      with \<open>hd ?t \<in> set (rev ?t)\<close> h show False by blast
    qed
    have "hd ?t = hd ?r" using t ne by (metis hd_append2)
    moreover have "\<not> isspace (last ?r)"
      using ne by (simp add: last_rev hd_dropWhile)
    ultimately have "\<not> isspace (hd ?r) \<and> \<not> isspace (last ?r)" using h by simp
    moreover have "\<forall>c\<in>set ?u \<union> set ?v. isspace c"
      by (auto dest: set_takeWhileD)
    ultimately show ?thesis using s unfolding r by blast
  qed
qed

lemma copy_trim_clean:
  "s \<noteq> [] \<Longrightarrow> \<not> isspace (hd s) \<Longrightarrow> \<not> isspace (last s) \<Longrightarrow> copy_trim (s @ u) = s" if "\<forall>c\<in>set u. isspace c"
proof -
  assume s: "s \<noteq> []" "\<not> isspace (hd s)" "\<not> isspace (last s)"
  then have d: "dropWhile isspace (s @ u) = s @ u" by (intro dropWhile_stop) simp
  have "dropWhile isspace (rev u @ rev s) = rev s"
    using that s by (intro dropWhile_append_stop) (auto simp: hd_rev)
  with d s show ?thesis by (simp add: copy_trim_def)
qed

lemma getInt_show_nat: "n < 2147483648 \<Longrightarrow> getInt (show_nat n) = int n"
  by (simp add: getInt_def strtol_show_nat)

section \<open>Properties\<close>

lemma realpath_resolve:
  "uevent_realpath indet tbl path =
     (if get_blockinfo_for_path indet tbl path = None then None else Some (mmc.resolve indet tbl path))"
  by (auto simp: uevent_realpath_def mmc.resolve_def split: option.split)

text \<open>The canonical path of a device is a fixed point: it is found again, leads to the same
  path, and names an entry with the same partition numbers as the one first found.\<close>

theorem uevent_realpath_idem:
  assumes "uevent_realpath indet tbl path = Some p"
  shows "uevent_realpath indet tbl p = Some p \<and> uevent_stat indet tbl p \<noteq> None"
proof -
  have f: "get_blockinfo_for_path indet tbl path \<noteq> None" and p: "p = mmc.resolve indet tbl path"
    using assms unfolding realpath_resolve by (auto split: if_splits)
  have "get_blockinfo_for_path indet tbl p \<noteq> None" unfolding p by (rule mmc.resolve_found [OF f])
  moreover have "mmc.resolve indet tbl p = p" unfolding p by (rule mmc.resolve_idem)
  ultimately show ?thesis by (auto simp: realpath_resolve uevent_stat_def split: option.split)
qed

theorem uevent_realpath_idem_witness:
  "\<exists>p. uevent_realpath (0, 0)
       [zero_event\<lparr>part_major := 0, part_minor := 14, partname := Some ''userdata''\<rparr>]
       ''/dev/block/platform/by-name/userdata'' = Some p \<and>
     uevent_realpath (0, 0)
       [zero_event\<lparr>part_major := 0, part_minor := 14, partname := Some ''userdata''\<rparr>] p = Some p"
proof -
  let ?t = "[zero_event\<lparr>part_major := 0, part_minor := 14, partname := Some ''userdata''\<rparr>]"
  have "get_blockinfo_for_path (0, 0) ?t ''/dev/block/platform/by-name/userdata'' \<noteq> None"
    by (simp add: get_blockinfo_for_path_def has_prefix_def basename_def event_matches_def)
  then obtain p where "uevent_realpath (0, 0) ?t ''/dev/block/platform/by-name/userdata'' = Some p"
    by (auto simp: uevent_realpath_def)
  with uevent_realpath_idem [OF this] show ?thesis by blast
qed

text \<open>A lookup by name also takes an entry whose partition numbers happen to be what two
  uninitialised variables hold, whatever the entry's name.\<close>

theorem by_name_lookup_indeterminate:
  assumes "contains path ''by-name''"
  shows "get_blockinfo_for_path (part_major e, part_minor e) (e # tbl) path = Some e"
  using assms by (simp add: get_blockinfo_for_path_def event_matches_def)

theorem by_name_lookup_indeterminate_witness:
  "get_blockinfo_for_path (0, 3)
     [zero_event\<lparr>part_minor := 3, partname := Some ''boot''\<rparr>] ''/dev/by-name/recovery'' \<noteq> None"
  using by_name_lookup_indeterminate [of "''/dev/by-name/recovery''"
      "zero_event\<lparr>part_minor := 3, partname := Some ''boot''\<rparr>" "[]"]
  by (simp add: has_prefix_def zero_event_def)

section \<open>The kernel's format\<close>

text \<open>A line of a uevent file, and a key or value that the parser takes as it stands.\<close>

definition uevent_text :: "(string \<times> string) list \<Rightarrow> string" where
  "uevent_text kvs = concat (map (\<lambda>(k, v). k @ ''='' @ v @ [NL]) kvs)"

definition plain_word :: "string \<Rightarrow> bool" where
  "plain_word s \<longleftrightarrow> s \<noteq> [] \<and> (\<forall>c\<in>set s. \<not> isspace c \<and> c \<noteq> NUL \<and> c \<noteq> CHR ''='')"

definition good_line :: "string \<times> string \<Rightarrow> bool" where
  "good_line kv \<longleftrightarrow> plain_word (fst kv) \<and> plain_word (snd kv) \<and> length (fst kv) + length (snd kv) < 126"

lemma plain_word_trim:
  assumes "plain_word s"
  shows "copy_trim s = s" "copy_trim (s @ [NL]) = s"
proof -
  have s: "s \<noteq> []" "\<not> isspace (hd s)" "\<not> isspace (last s)"
    using assms hd_in_set [of s] last_in_set [of s] by (auto simp: plain_word_def)
  show "copy_trim s = s" using copy_trim_clean [of "[]" s] s by simp
  show "copy_trim (s @ [NL]) = s" using copy_trim_clean [of "[NL]" s] s by (simp add: isspace_def)
qed

lemma fgets_all_text:
  "\<forall>kv\<in>set kvs. good_line kv \<Longrightarrow>
   fgets_all 127 (uevent_text kvs) = map (\<lambda>(k, v). k @ ''='' @ v @ [NL]) kvs"
proof (induction kvs)
  case Nil
  then show ?case by (simp add: uevent_text_def fgets_all.simps)
next
  case (Cons kv kvs)
  obtain k v where kv: "kv = (k, v)" by (cases kv)
  let ?l = "k @ ''='' @ v"
  have g: "plain_word k" "plain_word v" "length k + length v < 126"
    using Cons.prems by (simp_all add: kv good_line_def)
  have nl: "NL \<notin> set ?l" "NUL \<notin> set ?l" using g(1,2) by (auto simp: plain_word_def isspace_def)
  have t: "uevent_text (kv # kvs) = (?l @ [NL]) @ uevent_text kvs" by (simp add: uevent_text_def kv)
  have "takeWhile (\<lambda>c. c \<noteq> NL) (?l @ (NL # uevent_text kvs)) = ?l"
    by (rule takeWhile_append_stop) (use nl(1) in auto)
  then have tw: "takeWhile (\<lambda>c. c \<noteq> NL) ((?l @ [NL]) @ uevent_text kvs) = ?l"
    by (simp only: append_assoc append_Cons append_Nil)
  have p: "fgets_piece 127 ((?l @ [NL]) @ uevent_text kvs) = ?l @ [NL]"
    unfolding fgets_piece_def tw Let_def using g(3) by simp
  have c: "cstr (?l @ [NL]) = ?l @ [NL]" using nl(2) by (intro cstr_id) simp
  show ?case
    unfolding t fgets_all.simps [of 127 "(?l @ [NL]) @ uevent_text kvs"] p c
    using Cons by (simp add: kv)
qed


lemma uevent_line_field:
  assumes "plain_word k" and "plain_word v"
  shows "uevent_line (k @ ''='' @ v @ [NL]) e = Inr (set_field k v e)"
proof -
  have k: "k \<noteq> []" "\<forall>c\<in>set k. c \<notin> set ''=''" and v: "v \<noteq> []" "\<forall>c\<in>set v. c \<notin> set ''=''"
    using assms by (auto simp: plain_word_def)
  have n: "strtok_r ''='' (v @ [NL]) = Some (v @ [NL], [])" using v by (intro strtok_r_last) auto
  show ?thesis
    using strtok_r_append [OF k, of "CHR ''=''"] n plain_word_trim [OF assms(1)] plain_word_trim [OF assms(2)]
    by (simp add: uevent_line_def)
qed

lemma foldE_fields:
  "\<forall>kv\<in>set kvs. good_line kv \<Longrightarrow>
   foldE uevent_line (map (\<lambda>(k, v). k @ ''='' @ v @ [NL]) kvs) e =
     Inr (fold (\<lambda>(k, v). set_field k v) kvs e)"
proof (induction kvs arbitrary: e)
  case Nil
  then show ?case by simp
next
  case (Cons kv kvs)
  then show ?case using uevent_line_field by (cases kv) (auto simp: good_line_def)
qed

text \<open>The entry of an eMMC partition as the kernel writes it.\<close>

definition mmc_name :: "u32 \<Rightarrow> u32 \<Rightarrow> string" where
  "mmc_name dev part = ''mmcblk'' @ show_u32 dev @ ''p'' @ show_u32 part"

definition partition_event :: "nat \<Rightarrow> nat \<Rightarrow> u32 \<Rightarrow> u32 \<Rightarrow> string \<Rightarrow> (string \<times> string) list" where
  "partition_event maj mnr dev part name =
     [(''MAJOR'', show_nat maj), (''MINOR'', show_nat mnr), (''DEVNAME'', mmc_name dev part),
      (''DEVTYPE'', ''partition''), (''PARTN'', show_u32 part), (''PARTNAME'', name)]"

lemma sscanf_mmc_name: "sscanf mmcblk_format (mmc_name dev part) = [VUnsigned dev, VUnsigned part]"
proof -
  have p: "\<not> is_digit (CHR ''p'')" by (simp add: is_digit_def)
  have "scan_unsigned (show_u32 dev @ ''p'' @ show_u32 part) = Some (dev, ''p'' @ show_u32 part)"
    using p by (intro scan_unsigned_show_u32) simp
  moreover have "scan_unsigned (show_u32 part) = Some (part, [])"
    using scan_unsigned_show_u32 [of "[]" part] by simp
  ultimately show ?thesis by (simp add: mmcblk_format_def mmc_name_def lits_def)
qed

lemma plain_word_show_nat: "plain_word (show_nat n)"
  using show_nat_digits [of _ n] show_nat_not_space [of _ n]
  by (auto simp: plain_word_def is_digit_def)

lemma plain_word_append: "plain_word s \<Longrightarrow> plain_word t \<Longrightarrow> plain_word (s @ t)"
  by (auto simp: plain_word_def)

text \<open>C35. The parser reads back what the kernel writes for a partition: the device numbers,
  the names, the type, and the card and partition number from the device's name.\<close>

theorem parse_uevent_roundtrip:
  assumes "maj < 2147483648" and "mnr < 2147483648" and "plain_word name" and "length name < 100"
  shows "parse_uevent (uevent_text (partition_event maj mnr dev part name)) =
    Inr \<lparr>linux_major = of_nat maj, linux_minor = of_nat mnr, part_major = dev, part_minor = part,
         devname = Some (mmc_name dev part), partname = Some name, ev_type = UEVENT_TYPE_PARTITION\<rparr>"
proof -
  let ?kvs = "partition_event maj mnr dev part name"
  have l: "length (show_nat maj) \<le> 10" "length (show_nat mnr) \<le> 10"
    using assms(1,2) by (intro length_show_nat; simp)+
  have "plain_word ''mmcblk''" "plain_word ''p''" by (simp_all add: plain_word_def isspace_def)
  then have d: "plain_word (mmc_name dev part)"
    unfolding mmc_name_def show_u32_def using plain_word_show_nat by (intro plain_word_append)
  have good: "\<forall>kv\<in>set ?kvs. good_line kv"
    using d l assms(3,4) length_show_u32 [of dev] length_show_u32 [of part] plain_word_show_nat
    by (auto simp: partition_event_def good_line_def mmc_name_def show_u32_def plain_word_def isspace_def)
  show ?thesis
    unfolding parse_uevent_def fgets_all_text [OF good] foldE_fields [OF good]
    using assms(1,2)
    by (simp add: partition_event_def set_field_def getInt_show_nat zero_event_def mmc_numbers_def
        sscanf_mmc_name)
qed

theorem parse_uevent_roundtrip_witness:
  "parse_uevent (uevent_text (partition_event 179 14 0 14 ''userdata'')) =
    Inr \<lparr>linux_major = 179, linux_minor = 14, part_major = 0, part_minor = 14,
         devname = Some (mmc_name 0 14), partname = Some ''userdata'', ev_type = UEVENT_TYPE_PARTITION\<rparr>"
  using parse_uevent_roundtrip [of 179 14 "''userdata''" 0 14] by (simp add: plain_word_def isspace_def)

end
