(* ===== verification/Modules.thy ===== *)
theory Modules
  imports UtilPath Uevent
begin

text \<open>
  The module registry of src/modules.c and the data the modules share, include/modules.h.
\<close>

section \<open>Shared data\<close>

datatype bootmode = BOOTMODE_RECOVERY | BOOTMODE_ANDROID

datatype initstage = INITSTAGE_NONE | INITSTAGE_EARLY | INITSTAGE_FSTAB | INITSTAGE_TRACY

text \<open>The stages are ordered as the enumeration lists them.\<close>

primrec stage_nr :: "initstage \<Rightarrow> nat" where
  "stage_nr INITSTAGE_NONE = 0"
| "stage_nr INITSTAGE_EARLY = 1"
| "stage_nr INITSTAGE_FSTAB = 2"
| "stage_nr INITSTAGE_TRACY = 3"

lemma stage_nr_inj: "stage_nr x = stage_nr y \<Longrightarrow> x = y"
  by (cases x; cases y) simp_all

instantiation initstage :: linorder
begin

definition less_eq_initstage :: "initstage \<Rightarrow> initstage \<Rightarrow> bool" where
  "less_eq_initstage x y \<longleftrightarrow> stage_nr x \<le> stage_nr y"

definition less_initstage :: "initstage \<Rightarrow> initstage \<Rightarrow> bool" where
  "less_initstage x y \<longleftrightarrow> stage_nr x < stage_nr y"

instance
  by standard (auto simp: less_eq_initstage_def less_initstage_def dest: stage_nr_inj)

end

record module_data =
  init_stage :: initstage
  bootmode :: bootmode
  multiboot_enabled :: bool
  sndstage_enabled :: bool
  hw_name :: "string option"
  multiboot_path :: "string option"
  multiboot_device :: fstab_rec
  grub_path :: "string option"
  grub_device :: fstab_rec
  grub_blockinfo :: "sys_block_uevent option"
  multiboot_fstab :: "fstab option"
  target_fstabs :: "fstab list"
  block_info :: "sys_block_info option"

text \<open>The value after \<open>memset\<close>.\<close>

definition zero_data :: module_data where
  "zero_data = \<lparr>init_stage = INITSTAGE_NONE, bootmode = BOOTMODE_RECOVERY,
     multiboot_enabled = False, sndstage_enabled = False, hw_name = None,
     multiboot_path = None, multiboot_device = zero_rec, grub_path = None,
     grub_device = zero_rec, grub_blockinfo = None, multiboot_fstab = None,
     target_fstabs = [], block_info = None\<rparr>"

fun strbootmode :: "bootmode \<Rightarrow> string" where
  "strbootmode BOOTMODE_RECOVERY = ''RECOVERY''"
| "strbootmode BOOTMODE_ANDROID = ''ANDROID''"

section \<open>Modules\<close>

text \<open>
  A stage is a function on the program's state \<open>'s\<close>, or on a child's state \<open>'c\<close>, that
  returns an error number; a module may leave any of them NULL.
\<close>

type_synonym 's stage_fun = "'s \<Rightarrow> ub + (int \<times> 's)"

record ('s, 'c) module =
  early_init :: "'s stage_fun option"
  fstab_init :: "'s stage_fun option"
  tracy_init :: "'s stage_fun option"
  tracy_child_create :: "'c stage_fun option"
  tracy_child_destroy :: "'c stage_fun option"

definition MAX_MODULES :: nat where "MAX_MODULES = 64"

text \<open>\<open>modules\<close> as the list of the first \<open>modules_count\<close> slots. Nothing checks the bound.\<close>

definition module_register :: "'m \<Rightarrow> 'm list \<Rightarrow> ub + 'm list" where
  "module_register m modules =
     (if length modules < MAX_MODULES then Inr (modules @ [m]) else Inl Out_Of_Bounds)"

fun modules_call :: "('m \<Rightarrow> 's stage_fun option) \<Rightarrow> 'm option list \<Rightarrow> 's stage_fun" where
  "modules_call stage [] s = Inr (0, s)"
| "modules_call stage (None # ms) s = modules_call stage ms s"
| "modules_call stage (Some m # ms) s =
     (case stage m of
        None \<Rightarrow> modules_call stage ms s
      | Some f \<Rightarrow> bindE (f s) (\<lambda>(rc, s). if rc = 0 then modules_call stage ms s else Inr (rc, s)))"

definition modules_call_early_init :: "('s, 'c) module option list \<Rightarrow> 's stage_fun" where
  "modules_call_early_init = modules_call early_init"

definition modules_call_fstab_init :: "('s, 'c) module option list \<Rightarrow> 's stage_fun" where
  "modules_call_fstab_init = modules_call fstab_init"

definition modules_call_tracy_init :: "('s, 'c) module option list \<Rightarrow> 's stage_fun" where
  "modules_call_tracy_init = modules_call tracy_init"

definition modules_call_tracy_child_create :: "('s, 'c) module option list \<Rightarrow> 'c stage_fun" where
  "modules_call_tracy_child_create = modules_call tracy_child_create"

definition modules_call_tracy_child_destroy :: "('s, 'c) module option list \<Rightarrow> 'c stage_fun" where
  "modules_call_tracy_child_destroy = modules_call tracy_child_destroy"

section \<open>Facts\<close>

lemma register_all:
  "foldE module_register ms modules =
     (if length modules + length ms \<le> MAX_MODULES \<or> ms = [] then Inr (modules @ ms)
      else Inl Out_Of_Bounds)"
proof (induction ms arbitrary: modules)
  case Nil
  then show ?case by simp
next
  case (Cons m ms)
  then show ?case by (auto simp: module_register_def Suc_le_eq)
qed

text \<open>The loop is a bind chain: what follows runs only after a return of 0.\<close>

lemma modules_call_append:
  "modules_call stage (ms @ ns) s =
     bindE (modules_call stage ms s)
       (\<lambda>(rc, s). if rc = 0 then modules_call stage ns s else Inr (rc, s))"
proof (induction stage ms s rule: modules_call.induct)
  case (3 stage m ms s)
  then show ?case
    by (cases "stage m"; cases "the (stage m) s") (auto simp: split_beta)
qed auto

text \<open>An invariant that every registered stage keeps is kept by the calls.\<close>

lemma modules_call_inv:
  assumes "modules_call stage ms s = Inr (v, s')" and "I s"
    and "\<And>m f s v s'. Some m \<in> set ms \<Longrightarrow> stage m = Some f \<Longrightarrow> I s \<Longrightarrow> f s = Inr (v, s') \<Longrightarrow> I s'"
  shows "I s'"
  using assms
proof (induction ms arbitrary: s)
  case Nil
  then show ?case by simp
next
  case (Cons mo ms)
  have sub: "I t'" if "Some m \<in> set ms" "stage m = Some f" "I t" "f t = Inr (u, t')" for m f t u t'
    using Cons.prems(3) [OF _ that(2-4)] that(1) by simp
  have rest: "I s'" if "modules_call stage ms t = Inr (v, s')" "I t" for t
    using Cons.IH [OF that] sub by blast
  show ?case
  proof (cases "\<exists>m f. mo = Some m \<and> stage m = Some f")
    case False
    then have "modules_call stage (mo # ms) s = modules_call stage ms s"
      by (cases mo) (auto split: option.split)
    then show ?thesis using Cons.prems(1,2) rest by simp
  next
    case True
    then obtain m f where m: "mo = Some m" "stage m = Some f" by blast
    with Cons.prems(1) obtain v1 s1 where f: "f s = Inr (v1, s1)"
      and r: "(if v1 = 0 then modules_call stage ms s1 else Inr (v1, s1)) = Inr (v, s')"
      by auto
    have I: "I s1" by (rule Cons.prems(3) [OF _ m(2) Cons.prems(2) f]) (simp add: m)
    with r rest show ?thesis by (auto split: if_splits)
  qed
qed

section \<open>Properties\<close>

text \<open>The calls of a stage end with the first module that fails: its result is the result,
  and no later module is called.\<close>

theorem modules_call_stops:
  assumes "modules_call stage ms s = Inr (0, s1)" and "stage m = Some f" and "f s1 = Inr (v, s2)"
    and "v \<noteq> 0"
  shows "modules_call stage (ms @ Some m # ns) s = Inr (v, s2)"
  using assms by (simp add: modules_call_append)

theorem modules_call_stops_witness:
  "modules_call id [Some (Some (\<lambda>n. Inr (0, n + 1))), None, Some None, Some (Some (\<lambda>n. Inr (7, n))),
     Some (Some (\<lambda>n. Inl Null_Deref))] (0 :: nat) = Inr (7, 1)"
  using modules_call_stops [of id "[Some (Some (\<lambda>n. Inr (0, n + 1))), None, Some None]" "0 :: nat" 1
      "Some (\<lambda>n. Inr (7, n))" "\<lambda>n. Inr (7, n)" 7 1 "[Some (Some (\<lambda>n. Inl Null_Deref))]"]
  by simp

text \<open>Registration stays within the array exactly when no more than 64 modules register.\<close>

lemma register_bound:
  "foldE module_register ms [] =
     (if length ms \<le> 64 then Inr ms else Inl Out_Of_Bounds)"
  using register_all [of ms "[]"] by (simp add: MAX_MODULES_def)

end
