(* ===== verification/Redirection.thy ===== *)
theory Redirection
  imports ExtFs Modules
begin

text \<open>
  The redirection of file accesses, src/modules/fs_redirection.c: the hooks that run before
  and after a traced system call, the table of system calls with a path argument, and the
  files whose close is checked for a format.
\<close>

section \<open>Parameters\<close>

text \<open>
  The list of open files is a \<open>tracy_ll\<close> of the tracy library, so its operations are a
  parameter, as are the numbers of the system calls and the content of fresh heap blocks.
\<close>

record 'l tracer =
  env :: os
  nr :: "string \<Rightarrow> int"
  ll_init :: "'l option"
  ll_find :: "'l \<Rightarrow> int \<Rightarrow> fd_info option"
  ll_add :: "'l \<Rightarrow> int \<Rightarrow> fd_info \<Rightarrow> 'l"
  ll_del :: "'l \<Rightarrow> int \<Rightarrow> 'l"
  ll_items :: "'l \<Rightarrow> (int \<times> fd_info) list"
  fresh_block :: string

text \<open>What the library documents of the list: the data added under a number is found again.\<close>

definition ll_laws :: "'l tracer \<Rightarrow> bool" where
  "ll_laws T \<longleftrightarrow>
     (\<forall>l fd fdi. ll_find T (ll_add T l fd fdi) fd = Some fdi) \<and>
     (\<forall>l fd fd' fdi. fd' \<noteq> fd \<longrightarrow> ll_find T (ll_add T l fd fdi) fd' = ll_find T l fd') \<and>
     (\<forall>l fd. ll_find T (ll_del T l fd) fd = None) \<and>
     (\<forall>l fd fd'. fd' \<noteq> fd \<longrightarrow> ll_find T (ll_del T l fd) fd' = ll_find T l fd') \<and>
     (\<forall>l. ll_init T = Some l \<longrightarrow> (\<forall>fd. ll_find T l fd = None))"

section \<open>Events and children\<close>

datatype hook_rc = HOOK_CONTINUE | HOOK_ABORT

record event =
  syscall_num :: int
  args :: sc_args
  pre_syscall :: bool

text \<open>\<open>struct multiboot_child_data\<close>; an address of 0 is NULL.\<close>

record 'l child_data =
  memory :: u32
  tmp :: "string option"
  files :: "'l option"
  handled_by_open :: bool

text \<open>The argument words as the array that starts at \<open>a0\<close>.\<close>

fun arg_nth :: "nat \<Rightarrow> sc_args \<Rightarrow> u32" where
  "arg_nth 0 a = a0 a"
| "arg_nth (Suc 0) a = a1 a"
| "arg_nth (Suc (Suc 0)) a = a2 a"
| "arg_nth (Suc (Suc (Suc 0))) a = a3 a"
| "arg_nth (Suc (Suc (Suc (Suc 0)))) a = a4 a"
| "arg_nth _ a = a5 a"

fun arg_set :: "nat \<Rightarrow> u32 \<Rightarrow> sc_args \<Rightarrow> sc_args" where
  "arg_set 0 v a = a\<lparr>a0 := v\<rparr>"
| "arg_set (Suc 0) v a = a\<lparr>a1 := v\<rparr>"
| "arg_set (Suc (Suc 0)) v a = a\<lparr>a2 := v\<rparr>"
| "arg_set (Suc (Suc (Suc 0))) v a = a\<lparr>a3 := v\<rparr>"
| "arg_set (Suc (Suc (Suc (Suc 0)))) v a = a\<lparr>a4 := v\<rparr>"
| "arg_set _ v a = a\<lparr>a5 := v\<rparr>"

lemma arg_nth_set [simp]: "arg_nth n (arg_set n v a) = v"
  by (cases "(n, a)" rule: arg_nth.cases) auto

section \<open>The table of system calls\<close>

record redirect_info =
  syscall_name :: string
  argnum :: nat
  resolve_symlinks :: bool
  syscall_number :: int
  atflags :: int

definition entry :: "string \<Rightarrow> nat \<Rightarrow> bool \<Rightarrow> int \<Rightarrow> int \<Rightarrow> redirect_info" where
  "entry name arg resolve number at =
     \<lparr>syscall_name = name, argnum = arg, resolve_symlinks = resolve, syscall_number = number,
      atflags = at\<rparr>"

definition info :: "redirect_info list" where
  "info =
    [entry ''stat'' 0 True 0 (- 1),
     entry ''lstat'' 0 False 0 (- 1),
     entry ''newstat'' 0 True 0 (- 1),
     entry ''newlstat'' 0 False 0 (- 1),
     entry ''stat64'' 0 True 0 (- 1),
     entry ''lstat64'' 0 False 0 (- 1),
     entry ''chmod'' 0 False 0 (- 1),
     entry ''open'' 0 True 1 (- 1),
     entry ''access'' 0 False 0 (- 1),
     entry ''chown'' 0 True 0 (- 1),
     entry ''lchown'' 0 False 0 (- 1),
     entry ''chown16'' 0 True 0 (- 1),
     entry ''lchown16'' 0 False 0 (- 1),
     entry ''utime'' 0 False 0 (- 1),
     entry ''utimes'' 0 False 0 (- 1),
     entry ''futimesat'' 1 False 0 (- 1),
     entry ''faccessat'' 1 False 0 3,
     entry ''fchmodat'' 1 False 0 3,
     entry ''fchownat'' 1 False 0 4,
     entry ''openat'' 1 False 1 (- 1),
     entry ''newfstatat'' 1 True 0 3,
     entry ''fstatat64'' 1 True 0 3,
     entry ''utimensat'' 1 False 0 3]"

text \<open>
  Whether the path's symbolic links are resolved. The flags of \<open>openat\<close> are its third
  argument, \<open>a2\<close>; the code reads the fourth, the mode.
\<close>

definition resolves :: "'l tracer \<Rightarrow> redirect_info \<Rightarrow> event \<Rightarrow> bool" where
  "resolves T i e =
     (let r = (if 0 \<le> atflags i
               then arg_nth (nat (atflags i)) (args e) AND AT_SYMLINK_NOFOLLOW = 0
               else resolve_symlinks i)
      in if syscall_num e = nr T ''open'' then a1 (args e) AND O_NOFOLLOW = 0
         else if syscall_num e = nr T ''openat'' then a3 (args e) AND O_NOFOLLOW = 0
         else r)"

section \<open>Matching a path with an fstab record\<close>

text \<open>\<open>sb\<close> is the device number \<open>stat\<close> delivered for the path, or \<open>None\<close> when it failed.\<close>

definition fstab_rec_matches :: "string \<Rightarrow> fstab_rec \<Rightarrow> dev option \<Rightarrow> ub + bool" where
  "fstab_rec_matches dn r sb =
     (if sb = Some (stat_rdev r) then Inr True
      else bindE (deref (blk_device r)) (\<lambda>blk. Inr (dn = blk)))"

fun find_multiboot_rec :: "string \<Rightarrow> dev option \<Rightarrow> fstab_rec list \<Rightarrow> ub + fstab_rec option" where
  "find_multiboot_rec dn sb [] = Inr None"
| "find_multiboot_rec dn sb (r # rs) =
     (if fs_mgr_is_multiboot r = 0 then find_multiboot_rec dn sb rs
      else bindE (fstab_rec_matches dn r sb)
        (\<lambda>m. if m then Inr (Some r) else find_multiboot_rec dn sb rs))"

definition match_rec :: "module_data \<Rightarrow> string \<Rightarrow> dev option \<Rightarrow> ub + fstab_rec option" where
  "match_rec d dn sb =
     bindE (if multiboot_path d = None then Inr False
            else fstab_rec_matches dn (multiboot_device d) sb) (\<lambda>m.
     if m then Inr (Some (multiboot_device d))
     else
       bindE (if grub_path d = None then Inr False
              else fstab_rec_matches dn (grub_device d) sb) (\<lambda>m.
       if m then Inr (Some (grub_device d))
       else bindE (deref (multiboot_fstab d)) (\<lambda>fs.
              find_multiboot_rec dn sb (take (num_entries fs) (recs fs)))))"

definition get_fstab_rec :: "os \<Rightarrow> module_data \<Rightarrow> string \<Rightarrow> world \<Rightarrow> ub + (fstab_rec option \<times> world)" where
  "get_fstab_rec os d dn w =
     (let (r, w) = sys os (Path (Stat dn)) w;
          sb = (if rc r = 0 then Some (rdev r) else None)
      in bindE (match_rec d dn sb) (\<lambda>m. Inr (m, w)))"

section \<open>Open files\<close>

definition make_fdinfo ::
  "'l tracer \<Rightarrow> module_data \<Rightarrow> int \<Rightarrow> string \<Rightarrow> world \<Rightarrow> ub + (fd_info \<times> world)" where
  "make_fdinfo T d fd name w =
     bindE (get_fstab_rec (env T) d name w) (\<lambda>(m, w).
     bindE (case m of
              None \<Rightarrow> Inr (blank_fdinfo fd name, w)
            | Some r \<Rightarrow>
                bindE (deref (stub_device r)) (\<lambda>stub.
                let (t, w) = get_fstype (env T) stub w
                in Inr ((blank_fdinfo fd name)\<lparr>device := Some stub,
                          fdi_fs_type := Some (fstype_or_ext4 t)\<rparr>, w))) (\<lambda>(fdi, w).
     fs_pre (env T) (fresh_block T) fdi w))"

text \<open>\<open>free_fdinfo\<close> starts with \<open>fs_cleanup\<close>, which dereferences the type; the rest is \<open>free\<close>.\<close>

definition free_fdinfo :: "fd_info \<Rightarrow> ub + unit" where
  "free_fdinfo fdi = bindE (fs_cleanup fdi) (\<lambda>_. Inr ())"

definition free_fdinfo_list :: "'l tracer \<Rightarrow> 'l option \<Rightarrow> ub + unit" where
  "free_fdinfo_list T l =
     bindE (deref l) (\<lambda>l. foldE (\<lambda>(_, fdi) _. free_fdinfo fdi) (ll_items T l) ())"

section \<open>Properties\<close>

text \<open>The records a path is compared with, in the order of the comparisons.\<close>

definition candidates :: "module_data \<Rightarrow> fstab \<Rightarrow> fstab_rec list" where
  "candidates d f =
     (if multiboot_path d \<noteq> None then [multiboot_device d] else []) @
     (if grub_path d \<noteq> None then [grub_device d] else []) @
     filter (\<lambda>r. fs_mgr_is_multiboot r \<noteq> 0) (take (num_entries f) (recs f))"

definition names_device :: "string \<Rightarrow> dev option \<Rightarrow> fstab_rec \<Rightarrow> bool" where
  "names_device dn sb r \<longleftrightarrow> sb = Some (stat_rdev r) \<or> blk_device r = Some dn"

lemma fstab_rec_matches_eq:
  "blk_device r \<noteq> None \<Longrightarrow> fstab_rec_matches dn r sb = Inr (names_device dn sb r)"
  by (auto simp: fstab_rec_matches_def names_device_def)

lemma find_multiboot_rec_eq:
  "\<forall>r\<in>set rs. blk_device r \<noteq> None \<Longrightarrow>
   find_multiboot_rec dn sb rs =
     Inr (find (names_device dn sb) (filter (\<lambda>r. fs_mgr_is_multiboot r \<noteq> 0) rs))"
  by (induction rs) (auto simp: fstab_rec_matches_eq)

text \<open>C3. A path is redirected by the first record that has its device number or its name: the
  source partition, the grub partition and then the multiboot records of the fstab.\<close>

theorem match_rec_first:
  assumes "multiboot_fstab d = Some f" and "blk_device (multiboot_device d) \<noteq> None"
    and "blk_device (grub_device d) \<noteq> None" and "\<forall>r\<in>set (recs f). blk_device r \<noteq> None"
  shows "match_rec d dn sb = Inr (find (names_device dn sb) (candidates d f))"
proof -
  have "\<forall>r\<in>set (take (num_entries f) (recs f)). blk_device r \<noteq> None"
    using assms(4) by (auto dest: in_set_takeD)
  with assms(1-3) show ?thesis
    by (auto simp: match_rec_def candidates_def find_multiboot_rec_eq fstab_rec_matches_eq)
qed

theorem match_rec_first_witness:
  "match_rec (zero_data\<lparr>multiboot_path := Some ''/mb'',
       multiboot_device := zero_rec\<lparr>blk_device := Some ''/dev/a'', stat_rdev := (179, 1)\<rparr>,
       grub_device := zero_rec\<lparr>blk_device := Some ''/dev/b''\<rparr>,
       multiboot_fstab := Some \<lparr>num_entries = 0, recs = [], fstab_filename = [], twrp = False\<rparr>\<rparr>)
     ''/dev/alias'' (Some (179, 1)) =
   Inr (Some (zero_rec\<lparr>blk_device := Some ''/dev/a'', stat_rdev := (179, 1)\<rparr>))"
proof -
  let ?f = "\<lparr>num_entries = 0, recs = [], fstab_filename = [], twrp = False\<rparr>"
  let ?d = "zero_data\<lparr>multiboot_path := Some ''/mb'',
       multiboot_device := zero_rec\<lparr>blk_device := Some ''/dev/a'', stat_rdev := (179, 1)\<rparr>,
       grub_device := zero_rec\<lparr>blk_device := Some ''/dev/b''\<rparr>, multiboot_fstab := Some ?f\<rparr>"
  have "match_rec ?d ''/dev/alias'' (Some (179, 1)) =
      Inr (find (names_device ''/dev/alias'' (Some (179, 1))) (candidates ?d ?f))"
    by (rule match_rec_first) simp_all
  then show ?thesis by (simp add: candidates_def names_device_def zero_data_def)
qed

text \<open>A record whose device is in no block table keeps the device number 0, which is also
  that of every regular file: with such a source partition every file that exists is taken
  for it.\<close>

theorem regular_file_matches:
  assumes "multiboot_path d \<noteq> None" and "stat_rdev (multiboot_device d) = (0, 0)"
    and "rc (os (trail w) (Path (Stat path))) = 0" and "rdev (os (trail w) (Path (Stat path))) = (0, 0)"
  shows "get_fstab_rec os d path w = Inr (Some (multiboot_device d), snd (sys os (Path (Stat path)) w))"
proof -
  obtain mp where "multiboot_path d = Some mp" using assms(1) by auto
  then have "match_rec d path (Some (0, 0)) = Inr (Some (multiboot_device d))"
    using assms(1,2) by (simp add: match_rec_def fstab_rec_matches_def del: bindE_eq_Inr)
  with assms(3,4) show ?thesis by (simp add: get_fstab_rec_def Let_def split_beta)
qed

theorem regular_file_matches_witness:
  "get_fstab_rec (\<lambda>_ _. ok_reply 0) (zero_data\<lparr>multiboot_path := Some ''/mb''\<rparr>) ''/etc/hosts''
     initial_world =
   Inr (Some zero_rec, snd (sys (\<lambda>_ _. ok_reply 0) (Path (Stat ''/etc/hosts'')) initial_world))"
  using regular_file_matches [of "zero_data\<lparr>multiboot_path := Some ''/mb''\<rparr>" "\<lambda>_ _. ok_reply 0"
      initial_world "''/etc/hosts''"]
  by (simp add: zero_data_def zero_rec_def)

end
