(* ===== verification/Hooks.thy ===== *)
theory Hooks
  imports Redirection
begin

text \<open>
  The hooks of src/modules/fs_redirection.c. The tracer calls a hook before the system call
  (\<open>pre_syscall\<close>) and again after it; what the first call leaves in the child's data is
  what the second works on. A result \<open>Inl\<close> is a crash of the tracer.
\<close>

type_synonym 'l hook_result = "ub + (hook_rc \<times> 'l child_data \<times> world)"

section \<open>open and openat\<close>

definition hook_open_pre ::
  "'l tracer \<Rightarrow> module_data \<Rightarrow> event \<Rightarrow> nat \<Rightarrow> bool \<Rightarrow> 'l child_data \<Rightarrow> world \<Rightarrow> 'l hook_result" where
  "hook_open_pre T d e argpos res mbc w =
     (if arg_nth (argpos + 1) (args e) AND O_ACCMODE = O_RDONLY then Inr (HOOK_CONTINUE, mbc, w)
      else
        bindE (get_patharg (env T) (arg_nth argpos (args e)) res w) (\<lambda>(p, w).
        case p of
          None \<Rightarrow> Inr (HOOK_ABORT, mbc, w)
        | Some path \<Rightarrow>
            bindE (get_fstab_rec (env T) d path w) (\<lambda>(m, w).
            case m of
              None \<Rightarrow> Inr (HOOK_CONTINUE, mbc, w)
            | Some r \<Rightarrow>
                if \<not> replacement_bind r then Inr (HOOK_CONTINUE, mbc, w)
                else
                  let (_, w) = check_fs_nomount (env T) (stub_device r) w
                  in Inr (HOOK_CONTINUE, mbc\<lparr>handled_by_open := True, tmp := Some path\<rparr>, w))))"

text \<open>The part the second calls of open and dup share: record the new descriptor.\<close>

definition record_fd ::
  "'l tracer \<Rightarrow> module_data \<Rightarrow> int \<Rightarrow> string \<Rightarrow> 'l child_data \<Rightarrow> world \<Rightarrow> ub + ('l child_data \<times> world)" where
  "record_fd T d fd name mbc w =
     (if fd < 0 then Inr (mbc, w)
      else
        bindE (make_fdinfo T d fd name w) (\<lambda>(fdi, w).
        bindE (deref (files mbc)) (\<lambda>l. Inr (mbc\<lparr>files := Some (ll_add T l fd fdi)\<rparr>, w))))"

definition hook_open_post ::
  "'l tracer \<Rightarrow> module_data \<Rightarrow> event \<Rightarrow> 'l child_data \<Rightarrow> world \<Rightarrow> 'l hook_result" where
  "hook_open_post T d e mbc w =
     bindE (case (handled_by_open mbc, tmp mbc) of
              (True, Some name) \<Rightarrow>
                bindE (record_fd T d (return_code (args e)) name mbc w)
                  (\<lambda>(mbc, w). Inr (mbc\<lparr>tmp := None\<rparr>, w))
            | _ \<Rightarrow> Inr (mbc, w))
       (\<lambda>(mbc, w). Inr (HOOK_CONTINUE, mbc\<lparr>handled_by_open := False\<rparr>, w))"

definition hook_open ::
  "'l tracer \<Rightarrow> module_data \<Rightarrow> event \<Rightarrow> nat \<Rightarrow> bool \<Rightarrow> 'l child_data \<Rightarrow> world \<Rightarrow> 'l hook_result" where
  "hook_open T d e argpos res mbc w =
     (if pre_syscall e then hook_open_pre T d e argpos res mbc w
      else hook_open_post T d e mbc w)"

section \<open>Redirection\<close>

text \<open>
  The end of a redirection, common to \<open>redirect_file_access\<close> and \<open>hook_mount\<close>: the new
  path is copied into the child and the arguments that name it are written. A copy that is
  not used is unmapped again.
\<close>

definition rewrite_args ::
  "'l tracer \<Rightarrow> string option \<Rightarrow> (u32 \<Rightarrow> sc_args) \<Rightarrow> 'l child_data \<Rightarrow> world \<Rightarrow> 'l hook_result" where
  "rewrite_args T replacement new_args mbc w =
     bindE (deref replacement) (\<lambda>path.
     let (a, w) = copy_patharg (env T) path w in
     if a = 0 then Inr (HOOK_ABORT, mbc, w)
     else
       let (r, w) = sys (env T) (Tracy (Modify_Args (new_args a))) w in
       if rc r \<noteq> 0 then Inr (HOOK_ABORT, mbc, free_patharg (env T) a w)
       else Inr (HOOK_CONTINUE, mbc\<lparr>memory := a\<rparr>, w))"

definition free_memory :: "'l tracer \<Rightarrow> 'l child_data \<Rightarrow> world \<Rightarrow> 'l hook_result" where
  "free_memory T mbc w =
     (if memory mbc = 0 then Inr (HOOK_CONTINUE, mbc, w)
      else Inr (HOOK_CONTINUE, mbc\<lparr>memory := 0\<rparr>, free_patharg (env T) (memory mbc) w))"

definition redirect_pre ::
  "'l tracer \<Rightarrow> module_data \<Rightarrow> event \<Rightarrow> nat \<Rightarrow> bool \<Rightarrow> 'l child_data \<Rightarrow> world \<Rightarrow> 'l hook_result" where
  "redirect_pre T d e argpos res mbc w =
     bindE (get_patharg (env T) (arg_nth argpos (args e)) res w) (\<lambda>(p, w).
     case p of
       None \<Rightarrow> Inr (HOOK_ABORT, mbc, w)
     | Some path \<Rightarrow>
         bindE (get_fstab_rec (env T) d path w) (\<lambda>(m, w).
         case m of
           None \<Rightarrow> Inr (HOOK_CONTINUE, mbc, w)
         | Some r \<Rightarrow>
             let (link, w) = (if res then (False, w)
                              else let (s, w) = sys (env T) (Path (Lstat path)) w
                                   in (rc s = 0 \<and> is_lnk s, w))
             in if link then Inr (HOOK_CONTINUE, mbc, w)
                else rewrite_args T
                       (if replacement_bind r then stub_device r else replacement_device r)
                       (\<lambda>a. arg_set argpos a (args e)) mbc w))"

definition redirect_file_access ::
  "'l tracer \<Rightarrow> module_data \<Rightarrow> event \<Rightarrow> nat \<Rightarrow> bool \<Rightarrow> 'l child_data \<Rightarrow> world \<Rightarrow> 'l hook_result" where
  "redirect_file_access T d e argpos res mbc w =
     bindE (if syscall_num e = nr T ''open'' \<or> syscall_num e = nr T ''openat''
            then hook_open T d e argpos res mbc w
            else Inr (HOOK_CONTINUE, mbc, w)) (\<lambda>(v, mbc, w).
     if v \<noteq> HOOK_CONTINUE then Inr (v, mbc, w)
     else if pre_syscall e then redirect_pre T d e argpos res mbc w
     else free_memory T mbc w)"

definition hook_fileaccess ::
  "'l tracer \<Rightarrow> module_data \<Rightarrow> redirect_info list \<Rightarrow> event \<Rightarrow> 'l child_data \<Rightarrow> world \<Rightarrow> 'l hook_result" where
  "hook_fileaccess T d table e mbc w =
     (case find (\<lambda>i. syscall_number i = syscall_num e) table of
        Some i \<Rightarrow> redirect_file_access T d e (argnum i) (resolves T i e) mbc w
      | None \<Rightarrow> Inr (HOOK_ABORT, mbc, w))"

section \<open>close, dup, fcntl\<close>

definition hook_close ::
  "'l tracer \<Rightarrow> module_data \<Rightarrow> event \<Rightarrow> 'l child_data \<Rightarrow> world \<Rightarrow> 'l hook_result" where
  "hook_close T d e mbc w =
     (if \<not> pre_syscall e then Inr (HOOK_CONTINUE, mbc, w)
      else
        let fd = sint (a0 (args e)) in
        bindE (deref (files mbc)) (\<lambda>l.
        case ll_find T l fd of
          None \<Rightarrow> Inr (HOOK_CONTINUE, mbc, w)
        | Some fdi \<Rightarrow>
            bindE (fs_was_format (env T) fdi w) (\<lambda>(fmt, w).
            bindE (if \<not> fmt then Inr w
                   else bindE (get_fstab_rec (env T) d (filename fdi) w) (\<lambda>(m, w).
                     case m of
                       None \<Rightarrow> Inr w
                     | Some r \<Rightarrow>
                         Inr (snd (format_path (env T)
                           (snprintf PATH_MAX (printf_s (replacement_device r) @ ''/*'')) w))))
              (\<lambda>w. bindE (free_fdinfo fdi) (\<lambda>_.
                 Inr (HOOK_CONTINUE, mbc\<lparr>files := Some (ll_del T l fd)\<rparr>, w))))))"

text \<open>After a dup the file's entry is made twice; the first one is dropped.\<close>

definition hook_dup ::
  "'l tracer \<Rightarrow> module_data \<Rightarrow> event \<Rightarrow> 'l child_data \<Rightarrow> world \<Rightarrow> 'l hook_result" where
  "hook_dup T d e mbc w =
     (if pre_syscall e then
        bindE (deref (files mbc)) (\<lambda>l.
        case ll_find T l (sint (a0 (args e))) of
          None \<Rightarrow> Inr (HOOK_CONTINUE, mbc, w)
        | Some fdi \<Rightarrow> Inr (HOOK_CONTINUE, mbc\<lparr>tmp := Some (filename fdi)\<rparr>, w))
      else
        (case tmp mbc of
           None \<Rightarrow> Inr (HOOK_CONTINUE, mbc, w)
         | Some name \<Rightarrow>
             let fd = return_code (args e) in
             bindE (if fd < 0 then Inr (mbc, w)
                    else bindE (make_fdinfo T d fd name w)
                           (\<lambda>(_, w). record_fd T d fd name mbc w))
               (\<lambda>(mbc, w). Inr (HOOK_CONTINUE, mbc\<lparr>tmp := None\<rparr>, w))))"

definition hook_fcntl ::
  "'l tracer \<Rightarrow> event \<Rightarrow> 'l child_data \<Rightarrow> world \<Rightarrow> 'l hook_result" where
  "hook_fcntl T e mbc w =
     (if \<not> pre_syscall e then Inr (HOOK_CONTINUE, mbc, w)
      else
        bindE (deref (files mbc)) (\<lambda>l.
        Inr (if ll_find T l (sint (a0 (args e))) = None then HOOK_CONTINUE else HOOK_ABORT, mbc, w)))"

section \<open>mount\<close>

definition mount_args :: "fstab_rec \<Rightarrow> sc_args \<Rightarrow> u32 \<Rightarrow> sc_args" where
  "mount_args r a addr =
     (let a = a\<lparr>a0 := addr\<rparr>
      in if replacement_bind r then a\<lparr>a2 := 0, a3 := a3 a OR MS_BIND\<rparr> else a)"

definition hook_mount ::
  "'l tracer \<Rightarrow> module_data \<Rightarrow> fstab_rec option \<Rightarrow> event \<Rightarrow> 'l child_data \<Rightarrow> world \<Rightarrow> 'l hook_result" where
  "hook_mount T d asec_rec e mbc w =
     (if \<not> pre_syscall e then free_memory T mbc w
      else
        bindE (get_patharg (env T) (a0 (args e)) True w) (\<lambda>(p, w).
        case p of
          None \<Rightarrow> Inr (HOOK_ABORT, mbc, w)
        | Some dn \<Rightarrow>
            bindE (get_patharg (env T) (a1 (args e)) True w) (\<lambda>(p, w).
            case p of
              None \<Rightarrow> Inr (HOOK_ABORT, mbc, w)
            | Some mp \<Rightarrow>
                bindE (if mp = ''/mnt/secure/asec''
                       then bindE (deref asec_rec) (\<lambda>r. Inr (Some r, w))
                       else get_fstab_rec (env T) d dn w) (\<lambda>(m, w).
                case m of
                  None \<Rightarrow> Inr (HOOK_CONTINUE, mbc, w)
                | Some r \<Rightarrow> rewrite_args T (replacement_device r) (mount_args r (args e)) mbc w))))"

section \<open>Setup\<close>

text \<open>
  The numbers are filled in and the hooks set; the first hook that cannot be set ends the
  setup with -1. The result holds the table and \<open>asec_rec\<close>.
\<close>

fun hook_table :: "'l tracer \<Rightarrow> redirect_info list \<Rightarrow> world \<Rightarrow> bool \<times> redirect_info list \<times> world" where
  "hook_table T [] w = (True, [], w)"
| "hook_table T (i # is) w =
     (let i = i\<lparr>syscall_number := nr T (syscall_name i)\<rparr>;
          (r, w) = sys (env T) (Tracy (Set_Hook (syscall_name i) ''hook_fileaccess'')) w in
      if rc r \<noteq> 0 then (False, i # is, w)
      else let (ok, is, w) = hook_table T is w in (ok, i # is, w))"

fun set_hooks :: "'l tracer \<Rightarrow> (string \<times> string) list \<Rightarrow> world \<Rightarrow> bool \<times> world" where
  "set_hooks T [] w = (True, w)"
| "set_hooks T ((call, hook) # hs) w =
     (let (r, w) = sys (env T) (Tracy (Set_Hook call hook)) w in
      if rc r \<noteq> 0 then (False, w) else set_hooks T hs w)"

definition other_hooks :: "(string \<times> string) list" where
  "other_hooks =
     [(''close'', ''hook_close''), (''dup'', ''hook_dup''), (''dup2'', ''hook_dup''),
      (''dup3'', ''hook_dup''), (''fcntl'', ''hook_fcntl''), (''fcntl64'', ''hook_fcntl''),
      (''mount'', ''hook_mount'')]"

definition make_asec_rec :: "module_data \<Rightarrow> fstab_rec" where
  "make_asec_rec d =
     zero_rec\<lparr>replacement_bind := False,
       replacement_device := Some (snprintf PATH_MAX
         (''/multiboot/mnt/source'' @ printf_s (multiboot_path d) @ ''/android_secure''))\<rparr>"

definition fsr_tracy_init ::
  "'l tracer \<Rightarrow> module_data \<Rightarrow> redirect_info list \<times> fstab_rec option \<Rightarrow> world
     \<Rightarrow> int \<times> (redirect_info list \<times> fstab_rec option) \<times> world" where
  "fsr_tracy_init T d st w =
     (let (table, asec) = st; (ok, table, w) = hook_table T table w in
      if \<not> ok then (- 1, (table, asec), w)
      else
        let (ok, w) = set_hooks T other_hooks w in
        if \<not> ok then (- 1, (table, asec), w)
        else
          let asec = make_asec_rec d; dir = printf_s (replacement_device asec);
              (_, w) = mkpath (env T) 504 dir w;
              (_, w) = sys (env T) (Path (Chown dir 1023 1023)) w
          in (0, (table, Some asec), w))"

definition fsr_tracy_child_create :: "'l tracer \<Rightarrow> 'l child_data \<Rightarrow> int \<times> 'l child_data" where
  "fsr_tracy_child_create T mbc =
     (let mbc = mbc\<lparr>files := ll_init T\<rparr> in (if files mbc = None then - 1 else 0, mbc))"

definition fsr_tracy_child_destroy :: "'l tracer \<Rightarrow> 'l child_data \<Rightarrow> ub + (int \<times> 'l child_data)" where
  "fsr_tracy_child_destroy T mbc =
     bindE (free_fdinfo_list T (files mbc)) (\<lambda>_. Inr (0, mbc\<lparr>files := None\<rparr>))"

section \<open>What a rewrite leaves behind\<close>

text \<open>
  A rewrite that continues: the copy of the path is mapped at \<open>a\<close>, written, named by the new
  arguments and remembered in \<open>memory\<close>.
\<close>

definition rewritten ::
  "string \<Rightarrow> (u32 \<Rightarrow> sc_args) \<Rightarrow> 'l child_data \<Rightarrow> world \<Rightarrow> 'l child_data \<Rightarrow> world \<Rightarrow> bool" where
  "rewritten path f c w c' w' \<longleftrightarrow>
     (\<exists>a. a \<noteq> 0 \<and> c' = c\<lparr>memory := a\<rparr> \<and> length path \<le> PATH_MAX \<and>
        trail w' = trail w @ [Tracy (Mmap (PATH_MAX + 1)), Tracy (Write_Mem a (path @ [NUL])),
                              Tracy (Modify_Args (f a))])"

lemma rewrite_args_spec:
  assumes "rewrite_args T p f c w = Inr (v, c', w')"
  shows "\<exists>path. p = Some path \<and>
    (v = HOOK_CONTINUE \<and> rewritten path f c w c' w' \<or> v = HOOK_ABORT \<and> c' = c)"
proof -
  obtain path where p: "p = Some path" using assms by (auto simp: rewrite_args_def)
  obtain a w1 where a: "copy_patharg (env T) path w = (a, w1)" by force
  show ?thesis
  proof (cases "a = 0 \<or> rc (env T (trail w1) (Tracy (Modify_Args (f a)))) \<noteq> 0")
    case True
    with assms p a show ?thesis by (auto simp: rewrite_args_def Let_def split_beta split: if_splits)
  next
    case False
    with assms p a have "v = HOOK_CONTINUE" "c' = c\<lparr>memory := a\<rparr>"
      "w' = snd (sys (env T) (Tracy (Modify_Args (f a))) w1)"
      by (auto simp: rewrite_args_def Let_def split_beta)
    moreover have "length path \<le> PATH_MAX" "trail w1 = trail w @ [Tracy (Mmap (PATH_MAX + 1)),
        Tracy (Write_Mem a (path @ [NUL]))]"
      using copy_patharg_cases [OF a] False by auto
    ultimately show ?thesis using p False by (auto simp: rewritten_def)
  qed
qed

text \<open>A rewrite that aborts has unmapped what it mapped at \<open>a\<close> and could write.\<close>

lemma rewrite_args_abort:
  assumes "rewrite_args T (Some path) f c w = Inr (HOOK_ABORT, c', w')"
    and "copy_patharg (env T) path w = (a, w1)" and "a \<noteq> 0"
  shows "trail w' = trail w1 @ [Tracy (Modify_Args (f a)), Tracy (Munmap a (PATH_MAX + 1))]"
  using assms by (auto simp: rewrite_args_def free_patharg_def Let_def split_beta split: if_splits)

lemma redirect_pre_spec:
  assumes "redirect_pre T d e n res c w = Inr (v, c', w')"
  shows "c' = c \<or> (\<exists>path r p w1 w2. v = HOOK_CONTINUE \<and>
    get_patharg (env T) (arg_nth n (args e)) res w = Inr (Some p, w1) \<and>
    get_fstab_rec (env T) d p w1 = Inr (Some r, w2) \<and>
    Some path = (if replacement_bind r then stub_device r else replacement_device r) \<and>
    (\<exists>w3. rewritten path (\<lambda>a. arg_set n a (args e)) c w3 c' w'))"
proof -
  obtain q w1 where q: "get_patharg (env T) (arg_nth n (args e)) res w = Inr (q, w1)"
    using assms by (auto simp: redirect_pre_def)
  show ?thesis
  proof (cases q)
    case None
    with assms q show ?thesis by (simp add: redirect_pre_def)
  next
    case (Some p)
    with assms q obtain m w2 where m: "get_fstab_rec (env T) d p w1 = Inr (m, w2)"
      by (auto simp: redirect_pre_def)
    show ?thesis
    proof (cases m)
      case None
      with assms q Some m show ?thesis by (simp add: redirect_pre_def)
    next
      case (Some r)
      let ?repl = "if replacement_bind r then stub_device r else replacement_device r"
      have "c' = c \<or> (\<exists>w3. rewrite_args T ?repl (\<lambda>a. arg_set n a (args e)) c w3 = Inr (v, c', w'))"
        using assms q \<open>q = Some p\<close> m Some
        by (auto simp: redirect_pre_def Let_def split_beta split: if_splits)
      then show ?thesis
      proof
        assume "\<exists>w3. rewrite_args T ?repl (\<lambda>a. arg_set n a (args e)) c w3 = Inr (v, c', w')"
        then obtain w3 where rw: "rewrite_args T ?repl (\<lambda>a. arg_set n a (args e)) c w3 = Inr (v, c', w')"
          by blast
        from rewrite_args_spec [OF rw] q m \<open>q = Some p\<close> Some show ?thesis by metis
      qed simp
    qed
  qed
qed

section \<open>Properties\<close>

text \<open>An instance for the examples: an association list and a process with two paths.\<close>

definition assoc_tracer :: "os \<Rightarrow> (int \<times> fd_info) list tracer" where
  "assoc_tracer os =
     \<lparr>env = os, nr = (\<lambda>name. if name = ''open'' then 5 else if name = ''openat'' then 322 else 106),
      ll_init = Some [], ll_find = map_of, ll_add = (\<lambda>l fd fdi. (fd, fdi) # l),
      ll_del = (\<lambda>l fd. filter (\<lambda>(k, _). k \<noteq> fd) l), ll_items = id,
      fresh_block = replicate 1024 NUL\<rparr>"

lemma assoc_tracer_laws: "ll_laws (assoc_tracer os)"
proof -
  have "map_of (filter (\<lambda>(k, _). k \<noteq> fd) l) fd' = (if fd' = fd then None else map_of l fd')"
    for l :: "(int \<times> fd_info) list" and fd fd'
    by (induction l) auto
  then show ?thesis by (simp add: ll_laws_def assoc_tracer_def)
qed

definition demo_os :: os where
  "demo_os cs c =
     (case c of
        Tracy (Read_Mem a _) \<Rightarrow> (ok_reply 0)\<lparr>data := (if a = 1000 then ''/dev/x'' else ''/mnt'')\<rparr>
      | Tracy (Mmap _) \<Rightarrow> ok_reply 4096
      | Path (Stat _) \<Rightarrow> err_reply 2
      | _ \<Rightarrow> ok_reply 0)"

definition demo_data :: module_data where
  "demo_data = zero_data\<lparr>multiboot_path := Some ''/mb'',
     multiboot_device := zero_rec\<lparr>blk_device := Some ''/dev/x'', replacement_bind := True,
       replacement_device := Some ''/src'', stub_device := Some ''/dev/loop0''\<rparr>\<rparr>"

definition demo_child :: "(int \<times> fd_info) list child_data" where
  "demo_child = \<lparr>memory = 0, tmp = None, files = Some [], handled_by_open = False\<rparr>"

definition demo_args :: sc_args where
  "demo_args = \<lparr>a0 = 1000, a1 = 2000, a2 = 0, a3 = 0, a4 = 0, a5 = 0, return_code = 0\<rparr>"

definition demo_event :: "bool \<Rightarrow> event" where
  "demo_event pre = \<lparr>syscall_num = 106, args = demo_args, pre_syscall = pre\<rparr>"

lemmas demo_defs = assoc_tracer_def demo_os_def demo_data_def demo_child_def demo_args_def
  demo_event_def zero_data_def zero_rec_def

lemma demo_redirect:
  "\<exists>w'. redirect_pre (assoc_tracer demo_os) demo_data (demo_event True) 0 True demo_child initial_world =
     Inr (HOOK_CONTINUE, demo_child\<lparr>memory := 4096\<rparr>, w')"
  by (simp add: redirect_pre_def get_patharg_def get_fstab_rec_def match_rec_def fstab_rec_matches_def
      rewrite_args_def copy_patharg_def demo_defs Let_def split_beta PATH_MAX_def del: bindE_eq_Inr)



text \<open>A call that names an existing file through a hook that resolves links is aborted
  whenever \<open>realpath\<close> leaves \<open>errno\<close> set, although it found the file.\<close>

theorem stale_errno_aborts:
  assumes "0 \<le> rc (env T (trail w) (Tracy (Read_Mem addr PATH_MAX)))"
    and "cstr (data (env T (trail w) (Tracy (Read_Mem addr PATH_MAX)))) = path" and "length path < PATH_MAX"
    and "rc (env T (trail w @ [Tracy (Read_Mem addr PATH_MAX)]) (Path (Stat path))) = 0"
    and "eno (env T (trail w @ [Tracy (Read_Mem addr PATH_MAX), Path (Stat path)]) (Path (Realpath path))) \<noteq> 0"
    and "arg_nth n (args e) = addr"
  shows "\<exists>w'. redirect_pre T d e n True c w = Inr (HOOK_ABORT, c, w')"
  using assms by (simp add: redirect_pre_def get_patharg_def Let_def split_beta del: bindE_eq_Inr)

theorem stale_errno_aborts_witness:
  "\<exists>w'. redirect_pre (assoc_tracer (\<lambda>_ _. (ok_reply 0)\<lparr>data := ''/dev/x'', eno := 22\<rparr>)) demo_data
     (demo_event True) 0 True demo_child initial_world = Inr (HOOK_ABORT, demo_child, w')"
  by (rule stale_errno_aborts [where addr = 1000 and path = "''/dev/x''"])
     (simp_all add: assoc_tracer_def demo_event_def demo_args_def PATH_MAX_def)

text \<open>C4. Closing a recorded file runs the command that empties the directory behind its device
  exactly when a format is detected, and takes the file off the list.\<close>

theorem close_empties_formatted:
  assumes "pre_syscall e" and "files c = Some l" and "ll_find T l (sint (a0 (args e))) = Some fdi"
    and "fdi_fs_type fdi \<noteq> None" and "fs_was_format (env T) fdi w = Inr (fmt, w1)"
    and "get_fstab_rec (env T) d (filename fdi) w1 = Inr (Some r, w2)"
    and "replacement_device r = Some dir" and "length dir < 4092"
  shows "\<exists>pid w'. hook_close T d e c w =
      Inr (HOOK_CONTINUE, c\<lparr>files := Some (ll_del T l (sint (a0 (args e))))\<rparr>, w') \<and>
    trail w' = (if fmt then trail w2 @ [Proc (Fork_Exec [PATH_MULTIBOOT_BUSYBOX, ''sh'', ''-c'',
                       PATH_MULTIBOOT_BUSYBOX @ '' rm -Rf '' @ dir @ ''/*'']), Proc (Waitpid pid)]
                else trail w1)"
proof -
  obtain ty where ty: "fdi_fs_type fdi = Some ty" using assms(4) by auto
  have "snprintf PATH_MAX (dir @ ''/*'') = dir @ ''/*''"
    using assms(8) by (intro snprintf_id) (simp add: PATH_MAX_def)
  moreover have "format_path_command (dir @ ''/*'') = PATH_MULTIBOOT_BUSYBOX @ '' rm -Rf '' @ dir @ ''/*''"
    using assms(8) by (intro format_path_command_id [THEN trans]) simp_all
  ultimately show ?thesis
    using assms ty
    by (auto simp: hook_close_def format_path_def do_exec_trail free_fdinfo_def fs_cleanup_def
        Let_def split_beta simp del: bindE_eq_Inr)
qed

theorem close_empties_formatted_witness:
  "\<exists>pid w'. trail w' = [Blkid_Fullprobe ''/dev/loop0'', Blkid_Lookup ''TYPE'', Blkid_Free, Path (Stat ''/dev/x''),
      Proc (Fork_Exec [PATH_MULTIBOOT_BUSYBOX, ''sh'', ''-c'',
        PATH_MULTIBOOT_BUSYBOX @ '' rm -Rf '' @ ''/src'' @ ''/*'']), Proc (Waitpid pid)] \<and>
    hook_close (assoc_tracer demo_os) demo_data (demo_event True)
      (demo_child\<lparr>files := Some [(1000, (blank_fdinfo 1000 ''/dev/x'')\<lparr>fdi_fs_type := Some ''ext4'',
         device := Some ''/dev/loop0''\<rparr>)]\<rparr>) initial_world =
    Inr (HOOK_CONTINUE, demo_child, w')"
proof -
  let ?fdi = "(blank_fdinfo 1000 ''/dev/x'')\<lparr>fdi_fs_type := Some ''ext4'', device := Some ''/dev/loop0''\<rparr>"
  let ?w1 = "\<lparr>trail = [Blkid_Fullprobe ''/dev/loop0'', Blkid_Lookup ''TYPE'', Blkid_Free], errno = 0\<rparr>"
  have f: "fs_was_format (env (assoc_tracer demo_os)) ?fdi initial_world = Inr (True, ?w1)"
    by (simp add: fs_was_format_def get_fstype_def assoc_tracer_def demo_os_def sys_eq Let_def
        initial_world_def fstype_or_ext4_def ok_reply_def)
  have g: "get_fstab_rec (env (assoc_tracer demo_os)) demo_data (filename ?fdi) ?w1 =
      Inr (Some (multiboot_device demo_data), \<lparr>trail = trail ?w1 @ [Path (Stat ''/dev/x'')], errno = 2\<rparr>)"
    by (simp add: get_fstab_rec_def match_rec_def fstab_rec_matches_def demo_defs sys_eq Let_def
        blank_fdinfo_def err_reply_def del: bindE_eq_Inr)
  have a: "sint (a0 (args (demo_event True))) = 1000" by (simp add: demo_event_def demo_args_def)
  let ?c = "demo_child\<lparr>files := Some [(1000, ?fdi)]\<rparr>"
  let ?T = "assoc_tracer demo_os"
  have p: "pre_syscall (demo_event True)" "files ?c = Some [(1000, ?fdi)]"
    "ll_find ?T [(1000, ?fdi)] (sint (a0 (args (demo_event True)))) = Some ?fdi"
    "fdi_fs_type ?fdi \<noteq> None" "replacement_device (multiboot_device demo_data) = Some ''/src''"
    "length ''/src'' < 4092"
    unfolding a by (simp_all add: demo_event_def demo_data_def assoc_tracer_def)
  have c: "?c\<lparr>files := Some (ll_del ?T [(1000, ?fdi)] (sint (a0 (args (demo_event True)))))\<rparr> = demo_child"
    unfolding a by (simp add: demo_child_def assoc_tracer_def)
  from close_empties_formatted [OF p(1-4) f g p(5,6)] show ?thesis unfolding c by auto
qed




end
