(* ===== verification/Rounds.thy ===== *)
theory Rounds
  imports Hooks
begin

text \<open>
  What the hooks keep between the system calls of a traced process. A round is the call of
  a hook before a system call, what other processes do meanwhile, and its call afterwards;
  \<open>reachable\<close> are the states of a child's data after any number of rounds.
\<close>

section \<open>Rounds\<close>

datatype hook = Hook_Fileaccess | Hook_Close | Hook_Dup | Hook_Fcntl | Hook_Mount

fun run_hook ::
  "'l tracer \<Rightarrow> module_data \<Rightarrow> redirect_info list \<times> fstab_rec option \<Rightarrow> hook \<Rightarrow> event
     \<Rightarrow> 'l child_data \<Rightarrow> world \<Rightarrow> 'l hook_result" where
  "run_hook T d st Hook_Fileaccess e mbc w = hook_fileaccess T d (fst st) e mbc w"
| "run_hook T d st Hook_Close e mbc w = hook_close T d e mbc w"
| "run_hook T d st Hook_Dup e mbc w = hook_dup T d e mbc w"
| "run_hook T d st Hook_Fcntl e mbc w = hook_fcntl T e mbc w"
| "run_hook T d st Hook_Mount e mbc w = hook_mount T d (snd st) e mbc w"

definition new_child :: "'l child_data" where
  "new_child = \<lparr>memory = 0, tmp = None, files = None, handled_by_open = False\<rparr>"

inductive call_round ::
  "'l tracer \<Rightarrow> module_data \<Rightarrow> redirect_info list \<times> fstab_rec option
     \<Rightarrow> 'l child_data \<Rightarrow> 'l child_data \<Rightarrow> bool"
  for T d st where
  round: "pre_syscall e \<Longrightarrow> \<not> pre_syscall e' \<Longrightarrow> syscall_num e' = syscall_num e \<Longrightarrow>
    run_hook T d st h e c w = Inr (HOOK_CONTINUE, c1, w1) \<Longrightarrow>
    run_hook T d st h e' c1 w2 = Inr (HOOK_CONTINUE, c', w3) \<Longrightarrow> call_round T d st c c'"

inductive reachable ::
  "'l tracer \<Rightarrow> module_data \<Rightarrow> redirect_info list \<times> fstab_rec option \<Rightarrow> 'l child_data \<Rightarrow> bool"
  for T d st where
  created: "fsr_tracy_child_create T new_child = (0, c) \<Longrightarrow> reachable T d st c"
| traced: "reachable T d st c \<Longrightarrow> call_round T d st c c' \<Longrightarrow> reachable T d st c'"

inductive_cases call_roundE: "call_round T d st c c'"

section \<open>What single functions do\<close>

named_theorems hook_simps

lemma make_fdinfo_ok:
  assumes "make_fdinfo T d fd name w = Inr (fdi, w')"
  shows "fdi_fs_type fdi \<noteq> None" "device fdi \<noteq> None" "filename fdi = name" "fdi_fd fdi = fd"
  using assms
  by (auto simp: make_fdinfo_def fs_pre_def ext2_pre_def blank_fdinfo_def Let_def split_beta
      split: option.splits if_splits)

definition wf_files :: "'l tracer \<Rightarrow> 'l \<Rightarrow> bool" where
  "wf_files T l \<longleftrightarrow>
     (\<forall>fd fdi. ll_find T l fd = Some fdi \<longrightarrow> fdi_fs_type fdi \<noteq> None \<and> device fdi \<noteq> None)"

definition wf_child :: "'l tracer \<Rightarrow> 'l child_data \<Rightarrow> bool" where
  "wf_child T c \<longleftrightarrow> (\<exists>l. files c = Some l \<and> wf_files T l)"

lemma wf_files_add:
  assumes "ll_laws T" and "wf_files T l" and "fdi_fs_type fdi \<noteq> None" and "device fdi \<noteq> None"
  shows "wf_files T (ll_add T l fd fdi)"
  unfolding wf_files_def
proof (intro allI impI)
  fix k x
  assume f: "ll_find T (ll_add T l fd fdi) k = Some x"
  show "fdi_fs_type x \<noteq> None \<and> device x \<noteq> None"
  proof (cases "k = fd")
    case True
    have "ll_find T (ll_add T l fd fdi) fd = Some fdi" using assms(1) unfolding ll_laws_def by blast
    with f True assms(3,4) show ?thesis by simp
  next
    case False
    then have "ll_find T (ll_add T l fd fdi) k = ll_find T l k"
      using assms(1) unfolding ll_laws_def by blast
    with f assms(2) show ?thesis unfolding wf_files_def by simp
  qed
qed

lemma wf_files_del: "ll_laws T \<Longrightarrow> wf_files T l \<Longrightarrow> wf_files T (ll_del T l fd)"
  unfolding wf_files_def ll_laws_def by (metis option.distinct(1))

lemma record_fd_keeps:
  assumes "record_fd T d fd name c w = Inr (c', w')"
  shows "memory c' = memory c" "tmp c' = tmp c" "handled_by_open c' = handled_by_open c"
    "ll_laws T \<Longrightarrow> wf_child T c \<Longrightarrow> wf_child T c'"
proof -
  show "memory c' = memory c" "tmp c' = tmp c" "handled_by_open c' = handled_by_open c"
    using assms by (auto simp: record_fd_def split_beta split: if_splits)
  assume laws: "ll_laws T" and wf: "wf_child T c"
  show "wf_child T c'"
  proof (cases "fd < 0")
    case True
    with assms wf show ?thesis by (simp add: record_fd_def)
  next
    case False
    with assms obtain fdi w1 l where m: "make_fdinfo T d fd name w = Inr (fdi, w1)"
      and l: "files c = Some l" and c': "c' = c\<lparr>files := Some (ll_add T l fd fdi)\<rparr>"
      by (auto simp: record_fd_def)
    have "wf_files T l" using wf l by (simp add: wf_child_def)
    then show ?thesis
      using wf_files_add [OF laws _ make_fdinfo_ok(1,2) [OF m]] by (simp add: c' wf_child_def)
  qed
qed

text \<open>The new state is the old one but for the address of the copied path.\<close>

abbreviation memory_only :: "'l child_data \<Rightarrow> hook_rc \<times> 'l child_data \<times> world \<Rightarrow> bool" where
  "memory_only c \<equiv> \<lambda>(v, c', w'). \<exists>a. c' = c\<lparr>memory := a\<rparr>"

lemma memory_same [simp, intro]: "\<exists>a. c = c\<lparr>memory := a\<rparr>"
  by (rule exI [of _ "memory c"]) simp

lemma rewrite_args_keeps: "post (memory_only c) (rewrite_args T p f c w)"
  unfolding rewrite_args_def by (intro post_rules) auto

lemma free_memory_keeps:
  "free_memory T c w = Inr (v, c', w') \<Longrightarrow> c' = c\<lparr>memory := 0\<rparr> \<and> v = HOOK_CONTINUE"
  by (auto simp: free_memory_def split: if_splits)

lemma redirect_pre_keeps: "post (memory_only c) (redirect_pre T d e n res c w)"
  unfolding redirect_pre_def by (intro post_rules rewrite_args_keeps) auto

lemma hook_mount_pre_keeps:
  "pre_syscall e \<Longrightarrow> post (memory_only c) (hook_mount T d asec e c w)"
  unfolding hook_mount_def by (intro post_rules rewrite_args_keeps) auto

text \<open>Either nothing is pending after the first call of open, or a path to record.\<close>

lemma hook_open_pre_keeps:
  "post (\<lambda>(v, c', w'). c' = c \<or> (\<exists>p. c' = c\<lparr>handled_by_open := True, tmp := Some p\<rparr>))
     (hook_open_pre T d e n res c w)"
  unfolding hook_open_pre_def by (intro post_rules) auto

lemma hook_open_post_keeps:
  assumes "handled_by_open c \<or> tmp c = None"
  shows "post (\<lambda>(v, c', w'). memory c' = memory c \<and> tmp c' = None \<and> \<not> handled_by_open c' \<and>
    v = HOOK_CONTINUE \<and> (ll_laws T \<longrightarrow> wf_child T c \<longrightarrow> wf_child T c')) (hook_open_post T d e c w)"
proof (cases "handled_by_open c \<and> tmp c \<noteq> None")
  case True
  then obtain name where "handled_by_open c" "tmp c = Some name" by blast
  then show ?thesis
    unfolding hook_open_post_def
    by (auto simp: post_def wf_child_def dest: record_fd_keeps(1,4))
next
  case False
  with assms have "tmp c = None" by blast
  then show ?thesis unfolding hook_open_post_def by (auto simp: wf_child_def split: bool.splits)
qed

section \<open>The invariant\<close>

text \<open>
  Between two system calls of a process no copied path is mapped, no name waits to be
  recorded, and every recorded file has a device and a type.
\<close>

definition quiet :: "'l tracer \<Rightarrow> 'l child_data \<Rightarrow> bool" where
  "quiet T c \<longleftrightarrow> memory c = 0 \<and> tmp c = None \<and> \<not> handled_by_open c \<and> wf_child T c"

lemma child_create_quiet:
  "ll_laws T \<Longrightarrow> fsr_tracy_child_create T new_child = (0, c) \<Longrightarrow> quiet T c"
  unfolding ll_laws_def
  by (auto simp: fsr_tracy_child_create_def new_child_def quiet_def wf_child_def wf_files_def
      Let_def split: if_splits)

definition is_open_call :: "'l tracer \<Rightarrow> event \<Rightarrow> bool" where
  "is_open_call T e \<longleftrightarrow> syscall_num e = nr T ''open'' \<or> syscall_num e = nr T ''openat''"

lemma redirect_file_access_pre_keeps:
  assumes "pre_syscall e"
  shows "post (\<lambda>(v, c', w'). files c' = files c \<and>
      (tmp c' = tmp c \<and> handled_by_open c' = handled_by_open c \<or>
       is_open_call T e \<and> tmp c' \<noteq> None \<and> handled_by_open c'))
    (redirect_file_access T d e n res c w)"
proof -
  have o: "post (\<lambda>(v, c', w'). files c' = files c \<and>
      (tmp c' = tmp c \<and> handled_by_open c' = handled_by_open c \<or>
       is_open_call T e \<and> tmp c' \<noteq> None \<and> handled_by_open c'))
     (if is_open_call T e then hook_open T d e n res c w else Inr (HOOK_CONTINUE, c, w))"
    using assms by (auto simp: hook_open_def intro!: post_mono [OF hook_open_pre_keeps])
  have r: "post (\<lambda>(v, c'', w'). files c'' = files c' \<and> tmp c'' = tmp c' \<and>
      handled_by_open c'' = handled_by_open c') (redirect_pre T d e n res c' w')" for c' w'
    by (rule post_mono [OF redirect_pre_keeps]) auto
  show ?thesis
    unfolding redirect_file_access_def is_open_call_def [symmetric]
    using assms by (intro post_rules) (auto dest: postD [OF o] intro!: post_mono [OF r])
qed

lemma redirect_file_access_post_keeps:
  assumes "\<not> pre_syscall e" and "handled_by_open c \<or> tmp c = None"
    and "is_open_call T e \<or> \<not> handled_by_open c"
  shows "post (\<lambda>(v, c', w'). memory c' = 0 \<and> tmp c' = None \<and> \<not> handled_by_open c' \<and>
      (ll_laws T \<longrightarrow> wf_child T c \<longrightarrow> wf_child T c')) (redirect_file_access T d e n res c w)"
proof -
  have o: "post (\<lambda>(v, c', w'). tmp c' = None \<and> \<not> handled_by_open c' \<and> v = HOOK_CONTINUE \<and>
      (ll_laws T \<longrightarrow> wf_child T c \<longrightarrow> wf_child T c'))
     (if is_open_call T e then hook_open T d e n res c w else Inr (HOOK_CONTINUE, c, w))"
    using assms
    by (auto simp: hook_open_def intro!: post_mono [OF hook_open_post_keeps [OF assms(2)]])
  have f: "post (\<lambda>(v, c'', w'). c'' = c'\<lparr>memory := 0\<rparr>) (free_memory T c' w')" for c' w'
    by (auto simp: post_def dest: free_memory_keeps)
  show ?thesis
    unfolding redirect_file_access_def is_open_call_def [symmetric]
    using assms(1)
    by (intro post_rules) (auto dest!: postD [OF o] simp: wf_child_def intro!: post_mono [OF f])
qed

lemma hook_fileaccess_cases:
  "(\<And>n res. post P (redirect_file_access T d e n res c w)) \<Longrightarrow> P (HOOK_ABORT, c, w) \<Longrightarrow>
     post P (hook_fileaccess T d table e c w)"
  by (simp add: hook_fileaccess_def split: option.split)

lemma hook_close_keeps:
  assumes "ll_laws T" and "quiet T c"
  shows "post (\<lambda>(v, c', w'). quiet T c') (hook_close T d e c w)"
proof -
  have "wf_files T l \<Longrightarrow> wf_files T (ll_del T l fd)" for l fd using assms(1) by (rule wf_files_del)
  with assms(2) show ?thesis
    unfolding hook_close_def quiet_def wf_child_def by (intro post_rules) auto
qed

lemma hook_fcntl_keeps: "post (\<lambda>(v, c', w'). c' = c) (hook_fcntl T e c w)"
  unfolding hook_fcntl_def by (intro post_rules) auto

lemma hook_dup_pre_keeps:
  "pre_syscall e \<Longrightarrow> post (\<lambda>(v, c', w'). \<exists>p. c' = c\<lparr>tmp := p\<rparr>) (hook_dup T d e c w)"
  unfolding hook_dup_def by (intro post_rules) (auto intro: exI [of _ "tmp c"])

lemma hook_dup_post_keeps:
  assumes "\<not> pre_syscall e"
  shows "post (\<lambda>(v, c', w'). memory c' = memory c \<and> tmp c' = None \<and>
    handled_by_open c' = handled_by_open c \<and> (ll_laws T \<longrightarrow> wf_child T c \<longrightarrow> wf_child T c'))
    (hook_dup T d e c w)"
proof -
  let ?R = "\<lambda>c'. memory c' = memory c \<and> handled_by_open c' = handled_by_open c \<and>
    (ll_laws T \<longrightarrow> wf_child T c \<longrightarrow> wf_child T c')"
  have r: "post (\<lambda>(c', w'). ?R c')
      (if fd < 0 then Inr (c, w)
       else bindE (make_fdinfo T d fd name w) (\<lambda>(_, w). record_fd T d fd name c w))" for fd name
  proof (intro post_rules)
    fix w1
    show "post (\<lambda>(c', w'). ?R c') (record_fd T d fd name c w1)"
      unfolding post_def
    proof (intro allI impI)
      fix x
      assume x: "record_fd T d fd name c w1 = Inr x"
      obtain c' w' where cw: "x = (c', w')" by (cases x)
      from x have "record_fd T d fd name c w1 = Inr (c', w')" unfolding cw .
      note k = record_fd_keeps [OF this]
      show "case x of (c', w') \<Rightarrow> ?R c'" unfolding cw prod.case using k by blast
    qed
  qed simp
  show ?thesis
    using assms unfolding hook_dup_def Let_def
    by (intro post_rules) (auto dest: postD [OF r] simp: wf_child_def)
qed

text \<open>The rounds of the five hooks.\<close>

lemma fileaccess_round:
  assumes laws: "ll_laws T" and q: "quiet T c"
    and ev: "pre_syscall e" "\<not> pre_syscall e'" "syscall_num e' = syscall_num e"
    and pre: "hook_fileaccess T d tab e c w = Inr (HOOK_CONTINUE, c1, w1)"
    and after: "hook_fileaccess T d tab e' c1 w2 = Inr (v, c', w3)" "v = HOOK_CONTINUE"
  shows "quiet T c'"
proof -
  have "files c1 = files c \<and> (tmp c1 = tmp c \<and> handled_by_open c1 = handled_by_open c \<or>
      is_open_call T e \<and> tmp c1 \<noteq> None \<and> handled_by_open c1)"
    using postD [OF hook_fileaccess_cases [OF redirect_file_access_pre_keeps [OF ev(1)]] pre] by simp
  moreover have "is_open_call T e' = is_open_call T e" by (simp add: is_open_call_def ev(3))
  ultimately have c1: "handled_by_open c1 \<or> tmp c1 = None"
      "is_open_call T e' \<or> \<not> handled_by_open c1" "wf_child T c1"
    using q by (auto simp: quiet_def wf_child_def)
  let ?P = "\<lambda>(v, c', w'). v = HOOK_CONTINUE \<longrightarrow> memory c' = 0 \<and> tmp c' = None \<and>
      \<not> handled_by_open c' \<and> (ll_laws T \<longrightarrow> wf_child T c1 \<longrightarrow> wf_child T c')"
  have "post ?P (hook_fileaccess T d tab e' c1 w2)"
    by (rule hook_fileaccess_cases)
       (auto intro!: post_mono [OF redirect_file_access_post_keeps [OF ev(2) c1(1,2)]])
  from postD [OF this after(1)] show ?thesis using laws c1(3) after(2) by (simp add: quiet_def)
qed

lemma dup_round:
  assumes laws: "ll_laws T" and q: "quiet T c" and ev: "pre_syscall e" "\<not> pre_syscall e'"
    and pre: "hook_dup T d e c w = Inr (v1, c1, w1)"
    and after: "hook_dup T d e' c1 w2 = Inr (v, c', w3)"
  shows "quiet T c'"
proof -
  obtain p where "c1 = c\<lparr>tmp := p\<rparr>" using postD [OF hook_dup_pre_keeps [OF ev(1)] pre] by auto
  with q laws show ?thesis
    using postD [OF hook_dup_post_keeps [OF ev(2)] after] by (simp add: quiet_def wf_child_def)
qed

lemma mount_round:
  assumes q: "quiet T c" and ev: "pre_syscall e" "\<not> pre_syscall e'"
    and pre: "hook_mount T d asec e c w = Inr (v1, c1, w1)"
    and after: "hook_mount T d asec e' c1 w2 = Inr (v, c', w3)"
  shows "quiet T c'"
proof -
  obtain a where c1: "c1 = c\<lparr>memory := a\<rparr>"
    using postD [OF hook_mount_pre_keeps [OF ev(1)] pre] by auto
  have "free_memory T c1 w2 = Inr (v, c', w3)" using after ev(2) by (simp add: hook_mount_def)
  from free_memory_keeps [OF this] q show ?thesis by (simp add: quiet_def wf_child_def c1)
qed

lemma call_round_quiet:
  assumes "ll_laws T" and "quiet T c" and "call_round T d st c c'"
  shows "quiet T c'"
  using assms(3)
proof (rule call_roundE)
  fix e e' h w c1 w1 w2 w3
  assume ev: "pre_syscall e" "\<not> pre_syscall e'" "syscall_num e' = syscall_num e"
    and pre: "run_hook T d st h e c w = Inr (HOOK_CONTINUE, c1, w1)"
    and after: "run_hook T d st h e' c1 w2 = Inr (HOOK_CONTINUE, c', w3)"
  show "quiet T c'"
  proof (cases h)
    case Hook_Fileaccess
    with pre after show ?thesis using fileaccess_round [OF assms(1,2) ev] by simp
  next
    case Hook_Close
    have "quiet T c1"
      using postD [OF hook_close_keeps [OF assms(1,2), of d e w]] pre Hook_Close by simp
    from postD [OF hook_close_keeps [OF assms(1) this, of d e' w2]] after Hook_Close
    show ?thesis by simp
  next
    case Hook_Dup
    with pre after show ?thesis using dup_round [OF assms(1,2) ev(1,2)] by simp
  next
    case Hook_Fcntl
    have "c1 = c" using postD [OF hook_fcntl_keeps, of T e c w] pre Hook_Fcntl by simp
    moreover have "c' = c1" using postD [OF hook_fcntl_keeps, of T e' c1 w2] after Hook_Fcntl by simp
    ultimately show ?thesis using assms(2) by simp
  next
    case Hook_Mount
    with pre after show ?thesis using mount_round [OF assms(2) ev(1,2)] by simp
  qed
qed

lemma reachable_quiet:
  assumes laws: "ll_laws T" and "reachable T d st c"
  shows "quiet T c"
  using assms(2)
proof induction
  case (created c)
  then show ?case by (rule child_create_quiet [OF laws])
next
  case (traced c c')
  then show ?case using call_round_quiet [OF laws] by blast
qed

section \<open>Properties\<close>


lemma demo_reachable:
  "reachable (assoc_tracer demo_os) demo_data ([entry ''stat'' 0 True 106 (- 1)], None) demo_child"
proof -
  let ?T = "assoc_tracer demo_os"
  let ?st = "([entry ''stat'' 0 True 106 (- 1)], None)"
  have "fsr_tracy_child_create ?T new_child = (0, demo_child)"
    by (simp add: fsr_tracy_child_create_def new_child_def demo_child_def assoc_tracer_def Let_def)
  then have "reachable ?T demo_data ?st demo_child" by (rule reachable.created)
  moreover obtain w1 where
    r: "redirect_pre ?T demo_data (demo_event True) 0 True demo_child initial_world =
      Inr (HOOK_CONTINUE, demo_child\<lparr>memory := 4096\<rparr>, w1)" using demo_redirect by blast
  have pre: "run_hook ?T demo_data ?st Hook_Fileaccess (demo_event True) demo_child initial_world =
      Inr (HOOK_CONTINUE, demo_child\<lparr>memory := 4096\<rparr>, w1)"
    using r by (simp add: hook_fileaccess_def entry_def redirect_file_access_def resolves_def
        demo_event_def assoc_tracer_def)
  obtain w3 where after: "run_hook ?T demo_data ?st Hook_Fileaccess (demo_event False)
      (demo_child\<lparr>memory := 4096\<rparr>) w1 = Inr (HOOK_CONTINUE, demo_child, w3)"
    by (simp add: hook_fileaccess_def entry_def redirect_file_access_def demo_event_def
        assoc_tracer_def free_memory_def demo_child_def)
  have "call_round ?T demo_data ?st demo_child demo_child"
    by (rule call_round.round [OF _ _ _ pre after]) (simp_all add: demo_event_def)
  ultimately show ?thesis by (rule reachable.traced)
qed


end
