(* ===== verification/FstabPatcher.thy ===== *)
theory FstabPatcher
  imports Modules
begin

text \<open>
  The rewriting of the fstabs of the booted system, src/modules/fstab_patcher.c: the line
  written for a record, the choice of its device and options, and the loop over the files.
\<close>

section \<open>One line\<close>

text \<open>The columns as \<open>file_write_fstabrec\<close> prints them; a NULL pointer prints as (null).\<close>

definition fstab_line ::
  "bool \<Rightarrow> string option \<Rightarrow> string option \<Rightarrow> string option \<Rightarrow> string \<Rightarrow> string \<Rightarrow> string \<Rightarrow> string" where
  "fstab_line tw blk mp ty opts flags unhandled =
     (if tw then
        let opts = (if opts = ''defaults'' then [] else opts);
            flags = (if flags = ''defaults'' then [] else flags)
        in printf_s mp @ '' '' @ printf_s ty @ '' '' @ printf_s blk @ '' '' @ opts @ '' '' @
             flags @ '' '' @ unhandled @ [NL]
      else printf_s blk @ '' '' @ printf_s mp @ '' '' @ printf_s ty @ '' '' @ opts @ '' '' @
             flags @ [NL])"

definition file_write_fstabrec ::
  "os \<Rightarrow> int \<Rightarrow> bool \<Rightarrow> string option \<Rightarrow> string option \<Rightarrow> string option \<Rightarrow> string \<Rightarrow> string
     \<Rightarrow> string \<Rightarrow> world \<Rightarrow> world" where
  "file_write_fstabrec os f tw blk mp ty opts flags unhandled w =
     snd (sys os (Stream (Fputs f (fstab_line tw blk mp ty opts flags unhandled))) w)"

section \<open>The choice for a record\<close>

definition or_empty :: "string option \<Rightarrow> string" where
  "or_empty p = (case p of Some s \<Rightarrow> s | None \<Rightarrow> [])"

text \<open>
  A device that is the grub partition is bound from its mount point in a second stage boot;
  \<open>indet\<close> is the indeterminate pair of the table lookup.
\<close>

definition grub_fixup ::
  "u32 \<times> u32 \<Rightarrow> module_data \<Rightarrow> fstab_rec \<Rightarrow> ub + (string option \<times> string)" where
  "grub_fixup indet d r =
     (let blk = blk_device r; opts = or_empty (fs_options_unparsed r) in
      if sndstage_enabled d \<and> blk_device (grub_device d) \<noteq> None \<and> grub_path d \<noteq> None then
        bindE (deref blk) (\<lambda>path.
        bindE (deref (block_info d)) (\<lambda>table.
        case get_blockinfo_for_path indet table path of
          None \<Rightarrow> Inr (blk, opts)
        | Some event \<Rightarrow>
            bindE (deref (grub_blockinfo d)) (\<lambda>g. Inr
              (if linux_major event = linux_major g \<and> linux_minor event = linux_minor g
               then (Some ''/multiboot/mnt/grub'', ''bind'') else (blk, opts)))))
      else Inr (blk, opts))"

text \<open>With multiboot the device is the replacement; the third component is \<open>use_bind\<close>.\<close>

definition multiboot_fixup ::
  "module_data \<Rightarrow> fstab_rec \<Rightarrow> string option \<times> string \<Rightarrow> ub + (string option \<times> string \<times> bool)" where
  "multiboot_fixup d r = (\<lambda>(blk, opts).
     if \<not> multiboot_enabled d then Inr (blk, opts, False)
     else
       bindE (if multiboot_fstab d = None then Inr None
              else bindE (deref (mount_point r))
                     (fs_mgr_get_entry_for_mount_point (multiboot_fstab d))) (\<lambda>m. Inr
         (case m of
            None \<Rightarrow> (blk, opts, False)
          | Some e \<Rightarrow>
              if fs_mgr_is_multiboot e = 0 then (blk, opts, False)
              else if replacement_bind e then (replacement_device e, ''bind'', True)
              else (replacement_device e, opts, False))))"

text \<open>
  The lines written for a record: the entry and, for a bind mount other than that of
  /system, a second one that sets the mount's options by a remount.
\<close>

definition record_lines :: "u32 \<times> u32 \<Rightarrow> module_data \<Rightarrow> bool \<Rightarrow> fstab_rec \<Rightarrow> ub + string list" where
  "record_lines indet d tw r =
     (let mp = mount_point r; ty = fs_type r; flags = or_empty (fs_mgr_flags_unparsed r);
          unhandled = or_empty (unhandled_columns r) in
      bindE (bindE (grub_fixup indet d r) (multiboot_fixup d r)) (\<lambda>(blk, opts, use_bind).
      let line = fstab_line tw blk mp ty opts flags unhandled in
      if \<not> use_bind then Inr [line]
      else
        bindE (deref mp) (\<lambda>m.
        if m = ''/system'' then Inr [line]
        else
          bindE (deref (fs_options_unparsed r)) (\<lambda>local.
          Inr [line, fstab_line tw blk mp ty (''remount,'' @ local) ''wait'' unhandled]))))"

section \<open>The files\<close>

definition patch_fstab ::
  "os \<Rightarrow> u32 \<times> u32 \<Rightarrow> module_data \<Rightarrow> fstab \<Rightarrow> world \<Rightarrow> ub + (int \<times> world)" where
  "patch_fstab os indet d orig w =
     (let (r, w) = sys os (Stream (Fopen (fstab_filename orig) ''w'')) w in
      if rc r < 0 then Inr (- 1, w)
      else
        let f = rc r in
        bindE (foldE (\<lambda>r w.
                 bindE (record_lines indet d (twrp orig) r)
                   (\<lambda>ls. Inr (fold (\<lambda>l w. snd (sys os (Stream (Fputs f l)) w)) ls w)))
               (take (num_entries orig) (recs orig)) w) (\<lambda>w.
        let (_, w) = sys os (Stream (Fclose f)) w in Inr (0, w)))"

fun patch_fstabs ::
  "os \<Rightarrow> u32 \<times> u32 \<Rightarrow> module_data \<Rightarrow> fstab list \<Rightarrow> world \<Rightarrow> ub + (int \<times> world)" where
  "patch_fstabs os indet d [] w = Inr (0, w)"
| "patch_fstabs os indet d (f # fs) w =
     bindE (patch_fstab os indet d f w)
       (\<lambda>(v, w). if v \<noteq> 0 then Inr (- 1, w) else patch_fstabs os indet d fs w)"

definition fp_fstab_init ::
  "os \<Rightarrow> u32 \<times> u32 \<Rightarrow> module_data \<Rightarrow> world \<Rightarrow> ub + (int \<times> world)" where
  "fp_fstab_init os indet d w =
     (if bootmode d = BOOTMODE_RECOVERY then Inr (0, w)
      else patch_fstabs os indet d (target_fstabs d) w)"

section \<open>Writing and reading back\<close>

text \<open>
  The contract between a writer of lines and the reader of the file: a line that is written
  is one line, is not skipped, and is read back as the record it was written for.
\<close>

locale line_codec =
  fixes render :: "'r \<Rightarrow> string"
    and scan :: "string \<Rightarrow> 'r option"
    and ok :: "'r \<Rightarrow> bool"
  assumes one_line: "ok r \<Longrightarrow> NL \<notin> set (render r) \<and> NUL \<notin> set (render r)"
    and not_skipped: "ok r \<Longrightarrow> significant (render r)"
    and scan_render: "ok r \<Longrightarrow> scan (render r) = Some r"
begin

lemma lines_of_file:
  "\<forall>r\<in>set rs. ok r \<Longrightarrow> getlines (concat (map (\<lambda>r. render r @ [NL]) rs)) = map render rs"
proof (induction rs)
  case Nil
  then show ?case by simp
next
  case (Cons r rs)
  then show ?case using one_line [of r] by (simp add: getlines_line)
qed

lemma file_roundtrip:
  assumes "\<forall>r\<in>set rs. ok r"
  shows "map scan (filter significant (getlines (concat (map (\<lambda>r. render r @ [NL]) rs)))) =
    map Some rs"
proof -
  have "filter significant (map render rs) = map render rs"
    using assms not_skipped by (auto simp: filter_id_conv)
  then show ?thesis using assms scan_render by (simp add: lines_of_file)
qed

end

text \<open>A column that is read back: not empty, no white space, and no comment sign in front.\<close>

definition column :: "string \<Rightarrow> bool" where
  "column t \<longleftrightarrow> t \<noteq> [] \<and> (\<forall>c\<in>set t. \<not> isspace c \<and> c \<noteq> NUL)"

lemma column_facts:
  assumes "column t"
  shows "t \<noteq> []" "\<forall>c\<in>set t. c \<notin> set delim" "NL \<notin> set t" "NUL \<notin> set t"
    "dropWhile isspace (t @ s) = t @ s"
proof -
  show "t \<noteq> []" "\<forall>c\<in>set t. c \<notin> set delim" "NL \<notin> set t" "NUL \<notin> set t"
    using assms by (auto simp: column_def delim_def isspace_def)
  show "dropWhile isspace (t @ s) = t @ s"
    using assms by (intro dropWhile_stop) (cases t, auto simp: column_def)
qed

lemma strtok_column:
  assumes "column t"
  shows "strtok_r delim (t @ SPC # r) = Some (t, r)" "strtok_r delim t = Some (t, [])"
  using column_facts [OF assms] by (simp_all add: strtok_r_append strtok_r_last delim_def)

text \<open>The five columns of a plain line, and the parser's reading of them.\<close>

fun plain_line :: "string \<times> string \<times> string \<times> string \<times> string \<Rightarrow> string" where
  "plain_line (dev, mp, ty, opts, flags) =
     butlast (fstab_line False (Some dev) (Some mp) (Some ty) opts flags [])"

definition plain_scan :: "string \<Rightarrow> (string \<times> string \<times> string \<times> string \<times> string) option" where
  "plain_scan line =
     (case parse_plain_rec line of
        Inr (Some (r, _)) \<Rightarrow>
          Some (printf_s (blk_device r), printf_s (mount_point r), printf_s (fs_type r),
                printf_s (fs_options_unparsed r), printf_s (fs_mgr_flags_unparsed r))
      | _ \<Rightarrow> None)"

fun plain_ok :: "string \<times> string \<times> string \<times> string \<times> string \<Rightarrow> bool" where
  "plain_ok (dev, mp, ty, opts, flags) \<longleftrightarrow>
     column dev \<and> hd dev \<noteq> CHR ''#'' \<and> column mp \<and> column ty \<and> column opts \<and> column flags"

lemma plain_line_eq:
  "plain_line (dev, mp, ty, opts, flags) =
     dev @ SPC # mp @ SPC # ty @ SPC # opts @ SPC # flags"
  by (simp add: fstab_line_def butlast_append)

lemma plain_scan_line: "plain_ok c \<Longrightarrow> plain_scan (plain_line c) = Some c"
proof (cases c)
  case (fields dev mp ty opts flags)
  assume ok: "plain_ok c"
  obtain m where m: "parse_flags opts mount_flags False (Some FS_OPTIONS_LEN) = Inr m"
    using parse_flags_total [of False mount_flags] by blast
  obtain f where f: "parse_flags flags fs_mgr_flags True None = Inr f"
    using parse_flags_total [of True fs_mgr_flags] by blast
  obtain v where "ps_vals f = Some v" using parse_flags_key_loc [OF f] by auto
  with ok m f show ?thesis
    unfolding fields plain_line_eq
    by (simp add: plain_scan_def parse_plain_rec_def strtok_column Let_def finish_rec_def)
qed

lemma significant_column:
  "column t \<Longrightarrow> hd t \<noteq> CHR ''#'' \<Longrightarrow> significant (t @ s)"
proof -
  assume t: "column t" "hd t \<noteq> CHR ''#''"
  have "t @ s \<noteq> [] \<and> hd (t @ s) = hd t" using column_facts(1) [OF t(1)] by simp
  with t(2) show "significant (t @ s)"
    unfolding significant_def Let_def column_facts(5) [OF t(1)] by simp
qed

interpretation plain: line_codec plain_line plain_scan plain_ok
proof
  fix c
  assume ok: "plain_ok c"
  obtain dev mp ty opts flags where c: "c = (dev, mp, ty, opts, flags)" by (cases c)
  show "NL \<notin> set (plain_line c) \<and> NUL \<notin> set (plain_line c)"
    using ok column_facts(3,4) unfolding c plain_line_eq by simp
  show "significant (plain_line c)"
    using ok significant_column unfolding c plain_line_eq by simp
  show "plain_scan (plain_line c) = Some c" using ok by (rule plain_scan_line)
qed

text \<open>
  A TWRP line whose options and flags are both defaults, as the reader leaves them, and the
  columns after the third as it collected them.
\<close>

definition spaced :: "string list \<Rightarrow> string" where
  "spaced ts = concat (map (\<lambda>t. t @ '' '') ts)"

fun twrp_line :: "string \<times> string \<times> string \<times> string list \<Rightarrow> string" where
  "twrp_line (mp, ty, dev, ts) =
     butlast (fstab_line True (Some dev) (Some mp) (Some ty) ''defaults'' ''defaults'' (spaced ts))"

definition twrp_scan :: "string \<Rightarrow> (string \<times> string \<times> string \<times> string list) option" where
  "twrp_scan line =
     (case parse_twrp_rec initial_values line of
        Some (r, _) \<Rightarrow>
          Some (printf_s (mount_point r), printf_s (fs_type r), printf_s (blk_device r),
                strtok_all delim (or_empty (unhandled_columns r)))
      | None \<Rightarrow> None)"

fun twrp_ok :: "string \<times> string \<times> string \<times> string list \<Rightarrow> bool" where
  "twrp_ok (mp, ty, dev, ts) \<longleftrightarrow>
     column mp \<and> hd mp \<noteq> CHR ''#'' \<and> column ty \<and> column dev \<and> (\<forall>t\<in>set ts. column t)"

lemma strtok_all_skip: "d \<in> set ds \<Longrightarrow> strtok_all ds (d # s) = strtok_all ds s"
  by (simp add: strtok_all.simps [of ds "d # s"] strtok_all.simps [of ds s] strtok_r_def)

lemma strtok_all_Nil: "strtok_all ds [] = []"
  by (simp add: strtok_all.simps [of ds "[]"] strtok_r_def)

lemma strtok_all_spaced: "\<forall>t\<in>set ts. column t \<Longrightarrow> strtok_all delim (spaced ts) = ts"
proof (induction ts)
  case Nil
  then show ?case by (simp add: spaced_def strtok_all.simps strtok_r_def)
next
  case (Cons t ts)
  then show ?case
    by (simp add: spaced_def strtok_all.simps [of delim "t @ SPC # _"] strtok_column)
qed

lemma twrp_line_eq:
  "twrp_line (mp, ty, dev, ts) = mp @ SPC # ty @ SPC # dev @ SPC # SPC # SPC # spaced ts"
  by (simp add: fstab_line_def butlast_append)

lemma spaced_chars: "\<forall>t\<in>set ts. column t \<Longrightarrow> NL \<notin> set (spaced ts) \<and> NUL \<notin> set (spaced ts)"
  using column_facts(3,4) by (auto simp: spaced_def)

interpretation twrp: line_codec twrp_line twrp_scan twrp_ok
proof
  fix c
  assume ok: "twrp_ok c"
  obtain mp ty dev ts where c: "c = (mp, ty, dev, ts)" by (cases c)
  show "NL \<notin> set (twrp_line c) \<and> NUL \<notin> set (twrp_line c)"
    using ok column_facts(3,4) spaced_chars unfolding c twrp_line_eq by simp
  show "significant (twrp_line c)"
    using ok significant_column unfolding c twrp_line_eq by simp
  have d: "SPC \<in> set delim" by (simp add: delim_def)
  have t: "strtok_all delim (SPC # SPC # spaced ts) = ts" "strtok_all delim (spaced ts) = ts"
    using ok strtok_all_spaced unfolding c by (simp_all add: strtok_all_skip [OF d])
  then have "strtok_all delim (or_empty (collect_unhandled (SPC # SPC # spaced ts))) = ts"
    by (auto simp: collect_unhandled_def or_empty_def strtok_all_Nil spaced_def)
  then show "twrp_scan (twrp_line c) = Some c"
    using ok unfolding c twrp_line_eq
    by (simp add: twrp_scan_def parse_twrp_rec_def strtok_column finish_rec_def)
qed

section \<open>What is written\<close>

definition rec_cols :: "fstab_rec \<Rightarrow> string \<times> string \<times> string \<times> string \<times> string" where
  "rec_cols r = (printf_s (blk_device r), printf_s (mount_point r), printf_s (fs_type r),
     or_empty (fs_options_unparsed r), or_empty (fs_mgr_flags_unparsed r))"

lemma fstab_line_plain:
  "fstab_line False blk mp ty opts flags u =
     plain_line (printf_s blk, printf_s mp, printf_s ty, opts, flags) @ [NL]"
  by (simp add: fstab_line_def butlast_append)

lemma record_lines_untouched:
  "\<not> multiboot_enabled d \<Longrightarrow> \<not> sndstage_enabled d \<Longrightarrow>
     record_lines indet d False r = Inr [plain_line (rec_cols r) @ [NL]]"
  by (simp add: record_lines_def grub_fixup_def multiboot_fixup_def Let_def rec_cols_def
      fstab_line_plain del: plain_line.simps bindE_eq_Inr)

text \<open>The text a run wrote to a stream.\<close>

definition written :: "int \<Rightarrow> call list \<Rightarrow> string" where
  "written f cs = concat (map (\<lambda>c. case c of Stream (Fputs g s) \<Rightarrow> if g = f then s else [] | _ \<Rightarrow> []) cs)"

lemma written_append [simp]: "written f (cs @ ds) = written f cs @ written f ds"
  by (simp add: written_def)

lemma written_fputs: "written f (map (\<lambda>s. Stream (Fputs f s)) ls) = concat ls"
  by (induction ls) (simp_all add: written_def)

lemma fold_writes_trail:
  "trail (fold (\<lambda>l w. snd (sys os (Stream (Fputs f l)) w)) ls w) =
     trail w @ map (\<lambda>s. Stream (Fputs f s)) ls"
  by (induction ls arbitrary: w) auto

lemma patch_loop:
  assumes "\<And>r. r \<in> set rs \<Longrightarrow> g r = Inr (h r)"
  shows "\<exists>w'. foldE (\<lambda>r w. bindE (g r) (\<lambda>ls. Inr (fold (\<lambda>l w. snd (sys os (Stream (Fputs f l)) w)) ls w))) rs w
      = Inr w' \<and> trail w' = trail w @ map (\<lambda>s. Stream (Fputs f s)) (concat (map h rs))"
  using assms
proof (induction rs arbitrary: w)
  case Nil
  then show ?case by simp
next
  case (Cons r rs)
  let ?w = "fold (\<lambda>l w. snd (sys os (Stream (Fputs f l)) w)) (h r) w"
  from Cons obtain w' where
    "foldE (\<lambda>r w. bindE (g r) (\<lambda>ls. Inr (fold (\<lambda>l w. snd (sys os (Stream (Fputs f l)) w)) ls w))) rs ?w = Inr w'"
    "trail w' = trail ?w @ map (\<lambda>s. Stream (Fputs f s)) (concat (map h rs))" by force
  with Cons.prems show ?case by (simp add: fold_writes_trail)
qed

section \<open>Properties\<close>



text \<open>C10. A partition that multiboot replaces by a directory gets two entries in the patched
  fstab: the bind mount of the directory and, except for /system, the remount that applies
  the entry's own options; both read back with the entry's mount point and type.\<close>

theorem patch_bind_entries:
  assumes "multiboot_enabled d" and "\<not> sndstage_enabled d"
    and "fs_mgr_get_entry_for_mount_point (multiboot_fstab d) mp = Inr (Some e)"
    and "multiboot_fstab d \<noteq> None" and "fs_mgr_is_multiboot e \<noteq> 0" and "replacement_bind e"
    and "replacement_device e = Some dir"
    and "mount_point r = Some mp" and "fs_type r = Some ty" and "fs_options_unparsed r = Some opts"
    and "fs_mgr_flags_unparsed r = Some flags"
    and "column dir" "hd dir \<noteq> CHR ''#''" "column mp" "column ty" "column opts" "column flags"
  shows "\<exists>ls. record_lines indet d False r = Inr (map (\<lambda>l. l @ [NL]) ls) \<and>
    map plain_scan ls =
      [Some (dir, mp, ty, ''bind'', flags)] @
      (if mp = ''/system'' then [] else [Some (dir, mp, ty, ''remount,'' @ opts, ''wait'')])"
proof -
  let ?l1 = "plain_line (dir, mp, ty, ''bind'', flags)"
  let ?l2 = "plain_line (dir, mp, ty, ''remount,'' @ opts, ''wait'')"
  have "record_lines indet d False r =
      Inr (map (\<lambda>l. l @ [NL]) (?l1 # (if mp = ''/system'' then [] else [?l2])))"
    using assms
    by (auto simp: record_lines_def grub_fixup_def multiboot_fixup_def Let_def or_empty_def
        fstab_line_plain simp del: plain_line.simps bindE_eq_Inr)
  moreover have "plain_scan ?l1 = Some (dir, mp, ty, ''bind'', flags)"
    by (rule plain_scan_line) (use assms in \<open>simp add: column_def isspace_def\<close>)
  moreover have "plain_scan ?l2 = Some (dir, mp, ty, ''remount,'' @ opts, ''wait'')"
    by (rule plain_scan_line) (use assms in \<open>auto simp: column_def isspace_def\<close>)
  ultimately show ?thesis
    by (intro exI [of _ "?l1 # (if mp = ''/system'' then [] else [?l2])"]) (simp del: plain_line.simps)
qed

theorem patch_bind_entries_witness:
  "\<exists>ls. record_lines (0, 0)
      (zero_data\<lparr>multiboot_enabled := True,
         multiboot_fstab := Some \<lparr>num_entries = 1, recs = [zero_rec\<lparr>mount_point := Some ''/data'',
            rec_fs_mgr_flags := MF_MULTIBOOT, replacement_bind := True,
            replacement_device := Some ''/src/mb/data''\<rparr>], fstab_filename = [], twrp = False\<rparr>\<rparr>)
      False
      (zero_rec\<lparr>blk_device := Some ''/dev/x'', mount_point := Some ''/data'', fs_type := Some ''ext4'',
         fs_options_unparsed := Some ''noatime'', fs_mgr_flags_unparsed := Some ''check''\<rparr>) =
     Inr (map (\<lambda>l. l @ [NL]) ls) \<and>
     map plain_scan ls =
       [Some (''/src/mb/data'', ''/data'', ''ext4'', ''bind'', ''check''),
        Some (''/src/mb/data'', ''/data'', ''ext4'', ''remount,noatime'', ''wait'')]"
proof -
  let ?e = "zero_rec\<lparr>mount_point := Some ''/data'', rec_fs_mgr_flags := MF_MULTIBOOT,
      replacement_bind := True, replacement_device := Some ''/src/mb/data''\<rparr>"
  let ?f = "\<lparr>num_entries = 1, recs = [?e], fstab_filename = [], twrp = False\<rparr>"
  let ?d = "zero_data\<lparr>multiboot_enabled := True, multiboot_fstab := Some ?f\<rparr>"
  let ?r = "zero_rec\<lparr>blk_device := Some ''/dev/x'', mount_point := Some ''/data'', fs_type := Some ''ext4'',
      fs_options_unparsed := Some ''noatime'', fs_mgr_flags_unparsed := Some ''check''\<rparr>"
  have d: "multiboot_enabled ?d" "\<not> sndstage_enabled ?d" "multiboot_fstab ?d \<noteq> None"
    by (simp_all add: zero_data_def)
  have e: "fs_mgr_get_entry_for_mount_point (multiboot_fstab ?d) ''/data'' = Inr (Some ?e)"
    by (simp add: fs_mgr_get_entry_for_mount_point_def covers_def has_prefix_def)
  have m: "fs_mgr_is_multiboot ?e \<noteq> 0" by (simp add: fs_mgr_is_multiboot_def MF_MULTIBOOT_def)
  have "\<exists>ls. record_lines (0, 0) ?d False ?r = Inr (map (\<lambda>l. l @ [NL]) ls) \<and>
      map plain_scan ls = [Some (''/src/mb/data'', ''/data'', ''ext4'', ''bind'', ''check'')] @
        (if ''/data'' = ''/system'' then []
         else [Some (''/src/mb/data'', ''/data'', ''ext4'', ''remount,'' @ ''noatime'', ''wait'')])"
    by (rule patch_bind_entries [OF d(1,2) e d(3) m]) (simp_all add: column_def isspace_def)
  then show ?thesis by simp
qed

end
