(* ===== verification/EnvPrepare.thy ===== *)
theory EnvPrepare
  imports Modules
begin

text \<open>
  The preparation of the environment, src/modules/env_prepare.c: \<open>ep_early_init\<close> mounts the
  grub and source partitions and disables the tools of other boot managers, \<open>ep_fstab_init\<close>
  creates the directories, images and loop devices behind the multiboot fstab.
\<close>

section \<open>Early\<close>

definition mount_grub :: "os \<Rightarrow> module_data \<Rightarrow> world \<Rightarrow> bool \<times> world" where
  "mount_grub os d w =
     (case (blk_device (grub_device d), grub_path d) of
        (Some blk, Some path) \<Rightarrow>
          let (r, w) = util_mount os (snprintf PATH_MAX (''/multiboot'' @ blk))
                         ''/multiboot/mnt/grub'' None 0 None w in
          if r \<noteq> 0 then (False, w)
          else
            let (r, w) = util_mount os
                  (snprintf PATH_MAX (''/multiboot/mnt/grub/'' @ path @ ''/..''))
                  ''/bootloader'' None MS_BIND None w
            in (r = 0, w)
      | _ \<Rightarrow> (True, w))"

definition disable_dualboot :: "os \<Rightarrow> module_data \<Rightarrow> world \<Rightarrow> world" where
  "disable_dualboot os d w =
     (let hw = printf_s (hw_name d);
          init_rc = snprintf PATH_MAX (''/init.'' @ hw @ ''.rc'');
          (_, w) = sed_replace os init_rc
             (snprintf PATH_MAX (''s/exec '' @ sed_escape ''/sbin/dualboot_init'' @ '' .'' @
                sed_escape ''/fstab.'' @ hw @ ''//g'')) w;
          (_, w) = sys os (Path (Unlink ''/sbin/dualboot_init'')) w;
          (_, w) = sed_replace os init_rc
             (snprintf PATH_MAX (''s/fstab.'' @ hw @ ''.patched/fstab.'' @ hw @ ''/g'')) w;
          (_, w) = sed_replace os (snprintf PATH_MAX (''/init.recovery.'' @ hw @ ''.rc''))
             (''s/exec '' @ sed_escape ''/sbin/syspart_select'' @ '' auto//g'') w;
          (_, w) = sys os (Path (Unlink ''/sbin/syspart_select'')) w
      in w)"

definition ep_early_init :: "os \<Rightarrow> module_data \<Rightarrow> world \<Rightarrow> int \<times> world" where
  "ep_early_init os d w =
     (let (ok, w) = mount_grub os d w in
      if \<not> ok then (- 1, w)
      else
        let (_, w) = util_copy os ''/bootloader/multiboot'' ''/'' True True w;
            (_, w) = sys os (Path (Chmod PATH_MULTIBOOT_BUSYBOX 448)) w;
            (_, w) = util_chmod os ''/multiboot/etc'' ''0600'' True w;
            (_, w) = util_chmod os ''/multiboot/sbin'' ''0700'' True w;
            part_source = snprintf PATH_MAX
              (''/multiboot'' @ printf_s (blk_device (multiboot_device d)));
            (r, w) = util_mount os part_source ''/multiboot/mnt/source'' None 0 None w in
        if r \<noteq> 0 then (- 1, w)
        else
          let (_, w) = (if bootmode d \<noteq> BOOTMODE_RECOVERY then patch_vold os w
                        else if multiboot_enabled d then
                          util_copy os ''/multiboot/res/twrp_curtain.jpg''
                            ''/res/images/curtain.jpg'' False False w
                        else (0, w))
          in (0, disable_dualboot os d w))"

section \<open>After the fstabs are loaded\<close>

text \<open>
  The work for one record of the multiboot fstab. The result is False where the code ends
  the loop with -1; a failing \<open>losetup\<close> or \<open>mkfs\<close> does not.
\<close>

definition prepare_bind :: "os \<Rightarrow> fstab_rec \<Rightarrow> world \<Rightarrow> ub + (bool \<times> world)" where
  "prepare_bind os r w =
     bindE (deref (replacement_device r)) (\<lambda>dir.
     let (v, w) = mkpath os S_IRWX_all dir w in
     if v \<noteq> 0 then Inr (False, w)
     else
       let buf = snprintf PATH_MAX (''/multiboot/stubfs'' @ printf_s (mount_point r) @ ''.img'');
           (s, w) = sys os (Path (Stat buf)) w;
           (v, w) = (if rc s \<noteq> 0 then createRawImage os None buf 10240 w else (0, w)) in
       if v \<noteq> 0 then Inr (False, w)
       else
         let (_, w) = set_loop os (stub_device r) buf False w;
             (_, w) = make_ext4fs os (stub_device r) w
         in Inr (True, w))"

definition prepare_image :: "os \<Rightarrow> module_data \<Rightarrow> fstab_rec \<Rightarrow> world \<Rightarrow> bool \<times> world" where
  "prepare_image os d r w =
     (let buf = snprintf PATH_MAX (''/multiboot/mnt/source'' @ printf_s (multiboot_path d) @
                  printf_s (mount_point r) @ ''.img'');
          (s, w) = sys os (Path (Stat buf)) w;
          (v, w) = (if rc s \<noteq> 0 then
                      createRawImage os
                        (Some (snprintf PATH_MAX (''/multiboot'' @ printf_s (blk_device r))))
                        buf 4294967295 w
                    else (0, w)) in
      if v \<noteq> 0 then (False, w)
      else let (_, w) = set_loop os (replacement_device r) buf False w in (True, w))"

fun prepare_recs :: "os \<Rightarrow> module_data \<Rightarrow> fstab_rec list \<Rightarrow> world \<Rightarrow> ub + (bool \<times> world)" where
  "prepare_recs os d [] w = Inr (True, w)"
| "prepare_recs os d (r # rs) w =
     (if fs_mgr_is_multiboot r = 0 then prepare_recs os d rs w
      else
        bindE (if replacement_bind r then prepare_bind os r w else Inr (prepare_image os d r w))
          (\<lambda>(ok, w). if ok then prepare_recs os d rs w else Inr (False, w)))"

definition ep_fstab_init :: "os \<Rightarrow> module_data \<Rightarrow> world \<Rightarrow> ub + (int \<times> world)" where
  "ep_fstab_init os d w =
     (let dir = snprintf PATH_MAX (''/multiboot/mnt/source'' @ printf_s (multiboot_path d));
          (v, w) = mkpath os S_IRWX_all dir w in
      if v \<noteq> 0 then Inr (- 1, w)
      else
        bindE (deref (multiboot_fstab d)) (\<lambda>fs.
        bindE (prepare_recs os d (take (num_entries fs) (recs fs)) w)
          (\<lambda>(ok, w). Inr (if ok then 0 else - 1, w))))"

section \<open>Facts\<close>

text \<open>
  Records without the multiboot flag cause no call at all: the loop does the same on the
  flagged records alone.
\<close>

lemma prepare_recs_filter:
  "prepare_recs os d (filter (\<lambda>r. fs_mgr_is_multiboot r \<noteq> 0) rs) w = prepare_recs os d rs w"
proof (induction rs arbitrary: w)
  case Nil
  then show ?case by simp
next
  case (Cons r rs)
  then show ?case by (simp add: Cons.IH split_beta cong: if_cong)
qed

lemma prepare_recs_defined:
  "\<forall>r\<in>set rs. replacement_bind r \<longrightarrow> replacement_device r \<noteq> None \<Longrightarrow>
     defined (prepare_recs os d rs w)"
proof (induction rs arbitrary: w)
  case Nil
  then show ?case by simp
next
  case (Cons r rs)
  have "defined (prepare_bind os r w)" if "replacement_bind r"
    using Cons.prems that by (auto simp: prepare_bind_def Let_def split_beta intro!: defined_bindE)
  with Cons show ?case by (auto simp: split_beta intro!: defined_bindE)
qed

section \<open>Properties\<close>

lemma util_mount_fails:
  assumes "\<And>cs t f o'. rc (os cs (Path (Mount (Some source) target t f o'))) \<noteq> 0"
  shows "fst (util_mount os source target ty flags opts w) \<noteq> 0"
  using assms by (auto simp: util_mount_def Let_def split_beta split: option.splits)

text \<open>A second stage boot without a multiboot source cannot start: the early stage mounts the
  source partition whether or not there is one, so it asks for the path /multiboot(null) and, where
  that cannot be mounted, fails.\<close>

theorem early_init_needs_source:
  assumes "blk_device (multiboot_device d) = None"
    and "\<And>cs t f o'. rc (os cs (Path (Mount (Some ''/multiboot(null)'') ''/multiboot/mnt/source'' t f o'))) \<noteq> 0"
  shows "fst (ep_early_init os d w) = - 1"
proof -
  have "snprintf PATH_MAX (''/multiboot'' @ printf_s (blk_device (multiboot_device d))) = ''/multiboot(null)''"
    using assms(1) by (simp add: printf_s_def PATH_MAX_def)
  with util_mount_fails [of os "''/multiboot(null)''" "''/multiboot/mnt/source''", OF assms(2)]
  show ?thesis by (simp add: ep_early_init_def Let_def split_beta)
qed

theorem early_init_needs_source_witness:
  "fst (ep_early_init (\<lambda>cs c. case c of Path (Mount _ _ _ _ _) \<Rightarrow> err_reply ENOENT | _ \<Rightarrow> ok_reply 0)
     (zero_data\<lparr>sndstage_enabled := True\<rparr>) initial_world) = - 1"
  by (rule early_init_needs_source) (simp_all add: zero_data_def zero_rec_def)

end
