(* ===== verification/Klog.thy ===== *)
theory Klog
  imports Os
begin

text \<open>
  The kernel log, lib/klog.c: the descriptor of the kernel message device and the log
  level, \<open>klog_init\<close>, \<open>klog_set_level\<close> and \<open>klog_write\<close>. The formatted text of a
  message is an argument; what is modelled is when it is written, where to and how much of
  it. The other theories leave their log output out.
\<close>

record klog =
  klog_fd :: int
  klog_level :: int

definition klog_initial :: klog where
  "klog_initial = \<lparr>klog_fd = - 1, klog_level = 3\<rparr>"

definition klog_set_level :: "int \<Rightarrow> klog \<Rightarrow> klog" where
  "klog_set_level level k = k\<lparr>klog_level := level\<rparr>"

definition klog_init :: "os \<Rightarrow> klog \<times> world \<Rightarrow> klog \<times> world" where
  "klog_init os = (\<lambda>(k, w).
     let name = ''/dev/__kmsg__'' in
     if 0 \<le> klog_fd k then (k, w)
     else
       let (r, w) = sys os (Path (Mknod name (S_IFCHR + 384) (1, 11))) w in
       if rc r \<noteq> 0 then (k, w)
       else
         let (r, w) = sys os (Fd (Open name O_WRONLY)) w;
             k = k\<lparr>klog_fd := rc r\<rparr> in
         if klog_fd k < 0 then (k, w)
         else
           let (_, w) = sys os (Fd (Fcntl (klog_fd k))) w;
               (_, w) = sys os (Fd (Dup2 (klog_fd k) 1)) w;
               (_, w) = sys os (Fd (Dup2 (klog_fd k) 2)) w;
               (_, w) = sys os (Path (Unlink name)) w
           in (k, w))"

definition LOG_BUF_MAX :: nat where "LOG_BUF_MAX = 512"

definition klog_write :: "os \<Rightarrow> int \<Rightarrow> string \<Rightarrow> klog \<times> world \<Rightarrow> klog \<times> world" where
  "klog_write os level msg = (\<lambda>(k, w).
     if klog_level k < level then (k, w)
     else
       let (k, w) = (if klog_fd k < 0 then klog_init os (k, w) else (k, w)) in
       if klog_fd k < 0 then (k, w)
       else
         let buf = snprintf LOG_BUF_MAX (cstr msg);
             (_, w) = sys os (Fd (Write (klog_fd k) buf)) w
         in (k, w))"

text \<open>The calls \<open>klog_init\<close> makes before it has a descriptor to write to.\<close>

definition klog_setup_call :: "call \<Rightarrow> bool" where
  "klog_setup_call c \<longleftrightarrow> (\<forall>fd s. c \<noteq> Fd (Write fd s))"

lemmas klog_defs = klog_init_def klog_write_def klog_set_level_def Let_def split_beta

lemma klog_init_noop: "0 \<le> klog_fd k \<Longrightarrow> klog_init os (k, w) = (k, w)"
  by (simp add: klog_init_def)

lemma klog_init_level: "klog_level (fst (klog_init os (k, w))) = klog_level k"
  by (simp add: klog_defs)

lemma klog_init_calls:
  "\<exists>cs. trail (snd (klog_init os (k, w))) = trail w @ cs \<and> (\<forall>c\<in>set cs. klog_setup_call c)"
  by (auto simp: klog_defs klog_setup_call_def sys_eq)

lemma klog_write_fd_stable:
  "0 \<le> klog_fd k \<Longrightarrow> fst (klog_write os level msg (k, w)) = k"
  by (simp add: klog_defs)

lemma klog_write_keeps:
  "klog_write os level msg (k, w) = (k', w') \<Longrightarrow> 0 \<le> klog_fd k \<Longrightarrow> k' = k"
  using klog_write_fd_stable [of k os level msg w] by simp

text \<open>
  A message above the level makes no call at all; one at or below it is written at most
  once, as the longest prefix of its text that fits the 512 byte buffer with its NUL, to
  the descriptor that is held afterwards.
\<close>

lemma klog_write_silent:
  "klog_level k < level \<Longrightarrow> klog_write os level msg (k, w) = (k, w)"
  by (simp add: klog_defs)

lemma klog_write_open:
  "0 \<le> klog_fd k \<Longrightarrow> level \<le> klog_level k \<Longrightarrow>
   trail (snd (klog_write os level msg (k, w))) =
     trail w @ [Fd (Write (klog_fd k) (take 511 (cstr msg)))]"
  by (simp add: klog_defs snprintf_def LOG_BUF_MAX_def)

lemma klog_write_calls:
  "\<exists>cs. trail (snd (klog_write os level msg (k, w))) = trail w @ cs \<and>
     (\<forall>c\<in>set cs. klog_setup_call c \<or>
        c = Fd (Write (klog_fd (fst (klog_write os level msg (k, w)))) (take 511 (cstr msg))))"
proof (cases "klog_level k < level")
  case True
  then show ?thesis by (simp add: klog_write_silent)
next
  case False
  show ?thesis
  proof (cases "0 \<le> klog_fd k")
    case True
    with False show ?thesis by (simp add: klog_write_open klog_write_fd_stable)
  next
    case neg: False
    obtain k' w' where i: "klog_init os (k, w) = (k', w')" by (cases "klog_init os (k, w)")
    with klog_init_calls [of os k w] obtain cs where
      cs: "trail w' = trail w @ cs" "\<forall>c\<in>set cs. klog_setup_call c" by auto
    with False neg i show ?thesis
      by (auto simp: klog_write_def Let_def split_beta snprintf_def LOG_BUF_MAX_def)
  qed
qed

text \<open>Once a descriptor is held, no run of writes and level changes gives it up.\<close>

datatype klog_op = Log int string | Set_Level int

fun klog_step :: "os \<Rightarrow> klog_op \<Rightarrow> klog \<times> world \<Rightarrow> klog \<times> world" where
  "klog_step os (Log level msg) s = klog_write os level msg s"
| "klog_step os (Set_Level level) (k, w) = (klog_set_level level k, w)"

interpretation klog_run: preserving "klog_step os" "\<lambda>(k, w). klog_fd k = fd \<and> 0 \<le> fd"
proof
  fix s :: "klog \<times> world" and i
  assume "case s of (k, w) \<Rightarrow> klog_fd k = fd \<and> 0 \<le> fd"
  then show "case klog_step os i s of (k, w) \<Rightarrow> klog_fd k = fd \<and> 0 \<le> fd"
    by (cases i; cases s) (auto simp: klog_set_level_def dest: klog_write_keeps split: prod.splits)
qed

section \<open>Properties\<close>

text \<open>A log message makes no call when its level is above the log level; with an open
  descriptor it is written once, cut to the 511 characters that fit the buffer, and the
  descriptor stays; the first message at most sets the descriptor up before.\<close>

theorem klog_write_once:
  "case klog_write os level msg (k, w) of (k', w') \<Rightarrow>
     if klog_level k < level then k' = k \<and> w' = w
     else if 0 \<le> klog_fd k then
       k' = k \<and> trail w' = trail w @ [Fd (Write (klog_fd k) (take 511 (cstr msg)))]
     else
       klog_level k' = klog_level k \<and>
       trail w' = trail (snd (klog_init os (k, w))) @
         (if klog_fd k' < 0 then [] else [Fd (Write (klog_fd k') (take 511 (cstr msg)))])"
proof -
  obtain k1 w1 where i: "klog_init os (k, w) = (k1, w1)" by (cases "klog_init os (k, w)")
  have "klog_level k1 = klog_level k" using klog_init_level [of os k w] i by simp
  with i show ?thesis
    by (auto simp: klog_write_def Let_def split_beta snprintf_def LOG_BUF_MAX_def)
qed

end
