(* ===== verification/Cmdline.thy ===== *)
theory Cmdline
  imports Os
begin

text \<open>
  The kernel command line, lib/cmdline.c: \<open>import_kernel_cmdline\<close> reads up to 1023 bytes
  of /proc/cmdline, cuts them at the spaces and hands each piece to a callback.
\<close>

definition cmdline_text :: "os \<Rightarrow> world \<Rightarrow> string \<times> world" where
  "cmdline_text os w =
     (let (r, w) = sys os (Fd (Open ''/proc/cmdline'' O_RDONLY)) w in
      if 0 \<le> rc r then
        let fd = rc r;
            (r, w) = sys os (Fd (Read fd 1023)) w;
            n = (if rc r < 0 then 0 else nat (rc r));
            buf = take n (data r);
            buf = (if buf \<noteq> [] \<and> last buf = NL then butlast buf else buf);
            (_, w) = sys os (Fd (Close fd)) w
        in (cstr buf, w)
      else ([], w))"

text \<open>The loop over the text: a piece ends at the next space or at the end.\<close>

function cmdline_words :: "string \<Rightarrow> string list" where
  "cmdline_words ptr =
     (if ptr = [] then []
      else case strchr ptr SPC of
             None \<Rightarrow> [ptr]
           | Some x \<Rightarrow> takeWhile (\<lambda>c. c \<noteq> SPC) ptr # cmdline_words (tl x))"
  by pat_completeness auto
termination
proof (relation "measure length")
  fix ptr x
  assume "ptr \<noteq> []" "strchr ptr SPC = Some x"
  then have "x = dropWhile (\<lambda>c. c \<noteq> SPC) ptr" "x \<noteq> []"
    using strchr_SomeD [of ptr SPC x] by (auto simp: strchr_def split: if_splits)
  then have "length x \<le> length ptr" "x \<noteq> []" by (simp_all add: length_dropWhile_le)
  then show "(tl x, ptr) \<in> measure length" by (cases x) auto
qed simp

declare cmdline_words.simps [simp del]

definition import_kernel_cmdline ::
  "os \<Rightarrow> (string \<Rightarrow> 's \<times> world \<Rightarrow> 'e + ('s \<times> world)) \<Rightarrow> 's \<times> world \<Rightarrow> 'e + ('s \<times> world)" where
  "import_kernel_cmdline os import_kernel_nv = (\<lambda>(s, w).
     let (cmdline, w) = cmdline_text os w
     in foldE import_kernel_nv (cmdline_words cmdline) (s, w))"

lemma cmdline_words_Nil [simp]: "cmdline_words [] = []"
  by (simp add: cmdline_words.simps)

lemma cmdline_words_last: "ptr \<noteq> [] \<Longrightarrow> SPC \<notin> set ptr \<Longrightarrow> cmdline_words ptr = [ptr]"
  by (simp add: cmdline_words.simps [of ptr] strchr_def)

lemma cmdline_words_step:
  "SPC \<notin> set t \<Longrightarrow> cmdline_words (t @ SPC # r) = t # cmdline_words r"
  by (simp add: cmdline_words.simps [of "t @ SPC # r"] strchr_append takeWhile_append)

lemma cmdline_cases [case_names Nil Last Step]:
  assumes "s = [] \<Longrightarrow> P"
    and "s \<noteq> [] \<Longrightarrow> SPC \<notin> set s \<Longrightarrow> P"
    and "\<And>t r. s = t @ SPC # r \<Longrightarrow> SPC \<notin> set t \<Longrightarrow> P"
  shows P
  using assms split_list_first [of SPC s] by blast

text \<open>
  The pieces are the parts of the command line between its spaces: none holds a space and
  joining them with spaces gives the text back, but for one trailing space.
\<close>

lemma cmdline_words_no_space: "t \<in> set (cmdline_words s) \<Longrightarrow> SPC \<notin> set t"
proof (induction s rule: length_induct)
  case (1 s)
  show ?case
  proof (cases s rule: cmdline_cases)
    case (Step u r)
    with 1 show ?thesis by (auto simp: cmdline_words_step)
  qed (use 1 in \<open>auto simp: cmdline_words_last\<close>)
qed

lemma cmdline_words_join:
  "join SPC (cmdline_words s) = (if s \<noteq> [] \<and> last s = SPC then butlast s else s)"
proof (induction s rule: length_induct)
  case (1 s)
  show ?case
  proof (cases s rule: cmdline_cases)
    case Nil
    then show ?thesis by simp
  next
    case Last
    then have "last s \<noteq> SPC" using last_in_set [of s] by metis
    with Last show ?thesis by (simp add: cmdline_words_last)
  next
    case (Step t r)
    show ?thesis
    proof (cases "r = []")
      case True
      with Step show ?thesis by (simp add: cmdline_words_step)
    next
      case False
      then have "cmdline_words r \<noteq> []"
        by (cases r rule: cmdline_cases) (auto simp: cmdline_words_last cmdline_words_step)
      with False Step 1 show ?thesis
        by (simp add: cmdline_words_step join_Cons butlast_append)
    qed
  qed
qed

section \<open>Properties\<close>

text \<open>The command line is cut at its spaces and nowhere else: no piece that is handed to
  the callback holds a space, and the pieces joined by spaces are the command line, less one
  trailing space.\<close>

theorem cmdline_split:
  "(\<forall>t\<in>set (cmdline_words s). SPC \<notin> set t) \<and>
   join SPC (cmdline_words s) = (if s \<noteq> [] \<and> last s = SPC then butlast s else s)"
  using cmdline_words_no_space cmdline_words_join by blast

theorem cmdline_split_witness:
  "join SPC (cmdline_words ''ro  quiet '') = ''ro  quiet''"
  using cmdline_split [of "''ro  quiet ''"] by simp

end
