(* ===== verification/MultibootInit.thy ===== *)
theory MultibootInit
  imports Rounds FstabPatcher EnvPrepare Klog Cmdline
begin

text \<open>
  The program itself, src/multiboot_init.c: the kernel command line options, the loading of
  the fstabs, \<open>setup\<close>, the life of a traced child and \<open>main\<close>.
\<close>

section \<open>State and outcomes\<close>

text \<open>
  The static variables: the modules' data, the log, the counter of \<open>make_loop\<close> and the
  statics of the redirection; and the world.
\<close>

record prog =
  p_data :: module_data
  p_klog :: klog
  p_loops :: int
  p_redir :: "redirect_info list \<times> fstab_rec option"
  p_world :: world

text \<open>
  What the model cannot know: the values uninitialised variables hold, the bytes an
  allocation of \<open>n\<close> really provides, and tracy's option bits.
\<close>

record 'l machine = "'l tracer" +
  stack_values :: flag_values
  stack_pair :: "u32 \<times> u32"
  stack_rc :: int
  usable :: "nat \<Rightarrow> nat"
  tracy_opt :: u32

text \<open>Why a run ends before its function returns.\<close>

datatype stop =
    Crash ub            \<comment> \<open>undefined behaviour\<close>
  | Replaced world      \<comment> \<open>\<open>execve\<close> succeeded: another program runs\<close>
  | Exited int world    \<comment> \<open>\<open>exit\<close> was called\<close>
  | Waiting             \<comment> \<open>the fuel of the last loop is used up\<close>

definition crash :: "ub + 'a \<Rightarrow> stop + 'a" where
  "crash m = (case m of Inl e \<Rightarrow> Inl (Crash e) | Inr x \<Rightarrow> Inr x)"

lemma crash_simps [simp]: "crash (Inl e) = Inl (Crash e)" "crash (Inr x) = Inr x"
  by (simp_all add: crash_def)

lemma crash_eq [simp]:
  "crash m = Inr x \<longleftrightarrow> m = Inr x"
  "crash m = Inl (Crash e) \<longleftrightarrow> m = Inl e"
  "crash m \<noteq> Inl (Replaced w)" "crash m \<noteq> Inl (Exited n w)" "crash m \<noteq> Inl Waiting"
  by (auto simp: crash_def split: sum.splits)

definition on_world :: "(world \<Rightarrow> 'a \<times> world) \<Rightarrow> prog \<Rightarrow> 'a \<times> prog" where
  "on_world f p = (let (x, w) = f (p_world p) in (x, p\<lparr>p_world := w\<rparr>))"

definition call :: "os \<Rightarrow> call \<Rightarrow> prog \<Rightarrow> reply \<times> prog" where
  "call os c p = on_world (sys os c) p"

section \<open>Starting init\<close>

definition run_init :: "os \<Rightarrow> bool \<Rightarrow> prog \<Rightarrow> stop + (int \<times> prog)" where
  "run_init os tracy p =
     (if tracy then
        let (r, p) = call os (Tracy (Tracy_Exec [''/init''])) p
        in Inr (if rc r < 0 then 1 else 0, p)
      else
        let (r, p) = call os (Proc (Execve ''/init'' [''/init''])) p
        in if rc r < 0 then Inr (1, p) else Inl (Replaced (p_world p)))"

section \<open>Command line options\<close>

definition source_format :: "scan_dir list" where
  "source_format = lits ''(hd'' @ [Unsigned] @ lits '','' @ [Unsigned] @ lits '')'' @ [Str]"

text \<open>The numbers are printed with \<open>%d\<close>.\<close>

definition mmc_device_path :: "u32 \<Rightarrow> u32 \<Rightarrow> string" where
  "mmc_device_path mmc_device mmc_part =
     ''/dev/block/mmcblk'' @ show_int (sint mmc_device) @ ''p'' @ show_int (sint mmc_part)"

definition set_source :: "string \<Rightarrow> module_data \<Rightarrow> module_data" where
  "set_source value d =
     (case sscanf source_format value of
        [VUnsigned dev, VUnsigned part, VStr path] \<Rightarrow>
          d\<lparr>multiboot_path := Some path,
            multiboot_device := (multiboot_device d)
              \<lparr>blk_device := Some (mmc_device_path dev part),
               mount_point := Some ''/multiboot/mnt/source''\<rparr>,
            multiboot_enabled := True\<rparr>
      | _ \<Rightarrow> d)"

text \<open>\<open>r0\<close> is the value of the local variable \<open>rc\<close> that is tested without having been set.\<close>

definition set_grubdir :: "int \<Rightarrow> string \<Rightarrow> module_data \<Rightarrow> module_data" where
  "set_grubdir r0 value d =
     (case sscanf source_format value of
        [VUnsigned dev, VUnsigned part, VStr path] \<Rightarrow>
          if r0 < 0 \<or> int PATH_MAX \<le> r0 then d\<lparr>grub_path := None\<rparr>
          else
            d\<lparr>grub_path := Some path,
              grub_device := (grub_device d)
                \<lparr>blk_device := Some (mmc_device_path dev part),
                 mount_point := Some ''/multiboot/mnt/grub''\<rparr>\<rparr>
      | _ \<Rightarrow> d)"

definition start_ums :: "os \<Rightarrow> string \<Rightarrow> prog \<Rightarrow> stop + prog" where
  "start_ums os value p =
     (let (_, p) = call os (Path (Umount ''/proc'')) p;
          (_, p) = on_world (create_ums_script os ''/sbin/ums.sh'' value) p;
          (_, p) = call os (Path (Chmod ''/sbin/ums.sh'' 448)) p;
          (_, p) = on_world (sed_replace os ''/init.rc''
             (''s/'' @ sed_escape ''/sbin/recovery'' @ ''/'' @ sed_escape ''/sbin/ums.sh'' @ ''/g'')) p
      in bindE (run_init os False p)
           (\<lambda>(v, p). if v \<noteq> 0 then Inl (Exited 1 (p_world p)) else Inr p))"

definition import_kernel_nv :: "os \<Rightarrow> int \<Rightarrow> string \<Rightarrow> prog \<Rightarrow> stop + prog" where
  "import_kernel_nv os r0 arg p =
     (case strchr arg (CHR ''='') of
        None \<Rightarrow> Inr p
      | Some rest \<Rightarrow>
          let value = tl rest; name = takeWhile (\<lambda>c. c \<noteq> CHR ''='') arg; d = p_data p in
          if name = ''multiboot.source'' then Inr (p\<lparr>p_data := set_source value d\<rparr>)
          else if name = ''multiboot.grubdir'' then Inr (p\<lparr>p_data := set_grubdir r0 value d\<rparr>)
          else if name = ''multiboot.2ndstage'' then
            Inr (case sscanf [Unsigned] value of
                   [VUnsigned v] \<Rightarrow> p\<lparr>p_data := d\<lparr>sndstage_enabled := (v \<noteq> 0)\<rparr>\<rparr>
                 | _ \<Rightarrow> p)
          else if name = ''multiboot.debug'' then
            Inr (case sscanf [Unsigned] value of
                   [VUnsigned v] \<Rightarrow> p\<lparr>p_klog := klog_set_level (sint v) (p_klog p)\<rparr>
                 | _ \<Rightarrow> p)
          else if name = ''androidboot.hardware'' then
            Inr (p\<lparr>p_data := d\<lparr>hw_name := Some value\<rparr>\<rparr>)
          else if name = ''multiboot.ums'' then start_ums os value p
          else Inr p)"

end
