(* ===== verification/Startup.thy ===== *)
theory Startup
  imports MultibootInit
begin

text \<open>
  The second part of src/multiboot_init.c: the loading of the fstabs, \<open>setup\<close>, the life of
  a traced child, the three modules the program is linked with, and \<open>main\<close>.
\<close>

section \<open>The multiboot fstab\<close>

definition is_bind_type :: "string \<Rightarrow> bool" where
  "is_bind_type t \<longleftrightarrow> t = ''ext2'' \<or> t = ''ext3'' \<or> t = ''ext4'' \<or> t = ''f2fs''"

text \<open>
  The loop over the records. A bind record gets a directory of the source partition as its
  replacement and the loop device as its stub; any other gets the loop device as its
  replacement. The result is False when a loop device cannot be made.
\<close>

definition assign_replacement ::
  "string option \<Rightarrow> string \<Rightarrow> string \<Rightarrow> fstab_rec \<Rightarrow> fstab_rec" where
  "assign_replacement path ty loopdev r =
     (if is_bind_type ty then
        r\<lparr>replacement_device := Some (snprintf PATH_MAX
            (''/multiboot/mnt/source'' @ printf_s path @ printf_s (mount_point r))),
          stub_device := Some loopdev, replacement_bind := True\<rparr>
      else r\<lparr>replacement_device := Some loopdev, replacement_bind := False\<rparr>)"

fun assign_replacements ::
  "os \<Rightarrow> string option \<Rightarrow> fstab_rec list \<Rightarrow> int \<times> world
     \<Rightarrow> ub + (bool \<times> fstab_rec list \<times> int \<times> world)" where
  "assign_replacements os path [] (n, w) = Inr (True, [], n, w)"
| "assign_replacements os path (r # rs) (n, w) =
     bindE (deref (fs_type r)) (\<lambda>ty.
     let (dev, n, w) = make_loop os [] None n w in
     case dev of
       None \<Rightarrow> Inr (False, r # rs, n, w)
     | Some loopdev \<Rightarrow>
         bindE (assign_replacements os path rs (n, w)) (\<lambda>(ok, rs, n, w).
           Inr (ok, assign_replacement path ty loopdev r # rs, n, w)))"

definition FILE_FSTAB :: string where
  "FILE_FSTAB = ''/bootloader/multiboot/etc/fstab''"

definition load_multiboot_fstab :: "'l machine \<Rightarrow> prog \<Rightarrow> ub + (int \<times> prog)" where
  "load_multiboot_fstab M p =
     (let (res, p) = on_world (fs_mgr_read_fstab (env M) (stack_values M) FILE_FSTAB) p in
      bindE res (\<lambda>f.
      let p = p\<lparr>p_data := (p_data p)\<lparr>multiboot_fstab := f\<rparr>\<rparr> in
      case f of
        None \<Rightarrow> Inr (- 1, p)
      | Some f \<Rightarrow>
          bindE (assign_replacements (env M) (multiboot_path (p_data p))
                   (take (num_entries f) (recs f)) (p_loops p, p_world p)) (\<lambda>(ok, rs, n, w).
          Inr (if ok then 0 else - 1,
               p\<lparr>p_data := (p_data p)\<lparr>multiboot_fstab := Some (f\<lparr>recs := rs\<rparr>)\<rparr>,
                 p_loops := n, p_world := w\<rparr>))))"

section \<open>The fstabs of the booted system\<close>

text \<open>
  The array of pointers is grown by \<open>realloc\<close> to as many bytes as it has entries, not
  pointers; the new entry is stored within the block only if the allocator gave more.
\<close>

definition add_fstab :: "'l machine \<Rightarrow> string \<Rightarrow> prog \<Rightarrow> ub + (int \<times> prog)" where
  "add_fstab M path p =
     (let (res, p) = on_world (fs_mgr_read_fstab (env M) (stack_values M) path) p in
      bindE res (\<lambda>f.
      let (res, p) = (if f = None
                      then on_world (do_fs_mgr_read_fstab (env M) (stack_values M) path True) p
                      else (Inr f, p)) in
      bindE res (\<lambda>f.
      case f of
        None \<Rightarrow> Inr (- 1, p)
      | Some f \<Rightarrow>
          let n = length (target_fstabs (p_data p)) + 1 in
          if usable M n < 4 * n then Inl Out_Of_Bounds
          else Inr (0, p\<lparr>p_data := (p_data p)
                           \<lparr>target_fstabs := target_fstabs (p_data p) @ [f]\<rparr>\<rparr>))))"

definition is_fstab_entry :: "dtype \<times> string \<Rightarrow> bool" where
  "is_fstab_entry e \<longleftrightarrow> fst e = DT_REG \<and> snd e \<noteq> ''fstab.goldfish'' \<and> has_prefix (snd e) ''fstab.''"

fun call_each :: "(string \<Rightarrow> 's \<Rightarrow> 'e + (int \<times> 's)) \<Rightarrow> string list \<Rightarrow> 's \<Rightarrow> 'e + (int \<times> 's)" where
  "call_each f [] s = Inr (0, s)"
| "call_each f (x # xs) s =
     bindE (f x s) (\<lambda>(v, s). if v \<noteq> 0 then Inr (- 1, s) else call_each f xs s)"

definition FSTAB_RECOVERY :: string where "FSTAB_RECOVERY = ''/etc/recovery.fstab''"

definition find_fstab ::
  "os \<Rightarrow> (string \<Rightarrow> prog \<Rightarrow> ub + (int \<times> prog)) \<Rightarrow> prog \<Rightarrow> ub + (int \<times> prog)" where
  "find_fstab os callback p =
     (let (recovery, p) = (if bootmode (p_data p) = BOOTMODE_RECOVERY
                           then let (r, p) = call os (Path (Stat FSTAB_RECOVERY)) p in (rc r = 0, p)
                           else (False, p)) in
      bindE (if recovery then callback FSTAB_RECOVERY p else Inr (0, p)) (\<lambda>(v, p).
      if v \<noteq> 0 then Inr (- 1, p)
      else
        let (r, p) = call os (Stream (Opendir ''/'')) p in
        if rc r < 0 then Inr (- 1, p)
        else
          let d = rc r; (r, p) = call os (Stream (Readdir d)) p in
          bindE (call_each callback (map snd (filter is_fstab_entry (dirents r))) p) (\<lambda>(v, p).
          if v \<noteq> 0 then Inr (- 1, p)
          else
            let (r, p) = call os (Stream (Closedir d)) p
            in Inr (if rc r \<noteq> 0 then - 1 else 0, p))))"

section \<open>Device numbers and paths\<close>

text \<open>
  The device of a record becomes the canonical path of the block device table, and its
  device number that of the table's entry. Devices outside the table keep what they had.
\<close>

definition translate_fstab_rec ::
  "u32 \<times> u32 \<Rightarrow> sys_block_info option \<Rightarrow> fstab_rec \<Rightarrow> ub + fstab_rec" where
  "translate_fstab_rec indet table r =
     bindE (deref (blk_device r)) (\<lambda>path.
     bindE (deref table) (\<lambda>info.
     let path = (case uevent_realpath indet info path of Some p \<Rightarrow> p | None \<Rightarrow> path);
         r = r\<lparr>blk_device := Some path\<rparr>
     in Inr (case uevent_stat indet info path of
               Some st \<Rightarrow> r\<lparr>stat_rdev := st\<rparr>
             | None \<Rightarrow> r)))"

fun translate_recs ::
  "u32 \<times> u32 \<Rightarrow> sys_block_info option \<Rightarrow> fstab_rec list \<Rightarrow> ub + fstab_rec list" where
  "translate_recs indet table [] = Inr []"
| "translate_recs indet table (r # rs) =
     bindE (translate_fstab_rec indet table r) (\<lambda>r.
     bindE (translate_recs indet table rs) (\<lambda>rs. Inr (r # rs)))"

definition translate_fstab_paths ::
  "u32 \<times> u32 \<Rightarrow> sys_block_info option \<Rightarrow> fstab \<Rightarrow> ub + fstab" where
  "translate_fstab_paths indet table f =
     bindE (translate_recs indet table (take (num_entries f) (recs f))) (\<lambda>rs.
       Inr (f\<lparr>recs := rs\<rparr>))"

definition prepare_device ::
  "u32 \<times> u32 \<Rightarrow> sys_block_info option \<Rightarrow> string \<Rightarrow> fstab_rec \<Rightarrow> ub + fstab_rec" where
  "prepare_device indet table dir r =
     bindE (translate_fstab_rec indet table r) (\<lambda>r.
       Inr (r\<lparr>replacement_bind := True, replacement_device := Some dir,
              stub_device := blk_device r\<rparr>))"

fun translate_fstabs ::
  "u32 \<times> u32 \<Rightarrow> sys_block_info option \<Rightarrow> fstab list \<Rightarrow> ub + fstab list" where
  "translate_fstabs indet table [] = Inr []"
| "translate_fstabs indet table (f # fs) =
     bindE (translate_fstab_paths indet table f) (\<lambda>f.
     bindE (translate_fstabs indet table fs) (\<lambda>fs. Inr (f # fs)))"

definition prepare_fstab :: "u32 \<times> u32 \<Rightarrow> module_data \<Rightarrow> ub + module_data" where
  "prepare_fstab indet d =
     (let table = block_info d in
      bindE (if multiboot_path d \<noteq> None
             then prepare_device indet table ''/multiboot/mnt/source'' (multiboot_device d)
             else Inr (multiboot_device d)) (\<lambda>mdev.
      bindE (if grub_path d \<noteq> None
             then prepare_device indet table ''/multiboot/mnt/grub'' (grub_device d)
             else Inr (grub_device d)) (\<lambda>gdev.
      bindE (bindE (deref (multiboot_fstab d)) (translate_fstab_paths indet table)) (\<lambda>f.
      bindE (translate_fstabs indet table (target_fstabs d)) (\<lambda>fs.
        Inr (d\<lparr>multiboot_device := mdev, grub_device := gdev, multiboot_fstab := Some f,
               target_fstabs := fs\<rparr>))))))"

section \<open>Facts\<close>

text \<open>The loop device behind a record of the multiboot fstab.\<close>

definition loop_device :: "fstab_rec \<Rightarrow> string option" where
  "loop_device r = (if replacement_bind r then stub_device r else replacement_device r)"

lemma loop_device_assign [simp]: "loop_device (assign_replacement path ty dev r) = Some dev"
  by (simp add: loop_device_def assign_replacement_def)

lemma assign_replacement_some [simp]: "\<exists>y. replacement_device (assign_replacement path ty dev r) = Some y"
  by (simp add: assign_replacement_def)

lemma assign_replacements_loops:
  assumes "assign_replacements os path rs (n, w) = Inr (True, rs', n', w')"
    and "0 \<le> n" and "n + int (length rs) \<le> 256"
  shows "map loop_device rs' = map (\<lambda>i. Some (loop_path (255 - (n + int i)))) [0..<length rs] \<and>
    (\<forall>r\<in>set rs'. replacement_device r \<noteq> None)"
  using assms
proof (induction rs arbitrary: n w rs')
  case Nil
  then show ?case by simp
next
  case (Cons r rs)
  obtain dev n1 w1 where l: "make_loop os [] None n w = (dev, n1, w1)" by (cases "make_loop os [] None n w")
  with Cons.prems(1) obtain ty p rs1 where ty: "fs_type r = Some ty" and dev: "dev = Some p"
    and rest: "assign_replacements os path rs (n1, w1) = Inr (True, rs1, n', w')"
    and rs': "rs' = assign_replacement path ty p r # rs1"
    by (auto split: option.splits)
  have p: "p = loop_path (255 - n)" "n1 = n + 1"
    using make_loop_Some [OF l [unfolded dev]] Cons.prems(2,3) by simp_all
  have IH: "map loop_device rs1 = map (\<lambda>i. Some (loop_path (255 - (n1 + int i)))) [0..<length rs] \<and>
      (\<forall>r\<in>set rs1. replacement_device r \<noteq> None)"
    using Cons.prems(2,3) p(2) by (intro Cons.IH [OF rest]) simp_all
  have "[0..<length (r # rs)] = 0 # map Suc [0..<length rs]"
    by (simp add: upt_conv_Cons map_Suc_upt del: upt_Suc)
  with IH show ?case unfolding rs' by (simp add: p comp_def algebra_simps del: upt_Suc)
qed

lemma load_multiboot_fstabD:
  assumes "load_multiboot_fstab M p = Inr (0, p')"
  shows "\<exists>f rs n' w w'. multiboot_fstab (p_data p') = Some (f\<lparr>recs := rs\<rparr>) \<and>
    assign_replacements (env M) (multiboot_path (p_data p)) (take (num_entries f) (recs f))
      (p_loops p, w) = Inr (True, rs, n', w')"
  using assms
  by (auto simp: load_multiboot_fstab_def on_world_def Let_def split_beta split: option.splits if_splits) metis

lemma translate_fstab_rec_keeps:
  "translate_fstab_rec indet tbl r = Inr r' \<Longrightarrow>
     replacement_device r' = replacement_device r \<and> replacement_bind r' = replacement_bind r \<and>
     stub_device r' = stub_device r"
  by (auto simp: translate_fstab_rec_def Let_def split: option.splits)

lemma translate_recs_keeps:
  "translate_recs indet tbl rs = Inr rs' \<Longrightarrow>
     map replacement_device rs' = map replacement_device rs \<and>
     map replacement_bind rs' = map replacement_bind rs"
  by (induction rs arbitrary: rs') (auto dest!: translate_fstab_rec_keeps)

section \<open>Properties\<close>

text \<open>C31. The records of the multiboot fstab get loop devices of their own: no two of at most
  256 records share one.\<close>

theorem loop_devices_distinct:
  assumes "load_multiboot_fstab M p = Inr (0, p')" and "p_loops p = 0"
    and "multiboot_fstab (p_data p') = Some f" and "num_entries f \<le> 256"
  shows "distinct (map loop_device (recs f)) \<and> None \<notin> set (map loop_device (recs f))"
proof -
  from load_multiboot_fstabD [OF assms(1)] assms(2,3) obtain g n' w w' where
    f: "f = g\<lparr>recs := recs f\<rparr>" and
    a: "assign_replacements (env M) (multiboot_path (p_data p)) (take (num_entries g) (recs g)) (0, w) =
      Inr (True, recs f, n', w')" by auto
  have "num_entries f = num_entries g" by (subst f) simp
  then have l: "length (take (num_entries g) (recs g)) \<le> 256" using assms(4) by simp
  let ?k = "length (take (num_entries g) (recs g))"
  have m: "map loop_device (recs f) = map (\<lambda>i. Some (loop_path (255 - int i))) [0..<?k]"
    using assign_replacements_loops [OF a] l by simp
  have "inj_on (\<lambda>i. Some (loop_path (255 - int i))) (set [0..<?k])"
    using l by (auto intro!: inj_onI dest!: loop_path_inj [rotated 4])
  then show ?thesis unfolding m by (auto simp: distinct_map)
qed


text \<open>With an allocator that grants no more than was asked for, no fstab of the booted system
  is ever added within the bounds of the array that holds them.\<close>

theorem add_fstab_overflows:
  assumes "\<forall>n. usable M n = n"
  shows "add_fstab M path p \<noteq> Inr (0, p')"
  using assms
  by (auto simp: add_fstab_def on_world_def Let_def split_beta split: option.splits if_splits)

lemma canonical_stable:
  assumes "q = (case uevent_realpath indet bt path of Some p \<Rightarrow> p | None \<Rightarrow> path)"
  shows "(case uevent_realpath indet bt q of Some p \<Rightarrow> p | None \<Rightarrow> q) = q"
proof (cases "uevent_realpath indet bt path")
  case None
  with assms show ?thesis by simp
next
  case (Some p)
  then have f: "get_blockinfo_for_path indet bt path \<noteq> None"
    and e: "p = mmc.resolve indet bt path" unfolding realpath_resolve by (auto split: if_splits)
  have "get_blockinfo_for_path indet bt p \<noteq> None" unfolding e by (rule mmc.resolve_found [OF f])
  moreover have "mmc.resolve indet bt p = p" unfolding e by (rule mmc.resolve_idem)
  ultimately have "uevent_realpath indet bt p = Some p" by (simp add: realpath_resolve)
  with Some assms show ?thesis by simp
qed

lemma translate_eq:
  assumes "blk_device r = Some path"
    and "q = (case uevent_realpath indet bt path of Some p \<Rightarrow> p | None \<Rightarrow> path)"
  shows "translate_fstab_rec indet (Some bt) r = Inr
    (case uevent_stat indet bt q of
       Some st \<Rightarrow> r\<lparr>blk_device := Some q, stat_rdev := st\<rparr>
     | None \<Rightarrow> r\<lparr>blk_device := Some q\<rparr>)"
  unfolding translate_fstab_rec_def assms(1) assms(2) [symmetric] deref_simps bindE_simps Let_def ..

text \<open>Translating a record's device a second time changes nothing.\<close>

theorem translate_idem:
  assumes "translate_fstab_rec indet tbl r = Inr r'"
  shows "translate_fstab_rec indet tbl r' = Inr r'"
proof -
  from assms obtain path bt where p: "blk_device r = Some path" "tbl = Some bt"
    by (auto simp: translate_fstab_rec_def)
  obtain q where q: "q = (case uevent_realpath indet bt path of Some p \<Rightarrow> p | None \<Rightarrow> path)" by simp
  have r': "r' = (case uevent_stat indet bt q of
       Some st \<Rightarrow> r\<lparr>blk_device := Some q, stat_rdev := st\<rparr> | None \<Rightarrow> r\<lparr>blk_device := Some q\<rparr>)"
    using assms unfolding p(2) translate_eq [OF p(1) q] by simp
  have "blk_device r' = Some q" unfolding r' by (simp split: option.split)
  from translate_eq [OF this canonical_stable [OF q, symmetric]] show ?thesis
    unfolding p(2) r' by (cases "uevent_stat indet bt q") simp_all
qed

section \<open>Examples\<close>

definition demo_machine :: "os \<Rightarrow> (nat \<Rightarrow> nat) \<Rightarrow> (int \<times> fd_info) list machine" where
  "demo_machine os us = tracer.extend (assoc_tracer os)
     \<lparr>stack_values = initial_values, stack_pair = (0, 0), stack_rc = 0, usable = us, tracy_opt = 0\<rparr>"

lemma demo_machine_simps [simp]:
  "env (demo_machine os us) = os" "stack_values (demo_machine os us) = initial_values"
  "stack_pair (demo_machine os us) = (0, 0)" "usable (demo_machine os us) = us"
  "stack_rc (demo_machine os us) = 0"
  by (simp_all add: demo_machine_def assoc_tracer_def tracer.defs)

definition demo_prog :: prog where
  "demo_prog = \<lparr>p_data = zero_data\<lparr>multiboot_path := Some ''/mb''\<rparr>, p_klog = klog_initial, p_loops = 0,
     p_redir = (info, None), p_world = initial_world\<rparr>"

definition demo_cols :: "(string \<times> string \<times> string \<times> string \<times> string) list" where
  "demo_cols = [(''/dev/x'', ''/data'', ''ext4'', ''ro'', ''multiboot''),
                (''/dev/y'', ''/cache'', ''vfat'', ''rw'', ''multiboot'')]"

definition fstab_os :: os where
  "fstab_os cs c =
     (case c of
        Stream (Fread _) \<Rightarrow> (ok_reply 0)\<lparr>data := concat (map (\<lambda>c. plain_line c @ [NL]) demo_cols)\<rparr>
      | Stream (Fopen _ _) \<Rightarrow> ok_reply 3
      | _ \<Rightarrow> ok_reply 0)"

lemma plain_line_parses:
  assumes "plain_ok (dev, mp, ty, opts, flags)" and "ty \<noteq> ''(null)''" and "dev \<noteq> ''(null)''"
  shows "\<exists>r v. parse_plain_rec (plain_line (dev, mp, ty, opts, flags)) = Inr (Some (r, v)) \<and>
    fs_type r = Some ty \<and> blk_device r = Some dev"
  using plain_scan_line [OF assms(1)] assms(2,3)
  by (auto simp: plain_scan_def printf_s_def simp del: plain_line.simps
      split: sum.splits option.splits prod.splits)

lemma demo_read:
  "\<exists>r1 r2 w'. fs_mgr_read_fstab fstab_os initial_values path w = (Inr (Some
      \<lparr>num_entries = 2, recs = [r1, r2], fstab_filename = path, twrp = False\<rparr>), w') \<and>
    fs_type r1 = Some ''ext4'' \<and> fs_type r2 = Some ''vfat'' \<and> blk_device r1 \<noteq> None \<and> blk_device r2 \<noteq> None"
proof -
  let ?c1 = "(''/dev/x'', ''/data'', ''ext4'', ''ro'', ''multiboot'')"
  let ?c2 = "(''/dev/y'', ''/cache'', ''vfat'', ''rw'', ''multiboot'')"
  have ok: "plain_ok ?c1" "plain_ok ?c2" by (simp_all add: column_def isspace_def)
  then have l: "getlines (concat (map (\<lambda>c. plain_line c @ [NL]) demo_cols)) = [plain_line ?c1, plain_line ?c2]"
    using plain.lines_of_file [of demo_cols] by (simp add: demo_cols_def del: plain_line.simps plain_ok.simps)
  obtain r1 v1 where r1: "parse_plain_rec (plain_line ?c1) = Inr (Some (r1, v1))" "fs_type r1 = Some ''ext4''"
    "blk_device r1 = Some ''/dev/x''" using plain_line_parses [OF ok(1)] by auto
  obtain r2 v2 where r2: "parse_plain_rec (plain_line ?c2) = Inr (Some (r2, v2))" "fs_type r2 = Some ''vfat''"
    "blk_device r2 = Some ''/dev/y''" using plain_line_parses [OF ok(2)] by auto
  have s: "significant (plain_line ?c1)" "significant (plain_line ?c2)"
    using ok by (auto intro: plain.not_skipped simp del: plain_line.simps plain_ok.simps)
  have d: "data (fstab_os cs (Stream (Fread f))) = concat (map (\<lambda>c. plain_line c @ [NL]) demo_cols)"
    "rc (fstab_os cs (Stream (Fopen p m))) = 3" for cs f p m
    by (simp_all add: fstab_os_def)
  show ?thesis
    using r1 r2 s
    by (simp add: fs_mgr_read_fstab_def do_fs_mgr_read_fstab_def Let_def split_beta d l count_entries_def
        parse_rec_def del: plain_line.simps bindE_eq_Inr)
qed

lemma demo_load:
  "\<exists>p' f. load_multiboot_fstab (demo_machine fstab_os us) demo_prog = Inr (0, p') \<and>
     multiboot_fstab (p_data p') = Some f \<and> num_entries f = 2 \<and>
     (\<forall>r\<in>set (recs f). blk_device r \<noteq> None) \<and> target_fstabs (p_data p') = []"
proof -
  obtain r1 r2 w' where r: "fs_mgr_read_fstab fstab_os initial_values FILE_FSTAB initial_world =
      (Inr (Some \<lparr>num_entries = 2, recs = [r1, r2], fstab_filename = FILE_FSTAB, twrp = False\<rparr>), w')"
    "fs_type r1 = Some ''ext4''" "fs_type r2 = Some ''vfat''" "blk_device r1 \<noteq> None" "blk_device r2 \<noteq> None"
    using demo_read by blast
  obtain n1 w1 where m1: "make_loop fstab_os [] None 0 w' = (Some (loop_path 255), n1, w1)"
    by (simp add: make_loop_def fstab_os_def Let_def split_beta)
  obtain d2 n2 w2 where m2: "make_loop fstab_os [] None n1 w1 = (Some d2, n2, w2)"
    by (simp add: make_loop_def fstab_os_def Let_def split_beta)
  have "blk_device (assign_replacement path ty dev r) = blk_device r" for path ty dev r
    by (simp add: assign_replacement_def)
  with r m1 m2 show ?thesis
    by (simp add: load_multiboot_fstab_def on_world_def demo_prog_def zero_data_def Let_def split_beta
        del: bindE_eq_Inr)
qed

theorem loop_devices_distinct_witness:
  "\<exists>p' f. load_multiboot_fstab (demo_machine fstab_os id) demo_prog = Inr (0, p') \<and>
     multiboot_fstab (p_data p') = Some f \<and> num_entries f = 2 \<and> distinct (map loop_device (recs f))"
proof -
  obtain p' f where l: "load_multiboot_fstab (demo_machine fstab_os id) demo_prog = Inr (0, p')"
    "multiboot_fstab (p_data p') = Some f" "num_entries f = 2" using demo_load by blast
  have "distinct (map loop_device (recs f)) \<and> None \<notin> set (map loop_device (recs f))"
    by (rule loop_devices_distinct [OF l(1) _ l(2)]) (simp_all add: demo_prog_def l(3))
  with l show ?thesis by blast
qed

text \<open>Without a block device table entry for it, a device keeps its path.\<close>

lemma demo_prepare:
  assumes "multiboot_fstab d = Some f" and "\<forall>r\<in>set (recs f). blk_device r \<noteq> None"
    and "block_info d = Some []" and "multiboot_path d = None" and "grub_path d = None"
    and "target_fstabs d = []"
  shows "\<exists>d'. prepare_fstab indet d = Inr d'"
proof -
  have "\<exists>rs'. translate_recs indet (Some []) rs = Inr rs'" if "\<forall>r\<in>set rs. blk_device r \<noteq> None" for rs
    using that
  proof (induction rs)
    case Nil
    then show ?case by simp
  next
    case (Cons r rs)
    then obtain path where p: "blk_device r = Some path" by auto
    have "\<exists>r'. translate_fstab_rec indet (Some []) r = Inr r'"
      using translate_eq [OF p refl] by blast
    with Cons show ?case by auto
  qed
  moreover have "\<forall>r\<in>set (take (num_entries f) (recs f)). blk_device r \<noteq> None"
    using assms(2) by (auto dest: in_set_takeD)
  ultimately obtain rs' where "translate_recs indet (Some []) (take (num_entries f) (recs f)) = Inr rs'"
    by blast
  with assms show ?thesis by (simp add: prepare_fstab_def translate_fstab_paths_def Let_def)
qed


theorem add_fstab_overflows_witness:
  "add_fstab (demo_machine fstab_os id) ''fstab.x'' demo_prog \<noteq> Inr (0, demo_prog)"
  by (rule add_fstab_overflows) simp

theorem translate_idem_witness:
  "\<exists>r'. translate_fstab_rec (0, 0) (Some [zero_event\<lparr>linux_major := 179, part_minor := 5\<rparr>])
       (zero_rec\<lparr>blk_device := Some ''/dev/block/mmcblk0p5''\<rparr>) = Inr r' \<and>
     translate_fstab_rec (0, 0) (Some [zero_event\<lparr>linux_major := 179, part_minor := 5\<rparr>]) r' = Inr r'"
proof -
  obtain r' where "translate_fstab_rec (0, 0) (Some [zero_event\<lparr>linux_major := 179, part_minor := 5\<rparr>])
       (zero_rec\<lparr>blk_device := Some ''/dev/block/mmcblk0p5''\<rparr>) = Inr r'"
    using translate_eq [OF _ refl, of "zero_rec\<lparr>blk_device := Some ''/dev/block/mmcblk0p5''\<rparr>"] by simp
  with translate_idem [OF this] show ?thesis by blast
qed

end
