(* ===== verification/Program.thy ===== *)
theory Program
  imports Startup
begin

text \<open>
  \<open>setup\<close> and \<open>main\<close> of src/multiboot_init.c, with the modules the program is linked with
  and the creation and destruction of a traced child.
\<close>

section \<open>The modules\<close>

type_synonym 'l child = "'l child_data \<times> world"

definition module_env_prepare :: "'l machine \<Rightarrow> (prog, 'l child) module" where
  "module_env_prepare M =
     \<lparr>early_init = Some (\<lambda>p. Inr (on_world (ep_early_init (env M) (p_data p)) p)),
      fstab_init = Some (\<lambda>p. bindE (ep_fstab_init (env M) (p_data p) (p_world p))
                               (\<lambda>(v, w). Inr (v, p\<lparr>p_world := w\<rparr>))),
      tracy_init = None, tracy_child_create = None, tracy_child_destroy = None\<rparr>"

definition module_fstab_patcher :: "'l machine \<Rightarrow> (prog, 'l child) module" where
  "module_fstab_patcher M =
     \<lparr>early_init = None,
      fstab_init = Some (\<lambda>p.
        bindE (fp_fstab_init (env M) (stack_pair M) (p_data p) (p_world p))
          (\<lambda>(v, w). Inr (v, p\<lparr>p_world := w\<rparr>))),
      tracy_init = None, tracy_child_create = None, tracy_child_destroy = None\<rparr>"

definition tracer_of :: "'l machine \<Rightarrow> 'l tracer" where
  "tracer_of M =
     \<lparr>env = env M, nr = nr M, ll_init = ll_init M, ll_find = ll_find M, ll_add = ll_add M,
      ll_del = ll_del M, ll_items = ll_items M, fresh_block = fresh_block M\<rparr>"

definition module_fs_redirection :: "'l machine \<Rightarrow> (prog, 'l child) module" where
  "module_fs_redirection M =
     \<lparr>early_init = None, fstab_init = None,
      tracy_init = Some (\<lambda>p.
        let (v, st, w) = fsr_tracy_init (tracer_of M) (p_data p) (p_redir p) (p_world p)
        in Inr (v, p\<lparr>p_redir := st, p_world := w\<rparr>)),
      tracy_child_create = Some (\<lambda>(c, w).
        let (v, c) = fsr_tracy_child_create (tracer_of M) c in Inr (v, (c, w))),
      tracy_child_destroy = Some (\<lambda>(c, w).
        bindE (fsr_tracy_child_destroy (tracer_of M) c) (\<lambda>(v, c). Inr (v, (c, w))))\<rparr>"

text \<open>Their constructors register them in the order in which the build links them.\<close>

definition registered :: "'l machine \<Rightarrow> (prog, 'l child) module option list" where
  "registered M =
     map Some [module_fstab_patcher M, module_env_prepare M, module_fs_redirection M]"

section \<open>Setup\<close>

definition system_is_recovery :: "os \<Rightarrow> prog \<Rightarrow> bool \<times> prog" where
  "system_is_recovery os p = (let (r, p) = call os (Path (Stat ''/sbin/recovery'')) p in (rc r = 0, p))"

definition import_options :: "'l machine \<Rightarrow> prog \<Rightarrow> stop + prog" where
  "import_options M p =
     bindE (import_kernel_cmdline (env M)
              (\<lambda>arg (p, w). bindE (import_kernel_nv (env M) (stack_rc M) arg (p\<lparr>p_world := w\<rparr>))
                              (\<lambda>p. Inr (p, p_world p)))
              (p, p_world p))
       (\<lambda>(p, w). Inr (p\<lparr>p_world := w\<rparr>))"

text \<open>The block devices: their table, their nodes, and the grub partition's entry.\<close>

definition load_block_info :: "'l machine \<Rightarrow> prog \<Rightarrow> ub + (bool \<times> prog)" where
  "load_block_info M p =
     (let (_, p) = call (env M) (Path (Mkdir ''/sys'' 493)) p;
          (_, p) = call (env M) (Path (Mount (Some ''sysfs'') ''/sys'' (Some ''sysfs'') 0 None)) p in
      bindE (get_block_devices (env M) (p_world p)) (\<lambda>(table, w).
      let p = p\<lparr>p_world := w, p_data := (p_data p)\<lparr>block_info := table\<rparr>\<rparr> in
      case table of
        None \<Rightarrow> Inr (False, p)
      | Some tbl \<Rightarrow>
          let (_, p) = call (env M) (Path (Umount ''/sys'')) p;
              p = p\<lparr>p_world := uevent_create_nodes (env M) tbl PATH_MOUNTPOINT_DEV (p_world p)\<rparr>;
              d = p_data p in
          (case (blk_device (grub_device d), grub_path d) of
             (Some blk, Some _) \<Rightarrow>
               let bi = get_blockinfo_for_path (stack_pair M) tbl blk
               in Inr (bi \<noteq> None, p\<lparr>p_data := d\<lparr>grub_blockinfo := bi\<rparr>\<rparr>)
           | _ \<Rightarrow> Inr (True, p))))"

text \<open>
  A chain of steps: each may end the chain with -1, which the second component False says.
\<close>

fun steps :: "('s \<Rightarrow> 'e + (bool \<times> 's)) list \<Rightarrow> 's \<Rightarrow> 'e + (bool \<times> 's)" where
  "steps [] s = Inr (True, s)"
| "steps (f # fs) s = bindE (f s) (\<lambda>(ok, s). if ok then steps fs s else Inr (False, s))"

definition zero_is_ok :: "('s \<Rightarrow> 'e + (int \<times> 's)) \<Rightarrow> 's \<Rightarrow> 'e + (bool \<times> 's)" where
  "zero_is_ok f s = bindE (f s) (\<lambda>(v, s). Inr (v = 0, s))"

definition enter_stage :: "initstage \<Rightarrow> prog \<Rightarrow> 'e + (bool \<times> prog)" where
  "enter_stage st p = Inr (True, p\<lparr>p_data := (p_data p)\<lparr>init_stage := st\<rparr>\<rparr>)"

definition setup_steps ::
  "'l machine \<Rightarrow> (prog, 'l child) module option list \<Rightarrow> (prog \<Rightarrow> ub + (bool \<times> prog)) list" where
  "setup_steps M ms =
     [load_block_info M,
      enter_stage INITSTAGE_EARLY,
      zero_is_ok (modules_call_early_init ms),
      zero_is_ok (load_multiboot_fstab M),
      zero_is_ok (find_fstab (env M) (add_fstab M)),
      (\<lambda>p. bindE (prepare_fstab (stack_pair M) (p_data p)) (\<lambda>d. Inr (True, p\<lparr>p_data := d\<rparr>))),
      enter_stage INITSTAGE_FSTAB,
      zero_is_ok (modules_call_fstab_init ms)]"

definition unmount_procfs :: "os \<Rightarrow> prog \<Rightarrow> prog" where
  "unmount_procfs os p =
     (let (_, p) = call os (Path (Umount ''/proc'')) p;
          (_, p) = call os (Path (Mkdir ''/multiboot/proc'' 493)) p;
          (_, p) = call os (Path (Mount (Some ''proc'') ''/multiboot/proc'' (Some ''proc'') 0 None)) p
      in p)"

definition setup_base :: "os \<Rightarrow> prog \<Rightarrow> bool \<times> prog" where
  "setup_base os p =
     (let (k, w) = klog_init os (p_klog p, p_world p);
          p = p\<lparr>p_klog := klog_set_level 5 k, p_world := w\<rparr>;
          (rec, p) = system_is_recovery os p;
          p = p\<lparr>p_data := (p_data p)\<lparr>bootmode :=
                 (if rec then BOOTMODE_RECOVERY else BOOTMODE_ANDROID)\<rparr>\<rparr>;
          (_, p) = on_world (util_mount os ''tmpfs'' ''/multiboot/dev'' (Some ''tmpfs'') MS_NOSUID
                      (Some ''mode=0755'')) p;
          (r, p) = call os (Path (Mknod ''/multiboot/dev/zero'' (S_IFCHR + 438) (1, 5))) p in
      if rc r \<noteq> 0 then (False, p)
      else
        let (v, p) = on_world (mkpath os S_IRWX_all ''/multiboot/stubfs'') p in
        if v \<noteq> 0 then (False, p)
        else
          let (_, p) = call os (Path (Mkdir ''/proc'' 493)) p;
              (_, p) = call os (Path (Mount (Some ''proc'') ''/proc'' (Some ''proc'') 0 None)) p
          in (True, p))"

text \<open>The result is False where the code returns -1.\<close>

definition setup_program ::
  "'l machine \<Rightarrow> (prog, 'l child) module option list \<Rightarrow> prog \<Rightarrow> stop + (bool \<times> prog)" where
  "setup_program M ms p =
     (let (ok, p) = setup_base (env M) p in
      if \<not> ok then Inr (False, p)
      else
        bindE (import_options M p) (\<lambda>p.
        bindE (if \<not> multiboot_enabled (p_data p) \<and> \<not> sndstage_enabled (p_data p)
               then Inr (True, p)
               else crash (steps (setup_steps M ms) p)) (\<lambda>(ok, p).
        Inr (ok, unmount_procfs (env M) p))))"

section \<open>Children\<close>

text \<open>\<open>custom\<close> is the child's data, \<open>None\<close> for NULL. An error in a module quits the tracer.\<close>

definition multiboot_child_create ::
  "'l machine \<Rightarrow> (prog, 'l child) module option list \<Rightarrow> 'l child_data option \<Rightarrow> world
     \<Rightarrow> ub + ('l child_data option \<times> world)" where
  "multiboot_child_create M ms custom w =
     (if custom \<noteq> None then Inr (custom, w)
      else
        bindE (modules_call_tracy_child_create ms (new_child, w)) (\<lambda>(v, c, w).
        let w = (if v \<noteq> 0 then snd (sys (env M) (Tracy (Tracy_Quit 1)) w) else w)
        in Inr (Some c, w)))"

definition multiboot_child_destroy ::
  "'l machine \<Rightarrow> (prog, 'l child) module option list \<Rightarrow> 'l child_data option \<Rightarrow> world
     \<Rightarrow> ub + ('l child_data option \<times> world)" where
  "multiboot_child_destroy M ms custom w =
     (case custom of
        None \<Rightarrow> Inr (None, w)
      | Some c \<Rightarrow>
          bindE (modules_call_tracy_child_destroy ms (c, w)) (\<lambda>(v, c, w).
          let w = (if v \<noteq> 0 then snd (sys (env M) (Tracy (Tracy_Quit 1)) w) else w)
          in Inr (None, w)))"

definition usr1_sighandler :: "os \<Rightarrow> int \<Rightarrow> world \<Rightarrow> world" where
  "usr1_sighandler os si_pid w = snd (sys os (Tracy (Tracy_Attach si_pid)) w)"

section \<open>main\<close>

text \<open>The last loop; \<open>None\<close> when the fuel is used up.\<close>

fun wait_children :: "nat \<Rightarrow> os \<Rightarrow> world \<Rightarrow> world option" where
  "wait_children 0 os w = None"
| "wait_children (Suc n) os w =
     (let (r, w) = sys os (Proc (Waitpid (- 1))) w in
      if rc r = 0 then Some w
      else if errno w = ECHILD then Some w
      else wait_children n os w)"

text \<open>The voldwrapper: it returns only when the program cannot be executed.\<close>

definition voldwrapper :: "os \<Rightarrow> prog \<Rightarrow> stop + prog" where
  "voldwrapper os p =
     (let (_, p) = call os (Proc (Kill 1)) p;
          (_, p) = on_world (mkpath os 493 ''/multiboot/bin'') p;
          (_, p) = on_world (util_copy os ''/system/bin/vold'' ''/multiboot/bin/vold'' False True) p;
          (r, p) = call os (Proc (Execve ''/multiboot/bin/vold'' [''/multiboot/bin/vold''])) p
      in if rc r < 0 then Inr p else Inl (Replaced (p_world p)))"

text \<open>The traced run, from \<open>tracy_init\<close> on.\<close>

definition start_traced :: "os \<Rightarrow> prog \<Rightarrow> stop + (int \<times> prog)" where
  "start_traced os p =
     (if bootmode (p_data p) = BOOTMODE_RECOVERY then run_init os True p
      else
        let (r, p) = call os (Proc Fork) p in
        bindE (if rc r = 0 then run_init os False p else Inr (0, p)) (\<lambda>(v, p).
        if v \<noteq> 0 then Inr (v, p)
        else
          let (r, p) = call os (Proc Sigaction) p
          in Inr (if rc r < 0 then 1 else 0, p)))"

definition run_traced ::
  "nat \<Rightarrow> 'l machine \<Rightarrow> (prog, 'l child) module option list \<Rightarrow> prog \<Rightarrow> stop + (int \<times> prog)" where
  "run_traced fuel M ms p =
     (let (r, p) = call (env M) (Tracy (Tracy_Init (tracy_opt M))) p in
      if rc r < 0 then Inl (Crash Null_Deref)
      else
        let p = p\<lparr>p_data := (p_data p)\<lparr>init_stage := INITSTAGE_TRACY\<rparr>\<rparr> in
        bindE (crash (modules_call_tracy_init ms p)) (\<lambda>(v, p).
        if v \<noteq> 0 then Inr (1, p)
        else
          bindE (start_traced (env M) p) (\<lambda>(v, p).
          if v \<noteq> 0 then Inr (1, p)
          else
            let (_, p) = call (env M) (Tracy Tracy_Main) p;
                (_, p) = call (env M) (Tracy Tracy_Free) p in
            (case wait_children fuel (env M) (p_world p) of
               None \<Rightarrow> Inl Waiting
             | Some w \<Rightarrow> Inr (0, p\<lparr>p_world := w\<rparr>)))))"

definition main ::
  "nat \<Rightarrow> 'l machine \<Rightarrow> (prog, 'l child) module option list \<Rightarrow> string list \<Rightarrow> prog
     \<Rightarrow> stop + (int \<times> prog)" where
  "main fuel M ms cmd p =
     bindE (if length cmd = 2 \<and> cmd ! 1 = ''voldwrapper'' then voldwrapper (env M) p else Inr p)
     (\<lambda>p.
     let p = p\<lparr>p_data := zero_data\<rparr> in
     bindE (setup_program M ms p) (\<lambda>(ok, p).
     if \<not> ok then Inr (1, p)
     else if \<not> multiboot_enabled (p_data p) \<and> \<not> sndstage_enabled (p_data p) then
       run_init (env M) False p
     else run_traced fuel M ms p))"

end
