(* ===== verification/Boot.thy ===== *)
theory Boot
  imports Program
begin

text \<open>
  What a run of \<open>main\<close> asks of the system. \<open>only P w w'\<close> says that every call between two
  worlds satisfies \<open>P\<close>; the rules in \<open>only_rules\<close> follow the calls an operation makes.
\<close>

definition only :: "(call \<Rightarrow> bool) \<Rightarrow> world \<Rightarrow> world \<Rightarrow> bool" where
  "only P w w' \<longleftrightarrow> (\<exists>cs. trail w' = trail w @ cs \<and> (\<forall>c\<in>set cs. P c))"

named_theorems only_rules

lemma only_refl [simp, only_rules]: "only P w w"
  by (simp add: only_def)

lemma only_trans: "only P u v \<Longrightarrow> only P v w \<Longrightarrow> only P u w"
  by (auto simp: only_def)

lemma only_sys [only_rules]: "only P u w \<Longrightarrow> P c \<Longrightarrow> only P u (snd (sys os c w))"
  by (auto simp: only_def)

lemma only_calls_since: "only P w w' \<Longrightarrow> \<forall>c\<in>set (calls_since w w'). P c"
  by (auto simp: only_def)

text \<open>The calls of a boot without tracing: nothing is traced, forked or read as a stream.\<close>

fun direct_call :: "call \<Rightarrow> bool" where
  "direct_call (Tracy _) = False"
| "direct_call (Stream _) = False"
| "direct_call (Proc Fork) = False"
| "direct_call (Proc (Fork_Exec _)) = False"
| "direct_call (Blkid_Fullprobe _) = False"
| "direct_call _ = True"

section \<open>The first part of setup\<close>

lemma only_make_dirs [only_rules]:
  "only direct_call u w \<Longrightarrow> only direct_call u (snd (make_dirs os mode ds w))"
  by (induction ds arbitrary: w) (simp_all add: Let_def split_beta only_rules)

lemma only_mkpath [only_rules]:
  assumes "length s \<le> PATH_MAX" and "only direct_call u w"
  shows "only direct_call u (snd (mkpath os mode s w))"
  unfolding mkpath_make_dirs [OF assms(1)] using assms(2) by (rule only_make_dirs)

lemma direct_call_mounts [simp]: "direct_call (Path c)" "direct_call (Fd d)"
  by simp_all

lemma only_klog_init [only_rules]:
  "only direct_call u w \<Longrightarrow> only direct_call u (snd (klog_init os (k, w)))"
  by (simp add: klog_defs only_rules)

lemma only_cmdline_text [only_rules]:
  "only direct_call u w \<Longrightarrow> only direct_call u (snd (cmdline_text os w))"
  by (simp add: cmdline_text_def Let_def split_beta only_rules)

text \<open>A mount whose type is given and is none of the ext family is one \<open>mkpath\<close> and one \<open>mount\<close>.\<close>

lemma only_util_mount [only_rules]:
  assumes "length target \<le> PATH_MAX" and "\<not> is_ext ty" and "only direct_call u w"
  shows "only direct_call u (snd (util_mount os source target (Some ty) flags opts w))"
  using assms by (simp add: util_mount_def check_fs_def Let_def split_beta only_rules)

abbreviation only_p :: "world \<Rightarrow> prog \<Rightarrow> bool" where
  "only_p u p \<equiv> only direct_call u (p_world p)"

lemma on_world_simps [simp]:
  "p_world (snd (on_world f p)) = snd (f (p_world p))"
  "p_data (snd (on_world f p)) = p_data p" "p_klog (snd (on_world f p)) = p_klog p"
  "fst (on_world f p) = fst (f (p_world p))"
  by (simp_all add: on_world_def split_beta Let_def)

lemma only_call [only_rules]: "only_p u p \<Longrightarrow> direct_call c \<Longrightarrow> only_p u (snd (call os c p))"
  by (simp add: call_def only_rules)

lemma call_data [simp]: "p_data (snd (call os c p)) = p_data p" "p_klog (snd (call os c p)) = p_klog p"
  by (simp_all add: call_def)

lemma setup_base_direct:
  assumes "only_p u p"
  shows "only_p u (snd (setup_base os p))"
    and "multiboot_enabled (p_data (snd (setup_base os p))) = multiboot_enabled (p_data p)"
    and "sndstage_enabled (p_data (snd (setup_base os p))) = sndstage_enabled (p_data p)"
  using assms
  by (simp_all add: setup_base_def system_is_recovery_def Let_def split_beta only_rules PATH_MAX_def is_ext_def
      has_prefix_def)

lemma unmount_procfs_direct: "only_p u p \<Longrightarrow> only_p u (unmount_procfs os p)"
  by (simp add: unmount_procfs_def Let_def split_beta only_rules)

section \<open>Options\<close>

definition option_name :: "string \<Rightarrow> string" where
  "option_name arg = takeWhile (\<lambda>c. c \<noteq> CHR ''='') arg"

text \<open>The options that make \<open>main\<close> do more than start init.\<close>

definition enabling_options :: "string list" where
  "enabling_options = [''multiboot.source'', ''multiboot.2ndstage'', ''multiboot.ums'']"

lemma set_grubdir_enabled [simp]:
  "multiboot_enabled (set_grubdir r0 v d) = multiboot_enabled d"
  "sndstage_enabled (set_grubdir r0 v d) = sndstage_enabled d"
  by (auto simp: set_grubdir_def split: list.splits scan_val.splits)

lemma import_kernel_nv_inert:
  assumes "option_name arg \<notin> set enabling_options"
  shows "\<exists>q. import_kernel_nv os r0 arg p = Inr q \<and> p_world q = p_world p \<and>
    multiboot_enabled (p_data q) = multiboot_enabled (p_data p) \<and>
    sndstage_enabled (p_data q) = sndstage_enabled (p_data p)"
  using assms
  by (auto simp: import_kernel_nv_def option_name_def enabling_options_def Let_def
      split: option.split list.split scan_val.split)

text \<open>Both ways of starting a system are off.\<close>

definition plain_boot :: "prog \<Rightarrow> bool" where
  "plain_boot p \<longleftrightarrow> \<not> multiboot_enabled (p_data p) \<and> \<not> sndstage_enabled (p_data p)"

lemma import_options_inert:
  assumes "\<forall>t\<in>set (cmdline_words (fst (cmdline_text (env M) (p_world p)))).
      option_name t \<notin> set enabling_options"
    and "plain_boot p" and "only_p u p"
  shows "\<exists>q. import_options M p = Inr q \<and> plain_boot q \<and> only_p u q"
proof -
  let ?f = "\<lambda>arg (p, w). bindE (import_kernel_nv (env M) (stack_rc M) arg (p\<lparr>p_world := w\<rparr>))
                           (\<lambda>p. Inr (p, p_world p))"
  have "\<exists>q. foldE ?f ts (p, w) = Inr (q, w) \<and> plain_boot q"
    if "\<forall>t\<in>set ts. option_name t \<notin> set enabling_options" "plain_boot p" for ts p w
    using that
  proof (induction ts arbitrary: p)
    case Nil
    then show ?case by simp
  next
    case (Cons t ts)
    then obtain q where q: "import_kernel_nv (env M) (stack_rc M) t (p\<lparr>p_world := w\<rparr>) = Inr q"
      "p_world q = w" "plain_boot q"
      using import_kernel_nv_inert [of t "env M" "stack_rc M" "p\<lparr>p_world := w\<rparr>"]
      by (auto simp: plain_boot_def)
    from Cons.IH [OF _ q(3)] Cons.prems(1) obtain q' where
      "foldE ?f ts (q, w) = Inr (q', w)" "plain_boot q'" by auto
    with q show ?case by auto
  qed
  from this [OF assms(1,2), of "snd (cmdline_text (env M) (p_world p))"]
  obtain q where q: "import_options M p = Inr (q\<lparr>p_world := snd (cmdline_text (env M) (p_world p))\<rparr>)"
    "plain_boot q"
    unfolding import_options_def import_kernel_cmdline_def
    by (fastforce simp: split_beta Let_def simp del: bindE_eq_Inr)
  then show ?thesis using assms(3) by (simp add: plain_boot_def only_rules)
qed

section \<open>A boot without tracing\<close>

definition wraps_vold :: "string list \<Rightarrow> bool" where
  "wraps_vold cmd \<longleftrightarrow> length cmd = 2 \<and> cmd ! 1 = ''voldwrapper''"

lemma main_program:
  "\<not> wraps_vold cmd \<Longrightarrow> main fuel M ms cmd p =
     bindE (setup_program M ms (p\<lparr>p_data := zero_data\<rparr>)) (\<lambda>(ok, p).
       if \<not> ok then Inr (1, p)
       else if plain_boot p then run_init (env M) False p
       else run_traced fuel M ms p)"
  unfolding main_def wraps_vold_def [symmetric] plain_boot_def by simp

text \<open>What may come of it: init replaces the program, or the program ends with status 1.\<close>

fun direct_outcome :: "world \<Rightarrow> stop + (int \<times> prog) \<Rightarrow> bool" where
  "direct_outcome u (Inl (Replaced w)) \<longleftrightarrow>
     only direct_call u w \<and> last (trail w) = Proc (Execve ''/init'' [''/init''])"
| "direct_outcome u (Inr (v, p)) \<longleftrightarrow> v = 1 \<and> only_p u p"
| "direct_outcome u _ \<longleftrightarrow> False"

lemma run_init_direct: "only_p u p \<Longrightarrow> direct_outcome u (run_init os False p)"
  by (auto simp: run_init_def Let_def split_beta only_rules) (simp add: call_def)

lemma setup_program_direct:
  assumes "\<forall>w. \<forall>t\<in>set (cmdline_words (fst (cmdline_text (env M) w))).
      option_name t \<notin> set enabling_options"
    and "plain_boot p" and "only_p u p"
  shows "\<exists>ok q. setup_program M ms p = Inr (ok, q) \<and> plain_boot q \<and> only_p u q"
proof -
  obtain ok q where b: "setup_base (env M) p = (ok, q)" by (cases "setup_base (env M) p")
  have q: "plain_boot q" "only_p u q"
    using setup_base_direct [OF assms(3), of "env M"] assms(2) b by (auto simp: plain_boot_def)
  show ?thesis
  proof (cases ok)
    case False
    with b q show ?thesis by (intro exI [of _ False] exI [of _ q]) (simp add: setup_program_def)
  next
    case True
    obtain r where r: "import_options M q = Inr r" "plain_boot r" "only_p u r"
      using import_options_inert [OF _ q] assms(1) by blast
    have "plain_boot (unmount_procfs (env M) r)"
      using r(2) by (simp add: plain_boot_def unmount_procfs_def Let_def split_beta)
    with True b r unmount_procfs_direct [OF r(3)] show ?thesis
      by (intro exI [of _ True] exI [of _ "unmount_procfs (env M) r"])
        (simp add: setup_program_def plain_boot_def)
  qed
qed

lemma main_direct:
  assumes "\<not> wraps_vold cmd"
    and "\<forall>w. \<forall>t\<in>set (cmdline_words (fst (cmdline_text (env M) w))).
      option_name t \<notin> set enabling_options"
  shows "direct_outcome (p_world p) (main fuel M ms cmd p)"
proof -
  have "plain_boot (p\<lparr>p_data := zero_data\<rparr>)" "only_p (p_world p) (p\<lparr>p_data := zero_data\<rparr>)"
    by (simp_all add: plain_boot_def zero_data_def)
  from setup_program_direct [OF assms(2) this, of ms] obtain ok q where
    "setup_program M ms (p\<lparr>p_data := zero_data\<rparr>) = Inr (ok, q)" "plain_boot q" "only_p (p_world p) q"
    by blast
  with run_init_direct show ?thesis by (simp add: main_program [OF assms(1)])
qed

section \<open>The source option\<close>

text \<open>\<open>%u\<close> reads back what \<open>%d\<close> printed: a minus sign negates modulo 2^32.\<close>

lemma scan_unsigned_show_int:
  fixes v :: u32
  assumes "r = [] \<or> \<not> is_digit (hd r)"
  shows "scan_unsigned (show_int (sint v) @ r) = Some (v, r)"
proof (cases "sint v < 0")
  case False
  have i: "int (nat (sint v)) = sint v" using False by simp
  have "(of_nat (nat (sint v)) :: u32) = of_int (int (nat (sint v)))" by (rule of_int_of_nat_eq [symmetric])
  then have "of_nat (nat (sint v)) = v" unfolding i by (simp add: scast_id)
  moreover have "nat (sint v) < 4294967296" using sint_lt [of v] by simp
  ultimately have "nat (sint v) < 4294967296" "of_nat (nat (sint v)) = v" by simp_all
  with scan_unsigned_show_nat [of "nat (sint v)" r] assms False show ?thesis
    by (simp add: show_int_def)
next
  case True
  let ?n = "nat (- sint v)"
  have b: "- 2147483648 \<le> sint v" using sint_ge [of v] by simp
  have n: "of_nat ?n = - v" "?n \<le> 2147483648" using True b by (simp_all add: of_nat_nat)
  have d: "\<And>c. c \<in> set (show_nat ?n) \<Longrightarrow> is_digit c" by (rule show_nat_digits)
  have tw: "takeWhile is_digit (show_nat ?n @ r) = show_nat ?n"
    using d assms by (intro takeWhile_append_stop) auto
  have dw: "dropWhile is_digit (show_nat ?n @ r) = r"
    using d assms by (intro dropWhile_append_stop) auto
  have "dropWhile isspace (CHR ''-'' # show_nat ?n @ r) = CHR ''-'' # show_nat ?n @ r"
    by (simp add: isspace_def)
  then show ?thesis using True n
    by (simp add: show_int_def scan_unsigned_def tw dw digits_value_show_nat)
qed

lemma show_int_chars: "c \<in> set (show_int i) \<Longrightarrow> is_digit c \<or> c = CHR ''-''"
  using show_nat_digits by (auto simp: show_int_def split: if_splits)

lemma sscanf_mmc_device_path:
  "sscanf dev_block_format (mmc_device_path dev part) = [VUnsigned dev, VUnsigned part]"
proof -
  have p: "\<not> is_digit (CHR ''p'')" by (simp add: is_digit_def)
  have "scan_unsigned (show_int (sint dev) @ ''p'' @ show_int (sint part)) =
      Some (dev, ''p'' @ show_int (sint part))"
    using p by (intro scan_unsigned_show_int) simp
  moreover have "scan_unsigned (show_int (sint part)) = Some (part, [])"
    using scan_unsigned_show_int [of "[]" part] by simp
  ultimately show ?thesis by (simp add: dev_block_format_def mmc_device_path_def lits_def)
qed

lemma get_blockinfo_mmc_device_path:
  "get_blockinfo_for_path indet tbl (mmc_device_path dev part) =
     find (\<lambda>e. part_major e = dev \<and> part_minor e = part) tbl"
proof -
  have "\<not> contains (mmc_device_path dev part) ''by-name''"
  proof
    assume "contains (mmc_device_path dev part) ''by-name''"
    then obtain u v where "mmc_device_path dev part = u @ ''by-name'' @ v" by (auto simp: contains_iff)
    then have "CHR ''y'' \<in> set (mmc_device_path dev part)" by (simp only: set_append) simp
    then show False
      by (auto simp: mmc_device_path_def is_digit_def dest!: show_int_chars)
  qed
  then show ?thesis
    by (simp add: get_blockinfo_for_path_def sscanf_mmc_device_path event_matches_def [abs_def])
qed

definition source_value :: "u32 \<Rightarrow> u32 \<Rightarrow> string \<Rightarrow> string" where
  "source_value dev part path = ''(hd'' @ show_u32 dev @ '','' @ show_u32 part @ '')'' @ path"

lemma sscanf_source_value:
  assumes "path \<noteq> []" and "\<forall>c\<in>set path. \<not> isspace c"
  shows "sscanf source_format (source_value dev part path) = [VUnsigned dev, VUnsigned part, VStr path]"
proof -
  have n: "\<not> is_digit (CHR '','')" "\<not> is_digit (CHR '')'')" by (simp_all add: is_digit_def)
  have "scan_unsigned (show_u32 dev @ '','' @ show_u32 part @ '')'' @ path) =
      Some (dev, '','' @ show_u32 part @ '')'' @ path)"
    using n by (intro scan_unsigned_show_u32) simp
  moreover have "scan_unsigned (show_u32 part @ '')'' @ path) = Some (part, '')'' @ path)"
    using n by (intro scan_unsigned_show_u32) simp
  moreover have "dropWhile isspace path = path" using assms by (intro dropWhile_stop) simp
  moreover have "takeWhile (\<lambda>c. \<not> isspace c) path = path" using assms(2) by (intro takeWhile_all) simp
  moreover have "dropWhile (\<lambda>c. \<not> isspace c) path = []" using assms(2) by (intro dropWhile_all) simp
  ultimately show ?thesis using assms(1)
    by (simp add: source_format_def source_value_def lits_def)
qed

lemma strchr_first: "c \<notin> set s \<Longrightarrow> strchr (s @ c # r) c = Some (c # r)"
  by (simp add: strchr_append)

lemma import_source:
  assumes "path \<noteq> []" and "\<forall>c\<in>set path. \<not> isspace c"
  shows "import_kernel_nv os r0 (''multiboot.source='' @ source_value dev part path) p =
    Inr (p\<lparr>p_data := (p_data p)\<lparr>multiboot_path := Some path,
      multiboot_device := (multiboot_device (p_data p))
        \<lparr>blk_device := Some (mmc_device_path dev part), mount_point := Some ''/multiboot/mnt/source''\<rparr>,
      multiboot_enabled := True\<rparr>\<rparr>)"
proof -
  have "strchr (''multiboot.source='' @ source_value dev part path) (CHR ''='') =
      Some (CHR ''='' # source_value dev part path)"
    using strchr_first [of "CHR ''=''" "''multiboot.source''" "source_value dev part path"] by simp
  then show ?thesis
    using sscanf_source_value [OF assms, of dev part]
    by (simp add: import_kernel_nv_def set_source_def Let_def)
qed

text \<open>The device of the option becomes the canonical path, with the numbers of its entry.\<close>

lemma prepare_device_mmc:
  assumes "blk_device r = Some (mmc_device_path dev part)"
    and "find (\<lambda>e. part_major e = dev \<and> part_minor e = part) tbl = Some e"
  shows "prepare_device indet (Some tbl) dir r = Inr (r\<lparr>blk_device := Some (mmc_path dev part),
    stat_rdev := (linux_major e, linux_minor e), replacement_bind := True,
    replacement_device := Some dir, stub_device := Some (mmc_path dev part)\<rparr>)"
proof -
  have e: "part_major e = dev" "part_minor e = part" using find_SomeD [OF assms(2)] by simp_all
  have "uevent_realpath indet tbl (mmc_device_path dev part) = Some (mmc_path dev part)"
    using assms(2) e by (simp add: uevent_realpath_def get_blockinfo_mmc_device_path)
  moreover have "uevent_stat indet tbl (mmc_path dev part) = Some (linux_major e, linux_minor e)"
    using assms(2) by (simp add: uevent_stat_def get_blockinfo_mmc_path)
  ultimately show ?thesis
    by (simp add: prepare_device_def translate_fstab_rec_def assms(1))
qed

section \<open>The last loop\<close>

text \<open>
  The loop ends no later than the first call that reports ECHILD or returns 0. If these are
  the replies once \<open>k\<close> calls were made, \<open>k\<close> rounds and one more are enough.
\<close>

lemma wait_children_result:
  assumes "\<And>cs. k \<le> length cs \<Longrightarrow> rc (os cs (Proc (Waitpid (- 1)))) < 0 \<and>
      eno (os cs (Proc (Waitpid (- 1)))) = ECHILD"
    and "k \<le> length (trail w) + n"
  shows "\<exists>w' m. wait_children (Suc n) os w = Some w' \<and> 0 < m \<and> m \<le> Suc n \<and>
    trail w' = trail w @ replicate m (Proc (Waitpid (- 1)))"
  using assms(2)
proof (induction n arbitrary: w)
  case 0
  then have "rc (os (trail w) (Proc (Waitpid (- 1)))) < 0 \<and>
      eno (os (trail w) (Proc (Waitpid (- 1)))) = ECHILD" by (intro assms(1)) simp
  then show ?case by (intro exI [of _ "snd (sys os (Proc (Waitpid (- 1))) w)"] exI [of _ 1])
      (simp add: Let_def split_beta)
next
  case (Suc n)
  let ?w = "snd (sys os (Proc (Waitpid (- 1))) w)"
  have s: "wait_children (Suc (Suc n)) os w =
      (if rc (os (trail w) (Proc (Waitpid (- 1)))) = 0 \<or> errno ?w = ECHILD then Some ?w
       else wait_children (Suc n) os ?w)"
    by (simp add: Let_def split_beta)
  show ?case
  proof (cases "rc (os (trail w) (Proc (Waitpid (- 1)))) = 0 \<or> errno ?w = ECHILD")
    case True
    then show ?thesis unfolding s by (intro exI [of _ ?w] exI [of _ 1]) simp
  next
    case False
    have "k \<le> length (trail ?w) + n" using Suc.prems by simp
    from Suc.IH [OF this] obtain w' m where
      "wait_children (Suc n) os ?w = Some w'" "0 < m" "m \<le> Suc n"
      "trail w' = trail ?w @ replicate m (Proc (Waitpid (- 1)))" by blast
    with False show ?thesis unfolding s
      by (intro exI [of _ w'] exI [of _ "Suc m"]) simp
  qed
qed

section \<open>The voldwrapper\<close>

definition vold_exec :: call where
  "vold_exec = Proc (Execve ''/multiboot/bin/vold'' [''/multiboot/bin/vold''])"

lemma voldwrapper_runs:
  assumes "\<And>cs. 0 \<le> rc (os cs vold_exec)"
  shows "\<exists>w. voldwrapper os p = Inl (Replaced w) \<and> last (trail w) = vold_exec"
  using assms by (simp add: voldwrapper_def vold_exec_def Let_def split_beta call_def not_less)

lemma voldwrapper_fails:
  assumes "\<And>cs. rc (os cs vold_exec) < 0"
  shows "\<exists>q. voldwrapper os p = Inr q \<and> last (trail (p_world q)) = vold_exec"
  using assms by (simp add: voldwrapper_def vold_exec_def Let_def split_beta call_def)

lemma main_voldwrapper:
  "wraps_vold cmd \<Longrightarrow>
     main fuel M ms cmd p = bindE (voldwrapper (env M) p) (main fuel M ms [])"
proof -
  assume w: "wraps_vold cmd"
  have n: "\<not> wraps_vold []" by (simp add: wraps_vold_def)
  have "main fuel M ms [] = (\<lambda>q. bindE (setup_program M ms (q\<lparr>p_data := zero_data\<rparr>)) (\<lambda>(ok, p).
      if \<not> ok then Inr (1, p)
      else if plain_boot p then run_init (env M) False p
      else run_traced fuel M ms p))"
    by (rule ext) (rule main_program [OF n])
  then show ?thesis
    using w unfolding main_def [of fuel M ms cmd] wraps_vold_def [symmetric] plain_boot_def
    by (simp add: Let_def)
qed

end
