(* ===== verification/Uuid.thy ===== *)
theory Uuid
  imports CNumber Bytes
begin

unbundle bit_operations_syntax

text \<open>
  DCE UUIDs, src/lib/libblkid/libuuid/src: the record form and the 16 bytes form (pack.c,
  unpack.c), the text form (parse.c, unparse.c), comparison, the null UUID, copies and the
  fields of a UUID (compare.c, isnull.c, copy.c, clear.c, uuid_time.c), the random UUIDs of
  gen_uuid.c, and the text that probe.c prints without libuuid. The lemmas show that both
  pairs of forms are inverse to each other.
\<close>

section \<open>Hexadecimal text\<close>

definition hex_digit :: "bool \<Rightarrow> nat \<Rightarrow> char" where
  "hex_digit upper n = (if upper then ''0123456789ABCDEF'' else ''0123456789abcdef'') ! n"

text \<open>The conversion \<open>%0nx\<close> (\<open>%0nX\<close>) of a number that has at most \<open>n\<close> hexadecimal digits.\<close>

fun hex :: "bool \<Rightarrow> nat \<Rightarrow> nat \<Rightarrow> string" where
  "hex upper 0 v = []"
| "hex upper (Suc n) v = hex upper n (v div 16) @ [hex_digit upper (v mod 16)]"

definition isxdigit :: "char \<Rightarrow> bool" where
  "isxdigit c \<longleftrightarrow> digit_in 16 c"

definition tolower :: "char \<Rightarrow> char" where
  "tolower c = (let n = of_char c :: nat in if 65 \<le> n \<and> n \<le> 90 then char_of (n + 32) else c)"

lemma less_16_cases: "n < (16::nat) \<Longrightarrow>
  n \<in> {15, 14, 13, 12, 11, 10, 9, 8, 7, 6, 5, 4, 3, 2, 1, 0}"
  unfolding insert_iff empty_iff by arith

lemma xdigit_facts:
  assumes "isxdigit c"
  shows "\<not> isspace c" and "c \<noteq> CHR ''-''" and "c \<noteq> CHR ''+''" and "c \<noteq> NUL"
  using assms by (auto simp: isxdigit_def digit_in_def digit_val_def isspace_def)

lemma digit_val_hex_digit: "n < 16 \<Longrightarrow> digit_val (hex_digit up n) = n"
  by (drule less_16_cases, elim insertE emptyE) (simp_all add: hex_digit_def digit_val_def)

lemma hex_digit_facts:
  assumes "n < 16"
  shows "digit_val (hex_digit up n) = n" and "isxdigit (hex_digit up n)"
  using assms by (simp_all add: digit_val_hex_digit isxdigit_def digit_in_def)

lemma hex_length [simp]: "length (hex up n v) = n"
  by (induction n arbitrary: v) auto

lemma hex_xdigit: "c \<in> set (hex up n v) \<Longrightarrow> isxdigit c"
  by (induction n arbitrary: v) (auto simp: hex_digit_facts)

lemma digits_value_hex: "digits_value 16 0 (hex up n v) = v mod 16 ^ n"
proof (induction n arbitrary: v)
  case 0
  then show ?case by simp
next
  case (Suc n)
  have "v div 16 mod 16 ^ n * 16 + v mod 16 = v mod 16 ^ Suc n"
    using mod_mult2_eq [of v 16 "16 ^ n"] by (simp add: mult.commute)
  then show ?case by (simp add: digits_value_append Suc hex_digit_facts)
qed

lemma char_at:
  assumes "(of_char c :: nat) = k + n" and "of_char (s ! n) = k + n" and "n < length s"
  shows "c \<in> set s"
proof -
  have "of_char c = (of_char (s ! n) :: nat)" using assms by simp
  then have "c = s ! n" by (simp only: of_char_eq_iff)
  with assms(3) show ?thesis by simp
qed

lemma xdigit_cases: "isxdigit c \<longleftrightarrow> c \<in> set ''0123456789abcdefABCDEF''"
proof
  assume x: "isxdigit c"
  let ?n = "of_char c :: nat"
  have between: "\<exists>n<k. m = l + n" if "l \<le> m" "m < l + k" for l m k :: nat
    using that by (intro exI [of _ "m - l"]) simp
  have "48 \<le> ?n \<and> ?n < 48 + 10 \<or> 97 \<le> ?n \<and> ?n < 97 + 6 \<or> 65 \<le> ?n \<and> ?n < 65 + 6"
    using x by (simp add: isxdigit_def digit_in_def digit_val_def Let_def split: if_splits)
  then consider n where "n < 10" "?n = 48 + n" | n where "n < 6" "?n = 97 + n" | n where "n < 6" "?n = 65 + n"
    using between by blast
  then show "c \<in> set ''0123456789abcdefABCDEF''"
  proof cases
    case 1
    then have "c \<in> set ''0123456789''"
      using less_10_cases [OF 1(1)] by (intro char_at [OF 1(2)]) auto
    then show ?thesis by auto
  next
    case 2
    have "n = 0 \<or> n = 1 \<or> n = 2 \<or> n = 3 \<or> n = 4 \<or> n = 5" using 2(1) by arith
    then have "c \<in> set ''abcdef''" by (intro char_at [OF 2(2)]) auto
    then show ?thesis by auto
  next
    case 3
    have "n = 0 \<or> n = 1 \<or> n = 2 \<or> n = 3 \<or> n = 4 \<or> n = 5" using 3(1) by arith
    then have "c \<in> set ''ABCDEF''" by (intro char_at [OF 3(2)]) auto
    then show ?thesis by auto
  qed
next
  assume "c \<in> set ''0123456789abcdefABCDEF''"
  then show "isxdigit c" by (auto simp: isxdigit_def digit_in_def digit_val_def)
qed

lemma tolower_letters:
  "tolower (CHR ''A'') = CHR ''a''" "tolower (CHR ''B'') = CHR ''b''" "tolower (CHR ''C'') = CHR ''c''"
  "tolower (CHR ''D'') = CHR ''d''" "tolower (CHR ''E'') = CHR ''e''" "tolower (CHR ''F'') = CHR ''f''"
  by (simp_all add: tolower_def of_char_eq_iff [where 'a = nat, symmetric])

lemma hex_digit_of_val: "isxdigit c \<Longrightarrow> hex_digit False (digit_val c) = tolower c"
  unfolding xdigit_cases
  by (auto simp: hex_digit_def digit_val_def tolower_letters) (simp_all add: tolower_def)

lemma digits_value_snoc: "digits_value b acc (xs @ [x]) = digits_value b acc xs * b + digit_val x"
  by (simp add: digits_value_append)

lemma hex_digits_value:
  "(\<And>c. c \<in> set s \<Longrightarrow> isxdigit c) \<Longrightarrow> hex False (length s) (digits_value 16 0 s) = map tolower s"
proof (induction s rule: rev_induct)
  case Nil
  then show ?case by simp
next
  case (snoc x xs)
  have "digit_val x < 16" using snoc.prems [of x] by (simp add: isxdigit_def digit_in_def)
  then show ?case using snoc by (simp add: digits_value_snoc hex_digit_of_val)
qed

lemma digits_value_bound:
  "(\<And>c. c \<in> set s \<Longrightarrow> isxdigit c) \<Longrightarrow> digits_value 16 0 s < 16 ^ length s"
proof (induction s rule: rev_induct)
  case Nil
  then show ?case by simp
next
  case (snoc x xs)
  have "digit_val x < 16" using snoc.prems [of x] by (simp add: isxdigit_def digit_in_def)
  moreover have "digits_value 16 0 xs + 1 \<le> 16 ^ length xs"
    using snoc.IH snoc.prems by (simp add: Suc_leI)
  then have "16 * (digits_value 16 0 xs + 1) \<le> 16 * 16 ^ length xs" by (rule mult_le_mono2)
  ultimately show ?case by (simp add: digits_value_snoc)
qed

section \<open>The record form\<close>

text \<open>\<open>struct uuid\<close>; the node is an array of six bytes.\<close>

record uuid =
  time_low :: u32
  time_mid :: u16
  time_hi_and_version :: u16
  clock_seq :: u16
  node :: string

text \<open>\<open>(unsigned char) w\<close>.\<close>

definition uchar :: "'a::len word \<Rightarrow> char" where
  "uchar w = char_of (unat w)"

definition uuid_pack :: "uuid \<Rightarrow> string" where
  "uuid_pack uu =
     (let t0 = time_low uu; t1 = drop_bit 8 t0; t2 = drop_bit 8 t1; t3 = drop_bit 8 t2;
          m0 = time_mid uu; m1 = drop_bit 8 m0;
          h0 = time_hi_and_version uu; h1 = drop_bit 8 h0;
          c0 = clock_seq uu; c1 = drop_bit 8 c0
      in [uchar t3, uchar t2, uchar t1, uchar t0, uchar m1, uchar m0, uchar h1, uchar h0,
          uchar c1, uchar c0] @ take 6 (node uu))"

text \<open>The reading of a field: \<open>tmp = (tmp << 8) | *ptr++\<close> for each of its bytes.\<close>

definition shift_in :: "'a::len word \<Rightarrow> char \<Rightarrow> 'a word" where
  "shift_in tmp c = push_bit 8 tmp OR word_of_nat (of_char c)"

definition uuid_unpack :: "string \<Rightarrow> uuid" where
  "uuid_unpack ptr =
     \<lparr>time_low = foldl shift_in 0 (take 4 ptr), time_mid = foldl shift_in 0 (take 2 (drop 4 ptr)),
      time_hi_and_version = foldl shift_in 0 (take 2 (drop 6 ptr)),
      clock_seq = foldl shift_in 0 (take 2 (drop 8 ptr)), node = take 6 (drop 10 ptr)\<rparr>"

lemma shift_in_eq:
  assumes "8 \<le> LENGTH('a::len)"
  shows "shift_in tmp c = tmp * 256 + (word_of_nat (of_char c) :: 'a word)"
proof -
  have "push_bit 8 tmp AND (word_of_nat (of_char c) :: 'a word) = 0"
  proof (rule bit_word_eqI)
    fix n
    have "\<not> bit (of_char c :: nat) n" if "8 \<le> n"
    proof -
      have "(of_char c :: nat) < 2 ^ 8" by simp
      also have "\<dots> \<le> 2 ^ n" using that by (intro power_increasing) simp_all
      finally show ?thesis by (simp add: bit_iff_odd)
    qed
    then show "bit (push_bit 8 tmp AND (word_of_nat (of_char c) :: 'a word)) n \<longleftrightarrow> bit (0 :: 'a word) n"
      by (auto simp: bit_and_iff bit_push_bit_iff bit_of_nat_iff)
  qed
  then have "push_bit 8 tmp OR (word_of_nat (of_char c) :: 'a word) = push_bit 8 tmp + word_of_nat (of_char c)"
    by (simp add: disjunctive_add_eq_or)
  then show ?thesis by (simp add: shift_in_def push_bit_eq_mult)
qed

lemma foldl_shift_in:
  assumes "8 \<le> LENGTH('a::len)"
  shows "foldl shift_in t s = t * 256 ^ length s + (word_of_nat (be_value s) :: 'a word)"
proof (induction s arbitrary: t)
  case Nil
  then show ?case by simp
next
  case (Cons c s)
  then show ?case by (simp add: shift_in_eq [OF assms] be_value_Cons algebra_simps)
qed

lemma field_value:
  assumes "8 * length s \<le> LENGTH('a::len)" and "8 \<le> LENGTH('a)"
  shows "unat (foldl shift_in 0 s :: 'a word) = be_value s"
proof -
  have "be_value s < 256 ^ length s" by (rule be_value_bound)
  also have "(256::nat) ^ length s = 2 ^ (8 * length s)" by (simp add: power_mult)
  also have "\<dots> \<le> 2 ^ LENGTH('a)" using assms by (intro power_increasing) simp_all
  finally show ?thesis by (simp add: foldl_shift_in [OF assms(2)] unat_of_nat)
qed

lemma le_bytes_words:
  "le_bytes 4 v = [char_of v, char_of (v div 256), char_of (v div 65536), char_of (v div 16777216)]"
  "le_bytes 2 v = [char_of v, char_of (v div 256)]"
proof -
  have four: "4 = Suc (Suc (Suc (Suc 0)))" and two: "2 = Suc (Suc 0)" by simp_all
  show "le_bytes 4 v = [char_of v, char_of (v div 256), char_of (v div 65536), char_of (v div 16777216)]"
    unfolding four le_bytes.simps by (simp add: div_mult2_eq [symmetric])
  show "le_bytes 2 v = [char_of v, char_of (v div 256)]"
    unfolding two le_bytes.simps by simp
qed

lemma uchar_bytes:
  "[uchar (drop_bit 8 (drop_bit 8 (drop_bit 8 w))), uchar (drop_bit 8 (drop_bit 8 w)),
    uchar (drop_bit 8 w), uchar w] = be_bytes 4 (unat w)"
  "[uchar (drop_bit 8 w), uchar w] = be_bytes 2 (unat w)"
  unfolding uchar_def unat_drop_bit_eq drop_bit_eq_div [where 'a = nat] be_bytes_def le_bytes_words
  by (simp_all add: div_mult2_eq [symmetric])

lemma uuid_pack_bytes:
  "uuid_pack uu = be_bytes 4 (unat (time_low uu)) @ be_bytes 2 (unat (time_mid uu)) @
     be_bytes 2 (unat (time_hi_and_version uu)) @ be_bytes 2 (unat (clock_seq uu)) @ take 6 (node uu)"
  by (simp add: uuid_pack_def Let_def uchar_bytes [symmetric])

lemma uuid_fields:
  assumes "length ptr = 16"
  shows "unat (time_low (uuid_unpack ptr)) = be_value (take 4 ptr)"
    and "unat (time_mid (uuid_unpack ptr)) = be_value (take 2 (drop 4 ptr))"
    and "unat (time_hi_and_version (uuid_unpack ptr)) = be_value (take 2 (drop 6 ptr))"
    and "unat (clock_seq (uuid_unpack ptr)) = be_value (take 2 (drop 8 ptr))"
    and "node (uuid_unpack ptr) = drop 10 ptr"
  using assms by (simp_all add: uuid_unpack_def field_value)

lemma split16:
  "s = take 4 s @ take 2 (drop 4 s) @ take 2 (drop 6 s) @ take 2 (drop 8 s) @ drop 10 s"
proof -
  have "s = take 4 s @ drop 4 s" by simp
  also have "drop 4 s = take 2 (drop 4 s) @ drop 6 s"
    using append_take_drop_id [of 2 "drop 4 s"] by simp
  also have "drop 6 s = take 2 (drop 6 s) @ drop 8 s"
    using append_take_drop_id [of 2 "drop 6 s"] by simp
  also have "drop 8 s = take 2 (drop 8 s) @ drop 10 s"
    using append_take_drop_id [of 2 "drop 8 s"] by simp
  finally show ?thesis by simp
qed

lemma be_bytes_of_take:
  assumes "length t = n"
  shows "be_bytes n (be_value t) = t"
  using be_bytes_value [of t] assms by simp

lemma uuid_pack_unpack:
  assumes "length ptr = 16"
  shows "uuid_pack (uuid_unpack ptr) = ptr"
proof -
  have "uuid_pack (uuid_unpack ptr) =
      take 4 ptr @ take 2 (drop 4 ptr) @ take 2 (drop 6 ptr) @ take 2 (drop 8 ptr) @ drop 10 ptr"
    using assms by (simp add: uuid_pack_bytes uuid_fields be_bytes_of_take)
  then show ?thesis using split16 [of ptr] by simp
qed

lemma uuid_unpack_pack:
  assumes "length (node uu) = 6"
  shows "uuid_unpack (uuid_pack uu) = uu"
proof -
  have w: "foldl shift_in 0 (be_bytes 4 (unat t)) = t" for t :: u32
    using unsigned_less [of t, where 'a = nat] by (simp add: foldl_shift_in be_value_bytes)
  have h: "foldl shift_in 0 (be_bytes 2 (unat t)) = t" for t :: u16
    using unsigned_less [of t, where 'a = nat] by (simp add: foldl_shift_in be_value_bytes)
  show ?thesis using assms by (simp add: uuid_unpack_def uuid_pack_bytes w h)
qed

lemma uuid_pack_length: "length (node uu) = 6 \<Longrightarrow> length (uuid_pack uu) = 16"
  by (simp add: uuid_pack_bytes)

section \<open>Operations\<close>

definition uuid_is_null :: "string \<Rightarrow> bool" where
  "uuid_is_null uu \<longleftrightarrow> (\<forall>i < 16. uu ! i = NUL)"

definition uuid_copy :: "string \<Rightarrow> string" where
  "uuid_copy src = map (\<lambda>i. src ! i) [0..<16]"

definition uuid_clear :: string where
  "uuid_clear = replicate 16 NUL"

text \<open>\<open>memcmp\<close>, of which only the sign is specified.\<close>

fun memcmp :: "string \<Rightarrow> string \<Rightarrow> int" where
  "memcmp (x # xs) (y # ys) =
     (if x = y then memcmp xs ys else if (of_char x :: nat) < of_char y then - 1 else 1)"
| "memcmp xs ys = 0"

definition uucmp :: "'a::linorder \<Rightarrow> 'a \<Rightarrow> int \<Rightarrow> int" where
  "uucmp u1 u2 rest = (if u1 \<noteq> u2 then if u1 < u2 then - 1 else 1 else rest)"

definition uuid_compare :: "string \<Rightarrow> string \<Rightarrow> int" where
  "uuid_compare uu1 uu2 =
     (let uuid1 = uuid_unpack uu1; uuid2 = uuid_unpack uu2 in
      uucmp (time_low uuid1) (time_low uuid2)
        (uucmp (time_mid uuid1) (time_mid uuid2)
          (uucmp (time_hi_and_version uuid1) (time_hi_and_version uuid2)
            (uucmp (clock_seq uuid1) (clock_seq uuid2)
              (memcmp (node uuid1) (node uuid2))))))"

lemma memcmp_be:
  "length xs = length ys \<Longrightarrow>
     memcmp xs ys = (if be_value xs = be_value ys then 0 else if be_value xs < be_value ys then - 1 else 1)"
proof (induction xs ys rule: memcmp.induct)
  case (1 x xs y ys)
  have ux: "be_value xs < 256 ^ length xs" and uy: "be_value ys < 256 ^ length xs"
    using be_value_bound [of xs] be_value_bound [of ys] 1(2) by simp_all
  have lt: "be_value (x # xs) < be_value (y # ys)" if "(of_char x :: nat) < of_char y"
  proof -
    have "of_char x * 256 ^ length xs + 256 ^ length xs \<le> of_char y * (256 :: nat) ^ length xs"
      using that by (metis Suc_leI mult_Suc mult_le_mono1 add.commute)
    with ux show ?thesis using 1(2) by (simp add: be_value_Cons)
  qed
  have gt: "be_value (y # ys) < be_value (x # xs)" if "(of_char y :: nat) < of_char x"
  proof -
    have "of_char y * 256 ^ length xs + 256 ^ length xs \<le> of_char x * (256 :: nat) ^ length xs"
      using that by (metis Suc_leI mult_Suc mult_le_mono1 add.commute)
    with uy show ?thesis using 1(2) by (simp add: be_value_Cons)
  qed
  consider "x = y" | "x \<noteq> y" "(of_char x :: nat) < of_char y" | "x \<noteq> y" "(of_char y :: nat) < of_char x"
    by (metis linorder_neqE_nat of_char_eq_iff)
  then show ?case
  proof cases
    case 1
    then show ?thesis using "1.IH" "1.prems" by (simp add: be_value_Cons)
  next
    case 2
    then show ?thesis using lt by simp
  next
    case 3
    then show ?thesis using gt by simp
  qed
qed auto

lemma memcmp_append:
  "length xs = length ys \<Longrightarrow>
     memcmp (xs @ as) (ys @ bs) = (if xs = ys then memcmp as bs else memcmp xs ys)"
  by (induction xs ys rule: memcmp.induct) auto

lemma memcmp_split: 
  assumes "length xs = length ys" and "length as = length bs"
  shows "memcmp (xs @ as) (ys @ bs) = uucmp (be_value xs) (be_value ys) (memcmp as bs)"
  using assms be_value_inject [OF assms(1)]
  by (simp add: memcmp_append uucmp_def memcmp_be [OF assms(1)])

lemma uucmp_word: "uucmp (u :: 'a::len word) v r = uucmp (unat u) (unat v) r"
  by (simp add: uucmp_def word_less_nat_alt word_unat_eq_iff)

section \<open>The text form\<close>

definition uuid_unparse_x :: "bool \<Rightarrow> string \<Rightarrow> string" where
  "uuid_unparse_x upper uu =
     (let uuid = uuid_unpack uu in
      hex upper 8 (unat (time_low uuid)) @ ''-'' @ hex upper 4 (unat (time_mid uuid)) @ ''-'' @
      hex upper 4 (unat (time_hi_and_version uuid)) @ ''-'' @
      hex upper 2 (unat (drop_bit 8 (clock_seq uuid))) @ hex upper 2 (unat (clock_seq uuid AND 0xFF)) @
      ''-'' @ concat (map (\<lambda>i. hex upper 2 (of_char (node uuid ! i))) [0..<6]))"

definition uuid_unparse_lower :: "string \<Rightarrow> string" where
  "uuid_unparse_lower = uuid_unparse_x False"

definition uuid_unparse_upper :: "string \<Rightarrow> string" where
  "uuid_unparse_upper = uuid_unparse_x True"

text \<open>\<open>UUID_UNPARSE_DEFAULT_UPPER\<close> is not defined.\<close>

definition uuid_unparse :: "string \<Rightarrow> string" where
  "uuid_unparse = uuid_unparse_x False"

text \<open>
  \<open>blkid_unparse_uuid\<close> of probe.c, in the branch that is compiled (\<open>HAVE_LIBUUID\<close> is defined
  in a config.h that probe.c does not include).
\<close>

definition blkid_unparse_uuid :: "string \<Rightarrow> nat \<Rightarrow> string" where
  "blkid_unparse_uuid uuid len =
     (let x = \<lambda>i. hex False 2 (of_char (uuid ! i)) in
      snprintf len
        (concat (map x [0, 1, 2, 3]) @ ''-'' @ concat (map x [4, 5]) @ ''-'' @
         concat (map x [6, 7]) @ ''-'' @ concat (map x [8, 9]) @ ''-'' @
         concat (map x [10, 11, 12, 13, 14, 15])))"

text \<open>
  The check of \<open>uuid_parse\<close> visits the terminating NUL too. \<open>strtoul\<close> is that of a 32 bit
  \<open>unsigned long\<close>; the prefix 0x that it accepts in base 16 does not occur behind the check.
\<close>

fun uuid_chars :: "nat \<Rightarrow> string \<Rightarrow> bool" where
  "uuid_chars i [] \<longleftrightarrow> True"
| "uuid_chars i (c # cp) \<longleftrightarrow>
     (if i \<in> {8, 13, 18, 23} then c = CHR ''-'' else i = 36 \<and> c = NUL \<or> isxdigit c) \<and>
     uuid_chars (i + 1) cp"

definition strtoul16 :: "string \<Rightarrow> int" where
  "strtoul16 s = fst (strtol 0 4294967295 16 s)"

definition uuid_parse :: "string \<Rightarrow> string option" where
  "uuid_parse s =
     (if length s \<noteq> 36 then None
      else if \<not> uuid_chars 0 (s @ [NUL]) then None
      else Some (uuid_pack
        \<lparr>time_low = word_of_int (strtoul16 s), time_mid = word_of_int (strtoul16 (drop 9 s)),
         time_hi_and_version = word_of_int (strtoul16 (drop 14 s)),
         clock_seq = word_of_int (strtoul16 (drop 19 s)),
         node = map (\<lambda>i. char_of (strtoul16 (take 2 (drop (24 + 2 * i) s)))) [0..<6]\<rparr>))"

section \<open>Facts on the text form\<close>

lemma hex_split: "hex up (n + 2) v = hex up n (v div 256) @ hex up 2 (v mod 256)"
proof -
  have "v mod 256 div 16 = v div 16 mod 16" "v mod 256 mod 16 = v mod 16"
    using mod_mult2_eq [of v 16 16] by (simp_all add: mod_mod_cancel)
  then show ?thesis by (simp add: numeral_2_eq_2 div_mult2_eq [symmetric])
qed

lemma hex_be_value: "hex up (2 * length s) (be_value s) = concat (map (\<lambda>c. hex up 2 (of_char c)) s)"
proof (induction s rule: rev_induct)
  case Nil
  then show ?case by simp
next
  case (snoc c s)
  have "be_value (s @ [c]) = be_value s * 256 + of_char c"
    by (simp add: be_value_def)
  then show ?case using hex_split [of up "2 * length s"] snoc by simp
qed

lemma hex_be_value_4:
  "length s = 4 \<Longrightarrow> hex up 8 (be_value s) = concat (map (\<lambda>c. hex up 2 (of_char c)) s)"
  using hex_be_value [of up s] by simp

lemma hex_be_value_2:
  "length s = 2 \<Longrightarrow> hex up 4 (be_value s) = concat (map (\<lambda>c. hex up 2 (of_char c)) s)"
  using hex_be_value [of up s] by simp

lemma hex_bytes_of_word:
  "hex up 2 (unat (drop_bit 8 (w :: u16))) @ hex up 2 (unat (w AND 0xFF)) = hex up 4 (unat w)"
proof -
  have m: "w AND 0xFF = take_bit 8 w" by (simp add: take_bit_eq_mask mask_eq_exp_minus_1)
  have "unat (w AND 0xFF) = unat w mod 256"
    unfolding m unsigned_take_bit_eq by (simp add: take_bit_eq_mod)
  moreover have "unat (drop_bit 8 w) = unat w div 256"
    unfolding unat_drop_bit_eq by (simp add: drop_bit_eq_div)
  ultimately show ?thesis using hex_split [of up 2 "unat w"] by simp
qed

lemma map_nth_6: "length s = 6 \<Longrightarrow> map (\<lambda>i. f (s ! i)) [0..<6] = map f s"
  using map_nth [of s] by (metis (no_types, lifting) list.map_comp map_eq_conv comp_apply)

lemma uuid_unparse_x_eq:
  assumes "length uu = 16"
  shows "uuid_unparse_x up uu =
    hex up 8 (be_value (take 4 uu)) @ ''-'' @ hex up 4 (be_value (take 2 (drop 4 uu))) @ ''-'' @
    hex up 4 (be_value (take 2 (drop 6 uu))) @ ''-'' @ hex up 4 (be_value (take 2 (drop 8 uu))) @
    ''-'' @ hex up 12 (be_value (drop 10 uu))"
  using assms hex_be_value [of up "drop 10 uu"]
    hex_bytes_of_word [of up "clock_seq (uuid_unpack uu)"]
    map_nth_6 [of "drop 10 uu" "\<lambda>c. hex up 2 (of_char c)"]
  by (simp add: uuid_unparse_x_def Let_def uuid_fields flip: append_assoc)

lemma uuid_chars_append:
  "uuid_chars i (xs @ ys) \<longleftrightarrow> uuid_chars i xs \<and> uuid_chars (i + length xs) ys"
  by (induction i xs rule: uuid_chars.induct) (auto simp: add.commute add.left_commute)

lemma uuid_chars_run:
  "\<forall>k < length xs. i + k \<notin> {8, 13, 18, 23, 36} \<Longrightarrow>
     uuid_chars i xs \<longleftrightarrow> (\<forall>c \<in> set xs. isxdigit c)"
proof (induction i xs rule: uuid_chars.induct)
  case (1 i)
  then show ?case by simp
next
  case (2 i c cp)
  have "\<forall>k < length cp. i + 1 + k \<notin> {8, 13, 18, 23, 36}"
    using 2(2) by (metis Suc_less_eq add.assoc length_Cons plus_1_eq_Suc)
  moreover have "i \<notin> {8, 13, 18, 23, 36}" using 2(2) by (metis add_0_right length_Cons zero_less_Suc)
  ultimately show ?case using 2(1) by auto
qed

text \<open>The five groups of a UUID's text.\<close>

definition uuid_groups :: "string \<Rightarrow> string \<Rightarrow> string \<Rightarrow> string \<Rightarrow> string \<Rightarrow> string" where
  "uuid_groups a b c d e = a @ ''-'' @ b @ ''-'' @ c @ ''-'' @ d @ ''-'' @ e"

lemma uuid_groups_chars:
  assumes "length a = 8" "length b = 4" "length c = 4" "length d = 4" "length e = 12"
  shows "uuid_chars 0 (uuid_groups a b c d e @ [NUL]) \<longleftrightarrow>
    (\<forall>x \<in> set a \<union> set b \<union> set c \<union> set d \<union> set e. isxdigit x)"
  using assms by (auto simp: uuid_groups_def uuid_chars_append uuid_chars_run)

lemma uuid_chars_groups:
  assumes "length s = 36" and "uuid_chars 0 (s @ [NUL])"
  shows "\<exists>a b c d e. length a = 8 \<and> length b = 4 \<and> length c = 4 \<and> length d = 4 \<and> length e = 12 \<and>
    s = uuid_groups a b c d e"
proof -
  have cut: "\<exists>u v. t = u @ v \<and> length u = n \<and> length v = m" if "length t = n + m" for t :: string and n m
    using that append_take_drop_id [of n t] by (intro exI [of _ "take n t"] exI [of _ "drop n t"]) simp
  from cut [of s 8 28] assms(1) obtain a r1 where 1: "s = a @ r1" "length a = 8" "length r1 = 28" by auto
  from cut [of r1 5 23] 1 obtain b r2 where 2: "r1 = b @ r2" "length b = 5" "length r2 = 23" by auto
  from cut [of r2 5 18] 2 obtain c r3 where 3: "r2 = c @ r3" "length c = 5" "length r3 = 18" by auto
  from cut [of r3 5 13] 3 obtain d e where 4: "r3 = d @ e" "length d = 5" "length e = 13" by auto
  have hd: "0 < length t \<Longrightarrow> uuid_chars i (t @ r) \<Longrightarrow> i \<in> {8, 13, 18, 23} \<Longrightarrow> t = CHR ''-'' # tl t" for t r i
    by (cases t) auto
  have "b = CHR ''-'' # tl b" "c = CHR ''-'' # tl c" "d = CHR ''-'' # tl d" "e = CHR ''-'' # tl e"
    using assms(2) 1 2 3 4 hd [of b 8 "r2 @ [NUL]"] hd [of c 13 "r3 @ [NUL]"]
      hd [of d 18 "e @ [NUL]"] hd [of e 23 "[NUL]"]
    by (auto simp: uuid_chars_append)
  then have "s = uuid_groups a (tl b) (tl c) (tl d) (tl e)"
    using 1 2 3 4 unfolding uuid_groups_def by (metis append_Cons append_Nil append_assoc)
  then show ?thesis using 1 2 3 4 by (metis length_tl diff_Suc_1 eval_nat_numeral(2,3) numeral_eq_Suc pred_numeral_simps(2,3))
qed

abbreviation hex_value :: "string \<Rightarrow> nat" where
  "hex_value \<equiv> digits_value 16 0"

lemma strtoul16_run:
  assumes "\<forall>x \<in> set a. isxdigit x" and "0 < length a" and "length a \<le> 8"
    and "r = [] \<or> \<not> isxdigit (hd r)"
  shows "strtoul16 (a @ r) = int (hex_value a)"
proof -
  have a: "a \<noteq> []" using assms(2) by simp
  then have hd: "isxdigit (hd a)" using assms(1) by simp
  have "dropWhile isspace (a @ r) = a @ r"
    using hd a xdigit_facts(1) by (intro dropWhile_stop) auto
  moreover have "strip_sign (a @ r) = (False, a @ r)"
    using hd a xdigit_facts(2,3) by (cases a) auto
  moreover have "takeWhile (digit_in 16) (a @ r) = a"
    using assms(1,4) unfolding isxdigit_def by (intro takeWhile_append_stop) auto
  moreover have "hex_value a \<le> 4294967295"
  proof -
    have "hex_value a < 16 ^ length a" using assms(1) by (intro digits_value_bound) blast
    also have "\<dots> \<le> 16 ^ 8" using assms(3) by (intro power_increasing) simp_all
    finally show ?thesis by simp
  qed
  ultimately show ?thesis using assms(2)
    by (simp add: strtoul16_def strtol_def strip_base_def)
qed

lemma pairs_value:
  assumes "length e = 2 * k" and "\<forall>x \<in> set e. isxdigit x"
  shows "be_value (map (\<lambda>i. char_of (strtoul16 (take 2 (drop (2 * i) e)))) [0..<k]) = hex_value e"
  using assms
proof (induction k arbitrary: e)
  case 0
  then show ?case by simp
next
  case (Suc k)
  define f where "f = take (2 * k) e"
  define g where "g = drop (2 * k) e"
  have e: "e = f @ g" and lf: "length f = 2 * k" and lg: "length g = 2"
    using Suc.prems(1) by (simp_all add: f_def g_def)
  have x: "\<forall>x \<in> set f. isxdigit x" "\<forall>x \<in> set g. isxdigit x"
    using Suc.prems(2) unfolding e by auto
  have pre: "map (\<lambda>i. char_of (strtoul16 (take 2 (drop (2 * i) e)))) [0..<k] =
      map (\<lambda>i. char_of (strtoul16 (take 2 (drop (2 * i) f))) :: char) [0..<k]"
    using lf by (auto simp: e)
  have "strtoul16 g = int (hex_value g)"
    using strtoul16_run [of g "[]"] x(2) lg by auto
  moreover have "hex_value g < 256"
    using digits_value_bound [of g] x(2) lg by auto
  ultimately have cg: "(of_char (char_of (strtoul16 g) :: char) :: nat) = hex_value g" by simp
  have "digits_value 16 (hex_value f) g = hex_value f * 256 + hex_value g"
    using lg by (auto simp: numeral_2_eq_2 length_Suc_conv)
  then have he: "hex_value e = hex_value f * 256 + hex_value g"
    by (simp add: e digits_value_append)
  have "take 2 (drop (2 * k) e) = g" using lf lg by (simp add: e)
  then have step: "map (\<lambda>i. char_of (strtoul16 (take 2 (drop (2 * i) e)))) [0..<Suc k] =
      map (\<lambda>i. char_of (strtoul16 (take 2 (drop (2 * i) f))) :: char) [0..<k] @ [char_of (strtoul16 g)]"
    by (simp only: upt_Suc_append le0 map_append pre list.map)
  show ?case
    unfolding step he using Suc.IH [OF lf x(1)] cg by (simp add: be_value_def)
qed

lemma uuid_parse_groups:
  assumes "length a = 8" "length b = 4" "length c = 4" "length d = 4" "length e = 12"
    and "\<forall>x \<in> set a \<union> set b \<union> set c \<union> set d \<union> set e. isxdigit x"
  shows "\<exists>n. uuid_parse (uuid_groups a b c d e) =
    Some (be_bytes 4 (hex_value a) @ be_bytes 2 (hex_value b) @ be_bytes 2 (hex_value c) @
      be_bytes 2 (hex_value d) @ n) \<and> length n = 6 \<and> be_value n = hex_value e"
proof -
  let ?s = "uuid_groups a b c d e"
  let ?n = "map (\<lambda>i. char_of (strtoul16 (take 2 (drop (2 * i) e)))) [0..<6] :: string"
  have dash: "\<not> isxdigit (CHR ''-'')" using xdigit_facts(2) by blast
  have t: "strtoul16 ?s = int (hex_value a)" "strtoul16 (drop 9 ?s) = int (hex_value b)"
    "strtoul16 (drop 14 ?s) = int (hex_value c)" "strtoul16 (drop 19 ?s) = int (hex_value d)"
    using assms dash strtoul16_run [of a] strtoul16_run [of b] strtoul16_run [of c] strtoul16_run [of d]
    by (auto simp: uuid_groups_def)
  have "?s = (a @ ''-'' @ b @ ''-'' @ c @ ''-'' @ d @ ''-'') @ e"
    and "length (a @ ''-'' @ b @ ''-'' @ c @ ''-'' @ d @ ''-'') = 24"
    using assms(1-5) by (simp_all add: uuid_groups_def)
  then have "drop (24 + 2 * i) ?s = drop (2 * i) e" for i
    by (metis append_eq_conv_conj drop_drop add.commute)
  then have n: "map (\<lambda>i. char_of (strtoul16 (take 2 (drop (24 + 2 * i) ?s)))) [0..<6] = ?n" by simp
  have bound: "hex_value s < 16 ^ length s" if "\<forall>x \<in> set s. isxdigit x" for s
    using that digits_value_bound by blast
  have b: "hex_value a < 2 ^ 32" "hex_value b < 2 ^ 16" "hex_value c < 2 ^ 16" "hex_value d < 2 ^ 16"
    using assms bound [of a] bound [of b] bound [of c] bound [of d] by auto
  have "length ?s = 36" using assms(1-5) by (simp add: uuid_groups_def)
  then have "uuid_parse ?s = Some (uuid_pack
      \<lparr>time_low = word_of_nat (hex_value a), time_mid = word_of_nat (hex_value b),
       time_hi_and_version = word_of_nat (hex_value c), clock_seq = word_of_nat (hex_value d), node = ?n\<rparr>)"
    using assms uuid_groups_chars [OF assms(1-5)] unfolding uuid_parse_def t n by simp
  also have "\<dots> = Some (be_bytes 4 (hex_value a) @ be_bytes 2 (hex_value b) @
      be_bytes 2 (hex_value c) @ be_bytes 2 (hex_value d) @ ?n)"
    using b by (simp add: uuid_pack_bytes unat_of_nat)
  finally show ?thesis using pairs_value [of e 6] assms by (intro exI [of _ ?n]) auto
qed

lemma uuid_unparse_groups:
  assumes "length uu = 16"
  shows "uuid_unparse_x up uu = uuid_groups (hex up 8 (be_value (take 4 uu)))
    (hex up 4 (be_value (take 2 (drop 4 uu)))) (hex up 4 (be_value (take 2 (drop 6 uu))))
    (hex up 4 (be_value (take 2 (drop 8 uu)))) (hex up 12 (be_value (drop 10 uu)))"
  using assms by (simp add: uuid_unparse_x_eq uuid_groups_def)

section \<open>Properties\<close>

text \<open>Comparing two UUIDs field by field orders them as \<open>memcmp\<close> orders their bytes.\<close>

theorem uuid_compare_is_memcmp:
  assumes "length uu1 = 16" and "length uu2 = 16"
  shows "uuid_compare uu1 uu2 = memcmp uu1 uu2"
proof -
  have "memcmp uu1 uu2 = memcmp (take 4 uu1 @ take 2 (drop 4 uu1) @ take 2 (drop 6 uu1) @
        take 2 (drop 8 uu1) @ drop 10 uu1) (take 4 uu2 @ take 2 (drop 4 uu2) @ take 2 (drop 6 uu2) @
        take 2 (drop 8 uu2) @ drop 10 uu2)"
    using split16 [of uu1] split16 [of uu2] by simp
  then show ?thesis using assms
    by (simp add: uuid_compare_def Let_def uucmp_word uuid_fields memcmp_split)
qed

theorem uuid_compare_is_memcmp_witness:
  "uuid_compare (NUL # replicate 15 NUL) (CHR 0x01 # replicate 15 NUL) = - 1"
  by (subst uuid_compare_is_memcmp) simp_all

text \<open>C39. Reading the text of a UUID gives the UUID back, in lower and in upper case.\<close>

theorem uuid_parse_unparse:
  assumes "length uu = 16"
  shows "uuid_parse (uuid_unparse_x up uu) = Some uu"
proof -
  let ?h = "hex up"
  have x: "\<forall>x \<in> set (?h 8 u) \<union> set (?h 4 v) \<union> set (?h 4 w) \<union> set (?h 4 y) \<union> set (?h 12 z). isxdigit x" for u v w y z
    using hex_xdigit by blast
  have val: "hex_value (?h (2 * length t) (be_value t)) = be_value t" for t
    using be_value_bound [of t] by (simp add: digits_value_hex power_mult)
  have v: "hex_value (?h 8 (be_value (take 4 uu))) = be_value (take 4 uu)"
    "hex_value (?h 4 (be_value (take 2 (drop i uu)))) = be_value (take 2 (drop i uu))"
    "hex_value (?h 12 (be_value (drop 10 uu))) = be_value (drop 10 uu)" if "i \<le> 8" for i
    using val [of "take 4 uu"] val [of "take 2 (drop i uu)"] val [of "drop 10 uu"] assms that by auto
  obtain n where n: "uuid_parse (uuid_unparse_x up uu) = Some (take 4 uu @ take 2 (drop 4 uu) @
      take 2 (drop 6 uu) @ take 2 (drop 8 uu) @ n)" "length n = 6" "be_value n = be_value (drop 10 uu)"
    using uuid_parse_groups [OF hex_length hex_length hex_length hex_length hex_length x,
        of "be_value (take 4 uu)" "be_value (take 2 (drop 4 uu))" "be_value (take 2 (drop 6 uu))"
        "be_value (take 2 (drop 8 uu))" "be_value (drop 10 uu)"] assms v(2) [of 4] v(2) [of 6] v(2) [of 8]
    by (auto simp: uuid_unparse_groups v(1) [of 4] v(3) [of 4] be_bytes_of_take)
  then have "n = drop 10 uu" using assms by (simp add: be_value_inject)
  then show ?thesis using n(1) split16 [of uu] by simp
qed

theorem uuid_parse_unparse_witness:
  "uuid_parse (uuid_unparse_x True (replicate 16 (CHR 0xAB))) = Some (replicate 16 (CHR 0xAB))"
  by (rule uuid_parse_unparse) simp

text \<open>What \<open>uuid_parse\<close> accepts is the text of the UUID it returns, up to the case of the
  letters: nothing else is read as a UUID.\<close>

theorem uuid_unparse_parse:
  assumes "uuid_parse s = Some uu"
  shows "length uu = 16 \<and> uuid_unparse_lower uu = map tolower s"
proof -
  have s: "length s = 36" "uuid_chars 0 (s @ [NUL])"
    using assms by (auto simp: uuid_parse_def split: if_splits)
  from uuid_chars_groups [OF s] obtain a b c d e where
    l: "length a = 8" "length b = 4" "length c = 4" "length d = 4" "length e = 12"
    and g: "s = uuid_groups a b c d e" by blast
  have x: "\<forall>x \<in> set a \<union> set b \<union> set c \<union> set d \<union> set e. isxdigit x"
    using s(2) unfolding g uuid_groups_chars [OF l] .
  obtain n where n: "uu = be_bytes 4 (hex_value a) @ be_bytes 2 (hex_value b) @ be_bytes 2 (hex_value c) @
      be_bytes 2 (hex_value d) @ n" "length n = 6" "be_value n = hex_value e"
    using uuid_parse_groups [OF l x] assms unfolding g by auto
  have bound: "hex_value t < 16 ^ length t" if "\<forall>x \<in> set t. isxdigit x" for t
    using that digits_value_bound by blast
  have v: "be_value (be_bytes 4 (hex_value a)) = hex_value a" "be_value (be_bytes 2 (hex_value b)) = hex_value b"
    "be_value (be_bytes 2 (hex_value c)) = hex_value c" "be_value (be_bytes 2 (hex_value d)) = hex_value d"
    using x l bound [of a] bound [of b] bound [of c] bound [of d] by (auto intro!: be_value_bytes)
  have low: "hex False (length t) (hex_value t) = map tolower t" if "\<forall>x \<in> set t. isxdigit x" for t
    using that hex_digits_value by blast
  have h: "hex False 8 (hex_value a) = map tolower a" "hex False 4 (hex_value b) = map tolower b"
    "hex False 4 (hex_value c) = map tolower c" "hex False 4 (hex_value d) = map tolower d"
    "hex False 12 (hex_value e) = map tolower e"
    using low [of a] low [of b] low [of c] low [of d] low [of e] x l by auto
  have "uuid_unparse_lower uu = uuid_groups (map tolower a) (map tolower b) (map tolower c) (map tolower d) (map tolower e)"
    using n(2) by (simp add: uuid_unparse_lower_def uuid_unparse_groups n v h)
  also have "\<dots> = map tolower s" by (simp add: g uuid_groups_def tolower_def)
  finally show ?thesis using n by simp
qed

theorem uuid_unparse_parse_witness:
  "\<exists>uu. uuid_parse ''12020304-0506-0708-090a-0b0C0D0e0fFf'' = Some uu \<and>
     uuid_unparse_lower uu = map tolower ''12020304-0506-0708-090a-0b0C0D0e0fFf''"
proof -
  have "\<forall>x \<in> set ''12020304'' \<union> set ''0506'' \<union> set ''0708'' \<union> set ''090a'' \<union> set ''0b0C0D0e0fFf''. isxdigit x"
    by (simp add: xdigit_cases)
  then obtain n where "uuid_parse (uuid_groups ''12020304'' ''0506'' ''0708'' ''090a'' ''0b0C0D0e0fFf'') = Some n"
    using uuid_parse_groups [of "''12020304''" "''0506''" "''0708''" "''090a''" "''0b0C0D0e0fFf''"] by auto
  then have "uuid_parse ''12020304-0506-0708-090a-0b0C0D0e0fFf'' = Some n" by (simp add: uuid_groups_def)
  then show ?thesis using uuid_unparse_parse by blast
qed

text \<open>The text that the probing library prints for a UUID is the one libuuid prints.\<close>

theorem blkid_unparse_uuid_eq:
  assumes "length uu = 16" and "37 \<le> len"
  shows "blkid_unparse_uuid uu len = uuid_unparse uu"
proof -
  have "length (uuid_unparse uu) = 36"
    using assms(1) by (simp add: uuid_unparse_def uuid_unparse_groups uuid_groups_def)
  moreover obtain c0 c1 c2 c3 c4 c5 c6 c7 c8 c9 c10 c11 c12 c13 c14 c15 where
    "uu = [c0, c1, c2, c3, c4, c5, c6, c7, c8, c9, c10, c11, c12, c13, c14, c15]"
    using assms(1) by (auto simp: length_Suc_conv eval_nat_numeral)
  ultimately show ?thesis using assms
    by (simp add: blkid_unparse_uuid_def Let_def uuid_unparse_def uuid_unparse_x_eq hex_be_value_4
        hex_be_value_2 hex_be_value [of False "[c10, c11, c12, c13, c14, c15]", simplified])
qed

theorem blkid_unparse_uuid_eq_witness:
  "blkid_unparse_uuid (replicate 16 (CHR 0xAB)) 128 = uuid_unparse (replicate 16 (CHR 0xAB))"
  by (rule blkid_unparse_uuid_eq) simp_all

section \<open>The fields of a UUID\<close>

datatype uuid_variant_t = NCS | DCE | MICROSOFT | OTHER

definition uuid_type :: "string \<Rightarrow> u16" where
  "uuid_type uu = (drop_bit 12 (time_hi_and_version (uuid_unpack uu)) AND 0xF)"

definition uuid_variant :: "string \<Rightarrow> uuid_variant_t" where
  "uuid_variant uu =
     (let var = clock_seq (uuid_unpack uu) in
      if var AND 0x8000 = 0 then NCS
      else if var AND 0x4000 = 0 then DCE
      else if var AND 0x2000 = 0 then MICROSOFT
      else OTHER)"

text \<open>
  The time of a time-based UUID, in units of 100 ns since 1582, as seconds and microseconds
  of the Unix epoch; both parts are 32 bit \<open>long\<close>s.
\<close>

definition uuid_epoch :: u64 where
  "uuid_epoch = push_bit 32 0x01B21DD2 + 0x13814000"

definition uuid_time :: "string \<Rightarrow> u32 \<times> u32" where
  "uuid_time uu =
     (let uuid = uuid_unpack uu;
          high = (ucast (time_mid uuid) OR push_bit 16 (ucast (time_hi_and_version uuid AND 0xFFF))) :: u32;
          clock_reg = (ucast (time_low uuid) OR push_bit 32 (ucast high)) - uuid_epoch
      in (ucast (clock_reg div 10000000), ucast (clock_reg mod 10000000 div 10)))"

text \<open>
  The random UUIDs of gen_uuid.c: \<open>random_get_bytes\<close> fills a buffer per UUID, and the
  version and the variant are stamped over the random bits. \<open>n\<close> is the number of UUIDs.
\<close>

definition stamp_random :: "uuid \<Rightarrow> uuid" where
  "stamp_random uu =
     uu\<lparr>clock_seq := (clock_seq uu AND 0x3FFF) OR 0x8000,
        time_hi_and_version := (time_hi_and_version uu AND 0x0FFF) OR 0x4000\<rparr>"

definition uuid_generate_random_n :: "(nat \<Rightarrow> string) \<Rightarrow> nat option \<Rightarrow> string" where
  "uuid_generate_random_n random num =
     (let n = (case num of None \<Rightarrow> 1 | Some k \<Rightarrow> if k = 0 then 1 else k)
      in concat (map (\<lambda>i. uuid_pack (stamp_random (uuid_unpack (random i)))) [0..<n]))"

definition uuid_generate_random :: "(nat \<Rightarrow> string) \<Rightarrow> string" where
  "uuid_generate_random random = uuid_generate_random_n random (Some 1)"

text \<open>
  The fields of a time-based UUID: \<open>get_clock\<close> splits its 64 bit clock register into
  \<open>clock_mid\<close> and \<open>time_low\<close>.
\<close>

definition clock_fields :: "u64 \<Rightarrow> u16 \<Rightarrow> string \<Rightarrow> uuid" where
  "clock_fields clock_reg seq node_id =
     (let clock_mid = ucast (drop_bit 32 clock_reg) :: u32 in
      \<lparr>time_low = ucast clock_reg, time_mid = ucast clock_mid,
       time_hi_and_version = ucast ((drop_bit 16 clock_mid AND 0x0FFF) OR 0x1000),
       clock_seq = seq OR 0x8000, node = take 6 node_id\<rparr>)"

definition clock_register :: "u64 \<Rightarrow> u64 \<Rightarrow> u64 \<Rightarrow> u64" where
  "clock_register tv_sec tv_usec adjustment =
     tv_usec * 10 + adjustment + tv_sec * 10000000 + uuid_epoch"

lemma uuid_generate_random_length:
  assumes "length (random 0) = 16"
  shows "length (uuid_generate_random random) = 16"
  using assms
  by (simp add: uuid_generate_random_def uuid_generate_random_n_def stamp_random_def
      uuid_pack_bytes uuid_fields)

text \<open>C40. A random UUID carries version 4 and the DCE variant, whatever the random bytes are.\<close>

theorem random_uuid_marked:
  assumes "length (random 0) = 16"
  shows "uuid_type (uuid_generate_random random) = 4 \<and> uuid_variant (uuid_generate_random random) = DCE"
proof -
  let ?u = "stamp_random (uuid_unpack (random 0))"
  have "length (node ?u) = 6" using assms by (simp add: stamp_random_def uuid_fields)
  then have u: "uuid_unpack (uuid_generate_random random) = ?u"
    by (simp add: uuid_generate_random_def uuid_generate_random_n_def uuid_unpack_pack)
  have "drop_bit 12 ((w AND 0x0FFF) OR 0x4000) AND 0xF = 4" for w :: u16
    by (rule bit_word_eqI)
       (auto simp: bit_simps numeral_eq_Suc less_Suc_eq)
  moreover have "((w AND 0x3FFF) OR 0x8000) AND 0x8000 \<noteq> 0" for w :: u16
    by (simp add: bit_eq_iff bit_simps) (rule exI [of _ 15], simp)
  moreover have "((w AND 0x3FFF) OR 0x8000) AND 0x4000 = 0" for w :: u16
    by (simp add: bit.conj_disj_distrib2 and.assoc)
  ultimately show ?thesis
    unfolding uuid_type_def uuid_variant_def u by (simp add: stamp_random_def)
qed

theorem random_uuid_marked_witness:
  "uuid_type (uuid_generate_random (\<lambda>i. replicate 16 (CHR 0xFF))) = 4 \<and>
   uuid_variant (uuid_generate_random (\<lambda>i. replicate 16 (CHR 0xFF))) = DCE"
  by (rule random_uuid_marked) simp

lemma small_word_bits:
  assumes "unat (w :: 'a::len word) < 2 ^ k" and "bit w n"
  shows "n < k"
proof (rule ccontr)
  assume "\<not> n < k"
  then have "(2 :: nat) ^ k \<le> 2 ^ n" by (intro power_increasing) simp_all
  with assms(1) have "unat w < 2 ^ n" by (rule less_le_trans)
  then have "\<not> bit (unat w) n" by (simp add: bit_iff_odd)
  with assms(2) show False by (simp add: bit_unsigned_iff)
qed

lemma bit_0xFFF: "bit (0xFFF :: int) k \<longleftrightarrow> k < 12"
  using bit_mask_iff [where 'a = int, of 12 k] by (simp add: mask_eq_exp_minus_1)

lemma bit_0x1000: "bit (0x1000 :: int) k \<longleftrightarrow> k = 12"
  using bit_exp_iff [where 'a = int, of 12 k] by auto

lemma clock_fields_time:
  assumes "unat reg < 2 ^ 60" and "u = clock_fields reg seq node_id"
  shows "ucast (time_low u) OR push_bit 32 (ucast
    ((ucast (time_mid u) OR push_bit 16 (ucast (time_hi_and_version u AND 0xFFF))) :: u32)) = reg"
proof (rule bit_word_eqI)
  fix n assume "n < LENGTH(64)"
  have "bit reg n \<Longrightarrow> n < 60" using small_word_bits [OF assms(1)] .
  then show "bit (ucast (time_low u) OR push_bit 32 (ucast
      ((ucast (time_mid u) OR push_bit 16 (ucast (time_hi_and_version u AND 0xFFF))) :: u32)) :: u64) n = bit reg n"
    unfolding assms(2) clock_fields_def Let_def
    by (cases "n < 32"; cases "n < 48")
       (auto simp: bit_or_iff bit_and_iff bit_push_bit_iff bit_drop_bit_eq bit_ucast_iff bit_0xFFF bit_0x1000)
qed

text \<open>The time read from a time-based UUID is the time it was made at: \<open>uuid_time\<close> undoes
  the packing of the clock register, for every time of the 32 bit epoch.\<close>

theorem uuid_time_of_clock:
  assumes "length node_id = 6" and "tv_sec < 2 ^ 32" and "tv_usec < 1000000" and "adjustment < 10"
  shows "uuid_time (uuid_pack (clock_fields
      (clock_register (word_of_nat tv_sec) (word_of_nat tv_usec) (word_of_nat adjustment)) seq node_id)) =
    (word_of_nat tv_sec, word_of_nat tv_usec)"
proof -
  define ticks where "ticks = tv_usec * 10 + adjustment + tv_sec * 10000000"
  let ?reg = "clock_register (word_of_nat tv_sec) (word_of_nat tv_usec) (word_of_nat adjustment)"
  let ?u = "clock_fields ?reg seq node_id"
  have e: "uuid_epoch = word_of_nat 122192928000000000"
    by (simp add: uuid_epoch_def push_bit_eq_mult)
  have reg: "?reg = word_of_nat (ticks + 122192928000000000)"
    by (simp add: clock_register_def e ticks_def)
  have small: "ticks + 122192928000000000 < 2 ^ 60" using assms by (simp add: ticks_def)
  have ticks: "ticks div 10000000 = tv_sec" "ticks mod 10000000 div 10 = tv_usec"
    using assms by (simp_all add: ticks_def)
  have un64: "unat (word_of_nat m :: u64) = m" if "m < 2 ^ 60" for m
    using that by (simp add: unat_of_nat)
  have "unat ?reg < 2 ^ 60" unfolding reg un64 [OF small] by (rule small)
  moreover have "length (node ?u) = 6" using assms(1) by (simp add: clock_fields_def Let_def)
  ultimately have "ucast (time_low ?u) OR push_bit 32 (ucast
      ((ucast (time_mid ?u) OR push_bit 16 (ucast (time_hi_and_version ?u AND 0xFFF))) :: u32)) = ?reg"
    and un: "uuid_unpack (uuid_pack ?u) = ?u"
    by (simp_all add: clock_fields_time [OF _ refl] uuid_unpack_pack)
  moreover have "?reg - uuid_epoch = word_of_nat ticks" unfolding reg e by simp
  moreover have "word_of_nat ticks div (10000000 :: u64) = word_of_nat tv_sec"
    "word_of_nat ticks mod (10000000 :: u64) div 10 = word_of_nat tv_usec"
    using small assms un64 [of ticks] un64 [of tv_sec] un64 [of tv_usec]
    by (simp_all add: word_eq_iff_unsigned [where 'a = nat] unat_div_distrib unat_mod_distrib ticks)
  ultimately show ?thesis
    unfolding uuid_time_def un Let_def using assms by (simp add: unsigned_of_nat take_bit_nat_eq_self)
qed

theorem uuid_time_of_clock_witness:
  "uuid_time (uuid_pack (clock_fields
      (clock_register (word_of_nat 1420070400) (word_of_nat 999999) (word_of_nat 9)) 7 ''abcdef'')) =
    (word_of_nat 1420070400, word_of_nat 999999)"
  by (rule uuid_time_of_clock) simp_all

end
