(* ===== verification/Partlist.thy ===== *)
theory Partlist
  imports Prelude
begin

text \<open>
  The data of the chains that a probe keeps for the binary interface: the list of partitions of
  src/lib/libblkid/src/partitions/partitions.c with the operations on it, and the values of
  src/lib/libblkid/src/topology/topology.c. The partitions live in one array that \<open>realloc\<close> may
  move; a pointer to a partition is its index together with the capacity of the array at the
  time, and is stale once the array has grown.
\<close>

section \<open>The list of partitions\<close>

type_synonym partref = "nat \<times> nat"

text \<open>The strings are the text before the NUL. Tables are named by their place in the list.\<close>

record parttable =
  pt_type :: string
  pt_offset :: int
  pt_nparts :: int
  pt_parent :: "partref option"
  pt_id :: string

record partition =
  pa_start :: int
  pa_size :: int
  pa_type :: int
  pa_typestr :: string
  pa_flags :: u64
  pa_partno :: int
  pa_uuid :: string
  pa_name :: string
  pa_tab :: nat

text \<open>\<open>pl_parts\<close> holds the first \<open>nparts\<close> items of the array.\<close>

record partlist =
  pl_next_partno :: int
  pl_next_parent :: "partref option"
  pl_nparts_max :: nat
  pl_parts :: "partition list"
  pl_tabs :: "parttable list"

definition zero_partlist :: partlist where
  "zero_partlist = \<lparr>pl_next_partno = 0, pl_next_parent = None, pl_nparts_max = 0, pl_parts = [], pl_tabs = []\<rparr>"

text \<open>
  The sizes of the structs with 32 bit pointers; the size of the array is computed in 32 bits.
\<close>

definition sizeof_parttable :: int where "sizeof_parttable = 72"
definition sizeof_partition :: int where "sizeof_partition = 248"
definition sizeof_partlist :: int where "sizeof_partlist = 28"

section \<open>Tables\<close>

definition ref_parttable :: "parttable \<Rightarrow> parttable" where
  "ref_parttable tab = tab\<lparr>pt_nparts := pt_nparts tab + 1\<rparr>"

text \<open>\<open>None\<close>: the table has been freed.\<close>

definition unref_parttable :: "parttable \<Rightarrow> parttable option" where
  "unref_parttable tab =
     (let n = pt_nparts tab - 1 in if n \<le> 0 then None else Some (tab\<lparr>pt_nparts := n\<rparr>))"

function free_parttables :: "parttable list \<Rightarrow> parttable list" where
  "free_parttables [] = []"
| "free_parttables (tab # tabs) =
     (case unref_parttable tab of
        None \<Rightarrow> free_parttables tabs
      | Some tab \<Rightarrow> free_parttables (tab # tabs))"
  by pat_completeness auto
termination
  by (relation "measures [length, \<lambda>tabs. nat (pt_nparts (hd tabs))]")
     (auto simp: unref_parttable_def Let_def split: if_splits)

declare free_parttables.simps(2) [simp del]

lemma free_parttables_empty [simp]: "free_parttables tabs = []"
proof (induction tabs rule: free_parttables.induct)
  case (2 tab tabs)
  then show ?case by (cases "unref_parttable tab") (simp_all add: free_parttables.simps(2) [of tab])
qed simp

definition reset_partlist :: "partlist \<Rightarrow> partlist" where
  "reset_partlist ls =
     (let ls = ls\<lparr>pl_tabs := free_parttables (pl_tabs ls)\<rparr>;
          ls = (if pl_next_partno ls \<noteq> 0 then zero_partlist\<lparr>pl_nparts_max := pl_nparts_max ls\<rparr> else ls)
      in ls\<lparr>pl_parts := [], pl_next_partno := 1, pl_tabs := []\<rparr>)"

text \<open>The functions that allocate get a predicate that tells which sizes can be allocated.\<close>

definition partlist_new_parttable ::
  "(int \<Rightarrow> bool) \<Rightarrow> partlist \<Rightarrow> string \<Rightarrow> int \<Rightarrow> nat option \<times> partlist" where
  "partlist_new_parttable alloc ls type offset =
     (if \<not> alloc sizeof_parttable then (None, ls)
      else (Some (length (pl_tabs ls)),
            ls\<lparr>pl_tabs := pl_tabs ls @
                 [\<lparr>pt_type = type, pt_offset = offset, pt_nparts = 0, pt_parent = pl_next_parent ls, pt_id = []\<rparr>]\<rparr>))"

section \<open>Partitions\<close>

definition partlist_increment_partno :: "partlist \<Rightarrow> int \<times> partlist" where
  "partlist_increment_partno ls = (pl_next_partno ls, ls\<lparr>pl_next_partno := pl_next_partno ls + 1\<rparr>)"

text \<open>The array with room for one more, unless there is no memory for it.\<close>

definition with_room :: "(int \<Rightarrow> bool) \<Rightarrow> partlist \<Rightarrow> partlist option" where
  "with_room alloc ls =
     (if length (pl_parts ls) + 1 > pl_nparts_max ls then
        (if alloc ((int (pl_nparts_max ls) + 32) * sizeof_partition mod 2 ^ 32)
         then Some (ls\<lparr>pl_nparts_max := pl_nparts_max ls + 32\<rparr>) else None)
      else Some ls)"

definition new_partition ::
  "(int \<Rightarrow> bool) \<Rightarrow> partlist \<Rightarrow> nat \<Rightarrow> ub + partref option \<times> partlist" where
  "new_partition alloc ls tab =
     (case with_room alloc ls of
        None \<Rightarrow> Inr (None, ls)
      | Some ls \<Rightarrow>
          if tab \<ge> length (pl_tabs ls) then Inl Use_After_Free
          else
            let (partno, ls) = partlist_increment_partno ls;
                par = \<lparr>pa_start = 0, pa_size = 0, pa_type = 0, pa_typestr = [], pa_flags = 0,
                       pa_partno = partno, pa_uuid = [], pa_name = [], pa_tab = tab\<rparr>
            in Inr (Some (pl_nparts_max ls, length (pl_parts ls)),
                    ls\<lparr>pl_parts := pl_parts ls @ [par],
                       pl_tabs := (pl_tabs ls)[tab := ref_parttable (pl_tabs ls ! tab)]\<rparr>))"

text \<open>A pointer to a partition is followed.\<close>

definition live_partref :: "partlist \<Rightarrow> partref \<Rightarrow> bool" where
  "live_partref ls r \<longleftrightarrow> fst r = pl_nparts_max ls \<and> snd r < length (pl_parts ls)"

definition partition_at :: "partlist \<Rightarrow> partref \<Rightarrow> ub + partition" where
  "partition_at ls r = (if live_partref ls r then Inr (pl_parts ls ! snd r) else Inl Use_After_Free)"

definition change_partition :: "partlist \<Rightarrow> partref \<Rightarrow> (partition \<Rightarrow> partition) \<Rightarrow> ub + partlist" where
  "change_partition ls r f =
     bindE (partition_at ls r) (\<lambda>par. Inr (ls\<lparr>pl_parts := (pl_parts ls)[snd r := f par]\<rparr>))"

definition partlist_add_partition ::
  "(int \<Rightarrow> bool) \<Rightarrow> partlist \<Rightarrow> nat \<Rightarrow> int \<Rightarrow> int \<Rightarrow> ub + partref option \<times> partlist" where
  "partlist_add_partition alloc ls tab start sz =
     bindE (new_partition alloc ls tab) (\<lambda>(r, ls).
       case r of
         None \<Rightarrow> Inr (None, ls)
       | Some p \<Rightarrow>
           bindE (change_partition ls p (\<lambda>par. par\<lparr>pa_start := start, pa_size := sz\<rparr>)) (\<lambda>ls. Inr (Some p, ls)))"

definition partlist_get_partition :: "partlist \<Rightarrow> int \<Rightarrow> partref option" where
  "partlist_get_partition ls n =
     (if n < 0 \<or> n \<ge> int (length (pl_parts ls)) then None else Some (pl_nparts_max ls, nat n))"

definition partlist_numof_partitions :: "partlist option \<Rightarrow> int" where
  "partlist_numof_partitions ls = (case ls of Some ls \<Rightarrow> int (length (pl_parts ls)) | None \<Rightarrow> - 1)"

definition partlist_get_table :: "partlist \<Rightarrow> nat option" where
  "partlist_get_table ls = (if pl_tabs ls = [] then None else Some 0)"

definition partlist_get_partition_by_partno :: "partlist \<Rightarrow> int \<Rightarrow> partref option" where
  "partlist_get_partition_by_partno ls n =
     map_option (\<lambda>i. (pl_nparts_max ls, i)) (find (\<lambda>i. n = pa_partno (pl_parts ls ! i)) [0..<length (pl_parts ls)])"

text \<open>A well-formed list: the array is as large as it needs to be and every pointer leads somewhere.\<close>

definition partlist_wf :: "partlist \<Rightarrow> bool" where
  "partlist_wf ls \<longleftrightarrow>
     length (pl_parts ls) \<le> pl_nparts_max ls \<and>
     (\<forall>par \<in> set (pl_parts ls). pa_tab par < length (pl_tabs ls)) \<and>
     (\<forall>t < length (pl_tabs ls).
        pt_nparts (pl_tabs ls ! t) = int (length (filter (\<lambda>par. pa_tab par = t) (pl_parts ls))))"

lemma reset_partlist_wf: "partlist_wf (reset_partlist ls)"
  by (simp add: partlist_wf_def reset_partlist_def Let_def)

lemma new_parttable_wf: "partlist_wf ls \<Longrightarrow> partlist_wf (snd (partlist_new_parttable alloc ls type offset))"
  by (auto simp: partlist_wf_def partlist_new_parttable_def nth_append less_Suc_eq not_less filter_empty_conv)

lemma change_partition_wf:
  assumes "partlist_wf ls" and "\<And>par. pa_tab (f par) = pa_tab par" and "change_partition ls r f = Inr ls'"
  shows "partlist_wf ls'"
proof -
  have r: "snd r < length (pl_parts ls)" and
    l: "ls' = ls\<lparr>pl_parts := (pl_parts ls)[snd r := f (pl_parts ls ! snd r)]\<rparr>"
    using assms(3) by (auto simp: change_partition_def partition_at_def live_partref_def split: if_splits)
  have tabs: "map pa_tab (pl_parts ls') = map pa_tab (pl_parts ls)"
    using assms(2) r by (simp add: l map_update list_update_same_conv)
  have count: "length (filter (\<lambda>par. pa_tab par = t) ps) = length (filter (\<lambda>x. x = t) (map pa_tab ps))" for t ps
    by (simp add: filter_map comp_def)
  have "(\<forall>par \<in> set ps. pa_tab par < n) \<longleftrightarrow> (\<forall>t \<in> set (map pa_tab ps). t < n)" for ps and n :: nat by auto
  note bound = this
  have "pl_tabs ls' = pl_tabs ls" "pl_nparts_max ls' = pl_nparts_max ls" "length (pl_parts ls') = length (pl_parts ls)"
    by (simp_all add: l)
  with assms(1) show ?thesis unfolding partlist_wf_def count bound tabs by simp
qed

lemma with_room_facts:
  assumes "with_room alloc ls = Some ls'"
  shows "length (pl_parts ls) < pl_nparts_max ls' \<or> length (pl_parts ls) \<ge> pl_nparts_max ls + 32"
    and "pl_parts ls' = pl_parts ls" and "pl_tabs ls' = pl_tabs ls" and "pl_nparts_max ls \<le> pl_nparts_max ls'"
    and "pl_next_partno ls' = pl_next_partno ls" and "pl_next_parent ls' = pl_next_parent ls"
  using assms by (auto simp: with_room_def split: if_splits)

text \<open>What adding a partition does: the list is one longer, the table counts it, and it has the next number.\<close>

lemma add_partition_result:
  assumes "partlist_wf ls" and "partlist_add_partition alloc ls tab start sz = Inr (Some r, ls')"
  shows "partlist_wf ls'" and "live_partref ls' r" and "snd r = length (pl_parts ls)"
    and "\<exists>par. pl_parts ls' = pl_parts ls @ [par] \<and> pa_start par = start \<and> pa_size par = sz \<and>
      pa_partno par = pl_next_partno ls \<and> pa_tab par = tab"
    and "pl_next_partno ls' = pl_next_partno ls + 1"
    and "length (pl_tabs ls') = length (pl_tabs ls)"
proof -
  from assms(2) obtain ls1 where n: "new_partition alloc ls tab = Inr (Some r, ls1)"
    and c: "change_partition ls1 r (\<lambda>par. par\<lparr>pa_start := start, pa_size := sz\<rparr>) = Inr ls'"
    by (auto simp: partlist_add_partition_def split: option.splits)
  from n obtain ls0 where w: "with_room alloc ls = Some ls0" and tab: "tab < length (pl_tabs ls)"
    by (auto simp: new_partition_def with_room_def Let_def partlist_increment_partno_def split: option.splits if_splits)
  note f = with_room_facts [OF w]
  define par where "par = \<lparr>pa_start = 0, pa_size = 0, pa_type = 0, pa_typestr = [], pa_flags = 0,
    pa_partno = pl_next_partno ls, pa_uuid = [], pa_name = [], pa_tab = tab\<rparr>"
  have ls1: "ls1 = ls0\<lparr>pl_next_partno := pl_next_partno ls + 1, pl_parts := pl_parts ls @ [par],
      pl_tabs := (pl_tabs ls)[tab := ref_parttable (pl_tabs ls ! tab)]\<rparr>"
    and r: "r = (pl_nparts_max ls0, length (pl_parts ls))"
    using n w tab f by (auto simp: new_partition_def partlist_increment_partno_def Let_def par_def)
  have "length (pl_parts ls) < pl_nparts_max ls0" using f(1) assms(1) by (auto simp: partlist_wf_def)
  then have wf1: "partlist_wf ls1"
    using assms(1) tab by (auto simp: partlist_wf_def ls1 par_def nth_list_update ref_parttable_def)
  show "partlist_wf ls'" by (rule change_partition_wf [OF wf1 _ c]) simp
  have ls': "ls' = ls1\<lparr>pl_parts := (pl_parts ls1)[snd r := (pl_parts ls1 ! snd r)\<lparr>pa_start := start, pa_size := sz\<rparr>]\<rparr>"
    using c by (auto simp: change_partition_def partition_at_def split: if_splits)
  show "live_partref ls' r" "snd r = length (pl_parts ls)" "pl_next_partno ls' = pl_next_partno ls + 1"
    "length (pl_tabs ls') = length (pl_tabs ls)"
    by (simp_all add: ls' ls1 r live_partref_def)
  show "\<exists>par. pl_parts ls' = pl_parts ls @ [par] \<and> pa_start par = start \<and> pa_size par = sz \<and>
      pa_partno par = pl_next_partno ls \<and> pa_tab par = tab"
    by (simp add: ls' ls1 r par_def)
qed

text \<open>C18. When the array of partitions is full, adding a partition reallocates it, and every
  pointer into it that the caller holds, the parent of a nested table included, is stale from
  then on.\<close>

theorem full_list_moves:
  assumes "partlist_wf ls" and "length (pl_parts ls) = pl_nparts_max ls"
    and "partlist_add_partition alloc ls tab start sz = Inr (Some r, ls')" and "live_partref ls old"
  shows "partition_at ls' old = Inl Use_After_Free"
proof -
  obtain ls1 where n: "new_partition alloc ls tab = Inr (Some r, ls1)" and
    c: "change_partition ls1 r (\<lambda>par. par\<lparr>pa_start := start, pa_size := sz\<rparr>) = Inr ls'"
    using assms(3) by (auto simp: partlist_add_partition_def split: option.splits)
  have "pl_nparts_max ls1 = pl_nparts_max ls + 32"
    using n assms(2)
    by (auto simp: new_partition_def with_room_def Let_def partlist_increment_partno_def split: option.splits if_splits)
  moreover have "pl_nparts_max ls' = pl_nparts_max ls1"
    using c by (auto simp: change_partition_def partition_at_def split: if_splits)
  ultimately show ?thesis using assms(4) by (simp add: partition_at_def live_partref_def)
qed

theorem full_list_moves_witness:
  "\<exists>r ls'. partlist_add_partition (\<lambda>_. True)
      (zero_partlist\<lparr>pl_nparts_max := 1, pl_parts := [\<lparr>pa_start = 0, pa_size = 1, pa_type = 0, pa_typestr = [], pa_flags = 0,
         pa_partno = 1, pa_uuid = [], pa_name = [], pa_tab = 0\<rparr>],
         pl_tabs := [\<lparr>pt_type = ''dos'', pt_offset = 0, pt_nparts = 1, pt_parent = None, pt_id = []\<rparr>]\<rparr>) 0 1 1 =
      Inr (Some r, ls') \<and> partition_at ls' (1, 0) = Inl Use_After_Free"
proof -
  define par where "par = \<lparr>pa_start = 0, pa_size = 1, pa_type = 0, pa_typestr = [], pa_flags = 0,
         pa_partno = 1, pa_uuid = [], pa_name = [], pa_tab = 0\<rparr>"
  define ls where "ls = zero_partlist\<lparr>pl_nparts_max := 1, pl_parts := [par],
     pl_tabs := [\<lparr>pt_type = ''dos'', pt_offset = 0, pt_nparts = 1, pt_parent = None, pt_id = []\<rparr>]\<rparr>"
  have wf: "partlist_wf ls" by (simp add: partlist_wf_def ls_def par_def)
  have full: "length (pl_parts ls) = pl_nparts_max ls" and live: "live_partref ls (1, 0)"
    by (simp_all add: ls_def live_partref_def)
  obtain r ls' where a: "partlist_add_partition (\<lambda>_. True) ls 0 1 1 = Inr (Some r, ls')"
    by (simp add: partlist_add_partition_def new_partition_def with_room_def ls_def Let_def partlist_increment_partno_def
        change_partition_def partition_at_def live_partref_def)
  from full_list_moves [OF wf full a live] a show ?thesis unfolding ls_def par_def by blast
qed

section \<open>Topology\<close>

record topology =
  tp_alignment_offset :: nat
  tp_minimum_io_size :: nat
  tp_optimal_io_size :: nat
  tp_logical_sector_size :: nat
  tp_physical_sector_size :: nat

end
