(* ===== verification/Probe.thy ===== *)
theory Probe
  imports Uuid Partlist "HOL-Library.State_Monad"
begin

unbundle bit_operations_syntax

text \<open>
  The low-level probing of libblkid, src/lib/libblkid/src/probe.c and blkidP.h: the probing
  control struct, the cache of the buffers read from the device, the values found so far,
  the magic strings, the chains of probing functions with their filters, the area a tool is
  known to have wiped, and the drivers \<open>blkid_do_probe\<close>, \<open>blkid_do_safeprobe\<close> and
  \<open>blkid_do_fullprobe\<close>. A function on the struct is a computation of the state monad over it.
\<close>

section \<open>The probing control struct\<close>

text \<open>
  The device behind the file descriptor: whether a seek to a position and an allocation of a
  size succeed, what a read of some bytes at a position delivers (an error number, or bytes
  that may be fewer), the sector size and the whole-disk device of a device number, if the
  system knows them.
\<close>

record medium =
  md_seek :: "int \<Rightarrow> bool"
  md_alloc :: "int \<Rightarrow> bool"
  md_read :: "int \<Rightarrow> int \<Rightarrow> int + string"
  md_sector_size :: "nat option"
  md_wholedisk :: "nat \<Rightarrow> nat option"

record bufinfo =
  bf_off :: int
  bf_len :: int
  bf_data :: string

text \<open>The part of the device that a probe looks at, with the buffers read from it.\<close>

record area =
  ar_devno :: nat
  ar_off :: int
  ar_size :: int
  ar_bufs :: "bufinfo list"

text \<open>A chain driver without its functions, and the \<open>name\<close> of each of its \<open>idinfos\<close>.\<close>

record chaindrv =
  cd_id :: nat
  cd_name :: string
  cd_dflt_flags :: u32
  cd_dflt_enabled :: bool
  cd_has_fltr :: bool
  cd_idinfos :: "string list"

record chain =
  ch_driver :: chaindrv
  ch_enabled :: bool
  ch_flags :: u32
  ch_binary :: bool
  ch_idx :: int
  ch_fltr :: "bool list option"

text \<open>A value of the result; \<open>pv_data\<close> holds the \<open>len\<close> bytes of \<open>data\<close> that are valid.\<close>

record prval =
  pv_name :: string
  pv_data :: string
  pv_chain :: "nat option"

text \<open>
  Chains are named by their index. A clone reads through the buffers of its ancestors, which
  are \<open>pr_parents\<close>. The private data of the chains are \<open>pr_parts\<close> and \<open>pr_topology\<close>. The last field records what went wrong when the execution is undefined
  or does not end; what is computed after that has no meaning.
\<close>

datatype fault = Undefined ub | Endless

record probe =
  pr_medium :: medium
  pr_area :: area
  pr_parents :: "area list"
  pr_disk_devno :: nat
  pr_blkssz :: nat
  pr_mode :: u32
  pr_flags :: u32
  pr_prob_flags :: u32
  pr_wipe_off :: int
  pr_wipe_size :: int
  pr_wipe_chain :: "nat option"
  pr_chains :: "chain list"
  pr_cur_chain :: "nat option"
  pr_vals :: "prval list"
  pr_parts :: "partlist option"
  pr_topology :: "topology option"
  pr_fault :: "fault option"

type_synonym 'a prober = "(probe, 'a) state"

abbreviation ret :: "'a \<Rightarrow> 'a prober" where
  "ret \<equiv> State_Monad.return"

definition gets :: "(probe \<Rightarrow> 'a) \<Rightarrow> 'a prober" where
  "gets f = State (\<lambda>pr. (f pr, pr))"

definition modify :: "(probe \<Rightarrow> probe) \<Rightarrow> unit prober" where
  "modify f = State (\<lambda>pr. ((), f pr))"

definition fault :: "fault \<Rightarrow> unit prober" where
  "fault e = modify (\<lambda>pr. pr\<lparr>pr_fault := (case pr_fault pr of None \<Rightarrow> Some e | Some d \<Rightarrow> Some d)\<rparr>)"

lemma run_basic [simp]:
  "run_state (gets f) pr = (f pr, pr)"
  "run_state (modify g) pr = ((), g pr)"
  by (simp_all add: gets_def modify_def)

section \<open>Constants\<close>

definition BLKID_CHAIN_SUBLKS :: nat where "BLKID_CHAIN_SUBLKS = 0"
definition BLKID_CHAIN_TOPLGY :: nat where "BLKID_CHAIN_TOPLGY = 1"
definition BLKID_CHAIN_PARTS :: nat where "BLKID_CHAIN_PARTS = 2"
definition BLKID_NCHAINS :: nat where "BLKID_NCHAINS = 3"

lemmas BLKID_CHAIN_defs = BLKID_CHAIN_SUBLKS_def BLKID_CHAIN_TOPLGY_def BLKID_CHAIN_PARTS_def
  BLKID_NCHAINS_def

definition BLKID_PROBVAL_BUFSIZ :: nat where "BLKID_PROBVAL_BUFSIZ = 128"
definition BLKID_NVALS_SUBLKS :: nat where "BLKID_NVALS_SUBLKS = 18"
definition BLKID_NVALS_TOPLGY :: nat where "BLKID_NVALS_TOPLGY = 5"
definition BLKID_NVALS_PARTS :: nat where "BLKID_NVALS_PARTS = 13"

definition BLKID_NVALS :: nat where
  "BLKID_NVALS = BLKID_NVALS_SUBLKS + BLKID_NVALS_TOPLGY + BLKID_NVALS_PARTS"

lemma BLKID_NVALS_eq: "BLKID_NVALS = 36"
  by (simp add: BLKID_NVALS_def BLKID_NVALS_SUBLKS_def BLKID_NVALS_TOPLGY_def BLKID_NVALS_PARTS_def)

definition BLKID_FL_PRIVATE_FD :: u32 where "BLKID_FL_PRIVATE_FD = 0x2"
definition BLKID_FL_TINY_DEV :: u32 where "BLKID_FL_TINY_DEV = 0x4"
definition BLKID_FL_CDROM_DEV :: u32 where "BLKID_FL_CDROM_DEV = 0x8"
definition BLKID_FL_NOSCAN_DEV :: u32 where "BLKID_FL_NOSCAN_DEV = 0x10"
definition BLKID_PROBE_FL_IGNORE_PT :: u32 where "BLKID_PROBE_FL_IGNORE_PT = 0x2"

definition BLKID_PROBE_OK :: int where "BLKID_PROBE_OK = 0"
definition BLKID_PROBE_NONE :: int where "BLKID_PROBE_NONE = 1"

definition BLKID_SUBLKS_LABEL :: u32 where "BLKID_SUBLKS_LABEL = 0x2"
definition BLKID_SUBLKS_LABELRAW :: u32 where "BLKID_SUBLKS_LABELRAW = 0x4"
definition BLKID_SUBLKS_UUID :: u32 where "BLKID_SUBLKS_UUID = 0x8"
definition BLKID_SUBLKS_UUIDRAW :: u32 where "BLKID_SUBLKS_UUIDRAW = 0x10"
definition BLKID_SUBLKS_TYPE :: u32 where "BLKID_SUBLKS_TYPE = 0x20"
definition BLKID_SUBLKS_SECTYPE :: u32 where "BLKID_SUBLKS_SECTYPE = 0x40"
definition BLKID_SUBLKS_USAGE :: u32 where "BLKID_SUBLKS_USAGE = 0x80"
definition BLKID_SUBLKS_VERSION :: u32 where "BLKID_SUBLKS_VERSION = 0x100"
definition BLKID_SUBLKS_MAGIC :: u32 where "BLKID_SUBLKS_MAGIC = 0x200"
definition BLKID_SUBLKS_BADCSUM :: u32 where "BLKID_SUBLKS_BADCSUM = 0x400"

definition BLKID_SUBLKS_DEFAULT :: u32 where
  "BLKID_SUBLKS_DEFAULT =
     BLKID_SUBLKS_LABEL OR BLKID_SUBLKS_UUID OR BLKID_SUBLKS_TYPE OR BLKID_SUBLKS_SECTYPE"

definition BLKID_PARTS_MAGIC :: u32 where "BLKID_PARTS_MAGIC = 0x8"
definition BLKID_FLTR_NOTIN :: u32 where "BLKID_FLTR_NOTIN = 1"
definition BLKID_FLTR_ONLYIN :: u32 where "BLKID_FLTR_ONLYIN = 2"
definition BLKID_USAGE_FILESYSTEM :: u32 where "BLKID_USAGE_FILESYSTEM = 0x2"
definition BLKID_USAGE_RAID :: u32 where "BLKID_USAGE_RAID = 0x4"
definition BLKID_USAGE_CRYPTO :: u32 where "BLKID_USAGE_CRYPTO = 0x8"
definition BLKID_USAGE_OTHER :: u32 where "BLKID_USAGE_OTHER = 0x10"
definition BLKID_IDINFO_TOLERANT :: u32 where "BLKID_IDINFO_TOLERANT = 0x2"

definition has_flag :: "u32 \<Rightarrow> u32 \<Rightarrow> bool" where
  "has_flag flags f \<longleftrightarrow> flags AND f \<noteq> 0"

definition S_ISBLK :: "u32 \<Rightarrow> bool" where "S_ISBLK m \<longleftrightarrow> m AND 0xF000 = 0x6000"
definition S_ISCHR :: "u32 \<Rightarrow> bool" where "S_ISCHR m \<longleftrightarrow> m AND 0xF000 = 0x2000"
definition S_ISREG :: "u32 \<Rightarrow> bool" where "S_ISREG m \<longleftrightarrow> m AND 0xF000 = 0x8000"

definition EINVAL :: int where "EINVAL = 22"
definition ENOMEM :: int where "ENOMEM = 12"

section \<open>Buffers\<close>

text \<open>
  \<open>blkid_probe_get_buffer\<close> returns a pointer to \<open>len\<close> bytes of the device, or NULL with the
  error number that it leaves in \<open>errno\<close>, which is 0 when the device is just too short.
  \<open>sizeof_bufinfo\<close> is the size of \<open>struct blkid_bufinfo\<close> with 32 bit pointers.
\<close>

datatype buf = Buf string | NoBuf int

definition sizeof_bufinfo :: int where "sizeof_bufinfo = 32"
definition ULONG_MAX :: int where "ULONG_MAX = 4294967295"

text \<open>The whole of \<open>off\<close> to \<open>off + len\<close> lies in the buffer.\<close>

definition buf_holds :: "int \<Rightarrow> int \<Rightarrow> bufinfo \<Rightarrow> bool" where
  "buf_holds off len x \<longleftrightarrow> bf_off x \<le> off \<and> off + len \<le> bf_off x + bf_len x"

text \<open>The \<open>len\<close> bytes at the pointer that is returned.\<close>

definition buf_at :: "bufinfo \<Rightarrow> int \<Rightarrow> int \<Rightarrow> string" where
  "buf_at bf off len = take (nat len) (drop (nat (if off \<noteq> 0 then off - bf_off bf else 0)) (bf_data bf))"

definition own_buffer :: "medium \<Rightarrow> area \<Rightarrow> int \<Rightarrow> int \<Rightarrow> buf \<times> area" where
  "own_buffer m a off len =
     (case find (buf_holds off len) (ar_bufs a) of
        Some bf \<Rightarrow> (Buf (buf_at bf off len), a)
      | None \<Rightarrow>
          if \<not> md_seek m (ar_off a + off) then (NoBuf 0, a)
          else if len > ULONG_MAX - sizeof_bufinfo then (NoBuf ENOMEM, a)
          else if \<not> md_alloc m len then (NoBuf ENOMEM, a)
          else
            case md_read m (ar_off a + off) len of
              Inl e \<Rightarrow> (NoBuf e, a)
            | Inr bytes \<Rightarrow>
                if int (length bytes) \<noteq> len then (NoBuf 0, a)
                else
                  let bf = \<lparr>bf_off = off, bf_len = len, bf_data = bytes\<rparr> in
                  (Buf (buf_at bf off len), a\<lparr>ar_bufs := ar_bufs a @ [bf]\<rparr>))"

text \<open>A clone points to a part of the area of its parent.\<close>

definition shares :: "area \<Rightarrow> area \<Rightarrow> bool" where
  "shares parent a \<longleftrightarrow>
     ar_devno parent = ar_devno a \<and> ar_off parent \<le> ar_off a \<and>
     ar_off parent + ar_size parent \<ge> ar_off a + ar_size a"

fun area_buffer :: "medium \<Rightarrow> area \<Rightarrow> area list \<Rightarrow> int \<Rightarrow> int \<Rightarrow> buf \<times> area \<times> area list" where
  "area_buffer m a [] off len =
     (if ar_size a \<le> 0 then (NoBuf EINVAL, a, [])
      else let (b, a) = own_buffer m a off len in (b, a, []))"
| "area_buffer m a (p # ps) off len =
     (if ar_size a \<le> 0 then (NoBuf EINVAL, a, p # ps)
      else if shares p a then
        let (b, p, ps) = area_buffer m p ps (ar_off a + off - ar_off p) len in (b, a, p # ps)
      else let (b, a) = own_buffer m a off len in (b, a, p # ps))"

definition blkid_probe_get_buffer :: "int \<Rightarrow> int \<Rightarrow> buf prober" where
  "blkid_probe_get_buffer off len =
     State (\<lambda>pr.
       let (b, a, ps) = area_buffer (pr_medium pr) (pr_area pr) (pr_parents pr) off len
       in (b, pr\<lparr>pr_area := a, pr_parents := ps\<rparr>))"

definition blkid_probe_get_sector :: "nat \<Rightarrow> buf prober" where
  "blkid_probe_get_sector sector = blkid_probe_get_buffer (int sector * 512) 0x200"

definition blkid_probe_reset_buffer :: "unit prober" where
  "blkid_probe_reset_buffer = modify (\<lambda>pr. pr\<lparr>pr_area := (pr_area pr)\<lparr>ar_bufs := []\<rparr>\<rparr>)"

text \<open>The bytes behind a pointer to a buffer, and what a probing function returns without one.\<close>

definition buf_error :: "int \<Rightarrow> int" where
  "buf_error errno = (if errno \<noteq> 0 then - errno else 1)"

section \<open>Area and device\<close>

definition pr_size :: "probe \<Rightarrow> int" where "pr_size pr = ar_size (pr_area pr)"
definition pr_off :: "probe \<Rightarrow> int" where "pr_off pr = ar_off (pr_area pr)"
definition pr_devno :: "probe \<Rightarrow> nat" where "pr_devno pr = ar_devno (pr_area pr)"

definition blkid_probe_is_tiny :: "probe \<Rightarrow> bool" where
  "blkid_probe_is_tiny pr \<longleftrightarrow> has_flag (pr_flags pr) BLKID_FL_TINY_DEV"

definition blkid_probe_is_cdrom :: "probe \<Rightarrow> bool" where
  "blkid_probe_is_cdrom pr \<longleftrightarrow> has_flag (pr_flags pr) BLKID_FL_CDROM_DEV"

definition TINY_SIZE :: int where "TINY_SIZE = 1440 * 1024"

definition blkid_probe_set_dimension :: "int \<Rightarrow> int \<Rightarrow> unit prober" where
  "blkid_probe_set_dimension off sz =
     do {
       modify (\<lambda>pr. pr\<lparr>pr_area := (pr_area pr)\<lparr>ar_off := off, ar_size := sz\<rparr>,
         pr_flags :=
           (let flags = pr_flags pr AND NOT BLKID_FL_TINY_DEV in
            if sz \<le> TINY_SIZE \<and> \<not> S_ISCHR (pr_mode pr) then flags OR BLKID_FL_TINY_DEV else flags)\<rparr>);
       blkid_probe_reset_buffer
     }"

definition blkid_probe_get_wholedisk_devno :: "nat prober" where
  "blkid_probe_get_wholedisk_devno =
     do {
       pr \<leftarrow> gets id;
       if pr_disk_devno pr = 0 then
         (if pr_devno pr = 0 then ret 0
          else do {
            (case md_wholedisk (pr_medium pr) (pr_devno pr) of
               Some disk \<Rightarrow> modify (\<lambda>pr. pr\<lparr>pr_disk_devno := disk\<rparr>)
             | None \<Rightarrow> ret ());
            gets pr_disk_devno
          })
       else ret (pr_disk_devno pr)
     }"

definition blkid_probe_is_wholedisk :: "bool prober" where
  "blkid_probe_is_wholedisk =
     do {
       devno \<leftarrow> gets pr_devno;
       if devno = 0 then ret False
       else do {
         disk_devno \<leftarrow> blkid_probe_get_wholedisk_devno;
         if disk_devno = 0 then ret False else ret (devno = disk_devno)
       }
     }"

definition blkid_probe_get_sectorsize :: "nat prober" where
  "blkid_probe_get_sectorsize =
     do {
       pr \<leftarrow> gets id;
       if pr_blkssz pr \<noteq> 0 then ret (pr_blkssz pr)
       else
         case (if S_ISBLK (pr_mode pr) then md_sector_size (pr_medium pr) else None) of
           Some n \<Rightarrow> do { modify (\<lambda>pr. pr\<lparr>pr_blkssz := n\<rparr>); ret n }
         | None \<Rightarrow> do { modify (\<lambda>pr. pr\<lparr>pr_blkssz := 512\<rparr>); ret 512 }
     }"

definition blkid_probe_get_sectors :: "probe \<Rightarrow> int" where
  "blkid_probe_get_sectors pr = pr_size pr div 512"

section \<open>Values\<close>

text \<open>
  \<open>blkid_probe_assign_value\<close> returns a pointer to the new value, or NULL when all are in use.
  Every caller fills the value it has just been given, the last one.
\<close>

definition blkid_probe_assign_value :: "string \<Rightarrow> nat option prober" where
  "blkid_probe_assign_value name =
     do {
       pr \<leftarrow> gets id;
       if length (pr_vals pr) \<ge> BLKID_NVALS then ret None
       else do {
         modify (\<lambda>pr. pr\<lparr>pr_vals := pr_vals pr @
           [\<lparr>pv_name = name, pv_data = [], pv_chain = pr_cur_chain pr\<rparr>]\<rparr>);
         ret (Some (length (pr_vals pr)))
       }
     }"

definition fill_value :: "nat \<Rightarrow> string \<Rightarrow> unit prober" where
  "fill_value i bytes =
     modify (\<lambda>pr. pr\<lparr>pr_vals := (pr_vals pr)[i := (pr_vals pr ! i)\<lparr>pv_data := bytes\<rparr>]\<rparr>)"

definition blkid_probe_reset_last_value :: "int prober" where
  "blkid_probe_reset_last_value =
     do {
       pr \<leftarrow> gets id;
       if pr_vals pr = [] then ret (- 1)
       else do { modify (\<lambda>pr. pr\<lparr>pr_vals := butlast (pr_vals pr)\<rparr>); ret 0 }
     }"

text \<open>\<open>bytes\<close> are the \<open>len\<close> bytes at \<open>data\<close>.\<close>

definition blkid_probe_set_value :: "string \<Rightarrow> string \<Rightarrow> int prober" where
  "blkid_probe_set_value name bytes =
     do {
       v \<leftarrow> blkid_probe_assign_value name;
       case v of
         None \<Rightarrow> ret (- 1)
       | Some i \<Rightarrow> do { fill_value i (take BLKID_PROBVAL_BUFSIZ bytes); ret 0 }
     }"

text \<open>\<open>text\<close> is what the format and its arguments print.\<close>

definition blkid_probe_vsprintf_value :: "string \<Rightarrow> string \<Rightarrow> int prober" where
  "blkid_probe_vsprintf_value name text =
     do {
       v \<leftarrow> blkid_probe_assign_value name;
       case v of
         None \<Rightarrow> ret (- 1)
       | Some i \<Rightarrow>
           if length text = 0 \<or> length text \<ge> BLKID_PROBVAL_BUFSIZ then
             do { blkid_probe_reset_last_value; ret (- 1) }
           else do { fill_value i (text @ [NUL]); ret 0 }
     }"

definition blkid_probe_sprintf_value :: "string \<Rightarrow> string \<Rightarrow> int prober" where
  "blkid_probe_sprintf_value = blkid_probe_vsprintf_value"

definition blkid_probe_get_value :: "probe \<Rightarrow> int \<Rightarrow> prval option" where
  "blkid_probe_get_value pr num =
     (if num < 0 \<or> num \<ge> int (length (pr_vals pr)) then None else Some (pr_vals pr ! nat num))"

definition blkid_probe_lookup_value :: "probe \<Rightarrow> string \<Rightarrow> prval option" where
  "blkid_probe_lookup_value pr name = find (\<lambda>v. pv_name v = name) (pr_vals pr)"

definition blkid_probe_numof_values :: "probe \<Rightarrow> int" where
  "blkid_probe_numof_values pr = int (length (pr_vals pr))"

definition blkid_probe_has_value :: "probe \<Rightarrow> string \<Rightarrow> bool" where
  "blkid_probe_has_value pr name \<longleftrightarrow> blkid_probe_lookup_value pr name \<noteq> None"

definition blkid_probe_reset_vals :: "unit prober" where
  "blkid_probe_reset_vals = modify (\<lambda>pr. pr\<lparr>pr_vals := []\<rparr>)"

text \<open>
  The removal of a chain's values moves the others down, as the loop over \<open>x\<close> and \<open>i\<close> does;
  the lemma \<open>chain_reset_vals_filter\<close> below states what remains.
\<close>

fun compact_vals :: "nat \<Rightarrow> nat \<Rightarrow> nat \<Rightarrow> prval list \<Rightarrow> nat \<Rightarrow> nat \<Rightarrow> prval list \<times> nat" where
  "compact_vals 0 i x vals nvals c = (vals, nvals)"
| "compact_vals (Suc k) i x vals nvals c =
     (let v = vals ! i in
      if pv_chain v \<noteq> Some c \<and> x = i then compact_vals k (i + 1) (x + 1) vals nvals c
      else if pv_chain v = Some c then compact_vals k (i + 1) x vals (nvals - 1) c
      else compact_vals k (i + 1) (x + 1) (vals[x := v]) nvals c)"

definition blkid_probe_chain_reset_vals :: "nat \<Rightarrow> unit prober" where
  "blkid_probe_chain_reset_vals c =
     modify (\<lambda>pr. let n = length (pr_vals pr); (vals, nvals) = compact_vals n 0 0 (pr_vals pr) n c
       in pr\<lparr>pr_vals := take nvals vals\<rparr>)"

definition blkid_probe_chain_copy_vals :: "probe \<Rightarrow> nat \<Rightarrow> nat \<Rightarrow> prval list" where
  "blkid_probe_chain_copy_vals pr c nvals = take nvals (filter (\<lambda>v. pv_chain v = Some c) (pr_vals pr))"

fun append_loop :: "prval list \<Rightarrow> prval list \<Rightarrow> prval list" where
  "append_loop [] acc = acc"
| "append_loop (v # vals) acc =
     (if length acc < BLKID_NVALS then append_loop vals (acc @ [v]) else acc)"

definition blkid_probe_append_vals :: "prval list \<Rightarrow> unit prober" where
  "blkid_probe_append_vals vals = modify (\<lambda>pr. pr\<lparr>pr_vals := append_loop vals (pr_vals pr)\<rparr>)"

section \<open>Chains, filters and the wiped area\<close>

definition chain_at :: "probe \<Rightarrow> nat \<Rightarrow> chain" where
  "chain_at pr i = pr_chains pr ! i"

definition set_chain :: "nat \<Rightarrow> (chain \<Rightarrow> chain) \<Rightarrow> unit prober" where
  "set_chain i f = modify (\<lambda>pr. pr\<lparr>pr_chains := (pr_chains pr)[i := f (pr_chains pr ! i)]\<rparr>)"

definition blkid_probe_get_chain :: "nat option prober" where
  "blkid_probe_get_chain = gets pr_cur_chain"

text \<open>The flags of the current chain, which is never NULL in a probing function.\<close>

definition chain_flags :: "u32 prober" where
  "chain_flags =
     do {
       pr \<leftarrow> gets id;
       case pr_cur_chain pr of
         Some c \<Rightarrow> ret (ch_flags (chain_at pr c))
       | None \<Rightarrow> do { fault (Undefined Null_Deref); ret 0 }
     }"

definition nidinfos :: "chain \<Rightarrow> nat" where
  "nidinfos c = length (cd_idinfos (ch_driver c))"

definition blkid_probe_get_probername :: "probe \<Rightarrow> string option" where
  "blkid_probe_get_probername pr =
     (case pr_cur_chain pr of
        Some c \<Rightarrow>
          let chn = chain_at pr c in
          if ch_idx chn \<ge> 0 \<and> ch_idx chn < int (nidinfos chn)
          then Some (cd_idinfos (ch_driver chn) ! nat (ch_idx chn)) else None
      | None \<Rightarrow> None)"

definition blkid_probe_chain_reset_position :: "nat \<Rightarrow> unit prober" where
  "blkid_probe_chain_reset_position c = set_chain c (\<lambda>chn. chn\<lparr>ch_idx := - 1\<rparr>)"

definition blkid_probe_set_wiper :: "int \<Rightarrow> int \<Rightarrow> unit prober" where
  "blkid_probe_set_wiper off sz =
     (if sz = 0 then modify (\<lambda>pr. pr\<lparr>pr_wipe_size := 0, pr_wipe_off := 0, pr_wipe_chain := None\<rparr>)
      else do {
        pr \<leftarrow> gets id;
        case pr_cur_chain pr of
          None \<Rightarrow> ret ()
        | Some c \<Rightarrow>
            let chn = chain_at pr c in
            if ch_idx chn < 0 \<or> ch_idx chn \<ge> int (nidinfos chn) then ret ()
            else modify (\<lambda>pr. pr\<lparr>pr_wipe_size := sz, pr_wipe_off := off, pr_wipe_chain := Some c\<rparr>)
      })"

definition blkid_probe_is_wiped :: "probe \<Rightarrow> int \<Rightarrow> int \<Rightarrow> nat option option" where
  "blkid_probe_is_wiped pr off sz =
     (if sz = 0 then None
      else if pr_wipe_off pr \<le> off \<and> off + sz \<le> pr_wipe_off pr + pr_wipe_size pr
      then Some (pr_wipe_chain pr) else None)"

definition blkid_probe_use_wiper :: "int \<Rightarrow> int \<Rightarrow> unit prober" where
  "blkid_probe_use_wiper off sz =
     do {
       pr \<leftarrow> gets id;
       case blkid_probe_is_wiped pr off sz of
         Some (Some c) \<Rightarrow> do { blkid_probe_set_wiper 0 0; blkid_probe_chain_reset_vals c }
       | _ \<Rightarrow> ret ()
     }"

text \<open>
  A filter is a bit map of whole 32 bit words, one bit per probing function; a set bit
  disables the function. The functions that change a filter start the probing over.
\<close>

definition blkid_bmp_wordsize :: nat where "blkid_bmp_wordsize = 32"

definition blkid_bmp_nwords :: "nat \<Rightarrow> nat" where
  "blkid_bmp_nwords n = (n + blkid_bmp_wordsize) div blkid_bmp_wordsize"

definition blkid_bmp_set_item :: "bool list \<Rightarrow> nat \<Rightarrow> bool list" where
  "blkid_bmp_set_item bmp i = bmp[i := True]"

definition blkid_bmp_get_item :: "bool list \<Rightarrow> nat \<Rightarrow> bool" where
  "blkid_bmp_get_item bmp i = bmp ! i"

definition blkid_probe_get_filter :: "int \<Rightarrow> bool \<Rightarrow> bool list option prober" where
  "blkid_probe_get_filter c create =
     (if c < 0 \<or> c \<ge> int BLKID_NCHAINS then ret None
      else do {
        let i = nat c;
        blkid_probe_chain_reset_position i;
        modify (\<lambda>pr. pr\<lparr>pr_cur_chain := None\<rparr>);
        pr \<leftarrow> gets id;
        let chn = chain_at pr i;
        let nwords = blkid_bmp_nwords (nidinfos chn);
        if \<not> cd_has_fltr (ch_driver chn) \<or> ch_fltr chn = None \<and> \<not> create then ret None
        else if ch_fltr chn = None \<and> \<not> md_alloc (pr_medium pr) (int (4 * nwords)) then ret None
        else do {
          let bmp = replicate (nwords * blkid_bmp_wordsize) False;
          set_chain i (\<lambda>chn. chn\<lparr>ch_fltr := Some bmp\<rparr>);
          ret (Some bmp)
        }
      })"

definition blkid_probe_invert_filter :: "nat \<Rightarrow> int prober" where
  "blkid_probe_invert_filter i =
     do {
       pr \<leftarrow> gets id;
       let chn = chain_at pr i;
       case ch_fltr chn of
         Some bmp \<Rightarrow>
           if cd_has_fltr (ch_driver chn) then
             do { set_chain i (\<lambda>chn. chn\<lparr>ch_fltr := Some (map Not bmp)\<rparr>); ret 0 }
           else ret (- 1)
       | None \<Rightarrow> ret (- 1)
     }"

definition blkid_probe_reset_filter :: "nat \<Rightarrow> int prober" where
  "blkid_probe_reset_filter i =
     do {
       f \<leftarrow> blkid_probe_get_filter (int i) False;
       ret (if f \<noteq> None then 0 else - 1)
     }"

text \<open>The loop of a filter function: \<open>disable i\<close> says whether it sets the bit of item \<open>i\<close>.\<close>

fun fill_filter :: "(nat \<Rightarrow> bool) \<Rightarrow> nat list \<Rightarrow> bool list \<Rightarrow> bool list" where
  "fill_filter disable [] bmp = bmp"
| "fill_filter disable (i # is) bmp =
     fill_filter disable is (if disable i then blkid_bmp_set_item bmp i else bmp)"

definition blkid_probe_filter_types :: "int \<Rightarrow> u32 \<Rightarrow> string list \<Rightarrow> int prober" where
  "blkid_probe_filter_types c flag names =
     do {
       f \<leftarrow> blkid_probe_get_filter c True;
       case f of
         None \<Rightarrow> ret (- 1)
       | Some bmp \<Rightarrow> do {
           set_chain (nat c) (\<lambda>chn.
             let disable = (\<lambda>i. let has = cd_idinfos (ch_driver chn) ! i \<in> set names in
                   if has_flag flag BLKID_FLTR_ONLYIN then \<not> has
                   else if has_flag flag BLKID_FLTR_NOTIN then has else False)
             in chn\<lparr>ch_fltr := Some (fill_filter disable [0..<nidinfos chn] bmp)\<rparr>);
           ret 0
         }
     }"

section \<open>Magic strings and probing functions\<close>

text \<open>\<open>im_magic\<close> holds the \<open>len\<close> bytes of the magic string.\<close>

record idmag =
  im_magic :: string
  im_kboff :: int
  im_sboff :: nat

record idinfo =
  ii_name :: string
  ii_usage :: u32
  ii_flags :: u32
  ii_minsz :: int
  ii_probefunc :: "(idmag option \<Rightarrow> int prober) option"
  ii_magics :: "idmag list"

text \<open>
  The offset of the kilobyte with the magic string is computed in an \<open>unsigned long\<close> of
  32 bits, since \<open>kboff\<close> is a \<open>long\<close> and \<open>sboff\<close> unsigned.
\<close>

definition idmag_off :: "idmag \<Rightarrow> int" where
  "idmag_off mag = (im_kboff mag + int (im_sboff mag div 1024)) * 1024 mod 4294967296"

definition idmag_matches :: "idmag \<Rightarrow> string \<Rightarrow> bool" where
  "idmag_matches mag bytes \<longleftrightarrow>
     take (length (im_magic mag)) (drop (im_sboff mag mod 1024) bytes) = im_magic mag"

datatype idmag_result = Mag_Error int | Mag_Found int idmag | Mag_None

fun idmag_loop :: "idmag list \<Rightarrow> idmag_result prober" where
  "idmag_loop [] = ret Mag_None"
| "idmag_loop (mag # mags) =
     do {
       b \<leftarrow> blkid_probe_get_buffer (idmag_off mag) 1024;
       case b of
         NoBuf e \<Rightarrow> if e \<noteq> 0 then ret (Mag_Error (- e)) else idmag_loop mags
       | Buf bytes \<Rightarrow>
           if idmag_matches mag bytes
           then ret (Mag_Found (idmag_off mag + int (im_sboff mag mod 1024)) mag)
           else idmag_loop mags
     }"

definition blkid_probe_get_idmag :: "idinfo \<Rightarrow> (int \<times> int \<times> idmag option) prober" where
  "blkid_probe_get_idmag ii =
     do {
       r \<leftarrow> idmag_loop (ii_magics ii);
       ret (case r of
              Mag_Error e \<Rightarrow> (e, 0, None)
            | Mag_Found off mag \<Rightarrow> (BLKID_PROBE_OK, off, Some mag)
            | Mag_None \<Rightarrow> (if ii_magics ii \<noteq> [] then BLKID_PROBE_NONE else BLKID_PROBE_OK, 0, None))
     }"

text \<open>\<open>blkid_probe_get_sb\<close>: the superblock of \<open>n\<close> bytes that belongs to a magic string.\<close>

definition blkid_probe_get_sb :: "idmag option \<Rightarrow> nat \<Rightarrow> buf prober" where
  "blkid_probe_get_sb mag n =
     (case mag of
        Some g \<Rightarrow> blkid_probe_get_buffer (im_kboff g * 1024) (int n)
      | None \<Rightarrow> do { fault (Undefined Null_Deref); ret (NoBuf 0) })"

definition blkid_probe_set_magic :: "int \<Rightarrow> string \<Rightarrow> int prober" where
  "blkid_probe_set_magic offset magic =
     do {
       pr \<leftarrow> gets id;
       case pr_cur_chain pr of
         None \<Rightarrow> ret 0
       | Some c \<Rightarrow>
           let chn = chain_at pr c;
               put = (\<lambda>n1 n2. do {
                 rc \<leftarrow> blkid_probe_set_value n1 magic;
                 if rc = 0 then blkid_probe_sprintf_value n2 (show_nat (nat (offset mod 2 ^ 64)))
                 else ret rc }) in
           if magic = [] \<or> ch_binary chn then ret 0
           else if cd_id (ch_driver chn) = BLKID_CHAIN_SUBLKS then
             (if has_flag (ch_flags chn) BLKID_SUBLKS_MAGIC then put ''SBMAGIC'' ''SBMAGIC_OFFSET''
              else ret 0)
           else if cd_id (ch_driver chn) = BLKID_CHAIN_PARTS then
             (if has_flag (ch_flags chn) BLKID_PARTS_MAGIC then put ''PTMAGIC'' ''PTMAGIC_OFFSET''
              else ret 0)
           else ret 0
     }"

definition blkid_probe_verify_csum :: "u64 \<Rightarrow> u64 \<Rightarrow> bool prober" where
  "blkid_probe_verify_csum csum expected =
     (if csum \<noteq> expected then do {
        pr \<leftarrow> gets id;
        case pr_cur_chain pr of
          None \<Rightarrow> do { fault (Undefined Null_Deref); ret False }
        | Some c \<Rightarrow>
            let chn = chain_at pr c in
            if cd_id (ch_driver chn) = BLKID_CHAIN_SUBLKS \<and> has_flag (ch_flags chn) BLKID_SUBLKS_BADCSUM
            then do { blkid_probe_set_value ''SBBADCSUM'' [CHR ''1'', NUL]; ret True }
            else ret False
      } else ret True)"

definition blkid_uuid_is_empty :: "string \<Rightarrow> nat \<Rightarrow> bool" where
  "blkid_uuid_is_empty bytes len \<longleftrightarrow> list_all (\<lambda>i. bytes ! i = NUL) [0..<len]"

text \<open>The inline functions of strutils.h, on the text before the NUL.\<close>

definition rtrim_whitespace :: "string \<Rightarrow> string" where
  "rtrim_whitespace s = rev (dropWhile isspace (rev s))"

definition ltrim_whitespace :: "string \<Rightarrow> string" where
  "ltrim_whitespace s = dropWhile isspace s"

section \<open>Probing\<close>

text \<open>The two functions of a chain driver, in the order of the chains.\<close>

record chain_ops =
  co_probe :: "int prober"
  co_safeprobe :: "int prober"

definition blkid_probe_start :: "unit prober" where
  "blkid_probe_start =
     do {
       modify (\<lambda>pr. pr\<lparr>pr_cur_chain := None, pr_prob_flags := 0\<rparr>);
       blkid_probe_set_wiper 0 0
     }"

definition blkid_probe_end :: "unit prober" where
  "blkid_probe_end =
     do {
       modify (\<lambda>pr. pr\<lparr>pr_cur_chain := None, pr_prob_flags := 0\<rparr>);
       blkid_probe_set_wiper 0 0
     }"

definition blkid_reset_probe :: "unit prober" where
  "blkid_reset_probe =
     do {
       blkid_probe_reset_vals;
       blkid_probe_set_wiper 0 0;
       modify (\<lambda>pr. pr\<lparr>pr_cur_chain := None\<rparr>);
       blkid_probe_chain_reset_position 0;
       blkid_probe_chain_reset_position 1;
       blkid_probe_chain_reset_position 2
     }"

text \<open>The chain that the loop of \<open>blkid_do_probe\<close> takes next; \<open>None\<close> when all are done.\<close>

definition next_chain :: "int \<Rightarrow> nat option prober" where
  "next_chain rc =
     do {
       pr \<leftarrow> gets id;
       case pr_cur_chain pr of
         None \<Rightarrow> do {
           blkid_probe_start;
           modify (\<lambda>pr. pr\<lparr>pr_cur_chain := Some 0\<rparr>);
           ret (Some 0)
         }
       | Some c \<Rightarrow>
           let chn = chain_at pr c in
           if rc = 1 \<and> (\<not> ch_enabled chn \<or> ch_idx chn + 1 = int (nidinfos chn) \<or> ch_idx chn = - 1) then
             (let i = cd_id (ch_driver chn) + 1 in
              if i < BLKID_NCHAINS then
                do { modify (\<lambda>pr. pr\<lparr>pr_cur_chain := Some i\<rparr>); ret (Some i) }
              else do { blkid_probe_end; ret None })
           else ret (Some c)
     }"

fun do_probe_loop :: "nat \<Rightarrow> chain_ops list \<Rightarrow> int \<Rightarrow> int prober" where
  "do_probe_loop 0 ops rc = do { fault Endless; ret rc }"
| "do_probe_loop (Suc n) ops rc =
     do {
       nc \<leftarrow> next_chain rc;
       case nc of
         None \<Rightarrow> ret 1
       | Some c \<Rightarrow> do {
           set_chain c (\<lambda>chn. chn\<lparr>ch_binary := False\<rparr>);
           enabled \<leftarrow> gets (\<lambda>pr. ch_enabled (chain_at pr c));
           rc \<leftarrow> (if enabled then co_probe (ops ! c) else ret rc);
           if rc = 1 then do_probe_loop n ops rc else ret rc
         }
     }"

text \<open>One round more than there are chains is enough: see \<open>do_probe_settles\<close>.\<close>

definition DO_PROBE_FUEL :: nat where "DO_PROBE_FUEL = BLKID_NCHAINS + 1"

definition blkid_do_probe :: "chain_ops list \<Rightarrow> int prober" where
  "blkid_do_probe ops =
     do {
       pr \<leftarrow> gets id;
       if has_flag (pr_flags pr) BLKID_FL_NOSCAN_DEV then ret 1
       else do_probe_loop DO_PROBE_FUEL ops 1
     }"

definition blkid_probe_step_back :: "int prober" where
  "blkid_probe_step_back =
     do {
       cur \<leftarrow> gets pr_cur_chain;
       case cur of
         None \<Rightarrow> ret (- 1)
       | Some c \<Rightarrow> do {
           blkid_probe_reset_buffer;
           set_chain c (\<lambda>chn. if ch_idx chn \<ge> 0 then chn\<lparr>ch_idx := ch_idx chn - 1\<rparr> else chn);
           pr \<leftarrow> gets id;
           let chn = chain_at pr c;
           (if ch_idx chn = - 1 then
              let i = (if cd_id (ch_driver chn) > 0 then cd_id (ch_driver chn) - 1 else 0) in
              modify (\<lambda>pr. pr\<lparr>pr_cur_chain := (if i > 0 then Some i else None)\<rparr>)
            else ret ());
           ret 0
         }
     }"

text \<open>The loop over the chains that \<open>blkid_do_safeprobe\<close> and \<open>blkid_do_fullprobe\<close> share.\<close>

fun chains_loop :: "(chain_ops \<Rightarrow> int prober) \<Rightarrow> chain_ops list \<Rightarrow> nat list \<Rightarrow> nat \<Rightarrow> int \<Rightarrow> (int \<times> nat) prober"
  where
  "chains_loop f ops [] count rc = ret (rc, count)"
| "chains_loop f ops (i # is) count rc =
     do {
       modify (\<lambda>pr. pr\<lparr>pr_cur_chain := Some i\<rparr>);
       set_chain i (\<lambda>chn. chn\<lparr>ch_binary := False\<rparr>);
       enabled \<leftarrow> gets (\<lambda>pr. ch_enabled (chain_at pr i));
       if \<not> enabled then chains_loop f ops is count rc
       else do {
         blkid_probe_chain_reset_position i;
         rc \<leftarrow> f (ops ! i);
         blkid_probe_chain_reset_position i;
         if rc < 0 then ret (rc, count)
         else chains_loop f ops is (if rc = 0 then count + 1 else count) rc
       }
     }"

definition probe_chains :: "(chain_ops \<Rightarrow> int prober) \<Rightarrow> chain_ops list \<Rightarrow> int prober" where
  "probe_chains f ops =
     do {
       pr \<leftarrow> gets id;
       if has_flag (pr_flags pr) BLKID_FL_NOSCAN_DEV then ret 1
       else do {
         blkid_probe_start;
         (rc, count) \<leftarrow> chains_loop f ops [0..<BLKID_NCHAINS] 0 0;
         blkid_probe_end;
         if rc < 0 then ret rc else ret (if count \<noteq> 0 then 0 else 1)
       }
     }"

definition blkid_do_safeprobe :: "chain_ops list \<Rightarrow> int prober" where
  "blkid_do_safeprobe = probe_chains co_safeprobe"

definition blkid_do_fullprobe :: "chain_ops list \<Rightarrow> int prober" where
  "blkid_do_fullprobe = probe_chains co_probe"

text \<open>
  The binary interface: a chain is run alone, with \<open>binary\<close> set, and whatever is being probed
  stays as it is. The data of the chain are valid when the result is true.
\<close>

definition blkid_probe_get_binary_data :: "nat \<Rightarrow> int prober \<Rightarrow> bool prober" where
  "blkid_probe_get_binary_data c probe =
     do {
       org_chn \<leftarrow> gets pr_cur_chain;
       org_prob_flags \<leftarrow> gets pr_prob_flags;
       modify (\<lambda>pr. pr\<lparr>pr_cur_chain := Some c, pr_prob_flags := 0\<rparr>);
       set_chain c (\<lambda>chn. chn\<lparr>ch_binary := True\<rparr>);
       blkid_probe_chain_reset_position c;
       rc \<leftarrow> probe;
       set_chain c (\<lambda>chn. chn\<lparr>ch_binary := False\<rparr>);
       blkid_probe_chain_reset_position c;
       modify (\<lambda>pr. pr\<lparr>pr_cur_chain := org_chn, pr_prob_flags := org_prob_flags\<rparr>);
       ret (rc = 0)
     }"

section \<open>New probes\<close>

text \<open>What the system tells about the file of a descriptor.\<close>

record devstat =
  ds_mode :: u32
  ds_rdev :: nat
  ds_size :: int
  ds_dev_size :: "int option"
  ds_lvm_private :: bool
  ds_cdrom :: bool

definition no_medium :: medium where
  "no_medium = \<lparr>md_seek = (\<lambda>_. False), md_alloc = (\<lambda>_. True), md_read = (\<lambda>_ _. Inl 9),
     md_sector_size = None, md_wholedisk = (\<lambda>_. None)\<rparr>"

definition zero_area :: area where
  "zero_area = \<lparr>ar_devno = 0, ar_off = 0, ar_size = 0, ar_bufs = []\<rparr>"

definition new_chain :: "chaindrv \<Rightarrow> chain" where
  "new_chain d = \<lparr>ch_driver = d, ch_enabled = cd_dflt_enabled d, ch_flags = cd_dflt_flags d,
     ch_binary = False, ch_idx = 0, ch_fltr = None\<rparr>"

definition blkid_new_probe :: "chaindrv list \<Rightarrow> probe" where
  "blkid_new_probe drvs =
     \<lparr>pr_medium = no_medium, pr_area = zero_area, pr_parents = [], pr_disk_devno = 0, pr_blkssz = 0,
      pr_mode = 0, pr_flags = 0, pr_prob_flags = 0, pr_wipe_off = 0, pr_wipe_size = 0,
      pr_wipe_chain = None, pr_chains = map new_chain drvs, pr_cur_chain = None, pr_vals = [],
      pr_parts = None, pr_topology = None, pr_fault = None\<rparr>"

definition blkid_clone_probe :: "chaindrv list \<Rightarrow> probe \<Rightarrow> probe" where
  "blkid_clone_probe drvs parent =
     (blkid_new_probe drvs)
       \<lparr>pr_medium := pr_medium parent, pr_area := (pr_area parent)\<lparr>ar_bufs := []\<rparr>,
        pr_parents := pr_area parent # pr_parents parent, pr_disk_devno := pr_disk_devno parent,
        pr_blkssz := pr_blkssz parent, pr_flags := pr_flags parent AND NOT BLKID_FL_PRIVATE_FD\<rparr>"

text \<open>
  \<open>blkid_probe_set_device\<close>, without the closing of a private descriptor. \<open>None\<close> is a
  failing \<open>fstat\<close>; the medium is what reads through the new descriptor deliver.
\<close>

definition set_size :: "devstat \<Rightarrow> int \<Rightarrow> int \<Rightarrow> int option" where
  "set_size st off sz =
     (if sz \<noteq> 0 then Some sz
      else
        let whole = (if S_ISBLK (ds_mode st) then ds_dev_size st
                     else if S_ISCHR (ds_mode st) then Some 1
                     else if S_ISREG (ds_mode st) then Some (ds_size st) else Some 0)
        in case whole of
             None \<Rightarrow> None
           | Some n \<Rightarrow> if off > n then None else Some (n - off))"

definition blkid_probe_set_device :: "medium \<Rightarrow> devstat option \<Rightarrow> int \<Rightarrow> int \<Rightarrow> int prober" where
  "blkid_probe_set_device md stat off sz =
     do {
       blkid_reset_probe;
       blkid_probe_reset_buffer;
       modify (\<lambda>pr. pr\<lparr>
         pr_flags := pr_flags pr AND NOT BLKID_FL_PRIVATE_FD AND NOT BLKID_FL_TINY_DEV
           AND NOT BLKID_FL_CDROM_DEV,
         pr_prob_flags := 0, pr_medium := md, pr_area := zero_area\<lparr>ar_off := off\<rparr>,
         pr_disk_devno := 0, pr_mode := 0, pr_blkssz := 0, pr_wipe_off := 0, pr_wipe_size := 0,
         pr_wipe_chain := None\<rparr>);
       case stat of
         None \<Rightarrow> ret (- 1)
       | Some st \<Rightarrow>
           let mode = ds_mode st in
           if \<not> S_ISBLK mode \<and> \<not> S_ISCHR mode \<and> \<not> S_ISREG mode then ret (- 1)
           else do {
             modify (\<lambda>pr. pr\<lparr>pr_mode := mode,
               pr_area := (if S_ISBLK mode \<or> S_ISCHR mode then (pr_area pr)\<lparr>ar_devno := ds_rdev st\<rparr>
                           else pr_area pr)\<rparr>);
             case set_size st off sz of
               None \<Rightarrow> ret (- 1)
             | Some n \<Rightarrow> do {
                 modify (\<lambda>pr. pr\<lparr>pr_area := (pr_area pr)\<lparr>ar_size := n\<rparr>\<rparr>);
                 (if n \<le> TINY_SIZE \<and> \<not> S_ISCHR mode
                  then modify (\<lambda>pr. pr\<lparr>pr_flags := pr_flags pr OR BLKID_FL_TINY_DEV\<rparr>) else ret ());
                 (if S_ISBLK mode \<and> ds_lvm_private st
                  then modify (\<lambda>pr. pr\<lparr>pr_flags := pr_flags pr OR BLKID_FL_NOSCAN_DEV\<rparr>)
                  else do {
                    tiny \<leftarrow> gets blkid_probe_is_tiny;
                    if S_ISBLK mode \<and> \<not> tiny then do {
                      whole \<leftarrow> blkid_probe_is_wholedisk;
                      if whole \<and> ds_cdrom st
                      then modify (\<lambda>pr. pr\<lparr>pr_flags := pr_flags pr OR BLKID_FL_CDROM_DEV\<rparr>) else ret ()
                    } else ret ()
                  });
                 ret 0
               }
           }
     }"

text \<open>\<open>blkid_new_probe_from_filename\<close>: \<open>None\<close> is the NULL of a file that cannot be opened
  or probed.\<close>

definition blkid_new_probe_from_filename ::
  "chaindrv list \<Rightarrow> (string \<Rightarrow> (medium \<times> devstat option) option) \<Rightarrow> string \<Rightarrow> probe option" where
  "blkid_new_probe_from_filename drvs files filename =
     (case files filename of
        None \<Rightarrow> None
      | Some (md, stat) \<Rightarrow>
          let (rc, pr) = run_state (blkid_probe_set_device md stat 0 0) (blkid_new_probe drvs) in
          if rc \<noteq> 0 then None else Some (pr\<lparr>pr_flags := pr_flags pr OR BLKID_FL_PRIVATE_FD\<rparr>))"

end
