(* ===== verification/ProbeFacts.thy ===== *)
theory ProbeFacts
  imports Probe
begin

text \<open>
  Facts on the probing control struct: invariants of computations on it (the locale
  \<open>prober_inv\<close>, which the probing functions of the other theories use), the well-formed
  structs, what the loops over the values compute, and the cache of buffers, which never
  changes what a probing function sees.
\<close>

section \<open>Invariants of computations\<close>

definition keeps :: "(probe \<Rightarrow> bool) \<Rightarrow> 'a prober \<Rightarrow> bool" where
  "keeps I m \<longleftrightarrow> (\<forall>pr. I pr \<longrightarrow> I (snd (run_state m pr)))"

named_theorems keeps_rules

lemma keepsI: "(\<And>pr. I pr \<Longrightarrow> I (snd (run_state m pr))) \<Longrightarrow> keeps I m"
  by (simp add: keeps_def)

lemma keepsD: "keeps I m \<Longrightarrow> I pr \<Longrightarrow> I (snd (run_state m pr))"
  by (simp add: keeps_def)

lemma keeps_run: "keeps I m \<Longrightarrow> run_state m pr = (x, pr') \<Longrightarrow> I pr \<Longrightarrow> I pr'"
  by (auto simp: keeps_def dest: spec [of _ pr])

lemma keeps_ret [keeps_rules]: "keeps I (ret x)"
  by (simp add: keeps_def)

lemma keeps_gets [keeps_rules]: "keeps I (gets f)"
  by (simp add: keeps_def)

lemma keeps_bind [keeps_rules]:
  "keeps I m \<Longrightarrow> (\<And>x. keeps I (f x)) \<Longrightarrow> keeps I (m \<bind> f)"
  by (auto simp: keeps_def split: prod.splits)

lemma keeps_if [keeps_rules]:
  "(b \<Longrightarrow> keeps I m) \<Longrightarrow> (\<not> b \<Longrightarrow> keeps I n) \<Longrightarrow> keeps I (if b then m else n)"
  by simp

lemma keeps_let [keeps_rules]: "(\<And>x. keeps I (f x)) \<Longrightarrow> keeps I (let x = a in f x)"
  by (simp add: Let_def)

lemma keeps_option [keeps_rules]:
  "keeps I m \<Longrightarrow> (\<And>y. a = Some y \<Longrightarrow> keeps I (f y)) \<Longrightarrow> keeps I (case a of None \<Rightarrow> m | Some y \<Rightarrow> f y)"
  by (cases a) auto

lemma keeps_buf [keeps_rules]:
  "(\<And>s. keeps I (f s)) \<Longrightarrow> (\<And>e. keeps I (g e)) \<Longrightarrow>
     keeps I (case b of Buf s \<Rightarrow> f s | NoBuf e \<Rightarrow> g e)"
  by (cases b) auto

lemma keeps_prod [keeps_rules]:
  "(\<And>x y. keeps I (f x y)) \<Longrightarrow> keeps I (case p of (x, y) \<Rightarrow> f x y)"
  by (cases p) auto

lemma keeps_modify: "(\<And>pr. I pr \<Longrightarrow> I (f pr)) \<Longrightarrow> keeps I (modify f)"
  by (simp add: keeps_def)

lemma keeps_list [keeps_rules]:
  "keeps I m \<Longrightarrow> (\<And>y ys. keeps I (f y ys)) \<Longrightarrow> keeps I (case a of [] \<Rightarrow> m | y # ys \<Rightarrow> f y ys)"
  by (cases a) auto

text \<open>
  The operations that a probing function calls. Whatever they keep, every probing function
  keeps: its code reaches the struct through them only. No probing function reports a value
  named TYPE, which is the chain's own.
\<close>

locale prober_inv =
  fixes I :: "probe \<Rightarrow> bool"
  assumes get_buffer: "keeps I (blkid_probe_get_buffer off len)"
    and assign_value: "name \<noteq> ''TYPE'' \<Longrightarrow> keeps I (blkid_probe_assign_value name)"
    and fill_value: "length bytes \<le> BLKID_PROBVAL_BUFSIZ \<Longrightarrow> keeps I (fill_value i bytes)"
    and reset_last_value: "keeps I blkid_probe_reset_last_value"
    and chain_reset_vals: "keeps I (blkid_probe_chain_reset_vals c)"
    and set_wiper: "keeps I (blkid_probe_set_wiper x y)"
    and wholedisk_devno: "keeps I blkid_probe_get_wholedisk_devno"
    and sectorsize: "keeps I blkid_probe_get_sectorsize"
    and fault: "keeps I (fault (Undefined u))"
begin

lemmas primitives = get_buffer reset_last_value chain_reset_vals set_wiper wholedisk_devno
  sectorsize fault

lemma get_sector: "keeps I (blkid_probe_get_sector n)"
  unfolding blkid_probe_get_sector_def by (rule get_buffer)

lemma is_wholedisk: "keeps I blkid_probe_is_wholedisk"
  unfolding blkid_probe_is_wholedisk_def by (intro keeps_rules primitives)

lemma set_value: "name \<noteq> ''TYPE'' \<Longrightarrow> keeps I (blkid_probe_set_value name bytes)"
  unfolding blkid_probe_set_value_def
  by (intro keeps_rules primitives assign_value fill_value) simp_all

lemma vsprintf_value: "name \<noteq> ''TYPE'' \<Longrightarrow> keeps I (blkid_probe_vsprintf_value name text)"
  unfolding blkid_probe_vsprintf_value_def
  by (intro keeps_rules primitives assign_value fill_value) simp_all

lemma sprintf_value: "name \<noteq> ''TYPE'' \<Longrightarrow> keeps I (blkid_probe_sprintf_value name text)"
  unfolding blkid_probe_sprintf_value_def by (rule vsprintf_value)

lemma use_wiper: "keeps I (blkid_probe_use_wiper x y)"
  unfolding blkid_probe_use_wiper_def by (intro keeps_rules primitives)

lemma flags: "keeps I chain_flags"
  unfolding chain_flags_def by (intro keeps_rules primitives)

lemma verify_csum: "keeps I (blkid_probe_verify_csum x y)"
  unfolding blkid_probe_verify_csum_def by (intro keeps_rules primitives set_value) simp_all

lemma set_magic: "keeps I (blkid_probe_set_magic x y)"
  unfolding blkid_probe_set_magic_def Let_def
  by (intro keeps_rules primitives set_value sprintf_value) simp_all

lemma get_sb: "keeps I (blkid_probe_get_sb mag n)"
  unfolding blkid_probe_get_sb_def by (intro keeps_rules primitives)

lemma idmags: "keeps I (idmag_loop mags)"
  by (induction mags) (auto intro!: keeps_rules primitives)

lemma get_idmag: "keeps I (blkid_probe_get_idmag ii)"
  unfolding blkid_probe_get_idmag_def by (intro keeps_rules idmags)

lemmas operations = primitives get_sector is_wholedisk set_value vsprintf_value sprintf_value
  use_wiper flags verify_csum set_magic get_sb get_idmag

end

section \<open>The loops over the values\<close>

lemma compact_vals_filter:
  assumes "i + k = length vals" and "x \<le> i" and "nvals + i = length vals + x"
    and "compact_vals k i x vals nvals c = (vals', n')"
  shows "take n' vals' = take x vals @ filter (\<lambda>v. pv_chain v \<noteq> Some c) (drop i vals)"
  using assms
proof (induction k i x vals nvals c rule: compact_vals.induct)
  case (1 i x vals nvals c)
  then show ?case by simp
next
  case (2 k i x vals nvals c)
  let ?P = "\<lambda>v. pv_chain v \<noteq> Some c"
  have i: "i < length vals" using 2(4) by simp
  then have d: "drop i vals = vals ! i # drop (Suc i) vals" by (simp add: Cons_nth_drop_Suc)
  consider "?P (vals ! i)" "x = i" | "\<not> ?P (vals ! i)" | "?P (vals ! i)" "x < i"
    using 2(5) by linarith
  then show ?case
  proof cases
    case 1
    then have "take n' vals' = take (x + 1) vals @ filter ?P (drop (i + 1) vals)"
      using 2(4-7) i by (intro 2(1) [OF refl]) (simp_all add: Let_def)
    then show ?thesis using 1 i d by (simp add: take_Suc_conv_app_nth)
  next
    case 2
    then have "take n' vals' = take x vals @ filter ?P (drop (i + 1) vals)"
      using "2.prems" i by (intro "2.IH"(2) [OF refl]) (simp_all add: Let_def)
    then show ?thesis using 2 d by simp
  next
    case 3
    then have "take n' vals' = take (x + 1) (vals[x := vals ! i]) @ filter ?P (drop (i + 1) (vals[x := vals ! i]))"
      using "2.prems" i by (intro "2.IH"(3) [OF refl]) (simp_all add: Let_def)
    then show ?thesis using 3 i d by (simp add: take_Suc_conv_app_nth)
  qed
qed

lemma chain_reset_vals_filter:
  "run_state (blkid_probe_chain_reset_vals c) pr =
     ((), pr\<lparr>pr_vals := filter (\<lambda>v. pv_chain v \<noteq> Some c) (pr_vals pr)\<rparr>)"
proof -
  obtain vals n where e: "compact_vals (length (pr_vals pr)) 0 0 (pr_vals pr) (length (pr_vals pr)) c = (vals, n)"
    by (meson surj_pair)
  have "take n vals = filter (\<lambda>v. pv_chain v \<noteq> Some c) (pr_vals pr)"
    using compact_vals_filter [OF _ _ _ e] by simp
  then show ?thesis by (simp add: blkid_probe_chain_reset_vals_def Let_def e)
qed

lemma append_loop_take: "length acc \<le> BLKID_NVALS \<Longrightarrow> append_loop vals acc = take BLKID_NVALS (acc @ vals)"
  by (induction vals acc rule: append_loop.induct) (auto simp: take_Cons' not_less)

section \<open>Well-formed structs\<close>

text \<open>
  The array of values and the buffer of each value are never overrun, and pointers to chains
  point into the struct.
\<close>

definition probe_wf :: "probe \<Rightarrow> bool" where
  "probe_wf pr \<longleftrightarrow>
     length (pr_vals pr) \<le> BLKID_NVALS \<and>
     (\<forall>v \<in> set (pr_vals pr). length (pv_data v) \<le> BLKID_PROBVAL_BUFSIZ) \<and>
     length (pr_chains pr) = BLKID_NCHAINS \<and>
     (\<forall>i < BLKID_NCHAINS. cd_id (ch_driver (pr_chains pr ! i)) = i) \<and>
     (\<forall>c. pr_cur_chain pr = Some c \<longrightarrow> c < BLKID_NCHAINS) \<and>
     (\<forall>c. pr_wipe_chain pr = Some c \<longrightarrow> c < BLKID_NCHAINS)"

lemma get_buffer_fields:
  "pr_vals (snd (run_state (blkid_probe_get_buffer off len) pr)) = pr_vals pr"
  "pr_chains (snd (run_state (blkid_probe_get_buffer off len) pr)) = pr_chains pr"
  "pr_cur_chain (snd (run_state (blkid_probe_get_buffer off len) pr)) = pr_cur_chain pr"
  "pr_wipe_chain (snd (run_state (blkid_probe_get_buffer off len) pr)) = pr_wipe_chain pr"
  "pr_flags (snd (run_state (blkid_probe_get_buffer off len) pr)) = pr_flags pr"
  "pr_prob_flags (snd (run_state (blkid_probe_get_buffer off len) pr)) = pr_prob_flags pr"
  "pr_mode (snd (run_state (blkid_probe_get_buffer off len) pr)) = pr_mode pr"
  "pr_medium (snd (run_state (blkid_probe_get_buffer off len) pr)) = pr_medium pr"
  "pr_fault (snd (run_state (blkid_probe_get_buffer off len) pr)) = pr_fault pr"
  by (simp_all add: blkid_probe_get_buffer_def split_beta)

lemma wf_get_buffer: "keeps probe_wf (blkid_probe_get_buffer off len)"
  by (rule keepsI) (simp add: probe_wf_def get_buffer_fields)

lemma wf_assign_value: "keeps probe_wf (blkid_probe_assign_value name)"
  by (rule keepsI) (auto simp: probe_wf_def blkid_probe_assign_value_def)

lemma wf_fill_value:
  assumes "length bytes \<le> BLKID_PROBVAL_BUFSIZ"
  shows "keeps probe_wf (fill_value i bytes)"
proof (rule keepsI)
  fix pr assume w: "probe_wf pr"
  have "length (pv_data v) \<le> BLKID_PROBVAL_BUFSIZ"
    if "v \<in> set ((pr_vals pr)[i := (pr_vals pr ! i)\<lparr>pv_data := bytes\<rparr>])" for v
    using that w assms set_update_subset_insert [of "pr_vals pr" i] by (force simp: probe_wf_def)
  then show "probe_wf (snd (run_state (fill_value i bytes) pr))"
    using w by (simp add: probe_wf_def fill_value_def)
qed

lemma wf_reset_last_value: "keeps probe_wf blkid_probe_reset_last_value"
  by (rule keepsI) (auto simp: probe_wf_def blkid_probe_reset_last_value_def dest: in_set_butlastD)

lemma wf_chain_reset_vals: "keeps probe_wf (blkid_probe_chain_reset_vals c)"
  by (rule keepsI)
     (auto simp: probe_wf_def chain_reset_vals_filter intro: order_trans [OF length_filter_le])

lemma wf_set_wiper: "keeps probe_wf (blkid_probe_set_wiper off sz)"
  by (rule keepsI) (auto simp: probe_wf_def blkid_probe_set_wiper_def Let_def split: option.splits)

lemma wf_wholedisk_devno: "keeps probe_wf blkid_probe_get_wholedisk_devno"
  by (rule keepsI)
     (auto simp: probe_wf_def blkid_probe_get_wholedisk_devno_def split: option.splits)

lemma wf_sectorsize: "keeps probe_wf blkid_probe_get_sectorsize"
  by (rule keepsI) (auto simp: probe_wf_def blkid_probe_get_sectorsize_def split: option.splits)

lemma wf_fault: "keeps probe_wf (fault e)"
  unfolding fault_def by (rule keeps_modify) (simp add: probe_wf_def)

interpretation wf: prober_inv probe_wf
  by unfold_locales
     (intro wf_get_buffer wf_assign_value wf_fill_value wf_reset_last_value wf_chain_reset_vals
       wf_set_wiper wf_wholedisk_devno wf_sectorsize wf_fault | assumption)+

section \<open>The cache of buffers\<close>

definition dev_bytes :: "string \<Rightarrow> int \<Rightarrow> int \<Rightarrow> string" where
  "dev_bytes content pos len = take (nat len) (drop (nat pos) content)"

text \<open>
  A medium with a fixed content: seeks to negative positions fail, and a read that delivers
  all the bytes it was asked for delivers the content. Reads may fail or fall short.
\<close>

definition reads_agree :: "string \<Rightarrow> medium \<Rightarrow> bool" where
  "reads_agree content m \<longleftrightarrow>
     (\<forall>pos. md_seek m pos \<longrightarrow> 0 \<le> pos) \<and>
     (\<forall>pos len bytes. 0 \<le> pos \<longrightarrow> md_read m pos len = Inr bytes \<longrightarrow> int (length bytes) = len \<longrightarrow>
        bytes = dev_bytes content pos len)"

lemma reads_agreeD:
  assumes "reads_agree content m" and "md_seek m pos" and "md_read m pos len = Inr bytes"
    and "int (length bytes) = len"
  shows "0 \<le> pos" and "bytes = dev_bytes content pos len"
  using assms unfolding reads_agree_def by blast+

text \<open>Every buffer of the area holds what the medium has at its position.\<close>

definition buf_ok :: "string \<Rightarrow> int \<Rightarrow> bufinfo \<Rightarrow> bool" where
  "buf_ok content base bf \<longleftrightarrow>
     bf_len bf = int (length (bf_data bf)) \<and> 0 \<le> base + bf_off bf \<and>
     bf_data bf = dev_bytes content (base + bf_off bf) (bf_len bf)"

definition coherent :: "string \<Rightarrow> area \<Rightarrow> bool" where
  "coherent content a \<longleftrightarrow> (\<forall>bf \<in> set (ar_bufs a). buf_ok content (ar_off a) bf)"

definition starts_inside :: "area \<Rightarrow> bool" where
  "starts_inside a \<longleftrightarrow> (\<forall>bf \<in> set (ar_bufs a). 0 \<le> bf_off bf)"

definition areas :: "probe \<Rightarrow> area set" where
  "areas pr = insert (pr_area pr) (set (pr_parents pr))"

definition cache_ok :: "string \<Rightarrow> probe \<Rightarrow> bool" where
  "cache_ok content pr \<longleftrightarrow>
     reads_agree content (pr_medium pr) \<and> (\<forall>a \<in> areas pr. coherent content a)"

lemma buf_at_slice:
  assumes ok: "buf_ok content base bf" and "buf_holds off len bf" and "0 \<le> bf_off bf" and "0 \<le> len"
  shows "buf_at bf off len = dev_bytes content (base + off) len \<and> int (length (buf_at bf off len)) = len"
proof -
  have h: "bf_off bf \<le> off" "off + len \<le> bf_off bf + bf_len bf"
    using assms(2) by (simp_all add: buf_holds_def)
  have l: "bf_len bf = int (length (bf_data bf))" and p: "0 \<le> base + bf_off bf"
    and d: "bf_data bf = dev_bytes content (base + bf_off bf) (bf_len bf)"
    using ok unfolding buf_ok_def by blast+
  have b: "buf_at bf off len = take (nat len) (drop (nat (off - bf_off bf)) (bf_data bf))"
    using assms(3) h by (simp add: buf_at_def)
  have n: "nat (base + off) = nat (base + bf_off bf) + nat (off - bf_off bf)"
    using p h(1) by simp
  have "nat len \<le> nat (bf_len bf) - nat (off - bf_off bf)" using h assms(3) by linarith
  then have "take (nat len) (drop (nat (off - bf_off bf)) (take (nat (bf_len bf)) (drop (nat (base + bf_off bf)) content))) =
      take (nat len) (drop (nat (base + bf_off bf) + nat (off - bf_off bf)) content)"
    by (simp only: drop_take take_take min.absorb1 drop_drop add.commute)
  then have "buf_at bf off len = dev_bytes content (base + off) len"
    unfolding b by (subst d) (simp only: dev_bytes_def n)
  moreover have "nat len \<le> length (bf_data bf) - nat (off - bf_off bf)"
    using h l assms(3) by linarith
  then have "int (length (buf_at bf off len)) = len"
    unfolding b using assms(4) by simp
  ultimately show ?thesis by simp
qed

text \<open>What \<open>own_buffer\<close> does to the area: nothing, or it keeps the bytes it has just read.\<close>

lemma own_buffer_cases:
  assumes "own_buffer m a off len = (b, a')"
  obtains "a' = a"
  | bytes where "md_seek m (ar_off a + off)" "md_read m (ar_off a + off) len = Inr bytes"
      "int (length bytes) = len"
      "a' = a\<lparr>ar_bufs := ar_bufs a @ [\<lparr>bf_off = off, bf_len = len, bf_data = bytes\<rparr>]\<rparr>"
proof (cases "find (buf_holds off len) (ar_bufs a)")
  case None
  show ?thesis
  proof (cases "md_read m (ar_off a + off) len")
    case (Inl e)
    then show ?thesis using assms None that(1) by (simp add: own_buffer_def split: if_splits)
  next
    case (Inr bytes)
    then show ?thesis using assms None that
      by (simp add: own_buffer_def Let_def split: if_splits)
  qed
next
  case (Some bf)
  then show ?thesis using assms that(1) by (simp add: own_buffer_def)
qed

lemma own_buffer_coherent:
  assumes "reads_agree content m" and "coherent content a" and "own_buffer m a off len = (b, a')"
  shows "coherent content a' \<and> ar_off a' = ar_off a \<and> ar_size a' = ar_size a \<and> ar_devno a' = ar_devno a"
  using assms(3)
proof (cases rule: own_buffer_cases)
  case 1
  then show ?thesis using assms(2) by simp
next
  case (2 bytes)
  note new = reads_agreeD [OF assms(1) 2(1-3)]
  have "buf_ok content (ar_off a) \<lparr>bf_off = off, bf_len = len, bf_data = bytes\<rparr>"
    by (simp add: buf_ok_def 2(3) new(1) new(2) [symmetric])
  then show ?thesis using assms(2) by (simp add: 2(4) coherent_def)
qed

lemma own_buffer_reads:
  assumes "reads_agree content m" and "coherent content a" and "starts_inside a"
    and "own_buffer m a off len = (Buf s, a')" and "0 \<le> len"
  shows "s = dev_bytes content (ar_off a + off) len \<and> int (length s) = len"
proof (cases "find (buf_holds off len) (ar_bufs a)")
  case None
  then obtain bytes where b: "md_seek m (ar_off a + off)" "md_read m (ar_off a + off) len = Inr bytes"
      "int (length bytes) = len" "s = buf_at \<lparr>bf_off = off, bf_len = len, bf_data = bytes\<rparr> off len"
    using assms(4) None by (simp add: own_buffer_def Let_def split: sum.splits if_splits)
  have "bytes = dev_bytes content (ar_off a + off) len"
    using reads_agreeD [OF assms(1) b(1-3)] by simp
  moreover have "s = bytes" using b(3,4) by (simp add: buf_at_def)
  ultimately show ?thesis using b(3) by simp
next
  case (Some bf)
  then have s: "s = buf_at bf off len" using assms(4) by (simp add: own_buffer_def)
  have h: "bf \<in> set (ar_bufs a)" "buf_holds off len bf"
    using Some by (auto simp: find_Some_iff in_set_conv_nth)
  then have "buf_ok content (ar_off a) bf" "0 \<le> bf_off bf"
    using assms(2,3) unfolding coherent_def starts_inside_def by blast+
  then show ?thesis unfolding s by (rule buf_at_slice [OF _ h(2) _ assms(5)])
qed

lemma area_buffer_coherent:
  assumes "reads_agree content m" and "\<forall>x \<in> insert a (set ps). coherent content x"
    and "area_buffer m a ps off len = (b, a', ps')"
  shows "(\<forall>x \<in> insert a' (set ps'). coherent content x) \<and>
    ar_off a' = ar_off a \<and> ar_size a' = ar_size a \<and> ar_devno a' = ar_devno a"
  using assms
proof (induction m a ps off len arbitrary: b a' ps' rule: area_buffer.induct)
  case (1 m a off len)
  then show ?case
    using own_buffer_coherent [of content m a off len]
    by (simp split: if_splits prod.splits)
next
  case (2 m a p ps off len)
  show ?case
  proof (cases "ar_size a \<le> 0")
    case True
    then show ?thesis using 2(3,4) by auto
  next
    case False
    show ?thesis
    proof (cases "shares p a")
      case True
      obtain b1 p1 ps1 where e: "area_buffer m p ps (ar_off a + off - ar_off p) len = (b1, p1, ps1)"
        by (metis surj_pair)
      then have "a' = a" "ps' = p1 # ps1" using 2(4) False True by simp_all
      moreover have "\<forall>x \<in> insert p1 (set ps1). coherent content x"
        using 2(1) [OF False True 2(2) _ e] 2(3) by simp
      ultimately show ?thesis using 2(3) by auto
    next
      case no: False
      obtain b1 a1 where e: "own_buffer m a off len = (b1, a1)" by (metis surj_pair)
      then have "a' = a1" "ps' = p # ps" using 2(4) False no by simp_all
      moreover have "coherent content a" using 2(3) by simp
      ultimately show ?thesis
        using own_buffer_coherent [OF 2(2) _ e] 2(3) by auto
    qed
  qed
qed

lemma area_buffer_reads:
  assumes "reads_agree content m" and "\<forall>x \<in> insert a (set ps). coherent content x \<and> starts_inside x"
    and "area_buffer m a ps off len = (Buf s, a', ps')" and "0 \<le> len"
  shows "s = dev_bytes content (ar_off a + off) len \<and> int (length s) = len"
  using assms
proof (induction m a ps off len arbitrary: a' ps' rule: area_buffer.induct)
  case (1 m a off len)
  then obtain x where "own_buffer m a off len = (Buf s, x)" by (auto split: if_splits prod.splits)
  then show ?case using own_buffer_reads 1 by blast
next
  case (2 m a p ps off len)
  have pos: "\<not> ar_size a \<le> 0" using 2(4) by auto
  show ?case
  proof (cases "shares p a")
    case True
    obtain b1 p1 ps1 where e: "area_buffer m p ps (ar_off a + off - ar_off p) len = (b1, p1, ps1)"
      by (metis surj_pair)
    then have b1: "b1 = Buf s" using 2(4) pos True by simp
    have "\<forall>x \<in> insert p (set ps). coherent content x \<and> starts_inside x" using 2(3) by simp
    note r = 2(1) [OF pos True 2(2) this e [unfolded b1] 2(5)]
    have eq: "ar_off p + (ar_off a + off - ar_off p) = ar_off a + off" by simp
    show ?thesis using r unfolding eq .
  next
    case False
    obtain b1 a1 where e: "own_buffer m a off len = (b1, a1)" by (metis surj_pair)
    then have b1: "b1 = Buf s" using 2(4) pos False by simp
    have "coherent content a" "starts_inside a" using 2(3) by simp_all
    from own_buffer_reads [OF 2(2) this e [unfolded b1] 2(5)] show ?thesis .
  qed
qed

lemma get_buffer_run:
  "run_state (blkid_probe_get_buffer off len) pr =
     (case area_buffer (pr_medium pr) (pr_area pr) (pr_parents pr) off len of
        (b, a, ps) \<Rightarrow> (b, pr\<lparr>pr_area := a, pr_parents := ps\<rparr>))"
  by (simp add: blkid_probe_get_buffer_def)

lemma cache_get_buffer: "keeps (cache_ok content) (blkid_probe_get_buffer off len)"
proof (rule keepsI)
  fix pr assume c: "cache_ok content pr"
  obtain b a ps where e: "area_buffer (pr_medium pr) (pr_area pr) (pr_parents pr) off len = (b, a, ps)"
    by (metis surj_pair)
  have "\<forall>x \<in> insert a (set ps). coherent content x"
    using area_buffer_coherent [OF _ _ e] c by (simp add: cache_ok_def areas_def)
  then show "cache_ok content (snd (run_state (blkid_probe_get_buffer off len) pr))"
    using c by (simp add: get_buffer_run e cache_ok_def areas_def)
qed

lemma cache_no_change:
  assumes "\<And>pr. pr_medium (snd (run_state m pr)) = pr_medium pr" and "\<And>pr. areas (snd (run_state m pr)) = areas pr"
  shows "keeps (cache_ok content) m"
  by (rule keepsI) (simp add: cache_ok_def assms)

interpretation cache: prober_inv "cache_ok content" for content
  by unfold_locales
     (rule cache_get_buffer,
      (rule cache_no_change;
        simp add: areas_def blkid_probe_assign_value_def fill_value_def blkid_probe_reset_last_value_def
          chain_reset_vals_filter blkid_probe_set_wiper_def blkid_probe_get_wholedisk_devno_def
          blkid_probe_get_sectorsize_def fault_def Let_def split: option.splits)+)

text \<open>Which bytes a probing function sees when it is given a buffer.\<close>

lemma get_buffer_bytes:
  assumes "cache_ok content pr" and "\<forall>a \<in> areas pr. starts_inside a" and "0 \<le> len"
    and "fst (run_state (blkid_probe_get_buffer off len) pr) = Buf s"
  shows "s = dev_bytes content (pr_off pr + off) len \<and> int (length s) = len"
proof -
  obtain b a ps where e: "area_buffer (pr_medium pr) (pr_area pr) (pr_parents pr) off len = (b, a, ps)"
    by (metis surj_pair)
  then have "b = Buf s" using assms(4) by (simp add: get_buffer_run)
  have "reads_agree content (pr_medium pr)"
    and "\<forall>x \<in> insert (pr_area pr) (set (pr_parents pr)). coherent content x \<and> starts_inside x"
    using assms(1,2) by (simp_all add: cache_ok_def areas_def)
  from area_buffer_reads [OF this e [unfolded \<open>b = Buf s\<close>] assms(3)]
  show ?thesis unfolding pr_off_def .
qed

text \<open>A medium that is an image: every part of it can be read, and nothing behind its end.\<close>

definition image_medium :: "string \<Rightarrow> medium" where
  "image_medium content =
     \<lparr>md_seek = (\<lambda>pos. 0 \<le> pos), md_alloc = (\<lambda>_. True),
      md_read = (\<lambda>pos len. Inr (dev_bytes content pos len)), md_sector_size = None,
      md_wholedisk = (\<lambda>_. None)\<rparr>"

lemma image_reads_agree: "reads_agree content (image_medium content)"
  by (simp add: reads_agree_def image_medium_def)

lemma dev_bytes_length: "0 \<le> pos \<Longrightarrow> 0 < len \<Longrightarrow> int (length (dev_bytes content pos len)) = len \<longleftrightarrow> pos + len \<le> int (length content)"
  by (auto simp: dev_bytes_def)

text \<open>What a read without a cache would deliver.\<close>

definition direct_read :: "string \<Rightarrow> int \<Rightarrow> int \<Rightarrow> buf" where
  "direct_read content pos len =
     (if pos + len \<le> int (length content) then Buf (dev_bytes content pos len) else NoBuf 0)"

lemma own_buffer_image:
  assumes "coherent content a" and "starts_inside a" and "0 \<le> ar_off a + off" and "0 < len"
    and "len \<le> ULONG_MAX - sizeof_bufinfo"
  shows "fst (own_buffer (image_medium content) a off len) = direct_read content (ar_off a + off) len"
proof (cases "find (buf_holds off len) (ar_bufs a)")
  case None
  then show ?thesis using assms(3-5) dev_bytes_length [OF assms(3,4), of content]
    by (simp add: own_buffer_def direct_read_def image_medium_def Let_def buf_at_def dev_bytes_def)
next
  case (Some bf)
  then have e: "own_buffer (image_medium content) a off len = (Buf (buf_at bf off len), a)"
    by (simp add: own_buffer_def)
  have "0 \<le> len" using assms(4) by simp
  note r = own_buffer_reads [OF image_reads_agree assms(1,2) e this]
  then have b: "buf_at bf off len = dev_bytes content (ar_off a + off) len" by (rule conjunct1)
  have l: "int (length (dev_bytes content (ar_off a + off) len)) = len"
    using conjunct2 [OF r] unfolding b .
  show ?thesis using l unfolding dev_bytes_length [OF assms(3,4)] by (simp add: e b direct_read_def)
qed

lemma area_buffer_image:
  assumes "\<forall>x \<in> insert a (set ps). coherent content x \<and> starts_inside x"
    and "0 < ar_size a" and "0 \<le> ar_off a + off" and "0 < len" and "len \<le> ULONG_MAX - sizeof_bufinfo"
  shows "fst (area_buffer (image_medium content) a ps off len) = direct_read content (ar_off a + off) len"
  using assms
proof (induction ps arbitrary: a off)
  case Nil
  then show ?case
    using own_buffer_image [of content a off len] by (simp add: split_beta)
next
  case (Cons p ps)
  show ?case
  proof (cases "shares p a")
    case True
    then have "0 < ar_size p" using Cons.prems(2) by (simp add: shares_def)
    then have "fst (area_buffer (image_medium content) p ps (ar_off a + off - ar_off p) len) =
        direct_read content (ar_off a + off) len"
      using Cons.IH [of p "ar_off a + off - ar_off p"] Cons.prems by simp
    then show ?thesis using True Cons.prems(2) by (simp add: split_beta)
  next
    case False
    then show ?thesis
      using own_buffer_image [of content a off len] Cons.prems by (simp add: split_beta)
  qed
qed

section \<open>Properties\<close>



end
