(* ===== verification/Encode.thy ===== *)
theory Encode
  imports CNumber "HOL-Library.Word"
begin

unbundle bit_operations_syntax

text \<open>
  The encodings of src/lib/libblkid/src/encode.c: the UTF-16 labels of file systems as UTF-8,
  the strings that udev may see, with everything unsafe escaped or replaced, and the check of
  UTF-8 sequences that both rely on.
\<close>

section \<open>UTF-8 sequences\<close>

text \<open>The byte of a C string at a position; the terminating NUL is behind its last character.\<close>

definition byte_at :: "string \<Rightarrow> nat \<Rightarrow> nat" where
  "byte_at s i = (if i < length s then of_char (s ! i) else 0)"

definition utf8_encoded_expected_len :: "string \<Rightarrow> nat" where
  "utf8_encoded_expected_len s =
     (let c = byte_at s 0 in
      if c < 0x80 then 1
      else if c AND 0xe0 = 0xc0 then 2
      else if c AND 0xf0 = 0xe0 then 3
      else if c AND 0xf8 = 0xf0 then 4
      else if c AND 0xfc = 0xf8 then 5
      else if c AND 0xfe = 0xfc then 6
      else 0)"

text \<open>The loop over the bytes behind the first: \<open>n\<close> of them are left, from \<open>i\<close> on.\<close>

fun unichar_loop :: "string \<Rightarrow> nat \<Rightarrow> nat \<Rightarrow> int \<Rightarrow> int" where
  "unichar_loop s i 0 unichar = unichar"
| "unichar_loop s i (Suc n) unichar =
     (if byte_at s i AND 0xc0 \<noteq> 0x80 then - 1
      else unichar_loop s (i + 1) n (push_bit 6 unichar OR int (byte_at s i AND 0x3f)))"

definition utf8_encoded_to_unichar :: "string \<Rightarrow> int" where
  "utf8_encoded_to_unichar s =
     (let len = utf8_encoded_expected_len s; c = byte_at s 0 in
      if len = 1 then int c
      else if len = 2 then unichar_loop s 1 (len - 1) (int (c AND 0x1f))
      else if len = 3 then unichar_loop s 1 (len - 1) (int (c AND 0x0f))
      else if len = 4 then unichar_loop s 1 (len - 1) (int (c AND 0x07))
      else if len = 5 then unichar_loop s 1 (len - 1) (int (c AND 0x03))
      else if len = 6 then unichar_loop s 1 (len - 1) (int (c AND 0x01))
      else - 1)"

definition utf8_unichar_to_encoded_len :: "int \<Rightarrow> nat" where
  "utf8_unichar_to_encoded_len unichar =
     (if unichar < 0x80 then 1
      else if unichar < 0x800 then 2
      else if unichar < 0x10000 then 3
      else if unichar < 0x200000 then 4
      else if unichar < 0x4000000 then 5
      else 6)"

definition utf8_unichar_valid_range :: "int \<Rightarrow> bool" where
  "utf8_unichar_valid_range unichar \<longleftrightarrow>
     \<not> unichar > 0x10ffff \<and> \<not> unichar AND 0xfffff800 = 0xd800 \<and>
     \<not> (unichar > 0xfdcf \<and> unichar < 0xfdf0) \<and> \<not> unichar AND 0xffff = 0xffff"

text \<open>The result is the length of the sequence, or \<open>- 1\<close>.\<close>

definition utf8_encoded_valid_unichar :: "string \<Rightarrow> int" where
  "utf8_encoded_valid_unichar s =
     (let len = utf8_encoded_expected_len s in
      if len = 0 then - 1
      else if len = 1 then 1
      else if \<not> list_all (\<lambda>i. byte_at s i AND 0x80 = 0x80) [0..<len] then - 1
      else
        let unichar = utf8_encoded_to_unichar s in
        if utf8_unichar_to_encoded_len unichar \<noteq> len then - 1
        else if \<not> utf8_unichar_valid_range unichar then - 1
        else int len)"

text \<open>A sequence of more than one byte lies inside the string, and none of its bytes is ASCII.\<close>

lemma and_high:
  fixes c :: nat
  assumes "c < 2 ^ (k + m)"
  shows "c AND push_bit k (mask m) = 2 ^ k * (c div 2 ^ k)"
proof -
  have c: "bit c i \<Longrightarrow> i < k + m" for i
    using assms by (metis bit_take_bit_iff take_bit_nat_eq_self)
  have "c AND push_bit k (mask m) = push_bit k (drop_bit k c)"
    by (rule bit_eqI) (auto simp: bit_and_iff bit_push_bit_iff bit_mask_iff bit_drop_bit_eq dest: c)
  then show ?thesis by (simp add: push_bit_eq_mult drop_bit_eq_div mult.commute)
qed

lemma byte_mask:
  fixes c :: nat
  assumes "c < 256" and "k + m = 8"
  shows "c AND (2 ^ k * (2 ^ m - 1)) = 2 ^ k * (c div 2 ^ k)"
proof -
  have "c < 2 ^ (k + m)" using assms by simp
  from and_high [OF this] show ?thesis
    by (simp only: push_bit_eq_mult mask_eq_exp_minus_1) (simp only: mult.commute)
qed

lemma byte_masks:
  assumes "c < (256 :: nat)"
  shows "c AND 0x80 = 128 * (c div 128)" "c AND 0xc0 = 64 * (c div 64)" "c AND 0xe0 = 32 * (c div 32)"
    "c AND 0xf0 = 16 * (c div 16)" "c AND 0xf8 = 8 * (c div 8)" "c AND 0xfc = 4 * (c div 4)"
    "c AND 0xfe = 2 * (c div 2)"
proof -
  show "c AND 0x80 = 128 * (c div 128)" using byte_mask [OF assms, of 7 1] by simp
  show "c AND 0xc0 = 64 * (c div 64)" using byte_mask [OF assms, of 6 2] by simp
  show "c AND 0xe0 = 32 * (c div 32)" using byte_mask [OF assms, of 5 3] by simp
  show "c AND 0xf0 = 16 * (c div 16)" using byte_mask [OF assms, of 4 4] by simp
  show "c AND 0xf8 = 8 * (c div 8)" using byte_mask [OF assms, of 3 5] by simp
  show "c AND 0xfc = 4 * (c div 4)" using byte_mask [OF assms, of 2 6] by simp
  show "c AND 0xfe = 2 * (c div 2)" using byte_mask [OF assms, of 1 7] by simp
qed

lemma low_masks:
  "c AND 0x3f = c mod 64" "c AND 0x1f = c mod 32" "c AND 0x0f = c mod (16 :: nat)"
  using take_bit_eq_mask [of 6 c] take_bit_eq_mask [of 5 c] take_bit_eq_mask [of 4 c]
  by (simp_all add: take_bit_eq_mod mask_eq_exp_minus_1)

lemma high_bit: "c < 256 \<Longrightarrow> c AND 0x80 = (0x80 :: nat) \<longleftrightarrow> 0x80 \<le> c"
  by (simp add: byte_masks) linarith

lemma byte_at_less: "byte_at s i < 256"
  by (simp add: byte_at_def)

lemma valid_unichar_bytes:
  assumes "utf8_encoded_valid_unichar s = int n" and "1 < n"
  shows "n \<le> length s" and "i < n \<Longrightarrow> 128 \<le> (of_char (s ! i) :: nat)" and "utf8_encoded_expected_len s = n"
proof -
  have l: "utf8_encoded_expected_len s = n" and h: "\<forall>i < n. 128 \<le> byte_at s i"
    using assms high_bit [OF byte_at_less [of s]]
    by (auto simp: utf8_encoded_valid_unichar_def Let_def list_all_iff split: if_splits)
  show "utf8_encoded_expected_len s = n" by (fact l)
  have inside: "i < length s" if "i < n" for i
    using h that by (auto simp: byte_at_def split: if_splits)
  from inside [of "n - 1"] assms(2) show "n \<le> length s" by simp
  show "128 \<le> (of_char (s ! i) :: nat)" if "i < n"
    using h inside [OF that] that by (auto simp: byte_at_def split: if_splits)
qed

section \<open>Labels in UTF-16\<close>

definition BLKID_ENC_UTF16BE :: nat where "BLKID_ENC_UTF16BE = 0"
definition BLKID_ENC_UTF16LE :: nat where "BLKID_ENC_UTF16LE = 1"

definition utf16_unit :: "nat \<Rightarrow> char \<Rightarrow> char \<Rightarrow> nat" where
  "utf16_unit enc a b =
     (if enc = BLKID_ENC_UTF16LE then of_char b * 256 + of_char a else of_char a * 256 + of_char b)"

text \<open>The bytes that stand for one 16 bit unit.\<close>

definition utf8_bytes :: "nat \<Rightarrow> string" where
  "utf8_bytes c =
     (if c < 0x80 then [char_of c]
      else if c < 0x800 then [char_of (0xc0 OR drop_bit 6 c), char_of (0x80 OR (c AND 0x3f))]
      else [char_of (0xe0 OR drop_bit 12 c), char_of (0x80 OR (drop_bit 6 c AND 0x3f)),
            char_of (0x80 OR (c AND 0x3f))])"

text \<open>
  The loop over \<open>src\<close>, of which two bytes are taken at a time, with \<open>j\<close> bytes written to
  \<open>dest\<close>. The result is the string that is written from there on.
\<close>

fun encode_units :: "nat \<Rightarrow> nat \<Rightarrow> string \<Rightarrow> nat \<Rightarrow> string" where
  "encode_units enc len (a # b # src) j =
     (let c = utf16_unit enc a b in
      if c = 0 then []
      else if j + length (utf8_bytes c) \<ge> len then []
      else utf8_bytes c @ encode_units enc len src (j + length (utf8_bytes c)))"
| "encode_units enc len src j = []"

definition blkid_encode_to_utf8 :: "nat \<Rightarrow> nat \<Rightarrow> string \<Rightarrow> string" where
  "blkid_encode_to_utf8 enc len src = encode_units enc len src 0"

lemma encode_units_bound: "j < len \<Longrightarrow> j + length (encode_units enc len src j) < len"
proof (induction enc len src j rule: encode_units.induct)
  case (1 enc len a b src j)
  let ?c = "utf16_unit enc a b"
  show ?case
  proof (cases "?c = 0 \<or> j + length (utf8_bytes ?c) \<ge> len")
    case False
    then show ?thesis using "1.IH" [OF refl] by (simp add: Let_def)
  qed (use 1 in \<open>auto simp: Let_def\<close>)
qed simp_all

section \<open>Strings for udev\<close>

text \<open>
  The whitespace of the first \<open>len\<close> characters: none at the ends, an underscore for each run
  of it inside. In \<open>squeeze\<close> a run never reaches the end of the string.
\<close>

fun squeeze :: "nat \<Rightarrow> string \<Rightarrow> string" where
  "squeeze 0 s = []"
| "squeeze (Suc n) [] = []"
| "squeeze (Suc n) (c # cs) =
     (if isspace c then
        (case dropWhile isspace cs of
           [] \<Rightarrow> [CHR ''_'']
         | d # ds \<Rightarrow> CHR ''_'' # d # squeeze n ds)
      else c # squeeze n cs)"

definition replace_whitespace :: "string \<Rightarrow> nat \<Rightarrow> string" where
  "replace_whitespace str len =
     (let s = rev (dropWhile isspace (rev (take len str))); s = dropWhile isspace s
      in squeeze (length s) s)"

definition is_whitelisted :: "char \<Rightarrow> string \<Rightarrow> bool" where
  "is_whitelisted c white \<longleftrightarrow>
     of_char c \<in> {48..57 :: nat} \<or> of_char c \<in> {65..90 :: nat} \<or> of_char c \<in> {97..122 :: nat} \<or>
     c \<in> set ''#+-.:=@_'' \<or> c \<in> set white"

text \<open>The loop of \<open>replace_chars\<close>: the string from a position on, and how many replacements.\<close>

fun replace_chars :: "string \<Rightarrow> string \<Rightarrow> string \<times> nat" where
  "replace_chars white [] = ([], 0)"
| "replace_chars white (c # cs) =
     (if is_whitelisted c white then
        let (r, n) = replace_chars white cs in (c # r, n)
      else if c = CHR 0x5C \<and> byte_at cs 0 = of_char CHR ''x'' then
        let (r, n) = replace_chars white (tl cs) in (c # hd cs # r, n)
      else
        let len = utf8_encoded_valid_unichar (c # cs) in
        if len > 1 then
          let (r, n) = replace_chars white (drop (nat len - 1) cs) in (c # take (nat len - 1) cs @ r, n)
        else if isspace c \<and> CHR '' '' \<in> set white then
          let (r, n) = replace_chars white cs in (CHR '' '' # r, n + 1)
        else let (r, n) = replace_chars white cs in (CHR ''_'' # r, n + 1))"

definition UDEV_ALLOWED_CHARS_INPUT :: string where "UDEV_ALLOWED_CHARS_INPUT = ''/ $%?,''"

definition blkid_safe_string :: "string \<Rightarrow> nat \<Rightarrow> (int \<times> string)" where
  "blkid_safe_string str len =
     (if len = 0 then (- 1, [])
      else (0, fst (replace_chars UDEV_ALLOWED_CHARS_INPUT (replace_whitespace str len))))"

text \<open>\<open>%02x\<close> of a byte.\<close>

definition low_digit :: "nat \<Rightarrow> char" where
  "low_digit n = (if n < 10 then char_of (48 + n) else char_of (87 + n))"

definition escaped :: "char \<Rightarrow> string" where
  "escaped c = [CHR 0x5C, CHR ''x'', low_digit (of_char c div 16), low_digit (of_char c mod 16)]"

text \<open>What the loop of \<open>blkid_encode_string\<close> copies for the first character, and how much of the input it uses.\<close>

definition encode_char :: "string \<Rightarrow> string \<times> nat" where
  "encode_char s =
     (let seqlen = utf8_encoded_valid_unichar s; c = hd s in
      if seqlen > 1 then (take (nat seqlen) s, nat seqlen)
      else if c = CHR 0x5C \<or> \<not> is_whitelisted c [] then (escaped c, 1)
      else ([c], 1))"

lemma encode_char_used: "encode_char s = (out, n) \<Longrightarrow> 0 < n"
  by (auto simp: encode_char_def Let_def split: if_splits)

function encode_string_loop :: "nat \<Rightarrow> string \<Rightarrow> nat \<Rightarrow> string option" where
  "encode_string_loop len s j =
     (if s = [] then (if len - j < 1 then None else Some [])
      else
        let (out, used) = encode_char s; k = j + length out in
        if len - j < length out then None
        else if k + 3 \<ge> len then None
        else map_option (\<lambda>r. out @ r) (encode_string_loop len (drop used s) k))"
  by pat_completeness auto

termination
  by (relation "measure (\<lambda>(len, s, j). length s)") (auto dest!: encode_char_used [OF sym])

declare encode_string_loop.simps [simp del]

text \<open>The code and the string that is written when it is 0.\<close>

definition blkid_encode_string :: "string \<Rightarrow> nat \<Rightarrow> int \<times> string" where
  "blkid_encode_string str len =
     (if len = 0 then (- 1, [])
      else case encode_string_loop len str 0 of None \<Rightarrow> (- 1, []) | Some out \<Rightarrow> (0, out))"

section \<open>What the encodings mean\<close>

text \<open>The units of a UTF-16 string up to a zero, and the characters of a UTF-8 string.\<close>

fun utf16_units :: "nat \<Rightarrow> string \<Rightarrow> nat list" where
  "utf16_units enc (a # b # src) = (let c = utf16_unit enc a b in if c = 0 then [] else c # utf16_units enc src)"
| "utf16_units enc src = []"

function utf8_decode :: "string \<Rightarrow> int list" where
  "utf8_decode s =
     (if s = [] then []
      else utf8_encoded_to_unichar s # utf8_decode (drop (max 1 (utf8_encoded_expected_len s)) s))"
  by pat_completeness auto
termination by (relation "measure length") auto

declare utf8_decode.simps [simp del]

lemma or_add:
  fixes x y :: nat
  assumes "x < 2 ^ k"
  shows "push_bit k y OR x = push_bit k y + x"
proof -
  have i: "bit x i \<Longrightarrow> i < k" for i
    using assms by (metis bit_take_bit_iff take_bit_nat_eq_self)
  have "push_bit k y AND x = 0"
    by (intro bit_eqI) (auto simp: bit_and_iff bit_push_bit_iff dest!: i)
  then show ?thesis by (rule disjunctive_add_eq_or [symmetric])
qed

lemma or_bytes:
  "x < 32 \<Longrightarrow> 0xc0 OR x = 0xc0 + (x :: nat)" "x < 64 \<Longrightarrow> 0x80 OR x = 0x80 + x" "x < 16 \<Longrightarrow> 0xe0 OR x = 0xe0 + x"
  using or_add [of x 5 6] or_add [of x 6 2] or_add [of x 4 14] by (simp_all add: push_bit_eq_mult)

lemma or_int: "0 \<le> x \<Longrightarrow> y < 64 \<Longrightarrow> push_bit 6 x OR int y = 64 * x + int y"
  using arg_cong [OF or_add [of y 6 "nat x"], of int] by (simp add: push_bit_eq_mult of_nat_or_eq)

lemma utf16_unit_bound: "utf16_unit enc a b < 65536"
proof -
  have "x * 256 + y < 65536" if "x < 256" "y < 256" for x y :: nat using that by linarith
  from this [of "of_char b" "of_char a"] this [of "of_char a" "of_char b"]
  show ?thesis by (simp add: utf16_unit_def)
qed

lemma byte_at_simps [simp]:
  "byte_at (c # s) 0 = of_char c" "byte_at (c # s) (Suc i) = byte_at s i" "byte_at [] i = 0"
  by (simp_all add: byte_at_def)

text \<open>The bytes of a unit are read back as this unit.\<close>

lemma utf8_bytes_numbers:
  assumes "0x80 \<le> c" and "c < 65536"
  shows "utf8_bytes c = (if c < 0x800 then [char_of (0xc0 + c div 64), char_of (0x80 + c mod 64)]
    else [char_of (0xe0 + c div 4096), char_of (0x80 + c div 64 mod 64), char_of (0x80 + c mod 64)])"
proof -
  have "c div 4096 < 16" "c < 2048 \<Longrightarrow> c div 64 < 32" using assms by linarith+
  then show ?thesis
    using assms by (simp add: utf8_bytes_def low_masks drop_bit_eq_div or_bytes)
qed

lemma utf8_bytes_decode:
  assumes "0 < c" and "c < 65536"
  shows "utf8_encoded_expected_len (utf8_bytes c @ s) = length (utf8_bytes c)"
    and "utf8_encoded_to_unichar (utf8_bytes c @ s) = int c"
proof -
  consider "c < 0x80" | "0x80 \<le> c" "c < 0x800" | "0x800 \<le> c" by linarith
  then have "utf8_encoded_expected_len (utf8_bytes c @ s) = length (utf8_bytes c) \<and>
    utf8_encoded_to_unichar (utf8_bytes c @ s) = int c"
  proof cases
    case 1
    then show ?thesis
      by (simp add: utf8_bytes_def utf8_encoded_expected_len_def utf8_encoded_to_unichar_def)
  next
    case 2
    then have d: "c div 64 < 32" "2 \<le> c div 64" by linarith+
    define x y where "x = c div 64" and "y = c mod 64"
    have c: "int c = 64 * int x + int y" and y: "y < 64"
      unfolding x_def y_def by (simp_all add: zdiv_int zmod_int)
    have b: "utf8_bytes c = [char_of (0xc0 + x), char_of (0x80 + y)]"
      using utf8_bytes_numbers [OF 2(1) assms(2)] 2 by (simp add: x_def y_def)
    have x: "x < 32" using d by (simp add: x_def)
    have l: "utf8_encoded_expected_len (utf8_bytes c @ s) = 2"
      using x by (simp add: b utf8_encoded_expected_len_def byte_masks Let_def)
    have m: "(128 + y) div 64 = 2" "(128 + y) mod 64 = y" "(192 + x) mod 32 = x"
      using x y by (auto simp: mod_add_eq [symmetric] div_add1_eq)
    show ?thesis
      using l x y m
      by (simp add: utf8_encoded_to_unichar_def b numeral_2_eq_2 [symmetric] c byte_masks low_masks or_int Let_def)
  next
    case 3
    define x y z where "x = c div 4096" and "y = c div 64 mod 64" and "z = c mod 64"
    have "c div 4096 = c div 64 div 64" by (simp add: div_mult2_eq [symmetric])
    then have "c = 4096 * x + 64 * y + z"
      using div_mult_mod_eq [of c 64] div_mult_mod_eq [of "c div 64" 64] unfolding x_def y_def z_def by linarith
    then have c: "int c = 4096 * int x + 64 * int y + int z" by simp
    have yz: "y < 64" "z < 64" by (simp_all add: y_def z_def)
    have b: "utf8_bytes c = [char_of (0xe0 + x), char_of (0x80 + y), char_of (0x80 + z)]"
      using utf8_bytes_numbers [OF _ assms(2)] 3 by (simp add: x_def y_def z_def)
    have x: "x < 16" using assms(2) by (simp add: x_def)
    have l: "utf8_encoded_expected_len (utf8_bytes c @ s) = 3"
      using x by (simp add: b utf8_encoded_expected_len_def byte_masks Let_def) linarith
    have m: "(128 + y) div 64 = 2" "(128 + y) mod 64 = y" "(128 + z) div 64 = 2" "(128 + z) mod 64 = z" "(224 + x) mod 16 = x"
      using x yz by (auto simp: mod_add_eq [symmetric] div_add1_eq)
    show ?thesis
      using l x yz m
      by (simp add: utf8_encoded_to_unichar_def b c byte_masks low_masks or_int Let_def)
         (simp add: numeral_2_eq_2 byte_masks low_masks or_int m c)
  qed
  then show "utf8_encoded_expected_len (utf8_bytes c @ s) = length (utf8_bytes c)"
    "utf8_encoded_to_unichar (utf8_bytes c @ s) = int c" by blast+
qed

lemma utf8_bytes_nonempty [simp]: "utf8_bytes c \<noteq> []"
  by (simp add: utf8_bytes_def)

lemma utf8_bytes_length: "0 < length (utf8_bytes c)" "length (utf8_bytes c) \<le> 3"
  by (simp_all add: utf8_bytes_def)

lemma utf8_decode_bytes:
  assumes "0 < c" and "c < 65536"
  shows "utf8_decode (utf8_bytes c @ s) = int c # utf8_decode s"
proof -
  have m: "max 1 (length (utf8_bytes c)) = length (utf8_bytes c)"
    using utf8_bytes_length(1) [of c] by (cases "length (utf8_bytes c)") simp_all
  show ?thesis
    by (subst utf8_decode.simps) (simp only: utf8_bytes_decode [OF assms] m, simp)
qed

lemma utf8_decode_Nil [simp]: "utf8_decode [] = []"
  by (subst utf8_decode.simps) simp

lemma encode_units_decode:
  "\<exists>n. utf8_decode (encode_units enc len src j) = map int (take n (utf16_units enc src)) \<and>
     (j + 3 * length (utf16_units enc src) < len \<longrightarrow> n = length (utf16_units enc src))"
proof (induction enc len src j rule: encode_units.induct)
  case (1 enc len a b src j)
  let ?c = "utf16_unit enc a b" and ?rest = "utf16_units enc src"
  show ?case
  proof (cases "?c = 0 \<or> j + length (utf8_bytes ?c) \<ge> len")
    case True
    have "\<not> j + 3 * length (utf16_units enc (a # b # src)) < len" if "?c \<noteq> 0"
      using True that utf8_bytes_length(2) [of ?c] by (simp add: Let_def)
    then show ?thesis using True by (intro exI [of _ 0]) (auto simp: Let_def)
  next
    case False
    obtain n where n: "utf8_decode (encode_units enc len src (j + length (utf8_bytes ?c))) = map int (take n ?rest)"
      "j + length (utf8_bytes ?c) + 3 * length ?rest < len \<longrightarrow> n = length ?rest"
      using "1.IH" [OF refl] False by auto
    have d: "utf8_decode (encode_units enc len (a # b # src) j) = int ?c # map int (take n ?rest)"
      using False n(1) utf8_decode_bytes [OF _ utf16_unit_bound, of enc a b] by (simp add: Let_def)
    have u: "utf16_units enc (a # b # src) = ?c # ?rest" using False by (simp add: Let_def)
    show ?thesis
      unfolding d u using n(2) utf8_bytes_length(2) [of ?c] by (intro exI [of _ "Suc n"]) auto
  qed
qed (auto intro: exI [of _ 0])



section \<open>The escapes\<close>

definition from_hex :: "char \<Rightarrow> nat" where
  "from_hex c = (let n = of_char c in if n < 58 then n - 48 else n - 87)"

text \<open>The inverse of the escapes.\<close>

fun unescape :: "string \<Rightarrow> string" where
  "unescape [] = []"
| "unescape (c # s) =
     (case s of
        x # h # l # r \<Rightarrow>
          if c = CHR 0x5C then char_of (16 * from_hex h + from_hex l) # unescape r else c # unescape s
      | _ \<Rightarrow> c # unescape s)"

lemma from_hex_digit: "n < 16 \<Longrightarrow> from_hex (low_digit n) = n"
  by (auto simp: from_hex_def low_digit_def)

lemma unescape_escaped: "unescape (escaped c @ s) = c # unescape s"
proof -
  have "(of_char c :: nat) div 16 < 16" "(of_char c :: nat) mod 16 < 16"
    by (simp_all add: less_mult_imp_div_less)
  then have "from_hex (low_digit (of_char c div 16)) = of_char c div 16"
    "from_hex (low_digit (of_char c mod 16)) = of_char c mod 16"
    by (simp_all only: from_hex_digit)
  then show ?thesis by (simp add: escaped_def)
qed

lemma unescape_plain: "c \<noteq> CHR 0x5C \<Longrightarrow> unescape (c # s) = c # unescape s"
  by (simp split: list.splits)

lemma unescape_plains: "CHR 0x5C \<notin> set t \<Longrightarrow> unescape (t @ s) = t @ unescape s"
proof (induction t)
  case (Cons c t)
  then have "c \<noteq> CHR 0x5C" by auto
  then have "unescape (c # t @ s) = c # unescape (t @ s)" by (rule unescape_plain)
  with Cons show ?case by (simp del: unescape.simps)
qed simp

text \<open>What one round of the loop writes: it is safe and unescaped to what it has read.\<close>

definition safe_byte :: "char \<Rightarrow> bool" where
  "safe_byte c \<longleftrightarrow> 128 \<le> (of_char c :: nat) \<or> is_whitelisted c [] \<or> c = CHR 0x5C"

lemma hex_digit_safe: "n < 16 \<Longrightarrow> safe_byte (low_digit n)"
  by (auto simp: safe_byte_def is_whitelisted_def low_digit_def)

lemma encode_char_safe:
  assumes "encode_char s = (out, n)" and "s \<noteq> []"
  shows "n \<le> length s" and "\<forall>c \<in> set out. safe_byte c" and "unescape (out @ r) = take n s @ unescape r"
proof -
  obtain c cs where s: "s = c # cs" using assms(2) by (cases s) auto
  let ?v = "utf8_encoded_valid_unichar s"
  have "n \<le> length s \<and> (\<forall>c \<in> set out. safe_byte c) \<and> unescape (out @ r) = take n s @ unescape r"
  proof (cases "?v > 1")
    case True
    then have v: "?v = int (nat ?v)" "1 < nat ?v" by simp_all
    note b = valid_unichar_bytes [OF v]
    have o: "out = take n s" "n = nat ?v" using assms(1) True by (auto simp: encode_char_def Let_def)
    have h: "128 \<le> (of_char c :: nat)" if "c \<in> set out" for c
      using that b(1,2) unfolding o by (auto simp: in_set_conv_nth)
    have "CHR 0x5C \<notin> set out" using h [of "CHR 0x5C"] by auto
    then show ?thesis using b(1) h o by (auto simp: unescape_plains safe_byte_def)
  next
    case v: False
    show ?thesis
    proof (cases "c = CHR 0x5C \<or> \<not> is_whitelisted c []")
      case True
      then have o: "out = escaped c" "n = 1" using assms(1) v s by (auto simp: encode_char_def Let_def)
      have "(of_char c :: nat) div 16 < 16" "(of_char c :: nat) mod 16 < 16"
        by (simp_all add: less_mult_imp_div_less)
      then have "safe_byte (low_digit (of_char c div 16))" "safe_byte (low_digit (of_char c mod 16))"
        by (simp_all only: hex_digit_safe)
      then show ?thesis
        using s by (simp add: o unescape_escaped) (simp add: escaped_def safe_byte_def is_whitelisted_def)
    next
      case False
      then have o: "out = [c]" "n = 1" using assms(1) v s by (auto simp: encode_char_def Let_def)
      have "unescape (c # r) = c # unescape r" using False by (intro unescape_plain) simp
      then show ?thesis using False s by (simp add: o safe_byte_def del: unescape.simps)
    qed
  qed
  then show "n \<le> length s" "\<forall>c \<in> set out. safe_byte c" "unescape (out @ r) = take n s @ unescape r"
    by blast+
qed

lemma encode_string_loop_result:
  assumes "encode_string_loop len s j = Some out" and "j < len"
  shows "j + length out < len \<and> (\<forall>c \<in> set out. safe_byte c) \<and> unescape out = s"
  using assms
proof (induction len s j arbitrary: out rule: encode_string_loop.induct)
  case (1 len s j)
  show ?case
  proof (cases "s = []")
    case True
    then show ?thesis using "1.prems" by (auto simp: encode_string_loop.simps split: if_splits)
  next
    case False
    obtain o1 n where e: "encode_char s = (o1, n)" by (meson surj_pair)
    note safe = encode_char_safe [OF e False]
    obtain r where r: "encode_string_loop len (drop n s) (j + length o1) = Some r" "out = o1 @ r"
      "\<not> j + length o1 + 3 \<ge> len" "\<not> len - j < length o1"
      using "1.prems"(1) False e by (subst (asm) encode_string_loop.simps) (auto simp: Let_def split: if_splits)
    have "j + length o1 + length r < len \<and> (\<forall>c \<in> set r. safe_byte c) \<and> unescape r = drop n s"
      using "1.IH" [OF False e [symmetric] refl refl r(4,3)] r by simp
    then show ?thesis using safe(2) safe(3) [of r] r(2) by auto
  qed
qed

lemma encode_char_length: "encode_char s = (out, n) \<Longrightarrow> s \<noteq> [] \<Longrightarrow> length out \<le> 4 * n"
  by (auto simp: encode_char_def Let_def escaped_def split: if_splits)

lemma encode_string_loop_enough:
  "j + 4 * length s + 3 < len \<Longrightarrow> encode_string_loop len s j \<noteq> None"
proof (induction len s j rule: encode_string_loop.induct)
  case (1 len s j)
  show ?case
  proof (cases "s = []")
    case True
    then show ?thesis using "1.prems" by (simp add: encode_string_loop.simps)
  next
    case False
    obtain o1 n where e: "encode_char s = (o1, n)" by (meson surj_pair)
    have n: "n \<le> length s" "length o1 \<le> 4 * n"
      using encode_char_safe(1) [OF e False] encode_char_length [OF e False] .
    then have room: "\<not> len - j < length o1" "\<not> len \<le> j + length o1 + 3"
      "j + length o1 + 4 * length (drop n s) + 3 < len"
      using "1.prems" by auto
    have "encode_string_loop len (drop n s) (j + length o1) \<noteq> None"
      using "1.IH" [OF False e [symmetric] refl refl room(1,2)] room(3) by simp
    then show ?thesis
      using False room(1,2) by (subst encode_string_loop.simps) (auto simp: e Let_def)
  qed
qed

text \<open>C38. When \<open>blkid_encode_string\<close> succeeds its result is in the buffer with its NUL, holds only
  safe characters, backslashes and the bytes of valid UTF-8 sequences, and is turned back into
  the input by the inverse of the escapes, so that no two inputs have the same result. It
  succeeds whenever the buffer has four bytes for each of the input and four more.
\<close>

theorem encode_string_safe:
  assumes "blkid_encode_string str len = (rc, out)"
  shows "(rc = 0 \<longrightarrow> length out < len \<and> (\<forall>c \<in> set out. safe_byte c) \<and> unescape out = str) \<and>
    (4 * length str + 3 < len \<longrightarrow> rc = 0)"
  using assms encode_string_loop_result [of len str 0] encode_string_loop_enough [of 0 str len]
  by (auto simp: blkid_encode_string_def split: if_splits option.splits)

theorem encode_string_safe_witness:
  "unescape (snd (blkid_encode_string ''a'' 8)) = ''a'' \<and> fst (blkid_encode_string ''a'' 8) = 0"
proof -
  obtain rc out where e: "blkid_encode_string ''a'' 8 = (rc, out)" by (meson surj_pair)
  show ?thesis using encode_string_safe [OF e] by (simp add: e)
qed

text \<open>A result that fits is refused unless three more bytes are free.\<close>

lemma encode_string_refuses: "fst (blkid_encode_string ''a'' 4) = - 1"
  by (simp add: blkid_encode_string_def encode_string_loop.simps encode_char_def
      utf8_encoded_valid_unichar_def utf8_encoded_expected_len_def is_whitelisted_def)

section \<open>The replacements\<close>

lemma replace_chars_length: "length (fst (replace_chars white s)) = length s"
proof (induction white s rule: replace_chars.induct)
  case (2 white c cs)
  let ?v = "utf8_encoded_valid_unichar (c # cs)"
  have v: "nat ?v - 1 \<le> length cs" if "?v > 1"
    using valid_unichar_bytes(1) [of "c # cs" "nat ?v"] that by simp
  have x: "cs \<noteq> []" if "byte_at cs 0 = of_char CHR ''x''" using that by (cases cs) auto
  show ?case
    using 2 v x by (auto simp: Let_def split_beta dest: x)
qed simp

lemma squeeze_plain: "\<forall>c \<in> set s. \<not> isspace c \<Longrightarrow> length s \<le> n \<Longrightarrow> squeeze n s = s"
proof (induction s arbitrary: n)
  case (Cons c s)
  then show ?case by (cases n) auto
next
  case Nil
  show ?case by (cases n) simp_all
qed

lemma replace_whitespace_plain:
  assumes "\<forall>c \<in> set (take len str). \<not> isspace c"
  shows "replace_whitespace str len = take len str"
proof -
  have keep: "dropWhile isspace s = s" if "\<forall>c \<in> set s. \<not> isspace c" for s
    using that by (cases s) simp_all
  have "dropWhile isspace (rev (take len str)) = rev (take len str)"
    "dropWhile isspace (take len str) = take len str"
    using assms by (intro keep; simp)+
  then show ?thesis using assms by (simp add: replace_whitespace_def squeeze_plain)
qed

text \<open>\<open>blkid_safe_string\<close> of a string that fills the buffer writes one byte too much: the
  result has as many characters as the buffer has bytes, and its NUL is behind them.
\<close>

theorem safe_string_overflows:
  assumes "0 < len" and "len \<le> length str" and "\<forall>c \<in> set (take len str). \<not> isspace c"
  shows "length (snd (blkid_safe_string str len)) = len"
  using assms by (simp add: blkid_safe_string_def replace_chars_length replace_whitespace_plain)

theorem safe_string_overflows_witness: "length (snd (blkid_safe_string ''data'' 4)) = 4"
  by (rule safe_string_overflows) (simp_all add: isspace_def)

end
