(* ===== verification/Superblocks.thy ===== *)
theory Superblocks
  imports ProbeFacts Encode
begin

text \<open>
  The superblocks chain, src/lib/libblkid/src/superblocks/superblocks.c: what a probing
  function may report (labels, UUIDs, versions), the loop over the probing functions, the
  search that rejects ambivalent results, and the filters by usage. The table of the probing
  functions is an argument here; the theory of the table defines it.
\<close>

section \<open>Reports of the probing functions\<close>

text \<open>A C string as the bytes of a value, with the terminating NUL.\<close>

definition c_bytes :: "string \<Rightarrow> string" where
  "c_bytes s = s @ [NUL]"

definition blkid_probe_set_version :: "string \<Rightarrow> int prober" where
  "blkid_probe_set_version version =
     do {
       flags \<leftarrow> chain_flags;
       if has_flag flags BLKID_SUBLKS_VERSION
       then blkid_probe_set_value ''VERSION'' (c_bytes version) else ret 0
     }"

definition blkid_probe_sprintf_version :: "string \<Rightarrow> int prober" where
  "blkid_probe_sprintf_version text =
     do {
       flags \<leftarrow> chain_flags;
       if has_flag flags BLKID_SUBLKS_VERSION
       then blkid_probe_vsprintf_value ''VERSION'' text else ret 0
     }"

definition usage_name :: "u32 \<Rightarrow> string" where
  "usage_name usage =
     (if has_flag usage BLKID_USAGE_FILESYSTEM then ''filesystem''
      else if has_flag usage BLKID_USAGE_RAID then ''raid''
      else if has_flag usage BLKID_USAGE_CRYPTO then ''crypto''
      else if has_flag usage BLKID_USAGE_OTHER then ''other'' else ''unknown'')"

definition blkid_probe_set_usage :: "u32 \<Rightarrow> int prober" where
  "blkid_probe_set_usage usage =
     do {
       flags \<leftarrow> chain_flags;
       if \<not> has_flag flags BLKID_SUBLKS_USAGE then ret 0
       else blkid_probe_set_value ''USAGE'' (c_bytes (usage_name usage))
     }"

text \<open>In the three functions for labels \<open>bytes\<close> are the \<open>len\<close> bytes at \<open>label\<close>.\<close>

definition blkid_probe_set_id_label :: "string \<Rightarrow> string \<Rightarrow> int prober" where
  "blkid_probe_set_id_label name bytes =
     do {
       flags \<leftarrow> chain_flags;
       if \<not> has_flag flags BLKID_SUBLKS_LABEL then ret 0
       else do {
         v \<leftarrow> blkid_probe_assign_value name;
         case v of
           None \<Rightarrow> ret (- 1)
         | Some i \<Rightarrow>
             let text = ltrim_whitespace (rtrim_whitespace (cstr (take (BLKID_PROBVAL_BUFSIZ - 1) bytes))) in
             do {
               fill_value i (c_bytes text);
               (if text = [] then do { blkid_probe_reset_last_value; ret () } else ret ());
               ret 0
             }
       }
     }"

text \<open>The value \<open>LABEL_RAW\<close>, when it is wanted; then the text, when \<open>LABEL\<close> is wanted.\<close>

definition set_raw_and_text :: "u32 \<Rightarrow> u32 \<Rightarrow> string \<Rightarrow> string \<Rightarrow> int prober \<Rightarrow> int prober" where
  "set_raw_and_text raw_flag flag raw_name raw rest =
     do {
       flags \<leftarrow> chain_flags;
       rc \<leftarrow> (if has_flag flags raw_flag then blkid_probe_set_value raw_name raw else ret 0);
       if rc < 0 then ret (- 1)
       else if \<not> has_flag flags flag then ret 0
       else rest
     }"

definition label_text :: "string \<Rightarrow> int prober" where
  "label_text text =
     do {
       v \<leftarrow> blkid_probe_assign_value ''LABEL'';
       case v of
         None \<Rightarrow> ret (- 1)
       | Some i \<Rightarrow> do {
           fill_value i (c_bytes text);
           (if text = [] then do { blkid_probe_reset_last_value; ret () } else ret ());
           ret 0
         }
     }"

definition blkid_probe_set_label :: "string \<Rightarrow> int prober" where
  "blkid_probe_set_label bytes =
     (let label = take BLKID_PROBVAL_BUFSIZ bytes in
      set_raw_and_text BLKID_SUBLKS_LABELRAW BLKID_SUBLKS_LABEL ''LABEL_RAW'' label
        (label_text (rtrim_whitespace (cstr (take (BLKID_PROBVAL_BUFSIZ - 1) label)))))"

definition blkid_probe_set_utf8label :: "string \<Rightarrow> nat \<Rightarrow> int prober" where
  "blkid_probe_set_utf8label label enc =
     set_raw_and_text BLKID_SUBLKS_LABELRAW BLKID_SUBLKS_LABEL ''LABEL_RAW'' label
       (label_text (rtrim_whitespace (blkid_encode_to_utf8 enc BLKID_PROBVAL_BUFSIZ label)))"

text \<open>
  \<open>blkid_probe_sprintf_uuid\<close> looks for the value behind the last one when it wants to change
  the case of the letters, so it never finds one.
\<close>

definition lower_hex :: "char \<Rightarrow> char" where
  "lower_hex c = (let n = of_char c :: nat in if 65 \<le> n \<and> n \<le> 70 then char_of (n + 32) else c)"

definition lower_value_behind :: "unit prober" where
  "lower_value_behind =
     do {
       pr \<leftarrow> gets id;
       case blkid_probe_get_value pr (blkid_probe_numof_values pr) of
         None \<Rightarrow> ret ()
       | Some v \<Rightarrow> fill_value (length (pr_vals pr)) (map lower_hex (pv_data v))
     }"

definition blkid_probe_sprintf_uuid :: "string \<Rightarrow> string \<Rightarrow> int prober" where
  "blkid_probe_sprintf_uuid uuid text =
     (let uuid = take BLKID_PROBVAL_BUFSIZ uuid in
      if blkid_uuid_is_empty uuid (length uuid) then ret 0
      else set_raw_and_text BLKID_SUBLKS_UUIDRAW BLKID_SUBLKS_UUID ''UUID_RAW'' uuid
        (do {
           rc \<leftarrow> blkid_probe_vsprintf_value ''UUID'' text;
           (if rc = 0 then lower_value_behind else ret ());
           ret rc
         }))"

text \<open>\<open>bytes\<close> is what is at \<open>str\<close>; a \<open>len\<close> of 0 stands for the length of the C string there.\<close>

definition blkid_probe_strncpy_uuid :: "string \<Rightarrow> nat \<Rightarrow> int prober" where
  "blkid_probe_strncpy_uuid bytes len =
     (if cstr bytes = [] then ret (- 1)
      else
        let len = (if len = 0 then length (cstr bytes) else len);
            raw = take (min len BLKID_PROBVAL_BUFSIZ) bytes in
        set_raw_and_text BLKID_SUBLKS_UUIDRAW BLKID_SUBLKS_UUID ''UUID_RAW'' raw
          (do {
             v \<leftarrow> blkid_probe_assign_value ''UUID'';
             case v of
               None \<Rightarrow> ret (- 1)
             | Some i \<Rightarrow> do { fill_value i (c_bytes (take (BLKID_PROBVAL_BUFSIZ - 1) raw)); ret 0 }
           }))"

text \<open>The result of \<open>blkid_probe_assign_value\<close> is used without a check here.\<close>

definition unparse_into :: "nat option \<Rightarrow> string \<Rightarrow> int prober" where
  "unparse_into v uuid =
     (case v of
        None \<Rightarrow> do { fault (Undefined Null_Deref); ret 0 }
      | Some i \<Rightarrow> do { fill_value i (c_bytes (take 36 (blkid_unparse_uuid uuid BLKID_PROBVAL_BUFSIZ))); ret 0 })"

definition blkid_probe_set_uuid_as :: "string \<Rightarrow> string option \<Rightarrow> int prober" where
  "blkid_probe_set_uuid_as uuid name =
     (if blkid_uuid_is_empty uuid 16 then ret 0
      else case name of
        None \<Rightarrow>
          set_raw_and_text BLKID_SUBLKS_UUIDRAW BLKID_SUBLKS_UUID ''UUID_RAW'' (take 16 uuid)
            (do { v \<leftarrow> blkid_probe_assign_value ''UUID''; unparse_into v uuid })
      | Some n \<Rightarrow> do { v \<leftarrow> blkid_probe_assign_value n; unparse_into v uuid })"

definition blkid_probe_set_uuid :: "string \<Rightarrow> int prober" where
  "blkid_probe_set_uuid uuid = blkid_probe_set_uuid_as uuid None"

section \<open>The chain\<close>

text \<open>The loop of \<open>superblocks_probe\<close> from item \<open>i\<close> on; \<open>rc\<close> is what it returns at the end.\<close>

definition skips :: "probe \<Rightarrow> nat \<Rightarrow> idinfo \<Rightarrow> bool" where
  "skips pr i ii \<longleftrightarrow>
     (case ch_fltr (chain_at pr BLKID_CHAIN_SUBLKS) of Some bmp \<Rightarrow> blkid_bmp_get_item bmp i | None \<Rightarrow> False) \<or>
     ii_minsz ii \<noteq> 0 \<and> ii_minsz ii > pr_size pr \<or>
     has_flag (ii_usage ii) (BLKID_USAGE_RAID OR BLKID_USAGE_OTHER) \<and> blkid_probe_is_cdrom pr \<or>
     has_flag (ii_usage ii) BLKID_USAGE_RAID \<and> blkid_probe_is_tiny pr"

definition set_results :: "idinfo \<Rightarrow> int \<Rightarrow> idmag option \<Rightarrow> int prober" where
  "set_results ii off mag =
     do {
       flags \<leftarrow> gets (\<lambda>pr. ch_flags (chain_at pr BLKID_CHAIN_SUBLKS));
       rc \<leftarrow> (if has_flag flags BLKID_SUBLKS_TYPE
             then blkid_probe_set_value ''TYPE'' (c_bytes (ii_name ii)) else ret 0);
       rc \<leftarrow> (if rc = 0 then blkid_probe_set_usage (ii_usage ii) else ret rc);
       case mag of
         Some m \<Rightarrow> if rc = 0 then blkid_probe_set_magic off (im_magic m) else ret rc
       | None \<Rightarrow> ret rc
     }"

fun sb_loop :: "nat \<Rightarrow> idinfo list \<Rightarrow> int \<Rightarrow> int prober" where
  "sb_loop i [] rc = ret rc"
| "sb_loop i (ii # iis) rc =
     do {
       set_chain BLKID_CHAIN_SUBLKS (\<lambda>chn. chn\<lparr>ch_idx := int i\<rparr>);
       pr \<leftarrow> gets id;
       if skips pr i ii then sb_loop (i + 1) iis BLKID_PROBE_NONE
       else do {
         (rc, off, mag) \<leftarrow> blkid_probe_get_idmag ii;
         if rc < 0 then ret rc
         else if rc \<noteq> BLKID_PROBE_OK then sb_loop (i + 1) iis rc
         else do {
           rc \<leftarrow> (case ii_probefunc ii of Some f \<Rightarrow> f mag | None \<Rightarrow> ret BLKID_PROBE_OK);
           if rc \<noteq> BLKID_PROBE_OK then do {
             blkid_probe_chain_reset_vals BLKID_CHAIN_SUBLKS;
             if rc < 0 then ret rc else sb_loop (i + 1) iis rc
           } else do {
             rc \<leftarrow> set_results ii off mag;
             if rc \<noteq> 0 then do {
               blkid_probe_chain_reset_vals BLKID_CHAIN_SUBLKS;
               sb_loop (i + 1) iis rc
             } else ret BLKID_PROBE_OK
           }
         }
       }
     }"

definition superblocks_probe :: "idinfo list \<Rightarrow> int prober" where
  "superblocks_probe iis =
     do {
       idx \<leftarrow> gets (\<lambda>pr. ch_idx (chain_at pr BLKID_CHAIN_SUBLKS));
       if idx < - 1 then ret (- EINVAL)
       else do {
         blkid_probe_chain_reset_vals BLKID_CHAIN_SUBLKS;
         pr \<leftarrow> gets id;
         if has_flag (pr_flags pr) BLKID_FL_NOSCAN_DEV then ret BLKID_PROBE_NONE
         else if pr_size pr \<le> 0 \<or> pr_size pr \<le> 1024 \<and> \<not> S_ISCHR (pr_mode pr) then ret BLKID_PROBE_NONE
         else
           let i = (if idx < 0 then 0 else nat idx + 1) in
           sb_loop i (drop i iis) BLKID_PROBE_NONE
       }
     }"

text \<open>
  The loop of \<open>superblocks_safeprobe\<close>. It ends early with a code, or with the last code of
  \<open>superblocks_probe\<close>, the number of results and of intolerant ones, and the first result
  with its position. Each round moves the position on: see \<open>safe_loop_ends\<close>.
\<close>

datatype safe_result = Early int | Found int nat nat int "prval list"

fun safe_loop :: "nat \<Rightarrow> idinfo list \<Rightarrow> nat \<Rightarrow> nat \<Rightarrow> int \<Rightarrow> prval list \<Rightarrow> safe_result prober" where
  "safe_loop 0 iis count intol idx vals = do { fault Endless; ret (Early (- 1)) }"
| "safe_loop (Suc n) iis count intol idx vals =
     do {
       rc \<leftarrow> superblocks_probe iis;
       if rc \<noteq> 0 then ret (Found rc count intol idx vals)
       else do {
         pr \<leftarrow> gets id;
         if blkid_probe_is_tiny pr \<and> count = 0 then ret (Early BLKID_PROBE_OK)
         else
           let count = count + 1;
               i = ch_idx (chain_at pr BLKID_CHAIN_SUBLKS);
               ii = iis ! nat i in
           if i \<ge> 0 \<and> has_flag (ii_usage ii) (BLKID_USAGE_RAID OR BLKID_USAGE_CRYPTO)
           then ret (Found rc count intol idx vals)
           else
             let intol = (if i \<ge> 0 \<and> \<not> has_flag (ii_flags ii) BLKID_IDINFO_TOLERANT
                          then intol + 1 else intol) in
             if count = 1 then
               safe_loop n iis count intol i
                 (blkid_probe_chain_copy_vals pr BLKID_CHAIN_SUBLKS BLKID_NVALS_SUBLKS)
             else safe_loop n iis count intol idx vals
       }
     }"

definition superblocks_safeprobe :: "idinfo list \<Rightarrow> int prober" where
  "superblocks_safeprobe iis =
     do {
       pr \<leftarrow> gets id;
       if has_flag (pr_flags pr) BLKID_FL_NOSCAN_DEV then ret BLKID_PROBE_NONE
       else do {
         r \<leftarrow> safe_loop (length iis + 1) iis 0 0 (- 1) [];
         case r of
           Early rc \<Rightarrow> ret rc
         | Found rc count intol idx vals \<Rightarrow>
             if rc < 0 then ret rc
             else if count > 1 \<and> intol > 0 then ret (- 2)
             else if count = 0 then ret BLKID_PROBE_NONE
             else do {
               (if idx \<noteq> - 1 then do {
                  blkid_probe_chain_reset_vals BLKID_CHAIN_SUBLKS;
                  blkid_probe_append_vals vals;
                  set_chain BLKID_CHAIN_SUBLKS (\<lambda>chn. chn\<lparr>ch_idx := idx\<rparr>)
                } else ret ());
               modify (\<lambda>pr.
                 let i = ch_idx (chain_at pr BLKID_CHAIN_SUBLKS) in
                 if i \<ge> 0 \<and> has_flag (ii_usage (iis ! nat i)) BLKID_USAGE_RAID
                 then pr\<lparr>pr_prob_flags := pr_prob_flags pr OR BLKID_PROBE_FL_IGNORE_PT\<rparr> else pr);
               ret BLKID_PROBE_OK
             }
       }
     }"

definition superblocks_drv :: "idinfo list \<Rightarrow> chaindrv" where
  "superblocks_drv iis =
     \<lparr>cd_id = BLKID_CHAIN_SUBLKS, cd_name = ''superblocks'', cd_dflt_flags = BLKID_SUBLKS_DEFAULT,
      cd_dflt_enabled = True, cd_has_fltr = True, cd_idinfos = map ii_name iis\<rparr>"

definition superblocks_ops :: "idinfo list \<Rightarrow> chain_ops" where
  "superblocks_ops iis = \<lparr>co_probe = superblocks_probe iis, co_safeprobe = superblocks_safeprobe iis\<rparr>"

section \<open>Settings and names\<close>

definition blkid_probe_enable_superblocks :: "bool \<Rightarrow> int prober" where
  "blkid_probe_enable_superblocks enable =
     do { set_chain BLKID_CHAIN_SUBLKS (\<lambda>chn. chn\<lparr>ch_enabled := enable\<rparr>); ret 0 }"

definition blkid_probe_set_superblocks_flags :: "u32 \<Rightarrow> int prober" where
  "blkid_probe_set_superblocks_flags flags =
     do { set_chain BLKID_CHAIN_SUBLKS (\<lambda>chn. chn\<lparr>ch_flags := flags\<rparr>); ret 0 }"

definition blkid_probe_reset_superblocks_filter :: "int prober" where
  "blkid_probe_reset_superblocks_filter = blkid_probe_reset_filter BLKID_CHAIN_SUBLKS"

definition blkid_probe_invert_superblocks_filter :: "int prober" where
  "blkid_probe_invert_superblocks_filter = blkid_probe_invert_filter BLKID_CHAIN_SUBLKS"

definition blkid_probe_filter_superblocks_type :: "u32 \<Rightarrow> string list \<Rightarrow> int prober" where
  "blkid_probe_filter_superblocks_type = blkid_probe_filter_types (int BLKID_CHAIN_SUBLKS)"

definition blkid_probe_filter_superblocks_usage :: "idinfo list \<Rightarrow> u32 \<Rightarrow> u32 \<Rightarrow> int prober" where
  "blkid_probe_filter_superblocks_usage iis flag usage =
     do {
       f \<leftarrow> blkid_probe_get_filter (int BLKID_CHAIN_SUBLKS) True;
       case f of
         None \<Rightarrow> ret (- 1)
       | Some bmp \<Rightarrow> do {
           set_chain BLKID_CHAIN_SUBLKS (\<lambda>chn.
             let disable = (\<lambda>i. if has_flag (ii_usage (iis ! i)) usage then has_flag flag BLKID_FLTR_NOTIN
                               else has_flag flag BLKID_FLTR_ONLYIN)
             in chn\<lparr>ch_fltr := Some (fill_filter disable [0..<length iis] bmp)\<rparr>);
           ret 0
         }
     }"

definition blkid_known_fstype :: "idinfo list \<Rightarrow> string option \<Rightarrow> bool" where
  "blkid_known_fstype iis fstype =
     (case fstype of None \<Rightarrow> False | Some n \<Rightarrow> \<exists>ii \<in> set iis. ii_name ii = n)"

definition blkid_superblocks_get_name :: "idinfo list \<Rightarrow> nat \<Rightarrow> (string \<times> u32) option" where
  "blkid_superblocks_get_name iis idx =
     (if idx < length iis then Some (ii_name (iis ! idx), ii_usage (iis ! idx)) else None)"

end
