(* ===== verification/SbFacts.thy ===== *)
theory SbFacts
  imports Superblocks
begin

text \<open>
  Facts on the superblocks chain: its reports keep what the basic operations keep, so do the
  probing functions that are built from them (\<open>behaves\<close>); how the chain moves on, what a
  result consists of, when the probing ends and when a result is ambivalent.
\<close>

section \<open>Reports\<close>

lemma trim_length [simp]:
  "length (rtrim_whitespace s) \<le> length s" "length (ltrim_whitespace s) \<le> length s"
  "length (cstr s) \<le> length s"
  using length_dropWhile_le [of isspace "rev s"]
  by (simp_all add: rtrim_whitespace_def ltrim_whitespace_def cstr_def length_dropWhile_le length_takeWhile_le)

lemma c_bytes_length [simp]: "length (c_bytes s) = length s + 1"
  by (simp add: c_bytes_def)

lemma short_text: "length s \<le> 127 \<Longrightarrow> length (c_bytes s) \<le> BLKID_PROBVAL_BUFSIZ"
  by (simp add: BLKID_PROBVAL_BUFSIZ_def)

lemma label_bound:
  "length (rtrim_whitespace (cstr (take (BLKID_PROBVAL_BUFSIZ - 1) s))) \<le> 127"
  "length (ltrim_whitespace (rtrim_whitespace (cstr (take (BLKID_PROBVAL_BUFSIZ - 1) s)))) \<le> 127"
proof -
  have t: "length (take (BLKID_PROBVAL_BUFSIZ - 1) s) \<le> 127" by (simp add: BLKID_PROBVAL_BUFSIZ_def)
  show "length (rtrim_whitespace (cstr (take (BLKID_PROBVAL_BUFSIZ - 1) s))) \<le> 127"
    by (rule order_trans [OF trim_length(1) order_trans [OF trim_length(3) t]])
  then show "length (ltrim_whitespace (rtrim_whitespace (cstr (take (BLKID_PROBVAL_BUFSIZ - 1) s)))) \<le> 127"
    by (rule order_trans [OF trim_length(2)])
qed

lemma lower_value_behind_none: "lower_value_behind = ret ()"
proof (rule state_ext)
  fix pr
  have "blkid_probe_get_value pr (blkid_probe_numof_values pr) = None"
    by (simp add: blkid_probe_get_value_def blkid_probe_numof_values_def)
  then show "run_state lower_value_behind pr = run_state (ret ()) pr"
    by (simp add: lower_value_behind_def)
qed

context prober_inv
begin

lemma sb_set_version: "keeps I (blkid_probe_set_version v)"
  unfolding blkid_probe_set_version_def by (intro keeps_rules flags set_value) simp_all

lemma sb_sprintf_version: "keeps I (blkid_probe_sprintf_version v)"
  unfolding blkid_probe_sprintf_version_def by (intro keeps_rules flags vsprintf_value) simp_all

lemma sb_set_usage: "keeps I (blkid_probe_set_usage u)"
  unfolding blkid_probe_set_usage_def by (intro keeps_rules flags set_value) simp_all

lemma sb_set_id_label:
  assumes "name \<noteq> ''TYPE''"
  shows "keeps I (blkid_probe_set_id_label name l)"
  unfolding blkid_probe_set_id_label_def Let_def
  by (intro keeps_rules flags assign_value fill_value primitives assms short_text label_bound)

lemma raw_and_text:
  assumes "raw_name \<noteq> ''TYPE''" and "keeps I m"
  shows "keeps I (set_raw_and_text r f raw_name raw m)"
  unfolding set_raw_and_text_def
  by (intro keeps_rules flags set_value assms)

lemma text_label: "length t \<le> 127 \<Longrightarrow> keeps I (label_text t)"
  unfolding label_text_def
  by (intro keeps_rules assign_value fill_value primitives short_text) simp_all

lemma sb_set_label: "keeps I (blkid_probe_set_label l)"
  unfolding blkid_probe_set_label_def Let_def
  by (intro raw_and_text text_label label_bound) simp_all

lemma sb_set_utf8label: "keeps I (blkid_probe_set_utf8label l enc)"
proof -
  have "length (blkid_encode_to_utf8 enc BLKID_PROBVAL_BUFSIZ l) \<le> 127"
    using encode_units_bound [of 0 BLKID_PROBVAL_BUFSIZ enc l]
    by (simp add: blkid_encode_to_utf8_def BLKID_PROBVAL_BUFSIZ_def)
  then have "length (rtrim_whitespace (blkid_encode_to_utf8 enc BLKID_PROBVAL_BUFSIZ l)) \<le> 127"
    by (rule order_trans [OF trim_length(1)])
  then show ?thesis
    unfolding blkid_probe_set_utf8label_def by (intro raw_and_text text_label) simp_all
qed

lemma sb_sprintf_uuid: "keeps I (blkid_probe_sprintf_uuid u t)"
  unfolding blkid_probe_sprintf_uuid_def Let_def lower_value_behind_none
  by (intro raw_and_text keeps_rules vsprintf_value) simp_all

lemma sb_strncpy_uuid: "keeps I (blkid_probe_strncpy_uuid s n)"
  unfolding blkid_probe_strncpy_uuid_def Let_def
  by (intro raw_and_text keeps_rules assign_value fill_value)
     (simp_all add: BLKID_PROBVAL_BUFSIZ_def)

lemma unparse: "keeps I (unparse_into v u)"
  unfolding unparse_into_def
  by (intro keeps_rules fill_value primitives) (simp_all add: BLKID_PROBVAL_BUFSIZ_def)

lemma sb_set_uuid_as: "name \<noteq> Some ''TYPE'' \<Longrightarrow> keeps I (blkid_probe_set_uuid_as u name)"
  unfolding blkid_probe_set_uuid_as_def
  by (intro raw_and_text keeps_rules assign_value unparse) auto

lemma sb_set_uuid: "keeps I (blkid_probe_set_uuid u)"
  unfolding blkid_probe_set_uuid_def by (rule sb_set_uuid_as) simp

lemmas reports = sb_set_version sb_sprintf_version sb_set_usage sb_set_id_label sb_set_label sb_set_utf8label
  sb_sprintf_uuid sb_strncpy_uuid sb_set_uuid_as sb_set_uuid

end

text \<open>
  A probing function behaves when it keeps whatever the operations keep, and a table does
  when all its functions do. Every function that is modelled here behaves.
\<close>

definition behaves :: "(idmag option \<Rightarrow> int prober) \<Rightarrow> bool" where
  "behaves f \<longleftrightarrow> (\<forall>I. prober_inv I \<longrightarrow> (\<forall>mag. keeps I (f mag)))"

definition table_behaves :: "idinfo list \<Rightarrow> bool" where
  "table_behaves iis \<longleftrightarrow> (\<forall>ii \<in> set iis. \<forall>f. ii_probefunc ii = Some f \<longrightarrow> behaves f)"

lemma table_behaves_simps [simp]:
  "table_behaves []"
  "table_behaves (ii # iis) \<longleftrightarrow> (\<forall>f. ii_probefunc ii = Some f \<longrightarrow> behaves f) \<and> table_behaves iis"
  by (simp_all add: table_behaves_def)

lemma table_behaves_drop: "table_behaves iis \<Longrightarrow> table_behaves (drop n iis)"
  by (auto simp: table_behaves_def dest: in_set_dropD)

text \<open>A table whose functions keep one predicate, whether or not they behave.\<close>

definition functions_keep :: "(probe \<Rightarrow> bool) \<Rightarrow> idinfo list \<Rightarrow> bool" where
  "functions_keep I iis \<longleftrightarrow> (\<forall>ii \<in> set iis. \<forall>f. ii_probefunc ii = Some f \<longrightarrow> (\<forall>mag. keeps I (f mag)))"

lemma functions_keep_drop: "functions_keep I iis \<Longrightarrow> functions_keep I (drop n iis)"
  by (auto simp: functions_keep_def dest: in_set_dropD)

lemma table_behaves_keep: "table_behaves iis \<Longrightarrow> prober_inv I \<Longrightarrow> functions_keep I iis"
  by (auto simp: table_behaves_def functions_keep_def behaves_def)

text \<open>
  What the chain's own loop adds to the operations of the probing functions: the position
  of the chain, and the value TYPE.
\<close>

locale chain_inv = prober_inv +
  assumes set_idx: "keeps I (set_chain BLKID_CHAIN_SUBLKS (\<lambda>chn. chn\<lparr>ch_idx := idx\<rparr>))"
    and assign_type: "keeps I (blkid_probe_assign_value ''TYPE'')"
begin

lemma set_type: "keeps I (blkid_probe_set_value ''TYPE'' bytes)"
  unfolding blkid_probe_set_value_def
  by (intro keeps_rules primitives assign_type fill_value) simp_all

lemma results: "keeps I (set_results ii off mag)"
  unfolding set_results_def by (intro keeps_rules set_type operations reports)

lemma functions_loop: "functions_keep I iis \<Longrightarrow> keeps I (sb_loop i iis rc)"
proof (induction iis arbitrary: i rc)
  case Nil
  then show ?case by (simp add: keeps_ret)
next
  case (Cons ii iis)
  have f: "keeps I (g mag)" if "ii_probefunc ii = Some g" for g mag
    using Cons.prems that by (auto simp: functions_keep_def)
  have "functions_keep I iis" using Cons.prems by (simp add: functions_keep_def)
  then have r: "keeps I (sb_loop j iis c)" for j c by (rule Cons.IH)
  show ?case
    unfolding sb_loop.simps
    by (intro keeps_rules set_idx results operations reports f r) assumption
qed

lemma functions_probe: "functions_keep I iis \<Longrightarrow> keeps I (superblocks_probe iis)"
  unfolding superblocks_probe_def Let_def
  by (intro keeps_rules operations functions_loop functions_keep_drop)

lemma probe: "table_behaves iis \<Longrightarrow> keeps I (superblocks_probe iis)"
  by (intro functions_probe table_behaves_keep prober_inv_axioms)

lemma loop: "table_behaves iis \<Longrightarrow> keeps I (sb_loop i iis rc)"
  by (intro functions_loop table_behaves_keep prober_inv_axioms)

end

section \<open>Invariants of the chain\<close>

interpretation wf_chain: chain_inv probe_wf
proof unfold_locales
  show "keeps probe_wf (set_chain BLKID_CHAIN_SUBLKS (\<lambda>chn. chn\<lparr>ch_idx := idx\<rparr>))" for idx
    unfolding set_chain_def by (rule keeps_modify) (auto simp: probe_wf_def BLKID_CHAIN_defs nth_list_update)
qed (rule wf_assign_value)

text \<open>No computation of a probing function runs forever.\<close>

interpretation ends: chain_inv "\<lambda>pr. pr_fault pr \<noteq> Some Endless"
  by unfold_locales
     (rule keepsI; auto simp: get_buffer_fields blkid_probe_assign_value_def fill_value_def
        blkid_probe_reset_last_value_def chain_reset_vals_filter blkid_probe_set_wiper_def
        blkid_probe_get_wholedisk_devno_def blkid_probe_get_sectorsize_def fault_def set_chain_def Let_def
        split: option.splits)+

text \<open>
  What a probing function leaves alone: the chains with their positions and settings, the
  current chain, the flags and the area that is probed.
\<close>

definition probe_frame :: "probe \<Rightarrow> chain list \<times> nat option \<times> u32 \<times> u32 \<times> u32 \<times> int \<times> int \<times> nat" where
  "probe_frame pr = (pr_chains pr, pr_cur_chain pr, pr_flags pr, pr_prob_flags pr, pr_mode pr,
     pr_size pr, pr_off pr, pr_devno pr)"

lemma own_buffer_dims:
  "own_buffer m a off len = (b, a') \<Longrightarrow>
     ar_off a' = ar_off a \<and> ar_size a' = ar_size a \<and> ar_devno a' = ar_devno a"
  by (erule own_buffer_cases) simp_all

lemma area_buffer_dims:
  "area_buffer m a ps off len = (b, a', ps') \<Longrightarrow>
     ar_off a' = ar_off a \<and> ar_size a' = ar_size a \<and> ar_devno a' = ar_devno a"
proof (induction m a ps off len rule: area_buffer.induct)
  case (1 m a off len)
  then show ?case by (auto dest: own_buffer_dims split: if_splits prod.splits)
next
  case (2 m a p ps off len)
  then show ?case by (auto dest: own_buffer_dims split: if_splits prod.splits)
qed

lemma frame_get_buffer: "keeps (\<lambda>pr. probe_frame pr = f) (blkid_probe_get_buffer off len)"
proof (rule keepsI)
  fix pr assume f: "probe_frame pr = f"
  obtain b a ps where e: "area_buffer (pr_medium pr) (pr_area pr) (pr_parents pr) off len = (b, a, ps)"
    by (metis surj_pair)
  show "probe_frame (snd (run_state (blkid_probe_get_buffer off len) pr)) = f"
    using area_buffer_dims [OF e] f
    by (simp add: get_buffer_run e probe_frame_def pr_size_def pr_off_def pr_devno_def)
qed

interpretation frame: prober_inv "\<lambda>pr. probe_frame pr = f" for f
  by unfold_locales
     (rule frame_get_buffer,
      (rule keepsI; auto simp: probe_frame_def pr_size_def pr_off_def pr_devno_def
        blkid_probe_assign_value_def fill_value_def
        blkid_probe_reset_last_value_def chain_reset_vals_filter blkid_probe_set_wiper_def
        blkid_probe_get_wholedisk_devno_def blkid_probe_get_sectorsize_def fault_def Let_def
        split: option.splits)+)

definition no_type :: "probe \<Rightarrow> bool" where
  "no_type pr \<longleftrightarrow> (\<forall>v \<in> set (pr_vals pr). pv_name v \<noteq> ''TYPE'')"

lemma no_type_fill_value: "keeps no_type (fill_value i bytes)"
proof (rule keepsI)
  fix pr assume n: "no_type pr"
  show "no_type (snd (run_state (fill_value i bytes) pr))"
  proof (cases "i < length (pr_vals pr)")
    case True
    then show ?thesis
      using n set_update_subset_insert [of "pr_vals pr" i "(pr_vals pr ! i)\<lparr>pv_data := bytes\<rparr>"]
      by (fastforce simp: no_type_def fill_value_def)
  next
    case False
    then show ?thesis using n by (simp add: fill_value_def list_update_beyond not_less)
  qed
qed

interpretation untyped: prober_inv no_type
proof unfold_locales
  show "keeps no_type (fill_value i bytes)" for i bytes by (rule no_type_fill_value)
qed (rule keepsI; simp add: no_type_def get_buffer_fields blkid_probe_assign_value_def
        blkid_probe_reset_last_value_def chain_reset_vals_filter blkid_probe_set_wiper_def
        blkid_probe_get_wholedisk_devno_def blkid_probe_get_sectorsize_def fault_def Let_def
        split: option.splits; auto dest: in_set_butlastD)+

section \<open>Results\<close>

text \<open>What the two basic reports do to the list of values.\<close>

lemma set_value_run:
  "run_state (blkid_probe_set_value name bytes) pr =
     (if length (pr_vals pr) \<ge> BLKID_NVALS then (- 1, pr)
      else (0, pr\<lparr>pr_vals := pr_vals pr @ [\<lparr>pv_name = name,
        pv_data = take BLKID_PROBVAL_BUFSIZ bytes, pv_chain = pr_cur_chain pr\<rparr>]\<rparr>))"
  by (simp add: blkid_probe_set_value_def blkid_probe_assign_value_def fill_value_def)

lemma vsprintf_value_run:
  "run_state (blkid_probe_vsprintf_value name text) pr =
     (if length (pr_vals pr) \<ge> BLKID_NVALS \<or> text = [] \<or> length text \<ge> BLKID_PROBVAL_BUFSIZ then (- 1, pr)
      else (0, pr\<lparr>pr_vals := pr_vals pr @ [\<lparr>pv_name = name, pv_data = c_bytes text, pv_chain = pr_cur_chain pr\<rparr>]\<rparr>))"
  by (simp add: blkid_probe_vsprintf_value_def blkid_probe_assign_value_def fill_value_def
      blkid_probe_reset_last_value_def c_bytes_def)

text \<open>Values that are only added to.\<close>

definition extends :: "probe \<Rightarrow> probe \<Rightarrow> bool" where
  "extends pr pr' \<longleftrightarrow> (\<exists>vs. pr_vals pr' = pr_vals pr @ vs)"

lemma adds_refl [simp]: "extends pr pr"
  by (simp add: extends_def)

lemma adds_trans: "extends p q \<Longrightarrow> extends q r \<Longrightarrow> extends p r"
  by (auto simp: extends_def)

lemma extends_add [simp]: "extends pr (pr\<lparr>pr_vals := pr_vals pr @ vs\<rparr>)"
  by (simp add: extends_def)

lemma set_usage_extends: "extends pr (snd (run_state (blkid_probe_set_usage u) pr))"
  by (auto simp: blkid_probe_set_usage_def chain_flags_def fault_def set_value_run
      extends_def split: option.splits)

lemma set_magic_extends: "run_state (blkid_probe_set_magic off m) pr = (rc, pr') \<Longrightarrow> extends pr pr'"
  by (auto simp: blkid_probe_set_magic_def blkid_probe_sprintf_value_def set_value_run
      vsprintf_value_run extends_def Let_def split: option.splits if_splits)

lemma find_append: "find P (xs @ ys) = (case find P xs of Some x \<Rightarrow> Some x | None \<Rightarrow> find P ys)"
  by (induction xs) auto

lemma lookup_extends:
  "extends pr pr' \<Longrightarrow> blkid_probe_lookup_value pr n = Some v \<Longrightarrow> blkid_probe_lookup_value pr' n = Some v"
  by (auto simp: extends_def blkid_probe_lookup_value_def find_append)

lemma no_type_lookup: "no_type pr \<longleftrightarrow> blkid_probe_lookup_value pr ''TYPE'' = None"
  by (auto simp: no_type_def blkid_probe_lookup_value_def find_None_iff)

text \<open>The results of an accepted probing function name it, when the type is asked for.\<close>

lemma set_results_type:
  assumes "no_type pr" and "has_flag (ch_flags (chain_at pr BLKID_CHAIN_SUBLKS)) BLKID_SUBLKS_TYPE"
    and "run_state (set_results ii off mag) pr = (0, pr')" and "length (ii_name ii) < BLKID_PROBVAL_BUFSIZ"
  shows "blkid_probe_lookup_value pr' ''TYPE'' =
    Some \<lparr>pv_name = ''TYPE'', pv_data = c_bytes (ii_name ii), pv_chain = pr_cur_chain pr\<rparr>"
proof -
  let ?v = "\<lparr>pv_name = ''TYPE'', pv_data = c_bytes (ii_name ii), pv_chain = pr_cur_chain pr\<rparr>"
  let ?p1 = "pr\<lparr>pr_vals := pr_vals pr @ [?v]\<rparr>"
  have room: "\<not> length (pr_vals pr) \<ge> BLKID_NVALS"
    using assms(2,3) by (auto simp: set_results_def set_value_run split: option.splits)
  have v: "take BLKID_PROBVAL_BUFSIZ (c_bytes (ii_name ii)) = c_bytes (ii_name ii)"
    using assms(4) by simp
  have p1: "blkid_probe_lookup_value ?p1 ''TYPE'' = Some ?v"
    using assms(1) by (simp add: no_type_lookup blkid_probe_lookup_value_def find_append)
  obtain rc p2 where u: "run_state (blkid_probe_set_usage (ii_usage ii)) ?p1 = (rc, p2)"
    by (meson surj_pair)
  have e: "extends ?p1 p2" using set_usage_extends [of ?p1 "ii_usage ii"] by (simp add: u)
  have "extends p2 pr'"
    using assms(2,3) room u v
    by (auto simp: set_results_def set_value_run dest: set_magic_extends split: option.splits if_splits)
  then show ?thesis using p1 e lookup_extends adds_trans by blast
qed

text \<open>
  A value named TYPE belongs to the superblocks chain while the chain runs, so resetting the
  values of the chain removes it.
\<close>

definition typed_by_chain :: "probe \<Rightarrow> bool" where
  "typed_by_chain pr \<longleftrightarrow> pr_cur_chain pr = Some BLKID_CHAIN_SUBLKS \<and>
     (\<forall>v \<in> set (pr_vals pr). pv_name v = ''TYPE'' \<longrightarrow> pv_chain v = Some BLKID_CHAIN_SUBLKS)"

lemma typed_fill_value: "keeps typed_by_chain (fill_value i bytes)"
proof (rule keepsI)
  fix pr assume n: "typed_by_chain pr"
  show "typed_by_chain (snd (run_state (fill_value i bytes) pr))"
  proof (cases "i < length (pr_vals pr)")
    case True
    then show ?thesis
      using n set_update_subset_insert [of "pr_vals pr" i "(pr_vals pr ! i)\<lparr>pv_data := bytes\<rparr>"]
      by (fastforce simp: typed_by_chain_def fill_value_def)
  next
    case False
    then show ?thesis using n by (simp add: fill_value_def list_update_beyond not_less)
  qed
qed

interpretation typed: chain_inv typed_by_chain
proof unfold_locales
  show "keeps typed_by_chain (fill_value i bytes)" for i bytes by (rule typed_fill_value)
qed (rule keepsI; auto simp: typed_by_chain_def get_buffer_fields blkid_probe_assign_value_def
        blkid_probe_reset_last_value_def chain_reset_vals_filter blkid_probe_set_wiper_def set_chain_def
        blkid_probe_get_wholedisk_devno_def blkid_probe_get_sectorsize_def fault_def Let_def
        split: option.splits dest: in_set_butlastD)+

lemma typed_reset: "typed_by_chain pr \<Longrightarrow> no_type (snd (run_state (blkid_probe_chain_reset_vals BLKID_CHAIN_SUBLKS) pr))"
  by (auto simp: typed_by_chain_def no_type_def chain_reset_vals_filter)

lemma untyped_typed: "no_type pr \<Longrightarrow> pr_cur_chain pr = Some BLKID_CHAIN_SUBLKS \<Longrightarrow> typed_by_chain pr"
  by (simp add: typed_by_chain_def no_type_def)

lemma frame_run: "(\<And>f. keeps (\<lambda>pr. probe_frame pr = f) m) \<Longrightarrow> run_state m pr = (x, pr') \<Longrightarrow> probe_frame pr' = probe_frame pr"
  using keeps_run [of "\<lambda>q. probe_frame q = probe_frame pr" m pr x pr'] by blast

lemma frame_cur_chain: "probe_frame p = probe_frame q \<Longrightarrow> pr_cur_chain p = pr_cur_chain q"
  by (simp add: probe_frame_def)

lemma frame_set_value: "keeps (\<lambda>pr. probe_frame pr = f) (blkid_probe_set_value name bytes)"
  by (rule keepsI) (auto simp: set_value_run probe_frame_def pr_size_def pr_off_def pr_devno_def)

lemma results_frame: "run_state (set_results ii off mag) pr = (x, pr') \<Longrightarrow> probe_frame pr' = probe_frame pr"
proof (rule frame_run)
  show "keeps (\<lambda>pr. probe_frame pr = f) (set_results ii off mag)" for f
    unfolding set_results_def by (intro keeps_rules frame_set_value frame.operations frame.reports)
qed

abbreviation at_item :: "nat \<Rightarrow> probe \<Rightarrow> probe" where
  "at_item i pr \<equiv> snd (run_state (set_chain BLKID_CHAIN_SUBLKS (\<lambda>chn. chn\<lparr>ch_idx := int i\<rparr>)) pr)"

text \<open>The three ways one round of the loop can go.\<close>

lemma sb_loop_step:
  assumes run: "run_state (sb_loop i (ii # iis) rc) pr = (rc', pr')"
    and f: "\<forall>f. ii_probefunc ii = Some f \<longrightarrow> behaves f"
    and c: "pr_cur_chain pr = Some BLKID_CHAIN_SUBLKS" and n: "no_type pr"
  obtains (go_on) rc1 q where "rc1 \<noteq> 0" "run_state (sb_loop (i + 1) iis rc1) q = (rc', pr')" "no_type q"
      "probe_frame q = probe_frame (at_item i pr)"
  | (failed) "rc' < 0" "probe_frame pr' = probe_frame (at_item i pr)" "no_type pr'"
  | (found) p off mag where "rc' = 0" "run_state (set_results ii off mag) p = (0, pr')" "no_type p"
      "probe_frame p = probe_frame (at_item i pr)"
proof (cases "skips (at_item i pr) i ii")
  case True
  have "no_type (at_item i pr)" using n by (simp add: no_type_def set_chain_def)
  then show ?thesis
    using go_on [of BLKID_PROBE_NONE "at_item i pr"] run True
    by (auto simp: BLKID_PROBE_NONE_def set_chain_def)
next
  case False
  let ?p1 = "at_item i pr"
  have n1: "no_type ?p1" and c1: "pr_cur_chain ?p1 = Some BLKID_CHAIN_SUBLKS"
    using n c by (simp_all add: no_type_def set_chain_def)
  obtain rc1 off mag p2 where g: "run_state (blkid_probe_get_idmag ii) ?p1 = ((rc1, off, mag), p2)"
    by (metis surj_pair)
  have f2: "probe_frame p2 = probe_frame ?p1" by (rule frame_run [OF frame.get_idmag g])
  have n2: "no_type p2" by (rule keeps_run [OF untyped.get_idmag g n1])
  let ?pf = "case ii_probefunc ii of Some f \<Rightarrow> f mag | None \<Rightarrow> ret BLKID_PROBE_OK"
  obtain rc2 p3 where h: "run_state ?pf p2 = (rc2, p3)" by (metis surj_pair)
  have k: "keeps I ?pf" if "prober_inv I" for I
    using f that by (auto simp: behaves_def keeps_ret split: option.splits)
  have f3: "probe_frame p3 = probe_frame ?p1"
    using frame_run [OF k [OF frame.prober_inv_axioms] h] f2 by simp
  have n3: "no_type p3" by (rule keeps_run [OF k [OF untyped.prober_inv_axioms] h n2])
  let ?p4 = "snd (run_state (blkid_probe_chain_reset_vals BLKID_CHAIN_SUBLKS) p3)"
  have f4: "probe_frame ?p4 = probe_frame ?p1" using f3 keepsD [OF frame.chain_reset_vals] by blast
  have n4: "no_type ?p4" by (rule keepsD [OF untyped.chain_reset_vals n3])
  obtain rc5 p5 where r: "run_state (set_results ii off mag) p3 = (rc5, p5)" by (metis surj_pair)
  have f5: "probe_frame p5 = probe_frame ?p1" using results_frame [OF r] f3 by simp
  have t5: "typed_by_chain p5"
    using untyped_typed [OF n3] frame_cur_chain [OF f3] c1 keeps_run [OF typed.results r] by simp
  let ?p6 = "snd (run_state (blkid_probe_chain_reset_vals BLKID_CHAIN_SUBLKS) p5)"
  have f6: "probe_frame ?p6 = probe_frame ?p1" using f5 keepsD [OF frame.chain_reset_vals] by blast
  have n6: "no_type ?p6" by (rule typed_reset [OF t5])
  have e: "run_state (sb_loop i (ii # iis) rc) pr =
    (if rc1 < 0 then (rc1, p2)
     else if rc1 \<noteq> 0 then run_state (sb_loop (i + 1) iis rc1) p2
     else if rc2 \<noteq> 0 then (if rc2 < 0 then (rc2, ?p4) else run_state (sb_loop (i + 1) iis rc2) ?p4)
     else if rc5 \<noteq> 0 then run_state (sb_loop (i + 1) iis rc5) ?p6
     else (0, p5))"
    using False g h r
    by (simp add: set_chain_def BLKID_PROBE_OK_def chain_reset_vals_filter)
  consider "rc1 < 0" | "rc1 > 0" | "rc1 = 0" "rc2 < 0" | "rc1 = 0" "rc2 > 0" | "rc1 = 0" "rc2 = 0" "rc5 \<noteq> 0"
    | "rc1 = 0" "rc2 = 0" "rc5 = 0"
    by linarith
  then show ?thesis
  proof cases
    case 1
    then have "rc' = rc1 \<and> pr' = p2" using run e by simp
    then show ?thesis using 1 f2 n2 failed by simp
  next
    case 2
    then have "run_state (sb_loop (i + 1) iis rc1) p2 = (rc', pr')" using run e by simp
    with 2 show ?thesis by (intro go_on [OF _ _ n2 f2]) auto
  next
    case 3
    then have "rc' = rc2 \<and> pr' = ?p4" using run e by simp
    then show ?thesis using 3 f4 n4 failed by simp
  next
    case 4
    then have "run_state (sb_loop (i + 1) iis rc2) ?p4 = (rc', pr')" using run e by simp
    with 4 show ?thesis by (intro go_on [OF _ _ n4 f4]) auto
  next
    case 5
    then have "run_state (sb_loop (i + 1) iis rc5) ?p6 = (rc', pr')" using run e by simp
    with 5 show ?thesis by (intro go_on [OF _ _ n6 f6])
  next
    case 6
    then have "rc' = 0 \<and> pr' = p5" using run e by simp
    then show ?thesis using 6 r by (intro found [OF _ _ n3 f3, of off mag]) auto
  qed
qed

lemma at_item_facts [simp]:
  "pr_cur_chain (at_item i pr) = pr_cur_chain pr" "pr_flags (at_item i pr) = pr_flags pr"
  "pr_mode (at_item i pr) = pr_mode pr" "pr_size (at_item i pr) = pr_size pr"
  "length (pr_chains (at_item i pr)) = length (pr_chains pr)"
  by (simp_all add: set_chain_def pr_size_def)

lemma at_item_chain:
  "0 < length (pr_chains pr) \<Longrightarrow>
     chain_at (at_item i pr) BLKID_CHAIN_SUBLKS = (chain_at pr BLKID_CHAIN_SUBLKS)\<lparr>ch_idx := int i\<rparr>"
  by (simp add: set_chain_def chain_at_def BLKID_CHAIN_SUBLKS_def)

lemma frame_chains: "probe_frame p = probe_frame q \<Longrightarrow> pr_chains p = pr_chains q"
  by (simp add: probe_frame_def)

text \<open>The frame without the position of the superblocks chain.\<close>

definition chain_frame :: "probe \<Rightarrow> chain list \<times> nat option \<times> u32 \<times> u32 \<times> u32 \<times> int \<times> int \<times> nat" where
  "chain_frame pr = probe_frame (pr\<lparr>pr_chains :=
     (pr_chains pr)[BLKID_CHAIN_SUBLKS := (chain_at pr BLKID_CHAIN_SUBLKS)\<lparr>ch_idx := 0\<rparr>]\<rparr>)"

lemma chain_frame_at_item: "chain_frame (at_item i pr) = chain_frame pr"
proof (cases "pr_chains pr")
  case Nil
  then show ?thesis
    by (simp add: chain_frame_def probe_frame_def set_chain_def pr_size_def pr_off_def pr_devno_def)
next
  case (Cons c cs)
  then show ?thesis
    by (simp add: chain_frame_def probe_frame_def set_chain_def chain_at_def BLKID_CHAIN_SUBLKS_def
        pr_size_def pr_off_def pr_devno_def)
qed

lemma frame_chain_frame: "probe_frame p = probe_frame q \<Longrightarrow> chain_frame p = chain_frame q"
  by (simp add: chain_frame_def probe_frame_def chain_at_def pr_size_def pr_off_def pr_devno_def)

text \<open>
  A run of the loop ends at the item it accepts, and the value TYPE is then the name of that
  item; when it accepts none it ends at an item it has tried, if there is any.
\<close>

lemma sb_loop_result:
  assumes "run_state (sb_loop i iis rc) pr = (rc', pr')" and "table_behaves iis"
    and "pr_cur_chain pr = Some BLKID_CHAIN_SUBLKS" and "no_type pr" and "rc \<noteq> 0"
    and "0 < length (pr_chains pr)"
  shows "chain_frame pr' = chain_frame pr \<and> length (pr_chains pr') = length (pr_chains pr) \<and>
    (rc' \<noteq> 0 \<longrightarrow> no_type pr') \<and> (iis = [] \<longrightarrow> rc' = rc \<and> pr' = pr) \<and>
    (iis \<noteq> [] \<longrightarrow> (\<exists>k < length iis. ch_idx (chain_at pr' BLKID_CHAIN_SUBLKS) = int (i + k) \<and>
       (0 < rc' \<longrightarrow> k = length iis - 1) \<and>
       (rc' = 0 \<longrightarrow> has_flag (ch_flags (chain_at pr BLKID_CHAIN_SUBLKS)) BLKID_SUBLKS_TYPE \<longrightarrow>
          length (ii_name (iis ! k)) < BLKID_PROBVAL_BUFSIZ \<longrightarrow>
          blkid_probe_lookup_value pr' ''TYPE'' = Some \<lparr>pv_name = ''TYPE'',
            pv_data = c_bytes (ii_name (iis ! k)), pv_chain = Some BLKID_CHAIN_SUBLKS\<rparr>)))"
  using assms
proof (induction iis arbitrary: i rc pr)
  case Nil
  then show ?case by simp
next
  case (Cons ii iis)
  have f: "\<forall>f. ii_probefunc ii = Some f \<longrightarrow> behaves f" and t: "table_behaves iis"
    using Cons.prems(2) by simp_all
  let ?p1 = "at_item i pr"
  have c1: "ch_idx (chain_at ?p1 BLKID_CHAIN_SUBLKS) = int i"
    using at_item_chain [OF Cons.prems(6)] by simp
  have at1: "chain_at q BLKID_CHAIN_SUBLKS = chain_at ?p1 BLKID_CHAIN_SUBLKS"
    "length (pr_chains q) = length (pr_chains pr)" "chain_frame q = chain_frame pr"
    "pr_cur_chain q = Some BLKID_CHAIN_SUBLKS"
    if "probe_frame q = probe_frame ?p1" for q
    using frame_chains [OF that] frame_chain_frame [OF that] frame_cur_chain [OF that]
      chain_frame_at_item [of i pr] Cons.prems(3)
    by (simp_all add: chain_at_def)
  have fl: "ch_flags (chain_at ?p1 BLKID_CHAIN_SUBLKS) = ch_flags (chain_at pr BLKID_CHAIN_SUBLKS)"
    using at_item_chain [OF Cons.prems(6)] by simp
  from Cons.prems(1) f Cons.prems(3,4) show ?case
  proof (cases rule: sb_loop_step)
    case (go_on rc1 q)
    note q = at1 [OF go_on(4)]
    have "0 < length (pr_chains q)" using q(2) Cons.prems(6) by simp
    note ih = Cons.IH [OF go_on(2) t q(4) go_on(3) go_on(1) this]
    show ?thesis
    proof (cases iis)
      case Nil
      then have "rc' = rc1 \<and> pr' = q" using ih by simp
      then show ?thesis using q c1 go_on(1,3) Nil by simp
    next
      case (Cons x xs)
      then obtain k where k: "k < length iis" "ch_idx (chain_at pr' BLKID_CHAIN_SUBLKS) = int (i + 1 + k)"
        "0 < rc' \<longrightarrow> k = length iis - 1"
        "rc' = 0 \<longrightarrow> has_flag (ch_flags (chain_at pr BLKID_CHAIN_SUBLKS)) BLKID_SUBLKS_TYPE \<longrightarrow>
          length (ii_name (iis ! k)) < BLKID_PROBVAL_BUFSIZ \<longrightarrow>
          blkid_probe_lookup_value pr' ''TYPE'' = Some \<lparr>pv_name = ''TYPE'',
            pv_data = c_bytes (ii_name (iis ! k)), pv_chain = Some BLKID_CHAIN_SUBLKS\<rparr>"
        using ih q(1) fl by auto
      have "\<exists>k < length (ii # iis). ch_idx (chain_at pr' BLKID_CHAIN_SUBLKS) = int (i + k) \<and>
         (0 < rc' \<longrightarrow> k = length (ii # iis) - 1) \<and>
         (rc' = 0 \<longrightarrow> has_flag (ch_flags (chain_at pr BLKID_CHAIN_SUBLKS)) BLKID_SUBLKS_TYPE \<longrightarrow>
          length (ii_name ((ii # iis) ! k)) < BLKID_PROBVAL_BUFSIZ \<longrightarrow>
          blkid_probe_lookup_value pr' ''TYPE'' = Some \<lparr>pv_name = ''TYPE'',
            pv_data = c_bytes (ii_name ((ii # iis) ! k)), pv_chain = Some BLKID_CHAIN_SUBLKS\<rparr>)"
        using k Cons by (intro exI [of _ "k + 1"]) auto
      then show ?thesis using ih q by simp
    qed
  next
    case failed
    note q = at1 [OF failed(2)]
    have "ch_idx (chain_at pr' BLKID_CHAIN_SUBLKS) = int (i + 0)" using q c1 by simp
    then show ?thesis using failed(1,3) q by (auto intro!: exI [of _ 0])
  next
    case (found p off mag)
    have fp: "probe_frame pr' = probe_frame ?p1" using results_frame [OF found(2)] found(4) by simp
    note q = at1 [OF fp] and p = at1 [OF found(4)]
    have i: "ch_idx (chain_at pr' BLKID_CHAIN_SUBLKS) = int (i + 0)" using q c1 by simp
    have "has_flag (ch_flags (chain_at pr BLKID_CHAIN_SUBLKS)) BLKID_SUBLKS_TYPE \<longrightarrow>
        length (ii_name ii) < BLKID_PROBVAL_BUFSIZ \<longrightarrow>
        blkid_probe_lookup_value pr' ''TYPE'' = Some \<lparr>pv_name = ''TYPE'',
          pv_data = c_bytes (ii_name ii), pv_chain = Some BLKID_CHAIN_SUBLKS\<rparr>"
      using set_results_type [OF found(3) _ found(2)] p fl by simp
    then show ?thesis using found(1) i q by (auto intro!: exI [of _ 0])
  qed
qed

section \<open>One call of the chain\<close>

abbreviation sb_idx :: "probe \<Rightarrow> int" where
  "sb_idx pr \<equiv> ch_idx (chain_at pr BLKID_CHAIN_SUBLKS)"

definition sb_start :: "int \<Rightarrow> nat" where
  "sb_start idx = (if idx < 0 then 0 else nat idx + 1)"

text \<open>A device that the chain does not look at.\<close>

definition sb_ignores :: "probe \<Rightarrow> bool" where
  "sb_ignores pr \<longleftrightarrow> has_flag (pr_flags pr) BLKID_FL_NOSCAN_DEV \<or> pr_size pr \<le> 0 \<or>
     pr_size pr \<le> 1024 \<and> \<not> S_ISCHR (pr_mode pr)"

abbreviation sb_reset :: "probe \<Rightarrow> probe" where
  "sb_reset pr \<equiv> snd (run_state (blkid_probe_chain_reset_vals BLKID_CHAIN_SUBLKS) pr)"

lemma sb_reset_facts [simp]:
  "chain_frame (sb_reset pr) = chain_frame pr" "pr_chains (sb_reset pr) = pr_chains pr"
  "pr_cur_chain (sb_reset pr) = pr_cur_chain pr" "chain_at (sb_reset pr) c = chain_at pr c"
  "pr_flags (sb_reset pr) = pr_flags pr" "pr_size (sb_reset pr) = pr_size pr" "pr_mode (sb_reset pr) = pr_mode pr"
  by (simp_all add: chain_reset_vals_filter chain_frame_def probe_frame_def chain_at_def
      pr_size_def pr_off_def pr_devno_def)

lemma superblocks_probe_run:
  assumes "- 1 \<le> sb_idx pr"
  shows "run_state (superblocks_probe iis) pr =
    (if sb_ignores pr then (BLKID_PROBE_NONE, sb_reset pr)
     else run_state (sb_loop (sb_start (sb_idx pr)) (drop (sb_start (sb_idx pr)) iis) BLKID_PROBE_NONE) (sb_reset pr))"
  using assms
  by (auto simp: superblocks_probe_def sb_ignores_def sb_start_def Let_def chain_reset_vals_filter
      pr_size_def)

lemma superblocks_probe_result:
  assumes "run_state (superblocks_probe iis) pr = (rc, pr')" and "table_behaves iis"
    and "typed_by_chain pr" and "0 < length (pr_chains pr)" and "- 1 \<le> sb_idx pr"
  shows "chain_frame pr' = chain_frame pr" and "length (pr_chains pr') = length (pr_chains pr)"
    and "sb_ignores pr \<Longrightarrow> rc = 1 \<and> sb_idx pr' = sb_idx pr"
    and "rc = 0 \<Longrightarrow> \<exists>k < length iis. sb_start (sb_idx pr) \<le> k \<and> sb_idx pr' = int k \<and>
      (has_flag (ch_flags (chain_at pr BLKID_CHAIN_SUBLKS)) BLKID_SUBLKS_TYPE \<longrightarrow>
       length (ii_name (iis ! k)) < BLKID_PROBVAL_BUFSIZ \<longrightarrow>
       blkid_probe_lookup_value pr' ''TYPE'' = Some \<lparr>pv_name = ''TYPE'',
         pv_data = c_bytes (ii_name (iis ! k)), pv_chain = Some BLKID_CHAIN_SUBLKS\<rparr>)"
    and "\<not> sb_ignores pr \<Longrightarrow> sb_start (sb_idx pr) < length iis \<Longrightarrow>
      \<exists>k < length iis. sb_start (sb_idx pr) \<le> k \<and> sb_idx pr' = int k \<and> (0 < rc \<longrightarrow> k = length iis - 1)"
    and "length iis \<le> sb_start (sb_idx pr) \<Longrightarrow> rc = 1 \<and> sb_idx pr' = sb_idx pr"
    and "rc \<noteq> 0 \<Longrightarrow> no_type pr'"
proof -
  let ?i = "sb_start (sb_idx pr)" and ?iis = "drop (sb_start (sb_idx pr)) iis"
  have r: "run_state (superblocks_probe iis) pr = (if sb_ignores pr then (BLKID_PROBE_NONE, sb_reset pr)
      else run_state (sb_loop ?i ?iis BLKID_PROBE_NONE) (sb_reset pr))"
    by (rule superblocks_probe_run [OF assms(5)])
  have ign: "rc = 1 \<and> pr' = sb_reset pr" if "sb_ignores pr"
    using r assms(1) that by (simp add: BLKID_PROBE_NONE_def)
  have n: "no_type (sb_reset pr)" by (rule typed_reset [OF assms(3)])
  have c: "pr_cur_chain (sb_reset pr) = Some BLKID_CHAIN_SUBLKS"
    using assms(3) by (simp add: typed_by_chain_def)
  have l: "0 < length (pr_chains (sb_reset pr))" using assms(4) by simp
  have nz: "BLKID_PROBE_NONE \<noteq> 0" by (simp add: BLKID_PROBE_NONE_def)
  have go: "run_state (sb_loop ?i ?iis BLKID_PROBE_NONE) (sb_reset pr) = (rc, pr')" if "\<not> sb_ignores pr"
    using r assms(1) that by simp
  note res = sb_loop_result [OF go table_behaves_drop [OF assms(2)] c n nz l]
  show "chain_frame pr' = chain_frame pr" "length (pr_chains pr') = length (pr_chains pr)"
    using ign res by (cases "sb_ignores pr"; simp)+
  show "rc \<noteq> 0 \<Longrightarrow> no_type pr'" using ign n res by (cases "sb_ignores pr") auto
  show "rc = 1 \<and> sb_idx pr' = sb_idx pr" if "sb_ignores pr" using ign that by simp
  have end_: "rc = 1 \<and> sb_idx pr' = sb_idx pr" if "length iis \<le> ?i"
    using ign res that by (cases "sb_ignores pr") (simp_all add: BLKID_PROBE_NONE_def)
  then show "length iis \<le> ?i \<Longrightarrow> rc = 1 \<and> sb_idx pr' = sb_idx pr" .
  show "\<exists>k < length iis. ?i \<le> k \<and> sb_idx pr' = int k \<and> (0 < rc \<longrightarrow> k = length iis - 1)"
    if s: "\<not> sb_ignores pr" "?i < length iis"
  proof -
    obtain k where k: "k < length ?iis" "sb_idx pr' = int (?i + k)" "0 < rc \<longrightarrow> k = length ?iis - 1"
      using res [OF s(1)] s(2) by auto
    show ?thesis using k s(2) by (intro exI [of _ "?i + k"]) auto
  qed
  show "\<exists>k < length iis. ?i \<le> k \<and> sb_idx pr' = int k \<and>
      (has_flag (ch_flags (chain_at pr BLKID_CHAIN_SUBLKS)) BLKID_SUBLKS_TYPE \<longrightarrow>
       length (ii_name (iis ! k)) < BLKID_PROBVAL_BUFSIZ \<longrightarrow>
       blkid_probe_lookup_value pr' ''TYPE'' = Some \<lparr>pv_name = ''TYPE'',
         pv_data = c_bytes (ii_name (iis ! k)), pv_chain = Some BLKID_CHAIN_SUBLKS\<rparr>)"
    if z: "rc = 0"
  proof -
    have s: "\<not> sb_ignores pr" "?i < length iis" using ign end_ z by (auto simp: not_le [symmetric])
    obtain k where k: "k < length ?iis" "sb_idx pr' = int (?i + k)"
      "has_flag (ch_flags (chain_at pr BLKID_CHAIN_SUBLKS)) BLKID_SUBLKS_TYPE \<longrightarrow>
       length (ii_name (?iis ! k)) < BLKID_PROBVAL_BUFSIZ \<longrightarrow>
       blkid_probe_lookup_value pr' ''TYPE'' = Some \<lparr>pv_name = ''TYPE'',
         pv_data = c_bytes (ii_name (?iis ! k)), pv_chain = Some BLKID_CHAIN_SUBLKS\<rparr>"
      using res [OF s(1)] s(2) z by auto
    show ?thesis using k s(2) by (intro exI [of _ "?i + k"]) auto
  qed
qed

lemma chain_frame_facts:
  assumes "chain_frame p = chain_frame q" and "length (pr_chains p) = length (pr_chains q)"
  shows "pr_cur_chain p = pr_cur_chain q" "pr_flags p = pr_flags q" "pr_size p = pr_size q" "pr_mode p = pr_mode q"
    and "ch_flags (chain_at p BLKID_CHAIN_SUBLKS) = ch_flags (chain_at q BLKID_CHAIN_SUBLKS)"
    and "i \<noteq> BLKID_CHAIN_SUBLKS \<Longrightarrow> chain_at p i = chain_at q i"
    and "ch_enabled (chain_at p BLKID_CHAIN_SUBLKS) = ch_enabled (chain_at q BLKID_CHAIN_SUBLKS)"
    and "ch_driver (chain_at p BLKID_CHAIN_SUBLKS) = ch_driver (chain_at q BLKID_CHAIN_SUBLKS)"
proof -
  have e: "(pr_chains p)[0 := (chain_at p 0)\<lparr>ch_idx := 0\<rparr>] = (pr_chains q)[0 := (chain_at q 0)\<lparr>ch_idx := 0\<rparr>]"
    and r: "pr_cur_chain p = pr_cur_chain q" "pr_flags p = pr_flags q" "pr_size p = pr_size q" "pr_mode p = pr_mode q"
    using assms(1) by (simp_all add: chain_frame_def probe_frame_def BLKID_CHAIN_SUBLKS_def pr_size_def pr_off_def)
  show "pr_cur_chain p = pr_cur_chain q" "pr_flags p = pr_flags q" "pr_size p = pr_size q" "pr_mode p = pr_mode q"
    by (fact r)+
  have "(chain_at p 0)\<lparr>ch_idx := 0\<rparr> = (chain_at q 0)\<lparr>ch_idx := 0\<rparr> \<or> pr_chains p = [] \<and> pr_chains q = []"
    using e assms(2) by (cases "pr_chains p"; cases "pr_chains q") simp_all
  then have z: "(chain_at p 0)\<lparr>ch_idx := 0\<rparr> = (chain_at q 0)\<lparr>ch_idx := 0\<rparr>"
    by (auto simp: chain_at_def)
  then show "ch_flags (chain_at p BLKID_CHAIN_SUBLKS) = ch_flags (chain_at q BLKID_CHAIN_SUBLKS)"
    and "ch_enabled (chain_at p BLKID_CHAIN_SUBLKS) = ch_enabled (chain_at q BLKID_CHAIN_SUBLKS)"
    and "ch_driver (chain_at p BLKID_CHAIN_SUBLKS) = ch_driver (chain_at q BLKID_CHAIN_SUBLKS)"
    unfolding BLKID_CHAIN_SUBLKS_def
    by (metis chain.ext_inject chain.surjective chain.update_convs(5))+
  show "chain_at p i = chain_at q i" if "i \<noteq> BLKID_CHAIN_SUBLKS"
    using arg_cong [OF e, of "\<lambda>l. l ! i"] that by (simp add: chain_at_def BLKID_CHAIN_SUBLKS_def)
qed

section \<open>All results of the chain\<close>

text \<open>A chain that is ready to be run, and stays so.\<close>

definition sb_ready :: "probe \<Rightarrow> bool" where
  "sb_ready pr \<longleftrightarrow> typed_by_chain pr \<and> 0 < length (pr_chains pr) \<and> - 1 \<le> sb_idx pr \<and>
     pr_fault pr \<noteq> Some Endless"

lemma superblocks_probe_ready:
  assumes "run_state (superblocks_probe iis) pr = (rc, pr')" and "table_behaves iis" and "sb_ready pr"
  shows "sb_ready pr'" and "chain_frame pr' = chain_frame pr" and "length (pr_chains pr') = length (pr_chains pr)"
    and "rc = 0 \<Longrightarrow> sb_start (sb_idx pr) < sb_start (sb_idx pr') \<and> sb_start (sb_idx pr') \<le> length iis \<and>
      0 \<le> sb_idx pr'"
proof -
  have r: "typed_by_chain pr" "0 < length (pr_chains pr)" "- 1 \<le> sb_idx pr" "pr_fault pr \<noteq> Some Endless"
    using assms(3) by (simp_all add: sb_ready_def)
  note res = superblocks_probe_result [OF assms(1,2) r(1-3)]
  show "chain_frame pr' = chain_frame pr" "length (pr_chains pr') = length (pr_chains pr)" by (fact res)+
  have "sb_idx pr' \<ge> - 1"
    using res(3,5,6) r(3) by (cases "sb_ignores pr"; cases "sb_start (sb_idx pr) < length iis") auto
  then show "sb_ready pr'"
    using res(2) r keeps_run [OF typed.probe [OF assms(2)] assms(1)]
      keeps_run [OF ends.probe [OF assms(2)] assms(1)]
    by (simp add: sb_ready_def)
  show "sb_start (sb_idx pr) < sb_start (sb_idx pr') \<and> sb_start (sb_idx pr') \<le> length iis \<and> 0 \<le> sb_idx pr'"
    if "rc = 0"
    using res(4) [OF that] by (auto simp: sb_start_def)
qed

lemma safe_loop_ends:
  assumes "table_behaves iis" and "sb_ready pr" and "sb_start (sb_idx pr) \<le> length iis"
    and "length iis < n + sb_start (sb_idx pr)"
  shows "sb_ready (snd (run_state (safe_loop n iis count intol idx vals) pr))"
  using assms(2-4)
proof (induction n arbitrary: pr count intol idx vals)
  case 0
  then show ?case by simp
next
  case (Suc n)
  obtain rc pr' where r: "run_state (superblocks_probe iis) pr = (rc, pr')" by (meson surj_pair)
  note p = superblocks_probe_ready [OF r assms(1) Suc.prems(1)]
  show ?case
  proof (cases "rc = 0")
    case True
    then have "sb_start (sb_idx pr') \<le> length iis" "length iis < n + sb_start (sb_idx pr')"
      using p(4) Suc.prems(3) by simp_all
    note ih = Suc.IH [OF p(1) this]
    show ?thesis using r True p(1) ih by (simp add: Let_def)
  next
    case False
    then show ?thesis using r p(1) by simp
  qed
qed

text \<open>
  The results that repeated calls of the chain deliver, up to the first RAID or crypto
  signature: the position and the values of each, and the code that ended the search.
\<close>

definition exclusive :: "idinfo \<Rightarrow> bool" where
  "exclusive ii \<longleftrightarrow> has_flag (ii_usage ii) (BLKID_USAGE_RAID OR BLKID_USAGE_CRYPTO)"

definition intolerant :: "idinfo \<Rightarrow> bool" where
  "intolerant ii \<longleftrightarrow> \<not> exclusive ii \<and> \<not> has_flag (ii_flags ii) BLKID_IDINFO_TOLERANT"

definition sb_vals :: "probe \<Rightarrow> prval list" where
  "sb_vals pr = blkid_probe_chain_copy_vals pr BLKID_CHAIN_SUBLKS BLKID_NVALS_SUBLKS"

fun all_results :: "nat \<Rightarrow> idinfo list \<Rightarrow> (int \<times> (nat \<times> prval list) list) prober" where
  "all_results 0 iis = do { fault Endless; ret (- 1, []) }"
| "all_results (Suc n) iis =
     do {
       rc \<leftarrow> superblocks_probe iis;
       if rc \<noteq> 0 then ret (rc, [])
       else do {
         pr \<leftarrow> gets id;
         let i = nat (sb_idx pr);
         if exclusive (iis ! i) then ret (0, [(i, sb_vals pr)])
         else do {
           (rc, rs) \<leftarrow> all_results n iis;
           ret (rc, (i, sb_vals pr) # rs)
         }
       }
     }"

lemma tiny_frame:
  assumes "chain_frame p = chain_frame q" and "length (pr_chains p) = length (pr_chains q)"
  shows "blkid_probe_is_tiny p = blkid_probe_is_tiny q"
  using chain_frame_facts(2) [OF assms] by (simp add: blkid_probe_is_tiny_def)

lemma safe_loop_results:
  assumes "table_behaves iis" and "sb_ready pr" and "sb_start (sb_idx pr) \<le> length iis"
    and "length iis < n + sb_start (sb_idx pr)" and "\<not> blkid_probe_is_tiny pr \<or> 0 < count"
    and "run_state (all_results n iis) pr = ((rc, rs), q)"
  shows "run_state (safe_loop n iis count intol idx vals) pr =
    (Found rc (count + length rs) (intol + length (filter (\<lambda>(i, vs). intolerant (iis ! i)) rs))
       (if count = 0 \<and> rs \<noteq> [] \<and> \<not> exclusive (iis ! fst (hd rs)) then int (fst (hd rs)) else idx)
       (if count = 0 \<and> rs \<noteq> [] \<and> \<not> exclusive (iis ! fst (hd rs)) then snd (hd rs) else vals), q)"
  using assms(2-6)
proof (induction n arbitrary: pr count intol idx vals rc rs q)
  case 0
  then show ?case by simp
next
  case (Suc n)
  obtain rc1 pr' where r: "run_state (superblocks_probe iis) pr = (rc1, pr')" by (meson surj_pair)
  note p = superblocks_probe_ready [OF r assms(1) Suc.prems(1)]
  have tiny: "blkid_probe_is_tiny pr' = blkid_probe_is_tiny pr" by (rule tiny_frame [OF p(2,3)])
  show ?case
  proof (cases "rc1 = 0")
    case False
    then have "rc = rc1 \<and> rs = [] \<and> q = pr'" using r Suc.prems(5) by simp
    then show ?thesis using r False by simp
  next
    case True
    have pos: "0 \<le> sb_idx pr'" using p(4) [OF True] by simp
    let ?i = "nat (sb_idx pr')"
    show ?thesis
    proof (cases "exclusive (iis ! ?i)")
      case True
      then have "rc = 0 \<and> rs = [(?i, sb_vals pr')] \<and> q = pr'"
        using r \<open>rc1 = 0\<close> Suc.prems(5) by (auto simp: Let_def)
      then show ?thesis
        using r True \<open>rc1 = 0\<close> pos tiny Suc.prems(4)
        by (simp add: Let_def exclusive_def intolerant_def)
    next
      case no: False
      obtain rc2 rs2 q2 where a: "run_state (all_results n iis) pr' = ((rc2, rs2), q2)" by (metis surj_pair)
      then have e: "rc = rc2 \<and> rs = (?i, sb_vals pr') # rs2 \<and> q = q2"
        using r True no Suc.prems(5) by (simp add: Let_def)
      have s: "sb_start (sb_idx pr') \<le> length iis" "length iis < n + sb_start (sb_idx pr')"
        using p(4) [OF True] Suc.prems(3) by simp_all
      have no': "\<not> has_flag (ii_usage (iis ! ?i)) (BLKID_USAGE_RAID OR BLKID_USAGE_CRYPTO)"
        using no by (simp add: exclusive_def)
      show ?thesis
        using Suc.IH [OF p(1) s _ a, of "Suc count"] r True no no' pos tiny Suc.prems(4) e
        by (cases "count = 0") (simp_all add: Let_def intolerant_def sb_vals_def)
    qed
  qed
qed

text \<open>The code that \<open>superblocks_safeprobe\<close> makes of the results.\<close>

definition safe_code :: "idinfo list \<Rightarrow> int \<Rightarrow> (nat \<times> prval list) list \<Rightarrow> int" where
  "safe_code iis rc rs =
     (if rc < 0 then rc
      else if length rs > 1 \<and> (\<exists>(i, vs) \<in> set rs. intolerant (iis ! i)) then - 2
      else if rs = [] then BLKID_PROBE_NONE
      else BLKID_PROBE_OK)"

lemma safeprobe_code:
  assumes "table_behaves iis" and "sb_ready pr" and "sb_start (sb_idx pr) \<le> length iis"
    and "\<not> blkid_probe_is_tiny pr" and "\<not> has_flag (pr_flags pr) BLKID_FL_NOSCAN_DEV"
    and "run_state (all_results (length iis + 1) iis) pr = ((rc, rs), q)"
  shows "fst (run_state (superblocks_safeprobe iis) pr) = safe_code iis rc rs"
proof -
  have n: "length iis < length iis + 1 + sb_start (sb_idx pr)" by simp
  define k where "k = length (filter (\<lambda>(i, vs). intolerant (iis ! i)) rs)"
  obtain idx vals where
    r: "run_state (safe_loop (Suc (length iis)) iis 0 0 (- 1) []) pr = (Found rc (length rs) k idx vals, q)"
    using safe_loop_results [OF assms(1-3) n _ assms(6), of 0 0 "- 1" "[]"] assms(4)
    by (simp add: k_def del: safe_loop.simps)
  have i: "(\<exists>(i, vs) \<in> set rs. intolerant (iis ! i)) \<longleftrightarrow> 0 < k"
    unfolding k_def length_greater_0_conv by (auto simp: filter_empty_conv)
  show ?thesis
    using assms(5) unfolding safe_code_def i
    by (simp add: superblocks_safeprobe_def r split_beta del: safe_loop.simps)
qed

end
