(* ===== verification/SbTools.thy ===== *)
theory SbTools
  imports SbFacts
begin

text \<open>
  What the probing functions of the superblocks chain have in common: they return the error
  of a buffer that cannot be read, they give up with 1 when a check fails, and those for RAID
  members look at whole disks and image files of some size only. A struct on the device is
  its layout, the list of its packed members (padding of the compiler written out as the
  members \<open>_pad\<close>), and a pointer to one is the bytes from there on. What the probing
  functions do is kept by every \<open>prober_inv\<close>, as the rules \<open>tool_rules\<close> show.
\<close>

text \<open>A pointer that is checked at once: \<open>if (!p) return errno ? -errno : 1\<close>.\<close>

definition with_buf :: "int \<Rightarrow> nat \<Rightarrow> (string \<Rightarrow> int prober) \<Rightarrow> int prober" where
  "with_buf off len f =
     do {
       b \<leftarrow> blkid_probe_get_buffer off (int len);
       case b of Buf s \<Rightarrow> f s | NoBuf e \<Rightarrow> ret (buf_error e)
     }"

definition with_sb :: "idmag option \<Rightarrow> nat \<Rightarrow> (string \<Rightarrow> int prober) \<Rightarrow> int prober" where
  "with_sb mag len f =
     do {
       b \<leftarrow> blkid_probe_get_sb mag len;
       case b of Buf s \<Rightarrow> f s | NoBuf e \<Rightarrow> ret (buf_error e)
     }"

text \<open>\<open>if (m) return 1\<close> for a report that may fail.\<close>

definition or_none :: "int prober \<Rightarrow> int prober \<Rightarrow> int prober" where
  "or_none m k = do { rc \<leftarrow> m; if rc \<noteq> 0 then ret 1 else k }"

text \<open>
  \<open>if (pr->size < minsz) return 1; if (!S_ISREG(pr->mode) && !blkid_probe_is_wholedisk(pr))
  return 1\<close>.
\<close>

definition disk_or_file :: "int prober \<Rightarrow> int prober" where
  "disk_or_file m =
     do {
       pr \<leftarrow> gets id;
       whole \<leftarrow> (if S_ISREG (pr_mode pr) then ret True else blkid_probe_is_wholedisk);
       if \<not> whole then ret 1 else m
     }"

definition raid_member :: "int \<Rightarrow> int prober \<Rightarrow> int prober" where
  "raid_member minsz m =
     do {
       pr \<leftarrow> gets id;
       if pr_size pr < minsz then ret 1 else disk_or_file m
     }"

text \<open>The offset of the \<open>n\<close>th sector from the end, \<open>((pr->size / 0x200) - n) * 0x200\<close>.\<close>

definition last_sector :: "probe \<Rightarrow> int \<Rightarrow> int" where
  "last_sector pr n = (pr_size pr div 0x200 - n) * 0x200"

text \<open>A C string that must end inside the bytes at hand; an access behind them is undefined.\<close>

definition ends_inside :: "string \<Rightarrow> unit prober" where
  "ends_inside s = (if NUL \<in> set s then ret () else fault (Undefined Out_Of_Bounds))"

text \<open>\<open>%s\<close> with a width, and \<open>%0<n>u\<close>.\<close>

definition pad_left :: "nat \<Rightarrow> string \<Rightarrow> string" where
  "pad_left n s = replicate (n - length s) CHR '' '' @ s"

definition pad_zero :: "nat \<Rightarrow> string \<Rightarrow> string" where
  "pad_zero n s = replicate (n - length s) CHR ''0'' @ s"

text \<open>\<open>%02x\<close> and \<open>%02X\<close> of a byte, and \<open>%x\<close> of a number.\<close>

definition upper_digit :: "nat \<Rightarrow> char" where
  "upper_digit n = (if n < 10 then char_of (48 + n) else char_of (55 + n))"

definition upper_hex2 :: "char \<Rightarrow> string" where
  "upper_hex2 c = (let n = of_char c :: nat in [upper_digit (n div 16), upper_digit (n mod 16)])"

definition lower_hex2 :: "char \<Rightarrow> string" where
  "lower_hex2 c = (let n = of_char c :: nat in [low_digit (n div 16), low_digit (n mod 16)])"

fun show_hex :: "nat \<Rightarrow> string" where
  "show_hex n = (if n < 16 then [low_digit n] else show_hex (n div 16) @ [low_digit (n mod 16)])"

declare show_hex.simps [simp del]

text \<open>
  A pointer that the code reads from behind the bytes it asked for: \<open>tail_of\<close> are the bytes
  from there to the end of the buffer that serves the request, an access behind them is
  undefined. \<open>with_tail\<close> hands out both parts.
\<close>

definition bytes_behind :: "area \<Rightarrow> int \<Rightarrow> int \<Rightarrow> string" where
  "bytes_behind a off len =
     (case find (buf_holds off len) (ar_bufs a) of
        Some bf \<Rightarrow> drop (nat ((if off \<noteq> 0 then off - bf_off bf else 0) + len)) (bf_data bf)
      | None \<Rightarrow> [])"

fun tail_of :: "area \<Rightarrow> area list \<Rightarrow> int \<Rightarrow> int \<Rightarrow> string" where
  "tail_of a [] off len = bytes_behind a off len"
| "tail_of a (p # ps) off len =
     (if shares p a then tail_of p ps (ar_off a + off - ar_off p) len else bytes_behind a off len)"

definition with_tail :: "int \<Rightarrow> nat \<Rightarrow> (string \<Rightarrow> int prober) \<Rightarrow> int prober" where
  "with_tail off len f = with_buf off len (\<lambda>s. do {
     behind \<leftarrow> gets (\<lambda>pr. tail_of (pr_area pr) (pr_parents pr) off (int len));
     f (s @ behind)
   })"

definition with_sb_tail :: "idmag option \<Rightarrow> nat \<Rightarrow> (string \<Rightarrow> int prober) \<Rightarrow> int prober" where
  "with_sb_tail mag len f =
     (case mag of
        Some g \<Rightarrow> with_tail (im_kboff g * 1024) len f
      | None \<Rightarrow> do { fault (Undefined Null_Deref); ret 1 })"

definition bytes_from :: "string \<Rightarrow> nat \<Rightarrow> nat \<Rightarrow> string prober" where
  "bytes_from buf off len =
     (if off + len \<le> length buf then ret (take len (drop off buf))
      else do { fault (Undefined Out_Of_Bounds); ret (take len (drop off buf)) })"

text \<open>\<open>blkid_probe_set_label\<close> of \<open>len\<close> bytes at an offset, of which it reads 128 at most.\<close>

definition label_at :: "string \<Rightarrow> nat \<Rightarrow> nat \<Rightarrow> int prober" where
  "label_at buf off len =
     do {
       flags \<leftarrow> chain_flags;
       let n = (if has_flag flags BLKID_SUBLKS_LABELRAW then min len BLKID_PROBVAL_BUFSIZ
                else if has_flag flags BLKID_SUBLKS_LABEL then min len (BLKID_PROBVAL_BUFSIZ - 1) else 0);
       bytes_from buf off n;
       blkid_probe_set_label (take len (drop off buf))
     }"

text \<open>
  \<open>blkid_probe_set_utf8label\<close> of \<open>len\<close> bytes at an offset; the loop that encodes them stops
  at a zero or when its buffer is full.
\<close>

fun encode_stops :: "nat \<Rightarrow> nat \<Rightarrow> string \<Rightarrow> nat \<Rightarrow> bool" where
  "encode_stops enc len (a # b # src) j =
     (let c = utf16_unit enc a b in
      c = 0 \<or> j + length (utf8_bytes c) \<ge> len \<or> encode_stops enc len src (j + length (utf8_bytes c)))"
| "encode_stops enc len src j = False"

definition utf8label_at :: "string \<Rightarrow> nat \<Rightarrow> nat \<Rightarrow> nat \<Rightarrow> int prober" where
  "utf8label_at buf off len enc =
     do {
       flags \<leftarrow> chain_flags;
       let avail = drop off buf;
       (if has_flag flags BLKID_SUBLKS_LABELRAW then do { bytes_from buf off (min len BLKID_PROBVAL_BUFSIZ); ret () }
        else ret ());
       (if has_flag flags BLKID_SUBLKS_LABEL \<and> length avail < len \<and>
           \<not> encode_stops enc BLKID_PROBVAL_BUFSIZ avail 0
        then fault (Undefined Out_Of_Bounds) else ret ());
       blkid_probe_set_utf8label (take len avail) enc
     }"

text \<open>A \<open>char\<close> array that may hold a label: it is reported when its first byte is set.\<close>

definition label_if_set :: "string \<Rightarrow> unit prober" where
  "label_if_set label =
     (if label ! 0 \<noteq> NUL then do { blkid_probe_set_label label; ret () } else ret ())"

text \<open>A serial number of four bytes, printed from the last to the first.\<close>

definition serial_text :: "string \<Rightarrow> string" where
  "serial_text s = upper_hex2 (s ! 3) @ upper_hex2 (s ! 2) @ ''-'' @ upper_hex2 (s ! 1) @ upper_hex2 (s ! 0)"

text \<open>
  An unsigned 64 bit number used as an offset, which is signed, and the result of signed 64
  bit arithmetic, whose overflow is undefined.
\<close>

definition to_loff :: "nat \<Rightarrow> int" where
  "to_loff n = sint (of_nat n :: u64)"

definition loff :: "int \<Rightarrow> int prober" where
  "loff v =
     (if - (2 ^ 63) \<le> v \<and> v < 2 ^ 63 then ret v
      else do { fault (Undefined Signed_Overflow); ret (sint (of_int v :: u64)) })"

text \<open>An item of \<open>magics\<close> of an \<open>idinfo\<close>.\<close>

definition magic_at :: "int \<Rightarrow> nat \<Rightarrow> string \<Rightarrow> idmag" where
  "magic_at kboff sboff magic = \<lparr>im_magic = magic, im_kboff = kboff, im_sboff = sboff\<rparr>"

context prober_inv
begin

lemma with_buf_keeps: "(\<And>s. keeps I (f s)) \<Longrightarrow> keeps I (with_buf off len f)"
  unfolding with_buf_def by (intro keeps_rules operations)

lemma with_sb_keeps: "(\<And>s. keeps I (f s)) \<Longrightarrow> keeps I (with_sb mag len f)"
  unfolding with_sb_def by (intro keeps_rules operations)

lemma or_none_keeps: "keeps I m \<Longrightarrow> keeps I k \<Longrightarrow> keeps I (or_none m k)"
  unfolding or_none_def by (intro keeps_rules)

lemma disk_or_file_keeps: "keeps I m \<Longrightarrow> keeps I (disk_or_file m)"
  unfolding disk_or_file_def by (intro keeps_rules operations)

lemma raid_member_keeps: "keeps I m \<Longrightarrow> keeps I (raid_member minsz m)"
  unfolding raid_member_def by (intro keeps_rules disk_or_file_keeps)

lemma ends_inside_keeps: "keeps I (ends_inside s)"
  unfolding ends_inside_def by (intro keeps_rules operations)

lemma with_tail_keeps: "(\<And>s. keeps I (f s)) \<Longrightarrow> keeps I (with_tail off len f)"
  unfolding with_tail_def by (intro keeps_rules with_buf_keeps)

lemma with_sb_tail_keeps: "(\<And>s. keeps I (f s)) \<Longrightarrow> keeps I (with_sb_tail mag len f)"
  unfolding with_sb_tail_def by (intro keeps_rules operations with_tail_keeps)

lemma bytes_from_keeps: "keeps I (bytes_from buf off len)"
  unfolding bytes_from_def by (intro keeps_rules operations)

lemma label_at_keeps: "keeps I (label_at buf off len)"
  unfolding label_at_def by (intro keeps_rules operations reports bytes_from_keeps)

lemma utf8label_at_keeps: "keeps I (utf8label_at buf off len enc)"
  unfolding utf8label_at_def by (intro keeps_rules operations reports bytes_from_keeps)

lemma label_if_set_keeps: "keeps I (label_if_set l)"
  unfolding label_if_set_def by (intro keeps_rules reports)

lemma loff_keeps: "keeps I (loff v)"
  unfolding loff_def by (intro keeps_rules operations)

lemmas tools = loff_keeps label_if_set_keeps with_buf_keeps with_sb_keeps or_none_keeps disk_or_file_keeps raid_member_keeps
  ends_inside_keeps with_tail_keeps with_sb_tail_keeps bytes_from_keeps label_at_keeps utf8label_at_keeps

lemmas tool_rules = keeps_rules tools operations reports

end

lemma behavesI: "(\<And>I mag. prober_inv I \<Longrightarrow> keeps I (f mag)) \<Longrightarrow> behaves f"
  by (simp add: behaves_def)

lemma behavesD: "behaves f \<Longrightarrow> prober_inv I \<Longrightarrow> keeps I (f mag)"
  by (simp add: behaves_def)

text \<open>What is kept even by a function that may not end.\<close>

locale endless_inv = prober_inv +
  assumes endless: "keeps I (fault Endless)"

interpretation wf_endless: endless_inv probe_wf
  by unfold_locales (rule wf_fault)

section \<open>Images\<close>

text \<open>A new probe on the whole of a regular file with some content.\<close>

definition image_probe :: "string \<Rightarrow> chaindrv list \<Rightarrow> probe" where
  "image_probe content drvs = (blkid_new_probe drvs)
     \<lparr>pr_medium := image_medium content, pr_mode := 0x8000,
      pr_area := \<lparr>ar_devno = 0, ar_off = 0, ar_size = int (length content), ar_bufs = []\<rparr>\<rparr>"

lemma image_buffer:
  assumes "0 \<le> off" and "0 < len" and "off + len \<le> int (length content)" and "len \<le> ULONG_MAX - sizeof_bufinfo"
  shows "\<exists>q. run_state (blkid_probe_get_buffer off len) (image_probe content drvs) =
    (Buf (take (nat len) (drop (nat off) content)), q)"
proof -
  have "nat len \<le> length content - nat off" "content \<noteq> []" using assms by (auto simp: nat_le_iff)
  then show ?thesis
    using assms
    by (simp add: image_probe_def blkid_new_probe_def blkid_probe_get_buffer_def own_buffer_def Let_def
        image_medium_def dev_bytes_def buf_at_def)
qed

text \<open>
  A probe on the whole of an image, whatever it has read so far. Reading it gives the bytes of
  the image and leaves such a probe behind.
\<close>

definition on_image :: "string \<Rightarrow> probe \<Rightarrow> bool" where
  "on_image content pr \<longleftrightarrow>
     pr_medium pr = image_medium content \<and> pr_parents pr = [] \<and> content \<noteq> [] \<and>
     ar_off (pr_area pr) = 0 \<and> ar_size (pr_area pr) = int (length content) \<and>
     coherent content (pr_area pr) \<and> starts_inside (pr_area pr)"

lemma own_buffer_starts:
  assumes "starts_inside a" and "0 \<le> off"
  shows "starts_inside (snd (own_buffer m a off len))"
proof -
  obtain b a' where e: "own_buffer m a off len = (b, a')" by (metis surj_pair)
  have "starts_inside a'" using e assms by (elim own_buffer_cases) (auto simp: starts_inside_def)
  then show ?thesis by (simp add: e)
qed

lemma on_image_read:
  assumes "on_image content pr" and "0 \<le> off" and "0 < len" and "len \<le> ULONG_MAX - sizeof_bufinfo"
  obtains q where "run_state (blkid_probe_get_buffer off len) pr = (direct_read content off len, q)"
    and "on_image content q" and "pr_fault q = pr_fault pr" and "pr_vals q = pr_vals pr"
proof -
  note i = assms(1) [unfolded on_image_def]
  obtain b a where e: "own_buffer (image_medium content) (pr_area pr) off len = (b, a)" by (metis surj_pair)
  have "fst (own_buffer (image_medium content) (pr_area pr) off len) = direct_read content off len"
    using own_buffer_image [of content "pr_area pr" off len] i assms(2-4) by simp
  then have b: "b = direct_read content off len" by (simp add: e)
  have r: "run_state (blkid_probe_get_buffer off len) pr = (b, pr\<lparr>pr_area := a, pr_parents := []\<rparr>)"
    using i e by (simp add: get_buffer_run)
  have "starts_inside a" using own_buffer_starts [of "pr_area pr" off] i assms(2) e by (metis snd_conv)
  moreover have "coherent content a" using own_buffer_coherent [OF image_reads_agree] i e by blast
  ultimately have "on_image content (pr\<lparr>pr_area := a, pr_parents := []\<rparr>)"
    using i own_buffer_dims [OF e] by (simp add: on_image_def)
  then show thesis using that r b by simp
qed

lemma on_image_fresh: "content \<noteq> [] \<Longrightarrow> on_image content (image_probe content drvs)"
  by (simp add: on_image_def image_probe_def blkid_new_probe_def coherent_def starts_inside_def)

end
