(* ===== verification/SbFs.thy ===== *)
theory SbFs
  imports SbTools
begin

text \<open>
  The probing functions of src/lib/libblkid/src/superblocks for the file systems and volumes that
  are recognised by a magic string and one superblock: Linux file systems (bfs, btrfs, cramfs,
  f2fs, gfs, gfs2, jfs, reiserfs, reiser4, romfs, squashfs, ubifs), others (hpfs, nss, ReFS, sysv,
  vxfs, xenix), LUKS and VMFS.
\<close>

section \<open>LUKS\<close>

definition luks_phdr :: "(string \<times> nat) list" where
  "luks_phdr = [(''magic'', 6), (''version'', 2), (''cipherName'', 32), (''cipherMode'', 32),
     (''hashSpec'', 32), (''payloadOffset'', 4), (''keyBytes'', 4), (''mkDigest'', 20),
     (''mkDigestSalt'', 32), (''mkDigestIterations'', 4), (''uuid'', 40)]"

definition probe_luks :: "idmag option \<Rightarrow> int prober" where
  "probe_luks mag = with_sb mag (sizeof luks_phdr) (\<lambda>header. do {
     blkid_probe_strncpy_uuid (member luks_phdr ''uuid'' header) 40;
     blkid_probe_sprintf_version (show_nat (be_member luks_phdr ''version'' header));
     ret 0
   })"

definition luks_idinfo :: idinfo where
  "luks_idinfo = \<lparr>ii_name = ''crypto_LUKS'', ii_usage = BLKID_USAGE_CRYPTO, ii_flags = 0, ii_minsz = 0,
     ii_probefunc = Some probe_luks, ii_magics = [magic_at 0 0 (''LUKS'' @ [CHR 0xBA, CHR 0xBE])]\<rparr>"

section \<open>Magic strings only\<close>

definition refs_idinfo :: idinfo where
  "refs_idinfo = \<lparr>ii_name = ''ReFS'', ii_usage = BLKID_USAGE_FILESYSTEM, ii_flags = 0, ii_minsz = 0,
     ii_probefunc = None, ii_magics = [magic_at 0 0 ([NUL, NUL, NUL] @ ''ReFS'' @ [NUL])]\<rparr>"

definition bfs_idinfo :: idinfo where
  "bfs_idinfo = \<lparr>ii_name = ''bfs'', ii_usage = BLKID_USAGE_FILESYSTEM, ii_flags = 0, ii_minsz = 0,
     ii_probefunc = None, ii_magics = [magic_at 0 0 [CHR 0xCE, CHR 0xFA, CHR 0xAD, CHR 0x1B]]\<rparr>"

section \<open>VxFS, romfs, cramfs\<close>

definition vxfs_super_block :: "(string \<times> nat) list" where
  "vxfs_super_block = [(''vs_magic'', 4), (''vs_version'', 4)]"

definition probe_vxfs :: "idmag option \<Rightarrow> int prober" where
  "probe_vxfs mag = with_sb mag (sizeof vxfs_super_block) (\<lambda>vxs. do {
     blkid_probe_sprintf_version (show_nat (le_member vxfs_super_block ''vs_version'' vxs));
     ret 0
   })"

definition vxfs_idinfo :: idinfo where
  "vxfs_idinfo = \<lparr>ii_name = ''vxfs'', ii_usage = BLKID_USAGE_FILESYSTEM, ii_flags = 0, ii_minsz = 0,
     ii_probefunc = Some probe_vxfs,
     ii_magics = [magic_at 1 0 [CHR 0xF5, CHR 0xFC, CHR 0x01, CHR 0xA5]]\<rparr>"

definition romfs_super_block :: "(string \<times> nat) list" where
  "romfs_super_block = [(''ros_magic'', 8), (''ros_dummy1'', 8), (''ros_volume'', 16)]"

definition probe_romfs :: "idmag option \<Rightarrow> int prober" where
  "probe_romfs mag = with_sb mag (sizeof romfs_super_block) (\<lambda>ros. do {
     label_if_set (member romfs_super_block ''ros_volume'' ros);
     ret 0
   })"

definition romfs_idinfo :: idinfo where
  "romfs_idinfo = \<lparr>ii_name = ''romfs'', ii_usage = BLKID_USAGE_FILESYSTEM, ii_flags = 0, ii_minsz = 0,
     ii_probefunc = Some probe_romfs, ii_magics = [magic_at 0 0 ''-rom1fs-'']\<rparr>"

definition cramfs_super :: "(string \<times> nat) list" where
  "cramfs_super = [(''magic'', 4), (''size'', 4), (''flags'', 4), (''future'', 4), (''signature'', 16),
     (''info'', 16), (''name'', 16)]"

definition probe_cramfs :: "idmag option \<Rightarrow> int prober" where
  "probe_cramfs mag = with_sb mag (sizeof cramfs_super) (\<lambda>cs. do {
     blkid_probe_set_label (member cramfs_super ''name'' cs);
     ret 0
   })"

definition cramfs_idinfo :: idinfo where
  "cramfs_idinfo = \<lparr>ii_name = ''cramfs'', ii_usage = BLKID_USAGE_FILESYSTEM, ii_flags = 0, ii_minsz = 0,
     ii_probefunc = Some probe_cramfs,
     ii_magics = [magic_at 0 0 [CHR 0x45, CHR 0x3D, CHR 0xCD, CHR 0x28],
       magic_at 0 0 [CHR 0x28, CHR 0xCD, CHR 0x3D, CHR 0x45]]\<rparr>"

section \<open>JFS\<close>

definition jfs_super_block :: "(string \<times> nat) list" where
  "jfs_super_block = [(''js_magic'', 4), (''js_version'', 4), (''js_size'', 8), (''js_bsize'', 4),
     (''js_l2bsize'', 2), (''js_l2bfactor'', 2), (''js_pbsize'', 4), (''js_l2pbsize'', 2), (''js_pad'', 2),
     (''js_dummy2'', 104), (''js_uuid'', 16), (''js_label'', 16), (''js_loguuid'', 16)]"

text \<open>
  \<open>1U << n\<close> with an amount from the disk; an amount of 32 or more is undefined. The answer of
  \<open>not_power\<close> is that of \<open>size != (1U << n)\<close>.
\<close>

definition not_power :: "nat \<Rightarrow> nat \<Rightarrow> bool prober" where
  "not_power sz n =
     (if n < 32 then ret (sz \<noteq> 2 ^ n) else do { fault (Undefined Bad_Shift); ret True })"

definition probe_jfs :: "idmag option \<Rightarrow> int prober" where
  "probe_jfs mag = with_sb mag (sizeof jfs_super_block) (\<lambda>js.
     let l2bsize = le_member jfs_super_block ''js_l2bsize'' js;
         l2pbsize = le_member jfs_super_block ''js_l2pbsize'' js in
     do {
       bad \<leftarrow> not_power (le_member jfs_super_block ''js_bsize'' js) l2bsize;
       if bad then ret 1
       else do {
         bad \<leftarrow> not_power (le_member jfs_super_block ''js_pbsize'' js) l2pbsize;
         if bad then ret 1
         else if int l2bsize - int l2pbsize \<noteq> int (le_member jfs_super_block ''js_l2bfactor'' js) then ret 1
         else do {
           label_if_set (member jfs_super_block ''js_label'' js);
           blkid_probe_set_uuid (member jfs_super_block ''js_uuid'' js);
           ret 0
         }
       }
     })"

definition jfs_idinfo :: idinfo where
  "jfs_idinfo = \<lparr>ii_name = ''jfs'', ii_usage = BLKID_USAGE_FILESYSTEM, ii_flags = 0,
     ii_minsz = 16 * 1024 * 1024, ii_probefunc = Some probe_jfs, ii_magics = [magic_at 32 0 ''JFS1'']\<rparr>"

section \<open>F2FS and btrfs\<close>

definition f2fs_super_block :: "(string \<times> nat) list" where
  "f2fs_super_block = [(''magic'', 4), (''major_ver'', 2), (''minor_ver'', 2), (''log_sectorsize'', 4),
     (''log_sectors_per_block'', 4), (''log_blocksize'', 4), (''log_blocks_per_seg'', 4),
     (''segs_per_sec'', 4), (''secs_per_zone'', 4), (''checksum_offset'', 4), (''block_count'', 8),
     (''section_count'', 4), (''segment_count'', 4), (''segment_count_ckpt'', 4),
     (''segment_count_sit'', 4), (''segment_count_nat'', 4), (''segment_count_ssa'', 4),
     (''segment_count_main'', 4), (''segment0_blkaddr'', 4), (''cp_blkaddr'', 4), (''sit_blkaddr'', 4),
     (''nat_blkaddr'', 4), (''ssa_blkaddr'', 4), (''main_blkaddr'', 4), (''root_ino'', 4),
     (''node_ino'', 4), (''meta_ino'', 4), (''uuid'', 16), (''volume_name'', 1024)]"

definition probe_f2fs :: "idmag option \<Rightarrow> int prober" where
  "probe_f2fs mag = with_sb mag (sizeof f2fs_super_block) (\<lambda>sb.
     let major = le_member f2fs_super_block ''major_ver'' sb;
         minor = le_member f2fs_super_block ''minor_ver'' sb;
         name = member f2fs_super_block ''volume_name'' sb in
     if major = 1 \<and> minor = 0 then ret 0
     else do {
       (if name ! 0 \<noteq> NUL then blkid_probe_set_utf8label name BLKID_ENC_UTF16LE else ret 0);
       blkid_probe_set_uuid (member f2fs_super_block ''uuid'' sb);
       blkid_probe_sprintf_version (show_nat major @ ''.'' @ show_nat minor);
       ret 0
     })"

definition f2fs_idinfo :: idinfo where
  "f2fs_idinfo = \<lparr>ii_name = ''f2fs'', ii_usage = BLKID_USAGE_FILESYSTEM, ii_flags = 0, ii_minsz = 0,
     ii_probefunc = Some probe_f2fs,
     ii_magics = [magic_at 1 0 [CHR 0x10, CHR 0x20, CHR 0xF5, CHR 0xF2]]\<rparr>"

text \<open>The members of \<open>dev_item\<close> are written out.\<close>

definition btrfs_super_block :: "(string \<times> nat) list" where
  "btrfs_super_block = [(''csum'', 32), (''fsid'', 16), (''bytenr'', 8), (''flags'', 8), (''magic'', 8),
     (''generation'', 8), (''root'', 8), (''chunk_root'', 8), (''log_root'', 8), (''log_root_transid'', 8),
     (''total_bytes'', 8), (''bytes_used'', 8), (''root_dir_objectid'', 8), (''num_devices'', 8),
     (''sectorsize'', 4), (''nodesize'', 4), (''leafsize'', 4), (''stripesize'', 4),
     (''sys_chunk_array_size'', 4), (''chunk_root_generation'', 8), (''compat_flags'', 8),
     (''compat_ro_flags'', 8), (''incompat_flags'', 8), (''csum_type'', 2), (''root_level'', 1),
     (''chunk_root_level'', 1), (''log_root_level'', 1), (''dev_item.devid'', 8),
     (''dev_item.total_bytes'', 8), (''dev_item.bytes_used'', 8), (''dev_item.io_align'', 4),
     (''dev_item.io_width'', 4), (''dev_item.sector_size'', 4), (''dev_item.type'', 8),
     (''dev_item.generation'', 8), (''dev_item.start_offset'', 8), (''dev_item.dev_group'', 4),
     (''dev_item.seek_speed'', 1), (''dev_item.bandwidth'', 1), (''dev_item.uuid'', 16),
     (''dev_item.fsid'', 16), (''label'', 256)]"

definition probe_btrfs :: "idmag option \<Rightarrow> int prober" where
  "probe_btrfs mag = with_sb mag (sizeof btrfs_super_block) (\<lambda>bfs. do {
     label_if_set (member btrfs_super_block ''label'' bfs);
     blkid_probe_set_uuid (member btrfs_super_block ''fsid'' bfs);
     blkid_probe_set_uuid_as (member btrfs_super_block ''dev_item.uuid'' bfs) (Some ''UUID_SUB'');
     ret 0
   })"

definition btrfs_idinfo :: idinfo where
  "btrfs_idinfo = \<lparr>ii_name = ''btrfs'', ii_usage = BLKID_USAGE_FILESYSTEM, ii_flags = 0,
     ii_minsz = 1024 * 1024, ii_probefunc = Some probe_btrfs, ii_magics = [magic_at 64 0x40 ''_BHRfS_M'']\<rparr>"

section \<open>SquashFS\<close>

definition sqsh_super_block :: "(string \<times> nat) list" where
  "sqsh_super_block = [(''s_magic'', 4), (''inodes'', 4), (''bytes_used_2'', 4), (''uid_start_2'', 4),
     (''guid_start_2'', 4), (''inode_table_start_2'', 4), (''directory_table_start_2'', 4),
     (''s_major'', 2), (''s_minor'', 2)]"

definition probe_squashfs :: "idmag option \<Rightarrow> int prober" where
  "probe_squashfs mag = with_sb mag (sizeof sqsh_super_block) (\<lambda>sq.
     let major = le_member sqsh_super_block ''s_major'' sq;
         minor = le_member sqsh_super_block ''s_minor'' sq in
     if major < 4 then ret 1
     else do { blkid_probe_sprintf_version (show_nat major @ ''.'' @ show_nat minor); ret 0 })"

text \<open>\<open>blkid_probe_get_sb\<close> has failed before \<open>mag\<close> could be NULL here.\<close>

definition probe_squashfs3 :: "idmag option \<Rightarrow> int prober" where
  "probe_squashfs3 mag = with_sb mag (sizeof sqsh_super_block) (\<lambda>sq.
     let val = (if map_option im_magic mag = Some ''sqsh'' then be_member else le_member);
         major = val sqsh_super_block ''s_major'' sq;
         minor = val sqsh_super_block ''s_minor'' sq in
     if major > 3 then ret 1
     else do { blkid_probe_sprintf_version (show_nat major @ ''.'' @ show_nat minor); ret 0 })"

definition squashfs_idinfo :: idinfo where
  "squashfs_idinfo = \<lparr>ii_name = ''squashfs'', ii_usage = BLKID_USAGE_FILESYSTEM, ii_flags = 0, ii_minsz = 0,
     ii_probefunc = Some probe_squashfs, ii_magics = [magic_at 0 0 ''hsqs'']\<rparr>"

definition squashfs3_idinfo :: idinfo where
  "squashfs3_idinfo = \<lparr>ii_name = ''squashfs3'', ii_usage = BLKID_USAGE_FILESYSTEM, ii_flags = 0, ii_minsz = 0,
     ii_probefunc = Some probe_squashfs3, ii_magics = [magic_at 0 0 ''sqsh'', magic_at 0 0 ''hsqs'']\<rparr>"

section \<open>Swap and suspended systems\<close>

definition swap_header_v1_2 :: "(string \<times> nat) list" where
  "swap_header_v1_2 = [(''version'', 4), (''lastpage'', 4), (''nr_badpages'', 4), (''uuid'', 16),
     (''volume'', 16), (''padding'', 468), (''badpages'', 4)]"

definition TOI_MAGIC_STRING :: string where
  "TOI_MAGIC_STRING =
     [CHR 0xED, CHR 0xC3, CHR 0x02, CHR 0xE9, CHR 0x98, CHR 0x56, CHR 0xE5, CHR 0x0C]"

definition swap_set_info :: "string \<Rightarrow> int prober" where
  "swap_set_info version = with_buf 1024 (sizeof swap_header_v1_2) (\<lambda>hdr.
     let padding = member swap_header_v1_2 ''padding'' hdr;
         volume = member swap_header_v1_2 ''volume'' hdr in
     if version = ''1'' \<and> le_member swap_header_v1_2 ''version'' hdr \<noteq> 1 \<and>
        be_member swap_header_v1_2 ''version'' hdr \<noteq> 1 then ret 1
     else if version = ''1'' \<and> le_member swap_header_v1_2 ''lastpage'' hdr = 0 then ret 1
     else do {
       rc \<leftarrow> (if le_value (take 4 (drop 128 padding)) = 0 \<and> le_value (take 4 (drop 132 padding)) = 0 then do {
               rc \<leftarrow> (if volume ! 0 \<noteq> NUL then blkid_probe_set_label volume else ret 0);
               if rc < 0 then ret rc
               else blkid_probe_set_uuid (member swap_header_v1_2 ''uuid'' hdr)
             } else ret 0);
       if rc < 0 then ret 1
       else do { blkid_probe_set_version version; ret 0 }
     })"

text \<open>\<open>!memcmp(mag->magic, text, mag->len)\<close>.\<close>

definition magic_is :: "idmag \<Rightarrow> string \<Rightarrow> bool" where
  "magic_is mag text \<longleftrightarrow> im_magic mag = take (length (im_magic mag)) (text @ [NUL])"

definition probe_swap :: "idmag option \<Rightarrow> int prober" where
  "probe_swap mag =
     (case mag of
        None \<Rightarrow> ret 1
      | Some g \<Rightarrow>
          with_buf 0 (length TOI_MAGIC_STRING) (\<lambda>buf.
            if buf = TOI_MAGIC_STRING then ret 1
            else if magic_is g ''SWAP-SPACE'' then do { blkid_probe_set_version ''0''; ret 0 }
            else if magic_is g ''SWAPSPACE2'' then swap_set_info ''1''
            else ret 1))"

definition probe_swsuspend :: "idmag option \<Rightarrow> int prober" where
  "probe_swsuspend mag =
     (case mag of
        None \<Rightarrow> ret 1
      | Some g \<Rightarrow>
          if magic_is g ''S1SUSPEND'' then swap_set_info ''s1suspend''
          else if magic_is g ''S2SUSPEND'' then swap_set_info ''s2suspend''
          else if magic_is g ''ULSUSPEND'' then swap_set_info ''ulsuspend''
          else if magic_is g TOI_MAGIC_STRING then swap_set_info ''tuxonice''
          else if magic_is g ''LINHIB0001'' then swap_set_info ''linhib0001''
          else ret 1)"

definition swap_offsets :: "nat list" where
  "swap_offsets = [0xff6, 0x1ff6, 0x3ff6, 0x7ff6, 0xfff6]"

definition swap_idinfo :: idinfo where
  "swap_idinfo = \<lparr>ii_name = ''swap'', ii_usage = BLKID_USAGE_OTHER, ii_flags = 0, ii_minsz = 10 * 4096,
     ii_probefunc = Some probe_swap,
     ii_magics = concat (map (\<lambda>o'. [magic_at 0 o' ''SWAP-SPACE'', magic_at 0 o' ''SWAPSPACE2'']) swap_offsets)\<rparr>"

definition swsuspend_idinfo :: idinfo where
  "swsuspend_idinfo = \<lparr>ii_name = ''swsuspend'', ii_usage = BLKID_USAGE_OTHER, ii_flags = 0,
     ii_minsz = 10 * 4096, ii_probefunc = Some probe_swsuspend,
     ii_magics = magic_at 0 0 TOI_MAGIC_STRING # concat (map (\<lambda>o'. [magic_at 0 o' ''S1SUSPEND'',
       magic_at 0 o' ''S2SUSPEND'', magic_at 0 o' ''ULSUSPEND'', magic_at 0 o' ''LINHIB0001'']) swap_offsets)\<rparr>"

section \<open>ReiserFS and Reiser4\<close>

definition reiserfs_super_block :: "(string \<times> nat) list" where
  "reiserfs_super_block = [(''rs_blocks_count'', 4), (''rs_free_blocks'', 4), (''rs_root_block'', 4),
     (''rs_journal_block'', 4), (''rs_journal_dev'', 4), (''rs_orig_journal_size'', 4), (''rs_dummy2'', 20),
     (''rs_blocksize'', 2), (''rs_dummy3'', 6), (''rs_magic'', 12), (''rs_dummy4'', 20), (''rs_uuid'', 16),
     (''rs_label'', 16)]"

definition reiser4_super_block :: "(string \<times> nat) list" where
  "reiser4_super_block = [(''rs4_magic'', 16), (''rs4_dummy'', 4), (''rs4_uuid'', 16), (''rs4_label'', 16),
     (''rs4_dummy2'', 8)]"

text \<open>The superblock has been read, so \<open>mag\<close> is not NULL.\<close>

definition mag_kboff :: "idmag option \<Rightarrow> nat" where
  "mag_kboff mag = (case mag of Some g \<Rightarrow> nat (im_kboff g) | None \<Rightarrow> 0)"

definition mag_char :: "idmag option \<Rightarrow> nat \<Rightarrow> char" where
  "mag_char mag i = (case mag of Some g \<Rightarrow> im_magic g ! i | None \<Rightarrow> NUL)"

definition probe_reiser :: "idmag option \<Rightarrow> int prober" where
  "probe_reiser mag = with_sb mag (sizeof reiserfs_super_block) (\<lambda>rs.
     let blocksize = le_member reiserfs_super_block ''rs_blocksize'' rs in
     if blocksize div 512 = 0 then ret 1
     else if mag_kboff mag div (blocksize div 512) > le_member reiserfs_super_block ''rs_journal_block'' rs div 2
     then ret 1
     else do {
       (if mag_char mag 6 = CHR ''2'' \<or> mag_char mag 6 = CHR ''3'' then do {
          label_if_set (member reiserfs_super_block ''rs_label'' rs);
          blkid_probe_set_uuid (member reiserfs_super_block ''rs_uuid'' rs)
        } else ret 0);
       blkid_probe_set_version (if mag_char mag 6 = CHR ''3'' then ''JR''
         else if mag_char mag 6 = CHR ''2'' then ''3.6'' else ''3.5'');
       ret 0
     })"

definition probe_reiser4 :: "idmag option \<Rightarrow> int prober" where
  "probe_reiser4 mag = with_sb mag (sizeof reiser4_super_block) (\<lambda>rs4. do {
     label_if_set (member reiser4_super_block ''rs4_label'' rs4);
     blkid_probe_set_uuid (member reiser4_super_block ''rs4_uuid'' rs4);
     blkid_probe_set_version ''4'';
     ret 0
   })"

definition reiser_idinfo :: idinfo where
  "reiser_idinfo = \<lparr>ii_name = ''reiserfs'', ii_usage = BLKID_USAGE_FILESYSTEM, ii_flags = 0,
     ii_minsz = 128 * 1024, ii_probefunc = Some probe_reiser,
     ii_magics = [magic_at 8 0x34 ''ReIsErFs'', magic_at 64 0x34 ''ReIsEr2Fs'', magic_at 64 0x34 ''ReIsEr3Fs'',
       magic_at 64 0x34 ''ReIsErFs'', magic_at 8 20 ''ReIsErFs'']\<rparr>"

definition reiser4_idinfo :: idinfo where
  "reiser4_idinfo = \<lparr>ii_name = ''reiser4'', ii_usage = BLKID_USAGE_FILESYSTEM, ii_flags = 0,
     ii_minsz = 128 * 1024, ii_probefunc = Some probe_reiser4, ii_magics = [magic_at 64 0 ''ReIsEr4'']\<rparr>"

section \<open>NSS, VMFS, UBIFS\<close>

definition netware_super_block :: "(string \<times> nat) list" where
  "netware_super_block = [(''SBH_Signature'', 4), (''SBH_VersionMajor'', 2), (''SBH_VersionMinor'', 2),
     (''SBH_VersionMediaMajor'', 2), (''SBH_VersionMediaMinor'', 2), (''SBH_ItemsMoved'', 4),
     (''SBH_InternalID'', 16), (''SBH_PackedSize'', 4), (''SBH_Checksum'', 4), (''supersyncid'', 4),
     (''superlocation'', 32), (''physSizeUsed'', 4), (''sizeUsed'', 4), (''superTimeStamp'', 4),
     (''reserved0'', 4), (''SBH_LoggedPoolDataBlk'', 8), (''SBH_PoolDataBlk'', 8),
     (''SBH_OldInternalID'', 16), (''SBH_PoolToLVStartUTC'', 4), (''SBH_PoolToLVEndUTC'', 4),
     (''SBH_VersionMediaMajorCreate'', 2), (''SBH_VersionMediaMinorCreate'', 2), (''SBH_BlocksMoved'', 4),
     (''SBH_TempBTSpBlk'', 4), (''SBH_TempFTSpBlk'', 4), (''SBH_TempFTSpBlk1'', 4),
     (''SBH_TempFTSpBlk2'', 4), (''nssMagicNumber'', 4), (''poolClassID'', 4), (''poolID'', 4),
     (''createTime'', 4), (''SBH_LoggedVolumeDataBlk'', 8), (''SBH_VolumeDataBlk'', 8),
     (''SBH_SystemBeastBlkNum'', 8), (''totalblocks'', 8), (''SBH_Name'', 128), (''SBH_VolumeID'', 16),
     (''SBH_PoolID'', 16), (''SBH_PoolInternalID'', 16), (''SBH_Lsn'', 8), (''SBH_SS_Enabled'', 4),
     (''SBH_SS_CreateTime'', 4), (''SBH_SS_OriginalPoolID'', 16), (''SBH_SS_OriginalVolumeID'', 16),
     (''SBH_SS_Guid'', 16), (''SBH_SS_OriginalName'', 128), (''reserved2'', 64)]"

definition probe_netware :: "idmag option \<Rightarrow> int prober" where
  "probe_netware mag = with_sb mag (sizeof netware_super_block) (\<lambda>nw. do {
     blkid_probe_set_uuid (member netware_super_block ''SBH_PoolID'' nw);
     blkid_probe_sprintf_version (show_nat (le_member netware_super_block ''SBH_VersionMediaMajor'' nw) @ ''.''
       @ pad_zero 2 (show_nat (le_member netware_super_block ''SBH_VersionMediaMinor'' nw)));
     ret 0
   })"

definition netware_idinfo :: idinfo where
  "netware_idinfo = \<lparr>ii_name = ''nss'', ii_usage = BLKID_USAGE_FILESYSTEM, ii_flags = 0, ii_minsz = 0,
     ii_probefunc = Some probe_netware, ii_magics = [magic_at 4 0 ''SPB5'']\<rparr>"

definition vmfs_fs_info :: "(string \<times> nat) list" where
  "vmfs_fs_info = [(''magic'', 4), (''volume_version'', 4), (''version'', 1), (''uuid'', 16), (''mode'', 4),
     (''label'', 128)]"

definition vmfs_volume_info :: "(string \<times> nat) list" where
  "vmfs_volume_info = [(''magic'', 4), (''ver'', 4), (''irrelevant'', 122), (''uuid'', 16)]"

text \<open>The format of the two UUIDs: some bytes in the order of a little-endian number.\<close>

definition vmfs_uuid :: "string \<Rightarrow> string" where
  "vmfs_uuid u =
     concat (map (\<lambda>i. lower_hex2 (u ! i)) [3, 2, 1, 0]) @ ''-'' @
     concat (map (\<lambda>i. lower_hex2 (u ! i)) [7, 6, 5, 4]) @ ''-'' @
     concat (map (\<lambda>i. lower_hex2 (u ! i)) [9, 8]) @ ''-'' @
     concat (map (\<lambda>i. lower_hex2 (u ! i)) [10, 11, 12, 13, 14, 15])"

definition probe_vmfs_fs :: "idmag option \<Rightarrow> int prober" where
  "probe_vmfs_fs mag = with_sb mag (sizeof vmfs_fs_info) (\<lambda>header.
     let uuid = member vmfs_fs_info ''uuid'' header in
     do {
       blkid_probe_sprintf_uuid uuid (vmfs_uuid uuid);
       blkid_probe_set_label (member vmfs_fs_info ''label'' header);
       blkid_probe_sprintf_version (show_nat (le_member vmfs_fs_info ''version'' header));
       ret 0
     })"

definition probe_vmfs_volume :: "idmag option \<Rightarrow> int prober" where
  "probe_vmfs_volume mag = with_sb mag (sizeof vmfs_volume_info) (\<lambda>header. do {
     blkid_probe_sprintf_value ''UUID_SUB'' (vmfs_uuid (member vmfs_volume_info ''uuid'' header));
     blkid_probe_sprintf_version (show_nat (le_member vmfs_volume_info ''ver'' header));
     b \<leftarrow> blkid_probe_get_buffer (1024 * 1024 + 512 + 20) 35;
     (case b of Buf lvm_uuid \<Rightarrow> blkid_probe_strncpy_uuid lvm_uuid 35 | NoBuf e \<Rightarrow> ret 0);
     ret 0
   })"

definition vmfs_fs_idinfo :: idinfo where
  "vmfs_fs_idinfo = \<lparr>ii_name = ''VMFS'', ii_usage = BLKID_USAGE_FILESYSTEM, ii_flags = 0, ii_minsz = 0,
     ii_probefunc = Some probe_vmfs_fs,
     ii_magics = [magic_at 2048 0 [CHR 0x5E, CHR 0xF1, CHR 0xAB, CHR 0x2F]]\<rparr>"

definition vmfs_volume_idinfo :: idinfo where
  "vmfs_volume_idinfo = \<lparr>ii_name = ''VMFS_volume_member'', ii_usage = BLKID_USAGE_RAID, ii_flags = 0,
     ii_minsz = 0, ii_probefunc = Some probe_vmfs_volume,
     ii_magics = [magic_at 1024 0 [CHR 0x0D, CHR 0xD0, CHR 0x01, CHR 0xC0]]\<rparr>"

definition ubifs_ch :: "(string \<times> nat) list" where
  "ubifs_ch = [(''magic'', 4), (''crc'', 4), (''sqnum'', 8), (''len'', 4), (''node_type'', 1),
     (''group_type'', 1), (''padding'', 2)]"

definition ubifs_sb_node :: "(string \<times> nat) list" where
  "ubifs_sb_node = [(''ch'', sizeof ubifs_ch), (''padding'', 2), (''key_hash'', 1), (''key_fmt'', 1),
     (''flags'', 4), (''min_io_size'', 4), (''leb_size'', 4), (''leb_cnt'', 4), (''max_leb_cnt'', 4),
     (''max_bud_bytes'', 8), (''log_lebs'', 4), (''lpt_lebs'', 4), (''orph_lebs'', 4), (''jhead_cnt'', 4),
     (''fanout'', 4), (''lsave_cnt'', 4), (''fmt_version'', 4), (''default_compr'', 2), (''padding1'', 2),
     (''rp_uid'', 4), (''rp_gid'', 4), (''rp_size'', 8), (''time_gran'', 4), (''uuid'', 16),
     (''ro_compat_version'', 4), (''padding2'', 3968)]"

text \<open>\<open>%d\<close> of an unsigned 32 bit number.\<close>

definition show_as_int :: "nat \<Rightarrow> string" where
  "show_as_int n = show_int (sint (of_nat n :: u32))"

definition probe_ubifs :: "idmag option \<Rightarrow> int prober" where
  "probe_ubifs mag = with_sb mag (sizeof ubifs_sb_node) (\<lambda>sb. do {
     blkid_probe_set_uuid (member ubifs_sb_node ''uuid'' sb);
     blkid_probe_sprintf_version (''w'' @ show_as_int (le_member ubifs_sb_node ''fmt_version'' sb) @ ''r'' @
       show_as_int (le_member ubifs_sb_node ''ro_compat_version'' sb));
     ret 0
   })"

definition ubifs_idinfo :: idinfo where
  "ubifs_idinfo = \<lparr>ii_name = ''ubifs'', ii_usage = BLKID_USAGE_FILESYSTEM, ii_flags = 0, ii_minsz = 0,
     ii_probefunc = Some probe_ubifs,
     ii_magics = [magic_at 0 0 [CHR 0x31, CHR 0x18, CHR 0x10, CHR 0x06]]\<rparr>"

section \<open>HPFS\<close>

definition hpfs_boot_block :: "(string \<times> nat) list" where
  "hpfs_boot_block = [(''jmp'', 3), (''oem_id'', 8), (''bytes_per_sector'', 2), (''sectors_per_cluster'', 1),
     (''n_reserved_sectors'', 2), (''n_fats'', 1), (''n_rootdir_entries'', 2), (''n_sectors_s'', 2),
     (''media_byte'', 1), (''sectors_per_fat'', 2), (''sectors_per_track'', 2), (''heads_per_cyl'', 2),
     (''n_hidden_sectors'', 4), (''n_sectors_l'', 4), (''drive_number'', 1), (''mbz'', 1), (''sig_28h'', 1),
     (''vol_serno'', 4), (''vol_label'', 11), (''sig_hpfs'', 8), (''pad'', 448), (''magic'', 2)]"

definition hpfs_super_block :: "(string \<times> nat) list" where
  "hpfs_super_block = [(''magic'', 4), (''magic1'', 4), (''version'', 1)]"

definition hpfs_spare_super :: "(string \<times> nat) list" where
  "hpfs_spare_super = [(''magic'', 4), (''magic1'', 4)]"

text \<open>\<open>%02X%02X-%02X%02X\<close> of a serial number.\<close>

definition probe_hpfs :: "idmag option \<Rightarrow> int prober" where
  "probe_hpfs mag = with_sb mag (sizeof hpfs_super_block) (\<lambda>hs.
     let version = le_member hpfs_super_block ''version'' hs in
     with_buf 0x2200 (sizeof hpfs_spare_super) (\<lambda>hss.
       if member hpfs_spare_super ''magic'' hss \<noteq> [CHR 0x49, CHR 0x18, CHR 0x91, CHR 0xF9] then ret 1
       else with_buf 0 (sizeof hpfs_boot_block) (\<lambda>hbb. do {
         (if member hpfs_boot_block ''magic'' hbb = [CHR 0x55, CHR 0xAA] \<and>
             take 4 (member hpfs_boot_block ''sig_hpfs'' hbb) = ''HPFS'' \<and>
             le_member hpfs_boot_block ''sig_28h'' hbb = 0x28 then
            let serno = member hpfs_boot_block ''vol_serno'' hbb in
            do {
              blkid_probe_set_label (member hpfs_boot_block ''vol_label'' hbb);
              blkid_probe_sprintf_uuid serno (serial_text serno)
            }
          else ret 0);
         blkid_probe_sprintf_version (show_nat version);
         ret 0
       })))"

definition hpfs_idinfo :: idinfo where
  "hpfs_idinfo = \<lparr>ii_name = ''hpfs'', ii_usage = BLKID_USAGE_FILESYSTEM, ii_flags = 0, ii_minsz = 0,
     ii_probefunc = Some probe_hpfs,
     ii_magics = [magic_at (0x2000 div 1024) 0 [CHR 0x49, CHR 0xE8, CHR 0x95, CHR 0xF9]]\<rparr>"

section \<open>GFS and GFS2\<close>

definition gfs2_sb :: "(string \<times> nat) list" where
  "gfs2_sb = [(''mh_magic'', 4), (''mh_type'', 4), (''mh_pad0'', 8), (''mh_format'', 4), (''mh_pad1'', 4),
     (''sb_fs_format'', 4), (''sb_multihost_format'', 4), (''pad0'', 4), (''sb_bsize'', 4),
     (''sb_bsize_shift'', 4), (''pad1'', 4), (''sb_master_dir'', 16), (''pad2'', 16), (''sb_root_dir'', 16),
     (''sb_lockproto'', 64), (''sb_locktable'', 64), (''pad3'', 16), (''pad4'', 16), (''sb_uuid'', 16)]"

definition gfs_formats :: "string \<Rightarrow> nat \<times> nat" where
  "gfs_formats sbd = (be_member gfs2_sb ''sb_fs_format'' sbd, be_member gfs2_sb ''sb_multihost_format'' sbd)"

definition probe_gfs :: "idmag option \<Rightarrow> int prober" where
  "probe_gfs mag = with_sb mag (sizeof gfs2_sb) (\<lambda>sbd.
     if gfs_formats sbd = (1309, 1401) then do {
       label_if_set (member gfs2_sb ''sb_locktable'' sbd);
       blkid_probe_set_uuid (member gfs2_sb ''sb_uuid'' sbd);
       ret 0
     } else ret 1)"

definition probe_gfs2 :: "idmag option \<Rightarrow> int prober" where
  "probe_gfs2 mag = with_sb mag (sizeof gfs2_sb) (\<lambda>sbd.
     if gfs_formats sbd = (1801, 1900) then do {
       label_if_set (member gfs2_sb ''sb_locktable'' sbd);
       blkid_probe_set_uuid (member gfs2_sb ''sb_uuid'' sbd);
       blkid_probe_set_version ''1'';
       ret 0
     } else ret 1)"

definition gfs_magics :: "idmag list" where
  "gfs_magics = [magic_at 64 0 [CHR 0x01, CHR 0x16, CHR 0x19, CHR 0x70]]"

definition gfs_idinfo :: idinfo where
  "gfs_idinfo = \<lparr>ii_name = ''gfs'', ii_usage = BLKID_USAGE_FILESYSTEM, ii_flags = 0,
     ii_minsz = 32 * 1024 * 1024, ii_probefunc = Some probe_gfs, ii_magics = gfs_magics\<rparr>"

definition gfs2_idinfo :: idinfo where
  "gfs2_idinfo = \<lparr>ii_name = ''gfs2'', ii_usage = BLKID_USAGE_FILESYSTEM, ii_flags = 0,
     ii_minsz = 32 * 1024 * 1024, ii_probefunc = Some probe_gfs2, ii_magics = gfs_magics\<rparr>"

section \<open>System V and Xenix\<close>

definition xenix_super_block :: "(string \<times> nat) list" where
  "xenix_super_block = [(''s_isize'', 2), (''s_fsize'', 4), (''s_nfree'', 2), (''s_free'', 400), (''s_ninode'', 2),
     (''s_inode'', 200), (''s_flock'', 1), (''s_ilock'', 1), (''s_fmod'', 1), (''s_ronly'', 1), (''s_time'', 4),
     (''s_tfree'', 4), (''s_tinode'', 2), (''s_dinfo'', 8), (''s_fname'', 6), (''s_fpack'', 6), (''s_clean'', 1),
     (''s_fill'', 371), (''s_magic'', 4), (''s_type'', 4)]"

definition sysv_super_block :: "(string \<times> nat) list" where
  "sysv_super_block = [(''s_isize'', 2), (''s_pad0'', 2), (''s_fsize'', 4), (''s_nfree'', 2), (''s_pad1'', 2),
     (''s_free'', 200), (''s_ninode'', 2), (''s_pad2'', 2), (''s_inode'', 200), (''s_flock'', 1), (''s_ilock'', 1),
     (''s_fmod'', 1), (''s_ronly'', 1), (''s_time'', 4), (''s_dinfo'', 8), (''s_tfree'', 4), (''s_tinode'', 2),
     (''s_pad3'', 2), (''s_fname'', 6), (''s_fpack'', 6), (''s_fill'', 48), (''s_state'', 4), (''s_magic'', 4),
     (''s_type'', 4)]"

definition probe_xenix :: "idmag option \<Rightarrow> int prober" where
  "probe_xenix mag = with_sb mag (sizeof xenix_super_block) (\<lambda>sb. do {
     blkid_probe_set_label (member xenix_super_block ''s_fname'' sb);
     ret 0
   })"

definition SYSV_MAGIC :: nat where "SYSV_MAGIC = 0xfd187e20"

text \<open>The loop over the blocks where the superblock may be.\<close>

fun sysv_loop :: "int list \<Rightarrow> int prober" where
  "sysv_loop [] = ret 1"
| "sysv_loop (b # blocks) =
     (let off = b * 1024 + 512 in
      with_buf off (sizeof sysv_super_block) (\<lambda>sb.
        if le_member sysv_super_block ''s_magic'' sb = SYSV_MAGIC \<or>
           be_member sysv_super_block ''s_magic'' sb = SYSV_MAGIC then
          or_none (blkid_probe_set_label (member sysv_super_block ''s_fname'' sb))
            (or_none (blkid_probe_set_magic (off + int (offset_of ''s_magic'' sysv_super_block))
                (member sysv_super_block ''s_magic'' sb)) (ret 0))
        else sysv_loop blocks))"

definition probe_sysv :: "idmag option \<Rightarrow> int prober" where
  "probe_sysv mag = sysv_loop [0, 9, 15, 18]"

definition xenix_idinfo :: idinfo where
  "xenix_idinfo = \<lparr>ii_name = ''xenix'', ii_usage = BLKID_USAGE_FILESYSTEM, ii_flags = 0, ii_minsz = 0,
     ii_probefunc = Some probe_xenix,
     ii_magics = [magic_at 1 0x400 [CHR 0x2B, CHR 0x55, CHR 0x44], magic_at 1 0x400 [CHR 0x44, CHR 0x55, CHR 0x2B]]\<rparr>"

definition sysv_idinfo :: idinfo where
  "sysv_idinfo = \<lparr>ii_name = ''sysv'', ii_usage = BLKID_USAGE_FILESYSTEM, ii_flags = 0, ii_minsz = 0,
     ii_probefunc = Some probe_sysv, ii_magics = []\<rparr>"

section \<open>Minix\<close>

text \<open>The structs of src/lib/libblkid/include/minix.h, in the byte order of the machine that wrote them.\<close>

definition minix_super_block :: "(string \<times> nat) list" where
  "minix_super_block = [(''s_ninodes'', 2), (''s_nzones'', 2), (''s_imap_blocks'', 2), (''s_zmap_blocks'', 2),
     (''s_firstdatazone'', 2), (''s_log_zone_size'', 2), (''s_max_size'', 4), (''s_magic'', 2), (''s_state'', 2),
     (''s_zones'', 4)]"

definition minix3_super_block :: "(string \<times> nat) list" where
  "minix3_super_block = [(''s_ninodes'', 4), (''s_pad0'', 2), (''s_imap_blocks'', 2), (''s_zmap_blocks'', 2),
     (''s_firstdatazone'', 2), (''s_log_zone_size'', 2), (''s_pad1'', 2), (''s_max_size'', 4), (''s_zones'', 4),
     (''s_magic'', 2), (''s_pad2'', 2), (''s_blocksize'', 2), (''s_disk_version'', 1), (''_pad'', 1)]"

definition MINIX_SUPER_MAGIC :: nat where "MINIX_SUPER_MAGIC = 0x137F"
definition MINIX_SUPER_MAGIC2 :: nat where "MINIX_SUPER_MAGIC2 = 0x138F"
definition MINIX2_SUPER_MAGIC :: nat where "MINIX2_SUPER_MAGIC = 0x2468"
definition MINIX2_SUPER_MAGIC2 :: nat where "MINIX2_SUPER_MAGIC2 = 0x2478"
definition MINIX3_SUPER_MAGIC :: nat where "MINIX3_SUPER_MAGIC = 0x4d5a"

definition minix_switch :: "nat \<Rightarrow> string \<Rightarrow> int" where
  "minix_switch s_magic data =
     (if s_magic = MINIX_SUPER_MAGIC \<or> s_magic = MINIX_SUPER_MAGIC2 then 1
      else if s_magic = MINIX2_SUPER_MAGIC \<or> s_magic = MINIX2_SUPER_MAGIC2 then 2
      else if le_member minix3_super_block ''s_magic'' data = MINIX3_SUPER_MAGIC then 3
      else 0)"

text \<open>The version, or \<open>- 1\<close>, and whether the other byte order was tried.\<close>

definition get_minix_version :: "string \<Rightarrow> int \<times> bool" where
  "get_minix_version data =
     (let version = minix_switch (le_member minix_super_block ''s_magic'' data) data in
      if version \<noteq> 0 then (version, False)
      else
        let version = minix_switch (be_member minix_super_block ''s_magic'' data) data in
        (if version = 0 then - 1 else version, True))"

definition minix_bitmaps_fit :: "int \<Rightarrow> bool \<Rightarrow> string \<Rightarrow> bool prober" where
  "minix_bitmaps_fit version swabme data =
     (let val = (if swabme then be_member else le_member) minix_super_block;
          zones = (if version = 2 then sint (of_nat (val ''s_zones'' data) :: u32)
                   else int (val ''s_nzones'' data));
          ninodes = int (val ''s_ninodes'' data);
          imaps = int (val ''s_imap_blocks'' data);
          zmaps = int (val ''s_zmap_blocks'' data);
          firstz = int (val ''s_firstdatazone'' data) in
      if imaps * 1024 * 8 < ninodes + 1 then ret False
      else do {
        (if zones - firstz < - (2 ^ 31) \<or> zones - firstz + 1 \<ge> 2 ^ 31
         then fault (Undefined Signed_Overflow) else ret ());
        ret (\<not> zmaps * 1024 * 8 < zones - firstz + 1)
      })"

definition probe_minix :: "idmag option \<Rightarrow> int prober" where
  "probe_minix mag =
     with_buf 1024 (max (sizeof minix_super_block) (sizeof minix3_super_block)) (\<lambda>data.
       let (version, swabme) = get_minix_version data;
           layout = (if version \<le> 2 then minix_super_block else minix3_super_block) in
       if version < 1 then ret 1
       else if le_member layout ''s_imap_blocks'' data = 0 \<or> le_member layout ''s_zmap_blocks'' data = 0
       then ret 1
       else do {
         fits \<leftarrow> (if version \<le> 2 then minix_bitmaps_fit version swabme data else ret True);
         if \<not> fits then ret 1
         else with_buf (0x400 + 0x38) 2 (\<lambda>ext.
           if ext = [CHR 0x53, CHR 0xEF] then ret 1
           else do { blkid_probe_sprintf_version (show_int version); ret 0 })
       })"

definition minix_idinfo :: idinfo where
  "minix_idinfo = \<lparr>ii_name = ''minix'', ii_usage = BLKID_USAGE_FILESYSTEM, ii_flags = 0, ii_minsz = 0,
     ii_probefunc = Some probe_minix,
     ii_magics = [magic_at 1 0x10 [CHR 0x7F, CHR 0x13], magic_at 1 0x10 [CHR 0x8F, CHR 0x13],
       magic_at 1 0x10 [CHR 0x13, CHR 0x7F], magic_at 1 0x10 [CHR 0x13, CHR 0x8F],
       magic_at 1 0x10 [CHR 0x68, CHR 0x24], magic_at 1 0x10 [CHR 0x78, CHR 0x24],
       magic_at 1 0x10 [CHR 0x24, CHR 0x68], magic_at 1 0x10 [CHR 0x24, CHR 0x78],
       magic_at 1 0x18 [CHR 0x5A, CHR 0x4D], magic_at 1 0x18 [CHR 0x4D, CHR 0x5A]]\<rparr>"

section \<open>What the probing functions keep\<close>

context prober_inv
begin

lemma not_power: "keeps I (not_power a b)"
  unfolding not_power_def by (intro tool_rules)

lemma swap_info: "keeps I (swap_set_info v)"
  unfolding swap_set_info_def by (intro tool_rules)

lemma sysv_loop: "keeps I (sysv_loop bs)"
  by (induction bs) (auto simp: Let_def intro!: tool_rules)

lemma minix_fit: "keeps I (minix_bitmaps_fit v s d)"
  unfolding minix_bitmaps_fit_def by (intro tool_rules)

lemmas fs_rules = not_power swap_info sysv_loop minix_fit tool_rules

lemma filesystems:
  "keeps I (probe_luks mag)" "keeps I (probe_vxfs mag)" "keeps I (probe_romfs mag)"
  "keeps I (probe_cramfs mag)" "keeps I (probe_jfs mag)" "keeps I (probe_f2fs mag)"
  "keeps I (probe_btrfs mag)" "keeps I (probe_squashfs mag)" "keeps I (probe_squashfs3 mag)"
  "keeps I (probe_swap mag)" "keeps I (probe_swsuspend mag)" "keeps I (probe_reiser mag)"
  "keeps I (probe_reiser4 mag)" "keeps I (probe_netware mag)" "keeps I (probe_vmfs_fs mag)"
  "keeps I (probe_vmfs_volume mag)" "keeps I (probe_ubifs mag)" "keeps I (probe_hpfs mag)"
  "keeps I (probe_gfs mag)" "keeps I (probe_gfs2 mag)" "keeps I (probe_xenix mag)"
  "keeps I (probe_sysv mag)" "keeps I (probe_minix mag)"
  unfolding probe_luks_def probe_vxfs_def probe_romfs_def probe_cramfs_def probe_jfs_def probe_f2fs_def
    probe_btrfs_def probe_squashfs_def probe_squashfs3_def probe_swap_def probe_swsuspend_def probe_reiser_def
    probe_reiser4_def probe_netware_def probe_vmfs_fs_def probe_vmfs_volume_def probe_ubifs_def probe_hpfs_def
    probe_gfs_def probe_gfs2_def probe_xenix_def probe_sysv_def probe_minix_def
  by (intro fs_rules; simp)+

end

lemma filesystems_behave:
  "behaves probe_luks" "behaves probe_vxfs" "behaves probe_romfs" "behaves probe_cramfs" "behaves probe_jfs"
  "behaves probe_f2fs" "behaves probe_btrfs" "behaves probe_squashfs" "behaves probe_squashfs3"
  "behaves probe_swap" "behaves probe_swsuspend" "behaves probe_reiser" "behaves probe_reiser4"
  "behaves probe_netware" "behaves probe_vmfs_fs" "behaves probe_vmfs_volume" "behaves probe_ubifs"
  "behaves probe_hpfs" "behaves probe_gfs" "behaves probe_gfs2" "behaves probe_xenix" "behaves probe_sysv"
  "behaves probe_minix"
  by (rule behavesI, erule prober_inv.filesystems)+

lemmas fs_idinfos = luks_idinfo_def refs_idinfo_def bfs_idinfo_def vxfs_idinfo_def romfs_idinfo_def
  cramfs_idinfo_def jfs_idinfo_def f2fs_idinfo_def btrfs_idinfo_def squashfs_idinfo_def squashfs3_idinfo_def
  swap_idinfo_def swsuspend_idinfo_def reiser_idinfo_def reiser4_idinfo_def netware_idinfo_def
  vmfs_fs_idinfo_def vmfs_volume_idinfo_def ubifs_idinfo_def hpfs_idinfo_def gfs_idinfo_def gfs2_idinfo_def
  xenix_idinfo_def sysv_idinfo_def minix_idinfo_def

lemma fs_layouts:
  "sizeof luks_phdr = 208" "sizeof f2fs_super_block = 0x47C" "offset_of ''magic'' btrfs_super_block = 0x40"
  "sizeof swap_header_v1_2 = 516" "offset_of ''rs_magic'' reiserfs_super_block = 0x34"
  "sizeof sysv_super_block = 512" "sizeof xenix_super_block = 1024" "sizeof hpfs_boot_block = 512"
  "offset_of ''s_magic'' minix_super_block = 0x10" "offset_of ''s_magic'' minix3_super_block = 0x18"
  "sizeof minix3_super_block = 32" "sizeof ubifs_ch = 24"
  by (simp_all add: sizeof_def luks_phdr_def f2fs_super_block_def btrfs_super_block_def swap_header_v1_2_def
      reiserfs_super_block_def sysv_super_block_def xenix_super_block_def hpfs_boot_block_def
      minix_super_block_def minix3_super_block_def ubifs_ch_def)

end
