(* ===== verification/SbRun.thy ===== *)
theory SbRun
  imports SbFs
begin

text \<open>
  Runs of the library over the superblocks chain: \<open>blkid_do_probe\<close> called again and
  again until it finds nothing more, and the verdict of \<open>blkid_do_safeprobe\<close>.
\<close>

section \<open>Repeated probing\<close>

text \<open>The chain is the only one that is enabled, as in a new probe.\<close>

definition only_superblocks :: "probe \<Rightarrow> bool" where
  "only_superblocks pr \<longleftrightarrow> length (pr_chains pr) = BLKID_NCHAINS \<and>
     (\<forall>i < BLKID_NCHAINS. cd_id (ch_driver (chain_at pr i)) = i) \<and>
     \<not> ch_enabled (chain_at pr BLKID_CHAIN_TOPLGY) \<and> \<not> ch_enabled (chain_at pr BLKID_CHAIN_PARTS)"

text \<open>
  The loop that the documentation of \<open>blkid_do_probe\<close> recommends: probe until nothing is
  found or an error occurs.
\<close>

fun probe_all :: "nat \<Rightarrow> chain_ops list \<Rightarrow> (int \<times> nat) prober" where
  "probe_all 0 ops = do { fault Endless; ret (- 1, 0) }"
| "probe_all (Suc n) ops =
     do {
       rc \<leftarrow> blkid_do_probe ops;
       if rc \<noteq> 0 then ret (rc, 0)
       else do { (rc, k) \<leftarrow> probe_all n ops; ret (rc, k + 1) }
     }"

lemma only_superblocks_cong:
  assumes "length (pr_chains p) = length (pr_chains q)"
    and "\<And>i. ch_driver (chain_at p i) = ch_driver (chain_at q i)"
    and "\<And>i. i \<noteq> BLKID_CHAIN_SUBLKS \<Longrightarrow> ch_enabled (chain_at p i) = ch_enabled (chain_at q i)"
  shows "only_superblocks p = only_superblocks q"
  using assms by (auto simp: only_superblocks_def BLKID_CHAIN_defs)

lemma only_superblocks_frame:
  assumes "chain_frame p = chain_frame q" and "length (pr_chains p) = length (pr_chains q)"
  shows "only_superblocks p = only_superblocks q"
proof (rule only_superblocks_cong)
  show "length (pr_chains p) = length (pr_chains q)" by (fact assms(2))
  show "ch_driver (chain_at p i) = ch_driver (chain_at q i)" for i
    using chain_frame_facts(6,8) [OF assms] by (cases "i = BLKID_CHAIN_SUBLKS") auto
  show "ch_enabled (chain_at p i) = ch_enabled (chain_at q i)" if "i \<noteq> BLKID_CHAIN_SUBLKS" for i
    using chain_frame_facts(6) [OF assms that] by simp
qed

text \<open>The state between two calls: before the first chain, in it, or behind it.\<close>

definition between :: "nat \<Rightarrow> probe \<Rightarrow> bool" where
  "between n pr \<longleftrightarrow> only_superblocks pr \<and> - 1 \<le> sb_idx pr \<and> sb_start (sb_idx pr) \<le> n \<and>
     nidinfos (chain_at pr BLKID_CHAIN_SUBLKS) = n \<and> pr_fault pr \<noteq> Some Endless \<and>
     (sb_ignores pr \<longrightarrow> sb_idx pr = - 1) \<and> (pr_cur_chain pr = None \<and> no_type pr \<or> typed_by_chain pr)"

text \<open>A chain that is through: the loop goes on to the disabled ones and ends.\<close>

definition passed :: "nat \<Rightarrow> probe \<Rightarrow> bool" where
  "passed n pr \<longleftrightarrow> only_superblocks pr \<and> pr_cur_chain pr = Some BLKID_CHAIN_SUBLKS \<and>
     nidinfos (chain_at pr BLKID_CHAIN_SUBLKS) = n \<and> (sb_idx pr + 1 = int n \<or> sb_idx pr = - 1) \<and>
     pr_fault pr \<noteq> Some Endless"

lemma three_chains:
  assumes "only_superblocks pr"
  obtains a b c where "pr_chains pr = [a, b, c]" "cd_id (ch_driver a) = 0" "cd_id (ch_driver b) = 1"
    "cd_id (ch_driver c) = 2" "\<not> ch_enabled b" "\<not> ch_enabled c"
proof -
  from assms have "length (pr_chains pr) = 3" by (simp add: only_superblocks_def BLKID_NCHAINS_def)
  then obtain a b c where l: "pr_chains pr = [a, b, c]"
    by (auto simp: numeral_3_eq_3 length_Suc_conv)
  with assms have "\<forall>i < 3. cd_id (ch_driver ([a, b, c] ! i)) = i" "\<not> ch_enabled b" "\<not> ch_enabled c"
    by (simp_all add: only_superblocks_def BLKID_CHAIN_defs chain_at_def)
  moreover have "cd_id (ch_driver ([a, b, c] ! 0)) = 0" "cd_id (ch_driver ([a, b, c] ! 1)) = 1"
    "cd_id (ch_driver ([a, b, c] ! 2)) = 2" using calculation(1) by (simp_all only: All_less_Suc numeral_3_eq_3 numeral_2_eq_2 One_nat_def simp_thms)
  ultimately show ?thesis using that [OF l] by simp
qed

lemma passed_ends:
  assumes "passed n pr"
  shows "\<exists>pr'. run_state (do_probe_loop (Suc (Suc (Suc m))) ops 1) pr = (1, pr') \<and> pr_fault pr' \<noteq> Some Endless"
proof -
  from assms have o: "only_superblocks pr" by (simp add: passed_def)
  from three_chains [OF o] obtain a b c where l: "pr_chains pr = [a, b, c]" "cd_id (ch_driver a) = 0"
    "cd_id (ch_driver b) = 1" "cd_id (ch_driver c) = 2" "\<not> ch_enabled b" "\<not> ch_enabled c" .
  then show ?thesis
    using assms
    by (simp add: passed_def next_chain_def chain_at_def set_chain_def BLKID_CHAIN_defs Let_def
        blkid_probe_end_def blkid_probe_set_wiper_def)
qed

text \<open>One round of the loop on the superblocks chain.\<close>

definition round_state :: "probe \<Rightarrow> probe" where
  "round_state pr = snd (run_state (set_chain BLKID_CHAIN_SUBLKS (\<lambda>chn. chn\<lparr>ch_binary := False\<rparr>)) pr)"

lemma round_state_facts:
  assumes "only_superblocks pr"
  shows "only_superblocks (round_state pr)" "sb_idx (round_state pr) = sb_idx pr"
    "nidinfos (chain_at (round_state pr) BLKID_CHAIN_SUBLKS) = nidinfos (chain_at pr BLKID_CHAIN_SUBLKS)"
    "pr_fault (round_state pr) = pr_fault pr" "sb_ignores (round_state pr) = sb_ignores pr"
    "pr_cur_chain (round_state pr) = pr_cur_chain pr" "pr_vals (round_state pr) = pr_vals pr"
    "pr_flags (round_state pr) = pr_flags pr"
    "ch_enabled (chain_at (round_state pr) BLKID_CHAIN_SUBLKS) = ch_enabled (chain_at pr BLKID_CHAIN_SUBLKS)"
    "0 < length (pr_chains (round_state pr))"
proof -
  from three_chains [OF assms] obtain a b c where l: "pr_chains pr = [a, b, c]" "cd_id (ch_driver a) = 0"
    "cd_id (ch_driver b) = 1" "cd_id (ch_driver c) = 2" "\<not> ch_enabled b" "\<not> ch_enabled c" .
  have at: "chain_at (round_state pr) i = (if i = 0 then a\<lparr>ch_binary := False\<rparr> else chain_at pr i)" for i
    using l(1) by (cases i) (simp_all add: round_state_def set_chain_def chain_at_def BLKID_CHAIN_SUBLKS_def)
  have a: "chain_at pr 0 = a" using l(1) by (simp add: chain_at_def)
  have "only_superblocks (round_state pr) = only_superblocks pr"
  proof (rule only_superblocks_cong)
    show "length (pr_chains (round_state pr)) = length (pr_chains pr)"
      by (simp add: round_state_def set_chain_def)
    show "ch_driver (chain_at (round_state pr) i) = ch_driver (chain_at pr i)" for i
      by (simp add: at a)
    show "ch_enabled (chain_at (round_state pr) i) = ch_enabled (chain_at pr i)" if "i \<noteq> BLKID_CHAIN_SUBLKS" for i
      using that by (simp add: at BLKID_CHAIN_SUBLKS_def)
  qed
  then show "only_superblocks (round_state pr)" using assms by simp
  show "sb_idx (round_state pr) = sb_idx pr"
    "nidinfos (chain_at (round_state pr) BLKID_CHAIN_SUBLKS) = nidinfos (chain_at pr BLKID_CHAIN_SUBLKS)"
    "pr_fault (round_state pr) = pr_fault pr" "sb_ignores (round_state pr) = sb_ignores pr"
    "pr_cur_chain (round_state pr) = pr_cur_chain pr" "pr_vals (round_state pr) = pr_vals pr"
    "pr_flags (round_state pr) = pr_flags pr"
    "ch_enabled (chain_at (round_state pr) BLKID_CHAIN_SUBLKS) = ch_enabled (chain_at pr BLKID_CHAIN_SUBLKS)"
    "0 < length (pr_chains (round_state pr))"
    using l(1) by (simp_all add: round_state_def set_chain_def chain_at_def BLKID_CHAIN_defs nidinfos_def sb_ignores_def pr_size_def)
qed

lemma round_run:
  assumes "run_state (superblocks_probe iis) (round_state pr) = (rc, pr')" and "ops ! 0 = superblocks_ops iis"
    and "only_superblocks pr" and "run_state (next_chain r) p0 = (Some BLKID_CHAIN_SUBLKS, pr)"
    and "ch_enabled (chain_at pr BLKID_CHAIN_SUBLKS)"
  shows "run_state (do_probe_loop (Suc m) ops r) p0 =
    (if rc = 1 then run_state (do_probe_loop m ops rc) pr' else (rc, pr'))"
proof -
  have s: "run_state (set_chain BLKID_CHAIN_SUBLKS (\<lambda>chn. chn\<lparr>ch_binary := False\<rparr>)) pr = ((), round_state pr)"
    by (simp add: round_state_def set_chain_def)
  have e: "ch_enabled (chain_at (round_state pr) BLKID_CHAIN_SUBLKS)"
    using round_state_facts(9) [OF assms(3)] assms(5) by simp
  have o: "co_probe (ops ! BLKID_CHAIN_SUBLKS) = superblocks_probe iis"
    using assms(2) by (simp add: superblocks_ops_def BLKID_CHAIN_SUBLKS_def)
  have "run_state (do_probe_loop (Suc m) ops r) p0 =
     run_state (do {
       set_chain BLKID_CHAIN_SUBLKS (\<lambda>chn. chn\<lparr>ch_binary := False\<rparr>);
       enabled \<leftarrow> gets (\<lambda>pr. ch_enabled (chain_at pr BLKID_CHAIN_SUBLKS));
       rc \<leftarrow> (if enabled then co_probe (ops ! BLKID_CHAIN_SUBLKS) else ret r);
       if rc = 1 then do_probe_loop m ops rc else ret rc }) pr"
    by (subst do_probe_loop.simps(2)) (simp only: run_state_bind assms(4) prod.case option.case)
  also have "\<dots> = (if rc = 1 then run_state (do_probe_loop m ops rc) pr' else (rc, pr'))"
    by (simp add: s e o assms(1))
  finally show ?thesis .
qed


text \<open>The chain that a call begins with, and the state it is in there.\<close>

definition do_start :: "probe \<Rightarrow> probe" where
  "do_start pr = (if pr_cur_chain pr = None
     then pr\<lparr>pr_cur_chain := Some BLKID_CHAIN_SUBLKS, pr_prob_flags := 0, pr_wipe_size := 0,
       pr_wipe_off := 0, pr_wipe_chain := None\<rparr>
     else pr)"

lemma next_chain_start:
  assumes "between n pr" and "pr_cur_chain pr = None \<or> \<not> passed n pr"
    and "ch_enabled (chain_at pr BLKID_CHAIN_SUBLKS)"
  shows "run_state (next_chain 1) pr = (Some BLKID_CHAIN_SUBLKS, do_start pr)"
  using assms
  by (auto simp: between_def next_chain_def do_start_def passed_def blkid_probe_start_def
      blkid_probe_set_wiper_def BLKID_CHAIN_SUBLKS_def typed_by_chain_def)

lemma do_start_facts [simp]:
  "pr_chains (do_start pr) = pr_chains pr" "chain_at (do_start pr) i = chain_at pr i"
  "pr_fault (do_start pr) = pr_fault pr" "sb_ignores (do_start pr) = sb_ignores pr"
  "only_superblocks (do_start pr) = only_superblocks pr" "pr_flags (do_start pr) = pr_flags pr"
  by (simp_all add: do_start_def chain_at_def sb_ignores_def only_superblocks_def pr_size_def)

lemma do_start_typed: "between n pr \<Longrightarrow> typed_by_chain (round_state (do_start pr))"
  by (auto simp: between_def do_start_def round_state_def typed_by_chain_def no_type_def set_chain_def)

text \<open>
  One call of \<open>blkid_do_probe\<close> in such a state ends, and when it has found something the
  next call begins behind the position of the last one.
\<close>

lemma do_probe_round:
  assumes r: "run_state (blkid_do_probe ops) pr = (rc, pr')" and "ops ! 0 = superblocks_ops iis"
    and "table_behaves iis" and "between (length iis) pr" and "ch_enabled (chain_at pr BLKID_CHAIN_SUBLKS)"
  shows "pr_fault pr' \<noteq> Some Endless"
    and "rc = 0 \<Longrightarrow> between (length iis) pr' \<and> ch_enabled (chain_at pr' BLKID_CHAIN_SUBLKS) \<and>
      sb_start (sb_idx pr) < sb_start (sb_idx pr') \<and> pr_cur_chain pr' = Some BLKID_CHAIN_SUBLKS"
proof -
  let ?n = "length iis" and ?s = "do_start pr"
  let ?goal = "pr_fault pr' \<noteq> Some Endless \<and> (rc = 0 \<longrightarrow> between (length iis) pr' \<and>
      ch_enabled (chain_at pr' BLKID_CHAIN_SUBLKS) \<and>
      sb_start (sb_idx pr) < sb_start (sb_idx pr') \<and> pr_cur_chain pr' = Some BLKID_CHAIN_SUBLKS)"
  have b: "only_superblocks pr" "- 1 \<le> sb_idx pr" "sb_start (sb_idx pr) \<le> ?n" "pr_fault pr \<noteq> Some Endless"
    "nidinfos (chain_at pr BLKID_CHAIN_SUBLKS) = ?n" "sb_ignores pr \<Longrightarrow> sb_idx pr = - 1"
    using assms(4) by (simp_all add: between_def)
  have fuel: "DO_PROBE_FUEL = Suc (Suc (Suc (Suc 0)))" by (simp add: DO_PROBE_FUEL_def BLKID_NCHAINS_def)
  have ?goal
  proof (cases "has_flag (pr_flags pr) BLKID_FL_NOSCAN_DEV")
    case True
    then show ?thesis using r b(4) by (simp add: blkid_do_probe_def)
  next
    case scan: False
    have loop: "run_state (do_probe_loop (Suc (Suc (Suc (Suc 0)))) ops 1) pr = (rc, pr')"
      using r scan by (simp add: blkid_do_probe_def fuel del: do_probe_loop.simps)
    show ?thesis
    proof (cases "pr_cur_chain pr \<noteq> None \<and> passed ?n pr")
      case True
      then show ?thesis using passed_ends [of ?n pr "Suc 0" ops] loop by auto
    next
      case False
      then have nx: "run_state (next_chain 1) pr = (Some BLKID_CHAIN_SUBLKS, ?s)"
        by (intro next_chain_start [OF assms(4) _ assms(5)]) blast
      note f = round_state_facts [of ?s, simplified, OF b(1)]
      obtain rc1 q where p: "run_state (superblocks_probe iis) (round_state ?s) = (rc1, q)" by (meson surj_pair)
      have ready: "sb_ready (round_state ?s)"
        using do_start_typed [OF assms(4)] f b by (simp add: sb_ready_def)
      have run: "(rc, pr') = (if rc1 = 1 then run_state (do_probe_loop (Suc (Suc (Suc 0))) ops rc1) q else (rc1, q))"
        using round_run [OF p assms(2), of "1" pr "Suc (Suc (Suc 0))"] b(1) nx assms(5) loop by simp
      note res = superblocks_probe_ready [OF p assms(3) ready]
      have frame: "only_superblocks q" "nidinfos (chain_at q BLKID_CHAIN_SUBLKS) = ?n"
        "ch_enabled (chain_at q BLKID_CHAIN_SUBLKS)" "sb_ignores q = sb_ignores pr"
        using only_superblocks_frame [OF res(2,3)] chain_frame_facts [OF res(2,3)] f b(5) assms(5)
        by (auto simp: nidinfos_def sb_ignores_def)
      have q: "pr_fault q \<noteq> Some Endless" "typed_by_chain q" "- 1 \<le> sb_idx q" "pr_cur_chain q = Some BLKID_CHAIN_SUBLKS"
        using res(1) by (auto simp: sb_ready_def typed_by_chain_def)
      have t: "typed_by_chain (round_state ?s)" "0 < length (pr_chains (round_state ?s))" "- 1 \<le> sb_idx (round_state ?s)"
        using ready by (auto simp: sb_ready_def)
      note more = superblocks_probe_result [OF p assms(3) t, unfolded f, simplified]
      have passed: "passed ?n q" if "rc1 = 1"
      proof -
        have "sb_idx q + 1 = int ?n \<or> sb_idx q = - 1"
        proof (cases "sb_ignores pr \<or> ?n \<le> sb_start (sb_idx pr)")
          case True
          then have "sb_idx q = sb_idx pr" using more(3,6) by blast
          then show ?thesis using True b(2,3,6) by (auto simp: sb_start_def split: if_splits)
        next
          case False
          then show ?thesis using more(5) that by auto
        qed
        then show ?thesis using frame q by (simp add: passed_def)
      qed
      have go: "between ?n q \<and> sb_start (sb_idx pr) < sb_start (sb_idx q)" if "rc1 = 0"
        using res(4) [OF that] more(3) that frame q f by (auto simp: between_def)
      show ?thesis
      proof (cases "rc1 = 1")
        case True
        then show ?thesis using passed_ends [OF passed, of 0 ops] run by (auto simp del: do_probe_loop.simps)
      next
        case no: False
        then show ?thesis using run q go frame(3) by simp
      qed
    qed
  qed
  then show "pr_fault pr' \<noteq> Some Endless" "rc = 0 \<Longrightarrow> between (length iis) pr' \<and>
      ch_enabled (chain_at pr' BLKID_CHAIN_SUBLKS) \<and>
      sb_start (sb_idx pr) < sb_start (sb_idx pr') \<and> pr_cur_chain pr' = Some BLKID_CHAIN_SUBLKS"
    by blast+
qed





section \<open>New probes\<close>

text \<open>
  A new probe on an image, with the superblocks chain and the two other chains disabled, as
  \<open>blkid_probe_set_device\<close> leaves it: all chains are before their first function.
\<close>

definition disabled_drv :: "nat \<Rightarrow> chaindrv" where
  "disabled_drv i = \<lparr>cd_id = i, cd_name = [], cd_dflt_flags = 0, cd_dflt_enabled = False, cd_has_fltr = False,
     cd_idinfos = []\<rparr>"

definition fresh :: "string \<Rightarrow> idinfo list \<Rightarrow> probe" where
  "fresh content iis = snd (run_state blkid_reset_probe
     (image_probe content [superblocks_drv iis, disabled_drv 1, disabled_drv 2]))"

lemma fresh_eq: "fresh content iis =
  (image_probe content [superblocks_drv iis, disabled_drv 1, disabled_drv 2])
    \<lparr>pr_chains := map (\<lambda>d. (new_chain d)\<lparr>ch_idx := - 1\<rparr>) [superblocks_drv iis, disabled_drv 1, disabled_drv 2]\<rparr>"
  by (simp add: fresh_def blkid_reset_probe_def blkid_probe_reset_vals_def blkid_probe_set_wiper_def
      blkid_probe_chain_reset_position_def set_chain_def image_probe_def blkid_new_probe_def numeral_2_eq_2)

lemma sb_start_before [simp]: "sb_start (- 1) = 0"
  by (simp add: sb_start_def)

lemma fresh_fields [simp]:
  "sb_idx (fresh content iis) = - 1"
  "ch_enabled (chain_at (fresh content iis) BLKID_CHAIN_SUBLKS)"
  "pr_fault (fresh content iis) = None" "pr_vals (fresh content iis) = []" "pr_cur_chain (fresh content iis) = None"
  "pr_flags (fresh content iis) = 0" "length (pr_chains (fresh content iis)) = 3"
  "nidinfos (chain_at (fresh content iis) BLKID_CHAIN_SUBLKS) = length iis"
  "ch_flags (chain_at (fresh content iis) BLKID_CHAIN_SUBLKS) = BLKID_SUBLKS_DEFAULT"
  by (simp_all add: fresh_eq chain_at_def BLKID_CHAIN_SUBLKS_def new_chain_def superblocks_drv_def sb_start_def
      image_probe_def blkid_new_probe_def nidinfos_def)

lemma fresh_only_superblocks: "only_superblocks (fresh content iis)"
proof -
  have "\<forall>i < 3. cd_id (ch_driver (chain_at (fresh content iis) i)) = i"
    by (simp add: fresh_eq chain_at_def new_chain_def superblocks_drv_def disabled_drv_def BLKID_CHAIN_SUBLKS_def
        numeral_3_eq_3 All_less_Suc numeral_2_eq_2)
  then show ?thesis
    by (simp add: only_superblocks_def BLKID_CHAIN_defs)
      (simp add: fresh_eq chain_at_def new_chain_def disabled_drv_def)
qed

lemma fresh_between: "between (length iis) (fresh content iis)"
  using fresh_only_superblocks by (simp add: between_def no_type_def)

text \<open>The same in the superblocks chain.\<close>

definition fresh_chain :: "string \<Rightarrow> idinfo list \<Rightarrow> probe" where
  "fresh_chain content iis = (fresh content iis)\<lparr>pr_cur_chain := Some BLKID_CHAIN_SUBLKS\<rparr>"

lemma fresh_chain_ready: "sb_ready (fresh_chain content iis)" "sb_start (sb_idx (fresh_chain content iis)) = 0"
proof -
  have e: "chain_at (fresh_chain content iis) i = chain_at (fresh content iis) i" for i
    by (simp add: fresh_chain_def chain_at_def)
  show "sb_start (sb_idx (fresh_chain content iis)) = 0" by (simp add: e)
  show "sb_ready (fresh_chain content iis)"
    unfolding sb_ready_def e by (simp add: fresh_chain_def typed_by_chain_def)
qed

text \<open>An image of the boot file system that begins with its magic string.\<close>

definition bfs_image :: string where
  "bfs_image = [CHR 0xCE, CHR 0xFA, CHR 0xAD, CHR 0x1B] @ replicate 2044 NUL"




lemma bfs_image_read: "take 1024 bfs_image = [CHR 0xCE, CHR 0xFA, CHR 0xAD, CHR 0x1B] @ replicate 1020 NUL"
  by (simp add: bfs_image_def)

lemma bfs_found: "fst (run_state (superblocks_probe [bfs_idinfo]) (fresh_chain bfs_image [bfs_idinfo])) = BLKID_PROBE_OK"
proof -
  have l: "length bfs_image = 2048" by (simp add: bfs_image_def)
  show ?thesis
    by (simp add: superblocks_probe_def fresh_chain_def fresh_eq chain_at_def BLKID_CHAIN_SUBLKS_def new_chain_def
        superblocks_drv_def image_probe_def blkid_new_probe_def chain_reset_vals_filter has_flag_def pr_size_def l
        BLKID_FL_NOSCAN_DEV_def Let_def set_chain_def skips_def bfs_idinfo_def BLKID_USAGE_FILESYSTEM_def
        BLKID_USAGE_RAID_def BLKID_USAGE_OTHER_def blkid_probe_get_idmag_def magic_at_def idmag_off_def
        blkid_probe_get_buffer_def own_buffer_def image_medium_def dev_bytes_def ULONG_MAX_def sizeof_bufinfo_def
        buf_at_def bfs_image_read idmag_matches_def set_results_def BLKID_SUBLKS_DEFAULT_def
        BLKID_SUBLKS_TYPE_def BLKID_SUBLKS_LABEL_def BLKID_SUBLKS_UUID_def BLKID_SUBLKS_SECTYPE_def
        set_value_run BLKID_NVALS_eq blkid_probe_set_usage_def chain_flags_def BLKID_SUBLKS_USAGE_def
        blkid_probe_set_magic_def BLKID_SUBLKS_MAGIC_def BLKID_PROBE_OK_def)
qed


section \<open>Well-formedness\<close>

lemma safe_loop_wf:
  assumes "functions_keep probe_wf iis" and "probe_wf pr" and "\<forall>v \<in> set vals. length (pv_data v) \<le> BLKID_PROBVAL_BUFSIZ"
    and "run_state (safe_loop n iis count intol idx vals) pr = (r, q)"
  shows "probe_wf q \<and> (\<forall>rc c k i vs. r = Found rc c k i vs \<longrightarrow> (\<forall>v \<in> set vs. length (pv_data v) \<le> BLKID_PROBVAL_BUFSIZ))"
  using assms(2-)
proof (induction n arbitrary: pr count intol idx vals)
  case 0
  then show ?case by (auto simp: probe_wf_def fault_def)
next
  case (Suc n)
  obtain rc p where p: "run_state (superblocks_probe iis) pr = (rc, p)" by (meson surj_pair)
  have wf: "probe_wf p" using keeps_run [OF wf_chain.functions_probe [OF assms(1)] p Suc.prems(1)] .
  have copy: "\<forall>v \<in> set (blkid_probe_chain_copy_vals p BLKID_CHAIN_SUBLKS BLKID_NVALS_SUBLKS).
      length (pv_data v) \<le> BLKID_PROBVAL_BUFSIZ"
    using wf by (auto simp: probe_wf_def blkid_probe_chain_copy_vals_def dest!: in_set_takeD)
  show ?case
    using Suc.prems(2,3) wf p Suc.IH [OF wf Suc.prems(2)] Suc.IH [OF wf copy]
    by (fastforce simp: Let_def split: if_splits)
qed

lemma append_vals_wf:
  "probe_wf pr \<Longrightarrow> \<forall>v \<in> set vals. length (pv_data v) \<le> BLKID_PROBVAL_BUFSIZ \<Longrightarrow>
     probe_wf (snd (run_state (blkid_probe_append_vals vals) pr))"
  by (auto simp: blkid_probe_append_vals_def probe_wf_def append_loop_take dest!: in_set_takeD)

lemma safeprobe_wf:
  assumes "functions_keep probe_wf iis"
  shows "keeps probe_wf (superblocks_safeprobe iis)"
proof (rule keepsI)
  fix pr assume wf: "probe_wf pr"
  obtain r q where l: "run_state (safe_loop (Suc (length iis)) iis 0 0 (- 1) []) pr = (r, q)" by (meson surj_pair)
  have ok: "probe_wf q \<and> (\<forall>rc c k i vs. r = Found rc c k i vs \<longrightarrow> (\<forall>v \<in> set vs. length (pv_data v) \<le> BLKID_PROBVAL_BUFSIZ))"
    by (rule safe_loop_wf [OF assms wf _ l]) simp
  have flag: "probe_wf p \<Longrightarrow> probe_wf (p\<lparr>pr_prob_flags := x\<rparr>)" for p x by (simp add: probe_wf_def)
  have reset: "probe_wf (snd (run_state (blkid_probe_chain_reset_vals BLKID_CHAIN_SUBLKS) q))"
    using wf.chain_reset_vals ok by (auto dest: keepsD)
  have "probe_wf (snd (run_state (do {
      blkid_probe_chain_reset_vals BLKID_CHAIN_SUBLKS;
      blkid_probe_append_vals vals;
      set_chain BLKID_CHAIN_SUBLKS (\<lambda>chn. chn\<lparr>ch_idx := idx\<rparr>)}) q))"
    if "\<forall>v \<in> set vals. length (pv_data v) \<le> BLKID_PROBVAL_BUFSIZ" for vals idx
    using keepsD [OF wf_chain.set_idx append_vals_wf [OF reset that]] by (simp add: split_beta)
  then show "probe_wf (snd (run_state (superblocks_safeprobe iis) pr))"
    using ok wf l
    by (cases r) (auto simp: superblocks_safeprobe_def Let_def split_beta flag simp del: safe_loop.simps)
qed

text \<open>A probe stays well-formed whatever the superblocks chain finds: no more than 36 values,
  none longer than its buffer of 128 bytes, and every pointer to a chain points to one of the
  three; the search for ambivalent results, which copies the values of a result and puts them
  back, keeps this too.
\<close>

theorem superblocks_keep_wf:
  assumes "table_behaves iis" and "probe_wf pr"
  shows "probe_wf (snd (run_state (superblocks_probe iis) pr)) \<and>
    probe_wf (snd (run_state (superblocks_safeprobe iis) pr))"
  using keepsD [OF wf_chain.probe [OF assms(1)] assms(2)]
    keepsD [OF safeprobe_wf [OF table_behaves_keep [OF assms(1) wf.prober_inv_axioms]] assms(2)] by blast

theorem superblocks_keep_wf_witness:
  "probe_wf (snd (run_state (superblocks_probe [bfs_idinfo]) (fresh_chain bfs_image [bfs_idinfo])))"
proof -
  have o: "only_superblocks (fresh_chain bfs_image [bfs_idinfo])"
    using fresh_only_superblocks [of bfs_image "[bfs_idinfo]"]
    by (simp add: only_superblocks_def fresh_chain_def chain_at_def)
  have "probe_wf (fresh_chain bfs_image [bfs_idinfo])"
    using o fresh_fields(5) [of bfs_image "[bfs_idinfo]"]
    by (simp add: probe_wf_def only_superblocks_def chain_at_def BLKID_CHAIN_defs)
      (simp add: fresh_chain_def fresh_eq image_probe_def blkid_new_probe_def BLKID_CHAIN_SUBLKS_def)
  then show ?thesis using superblocks_keep_wf [of "[bfs_idinfo]"] by (simp add: bfs_idinfo_def)
qed

end
