(* ===== verification/SbExt.thy ===== *)
theory SbExt
  imports SbTools ExtFs
begin

text \<open>
  The probing functions for the ext file systems and their journal devices,
  src/lib/libblkid/src/superblocks/ext.c, and how they share out the superblocks between them.
\<close>

section \<open>The superblock\<close>

text \<open>
  The struct is the one of lib/fs/fstypes/ext2.c, member for member; the library reads only the
  first 512 of its 1024 bytes, which hold everything it looks at.
\<close>

definition sb_ext2 :: "(string \<times> nat) list" where
  "sb_ext2 =
    [(''s_inodes_count'', 4), (''s_blocks_count'', 4), (''s_r_blocks_count'', 4),
     (''s_free_blocks_count'', 4), (''s_free_inodes_count'', 4), (''s_first_data_block'', 4),
     (''s_log_block_size'', 4), (''s_dummy3'', 28), (''s_magic'', 2), (''s_state'', 2),
     (''s_errors'', 2), (''s_minor_rev_level'', 2), (''s_lastcheck'', 4),
     (''s_checkinterval'', 4), (''s_creator_os'', 4), (''s_rev_level'', 4),
     (''s_def_resuid'', 2), (''s_def_resgid'', 2), (''s_first_ino'', 4), (''s_inode_size'', 2),
     (''s_block_group_nr'', 2), (''s_feature_compat'', 4), (''s_feature_incompat'', 4),
     (''s_feature_ro_compat'', 4), (''s_uuid'', 16), (''s_volume_name'', 16),
     (''s_last_mounted'', 64), (''s_algorithm_usage_bitmap'', 4), (''s_prealloc_blocks'', 1),
     (''s_prealloc_dir_blocks'', 1), (''s_reserved_gdt_blocks'', 2), (''s_journal_uuid'', 16),
     (''s_journal_inum'', 4), (''s_journal_dev'', 4), (''s_last_orphan'', 4),
     (''s_hash_seed'', 16), (''s_def_hash_version'', 1), (''s_jnl_backup_type'', 1),
     (''s_reserved_word_pad'', 2), (''s_default_mount_opts'', 4), (''s_first_meta_bg'', 4),
     (''s_mkfs_time'', 4), (''s_jnl_blocks'', 68), (''s_blocks_count_hi'', 4),
     (''s_r_blocks_count_hi'', 4), (''s_free_blocks_hi'', 4), (''s_min_extra_isize'', 2),
     (''s_want_extra_isize'', 2), (''s_flags'', 4), (''s_raid_stride'', 2),
     (''s_mmp_interval'', 2), (''s_mmp_block'', 8), (''s_raid_stripe_width'', 4),
     (''s_reserved'', 652)]"

definition ext_u32 :: "string \<Rightarrow> string \<Rightarrow> u32" where
  "ext_u32 name es = of_nat (le_member sb_ext2 name es)"

definition EXT2_FLAGS_TEST_FILESYS :: u32 where "EXT2_FLAGS_TEST_FILESYS = 0x0004"
definition EXT3_FEATURE_COMPAT_HAS_JOURNAL :: u32 where "EXT3_FEATURE_COMPAT_HAS_JOURNAL = 0x0004"
definition EXT2_FEATURE_RO_COMPAT_SPARSE_SUPER :: u32 where "EXT2_FEATURE_RO_COMPAT_SPARSE_SUPER = 0x0001"
definition EXT2_FEATURE_RO_COMPAT_LARGE_FILE :: u32 where "EXT2_FEATURE_RO_COMPAT_LARGE_FILE = 0x0002"
definition EXT2_FEATURE_RO_COMPAT_BTREE_DIR :: u32 where "EXT2_FEATURE_RO_COMPAT_BTREE_DIR = 0x0004"
definition EXT2_FEATURE_INCOMPAT_FILETYPE :: u32 where "EXT2_FEATURE_INCOMPAT_FILETYPE = 0x0002"
definition EXT3_FEATURE_INCOMPAT_RECOVER :: u32 where "EXT3_FEATURE_INCOMPAT_RECOVER = 0x0004"
definition EXT3_FEATURE_INCOMPAT_JOURNAL_DEV :: u32 where "EXT3_FEATURE_INCOMPAT_JOURNAL_DEV = 0x0008"
definition EXT2_FEATURE_INCOMPAT_META_BG :: u32 where "EXT2_FEATURE_INCOMPAT_META_BG = 0x0010"

definition EXT2_FEATURE_RO_COMPAT_SUPP :: u32 where
  "EXT2_FEATURE_RO_COMPAT_SUPP = EXT2_FEATURE_RO_COMPAT_SPARSE_SUPER OR
     EXT2_FEATURE_RO_COMPAT_LARGE_FILE OR EXT2_FEATURE_RO_COMPAT_BTREE_DIR"

definition EXT2_FEATURE_INCOMPAT_SUPP :: u32 where
  "EXT2_FEATURE_INCOMPAT_SUPP = EXT2_FEATURE_INCOMPAT_FILETYPE OR EXT2_FEATURE_INCOMPAT_META_BG"

definition EXT2_FEATURE_INCOMPAT_UNSUPPORTED :: u32 where
  "EXT2_FEATURE_INCOMPAT_UNSUPPORTED = NOT EXT2_FEATURE_INCOMPAT_SUPP"

definition EXT2_FEATURE_RO_COMPAT_UNSUPPORTED :: u32 where
  "EXT2_FEATURE_RO_COMPAT_UNSUPPORTED = NOT EXT2_FEATURE_RO_COMPAT_SUPP"

definition EXT3_FEATURE_RO_COMPAT_SUPP :: u32 where
  "EXT3_FEATURE_RO_COMPAT_SUPP = EXT2_FEATURE_RO_COMPAT_SPARSE_SUPER OR
     EXT2_FEATURE_RO_COMPAT_LARGE_FILE OR EXT2_FEATURE_RO_COMPAT_BTREE_DIR"

definition EXT3_FEATURE_INCOMPAT_SUPP :: u32 where
  "EXT3_FEATURE_INCOMPAT_SUPP = EXT2_FEATURE_INCOMPAT_FILETYPE OR EXT3_FEATURE_INCOMPAT_RECOVER OR
     EXT2_FEATURE_INCOMPAT_META_BG"

definition EXT3_FEATURE_INCOMPAT_UNSUPPORTED :: u32 where
  "EXT3_FEATURE_INCOMPAT_UNSUPPORTED = NOT EXT3_FEATURE_INCOMPAT_SUPP"

definition EXT3_FEATURE_RO_COMPAT_UNSUPPORTED :: u32 where
  "EXT3_FEATURE_RO_COMPAT_UNSUPPORTED = NOT EXT3_FEATURE_RO_COMPAT_SUPP"

lemmas ext_masks = EXT2_FLAGS_TEST_FILESYS_def EXT3_FEATURE_COMPAT_HAS_JOURNAL_def
  EXT2_FEATURE_RO_COMPAT_SPARSE_SUPER_def EXT2_FEATURE_RO_COMPAT_LARGE_FILE_def
  EXT2_FEATURE_RO_COMPAT_BTREE_DIR_def EXT2_FEATURE_INCOMPAT_FILETYPE_def
  EXT3_FEATURE_INCOMPAT_RECOVER_def EXT3_FEATURE_INCOMPAT_JOURNAL_DEV_def
  EXT2_FEATURE_INCOMPAT_META_BG_def EXT2_FEATURE_RO_COMPAT_SUPP_def EXT2_FEATURE_INCOMPAT_SUPP_def
  EXT2_FEATURE_INCOMPAT_UNSUPPORTED_def EXT2_FEATURE_RO_COMPAT_UNSUPPORTED_def
  EXT3_FEATURE_RO_COMPAT_SUPP_def EXT3_FEATURE_INCOMPAT_SUPP_def
  EXT3_FEATURE_INCOMPAT_UNSUPPORTED_def EXT3_FEATURE_RO_COMPAT_UNSUPPORTED_def

section \<open>The probing functions\<close>

text \<open>The superblock with the three words of features, compatible, incompatible and read-only.\<close>

definition ext_get_super :: "(string \<Rightarrow> u32 \<Rightarrow> u32 \<Rightarrow> u32 \<Rightarrow> int prober) \<Rightarrow> int prober" where
  "ext_get_super f = with_buf (int EXT_SB_OFF) 0x200 (\<lambda>es.
     f es (ext_u32 ''s_feature_compat'' es) (ext_u32 ''s_feature_incompat'' es)
       (ext_u32 ''s_feature_ro_compat'' es))"

text \<open>\<open>s_volume_name\<close> may be without a NUL; the members behind it follow in the buffer.\<close>

definition ext_get_info :: "nat \<Rightarrow> string \<Rightarrow> int prober" where
  "ext_get_info ver es =
     do {
       (if member sb_ext2 ''s_volume_name'' es ! 0 \<noteq> NUL
        then blkid_probe_set_label (member sb_ext2 ''s_volume_name'' es) else ret 0);
       blkid_probe_set_uuid (member sb_ext2 ''s_uuid'' es);
       (if has_flag (ext_u32 ''s_feature_compat'' es) EXT3_FEATURE_COMPAT_HAS_JOURNAL
        then blkid_probe_set_uuid_as (member sb_ext2 ''s_journal_uuid'' es) (Some ''EXT_JOURNAL'') else ret 0);
       flags \<leftarrow> chain_flags;
       (if ver \<noteq> 2 \<and> has_flag flags BLKID_SUBLKS_SECTYPE \<and>
           \<not> has_flag (ext_u32 ''s_feature_incompat'' es) EXT2_FEATURE_INCOMPAT_UNSUPPORTED
        then blkid_probe_set_value ''SEC_TYPE'' (c_bytes ''ext2'') else ret 0);
       blkid_probe_sprintf_version (show_nat (le_member sb_ext2 ''s_rev_level'' es) @ ''.'' @
         show_nat (le_member sb_ext2 ''s_minor_rev_level'' es))
     }"

definition probe_jbd :: "idmag option \<Rightarrow> int prober" where
  "probe_jbd mag = ext_get_super (\<lambda>es fc fi frc.
     if \<not> has_flag fi EXT3_FEATURE_INCOMPAT_JOURNAL_DEV then ret 1
     else do {
       ext_get_info 2 es;
       blkid_probe_set_uuid_as (member sb_ext2 ''s_uuid'' es) (Some ''LOGUUID'');
       ret 0
     })"

definition probe_ext2 :: "idmag option \<Rightarrow> int prober" where
  "probe_ext2 mag = ext_get_super (\<lambda>es fc fi frc.
     if has_flag fc EXT3_FEATURE_COMPAT_HAS_JOURNAL then ret 1
     else if has_flag frc EXT2_FEATURE_RO_COMPAT_UNSUPPORTED \<or> has_flag fi EXT2_FEATURE_INCOMPAT_UNSUPPORTED
     then ret 1
     else do { ext_get_info 2 es; ret 0 })"

definition probe_ext3 :: "idmag option \<Rightarrow> int prober" where
  "probe_ext3 mag = ext_get_super (\<lambda>es fc fi frc.
     if \<not> has_flag fc EXT3_FEATURE_COMPAT_HAS_JOURNAL then ret 1
     else if has_flag frc EXT3_FEATURE_RO_COMPAT_UNSUPPORTED \<or> has_flag fi EXT3_FEATURE_INCOMPAT_UNSUPPORTED
     then ret 1
     else do { ext_get_info 3 es; ret 0 })"

definition probe_ext4dev :: "idmag option \<Rightarrow> int prober" where
  "probe_ext4dev mag = ext_get_super (\<lambda>es fc fi frc.
     if has_flag fi EXT3_FEATURE_INCOMPAT_JOURNAL_DEV then ret 1
     else if \<not> has_flag (ext_u32 ''s_flags'' es) EXT2_FLAGS_TEST_FILESYS then ret 1
     else do { ext_get_info 4 es; ret 0 })"

definition probe_ext4 :: "idmag option \<Rightarrow> int prober" where
  "probe_ext4 mag = ext_get_super (\<lambda>es fc fi frc.
     if has_flag fi EXT3_FEATURE_INCOMPAT_JOURNAL_DEV then ret 1
     else if \<not> has_flag frc EXT3_FEATURE_RO_COMPAT_UNSUPPORTED \<and> \<not> has_flag fi EXT3_FEATURE_INCOMPAT_UNSUPPORTED
     then ret 1
     else if has_flag (ext_u32 ''s_flags'' es) EXT2_FLAGS_TEST_FILESYS then ret 1
     else do { ext_get_info 4 es; ret 0 })"

definition BLKID_EXT_MAGICS :: "idmag list" where
  "BLKID_EXT_MAGICS = [magic_at (int (EXT_SB_OFF div 1024)) EXT_MAG_OFF [CHR 0x53, CHR 0xEF]]"

definition jbd_idinfo :: idinfo where
  "jbd_idinfo = \<lparr>ii_name = ''jbd'', ii_usage = BLKID_USAGE_OTHER, ii_flags = 0, ii_minsz = 0,
     ii_probefunc = Some probe_jbd, ii_magics = BLKID_EXT_MAGICS\<rparr>"

definition ext2_idinfo :: idinfo where
  "ext2_idinfo = \<lparr>ii_name = ''ext2'', ii_usage = BLKID_USAGE_FILESYSTEM, ii_flags = 0, ii_minsz = 0,
     ii_probefunc = Some probe_ext2, ii_magics = BLKID_EXT_MAGICS\<rparr>"

definition ext3_idinfo :: idinfo where
  "ext3_idinfo = \<lparr>ii_name = ''ext3'', ii_usage = BLKID_USAGE_FILESYSTEM, ii_flags = 0, ii_minsz = 0,
     ii_probefunc = Some probe_ext3, ii_magics = BLKID_EXT_MAGICS\<rparr>"

definition ext4_idinfo :: idinfo where
  "ext4_idinfo = \<lparr>ii_name = ''ext4'', ii_usage = BLKID_USAGE_FILESYSTEM, ii_flags = 0, ii_minsz = 0,
     ii_probefunc = Some probe_ext4, ii_magics = BLKID_EXT_MAGICS\<rparr>"

definition ext4dev_idinfo :: idinfo where
  "ext4dev_idinfo = \<lparr>ii_name = ''ext4dev'', ii_usage = BLKID_USAGE_FILESYSTEM, ii_flags = 0, ii_minsz = 0,
     ii_probefunc = Some probe_ext4dev, ii_magics = BLKID_EXT_MAGICS\<rparr>"

context prober_inv
begin

lemma ext_info: "keeps I (ext_get_info ver es)"
  unfolding ext_get_info_def by (intro tool_rules) simp_all

lemma exts:
  "keeps I (probe_jbd mag)" "keeps I (probe_ext2 mag)" "keeps I (probe_ext3 mag)"
  "keeps I (probe_ext4dev mag)" "keeps I (probe_ext4 mag)"
  unfolding probe_jbd_def probe_ext2_def probe_ext3_def probe_ext4dev_def probe_ext4_def ext_get_super_def
  by (intro tool_rules ext_info; simp)+

end

lemma exts_behave:
  "behaves probe_jbd" "behaves probe_ext2" "behaves probe_ext3" "behaves probe_ext4dev" "behaves probe_ext4"
  by (rule behavesI, erule prober_inv.exts)+

section \<open>Which function accepts a superblock\<close>

text \<open>
  The kinds of ext superblock: a journal device, a file system with features that ext3 does
  not know, one with a journal, one without; the last is none of these when its journal, which
  it does not have, needs recovery.
\<close>

datatype ext_kind = Journal_Dev | Ext4 | Ext3 | Ext2 | Recover_No_Journal

definition ext_kind :: "string \<Rightarrow> ext_kind" where
  "ext_kind es =
     (let fc = ext_u32 ''s_feature_compat'' es; fi = ext_u32 ''s_feature_incompat'' es;
          frc = ext_u32 ''s_feature_ro_compat'' es in
      if has_flag fi 0x8 then Journal_Dev
      else if has_flag frc (NOT 0x7) \<or> has_flag fi (NOT 0x16) then Ext4
      else if has_flag fc 0x4 then Ext3
      else if has_flag fi 0x4 then Recover_No_Journal
      else Ext2)"

lemma mask_values:
  "EXT2_FEATURE_RO_COMPAT_UNSUPPORTED = NOT 0x7" "EXT3_FEATURE_RO_COMPAT_UNSUPPORTED = NOT 0x7"
  "EXT2_FEATURE_INCOMPAT_UNSUPPORTED = NOT 0x12" "EXT3_FEATURE_INCOMPAT_UNSUPPORTED = NOT 0x16"
  "EXT3_FEATURE_INCOMPAT_JOURNAL_DEV = 0x8" "EXT3_FEATURE_COMPAT_HAS_JOURNAL = 0x4"
  "EXT2_FLAGS_TEST_FILESYS = 0x4"
  by (simp_all add: ext_masks)

lemma has_flag_split: "has_flag w (f OR g) \<longleftrightarrow> has_flag w f \<or> has_flag w g"
  by (simp add: has_flag_def bit.conj_disj_distrib or_eq_0_iff)

lemma incompat_parts: "has_flag fi (NOT 0x12) \<longleftrightarrow> has_flag fi (NOT 0x16) \<or> has_flag fi 0x4"
proof -
  have "(NOT 0x12 :: u32) = NOT 0x16 OR 0x4" by simp
  then show ?thesis by (simp only: has_flag_split)
qed

lemma journal_dev_unknown: "has_flag fi 0x8 \<Longrightarrow> has_flag fi (NOT 0x16)"
proof -
  have "(NOT 0x16 :: u32) = NOT 0x1E OR 0x8" by simp
  then show "has_flag fi 0x8 \<Longrightarrow> ?thesis" by (simp only: has_flag_split simp_thms)
qed

abbreviation in_test :: "string \<Rightarrow> bool" where
  "in_test es \<equiv> has_flag (ext_u32 ''s_flags'' es) 0x4"

lemma ext_get_super_run:
  assumes "run_state (blkid_probe_get_buffer (int EXT_SB_OFF) 512) pr = (Buf es, q)"
  shows "run_state (ext_get_super f) pr = run_state (f es (ext_u32 ''s_feature_compat'' es)
    (ext_u32 ''s_feature_incompat'' es) (ext_u32 ''s_feature_ro_compat'' es)) q"
  using assms by (simp add: ext_get_super_def with_buf_def)

text \<open>The five ext probing functions share out the superblocks: on a superblock that can be
  read each of them answers 0 or 1, \<open>jbd\<close> accepts the journal devices, \<open>ext4dev\<close> whatever
  else is marked as in test, and \<open>ext4\<close>, \<open>ext3\<close> and \<open>ext2\<close> their kind of file
  system, \<open>ext4\<close> only when it is not in test.
\<close>

theorem ext_probers_by_kind:
  assumes "run_state (blkid_probe_get_buffer (int EXT_SB_OFF) 512) pr = (Buf es, q)"
  shows "fst (run_state (probe_jbd mag) pr) = (if ext_kind es = Journal_Dev then 0 else 1) \<and>
    fst (run_state (probe_ext4dev mag) pr) = (if ext_kind es \<noteq> Journal_Dev \<and> in_test es then 0 else 1) \<and>
    fst (run_state (probe_ext4 mag) pr) = (if ext_kind es = Ext4 \<and> \<not> in_test es then 0 else 1) \<and>
    fst (run_state (probe_ext3 mag) pr) = (if ext_kind es = Ext3 then 0 else 1) \<and>
    fst (run_state (probe_ext2 mag) pr) = (if ext_kind es = Ext2 then 0 else 1)"
proof -
  note run = ext_get_super_run [OF assms]
  let ?fi = "ext_u32 ''s_feature_incompat'' es"
  have j: "has_flag ?fi 0x8 \<Longrightarrow> has_flag ?fi (NOT 0x16)" by (rule journal_dev_unknown)
  have i: "has_flag ?fi (NOT 0x12) \<longleftrightarrow> has_flag ?fi (NOT 0x16) \<or> has_flag ?fi 0x4" by (rule incompat_parts)
  show ?thesis
    unfolding probe_jbd_def probe_ext4dev_def probe_ext4_def probe_ext3_def probe_ext2_def run mask_values i
    using j by (auto simp: ext_kind_def Let_def split_beta)
qed

text \<open>C30. A readable superblock that is not marked as in test is accepted by exactly one of the
  five, or by none when it has no journal but wants its journal recovered.
\<close>

theorem ext_exactly_one:
  assumes "run_state (blkid_probe_get_buffer (int EXT_SB_OFF) 512) pr = (Buf es, q)" and "\<not> in_test es"
  shows "length (filter (\<lambda>f. fst (run_state (f mag) pr) = 0) [probe_jbd, probe_ext4dev, probe_ext4, probe_ext3, probe_ext2]) =
    (if ext_kind es = Recover_No_Journal then 0 else 1)"
  using ext_probers_by_kind [OF assms(1), of mag] assms(2)
  by (cases "ext_kind es") simp_all

text \<open>An image of zeros is an ext2 superblock as far as its features go.\<close>

lemma zero_super_run: "\<exists>q. run_state (blkid_probe_get_buffer (int EXT_SB_OFF) 512)
    (image_probe (replicate 2048 NUL) []) = (Buf (replicate 512 NUL), q)"
  using image_buffer [of "int EXT_SB_OFF" 512 "replicate 2048 NUL" "[]"]
  by (simp add: EXT_SB_OFF_def ULONG_MAX_def sizeof_bufinfo_def)

lemma le_value_zero [simp]: "le_value (replicate n NUL) = 0"
  by (auto simp: le_value_zeros set_replicate_conv_if)

lemma zero_super_kind:
  "ext_kind (replicate 512 NUL) = Ext2" "\<not> in_test (replicate 512 NUL)"
  by (simp_all add: ext_kind_def ext_u32_def le_member_def member_def sb_ext2_def has_flag_def min_def)

theorem ext_probers_by_kind_witness:
  "fst (run_state (probe_ext2 None) (image_probe (replicate 2048 NUL) [])) = 0 \<and>
   fst (run_state (probe_ext3 None) (image_probe (replicate 2048 NUL) [])) = 1"
proof -
  obtain q where q: "run_state (blkid_probe_get_buffer (int EXT_SB_OFF) 512)
      (image_probe (replicate 2048 NUL) []) = (Buf (replicate 512 NUL), q)"
    using zero_super_run by blast
  show ?thesis using ext_probers_by_kind [OF q, of None] by (simp only: zero_super_kind) simp
qed

theorem ext_exactly_one_witness:
  "length (filter (\<lambda>f. fst (run_state (f None) (image_probe (replicate 2048 NUL) [])) = 0)
     [probe_jbd, probe_ext4dev, probe_ext4, probe_ext3, probe_ext2]) = 1"
proof -
  obtain q where q: "run_state (blkid_probe_get_buffer (int EXT_SB_OFF) 512)
      (image_probe (replicate 2048 NUL) []) = (Buf (replicate 512 NUL), q)"
    using zero_super_run by blast
  show ?thesis by (subst ext_exactly_one [OF q zero_super_kind(2)]) (simp add: zero_super_kind)
qed

text \<open>The two descriptions of the ext superblock in the repository agree.\<close>

lemma ext_layouts_agree: "sb_ext2 = ext2_super_block"
  by (simp add: sb_ext2_def ext2_super_block_def)

end
