(* ===== verification/Partitions.thy ===== *)
theory Partitions
  imports SbTools
begin

text \<open>
  The partitions chain, src/lib/libblkid/src/partitions/partitions.c: what the probing functions
  for partition tables use to fill the list of partitions, the probing of nested tables on a
  clone, the loop over the tables, the search for the entry that describes the probed device,
  and the question whether an area is covered by a partition.
\<close>

section \<open>The list from a probing function\<close>

definition BLKID_PARTS_FORCE_GPT :: u32 where "BLKID_PARTS_FORCE_GPT = 0x2"
definition BLKID_PARTS_ENTRY_DETAILS :: u32 where "BLKID_PARTS_ENTRY_DETAILS = 0x4"
definition ENOSPC :: int where "ENOSPC = 28"

definition blkid_probe_set_partlist :: "partlist option \<Rightarrow> unit prober" where
  "blkid_probe_set_partlist ls = modify (\<lambda>pr. pr\<lparr>pr_parts := ls\<rparr>)"

text \<open>
  A computation on the list that is at hand, with the allocator of the system. Following a NULL
  list is undefined, as is what the computation itself finds.
\<close>

definition on_partlist :: "'a \<Rightarrow> ((int \<Rightarrow> bool) \<Rightarrow> partlist \<Rightarrow> ub + 'a \<times> partlist) \<Rightarrow> 'a prober" where
  "on_partlist d f =
     do {
       pr \<leftarrow> gets id;
       case pr_parts pr of
         None \<Rightarrow> do { fault (Undefined Null_Deref); ret d }
       | Some ls \<Rightarrow>
           case f (md_alloc (pr_medium pr)) ls of
             Inl u \<Rightarrow> do { fault (Undefined u); ret d }
           | Inr (x, ls) \<Rightarrow> do { blkid_probe_set_partlist (Some ls); ret x }
     }"

definition blkid_partlist_new_parttable :: "string \<Rightarrow> int \<Rightarrow> nat option prober" where
  "blkid_partlist_new_parttable type offset =
     on_partlist None (\<lambda>alloc ls. Inr (partlist_new_parttable alloc ls type offset))"

definition blkid_partlist_add_partition :: "nat \<Rightarrow> int \<Rightarrow> int \<Rightarrow> partref option prober" where
  "blkid_partlist_add_partition tab start sz =
     on_partlist None (\<lambda>alloc ls. partlist_add_partition alloc ls tab start sz)"

definition blkid_partlist_set_partno :: "int \<Rightarrow> int prober" where
  "blkid_partlist_set_partno partno =
     do {
       ls \<leftarrow> gets pr_parts;
       case ls of
         None \<Rightarrow> ret (- 1)
       | Some ls \<Rightarrow> do { blkid_probe_set_partlist (Some (ls\<lparr>pl_next_partno := partno\<rparr>)); ret 0 }
     }"

definition blkid_partlist_increment_partno :: "int prober" where
  "blkid_partlist_increment_partno =
     do {
       ls \<leftarrow> gets pr_parts;
       case ls of
         None \<Rightarrow> ret (- 1)
       | Some ls \<Rightarrow>
           (let (n, ls) = partlist_increment_partno ls in
            do { blkid_probe_set_partlist (Some ls); ret n })
     }"

definition blkid_partlist_set_parent :: "partref option \<Rightarrow> int prober" where
  "blkid_partlist_set_parent par =
     do {
       ls \<leftarrow> gets pr_parts;
       case ls of
         None \<Rightarrow> ret (- 1)
       | Some ls \<Rightarrow> do { blkid_probe_set_partlist (Some (ls\<lparr>pl_next_parent := par\<rparr>)); ret 0 }
     }"

definition blkid_partlist_get_parent :: "partref option prober" where
  "blkid_partlist_get_parent = gets (\<lambda>pr. Option.bind (pr_parts pr) pl_next_parent)"

definition blkid_partlist_get_partition :: "int \<Rightarrow> partref option prober" where
  "blkid_partlist_get_partition n = gets (\<lambda>pr. Option.bind (pr_parts pr) (\<lambda>ls. partlist_get_partition ls n))"

definition any_partition :: partition where
  "any_partition = \<lparr>pa_start = 0, pa_size = 0, pa_type = 0, pa_typestr = [], pa_flags = 0, pa_partno = 0,
     pa_uuid = [], pa_name = [], pa_tab = 0\<rparr>"

text \<open>The partition behind a pointer, and its change.\<close>

definition get_partition :: "partref \<Rightarrow> partition prober" where
  "get_partition r = on_partlist any_partition (\<lambda>alloc ls. bindE (partition_at ls r) (\<lambda>par. Inr (par, ls)))"

definition set_partition :: "partref \<Rightarrow> (partition \<Rightarrow> partition) \<Rightarrow> int prober" where
  "set_partition r f = on_partlist 0 (\<lambda>alloc ls. bindE (change_partition ls r f) (\<lambda>ls. Inr (0, ls)))"

definition set_parttable :: "nat \<Rightarrow> (parttable \<Rightarrow> parttable) \<Rightarrow> int prober" where
  "set_parttable tab f = on_partlist 0 (\<lambda>alloc ls.
     if tab < length (pl_tabs ls) then Inr (0, ls\<lparr>pl_tabs := (pl_tabs ls)[tab := f (pl_tabs ls ! tab)]\<rparr>)
     else Inl Use_After_Free)"

section \<open>Members of tables and partitions\<close>

text \<open>The buffers have 37 bytes for identifiers and 128 for names; \<open>bytes\<close> are those at the pointer.\<close>

definition blkid_parttable_set_uuid :: "nat \<Rightarrow> string \<Rightarrow> int prober" where
  "blkid_parttable_set_uuid tab uuid = set_parttable tab (\<lambda>t. t\<lparr>pt_id := blkid_unparse_uuid uuid 37\<rparr>)"

definition blkid_parttable_set_id :: "nat \<Rightarrow> string \<Rightarrow> int prober" where
  "blkid_parttable_set_id tab text = set_parttable tab (\<lambda>t. t\<lparr>pt_id := take 37 (cstr text)\<rparr>)"

definition blkid_parttable_get_id :: "parttable option \<Rightarrow> string option" where
  "blkid_parttable_get_id tab =
     (case tab of Some t \<Rightarrow> if pt_id t \<noteq> [] then Some (pt_id t) else None | None \<Rightarrow> None)"

definition blkid_partition_set_type :: "partref \<Rightarrow> int \<Rightarrow> int prober" where
  "blkid_partition_set_type r type = set_partition r (\<lambda>par. par\<lparr>pa_type := type\<rparr>)"

definition blkid_partition_set_flags :: "partref \<Rightarrow> u64 \<Rightarrow> int prober" where
  "blkid_partition_set_flags r flags = set_partition r (\<lambda>par. par\<lparr>pa_flags := flags\<rparr>)"

definition set_string :: "nat \<Rightarrow> string \<Rightarrow> string" where
  "set_string n bytes =
     (let len = (if length bytes \<ge> n then n - 1 else length bytes)
      in rtrim_whitespace (cstr (take len bytes)))"

definition blkid_partition_set_name :: "partref \<Rightarrow> string \<Rightarrow> int prober" where
  "blkid_partition_set_name r bytes = set_partition r (\<lambda>par. par\<lparr>pa_name := set_string 128 bytes\<rparr>)"

definition blkid_partition_set_utf8name :: "partref \<Rightarrow> string \<Rightarrow> nat \<Rightarrow> int prober" where
  "blkid_partition_set_utf8name r bytes enc =
     set_partition r (\<lambda>par. par\<lparr>pa_name := rtrim_whitespace (blkid_encode_to_utf8 enc 128 bytes)\<rparr>)"

definition blkid_partition_set_uuid :: "partref \<Rightarrow> string \<Rightarrow> int prober" where
  "blkid_partition_set_uuid r uuid = set_partition r (\<lambda>par. par\<lparr>pa_uuid := blkid_unparse_uuid uuid 37\<rparr>)"

text \<open>The number is printed as an unsigned one of 32 bits.\<close>

definition blkid_partition_gen_uuid :: "partref \<Rightarrow> int prober" where
  "blkid_partition_gen_uuid r = on_partlist 0 (\<lambda>alloc ls.
     bindE (partition_at ls r) (\<lambda>par.
       if pa_tab par \<ge> length (pl_tabs ls) then Inl Use_After_Free
       else
         let i = pt_id (pl_tabs ls ! pa_tab par) in
         if i = [] then Inr (- 1, ls)
         else bindE (change_partition ls r (\<lambda>par. par\<lparr>pa_uuid :=
                snprintf 37 (i @ ''-'' @ hex False 2 (nat (pa_partno par mod 2 ^ 32)))\<rparr>)) (\<lambda>ls. Inr (0, ls))))"

definition blkid_partition_set_type_string :: "partref \<Rightarrow> string \<Rightarrow> int prober" where
  "blkid_partition_set_type_string r bytes = set_partition r (\<lambda>par. par\<lparr>pa_typestr := set_string 37 bytes\<rparr>)"

definition blkid_partition_set_type_uuid :: "partref \<Rightarrow> string \<Rightarrow> int prober" where
  "blkid_partition_set_type_uuid r uuid = set_partition r (\<lambda>par. par\<lparr>pa_typestr := blkid_unparse_uuid uuid 37\<rparr>)"

definition text_or_null :: "string \<Rightarrow> string option" where
  "text_or_null s = (if s \<noteq> [] then Some s else None)"

definition blkid_partition_get_name :: "partition \<Rightarrow> string option" where
  "blkid_partition_get_name par = text_or_null (pa_name par)"

definition blkid_partition_get_uuid :: "partition \<Rightarrow> string option" where
  "blkid_partition_get_uuid par = text_or_null (pa_uuid par)"

definition blkid_partition_get_type_string :: "partition \<Rightarrow> string option" where
  "blkid_partition_get_type_string par = text_or_null (pa_typestr par)"

text \<open>Whether \<open>start\<close> and \<open>sz\<close> lie within a partition.\<close>

definition blkid_is_nested_dimension :: "partition \<Rightarrow> int \<Rightarrow> int \<Rightarrow> bool" where
  "blkid_is_nested_dimension par start sz \<longleftrightarrow>
     \<not> (start < pa_start par \<or> start + sz > pa_start par + pa_size par)"

datatype logical_type = Primary | Extended | Logical

definition MBR_DOS_EXTENDED_PARTITION :: nat where "MBR_DOS_EXTENDED_PARTITION = 0x05"
definition MBR_W95_EXTENDED_PARTITION :: nat where "MBR_W95_EXTENDED_PARTITION = 0x0f"
definition MBR_LINUX_EXTENDED_PARTITION :: nat where "MBR_LINUX_EXTENDED_PARTITION = 0x85"

definition partition_get_logical_type :: "partlist \<Rightarrow> partition \<Rightarrow> logical_type" where
  "partition_get_logical_type ls par =
     (let tab = pl_tabs ls ! pa_tab par in
      if pt_parent tab \<noteq> None then Logical
      else if pt_type tab = ''dos'' then
        (if pa_partno par > 4 then Logical
         else if pa_type par \<in> {int MBR_DOS_EXTENDED_PARTITION, int MBR_W95_EXTENDED_PARTITION,
                int MBR_LINUX_EXTENDED_PARTITION}
         then Extended else Primary)
      else Primary)"

definition blkid_partition_is_primary :: "partlist \<Rightarrow> partition \<Rightarrow> bool" where
  "blkid_partition_is_primary ls par \<longleftrightarrow> partition_get_logical_type ls par = Primary"

definition blkid_partition_is_extended :: "partlist \<Rightarrow> partition \<Rightarrow> bool" where
  "blkid_partition_is_extended ls par \<longleftrightarrow> partition_get_logical_type ls par = Extended"

definition blkid_partition_is_logical :: "partlist \<Rightarrow> partition \<Rightarrow> bool" where
  "blkid_partition_is_logical ls par \<longleftrightarrow> partition_get_logical_type ls par = Logical"

section \<open>Reports of the probing functions\<close>

text \<open>Whether the data of the current chain exist and are asked for.\<close>

definition chain_has_data :: "probe \<Rightarrow> nat \<Rightarrow> bool" where
  "chain_has_data pr c \<longleftrightarrow>
     (if c = BLKID_CHAIN_PARTS then pr_parts pr \<noteq> None
      else if c = BLKID_CHAIN_TOPLGY then pr_topology pr \<noteq> None else False)"

definition blkid_partitions_need_typeonly :: "bool prober" where
  "blkid_partitions_need_typeonly =
     gets (\<lambda>pr. case pr_cur_chain pr of
       None \<Rightarrow> True
     | Some c \<Rightarrow> \<not> (chain_has_data pr c \<and> ch_binary (chain_at pr c)))"

definition blkid_partitions_get_flags :: "u32 prober" where
  "blkid_partitions_get_flags =
     gets (\<lambda>pr. case pr_cur_chain pr of None \<Rightarrow> 0 | Some c \<Rightarrow> ch_flags (chain_at pr c))"

definition current_binary :: "bool prober" where
  "current_binary =
     do {
       pr \<leftarrow> gets id;
       case pr_cur_chain pr of
         None \<Rightarrow> do { fault (Undefined Null_Deref); ret True }
       | Some c \<Rightarrow> ret (ch_binary (chain_at pr c))
     }"

definition blkid_partitions_set_ptuuid :: "string \<Rightarrow> int prober" where
  "blkid_partitions_set_ptuuid uuid =
     do {
       binary \<leftarrow> current_binary;
       if binary \<or> blkid_uuid_is_empty uuid 16 then ret 0
       else do {
         v \<leftarrow> blkid_probe_assign_value ''PTUUID'';
         unparse_into v uuid
       }
     }"

definition blkid_partitions_strcpy_ptuuid :: "string \<Rightarrow> int prober" where
  "blkid_partitions_strcpy_ptuuid text =
     do {
       binary \<leftarrow> current_binary;
       if binary \<or> text = [] then ret 0
       else do {
         v \<leftarrow> blkid_probe_assign_value ''PTUUID'';
         case v of
           None \<Rightarrow> ret (- 1)
         | Some i \<Rightarrow> do { fill_value i (c_bytes (take (BLKID_PROBVAL_BUFSIZ - 1) text)); ret 0 }
       }
     }"

section \<open>Probing\<close>

definition idinfo_probe :: "idinfo \<Rightarrow> nat option \<Rightarrow> int prober" where
  "idinfo_probe ii chn =
     do {
       pr \<leftarrow> gets id;
       if pr_size pr \<le> 0 \<or> ii_minsz ii \<noteq> 0 \<and> ii_minsz ii > pr_size pr then ret BLKID_PROBE_NONE
       else if has_flag (pr_flags pr) BLKID_FL_NOSCAN_DEV then ret BLKID_PROBE_NONE
       else do {
         (rc, off, mag) \<leftarrow> blkid_probe_get_idmag ii;
         if rc \<noteq> BLKID_PROBE_OK then ret BLKID_PROBE_NONE
         else case ii_probefunc ii of
           None \<Rightarrow> ret rc
         | Some f \<Rightarrow> do {
             rc \<leftarrow> f mag;
             binary \<leftarrow> gets (\<lambda>pr. case chn of None \<Rightarrow> True | Some c \<Rightarrow> ch_binary (chain_at pr c));
             (if rc < 0 then do {
                ls \<leftarrow> gets pr_parts;
                blkid_probe_set_partlist (map_option reset_partlist ls);
                (case chn of
                   Some c \<Rightarrow> if binary then ret () else blkid_probe_chain_reset_vals c
                 | None \<Rightarrow> ret ())
              } else ret ());
             case mag of
               Some m \<Rightarrow> if rc = BLKID_PROBE_OK \<and> \<not> binary then blkid_probe_set_magic off (im_magic m) else ret rc
             | None \<Rightarrow> ret rc
           }
       }
     }"

text \<open>
  A clone shares the buffers of its ancestors. What runs on it leaves to its parent the buffers
  that it read through it, and a fault. The drivers of a clone's chains are those of all probes.
  \<open>sizeof_probe\<close> is the size of the struct with 32 bit pointers.
\<close>

definition sizeof_probe :: int where "sizeof_probe = 5216"

definition clone_of :: "probe \<Rightarrow> probe" where
  "clone_of pr = blkid_clone_probe (map ch_driver (pr_chains pr)) pr"

definition resume :: "probe \<Rightarrow> probe \<Rightarrow> probe" where
  "resume prc pr = pr\<lparr>
     pr_area := (case pr_parents prc of [] \<Rightarrow> pr_area pr | a # as \<Rightarrow> a),
     pr_parents := (case pr_parents prc of [] \<Rightarrow> pr_parents pr | a # as \<Rightarrow> as),
     pr_fault := (case pr_fault pr of None \<Rightarrow> pr_fault prc | Some e \<Rightarrow> Some e)\<rparr>"

definition on_clone :: "'a prober \<Rightarrow> 'a option prober" where
  "on_clone m =
     State (\<lambda>pr.
       if \<not> md_alloc (pr_medium pr) sizeof_probe then (None, pr)
       else let (x, prc) = run_state m (clone_of pr) in (Some x, resume prc pr))"

text \<open>
  The clone for a nested table uses the current chain of its parent, and extends the parent's
  list of partitions, whose \<open>next_parent\<close> is NULL again in the end.
\<close>

definition on_subprobe :: "int \<Rightarrow> int \<Rightarrow> partref option \<Rightarrow> int prober \<Rightarrow> int prober" where
  "on_subprobe off sz parent m =
     State (\<lambda>pr.
       if \<not> md_alloc (pr_medium pr) sizeof_probe then (- ENOMEM, pr)
       else
         let (rc, prc) = run_state
           (do {
              blkid_probe_set_dimension off sz;
              modify (\<lambda>prc. prc\<lparr>pr_chains := pr_chains pr, pr_cur_chain := pr_cur_chain pr, pr_parts := pr_parts pr\<rparr>);
              blkid_partlist_set_parent parent;
              m
            }) (clone_of pr)
         in (rc, (resume prc pr)\<lparr>pr_parts := map_option (\<lambda>ls. ls\<lparr>pl_next_parent := None\<rparr>) (pr_parts prc)\<rparr>))"

definition blkid_partitions_do_subprobe :: "partref option \<Rightarrow> idinfo \<Rightarrow> int prober" where
  "blkid_partitions_do_subprobe parent ii =
     (case parent of
        None \<Rightarrow> ret (- EINVAL)
      | Some r \<Rightarrow> do {
          par \<leftarrow> get_partition r;
          pr \<leftarrow> gets id;
          if pa_size par = 0 then ret (- EINVAL)
          else if has_flag (pr_flags pr) BLKID_FL_NOSCAN_DEV then ret BLKID_PROBE_NONE
          else
            let sz = pa_size par * 512; off = pa_start par * 512 in
            if off < pr_off pr \<or> pr_off pr + pr_size pr < off + sz then ret (- ENOSPC)
            else on_subprobe off sz parent (idinfo_probe ii (pr_cur_chain pr))
        })"

definition partitions_init_data :: "unit prober" where
  "partitions_init_data =
     do {
       pr \<leftarrow> gets id;
       case pr_parts pr of
         Some ls \<Rightarrow> blkid_probe_set_partlist (Some (reset_partlist ls))
       | None \<Rightarrow>
           if md_alloc (pr_medium pr) sizeof_partlist
           then blkid_probe_set_partlist (Some (reset_partlist zero_partlist)) else ret ()
     }"

text \<open>The loop over the tables from item \<open>i\<close> on.\<close>

fun parts_loop :: "nat \<Rightarrow> idinfo list \<Rightarrow> int \<Rightarrow> int prober" where
  "parts_loop i [] rc = ret rc"
| "parts_loop i (ii # iis) rc =
     do {
       set_chain BLKID_CHAIN_PARTS (\<lambda>chn. chn\<lparr>ch_idx := int i\<rparr>);
       chn \<leftarrow> gets (\<lambda>pr. chain_at pr BLKID_CHAIN_PARTS);
       if (case ch_fltr chn of Some bmp \<Rightarrow> blkid_bmp_get_item bmp i | None \<Rightarrow> False)
       then parts_loop (i + 1) iis rc
       else do {
         rc \<leftarrow> idinfo_probe ii (Some BLKID_CHAIN_PARTS);
         if rc < 0 then ret rc
         else if rc \<noteq> BLKID_PROBE_OK then parts_loop (i + 1) iis rc
         else do {
           (if ch_binary chn then ret 0 else blkid_probe_set_value ''PTTYPE'' (c_bytes (ii_name ii)));
           ret BLKID_PROBE_OK
         }
       }
     }"

text \<open>
  \<open>partitions_probe\<close> up to the label \<open>details_only\<close>: \<open>Inl\<close> is a return, \<open>Inr\<close> the code with which
  it goes on there.
\<close>

definition partitions_tables :: "idinfo list \<Rightarrow> (int + int) prober" where
  "partitions_tables iis =
     do {
       chn \<leftarrow> gets (\<lambda>pr. chain_at pr BLKID_CHAIN_PARTS);
       if ch_idx chn < - 1 then ret (Inl (- EINVAL))
       else do {
         blkid_probe_chain_reset_vals BLKID_CHAIN_PARTS;
         pr \<leftarrow> gets id;
         if has_flag (pr_flags pr) BLKID_FL_NOSCAN_DEV then ret (Inl BLKID_PROBE_NONE)
         else do {
           (if ch_binary chn then partitions_init_data else ret ());
           if pr_wipe_size pr = 0 \<and> has_flag (pr_prob_flags pr) BLKID_PROBE_FL_IGNORE_PT
           then ret (Inr BLKID_PROBE_NONE)
           else
             (let i = (if ch_idx chn < 0 then 0 else nat (ch_idx chn) + 1) in
              do {
                rc \<leftarrow> parts_loop i (drop i iis) BLKID_PROBE_NONE;
                ret (Inr rc)
              })
         }
       }
     }"

text \<open>In the binary interface nothing follows, so that is all of it; see \<open>partitions_probe_binary\<close>.\<close>

definition partitions_binary :: "idinfo list \<Rightarrow> int prober" where
  "partitions_binary iis = do { r \<leftarrow> partitions_tables iis; ret (case r of Inl rc \<Rightarrow> rc | Inr rc \<Rightarrow> rc) }"

definition blkid_probe_get_partitions :: "idinfo list \<Rightarrow> partlist option prober" where
  "blkid_probe_get_partitions iis =
     do {
       valid \<leftarrow> blkid_probe_get_binary_data BLKID_CHAIN_PARTS (partitions_binary iis);
       if valid then gets pr_parts else ret None
     }"

section \<open>The entry of a device\<close>

text \<open>What sysfs tells about a partition; \<open>None\<close> is a file that cannot be read.\<close>

record sysfs_part =
  sf_size :: "u64 option"
  sf_start :: "u64 option"
  sf_dm_uuid :: "string option"

text \<open>
  The number in a device mapper UUID of the form part<n>-...; 0 stands for a number that does
  not end at the hyphen, \<open>None\<close> for any other UUID. An empty number is 0 too.
\<close>

definition dm_partno :: "string \<Rightarrow> (int \<times> bool) option" where
  "dm_partno uuid =
     (let prefix = takeWhile (\<lambda>c. c \<noteq> CHR ''-'') uuid in
      if map tolower (take 4 prefix) = ''part'' then
        (let (n, end) = strtol32 10 (drop 4 prefix) in
         if end \<noteq> [] then Some (0, False) else Some (n, True))
      else None)"

definition signed64 :: "u64 \<Rightarrow> int" where
  "signed64 n = sint n"

definition find_partition :: "partlist \<Rightarrow> (partition \<Rightarrow> bool) \<Rightarrow> partition option" where
  "find_partition ls P = find P (pl_parts ls)"

text \<open>
  \<open>blkid_partlist_devno_to_partition\<close> with what sysfs says about the device (\<open>None\<close> when the
  device is not there): by number and size for a device mapped by kpartx, by position and size
  otherwise. The variable \<open>start\<close> was never set when the device mapper UUID has no number
  behind its prefix.
\<close>

definition blkid_partlist_devno_to_partition :: "partlist \<Rightarrow> sysfs_part option \<Rightarrow> ub + partition option" where
  "blkid_partlist_devno_to_partition ls sysfs =
     (case sysfs of
        None \<Rightarrow> Inr None
      | Some sf \<Rightarrow>
          case sf_size sf of
            None \<Rightarrow> Inr None
          | Some sz \<Rightarrow>
              let fits = (\<lambda>par. blkid_partition_is_extended ls par \<and> sz \<le> 1024);
                  by_number = (\<lambda>n. find_partition ls (\<lambda>par. n = pa_partno par \<and>
                    (signed64 sz = pa_size par \<or> fits par)));
                  by_start = (\<lambda>st. find_partition ls (\<lambda>par. pa_start par = signed64 st \<and>
                    (pa_size par = signed64 sz \<or> fits par)))
              in case sf_start sf of
                Some st \<Rightarrow> Inr (by_start st)
              | None \<Rightarrow>
                  case Option.bind (sf_dm_uuid sf) dm_partno of
                    Some (n, True) \<Rightarrow>
                      if n \<noteq> 0 then Inr (by_number n)
                      else if pl_parts ls = [] then Inr None else Inl Indeterminate
                  | _ \<Rightarrow> Inr None)"

text \<open>
  What lies outside: the probe of the whole disk that \<open>blkid_devno_to_devname\<close> and
  \<open>blkid_new_probe_from_filename\<close> make for its device number, and sysfs. The code keeps the
  probe of the disk for the next time; here it is a new one each time.
\<close>

record parts_env =
  pe_disk :: "nat \<Rightarrow> probe option"
  pe_sysfs :: "nat \<Rightarrow> sysfs_part option"

text \<open>On a probe that is not a clone.\<close>

definition blkid_probe_get_wholedisk_probe :: "parts_env \<Rightarrow> probe option prober" where
  "blkid_probe_get_wholedisk_probe env =
     do {
       whole \<leftarrow> blkid_probe_is_wholedisk;
       if whole then ret None
       else do { disk \<leftarrow> blkid_probe_get_wholedisk_devno; ret (pe_disk env disk) }
     }"

definition dev_major :: "nat \<Rightarrow> nat" where
  "dev_major d = d div 256 mod 4096"

definition dev_minor :: "nat \<Rightarrow> nat" where
  "dev_minor d = d mod 256 + d div 1048576 * 256 mod 1048576"

definition set_text :: "string \<Rightarrow> string option \<Rightarrow> unit prober" where
  "set_text name v =
     (case v of Some t \<Rightarrow> do { blkid_probe_set_value name (c_bytes t); ret () } | None \<Rightarrow> ret ())"

definition set_entry :: "partlist \<Rightarrow> partition \<Rightarrow> nat \<Rightarrow> unit prober" where
  "set_entry ls par disk =
     do {
       set_text ''PART_ENTRY_SCHEME'' (Some (pt_type (pl_tabs ls ! pa_tab par)));
       set_text ''PART_ENTRY_NAME'' (blkid_partition_get_name par);
       set_text ''PART_ENTRY_UUID'' (blkid_partition_get_uuid par);
       (case blkid_partition_get_type_string par of
          Some t \<Rightarrow> set_text ''PART_ENTRY_TYPE'' (Some t)
        | None \<Rightarrow> do {
            blkid_probe_sprintf_value ''PART_ENTRY_TYPE'' (''0x'' @ show_hex (nat (pa_type par mod 2 ^ 32)));
            ret () });
       (if pa_flags par \<noteq> 0 then do {
          blkid_probe_sprintf_value ''PART_ENTRY_FLAGS'' (''0x'' @ show_hex (unat (pa_flags par)));
          ret () } else ret ());
       blkid_probe_sprintf_value ''PART_ENTRY_NUMBER'' (show_int (pa_partno par));
       blkid_probe_sprintf_value ''PART_ENTRY_OFFSET'' (show_int (pa_start par));
       blkid_probe_sprintf_value ''PART_ENTRY_SIZE'' (show_int (pa_size par));
       blkid_probe_sprintf_value ''PART_ENTRY_DISK'' (show_nat (dev_major disk) @ '':'' @ show_nat (dev_minor disk));
       ret ()
     }"

definition carry_fault :: "probe \<Rightarrow> unit prober" where
  "carry_fault q = (case pr_fault q of Some e \<Rightarrow> fault e | None \<Rightarrow> ret ())"

definition blkid_partitions_probe_partition :: "parts_env \<Rightarrow> idinfo list \<Rightarrow> int prober" where
  "blkid_partitions_probe_partition env iis =
     do {
       pr \<leftarrow> gets id;
       if has_flag (pr_flags pr) BLKID_FL_NOSCAN_DEV then ret BLKID_PROBE_NONE
       else if pr_devno pr = 0 then ret BLKID_PROBE_NONE
       else do {
         disk_pr \<leftarrow> blkid_probe_get_wholedisk_probe env;
         case disk_pr of
           None \<Rightarrow> ret BLKID_PROBE_NONE
         | Some dp \<Rightarrow>
             let (ls, dp) = run_state (blkid_probe_get_partitions iis) dp in do {
               carry_fault dp;
               case ls of
                 None \<Rightarrow> ret BLKID_PROBE_NONE
               | Some ls \<Rightarrow>
                   case blkid_partlist_devno_to_partition ls (pe_sysfs env (pr_devno pr)) of
                     Inl u \<Rightarrow> do { fault (Undefined u); ret BLKID_PROBE_NONE }
                   | Inr None \<Rightarrow> ret BLKID_PROBE_NONE
                   | Inr (Some par) \<Rightarrow> do { set_entry ls par (pr_devno dp); ret BLKID_PROBE_OK }
             }
       }
     }"

definition partitions_probe :: "parts_env \<Rightarrow> idinfo list \<Rightarrow> int prober" where
  "partitions_probe env iis =
     do {
       r \<leftarrow> partitions_tables iis;
       case r of
         Inl rc \<Rightarrow> ret rc
       | Inr rc \<Rightarrow> do {
           binary \<leftarrow> gets (\<lambda>pr. ch_binary (chain_at pr BLKID_CHAIN_PARTS));
           flags \<leftarrow> blkid_partitions_get_flags;
           if (rc = BLKID_PROBE_OK \<or> rc = BLKID_PROBE_NONE) \<and> \<not> binary \<and> has_flag flags BLKID_PARTS_ENTRY_DETAILS
           then do {
             xrc \<leftarrow> blkid_partitions_probe_partition env iis;
             ret (if xrc < 0 then xrc else if rc = BLKID_PROBE_NONE then xrc else rc)
           } else ret rc
         }
     }"

section \<open>Areas covered by a partition\<close>

definition covered_by :: "partlist \<Rightarrow> int \<Rightarrow> int \<Rightarrow> int \<Rightarrow> bool" where
  "covered_by ls dev_size off sz \<longleftrightarrow>
     pl_parts ls \<noteq> [] \<and>
     (\<forall>par \<in> set (pl_parts ls). pa_start par + pa_size par \<le> dev_size div 512) \<and>
     (\<exists>par \<in> set (pl_parts ls). pa_start par \<le> off div 512 \<and> (off + sz) div 512 \<le> pa_start par + pa_size par)"

definition blkid_probe_is_covered_by_pt :: "idinfo list \<Rightarrow> int \<Rightarrow> int \<Rightarrow> bool prober" where
  "blkid_probe_is_covered_by_pt iis off sz =
     do {
       pr \<leftarrow> gets id;
       if has_flag (pr_flags pr) BLKID_FL_NOSCAN_DEV then ret False
       else do {
         ls \<leftarrow> on_clone (blkid_probe_get_partitions iis);
         case ls of
           Some (Some ls) \<Rightarrow> ret (covered_by ls (pr_size pr) off sz)
         | _ \<Rightarrow> ret False
       }
     }"

section \<open>Settings and names\<close>

definition blkid_probe_enable_partitions :: "bool \<Rightarrow> int prober" where
  "blkid_probe_enable_partitions enable =
     do { set_chain BLKID_CHAIN_PARTS (\<lambda>chn. chn\<lparr>ch_enabled := enable\<rparr>); ret 0 }"

definition blkid_probe_set_partitions_flags :: "u32 \<Rightarrow> int prober" where
  "blkid_probe_set_partitions_flags flags =
     do { set_chain BLKID_CHAIN_PARTS (\<lambda>chn. chn\<lparr>ch_flags := flags\<rparr>); ret 0 }"

definition blkid_probe_reset_partitions_filter :: "int prober" where
  "blkid_probe_reset_partitions_filter = blkid_probe_reset_filter BLKID_CHAIN_PARTS"

definition blkid_probe_invert_partitions_filter :: "int prober" where
  "blkid_probe_invert_partitions_filter = blkid_probe_invert_filter BLKID_CHAIN_PARTS"

definition blkid_probe_filter_partitions_type :: "u32 \<Rightarrow> string list \<Rightarrow> int prober" where
  "blkid_probe_filter_partitions_type flag names = blkid_probe_filter_types (int BLKID_CHAIN_PARTS) flag names"

definition blkid_known_pttype :: "idinfo list \<Rightarrow> string \<Rightarrow> bool" where
  "blkid_known_pttype iis pttype \<longleftrightarrow> pttype \<in> set (map ii_name iis)"

definition partitions_drv :: "idinfo list \<Rightarrow> chaindrv" where
  "partitions_drv iis =
     \<lparr>cd_id = BLKID_CHAIN_PARTS, cd_name = ''partitions'', cd_dflt_flags = 0, cd_dflt_enabled = False,
      cd_has_fltr = True, cd_idinfos = map ii_name iis\<rparr>"

definition partitions_ops :: "parts_env \<Rightarrow> idinfo list \<Rightarrow> chain_ops" where
  "partitions_ops env iis = \<lparr>co_probe = partitions_probe env iis, co_safeprobe = partitions_probe env iis\<rparr>"

end
