(* ===== verification/PartFacts.thy ===== *)
theory PartFacts
  imports Partitions
begin

text \<open>
  What the partitions chain keeps. The operations on the list of partitions are kept by the
  locale \<open>part_inv\<close>; \<open>clone_inv\<close> adds what runs on a clone, for computations that treat the
  buffers of the ancestors well (\<open>io_safe\<close>).
\<close>

lemma keeps_sum:
  "(\<And>e. r = Inl e \<Longrightarrow> keeps I (f e)) \<Longrightarrow> (\<And>x. r = Inr x \<Longrightarrow> keeps I (g x)) \<Longrightarrow>
     keeps I (case r of Inl e \<Rightarrow> f e | Inr x \<Rightarrow> g x)"
  by (cases r) auto

locale part_inv = endless_inv +
  assumes parts: "keeps I (blkid_probe_set_partlist ls)"
begin

lemma on_list: "keeps I (on_partlist d f)"
  unfolding on_partlist_def by (intro keeps_rules keeps_sum primitives parts)

lemma list_operations:
  "keeps I (blkid_partlist_new_parttable t off)" "keeps I (blkid_partlist_add_partition tab s n)"
  "keeps I (blkid_partlist_set_partno n)" "keeps I blkid_partlist_increment_partno"
  "keeps I (blkid_partlist_set_parent p)" "keeps I blkid_partlist_get_parent"
  "keeps I (blkid_partlist_get_partition n)" "keeps I (get_partition r)" "keeps I (set_partition r g)"
  "keeps I (set_parttable tab h)"
  unfolding blkid_partlist_new_parttable_def blkid_partlist_add_partition_def blkid_partlist_set_partno_def
    blkid_partlist_increment_partno_def blkid_partlist_set_parent_def blkid_partlist_get_parent_def
    blkid_partlist_get_partition_def get_partition_def set_partition_def set_parttable_def
  by (intro keeps_rules on_list parts)+

lemma member_operations:
  "keeps I (blkid_parttable_set_uuid tab u)" "keeps I (blkid_parttable_set_id tab t)"
  "keeps I (blkid_partition_set_type r n)" "keeps I (blkid_partition_set_flags r fl)"
  "keeps I (blkid_partition_set_name r b)" "keeps I (blkid_partition_set_utf8name r b enc)"
  "keeps I (blkid_partition_set_uuid r u)" "keeps I (blkid_partition_gen_uuid r)"
  "keeps I (blkid_partition_set_type_string r b)" "keeps I (blkid_partition_set_type_uuid r u)"
  unfolding blkid_parttable_set_uuid_def blkid_parttable_set_id_def blkid_partition_set_type_def
    blkid_partition_set_flags_def blkid_partition_set_name_def blkid_partition_set_utf8name_def
    blkid_partition_set_uuid_def blkid_partition_gen_uuid_def blkid_partition_set_type_string_def
    blkid_partition_set_type_uuid_def
  by (intro list_operations on_list)+

lemma typeonly: "keeps I blkid_partitions_need_typeonly" "keeps I blkid_partitions_get_flags" "keeps I current_binary"
  unfolding blkid_partitions_need_typeonly_def blkid_partitions_get_flags_def current_binary_def
  by (intro keeps_rules primitives)+

lemma ptuuids: "keeps I (blkid_partitions_set_ptuuid u)" "keeps I (blkid_partitions_strcpy_ptuuid t)"
  unfolding blkid_partitions_set_ptuuid_def blkid_partitions_strcpy_ptuuid_def
  by (intro keeps_rules typeonly unparse assign_value fill_value; simp add: BLKID_PROBVAL_BUFSIZ_def)+

lemmas part_rules = list_operations member_operations typeonly ptuuids tool_rules

lemma idinfo:
  assumes "\<And>g mag. ii_probefunc ii = Some g \<Longrightarrow> keeps I (g mag)"
  shows "keeps I (idinfo_probe ii chn)"
  unfolding idinfo_probe_def by (intro part_rules parts assms) simp_all

lemma init_data: "keeps I partitions_init_data"
  unfolding partitions_init_data_def by (intro part_rules parts)

end

section \<open>Clones\<close>

text \<open>
  A computation that may run on a clone: it keeps the dimensions of the areas of the ancestors
  and the agreement of all buffers with the device.
\<close>

definition dims :: "area \<Rightarrow> int \<times> int \<times> nat" where
  "dims a = (ar_off a, ar_size a, ar_devno a)"

definition io_safe :: "'a prober \<Rightarrow> bool" where
  "io_safe m \<longleftrightarrow>
     (\<forall>f. keeps (\<lambda>pr. map dims (pr_parents pr) = f) m) \<and> (\<forall>content. keeps (cache_ok content) m)"

lemma io_safeI:
  "(\<And>f. keeps (\<lambda>pr. map dims (pr_parents pr) = f) m) \<Longrightarrow> (\<And>content. keeps (cache_ok content) m) \<Longrightarrow> io_safe m"
  by (simp add: io_safe_def)

lemma io_safe_parents: "io_safe m \<Longrightarrow> map dims (pr_parents (snd (run_state m pr))) = map dims (pr_parents pr)"
  by (simp add: io_safe_def keeps_def)

lemma io_safe_cache: "io_safe m \<Longrightarrow> cache_ok content pr \<Longrightarrow> cache_ok content (snd (run_state m pr))"
  by (simp add: io_safe_def keeps_def)

locale clone_inv = part_inv +
  assumes clone: "io_safe (m :: partlist option prober) \<Longrightarrow> keeps I (on_clone m)"
    and subprobe: "io_safe n \<Longrightarrow> keeps I (on_subprobe off sz parent n)"
begin

lemma do_subprobe:
  "(\<And>chn. io_safe (idinfo_probe ii chn)) \<Longrightarrow> keeps I (blkid_partitions_do_subprobe parent ii)"
  unfolding blkid_partitions_do_subprobe_def Let_def by (intro part_rules subprobe) simp_all

end

lemma clone_parents: "pr_parents (clone_of pr) = pr_area pr # pr_parents pr"
  by (simp add: clone_of_def blkid_clone_probe_def)

text \<open>An invariant that does not depend on what a clone can change.\<close>

lemma keeps_on_clone:
  assumes "io_safe m" and "\<And>pr a as e. I pr \<Longrightarrow> dims a = dims (pr_area pr) \<Longrightarrow> map dims as = map dims (pr_parents pr) \<Longrightarrow>
    I (pr\<lparr>pr_area := a, pr_parents := as, pr_fault := e\<rparr>)"
  shows "keeps I (on_clone m)"
proof (rule keepsI)
  fix pr assume i: "I pr"
  obtain x prc where r: "run_state m (clone_of pr) = (x, prc)" by (metis surj_pair)
  have "map dims (pr_parents prc) = dims (pr_area pr) # map dims (pr_parents pr)"
    using io_safe_parents [OF assms(1), of "clone_of pr"] by (simp add: r clone_parents)
  then obtain a as where p: "pr_parents prc = a # as" "dims a = dims (pr_area pr)" "map dims as = map dims (pr_parents pr)"
    by auto
  then show "I (snd (run_state (on_clone m) pr))"
    using assms(2) [OF i p(2,3)] i by (simp add: on_clone_def r resume_def p(1))
qed

lemma set_dimension_io: "io_safe (blkid_probe_set_dimension off sz)"
proof (rule io_safeI)
  show "keeps (cache_ok content) (blkid_probe_set_dimension off sz)" for content
    by (rule keepsI)
       (auto simp: blkid_probe_set_dimension_def blkid_probe_reset_buffer_def cache_ok_def areas_def coherent_def)
qed (rule keepsI; simp add: blkid_probe_set_dimension_def blkid_probe_reset_buffer_def)

lemma on_subprobe_as_clone:
  "\<exists>parts. snd (run_state (on_subprobe off sz parent m) pr) =
     (snd (run_state (on_clone (do {
        blkid_probe_set_dimension off sz;
        modify (\<lambda>prc. prc\<lparr>pr_chains := pr_chains pr, pr_cur_chain := pr_cur_chain pr, pr_parts := pr_parts pr\<rparr>);
        blkid_partlist_set_parent parent;
        m })) pr))\<lparr>pr_parts := parts\<rparr>"
proof (cases "md_alloc (pr_medium pr) sizeof_probe")
  case True
  then show ?thesis by (simp add: on_subprobe_def on_clone_def split_beta Let_def) blast
next
  case False
  then show ?thesis by (intro exI [of _ "pr_parts pr"]) (simp add: on_subprobe_def on_clone_def)
qed

text \<open>The part of the safety that a computation inherits: the two families are kept by every \<open>part_inv\<close>.\<close>

lemma area_buffer_parents: "area_buffer m a ps off len = (b, a', ps') \<Longrightarrow> map dims ps' = map dims ps"
proof (induction m a ps off len arbitrary: b a' ps' rule: area_buffer.induct)
  case (2 m a p ps off len)
  then show ?case by (auto dest: area_buffer_dims simp: dims_def split: if_splits prod.splits)
qed (auto split: if_splits prod.splits)

interpretation parents: part_inv "\<lambda>pr :: probe. map dims (pr_parents pr) = f" for f
proof unfold_locales
  show "keeps (\<lambda>pr :: probe. map dims (pr_parents pr) = f) (blkid_probe_get_buffer off len)" for off len
  proof (rule keepsI)
    fix pr :: probe assume f: "map dims (pr_parents pr) = f"
    obtain b a as where e: "area_buffer (pr_medium pr) (pr_area pr) (pr_parents pr) off len = (b, a, as)"
      by (metis surj_pair)
    show "map dims (pr_parents (snd (run_state (blkid_probe_get_buffer off len) pr))) = f"
      using f area_buffer_parents [OF e] by (simp add: get_buffer_run e)
  qed
qed (rule keepsI; auto simp: blkid_probe_assign_value_def fill_value_def blkid_probe_reset_last_value_def
      chain_reset_vals_filter blkid_probe_set_wiper_def blkid_probe_get_wholedisk_devno_def
      blkid_probe_get_sectorsize_def fault_def blkid_probe_set_partlist_def Let_def split: option.splits)+

interpretation cached: part_inv "cache_ok content" for content
  by unfold_locales
     (simp_all add: cache_ok_def areas_def keeps_def fault_def blkid_probe_set_partlist_def)

lemma part_inv_io_safe: "(\<And>I. part_inv I \<Longrightarrow> keeps I m) \<Longrightarrow> io_safe m"
  by (intro io_safeI) (simp_all add: parents.part_inv_axioms cached.part_inv_axioms)

lemma bind_io: "io_safe m \<Longrightarrow> (\<And>x. io_safe (f x)) \<Longrightarrow> io_safe (m \<bind> f)"
  by (simp add: io_safe_def keeps_bind)

lemma modify_io:
  "(\<And>pr. pr_medium (f pr) = pr_medium pr \<and> pr_area (f pr) = pr_area pr \<and> pr_parents (f pr) = pr_parents pr) \<Longrightarrow>
     io_safe (modify f)"
  by (intro io_safeI; rule keepsI) (simp_all add: cache_ok_def areas_def)

text \<open>What is safe on a clone may run on a clone of it.\<close>

lemma resume_parents:
  assumes "io_safe m" and "run_state m (clone_of pr) = (x, prc)"
  obtains a as where "resume prc pr = pr\<lparr>pr_area := a, pr_parents := as,
      pr_fault := (case pr_fault pr of None \<Rightarrow> pr_fault prc | Some e \<Rightarrow> Some e)\<rparr>"
    and "pr_parents prc = a # as" and "dims a = dims (pr_area pr)" and "map dims as = map dims (pr_parents pr)"
proof -
  have "map dims (pr_parents prc) = dims (pr_area pr) # map dims (pr_parents pr)"
    using io_safe_parents [OF assms(1), of "clone_of pr"] by (simp add: assms(2) clone_parents)
  then obtain a as where "pr_parents prc = a # as" "dims a = dims (pr_area pr)" "map dims as = map dims (pr_parents pr)"
    by auto
  then show thesis using that by (simp add: resume_def)
qed

lemma clone_cache: "cache_ok content pr \<Longrightarrow> cache_ok content (clone_of pr)"
  by (auto simp: clone_of_def blkid_clone_probe_def cache_ok_def areas_def coherent_def)

lemma medium_io: "(\<And>M. keeps (\<lambda>pr. pr_medium pr = M) m) \<Longrightarrow> pr_medium (snd (run_state m pr)) = pr_medium pr"
  by (simp add: keeps_def)

lemma on_clone_io:
  assumes "io_safe m"
  shows "io_safe (on_clone m)"
proof (rule io_safeI)
  show "keeps (\<lambda>pr. map dims (pr_parents pr) = f) (on_clone m)" for f
    by (rule keeps_on_clone [OF assms]) simp
  show "keeps (cache_ok content) (on_clone m)" for content
  proof (rule keepsI)
    fix pr assume c: "cache_ok content pr"
    obtain x prc where r: "run_state m (clone_of pr) = (x, prc)" by (metis surj_pair)
    have "cache_ok content prc" using io_safe_cache [OF assms clone_cache [OF c]] by (simp add: r)
    moreover obtain a as e where "resume prc pr = pr\<lparr>pr_area := a, pr_parents := as, pr_fault := e\<rparr>"
      "pr_parents prc = a # as" using resume_parents [OF assms r] by blast
    ultimately have "cache_ok content (resume prc pr)" using c by (simp add: cache_ok_def areas_def)
    then show "cache_ok content (snd (run_state (on_clone m) pr))" using c by (simp add: on_clone_def r)
  qed
qed

lemma subprobe_clone_io: "io_safe m \<Longrightarrow> io_safe (do {
        blkid_probe_set_dimension off sz;
        modify (\<lambda>prc. prc\<lparr>pr_chains := chns, pr_cur_chain := cur, pr_parts := ls\<rparr>);
        blkid_partlist_set_parent parent;
        m })"
  by (rule bind_io [OF set_dimension_io], rule bind_io [OF modify_io], simp,
      rule bind_io [OF part_inv_io_safe], erule part_inv.list_operations)

lemma keeps_on_subprobe:
  assumes "io_safe m" and "\<And>m. io_safe m \<Longrightarrow> keeps I (on_clone m :: int option prober)"
    and "\<And>pr ls. I pr \<Longrightarrow> I (pr\<lparr>pr_parts := ls\<rparr>)"
  shows "keeps I (on_subprobe off sz parent m)"
proof (rule keepsI)
  fix pr assume i: "I pr"
  obtain ls where l: "snd (run_state (on_subprobe off sz parent m) pr) =
     (snd (run_state (on_clone (do {
        blkid_probe_set_dimension off sz;
        modify (\<lambda>prc. prc\<lparr>pr_chains := pr_chains pr, pr_cur_chain := pr_cur_chain pr, pr_parts := pr_parts pr\<rparr>);
        blkid_partlist_set_parent parent;
        m })) pr))\<lparr>pr_parts := ls\<rparr>"
    using on_subprobe_as_clone by blast
  show "I (snd (run_state (on_subprobe off sz parent m) pr))"
    unfolding l by (intro assms(3) keepsD [OF assms(2) i] subprobe_clone_io assms(1))
qed

lemma on_subprobe_io: "io_safe m \<Longrightarrow> io_safe (on_subprobe off sz parent m)"
  by (intro io_safeI keeps_on_subprobe on_clone_io [unfolded io_safe_def, THEN conjunct1, rule_format]
        on_clone_io [unfolded io_safe_def, THEN conjunct2, rule_format])
     (simp_all add: io_safe_def cache_ok_def areas_def)

lemma keeps_clones:
  assumes "\<And>pr a as e. I pr \<Longrightarrow> dims a = dims (pr_area pr) \<Longrightarrow> map dims as = map dims (pr_parents pr) \<Longrightarrow>
      I (pr\<lparr>pr_area := a, pr_parents := as, pr_fault := e\<rparr>)"
    and "\<And>pr ls. I pr \<Longrightarrow> I (pr\<lparr>pr_parts := ls\<rparr>)"
  shows "io_safe m \<Longrightarrow> keeps I (on_clone m)" and "io_safe n \<Longrightarrow> keeps I (on_subprobe off sz parent n)"
  using assms by (blast intro: keeps_on_clone keeps_on_subprobe)+

interpretation wf_clone: clone_inv probe_wf
  by unfold_locales
     (auto intro!: keeps_clones keeps_modify simp: probe_wf_def blkid_probe_set_partlist_def)

interpretation frame_clone: clone_inv "\<lambda>pr. probe_frame pr = f" for f
  by unfold_locales
     (auto intro!: keeps_clones keeps_modify
       simp: fault_def blkid_probe_set_partlist_def probe_frame_def pr_size_def pr_off_def pr_devno_def dims_def)

lemma safe_subprobe: "io_safe n \<Longrightarrow> keeps (\<lambda>pr :: probe. map dims (pr_parents pr) = f) (on_subprobe off sz parent n)"
  "io_safe n \<Longrightarrow> keeps (cache_ok content) (on_subprobe off sz parent n)"
  by (drule on_subprobe_io [of n off sz parent], simp add: io_safe_def)+

interpretation parents_clone: clone_inv "\<lambda>pr :: probe. map dims (pr_parents pr) = f" for f
  by unfold_locales (drule on_clone_io, simp add: io_safe_def, erule safe_subprobe)

interpretation cached_clone: clone_inv "cache_ok content" for content
  by unfold_locales (drule on_clone_io, simp add: io_safe_def, erule safe_subprobe)

lemma clone_inv_io_safe: "(\<And>I. clone_inv I \<Longrightarrow> keeps I m) \<Longrightarrow> io_safe m"
  by (intro io_safeI) (simp_all add: parents_clone.clone_inv_axioms cached_clone.clone_inv_axioms)

text \<open>What a probing function for partition tables, and a table of such functions, must do.\<close>

definition part_behaves :: "(idmag option \<Rightarrow> int prober) \<Rightarrow> bool" where
  "part_behaves f \<longleftrightarrow> (\<forall>I mag. clone_inv I \<longrightarrow> keeps I (f mag))"

definition pt_table_behaves :: "idinfo list \<Rightarrow> bool" where
  "pt_table_behaves iis \<longleftrightarrow> (\<forall>ii \<in> set iis. \<forall>f. ii_probefunc ii = Some f \<longrightarrow> part_behaves f)"

lemma part_behavesI: "(\<And>I mag. clone_inv I \<Longrightarrow> keeps I (f mag)) \<Longrightarrow> part_behaves f"
  by (simp add: part_behaves_def)

lemma pt_table_behaves_simps [simp]:
  "pt_table_behaves []"
  "pt_table_behaves (ii # iis) \<longleftrightarrow>
     (\<forall>f. ii_probefunc ii = Some f \<longrightarrow> part_behaves f) \<and> pt_table_behaves iis"
  by (auto simp: pt_table_behaves_def)

lemma pt_table_behaves_drop: "pt_table_behaves iis \<Longrightarrow> pt_table_behaves (drop n iis)"
  by (auto simp: pt_table_behaves_def dest: in_set_dropD)

text \<open>A leaf: a function that uses no clone.\<close>

lemma leaf_io: 
  assumes "\<And>I mag. part_inv I \<Longrightarrow> keeps I (f mag)" and "ii_probefunc ii = Some f"
  shows "io_safe (idinfo_probe ii chn)"
  by (rule part_inv_io_safe, rule part_inv.idinfo) (use assms in auto)

text \<open>The loop adds the position of the chain.\<close>

locale pt_chain_inv = clone_inv +
  assumes set_idx: "keeps I (set_chain BLKID_CHAIN_PARTS (\<lambda>chn. chn\<lparr>ch_idx := idx\<rparr>))"
begin

lemma table_loop: "pt_table_behaves iis \<Longrightarrow> keeps I (parts_loop i iis rc)"
proof (induction iis arbitrary: i rc)
  case Nil
  then show ?case by (simp add: keeps_ret)
next
  case (Cons ii iis)
  have "keeps I (f mag)" if "ii_probefunc ii = Some f" for f mag
    using Cons.prems that clone_inv_axioms by (simp add: part_behaves_def)
  then have p: "keeps I (idinfo_probe ii chn)" for chn by (rule idinfo)
  have "pt_table_behaves iis" using Cons.prems by simp
  then have r: "keeps I (parts_loop j iis c)" for j c by (rule Cons.IH)
  show ?case unfolding parts_loop.simps by (intro part_rules set_idx p r) simp_all
qed

lemma tables: "pt_table_behaves iis \<Longrightarrow> keeps I (partitions_tables iis)"
  unfolding partitions_tables_def Let_def by (intro part_rules init_data table_loop pt_table_behaves_drop)

lemma binary_tables: "pt_table_behaves iis \<Longrightarrow> keeps I (partitions_binary iis)"
  unfolding partitions_binary_def by (intro part_rules tables)

lemma entry: "keeps I (set_entry ls par disk)"
proof -
  have t: "name \<noteq> ''TYPE'' \<Longrightarrow> keeps I (set_text name v)" for name v
    unfolding set_text_def by (intro part_rules)
  show ?thesis unfolding set_entry_def by (intro part_rules t) simp_all
qed

lemma faults: "keeps I (fault e)"
  by (cases e) (simp_all add: fault endless)

lemma details: "keeps I (blkid_partitions_probe_partition env iis)"
  unfolding blkid_partitions_probe_partition_def blkid_probe_get_wholedisk_probe_def carry_fault_def
  by (intro part_rules keeps_sum faults entry)

lemma probe: "pt_table_behaves iis \<Longrightarrow> keeps I (partitions_probe env iis)"
  unfolding partitions_probe_def by (intro part_rules keeps_sum tables details)

end

interpretation wf_pt: pt_chain_inv probe_wf
proof unfold_locales
  show "keeps probe_wf (set_chain BLKID_CHAIN_PARTS (\<lambda>chn. chn\<lparr>ch_idx := idx\<rparr>))" for idx
    unfolding set_chain_def by (rule keeps_modify) (auto simp: probe_wf_def BLKID_CHAIN_defs nth_list_update)
qed

interpretation parents_pt: pt_chain_inv "\<lambda>pr :: probe. map dims (pr_parents pr) = f" for f
  by unfold_locales (simp add: set_chain_def keeps_def)

interpretation cached_pt: pt_chain_inv "cache_ok content" for content
  by unfold_locales (simp add: set_chain_def keeps_def cache_ok_def areas_def)

section \<open>The driver\<close>

lemma partitions_io: "pt_table_behaves iis \<Longrightarrow> io_safe (partitions_binary iis)"
  by (intro io_safeI parents_pt.binary_tables cached_pt.binary_tables)

lemma set_chain_io: "io_safe (set_chain c f)"
  unfolding set_chain_def by (intro modify_io) simp

lemma ret_io: "io_safe (ret x)"
  by (simp add: io_safe_def keeps_ret)

lemma gets_io: "io_safe (gets f)"
  by (simp add: io_safe_def keeps_gets)

lemma binary_data_io: "io_safe m \<Longrightarrow> io_safe (blkid_probe_get_binary_data c m)"
  unfolding blkid_probe_get_binary_data_def blkid_probe_chain_reset_position_def
  by (intro bind_io ret_io gets_io set_chain_io modify_io) simp_all

lemma get_partitions_io: "pt_table_behaves iis \<Longrightarrow> io_safe (blkid_probe_get_partitions iis)"
  unfolding blkid_probe_get_partitions_def
  by (intro bind_io binary_data_io partitions_io) (simp_all add: ret_io gets_io)

text \<open>So a probing function may ask whether an area is covered.\<close>

context clone_inv
begin

lemma covered: "pt_table_behaves iis \<Longrightarrow> keeps I (blkid_probe_is_covered_by_pt iis off sz)"
  unfolding blkid_probe_is_covered_by_pt_def by (intro part_rules clone get_partitions_io)

end

text \<open>In the binary interface the chain does the part before the details only.\<close>

lemma partitions_probe_binary:
  assumes "run_state (partitions_tables iis) pr = (r, q)" and "ch_binary (chain_at q BLKID_CHAIN_PARTS)"
  shows "run_state (partitions_probe env iis) pr = run_state (partitions_binary iis) pr"
  using assms by (cases r) (simp_all add: partitions_probe_def partitions_binary_def blkid_partitions_get_flags_def)

text \<open>The binary interface leaves the current chain and the flags of the probing as they were.\<close>

lemma binary_data_restores:
  "run_state (blkid_probe_get_binary_data c m) pr = (x, q) \<Longrightarrow>
     pr_cur_chain q = pr_cur_chain pr \<and> pr_prob_flags q = pr_prob_flags pr"
  by (auto simp: blkid_probe_get_binary_data_def split: prod.splits)

end
