(* ===== verification/PtLabels.thy ===== *)
theory PtLabels
  imports PartFacts
begin

text \<open>
  The probing functions of src/lib/libblkid/src/partitions for disk labels: AIX, BSD, Mac, Minix,
  SGI, Solaris, Sun, Ultrix and UnixWare. A label is the bytes of its sector; the entries are
  visited in order by one loop, \<open>entries\<close>, whose body fails only when there is no memory.
\<close>

section \<open>What the functions have in common\<close>

definition with_sector :: "nat \<Rightarrow> (string \<Rightarrow> int prober) \<Rightarrow> int prober" where
  "with_sector n f =
     do {
       b \<leftarrow> blkid_probe_get_sector n;
       case b of Buf s \<Rightarrow> f s | NoBuf e \<Rightarrow> ret (if e \<noteq> 0 then - e else BLKID_PROBE_NONE)
     }"

text \<open>\<open>ls = blkid_probe_get_partlist(pr); if (!ls) goto nothing\<close>.\<close>

definition with_partlist :: "int prober \<Rightarrow> int prober" where
  "with_partlist m = do { ls \<leftarrow> gets pr_parts; if ls = None then ret BLKID_PROBE_NONE else m }"

definition with_parttable :: "string \<Rightarrow> int \<Rightarrow> (nat \<Rightarrow> int prober) \<Rightarrow> int prober" where
  "with_parttable type offset f =
     do {
       tab \<leftarrow> blkid_partlist_new_parttable type offset;
       case tab of None \<Rightarrow> ret (- ENOMEM) | Some tab \<Rightarrow> f tab
     }"

definition typeonly_ok :: "int prober \<Rightarrow> int prober" where
  "typeonly_ok m = do { typeonly \<leftarrow> blkid_partitions_need_typeonly; if typeonly then ret BLKID_PROBE_OK else m }"

fun entries :: "(nat \<Rightarrow> bool prober) \<Rightarrow> nat list \<Rightarrow> int prober" where
  "entries f [] = ret BLKID_PROBE_OK"
| "entries f (i # is) = do { ok \<leftarrow> f i; if ok then entries f is else ret (- ENOMEM) }"

definition skip_entry :: "bool prober" where
  "skip_entry = do { blkid_partlist_increment_partno; ret True }"

definition add_entry :: "nat \<Rightarrow> int \<Rightarrow> int \<Rightarrow> (partref \<Rightarrow> unit prober) \<Rightarrow> bool prober" where
  "add_entry tab start sz f =
     do {
       r \<leftarrow> blkid_partlist_add_partition tab start sz;
       case r of None \<Rightarrow> ret False | Some par \<Rightarrow> do { f par; ret True }
     }"

definition type_and_flags :: "int \<Rightarrow> nat \<Rightarrow> partref \<Rightarrow> unit prober" where
  "type_and_flags type flags par =
     do { blkid_partition_set_type par type; blkid_partition_set_flags par (of_nat flags); ret () }"

text \<open>\<open>parent && !blkid_is_nested_dimension(parent, start, size)\<close>.\<close>

definition outside_parent :: "partref option \<Rightarrow> int \<Rightarrow> int \<Rightarrow> bool prober" where
  "outside_parent parent start sz =
     (case parent of
        None \<Rightarrow> ret False
      | Some r \<Rightarrow> do { par \<leftarrow> get_partition r; ret (\<not> blkid_is_nested_dimension par start sz) })"

text \<open>Fields of a label: \<open>n\<close> bytes at an offset of a sector.\<close>

definition le_at :: "string \<Rightarrow> nat \<Rightarrow> nat \<Rightarrow> nat" where
  "le_at s off n = le_value (take n (drop off s))"

definition be_at :: "string \<Rightarrow> nat \<Rightarrow> nat \<Rightarrow> nat" where
  "be_at s off n = be_value (take n (drop off s))"

section \<open>AIX\<close>

definition BLKID_AIX_MAGIC_STRING :: string where
  "BLKID_AIX_MAGIC_STRING = [CHR 0xC9, CHR 0xC2, CHR 0xD4, CHR 0xC1]"

definition probe_aix_pt :: "idmag option \<Rightarrow> int prober" where
  "probe_aix_pt mag = typeonly_ok (with_partlist (with_parttable ''aix'' 0 (\<lambda>tab. ret BLKID_PROBE_OK)))"

definition aix_pt_idinfo :: idinfo where
  "aix_pt_idinfo = \<lparr>ii_name = ''aix'', ii_usage = 0, ii_flags = 0, ii_minsz = 0,
     ii_probefunc = Some probe_aix_pt, ii_magics = [magic_at 0 0 BLKID_AIX_MAGIC_STRING]\<rparr>"

section \<open>BSD\<close>

text \<open>The label up to its partitions, and a partition.\<close>

definition bsd_disklabel :: "(string \<times> nat) list" where
  "bsd_disklabel = [(''d_magic'', 4), (''d_type'', 2), (''d_subtype'', 2), (''d_typename'', 16), (''d_packname'', 16),
     (''d_secsize'', 4), (''d_nsectors'', 4), (''d_ntracks'', 4), (''d_ncylinders'', 4), (''d_secpercyl'', 4),
     (''d_secperunit'', 4), (''d_sparespertrack'', 2), (''d_sparespercyl'', 2), (''d_acylinders'', 4), (''d_rpm'', 2),
     (''d_interleave'', 2), (''d_trackskew'', 2), (''d_cylskew'', 2), (''d_headswitch'', 4), (''d_trkseek'', 4),
     (''d_flags'', 4), (''d_drivedata'', 20), (''d_spare'', 20), (''d_magic2'', 4), (''d_checksum'', 2),
     (''d_npartitions'', 2), (''d_bbsize'', 4), (''d_sbsize'', 4)]"

definition bsd_partition :: "(string \<times> nat) list" where
  "bsd_partition = [(''p_size'', 4), (''p_offset'', 4), (''p_fsize'', 4), (''p_fstype'', 1), (''p_frag'', 1), (''p_cpg'', 2)]"

definition BSD_MAXPARTITIONS :: nat where "BSD_MAXPARTITIONS = 16"
definition BSD_FS_UNUSED :: nat where "BSD_FS_UNUSED = 0"
definition MBR_FREEBSD_PARTITION :: nat where "MBR_FREEBSD_PARTITION = 0xa5"
definition MBR_OPENBSD_PARTITION :: nat where "MBR_OPENBSD_PARTITION = 0xa6"
definition MBR_NETBSD_PARTITION :: nat where "MBR_NETBSD_PARTITION = 0xa9"

definition BLKID_MAG_SECTOR :: "idmag \<Rightarrow> nat" where
  "BLKID_MAG_SECTOR mag = nat (im_kboff mag) div 2 + im_sboff mag div 512"

definition BLKID_MAG_OFFSET :: "idmag \<Rightarrow> nat" where
  "BLKID_MAG_OFFSET mag = nat (im_kboff mag) * 1024 + im_sboff mag"

definition BLKID_MAG_LASTOFFSET :: "idmag \<Rightarrow> nat" where
  "BLKID_MAG_LASTOFFSET mag = BLKID_MAG_OFFSET mag - BLKID_MAG_SECTOR mag * 512"

text \<open>
  The label is found by adding the offset to a pointer to labels, so the offset counts labels of
  404 bytes, not bytes.
\<close>

definition sizeof_bsd_disklabel :: nat where
  "sizeof_bsd_disklabel = sizeof bsd_disklabel + BSD_MAXPARTITIONS * sizeof bsd_partition"

definition bsd_name :: "partref option \<Rightarrow> string prober" where
  "bsd_name parent =
     (case parent of
        None \<Rightarrow> ret ''bsd''
      | Some r \<Rightarrow> do {
          par \<leftarrow> get_partition r;
          ret (if pa_type par = int MBR_FREEBSD_PARTITION then ''freebsd''
               else if pa_type par = int MBR_NETBSD_PARTITION then ''netbsd''
               else if pa_type par = int MBR_OPENBSD_PARTITION then ''openbsd'' else ''bsd'')
        })"

definition same_as_parent :: "partref option \<Rightarrow> int \<Rightarrow> int \<Rightarrow> bool prober" where
  "same_as_parent parent start sz =
     (case parent of
        None \<Rightarrow> ret False
      | Some r \<Rightarrow> do { par \<leftarrow> get_partition r; ret (pa_start par = start \<and> pa_size par = sz) })"

definition bsd_entry :: "string \<Rightarrow> nat \<Rightarrow> partref option \<Rightarrow> nat \<Rightarrow> nat \<Rightarrow> bool prober" where
  "bsd_entry data l parent tab i =
     do {
       p \<leftarrow> bytes_from data (l + sizeof bsd_disklabel + i * sizeof bsd_partition) (sizeof bsd_partition);
       let fstype = le_member bsd_partition ''p_fstype'' p;
       if fstype = BSD_FS_UNUSED then ret True
       else
         (let start = int (le_member bsd_partition ''p_offset'' p);
              sz = int (le_member bsd_partition ''p_size'' p) in
          do {
            same \<leftarrow> same_as_parent parent start sz;
            if same then ret True
            else do {
              outside \<leftarrow> outside_parent parent start sz;
              if outside then ret True
              else add_entry tab start sz (\<lambda>par. do { blkid_partition_set_type par (int fstype); ret () })
            }
          })
     }"

definition probe_bsd_label :: "idmag \<Rightarrow> string \<Rightarrow> int prober" where
  "probe_bsd_label mag data =
     (let l = BLKID_MAG_LASTOFFSET mag * sizeof_bsd_disklabel in
      with_partlist (do {
        parent \<leftarrow> blkid_partlist_get_parent;
        name \<leftarrow> bsd_name parent;
        with_parttable name (int (BLKID_MAG_OFFSET mag)) (\<lambda>tab. do {
          n \<leftarrow> bytes_from data (l + offset_of ''d_npartitions'' bsd_disklabel) 2;
          let nparts = (if le_value n < BSD_MAXPARTITIONS then le_value n else BSD_MAXPARTITIONS);
          entries (bsd_entry data l parent tab) [0..<nparts]
        })
      }))"

definition probe_bsd_pt :: "idmag option \<Rightarrow> int prober" where
  "probe_bsd_pt mag =
     do {
       typeonly \<leftarrow> blkid_partitions_need_typeonly;
       if typeonly then ret BLKID_PROBE_NONE
       else case mag of
         None \<Rightarrow> do { fault (Undefined Null_Deref); ret BLKID_PROBE_NONE }
       | Some m \<Rightarrow> with_tail (int (BLKID_MAG_SECTOR m) * 512) 512 (probe_bsd_label m)
     }"

definition bsd_pt_idinfo :: idinfo where
  "bsd_pt_idinfo = \<lparr>ii_name = ''bsd'', ii_usage = 0, ii_flags = 0, ii_minsz = 0,
     ii_probefunc = Some probe_bsd_pt,
     ii_magics = map (\<lambda>off. magic_at 0 off [CHR 0x57, CHR 0x45, CHR 0x56, CHR 0x82]) [512, 64, 128]\<rparr>"

section \<open>Mac\<close>

definition mac_partition :: "(string \<times> nat) list" where
  "mac_partition = [(''signature'', 2), (''reserved'', 2), (''map_count'', 4), (''start_block'', 4),
     (''block_count'', 4), (''name'', 32), (''type'', 32), (''data_start'', 4), (''data_count'', 4), (''status'', 4),
     (''boot_start'', 4), (''boot_size'', 4), (''boot_load'', 4), (''boot_load2'', 4), (''boot_entry'', 4),
     (''boot_entry2'', 4), (''boot_cksum'', 4), (''processor'', 16)]"

definition mac_driver_desc :: "(string \<times> nat) list" where
  "mac_driver_desc = [(''signature'', 2), (''block_size'', 2), (''block_count'', 4)]"

definition MAC_PARTITION_MAGIC :: nat where "MAC_PARTITION_MAGIC = 0x504d"
definition MAC_PARTITION_MAGIC_OLD :: nat where "MAC_PARTITION_MAGIC_OLD = 0x5453"

text \<open>The block size comes from the disk; a small block is read beyond its end.\<close>

definition get_mac_block :: "nat \<Rightarrow> u32 \<Rightarrow> (string \<Rightarrow> int prober) \<Rightarrow> int prober" where
  "get_mac_block block_size num f = with_tail (int (unat num * block_size)) block_size f"

definition has_part_signature :: "string \<Rightarrow> bool prober" where
  "has_part_signature p =
     do { s \<leftarrow> bytes_from p 0 2; ret (be_value s \<in> {MAC_PARTITION_MAGIC, MAC_PARTITION_MAGIC_OLD}) }"

definition mac_num :: "string \<Rightarrow> string \<Rightarrow> u32 prober" where
  "mac_num p name = do { s \<leftarrow> bytes_from p (offset_of name mac_partition) 4; ret (of_nat (be_value s)) }"

definition mac_text :: "string \<Rightarrow> string \<Rightarrow> string prober" where
  "mac_text p name = bytes_from p (offset_of name mac_partition) 32"

text \<open>
  The counter has 32 bits, so with a \<open>map_count\<close> of all ones it comes round to block 0; that is
  the driver descriptor, whose signature ends the loop. The fuel covers all rounds up to there.
\<close>

fun mac_loop :: "nat \<Rightarrow> nat \<Rightarrow> u16 \<Rightarrow> nat \<Rightarrow> u32 \<Rightarrow> u32 \<Rightarrow> int prober" where
  "mac_loop 0 block_size ssf tab nblks i = do { fault Endless; ret BLKID_PROBE_NONE }"
| "mac_loop (Suc n) block_size ssf tab nblks i =
     (if i > nblks then ret BLKID_PROBE_OK
      else get_mac_block block_size i (\<lambda>p. do {
        sig \<leftarrow> has_part_signature p;
        if \<not> sig then ret BLKID_PROBE_NONE
        else do {
          start \<leftarrow> mac_num p ''start_block'';
          sz \<leftarrow> mac_num p ''block_count'';
          ok \<leftarrow> add_entry tab (uint (start * ucast ssf)) (uint (sz * ucast ssf)) (\<lambda>par. do {
            name \<leftarrow> mac_text p ''name'';
            blkid_partition_set_name par name;
            type \<leftarrow> mac_text p ''type'';
            blkid_partition_set_type_string par type;
            ret ()
          });
          if ok then mac_loop n block_size ssf tab nblks (i + 1) else ret (- ENOMEM)
        }
      }))"

definition MAC_FUEL :: nat where "MAC_FUEL = 2 ^ 32 + 1"

definition probe_mac_pt :: "idmag option \<Rightarrow> int prober" where
  "probe_mac_pt mag =
     with_sector 0 (\<lambda>md.
       let block_size = be_member mac_driver_desc ''block_size'' md in
       get_mac_block block_size 1 (\<lambda>p. do {
         sig \<leftarrow> has_part_signature p;
         if \<not> sig then ret BLKID_PROBE_NONE
         else typeonly_ok (with_partlist (with_parttable ''mac'' 0 (\<lambda>tab. do {
           nblks \<leftarrow> mac_num p ''map_count'';
           mac_loop MAC_FUEL block_size (of_nat (block_size div 512)) tab nblks 1
         })))
       }))"

definition mac_pt_idinfo :: idinfo where
  "mac_pt_idinfo = \<lparr>ii_name = ''mac'', ii_usage = 0, ii_flags = 0, ii_minsz = 0,
     ii_probefunc = Some probe_mac_pt, ii_magics = [magic_at 0 0 [CHR 0x45, CHR 0x52]]\<rparr>"

section \<open>DOS entries and Minix\<close>

definition dos_partition :: "(string \<times> nat) list" where
  "dos_partition = [(''boot_ind'', 1), (''bh'', 1), (''bs'', 1), (''bc'', 1), (''sys_ind'', 1), (''eh'', 1), (''es'', 1),
     (''ec'', 1), (''start_sect'', 4), (''nr_sects'', 4)]"

definition MBR_PT_OFFSET :: nat where "MBR_PT_OFFSET = 0x1be"
definition MBR_MINIX_PARTITION :: nat where "MBR_MINIX_PARTITION = 0x81"
definition MINIX_MAXPARTITIONS :: nat where "MINIX_MAXPARTITIONS = 4"

definition mbr_get_partition :: "string \<Rightarrow> nat \<Rightarrow> string" where
  "mbr_get_partition mbr i = take 16 (drop (MBR_PT_OFFSET + i * 16) mbr)"

definition dos_partition_get_start :: "string \<Rightarrow> u32" where
  "dos_partition_get_start p = of_nat (le_member dos_partition ''start_sect'' p)"

definition dos_partition_get_size :: "string \<Rightarrow> u32" where
  "dos_partition_get_size p = of_nat (le_member dos_partition ''nr_sects'' p)"

definition sys_ind :: "string \<Rightarrow> nat" where "sys_ind p = le_member dos_partition ''sys_ind'' p"
definition boot_ind :: "string \<Rightarrow> nat" where "boot_ind p = le_member dos_partition ''boot_ind'' p"

definition mbr_is_valid_magic :: "string \<Rightarrow> bool" where
  "mbr_is_valid_magic mbr \<longleftrightarrow> mbr ! 510 = CHR 0x55 \<and> mbr ! 511 = CHR 0xAA"

definition mbr_get_id :: "string \<Rightarrow> u32" where
  "mbr_get_id mbr = of_nat (le_at mbr 440 4)"

definition minix_entry :: "string \<Rightarrow> partref option \<Rightarrow> nat \<Rightarrow> nat \<Rightarrow> bool prober" where
  "minix_entry data parent tab i =
     (let p = mbr_get_partition data i;
          start = uint (dos_partition_get_start p); sz = uint (dos_partition_get_size p) in
      if sys_ind p \<noteq> MBR_MINIX_PARTITION then ret True
      else do {
        outside \<leftarrow> outside_parent parent start sz;
        if outside then ret True
        else add_entry tab start sz (type_and_flags (int (sys_ind p)) (boot_ind p))
      })"

definition probe_minix_pt :: "idmag option \<Rightarrow> int prober" where
  "probe_minix_pt mag =
     with_sector 0 (\<lambda>data. with_partlist (do {
       parent \<leftarrow> blkid_partlist_get_parent;
       case parent of
         None \<Rightarrow> ret BLKID_PROBE_NONE
       | Some r \<Rightarrow> do {
           par \<leftarrow> get_partition r;
           if pa_type par \<noteq> int MBR_MINIX_PARTITION then ret BLKID_PROBE_NONE
           else typeonly_ok (with_parttable ''minix'' (int MBR_PT_OFFSET) (\<lambda>tab.
             entries (minix_entry data parent tab) [0..<MINIX_MAXPARTITIONS]))
         }
     }))"

definition dos_magic :: idmag where
  "dos_magic = magic_at 0 510 [CHR 0x55, CHR 0xAA]"

definition minix_pt_idinfo :: idinfo where
  "minix_pt_idinfo = \<lparr>ii_name = ''minix'', ii_usage = 0, ii_flags = 0, ii_minsz = 0,
     ii_probefunc = Some probe_minix_pt, ii_magics = [dos_magic]\<rparr>"

section \<open>SGI\<close>

definition sgi_disklabel :: "(string \<times> nat) list" where
  "sgi_disklabel = [(''magic'', 4), (''root_part_num'', 2), (''swap_part_num'', 2), (''boot_file'', 16),
     (''devparam'', 48), (''volume'', 240), (''partitions'', 192), (''csum'', 4), (''padding'', 4)]"

definition sgi_partition :: "(string \<times> nat) list" where
  "sgi_partition = [(''num_blocks'', 4), (''first_block'', 4), (''type'', 4)]"

definition SGI_MAXPARTITIONS :: nat where "SGI_MAXPARTITIONS = 16"

fun sgi_sum :: "nat \<Rightarrow> string \<Rightarrow> u32 \<Rightarrow> u32" where
  "sgi_sum 0 label acc = acc"
| "sgi_sum (Suc i) label acc = sgi_sum i label (acc - of_nat (be_at label (i * 4) 4))"

definition sgi_pt_checksum :: "string \<Rightarrow> u32" where
  "sgi_pt_checksum label = sgi_sum (sizeof sgi_disklabel div 4) label 0"

definition sgi_entry :: "string \<Rightarrow> nat \<Rightarrow> nat \<Rightarrow> bool prober" where
  "sgi_entry l tab i =
     (let p = drop (offset_of ''partitions'' sgi_disklabel + i * sizeof sgi_partition) l;
          sz = be_member sgi_partition ''num_blocks'' p; start = be_member sgi_partition ''first_block'' p in
      if sz = 0 then skip_entry
      else add_entry tab (int start) (int sz) (\<lambda>par. do {
        blkid_partition_set_type par (to_int32 (int (be_member sgi_partition ''type'' p)));
        ret ()
      }))"

definition probe_sgi_pt :: "idmag option \<Rightarrow> int prober" where
  "probe_sgi_pt mag =
     with_sector 0 (\<lambda>l.
       if sgi_pt_checksum l \<noteq> 0 then ret BLKID_PROBE_NONE
       else typeonly_ok (with_partlist (with_parttable ''sgi'' 0 (\<lambda>tab.
         entries (sgi_entry l tab) [0..<SGI_MAXPARTITIONS]))))"

definition sgi_pt_idinfo :: idinfo where
  "sgi_pt_idinfo = \<lparr>ii_name = ''sgi'', ii_usage = 0, ii_flags = 0, ii_minsz = 0,
     ii_probefunc = Some probe_sgi_pt, ii_magics = [magic_at 0 0 [CHR 0x0B, CHR 0xE5, CHR 0xA9, CHR 0x41]]\<rparr>"

section \<open>Solaris\<close>

definition solaris_vtoc :: "(string \<times> nat) list" where
  "solaris_vtoc = [(''v_bootinfo'', 12), (''v_sanity'', 4), (''v_version'', 4), (''v_volume'', 8), (''v_sectorsz'', 2),
     (''v_nparts'', 2), (''v_reserved'', 40), (''v_slice'', 192), (''timestamp'', 64), (''v_asciilabel'', 128)]"

definition solaris_slice :: "(string \<times> nat) list" where
  "solaris_slice = [(''s_tag'', 2), (''s_flag'', 2), (''s_start'', 4), (''s_size'', 4)]"

definition SOLARIS_MAXPARTITIONS :: nat where "SOLARIS_MAXPARTITIONS = 16"
definition SOLARIS_SECTOR :: nat where "SOLARIS_SECTOR = 1"
definition SOLARIS_OFFSET :: nat where "SOLARIS_OFFSET = SOLARIS_SECTOR * 512"
definition SOLARIS_MAGICOFFSET :: nat where "SOLARIS_MAGICOFFSET = SOLARIS_OFFSET + 12"
definition SOLARIS_TAG_WHOLEDISK :: nat where "SOLARIS_TAG_WHOLEDISK = 5"

text \<open>The counter starts at 1 and the slices at 0, so the last slice is never looked at.\<close>

definition solaris_entry :: "string \<Rightarrow> partref option \<Rightarrow> nat \<Rightarrow> nat \<Rightarrow> bool prober" where
  "solaris_entry l parent tab i =
     (let p = drop (offset_of ''v_slice'' solaris_vtoc + (i - 1) * sizeof solaris_slice) l;
          tag = le_member solaris_slice ''s_tag'' p; sz = le_member solaris_slice ''s_size'' p in
      if sz = 0 \<or> tag = SOLARIS_TAG_WHOLEDISK then ret True
      else do {
        base \<leftarrow> (case parent of
          None \<Rightarrow> ret 0
        | Some r \<Rightarrow> do { par \<leftarrow> get_partition r; ret (pa_start par) });
        let start = (int (le_member solaris_slice ''s_start'' p) + base) mod 2 ^ 32;
        outside \<leftarrow> outside_parent parent start (int sz);
        if outside then ret True
        else add_entry tab start (int sz) (type_and_flags (int tag) (le_member solaris_slice ''s_flag'' p))
      })"

definition probe_solaris_pt :: "idmag option \<Rightarrow> int prober" where
  "probe_solaris_pt mag =
     with_sector SOLARIS_SECTOR (\<lambda>l.
       if le_member solaris_vtoc ''v_version'' l \<noteq> 1 then ret BLKID_PROBE_NONE
       else typeonly_ok (with_partlist (do {
         parent \<leftarrow> blkid_partlist_get_parent;
         with_parttable ''solaris'' (int SOLARIS_OFFSET) (\<lambda>tab.
           let nparts = min (le_member solaris_vtoc ''v_nparts'' l) SOLARIS_MAXPARTITIONS in
           entries (solaris_entry l parent tab) [1..<nparts])
       })))"

definition solaris_x86_pt_idinfo :: idinfo where
  "solaris_x86_pt_idinfo = \<lparr>ii_name = ''solaris'', ii_usage = 0, ii_flags = 0, ii_minsz = 0,
     ii_probefunc = Some probe_solaris_pt,
     ii_magics = [magic_at 0 SOLARIS_MAGICOFFSET [CHR 0xEE, CHR 0xDE, CHR 0x0D, CHR 0x60]]\<rparr>"

section \<open>Sun\<close>

definition sun_disklabel :: "(string \<times> nat) list" where
  "sun_disklabel = [(''label_id'', 128), (''vtoc.version'', 4), (''vtoc.volume_id'', 8), (''vtoc.nparts'', 2),
     (''vtoc.infos'', 32), (''vtoc.padding'', 2), (''vtoc.bootinfo'', 12), (''vtoc.sanity'', 4), (''vtoc.reserved'', 40),
     (''vtoc.timestamp'', 32), (''write_reinstruct'', 4), (''read_reinstruct'', 4), (''spare'', 148), (''rpm'', 2),
     (''pcyl'', 2), (''apc'', 2), (''obs1'', 2), (''obs2'', 2), (''intrlv'', 2), (''ncyl'', 2), (''acyl'', 2),
     (''nhead'', 2), (''nsect'', 2), (''obs3'', 2), (''obs4'', 2), (''partitions'', 64), (''magic'', 2), (''csum'', 2)]"

definition SUN_VTOC_SANITY :: nat where "SUN_VTOC_SANITY = 0x600DDEEE"
definition SUN_VTOC_VERSION :: nat where "SUN_VTOC_VERSION = 1"
definition SUN_MAXPARTITIONS :: nat where "SUN_MAXPARTITIONS = 8"
definition SUN_TAG_WHOLEDISK :: nat where "SUN_TAG_WHOLEDISK = 5"

fun sun_xor :: "nat \<Rightarrow> string \<Rightarrow> u16 \<Rightarrow> u16" where
  "sun_xor 0 label acc = acc"
| "sun_xor (Suc i) label acc = sun_xor i label (acc XOR of_nat (le_at label (i * 2) 2))"

definition sun_pt_checksum :: "string \<Rightarrow> u16" where
  "sun_pt_checksum label = sun_xor (sizeof sun_disklabel div 2) label 0"

definition sun_num :: "string \<Rightarrow> string \<Rightarrow> nat" where
  "sun_num l name = be_member sun_disklabel name l"

definition sun_use_vtoc :: "string \<Rightarrow> bool" where
  "sun_use_vtoc l \<longleftrightarrow> sun_num l ''vtoc.sanity'' = SUN_VTOC_SANITY \<and> sun_num l ''vtoc.version'' = SUN_VTOC_VERSION \<and>
     sun_num l ''vtoc.nparts'' \<le> SUN_MAXPARTITIONS"

definition sun_no_vtoc :: "string \<Rightarrow> bool" where
  "sun_no_vtoc l \<longleftrightarrow> sun_num l ''vtoc.sanity'' = 0 \<and> sun_num l ''vtoc.version'' = 0 \<and> sun_num l ''vtoc.nparts'' = 0"

definition sun_entry :: "string \<Rightarrow> int \<Rightarrow> bool \<Rightarrow> nat \<Rightarrow> nat \<Rightarrow> bool prober" where
  "sun_entry l spc use_vtoc tab i =
     (let p = offset_of ''partitions'' sun_disklabel + i * 8; info = offset_of ''vtoc.infos'' sun_disklabel + i * 4;
          start = int (be_at l p 4) * spc; sz = be_at l (p + 4) 4;
          type = (if use_vtoc then be_at l info 2 else 0); flags = (if use_vtoc then be_at l (info + 2) 2 else 0) in
      if type = SUN_TAG_WHOLEDISK \<or> sz = 0 then skip_entry
      else add_entry tab start (int sz) (\<lambda>par. do {
        (if type \<noteq> 0 then do { blkid_partition_set_type par (int type); ret () } else ret ());
        (if flags \<noteq> 0 then do { blkid_partition_set_flags par (of_nat flags); ret () } else ret ())
      }))"

text \<open>The sectors of a cylinder are multiplied as \<open>int\<close>s, so a product of 2^31 and more is undefined.\<close>

definition sun_spc :: "string \<Rightarrow> int prober" where
  "sun_spc l =
     (let n = int (sun_num l ''nhead'') * int (sun_num l ''nsect'') in
      if n < 2 ^ 31 then ret n else do { fault (Undefined Signed_Overflow); ret (to_int32 n) })"

definition probe_sun_pt :: "idmag option \<Rightarrow> int prober" where
  "probe_sun_pt mag =
     with_sector 0 (\<lambda>l.
       if sun_pt_checksum l \<noteq> 0 then ret BLKID_PROBE_NONE
       else typeonly_ok (with_partlist (with_parttable ''sun'' 0 (\<lambda>tab. do {
         spc \<leftarrow> sun_spc l;
         let nparts = (if sun_use_vtoc l then sun_num l ''vtoc.nparts'' else SUN_MAXPARTITIONS);
         entries (sun_entry l spc (sun_use_vtoc l \<or> sun_no_vtoc l) tab) [0..<nparts]
       }))))"

definition sun_pt_idinfo :: idinfo where
  "sun_pt_idinfo = \<lparr>ii_name = ''sun'', ii_usage = 0, ii_flags = 0, ii_minsz = 0,
     ii_probefunc = Some probe_sun_pt,
     ii_magics = [magic_at 0 (offset_of ''magic'' sun_disklabel) [CHR 0xDA, CHR 0xBE]]\<rparr>"

section \<open>Ultrix and UnixWare\<close>

definition ultrix_disklabel :: "(string \<times> nat) list" where
  "ultrix_disklabel = [(''pt_magic'', 4), (''pt_valid'', 4), (''pt_part'', 64)]"

definition ULTRIX_MAXPARTITIONS :: nat where "ULTRIX_MAXPARTITIONS = 8"
definition ULTRIX_MAGIC :: nat where "ULTRIX_MAGIC = 0x032957"
definition ULTRIX_MAGIC_STR :: string where "ULTRIX_MAGIC_STR = [CHR 0x02, CHR 0x29, CHR 0x57]"
definition ULTRIX_SECTOR :: nat where "ULTRIX_SECTOR = (16384 - sizeof ultrix_disklabel) div 512"
definition ULTRIX_OFFSET :: nat where "ULTRIX_OFFSET = 512 - sizeof ultrix_disklabel"

definition ultrix_entry :: "string \<Rightarrow> nat \<Rightarrow> nat \<Rightarrow> bool prober" where
  "ultrix_entry l tab i =
     (let nblocks = le_at l (8 + i * 8) 4; blkoff = le_at l (12 + i * 8) 4 in
      if nblocks = 0 then skip_entry
      else add_entry tab (int blkoff) (to_int32 (int nblocks)) (\<lambda>par. ret ()))"

definition probe_ultrix_pt :: "idmag option \<Rightarrow> int prober" where
  "probe_ultrix_pt mag =
     with_sector ULTRIX_SECTOR (\<lambda>data.
       let l = drop ULTRIX_OFFSET data in
       if le_member ultrix_disklabel ''pt_magic'' l \<noteq> ULTRIX_MAGIC \<or> le_member ultrix_disklabel ''pt_valid'' l \<noteq> 1
       then ret BLKID_PROBE_NONE
       else do {
         rc \<leftarrow> blkid_probe_set_magic (int (ULTRIX_SECTOR * 512 + ULTRIX_OFFSET)) ULTRIX_MAGIC_STR;
         if rc \<noteq> 0 then ret (- ENOMEM)
         else typeonly_ok (with_partlist (with_parttable ''ultrix'' 0 (\<lambda>tab.
           entries (ultrix_entry l tab) [0..<ULTRIX_MAXPARTITIONS])))
       })"

definition ultrix_pt_idinfo :: idinfo where
  "ultrix_pt_idinfo = \<lparr>ii_name = ''ultrix'', ii_usage = 0, ii_flags = 0, ii_minsz = 0,
     ii_probefunc = Some probe_ultrix_pt, ii_magics = []\<rparr>"

definition unixware_disklabel :: "(string \<times> nat) list" where
  "unixware_disklabel = [(''d_type'', 4), (''d_magic'', 4), (''d_version'', 4), (''d_serial'', 12), (''d_ncylinders'', 4),
     (''d_ntracks'', 4), (''d_nsectors'', 4), (''d_secsize'', 4), (''d_part_start'', 4), (''d_unknown1'', 48),
     (''d_alt_tbl'', 4), (''d_alt_len'', 4), (''d_phys_cyl'', 4), (''d_phys_trk'', 4), (''d_phys_sec'', 4),
     (''d_phys_bytes'', 4), (''d_unknown2'', 4), (''d_unknown3'', 4), (''d_pad'', 32), (''vtoc.v_magic'', 4),
     (''vtoc.v_version'', 4), (''vtoc.v_name'', 8), (''vtoc.v_nslices'', 2), (''vtoc.v_unknown1'', 2),
     (''vtoc.v_reserved'', 40), (''vtoc.v_slice'', 192)]"

definition unixware_partition :: "(string \<times> nat) list" where
  "unixware_partition = [(''s_label'', 2), (''s_flags'', 2), (''start_sect'', 4), (''nr_sects'', 4)]"

definition UNIXWARE_SECTOR :: nat where "UNIXWARE_SECTOR = 29"
definition UNIXWARE_OFFSET :: nat where "UNIXWARE_OFFSET = UNIXWARE_SECTOR * 512"
definition UNIXWARE_KBOFFSET :: nat where "UNIXWARE_KBOFFSET = UNIXWARE_OFFSET div 1024"
definition UNIXWARE_MAGICOFFSET :: nat where "UNIXWARE_MAGICOFFSET = UNIXWARE_OFFSET - UNIXWARE_KBOFFSET + 4"
definition UNIXWARE_VTOCMAGIC :: nat where "UNIXWARE_VTOCMAGIC = 0x600DDEEE"
definition UNIXWARE_MAXPARTITIONS :: nat where "UNIXWARE_MAXPARTITIONS = 16"
definition UNIXWARE_TAG_UNUSED :: nat where "UNIXWARE_TAG_UNUSED = 0"
definition UNIXWARE_TAG_ENTIRE_DISK :: nat where "UNIXWARE_TAG_ENTIRE_DISK = 5"
definition UNIXWARE_FLAG_VALID :: nat where "UNIXWARE_FLAG_VALID = 0x0200"

definition unixware_entry :: "string \<Rightarrow> partref option \<Rightarrow> nat \<Rightarrow> nat \<Rightarrow> bool prober" where
  "unixware_entry l parent tab i =
     (let p = drop (offset_of ''vtoc.v_slice'' unixware_disklabel + i * sizeof unixware_partition) l;
          tag = le_member unixware_partition ''s_label'' p; flg = le_member unixware_partition ''s_flags'' p;
          start = int (le_member unixware_partition ''start_sect'' p); sz = int (le_member unixware_partition ''nr_sects'' p) in
      if tag = UNIXWARE_TAG_UNUSED \<or> tag = UNIXWARE_TAG_ENTIRE_DISK \<or> flg \<noteq> UNIXWARE_FLAG_VALID then ret True
      else do {
        outside \<leftarrow> outside_parent parent start sz;
        if outside then ret True else add_entry tab start sz (type_and_flags (int tag) flg)
      })"

definition probe_unixware_pt :: "idmag option \<Rightarrow> int prober" where
  "probe_unixware_pt mag =
     with_sector UNIXWARE_SECTOR (\<lambda>l.
       if le_member unixware_disklabel ''vtoc.v_magic'' l \<noteq> UNIXWARE_VTOCMAGIC then ret BLKID_PROBE_NONE
       else typeonly_ok (with_partlist (do {
         parent \<leftarrow> blkid_partlist_get_parent;
         with_parttable ''unixware'' (int UNIXWARE_OFFSET) (\<lambda>tab.
           entries (unixware_entry l parent tab) [1..<UNIXWARE_MAXPARTITIONS])
       })))"

definition unixware_pt_idinfo :: idinfo where
  "unixware_pt_idinfo = \<lparr>ii_name = ''unixware'', ii_usage = 0, ii_flags = 0, ii_minsz = 1024 * 1440 + 1,
     ii_probefunc = Some probe_unixware_pt,
     ii_magics = [magic_at (int UNIXWARE_KBOFFSET) UNIXWARE_MAGICOFFSET [CHR 0x0D, CHR 0x60, CHR 0xE5, CHR 0xCA]]\<rparr>"

lemma label_sizes:
  "sizeof bsd_disklabel = 148" "sizeof_bsd_disklabel = 404" "sizeof mac_partition = 136" "sizeof dos_partition = 16"
  "sizeof sgi_disklabel = 512" "sizeof solaris_vtoc = 456" "sizeof sun_disklabel = 512" "sizeof ultrix_disklabel = 72"
  "sizeof unixware_disklabel = 408"
  by code_simp+

section \<open>What the functions keep\<close>

context part_inv
begin

lemma with_sector_keeps: "(\<And>s. keeps I (f s)) \<Longrightarrow> keeps I (with_sector n f)"
  unfolding with_sector_def by (intro part_rules)

lemma label_parts:
  "keeps I m \<Longrightarrow> keeps I (with_partlist m)" "keeps I m \<Longrightarrow> keeps I (typeonly_ok m)"
  "(\<And>t. keeps I (f t)) \<Longrightarrow> keeps I (with_parttable type offset f)"
  "keeps I skip_entry" "(\<And>p. keeps I (g p)) \<Longrightarrow> keeps I (add_entry tab start sz g)"
  "keeps I (type_and_flags ty flags par)" "keeps I (outside_parent parent start sz)" "keeps I (same_as_parent parent start sz)"
  unfolding with_partlist_def typeonly_ok_def with_parttable_def skip_entry_def add_entry_def type_and_flags_def
    outside_parent_def same_as_parent_def
  by (intro part_rules; simp)+

lemma entries_keep: "(\<And>i. keeps I (f i)) \<Longrightarrow> keeps I (entries f is)"
proof (induction "is")
  case (Cons i "is")
  then show ?case unfolding entries.simps by (intro part_rules) simp_all
qed (simp add: keeps_ret)

lemmas label_rules = with_sector_keeps label_parts entries_keep part_rules

lemma aix: "keeps I (probe_aix_pt mag)"
  unfolding probe_aix_pt_def by (intro label_rules)

lemma bsd: "keeps I (probe_bsd_pt mag)"
  unfolding probe_bsd_pt_def probe_bsd_label_def bsd_name_def bsd_entry_def Let_def by (intro label_rules)

lemma mac_blocks: "(\<And>s. keeps I (f s)) \<Longrightarrow> keeps I (get_mac_block b n f)" "keeps I (has_part_signature p)"
  "keeps I (mac_num p name)" "keeps I (mac_text p name)"
  unfolding get_mac_block_def has_part_signature_def mac_num_def mac_text_def by (intro label_rules; simp)+

lemma mac_entries: "keeps I (mac_loop n b ssf tab nblks i)"
proof (induction n arbitrary: i)
  case 0
  then show ?case unfolding mac_loop.simps by (intro label_rules endless)
next
  case (Suc n)
  show ?case unfolding mac_loop.simps by (intro label_rules mac_blocks Suc)
qed

lemma mac: "keeps I (probe_mac_pt mag)"
  unfolding probe_mac_pt_def Let_def by (intro label_rules mac_blocks mac_entries)

lemma minix: "keeps I (probe_minix_pt mag)"
  unfolding probe_minix_pt_def minix_entry_def Let_def by (intro label_rules)

lemma sgi: "keeps I (probe_sgi_pt mag)"
  unfolding probe_sgi_pt_def sgi_entry_def Let_def by (intro label_rules)

lemma solaris: "keeps I (probe_solaris_pt mag)"
  unfolding probe_solaris_pt_def solaris_entry_def Let_def by (intro label_rules)

lemma sun: "keeps I (probe_sun_pt mag)"
  unfolding probe_sun_pt_def sun_spc_def sun_entry_def Let_def by (intro label_rules)

lemma ultrix: "keeps I (probe_ultrix_pt mag)"
  unfolding probe_ultrix_pt_def ultrix_entry_def Let_def by (intro label_rules)

lemma unixware: "keeps I (probe_unixware_pt mag)"
  unfolding probe_unixware_pt_def unixware_entry_def Let_def by (intro label_rules)

lemmas labels = aix bsd mac minix sgi solaris sun ultrix unixware

end

end
