(* ===== verification/SbVolumes.thy ===== *)
theory SbVolumes
  imports SbTools Crc
begin

text \<open>
  The probing functions of src/lib/libblkid/src/superblocks for volumes and file systems that are
  protected by a checksum or by checks among their fields: LVM and the device mapper, xfs and
  its log, nilfs2, bcache, ocfs.
\<close>

text \<open>Unsigned members as the words they are.\<close>

definition le_word :: "(string \<times> nat) list \<Rightarrow> string \<Rightarrow> string \<Rightarrow> 'a :: len word" where
  "le_word layout name bytes = of_nat (le_member layout name bytes)"

definition be_word :: "(string \<times> nat) list \<Rightarrow> string \<Rightarrow> string \<Rightarrow> 'a :: len word" where
  "be_word layout name bytes = of_nat (be_member layout name bytes)"

section \<open>LVM\<close>

definition lvm2_pv_label_header :: "(string \<times> nat) list" where
  "lvm2_pv_label_header = [(''id'', 8), (''sector_xl'', 8), (''crc_xl'', 4), (''offset_xl'', 4),
     (''type'', 8), (''pv_uuid'', 32)]"

definition lvm1_pv_label_header :: "(string \<times> nat) list" where
  "lvm1_pv_label_header = [(''id'', 2), (''version'', 2), (''_notused'', 40), (''pv_uuid'', 128)]"

definition lvm2_crctab :: "u32 list" where
  "lvm2_crctab = [
     0x00000000, 0x1db71064, 0x3b6e20c8, 0x26d930ac,
     0x76dc4190, 0x6b6b51f4, 0x4db26158, 0x5005713c,
     0xedb88320, 0xf00f9344, 0xd6d6a3e8, 0xcb61b38c,
     0x9b64c2b0, 0x86d3d2d4, 0xa00ae278, 0xbdbdf21c]"

definition lvm2_nibble :: "u32 \<Rightarrow> u32" where
  "lvm2_nibble crc = drop_bit 4 crc XOR lvm2_crctab ! unat (crc AND 0xf)"

fun lvm2_crc_loop :: "u32 \<Rightarrow> string \<Rightarrow> u32" where
  "lvm2_crc_loop crc [] = crc"
| "lvm2_crc_loop crc (c # data) = lvm2_crc_loop (lvm2_nibble (lvm2_nibble (crc XOR of_char c))) data"

definition lvm2_calc_crc :: "string \<Rightarrow> u32" where
  "lvm2_calc_crc buf = lvm2_crc_loop 0xf597a6cf buf"

text \<open>The table by nibbles is another way to the checksum of crc32.c.\<close>

lemma lvm2_crctab_steps: "lvm2_crctab = map (crc32_step ^^ 4) (map of_nat [0..<16])"
proof -
  have four: "(crc32_step ^^ 4) x = crc32_step (crc32_step (crc32_step (crc32_step x)))" for x
    by (simp add: eval_nat_numeral)
  have "map of_nat [0..<16] = words_from 16 (0 :: u32)" using words_from_upt [of 16 0, where 'a = u32] by simp
  then show ?thesis by (simp add: lvm2_crctab_def words_from_numeral four crc32_step_def)
qed

lemma lvm2_nibble_steps: "lvm2_nibble x = (crc32_step ^^ 4) x"
proof -
  let ?low = "x AND 0xf" and ?high = "push_bit 4 (drop_bit 4 x)"
  have f: "(0xf :: u32) = mask 4" by (simp add: mask_eq_exp_minus_1)
  have split: "x = ?low XOR ?high"
    unfolding f by (rule bit_word_eqI) (auto simp: bit_simps)
  have "(crc32_step ^^ 4) ?high = drop_bit 4 ?high"
    by (rule crc32_steps_shift) (simp add: bit_push_bit_iff)
  moreover have "drop_bit 4 ?high = drop_bit 4 x"
    by (rule bit_word_eqI) (auto simp: bit_simps dest: bit_imp_le_length)
  moreover have "unat ?low < 16"
    using word_and_le1 [of x "0xf"] by (simp add: word_le_nat_alt)
  then have "lvm2_crctab ! unat ?low = (crc32_step ^^ 4) ?low" by (simp add: lvm2_crctab_steps)
  ultimately show ?thesis by (subst (2) split) (simp add: lvm2_nibble_def crc32_steps_xor ac_simps)
qed

lemma lvm2_calc_crc_eq: "lvm2_calc_crc buf = crc32 0xf597a6cf buf"
proof -
  have "lvm2_crc_loop crc buf = crc32_bits crc buf" for crc
    by (induction buf arbitrary: crc) (simp_all add: lvm2_nibble_steps flip: funpow_add [THEN fun_cong, unfolded o_apply])
  then show ?thesis by (simp add: lvm2_calc_crc_def crc32_bits_eq)
qed

text \<open>A dash before the characters of the bits of \<open>0x4444440\<close>.\<close>

fun format_lvm_chars :: "nat \<Rightarrow> string \<Rightarrow> string" where
  "format_lvm_chars i [] = []"
| "format_lvm_chars i (c # src) =
     (if bit (0x4444440 :: u32) i then [CHR ''-'', c] else [c]) @ format_lvm_chars (i + 1) src"

definition format_lvm_uuid :: "string \<Rightarrow> string" where
  "format_lvm_uuid src_uuid = format_lvm_chars 0 (take 32 src_uuid)"

definition probe_lvm2_label :: "idmag option \<Rightarrow> string \<Rightarrow> nat \<Rightarrow> int \<Rightarrow> int prober" where
  "probe_lvm2_label mag buf at sector =
     (let label = drop at buf; h = lvm2_pv_label_header in
      if int (le_member h ''sector_xl'' label) \<noteq> sector mod 2 ^ 32 then ret 1
      else do {
        area \<leftarrow> bytes_from label (offset_of ''offset_xl'' h) (512 - offset_of ''offset_xl'' h);
        ok \<leftarrow> blkid_probe_verify_csum (ucast (lvm2_calc_crc area)) (le_word h ''crc_xl'' label);
        if \<not> ok then ret 1
        else do {
          blkid_probe_sprintf_uuid (member h ''pv_uuid'' label) (cstr (format_lvm_uuid (member h ''pv_uuid'' label)));
          (case mag of
             Some g \<Rightarrow> blkid_probe_set_version (im_magic g)
           | None \<Rightarrow> do { fault (Undefined Null_Deref); ret 0 });
          blkid_probe_set_wiper 0 (8 * 1024);
          ret 0
        }
      })"

definition probe_lvm2 :: "idmag option \<Rightarrow> int prober" where
  "probe_lvm2 mag = with_sb_tail mag (512 + sizeof lvm2_pv_label_header) (\<lambda>buf.
     let sector = (case mag of Some g \<Rightarrow> im_kboff g * 2 | None \<Rightarrow> 0) in
     if take 8 buf = ''LABELONE'' then probe_lvm2_label mag buf 0 sector
     else if take 8 (drop 512 buf) = ''LABELONE'' then probe_lvm2_label mag buf 512 (sector + 1)
     else ret 1)"

definition probe_lvm1 :: "idmag option \<Rightarrow> int prober" where
  "probe_lvm1 mag = with_sb mag (sizeof lvm1_pv_label_header) (\<lambda>label.
     let version = le_member lvm1_pv_label_header ''version'' label;
         uuid = member lvm1_pv_label_header ''pv_uuid'' label in
     if version \<noteq> 1 \<and> version \<noteq> 2 then ret 1
     else do { blkid_probe_sprintf_uuid uuid (cstr (format_lvm_uuid uuid)); ret 0 })"

definition verity_sb :: "(string \<times> nat) list" where
  "verity_sb = [(''signature'', 8), (''version'', 4), (''hash_type'', 4), (''uuid'', 16), (''algorithm'', 32),
     (''data_block_size'', 4), (''hash_block_size'', 4), (''data_blocks'', 8), (''salt_size'', 2),
     (''_pad1'', 6), (''salt'', 256), (''_pad2'', 168)]"

definition probe_verity :: "idmag option \<Rightarrow> int prober" where
  "probe_verity mag = with_sb mag (sizeof verity_sb) (\<lambda>sb.
     let version = le_member verity_sb ''version'' sb in
     if version \<noteq> 1 then ret 1
     else do {
       blkid_probe_set_uuid (member verity_sb ''uuid'' sb);
       blkid_probe_sprintf_version (show_nat version);
       ret 0
     })"

definition lvm2_idinfo :: idinfo where
  "lvm2_idinfo = \<lparr>ii_name = ''LVM2_member'', ii_usage = BLKID_USAGE_RAID, ii_flags = 0, ii_minsz = 0,
     ii_probefunc = Some probe_lvm2,
     ii_magics = [magic_at 0 0x218 ''LVM2 001'', magic_at 0 0x018 ''LVM2 001'',
       magic_at 1 0x018 ''LVM2 001'', magic_at 1 0x218 ''LVM2 001'']\<rparr>"

definition lvm1_idinfo :: idinfo where
  "lvm1_idinfo = \<lparr>ii_name = ''LVM1_member'', ii_usage = BLKID_USAGE_RAID, ii_flags = 0, ii_minsz = 0,
     ii_probefunc = Some probe_lvm1, ii_magics = [magic_at 0 0 ''HM'']\<rparr>"

definition snapcow_idinfo :: idinfo where
  "snapcow_idinfo = \<lparr>ii_name = ''DM_snapshot_cow'', ii_usage = BLKID_USAGE_OTHER, ii_flags = 0, ii_minsz = 0,
     ii_probefunc = None, ii_magics = [magic_at 0 0 ''SnAp'']\<rparr>"

definition verity_hash_idinfo :: idinfo where
  "verity_hash_idinfo = \<lparr>ii_name = ''DM_verity_hash'', ii_usage = BLKID_USAGE_CRYPTO, ii_flags = 0,
     ii_minsz = 0, ii_probefunc = Some probe_verity, ii_magics = [magic_at 0 0 (''verity'' @ [NUL, NUL])]\<rparr>"

section \<open>XFS\<close>

definition xfs_super_block :: "(string \<times> nat) list" where
  "xfs_super_block = [(''sb_magicnum'', 4), (''sb_blocksize'', 4), (''sb_dblocks'', 8), (''sb_rblocks'', 8),
     (''sb_rextents'', 8), (''sb_uuid'', 16), (''sb_logstart'', 8), (''sb_rootino'', 8), (''sb_rbmino'', 8),
     (''sb_rsumino'', 8), (''sb_rextsize'', 4), (''sb_agblocks'', 4), (''sb_agcount'', 4),
     (''sb_rbmblocks'', 4), (''sb_logblocks'', 4), (''sb_versionnum'', 2), (''sb_sectsize'', 2),
     (''sb_inodesize'', 2), (''sb_inopblock'', 2), (''sb_fname'', 12), (''sb_blocklog'', 1),
     (''sb_sectlog'', 1), (''sb_inodelog'', 1), (''sb_inopblog'', 1), (''sb_agblklog'', 1),
     (''sb_rextslog'', 1), (''sb_inprogress'', 1), (''sb_imax_pct'', 1), (''sb_icount'', 8),
     (''sb_ifree'', 8), (''sb_fdblocks'', 8), (''sb_frextents'', 8)]"

text \<open>The fields that are checked, read big-endian as \<open>sb_from_disk\<close> does.\<close>

definition XFS_MAX_DBLOCKS :: "u32 \<Rightarrow> u32 \<Rightarrow> u64" where
  "XFS_MAX_DBLOCKS agcount agblocks = ucast agcount * ucast agblocks"

definition XFS_MIN_DBLOCKS :: "u32 \<Rightarrow> u32 \<Rightarrow> u64" where
  "XFS_MIN_DBLOCKS agcount agblocks = ucast (agcount - 1) * ucast agblocks + 64"

definition log_size_ok :: "nat \<Rightarrow> nat \<Rightarrow> nat \<Rightarrow> nat \<Rightarrow> bool" where
  "log_size_ok lo hi sz log \<longleftrightarrow> 2 ^ lo \<le> sz \<and> sz \<le> 2 ^ hi \<and> lo \<le> log \<and> log \<le> hi \<and> sz = 2 ^ log"

definition xfs_verify_sb :: "string \<Rightarrow> bool" where
  "xfs_verify_sb sb =
     (let f = (\<lambda>name. be_member xfs_super_block name sb);
          w = (\<lambda>name. be_word xfs_super_block name sb :: u32);
          dblocks = be_word xfs_super_block ''sb_dblocks'' sb :: u64;
          rt = w ''sb_rextsize'' * w ''sb_blocksize'' in
      f ''sb_agcount'' > 0 \<and>
      log_size_ok 9 15 (f ''sb_sectsize'') (f ''sb_sectlog'') \<and>
      log_size_ok 9 16 (f ''sb_blocksize'') (f ''sb_blocklog'') \<and>
      log_size_ok 8 11 (f ''sb_inodesize'') (f ''sb_inodelog'') \<and>
      int (f ''sb_blocklog'') - int (f ''sb_inodelog'') = int (f ''sb_inopblog'') \<and>
      rt \<le> 1024 * 1024 * 1024 \<and> rt \<ge> 4 * 1024 \<and>
      f ''sb_imax_pct'' \<le> 100 \<and> dblocks \<noteq> 0 \<and>
      dblocks \<le> XFS_MAX_DBLOCKS (w ''sb_agcount'') (w ''sb_agblocks'') \<and>
      dblocks \<ge> XFS_MIN_DBLOCKS (w ''sb_agcount'') (w ''sb_agblocks''))"

definition probe_xfs :: "idmag option \<Rightarrow> int prober" where
  "probe_xfs mag = with_sb mag (sizeof xfs_super_block) (\<lambda>xs.
     if \<not> xfs_verify_sb xs then ret 1
     else do {
       label_if_set (member xfs_super_block ''sb_fname'' xs);
       blkid_probe_set_uuid (member xfs_super_block ''sb_uuid'' xs);
       ret 0
     })"

definition xfs_idinfo :: idinfo where
  "xfs_idinfo = \<lparr>ii_name = ''xfs'', ii_usage = BLKID_USAGE_FILESYSTEM, ii_flags = 0, ii_minsz = 0,
     ii_probefunc = Some probe_xfs, ii_magics = [magic_at 0 0 ''XFSB'']\<rparr>"

definition xlog_rec_header :: "(string \<times> nat) list" where
  "xlog_rec_header = [(''h_magicno'', 4), (''h_dummy1'', 4), (''h_version'', 4), (''h_len'', 4),
     (''h_dummy2'', 284), (''h_fmt'', 4), (''h_uuid'', 16)]"

definition xlog_valid_rec_header :: "string \<Rightarrow> bool" where
  "xlog_valid_rec_header rhead =
     (let f = (\<lambda>name. be_member xlog_rec_header name rhead);
          version = be_word xlog_rec_header ''h_version'' rhead :: u32 in
      f ''h_magicno'' = 0xFEEDbabe \<and> version \<noteq> 0 \<and> version AND NOT 3 = 0 \<and>
      0 < f ''h_len'' \<and> f ''h_len'' \<le> 2147483647 \<and>
      (f ''h_fmt'' = 1 \<or> f ''h_fmt'' = 2 \<or> f ''h_fmt'' = 3))"

fun xfs_log_loop :: "nat \<Rightarrow> string \<Rightarrow> int prober" where
  "xfs_log_loop 0 buf = ret 1"
| "xfs_log_loop (Suc n) buf =
     (if xlog_valid_rec_header buf then do {
        blkid_probe_set_uuid_as (member xlog_rec_header ''h_uuid'' buf) (Some ''LOGUUID'');
        ret 0
      } else xfs_log_loop n (drop 512 buf))"

definition probe_xfs_log :: "idmag option \<Rightarrow> int prober" where
  "probe_xfs_log mag = with_buf 0 (256 * 1024) (\<lambda>buf.
     if take 4 buf = ''XFSB'' then ret 1 else xfs_log_loop 512 buf)"

definition xfs_log_idinfo :: idinfo where
  "xfs_log_idinfo = \<lparr>ii_name = ''xfs_external_log'', ii_usage = BLKID_USAGE_OTHER, ii_flags = 0,
     ii_minsz = 10 * 1024 * 1024, ii_probefunc = Some probe_xfs_log, ii_magics = []\<rparr>"

section \<open>nilfs2\<close>

definition nilfs_super_block :: "(string \<times> nat) list" where
  "nilfs_super_block = [(''s_rev_level'', 4), (''s_minor_rev_level'', 2), (''s_magic'', 2), (''s_bytes'', 2),
     (''s_flags'', 2), (''s_crc_seed'', 4), (''s_sum'', 4), (''s_log_block_size'', 4), (''s_nsegments'', 8),
     (''s_dev_size'', 8), (''s_first_data_block'', 8), (''s_blocks_per_segment'', 4),
     (''s_r_segments_percentage'', 4), (''s_last_cno'', 8), (''s_last_pseg'', 8), (''s_last_seq'', 8),
     (''s_free_blocks_count'', 8), (''s_ctime'', 8), (''s_mtime'', 8), (''s_wtime'', 8), (''s_mnt_count'', 2),
     (''s_max_mnt_count'', 2), (''s_state'', 2), (''s_errors'', 2), (''s_lastcheck'', 8),
     (''s_checkinterval'', 4), (''s_creator_os'', 4), (''s_def_resuid'', 2), (''s_def_resgid'', 2),
     (''s_first_ino'', 4), (''s_inode_size'', 2), (''s_dat_entry_size'', 2), (''s_checkpoint_size'', 2),
     (''s_segment_usage_size'', 2), (''s_uuid'', 16), (''s_volume_name'', 80), (''s_c_interval'', 4),
     (''s_c_block_max'', 4), (''s_reserved'', 768)]"

text \<open>
  The checksum covers \<open>s_bytes\<close> bytes with its own field taken as zeros. A count that does not
  reach behind the field wraps round to almost the whole address space.
\<close>

definition nilfs_valid_sb :: "string \<Rightarrow> bool prober" where
  "nilfs_valid_sb sb =
     (let f = (\<lambda>name. le_member nilfs_super_block name sb);
          sumoff = offset_of ''s_sum'' nilfs_super_block;
          rest = nat ((int (f ''s_bytes'') - int sumoff - 4) mod 2 ^ 32) in
      if f ''s_magic'' \<noteq> 0x3434 then ret False
      else if sumoff + 4 + rest > length sb then do { fault (Undefined Out_Of_Bounds); ret False }
      else
        let crc = crc32 (of_nat (f ''s_crc_seed'')) (take sumoff sb);
            crc = crc32 crc [NUL, NUL, NUL, NUL];
            crc = crc32 crc (take rest (drop (sumoff + 4) sb)) in
        blkid_probe_verify_csum (ucast crc) (of_nat (f ''s_sum'')))"

definition nilfs_report :: "string \<Rightarrow> int prober" where
  "nilfs_report sb =
     do {
       label_if_set (member nilfs_super_block ''s_volume_name'' sb);
       blkid_probe_set_uuid (member nilfs_super_block ''s_uuid'' sb);
       blkid_probe_sprintf_version (show_nat (le_member nilfs_super_block ''s_rev_level'' sb));
       ret 0
     }"

definition probe_nilfs2 :: "idmag option \<Rightarrow> int prober" where
  "probe_nilfs2 mag = do {
     backup \<leftarrow> gets (\<lambda>pr. last_sector pr 8);
     with_tail 0x400 (sizeof nilfs_super_block) (\<lambda>sbp.
       with_tail backup (sizeof nilfs_super_block) (\<lambda>sbb. do {
         valid0 \<leftarrow> nilfs_valid_sb sbp;
         valid1 \<leftarrow> nilfs_valid_sb sbb;
         if \<not> valid0 \<and> \<not> valid1 then ret 1
         else if valid1 \<and> (\<not> valid0 \<or> le_member nilfs_super_block ''s_last_cno'' sbp >
             le_member nilfs_super_block ''s_last_cno'' sbb)
         then nilfs_report sbb
         else nilfs_report sbp
       }))
   }"

definition nilfs2_idinfo :: idinfo where
  "nilfs2_idinfo = \<lparr>ii_name = ''nilfs2'', ii_usage = BLKID_USAGE_FILESYSTEM, ii_flags = 0,
     ii_minsz = 1024 * 1024, ii_probefunc = Some probe_nilfs2, ii_magics = []\<rparr>"

section \<open>bcache\<close>

definition bcache_magic :: string where
  "bcache_magic = [CHR 0xC6, CHR 0x85, CHR 0x73, CHR 0xF6, CHR 0x4E, CHR 0x1A, CHR 0x45, CHR 0xCA,
     CHR 0x82, CHR 0x65, CHR 0xF5, CHR 0x7F, CHR 0x48, CHR 0xBA, CHR 0x6D, CHR 0x81]"

definition bcache_super_block :: "(string \<times> nat) list" where
  "bcache_super_block = [(''csum'', 8), (''offset'', 8), (''version'', 8), (''magic'', 16), (''uuid'', 16),
     (''set_uuid'', 16), (''label'', 32), (''flags'', 8), (''seq'', 8), (''pad'', 64), (''nbuckets'', 8),
     (''block_size'', 2), (''bucket_size'', 2), (''nr_in_set'', 2), (''nr_this_dev'', 2),
     (''last_mount'', 4), (''first_bucket'', 2), (''keys'', 2), (''d'', 2048)]"

text \<open>The checksum ends behind the keys, whose number is not checked.\<close>

definition bcache_crc64 :: "string \<Rightarrow> 64 word prober" where
  "bcache_crc64 bcs =
     do {
       let end = offset_of ''d'' bcache_super_block + 8 * le_member bcache_super_block ''keys'' bcs;
       data \<leftarrow> bytes_from bcs 8 (end - 8);
       ret (crc64 0xFFFFFFFFFFFFFFFF data XOR 0xFFFFFFFFFFFFFFFF)
     }"

definition probe_bcache :: "idmag option \<Rightarrow> int prober" where
  "probe_bcache mag = with_sb_tail mag (sizeof bcache_super_block) (\<lambda>bcs.
     if le_member bcache_super_block ''offset'' bcs \<noteq> 0x1000 div 512 then ret BLKID_PROBE_NONE
     else do {
       csum \<leftarrow> bcache_crc64 bcs;
       ok \<leftarrow> blkid_probe_verify_csum csum (of_nat (le_member bcache_super_block ''csum'' bcs));
       if \<not> ok then ret BLKID_PROBE_NONE
       else do {
         rc \<leftarrow> blkid_probe_set_uuid (member bcache_super_block ''uuid'' bcs);
         if rc < 0 then ret BLKID_PROBE_NONE else ret BLKID_PROBE_OK
       }
     })"

definition bcache_idinfo :: idinfo where
  "bcache_idinfo = \<lparr>ii_name = ''bcache'', ii_usage = BLKID_USAGE_OTHER, ii_flags = 0, ii_minsz = 8192,
     ii_probefunc = Some probe_bcache,
     ii_magics = [magic_at 4 (offset_of ''magic'' bcache_super_block) bcache_magic]\<rparr>"

section \<open>Oracle cluster file systems\<close>

definition ocfs_volume_header :: "(string \<times> nat) list" where
  "ocfs_volume_header = [(''minor_version'', 4), (''major_version'', 4), (''signature'', 128), (''mount'', 128),
     (''mount_len'', 2)]"

definition ocfs_volume_label :: "(string \<times> nat) list" where
  "ocfs_volume_label = [(''disk_lock'', 48), (''label'', 64), (''label_len'', 2), (''vol_id'', 16),
     (''vol_id_len'', 2)]"

definition ocfs2_super_block :: "(string \<times> nat) list" where
  "ocfs2_super_block = [(''i_signature'', 8), (''i_generation'', 4), (''i_suballoc_slot'', 2),
     (''i_suballoc_bit'', 2), (''i_reserved0'', 4), (''i_clusters'', 4), (''i_uid'', 4), (''i_gid'', 4),
     (''i_size'', 8), (''i_mode'', 2), (''i_links_count'', 2), (''i_flags'', 4), (''i_atime'', 8),
     (''i_ctime'', 8), (''i_mtime'', 8), (''i_dtime'', 8), (''i_blkno'', 8), (''i_last_eb_blk'', 8),
     (''i_fs_generation'', 4), (''i_atime_nsec'', 4), (''i_ctime_nsec'', 4), (''i_mtime_nsec'', 4),
     (''i_reserved1'', 72), (''i_pad1'', 8), (''s_major_rev_level'', 2), (''s_minor_rev_level'', 2),
     (''s_mnt_count'', 2), (''s_max_mnt_count'', 2), (''s_state'', 2), (''s_errors'', 2),
     (''s_checkinterval'', 4), (''s_lastcheck'', 8), (''s_creator_os'', 4), (''s_feature_compat'', 4),
     (''s_feature_incompat'', 4), (''s_feature_ro_compat'', 4), (''s_root_blkno'', 8),
     (''s_system_dir_blkno'', 8), (''s_blocksize_bits'', 4), (''s_clustersize_bits'', 4),
     (''s_max_slots'', 2), (''s_reserved1'', 2), (''s_reserved2'', 4), (''s_first_cluster_group'', 8),
     (''s_label'', 64), (''s_uuid'', 16)]"

definition oracle_asm_disk_label :: "(string \<times> nat) list" where
  "oracle_asm_disk_label = [(''dummy'', 32), (''dl_tag'', 8), (''dl_id'', 24)]"

text \<open>
  The header and the label are copied to the stack, so that a length of the label above what
  follows it in its struct is read from behind the copy.
\<close>

definition ocfs_report :: "string \<Rightarrow> string \<Rightarrow> int prober" where
  "ocfs_report ovh ovl =
     (let maj = le_member ocfs_volume_header ''major_version'' ovh;
          min = le_member ocfs_volume_header ''minor_version'' ovh in
      do {
        (if maj = 1 then blkid_probe_set_value ''SEC_TYPE'' (c_bytes ''ocfs1'')
         else if maj \<ge> 9 then blkid_probe_set_value ''SEC_TYPE'' (c_bytes ''ntocfs'') else ret 0);
        label_at ovl (offset_of ''label'' ocfs_volume_label) (le_member ocfs_volume_label ''label_len'' ovl);
        blkid_probe_set_value ''MOUNT'' (take (le_member ocfs_volume_header ''mount_len'' ovh)
          (member ocfs_volume_header ''mount'' ovh));
        blkid_probe_set_uuid (member ocfs_volume_label ''vol_id'' ovl);
        blkid_probe_sprintf_version (show_nat maj @ ''.'' @ show_nat min);
        ret 0
      })"

definition probe_ocfs :: "idmag option \<Rightarrow> int prober" where
  "probe_ocfs mag = with_sb mag (sizeof ocfs_volume_header) (\<lambda>ovh.
     with_buf ((case mag of Some g \<Rightarrow> im_kboff g * 1024 | None \<Rightarrow> 0) + 512) (sizeof ocfs_volume_label) (\<lambda>ovl.
       ocfs_report ovh ovl))"

definition probe_ocfs2 :: "idmag option \<Rightarrow> int prober" where
  "probe_ocfs2 mag = with_sb mag (sizeof ocfs2_super_block) (\<lambda>osb. do {
     blkid_probe_set_label (member ocfs2_super_block ''s_label'' osb);
     blkid_probe_set_uuid (member ocfs2_super_block ''s_uuid'' osb);
     blkid_probe_sprintf_version (show_nat (le_member ocfs2_super_block ''s_major_rev_level'' osb) @ ''.'' @
       show_nat (le_member ocfs2_super_block ''s_minor_rev_level'' osb));
     ret 0
   })"

definition probe_oracleasm :: "idmag option \<Rightarrow> int prober" where
  "probe_oracleasm mag = with_sb mag (sizeof oracle_asm_disk_label) (\<lambda>dl. do {
     blkid_probe_set_label (member oracle_asm_disk_label ''dl_id'' dl);
     ret 0
   })"

definition ocfs_idinfo :: idinfo where
  "ocfs_idinfo = \<lparr>ii_name = ''ocfs'', ii_usage = BLKID_USAGE_FILESYSTEM, ii_flags = 0,
     ii_minsz = 14000 * 1024, ii_probefunc = Some probe_ocfs, ii_magics = [magic_at 8 0 ''OracleCFS'']\<rparr>"

definition ocfs2_idinfo :: idinfo where
  "ocfs2_idinfo = \<lparr>ii_name = ''ocfs2'', ii_usage = BLKID_USAGE_FILESYSTEM, ii_flags = 0,
     ii_minsz = 14000 * 1024, ii_probefunc = Some probe_ocfs2,
     ii_magics = [magic_at 1 0 ''OCFSV2'', magic_at 2 0 ''OCFSV2'', magic_at 4 0 ''OCFSV2'',
       magic_at 8 0 ''OCFSV2'']\<rparr>"

definition oracleasm_idinfo :: idinfo where
  "oracleasm_idinfo = \<lparr>ii_name = ''oracleasm'', ii_usage = BLKID_USAGE_FILESYSTEM, ii_flags = 0,
     ii_minsz = 0, ii_probefunc = Some probe_oracleasm, ii_magics = [magic_at 0 32 ''ORCLDISK'']\<rparr>"

section \<open>What the probing functions keep\<close>

context prober_inv
begin

lemma lvm2_label: "keeps I (probe_lvm2_label mag buf at sector)"
  unfolding probe_lvm2_label_def by (intro tool_rules)

lemma xfs_logs: "keeps I (xfs_log_loop n buf)"
  by (induction n arbitrary: buf) (auto intro!: tool_rules)

lemma nilfs_parts: "keeps I (nilfs_valid_sb sb)" "keeps I (nilfs_report sb)"
  unfolding nilfs_valid_sb_def nilfs_report_def by (intro tool_rules)+

lemma bcache_crc: "keeps I (bcache_crc64 bcs)"
  unfolding bcache_crc64_def by (intro tool_rules)

lemma ocfs_values: "keeps I (ocfs_report ovh ovl)"
  unfolding ocfs_report_def by (intro tool_rules; simp)

lemmas volume_rules = lvm2_label xfs_logs nilfs_parts bcache_crc ocfs_values tool_rules

lemma volumes:
  "keeps I (probe_lvm2 mag)" "keeps I (probe_lvm1 mag)" "keeps I (probe_verity mag)" "keeps I (probe_xfs mag)"
  "keeps I (probe_xfs_log mag)" "keeps I (probe_nilfs2 mag)" "keeps I (probe_bcache mag)"
  "keeps I (probe_ocfs mag)" "keeps I (probe_ocfs2 mag)" "keeps I (probe_oracleasm mag)"
  unfolding probe_lvm2_def probe_lvm1_def probe_verity_def probe_xfs_def probe_xfs_log_def probe_nilfs2_def
    probe_bcache_def probe_ocfs_def probe_ocfs2_def probe_oracleasm_def
  by (intro volume_rules; simp)+

end

lemma volumes_behave:
  "behaves probe_lvm2" "behaves probe_lvm1" "behaves probe_verity" "behaves probe_xfs" "behaves probe_xfs_log"
  "behaves probe_nilfs2" "behaves probe_bcache" "behaves probe_ocfs" "behaves probe_ocfs2"
  "behaves probe_oracleasm"
  by (rule behavesI, erule prober_inv.volumes)+

lemmas volume_idinfos = lvm2_idinfo_def lvm1_idinfo_def snapcow_idinfo_def verity_hash_idinfo_def
  xfs_idinfo_def xfs_log_idinfo_def nilfs2_idinfo_def bcache_idinfo_def ocfs_idinfo_def ocfs2_idinfo_def
  oracleasm_idinfo_def

lemma volume_layouts:
  "sizeof lvm2_pv_label_header = 64" "sizeof lvm1_pv_label_header = 172" "sizeof verity_sb = 512"
  "sizeof xlog_rec_header = 320" "sizeof nilfs_super_block = 1024" "offset_of ''s_sum'' nilfs_super_block = 16"
  "offset_of ''magic'' bcache_super_block = 24" "offset_of ''d'' bcache_super_block = 208"
  "offset_of ''s_label'' ocfs2_super_block = 272"
  by (simp_all add: sizeof_def lvm2_pv_label_header_def lvm1_pv_label_header_def verity_sb_def
      xlog_rec_header_def nilfs_super_block_def bcache_super_block_def ocfs2_super_block_def)

end
