(* ===== verification/Md5.thy ===== *)
theory Md5
  imports Bytes "HOL-Library.Word"
begin

unbundle bit_operations_syntax

text \<open>
  The digest of src/lib/libblkid/lib/md5.c, which libblkid takes of the names of HFS volumes.
  \<open>MD5Context\<close> is the struct of that name: four words of state, the number of bits as two words,
  and a block that is not complete. It is shown that feeding a message in pieces gives the
  digest of the message as a whole.
\<close>

type_synonym md5_state = "32 word \<times> 32 word \<times> 32 word \<times> 32 word"

record MD5Context =
  md_buf :: md5_state
  md_bits0 :: "32 word"
  md_bits1 :: "32 word"
  md_in :: string

section \<open>The transformation of a block\<close>

definition F1 :: "32 word \<Rightarrow> 32 word \<Rightarrow> 32 word \<Rightarrow> 32 word" where
  "F1 x y z = z XOR (x AND (y XOR z))"

definition F2 :: "32 word \<Rightarrow> 32 word \<Rightarrow> 32 word \<Rightarrow> 32 word" where
  "F2 x y z = F1 z x y"

definition F3 :: "32 word \<Rightarrow> 32 word \<Rightarrow> 32 word \<Rightarrow> 32 word" where
  "F3 x y z = x XOR y XOR z"

definition F4 :: "32 word \<Rightarrow> 32 word \<Rightarrow> 32 word \<Rightarrow> 32 word" where
  "F4 x y z = y XOR (x OR NOT z)"

definition MD5STEP :: "(32 word \<Rightarrow> 32 word \<Rightarrow> 32 word \<Rightarrow> 32 word) \<Rightarrow> 32 word \<Rightarrow> 32 word \<Rightarrow> 32 word \<Rightarrow>
    32 word \<Rightarrow> 32 word \<Rightarrow> nat \<Rightarrow> 32 word" where
  "MD5STEP f w x y z data s =
     (let w = w + (f x y z + data); w = push_bit s w OR drop_bit (32 - s) w in w + x)"

text \<open>
  The 64 steps: the function, the word of the block, the constant and the shift. From one step
  to the next the four variables change places.
\<close>

definition md5_steps :: "((32 word \<Rightarrow> 32 word \<Rightarrow> 32 word \<Rightarrow> 32 word) \<times> nat \<times> 32 word \<times> nat) list" where
  "md5_steps = [
     (F1, 0, 0xd76aa478, 7), (F1, 1, 0xe8c7b756, 12), (F1, 2, 0x242070db, 17), (F1, 3, 0xc1bdceee, 22),
     (F1, 4, 0xf57c0faf, 7), (F1, 5, 0x4787c62a, 12), (F1, 6, 0xa8304613, 17), (F1, 7, 0xfd469501, 22),
     (F1, 8, 0x698098d8, 7), (F1, 9, 0x8b44f7af, 12), (F1, 10, 0xffff5bb1, 17), (F1, 11, 0x895cd7be, 22),
     (F1, 12, 0x6b901122, 7), (F1, 13, 0xfd987193, 12), (F1, 14, 0xa679438e, 17), (F1, 15, 0x49b40821, 22),
     (F2, 1, 0xf61e2562, 5), (F2, 6, 0xc040b340, 9), (F2, 11, 0x265e5a51, 14), (F2, 0, 0xe9b6c7aa, 20),
     (F2, 5, 0xd62f105d, 5), (F2, 10, 0x02441453, 9), (F2, 15, 0xd8a1e681, 14), (F2, 4, 0xe7d3fbc8, 20),
     (F2, 9, 0x21e1cde6, 5), (F2, 14, 0xc33707d6, 9), (F2, 3, 0xf4d50d87, 14), (F2, 8, 0x455a14ed, 20),
     (F2, 13, 0xa9e3e905, 5), (F2, 2, 0xfcefa3f8, 9), (F2, 7, 0x676f02d9, 14), (F2, 12, 0x8d2a4c8a, 20),
     (F3, 5, 0xfffa3942, 4), (F3, 8, 0x8771f681, 11), (F3, 11, 0x6d9d6122, 16), (F3, 14, 0xfde5380c, 23),
     (F3, 1, 0xa4beea44, 4), (F3, 4, 0x4bdecfa9, 11), (F3, 7, 0xf6bb4b60, 16), (F3, 10, 0xbebfbc70, 23),
     (F3, 13, 0x289b7ec6, 4), (F3, 0, 0xeaa127fa, 11), (F3, 3, 0xd4ef3085, 16), (F3, 6, 0x04881d05, 23),
     (F3, 9, 0xd9d4d039, 4), (F3, 12, 0xe6db99e5, 11), (F3, 15, 0x1fa27cf8, 16), (F3, 2, 0xc4ac5665, 23),
     (F4, 0, 0xf4292244, 6), (F4, 7, 0x432aff97, 10), (F4, 14, 0xab9423a7, 15), (F4, 5, 0xfc93a039, 21),
     (F4, 12, 0x655b59c3, 6), (F4, 3, 0x8f0ccc92, 10), (F4, 10, 0xffeff47d, 15), (F4, 1, 0x85845dd1, 21),
     (F4, 8, 0x6fa87e4f, 6), (F4, 15, 0xfe2ce6e0, 10), (F4, 6, 0xa3014314, 15), (F4, 13, 0x4e0811a1, 21),
     (F4, 4, 0xf7537e82, 6), (F4, 11, 0xbd3af235, 10), (F4, 2, 0x2ad7d2bb, 15), (F4, 9, 0xeb86d391, 21)]"

fun md5_rounds :: "((32 word \<Rightarrow> 32 word \<Rightarrow> 32 word \<Rightarrow> 32 word) \<times> nat \<times> 32 word \<times> nat) list \<Rightarrow> 32 word list \<Rightarrow>
    md5_state \<Rightarrow> md5_state" where
  "md5_rounds [] ws st = st"
| "md5_rounds ((f, i, t, s) # steps) ws (a, b, c, d) =
     md5_rounds steps ws (d, MD5STEP f a b c d (ws ! i + t) s, b, c)"

definition MD5Transform :: "md5_state \<Rightarrow> 32 word list \<Rightarrow> md5_state" where
  "MD5Transform st ws =
     (case st of (a, b, c, d) \<Rightarrow>
        case md5_rounds md5_steps ws (a, b, c, d) of (a', b', c', d') \<Rightarrow> (a + a', b + b', c + c', d + d'))"

text \<open>The words of a block, \<open>(uint32_t *) ctx->in\<close>.\<close>

definition block_words :: "string \<Rightarrow> 32 word list" where
  "block_words block = map (\<lambda>i. of_nat (le_value (take 4 (drop (4 * i) block)))) [0..<16]"

section \<open>Init, update, final\<close>

definition md5_init :: md5_state where
  "md5_init = (0x67452301, 0xefcdab89, 0x98badcfe, 0x10325476)"

definition MD5Init :: "string \<Rightarrow> MD5Context" where
  "MD5Init fresh = \<lparr>md_buf = md5_init, md_bits0 = 0, md_bits1 = 0, md_in = fresh\<rparr>"

definition put_bytes :: "nat \<Rightarrow> string \<Rightarrow> string \<Rightarrow> string" where
  "put_bytes i bytes dest = take i dest @ bytes @ drop (i + length bytes) dest"

function md5_loop :: "md5_state \<Rightarrow> string \<Rightarrow> string \<Rightarrow> md5_state \<times> string" where
  "md5_loop st block buf =
     (if length buf \<ge> 64
      then md5_loop (MD5Transform st (block_words (take 64 buf))) (take 64 buf) (drop 64 buf)
      else (st, put_bytes 0 buf block))"
  by pat_completeness auto
termination by (relation "measure (\<lambda>(st, block, buf). length buf)") auto

declare md5_loop.simps [simp del]

definition MD5Update :: "MD5Context \<Rightarrow> string \<Rightarrow> MD5Context" where
  "MD5Update ctx buf =
     (let len = of_nat (length buf) :: 32 word;
          t = md_bits0 ctx;
          bits0 = t + push_bit 3 len;
          bits1 = (if bits0 < t then md_bits1 ctx + 1 else md_bits1 ctx) + drop_bit 29 len;
          ctx = ctx\<lparr>md_bits0 := bits0, md_bits1 := bits1\<rparr>;
          t = unat (drop_bit 3 t AND 0x3f) in
      if t \<noteq> 0 \<and> length buf < 64 - t then ctx\<lparr>md_in := put_bytes t buf (md_in ctx)\<rparr>
      else
        let (st, block, rest) =
              (if t \<noteq> 0 then
                 let block = put_bytes t (take (64 - t) buf) (md_in ctx) in
                 (MD5Transform (md_buf ctx) (block_words block), block, drop (64 - t) buf)
               else (md_buf ctx, md_in ctx, buf));
            (st, block) = md5_loop st block rest in
        ctx\<lparr>md_buf := st, md_in := block\<rparr>)"

definition state_bytes :: "md5_state \<Rightarrow> string" where
  "state_bytes st = (case st of (a, b, c, d) \<Rightarrow>
     le_bytes 4 (unat a) @ le_bytes 4 (unat b) @ le_bytes 4 (unat c) @ le_bytes 4 (unat d))"

definition MD5Final :: "MD5Context \<Rightarrow> string \<times> MD5Context" where
  "MD5Final ctx =
     (let count = unat (drop_bit 3 (md_bits0 ctx) AND 0x3F);
          block = put_bytes count [CHR 0x80] (md_in ctx);
          room = 64 - 1 - count;
          (st, block) =
            (if room < 8 then
               (let block = put_bytes (count + 1) (replicate room NUL) block in
                (MD5Transform (md_buf ctx) (block_words block), put_bytes 0 (replicate 56 NUL) block))
             else (md_buf ctx, put_bytes (count + 1) (replicate (room - 8) NUL) block));
          block = put_bytes 56 (le_bytes 4 (unat (md_bits0 ctx))) block;
          block = put_bytes 60 (le_bytes 4 (unat (md_bits1 ctx))) block in
      (state_bytes (MD5Transform st (block_words block)),
       \<lparr>md_buf = (0, 0, 0, 0), md_bits0 = 0, md_bits1 = 0, md_in = replicate 64 NUL\<rparr>))"

section \<open>The digest of a message\<close>

text \<open>
  The message is filled up with a bit, zeros and its length in bits to full blocks, and the
  blocks are transformed one after the other.
\<close>

function blocks64 :: "string \<Rightarrow> string list" where
  "blocks64 s = (if length s < 64 then [] else take 64 s # blocks64 (drop 64 s))"
  by pat_completeness auto
termination by (relation "measure length") auto

declare blocks64.simps [simp del]

definition absorb :: "md5_state \<Rightarrow> string \<Rightarrow> md5_state" where
  "absorb st s = foldl (\<lambda>st b. MD5Transform st (block_words b)) st (blocks64 s)"

definition md5_padding :: "nat \<Rightarrow> string" where
  "md5_padding n = CHR 0x80 # replicate (nat ((55 - int n) mod 64)) NUL @ le_bytes 8 (8 * n mod 2 ^ 64)"

definition md5_digest :: "string \<Rightarrow> string" where
  "md5_digest msg = state_bytes (absorb md5_init (msg @ md5_padding (length msg)))"

section \<open>In pieces or as a whole\<close>

lemma put_bytes_length [simp]: "i + length bytes \<le> length dest \<Longrightarrow> length (put_bytes i bytes dest) = length dest"
  by (simp add: put_bytes_def)

lemma take_put_bytes: "i \<le> length dest \<Longrightarrow> take (i + length bytes) (put_bytes i bytes dest) = take i dest @ bytes"
  by (simp add: put_bytes_def)

lemma blocks64_short: "length s < 64 \<Longrightarrow> blocks64 s = []"
  by (subst blocks64.simps) simp

lemma blocks64_block: "length b = 64 \<Longrightarrow> blocks64 (b @ s) = b # blocks64 s"
  by (subst blocks64.simps) simp

lemma absorb_short: "length s < 64 \<Longrightarrow> absorb st s = st"
  by (simp add: absorb_def blocks64_short)

lemma absorb_block: "length b = 64 \<Longrightarrow> absorb st (b @ s) = absorb (MD5Transform st (block_words b)) s"
  by (simp add: absorb_def blocks64_block)

lemma absorb_append: "64 dvd length a \<Longrightarrow> absorb st (a @ b) = absorb (absorb st a) b"
proof (induction a arbitrary: st rule: blocks64.induct)
  case (1 a)
  show ?case
  proof (cases "length a < 64")
    case True
    then have "a = []" using 1(2) by (auto dest: dvd_imp_le)
    then show ?thesis by (simp add: absorb_short)
  next
    case False
    let ?t = "take 64 a" and ?d = "drop 64 a"
    have d: "64 dvd length ?d" using 1(2) False by (simp add: dvd_diff_nat)
    have t: "length ?t = 64" using False by simp
    have "absorb st (a @ b) = absorb st (?t @ (?d @ b))" by (simp flip: append_assoc)
    also have "\<dots> = absorb (absorb (MD5Transform st (block_words ?t)) ?d) b"
      by (simp add: absorb_block [OF t] 1(1) [OF False d])
    also have "absorb (MD5Transform st (block_words ?t)) ?d = absorb st a"
      using absorb_block [OF t, of st ?d] by simp
    finally show ?thesis .
  qed
qed

lemma md5_loop_absorbs:
  "length block = 64 \<Longrightarrow> \<exists>block'. md5_loop st block buf = (absorb st buf, block') \<and> length block' = 64 \<and>
     take (length buf mod 64) block' = drop (length buf - length buf mod 64) buf"
proof (induction st block buf rule: md5_loop.induct)
  case (1 st block buf)
  show ?case
  proof (cases "length buf \<ge> 64")
    case False
    then have m: "length buf mod 64 = length buf" by simp
    have "md5_loop st block buf = (st, put_bytes 0 buf block)" using False by (subst md5_loop.simps) simp
    moreover have "take (length buf) (put_bytes 0 buf block) = buf" using take_put_bytes [of 0 block buf] by simp
    ultimately show ?thesis using False 1(2) by (simp add: m absorb_short)
  next
    case True
    let ?t = "take 64 buf" and ?d = "drop 64 buf"
    have l: "md5_loop st block buf = md5_loop (MD5Transform st (block_words ?t)) ?t ?d"
      using True by (subst md5_loop.simps) simp
    have a: "absorb st buf = absorb (MD5Transform st (block_words ?t)) ?d"
      using absorb_block [of ?t st ?d] True by simp
    have n: "(length buf - 64) mod 64 = length buf mod 64" using True by (simp add: le_mod_geq)
    have "length buf mod 64 \<le> length buf - 64" using n by (metis mod_less_eq_dividend)
    then have e: "length buf - (64 + length buf mod 64) + 64 = length buf - length buf mod 64"
      using True by linarith
    show ?thesis using 1(1) [OF True] True by (simp add: l a n e)
  qed
qed

text \<open>The count of bits, kept in two words.\<close>

definition bit_count :: "MD5Context \<Rightarrow> nat" where
  "bit_count ctx = unat (md_bits0 ctx) + 2 ^ 32 * unat (md_bits1 ctx)"

lemma two_words:
  fixes s t w :: nat
  assumes "0 < w"
  shows "s mod w + w * ((s div w + t) mod w) = (s + w * t) mod (w * w)"
proof -
  have "(s + w * t) mod (w * w) = w * ((s + w * t) div w mod w) + (s + w * t) mod w"
    by (rule mod_mult2_eq)
  then show ?thesis using assms by (simp add: add.commute)
qed

lemma carry_of_sum:
  fixes a x w :: nat
  assumes "a < w" and "x < w"
  shows "(if (a + x) mod w < a then 1 else 0) = (a + x) div w"
proof (cases "a + x < w")
  case False
  then have "(a + x) mod w = a + x - w" "(a + x) div w = 1"
    using assms by (simp_all add: mod_if div_nat_eqI)
  then show ?thesis using assms False by simp
qed simp

lemma carry_add:
  fixes lo hi :: "32 word"
  assumes "n < 2 ^ 32"
  defines "lo' \<equiv> lo + push_bit 3 (of_nat n)"
  shows "unat lo' + 2 ^ 32 * unat ((if lo' < lo then hi + 1 else hi) + drop_bit 29 (of_nat n)) =
    (unat lo + 2 ^ 32 * unat hi + 8 * n) mod 2 ^ 64"
proof -
  define w :: nat where "w = 2 ^ 32"
  define x where "x = 8 * n mod w"
  define y where "y = n div 2 ^ 29"
  have len: "LENGTH(32) = 32" by simp
  have "push_bit 3 (of_nat n) = (of_nat (8 * n) :: 32 word)" by (simp add: push_bit_eq_mult)
  then have p: "unat (push_bit 3 (of_nat n) :: 32 word) = x"
    by (simp only: unsigned_of_nat take_bit_eq_mod len x_def w_def of_nat_id)
  have n: "unat (of_nat n :: 32 word) = n"
    using assms(1) by (simp only: unsigned_of_nat take_bit_eq_mod len mod_less of_nat_id)
  have d: "unat (drop_bit 29 (of_nat n) :: 32 word) = y"
    by (simp only: unat_drop_bit_eq drop_bit_eq_div [where 'a = nat] n y_def)
  have split: "8 * n = x + w * y"
  proof -
    have "8 * n div w = y" by (simp add: w_def y_def)
    then show ?thesis by (metis mod_mult_div_eq x_def)
  qed
  have sum: "unat (a + b) = (unat a + unat b) mod w" for a b :: "32 word"
    by (simp only: unat_word_ariths len w_def)
  have bound: "unat lo < w" "x < w" using unsigned_less [of lo, where 'a = nat] by (simp_all add: w_def x_def)
  have lo: "unat lo' = (unat lo + x) mod w" unfolding lo'_def sum p ..
  have carry: "(if lo' < lo then 1 else 0) = (unat lo + x) div w"
    using carry_of_sum [OF bound] by (simp only: word_less_nat_alt lo)
  have "unat ((if lo' < lo then hi + 1 else hi) + drop_bit 29 (of_nat n)) =
      (unat hi + (if lo' < lo then 1 else 0) + y) mod w"
    by (simp add: sum d mod_add_left_eq)
  then have hi: "unat ((if lo' < lo then hi + 1 else hi) + drop_bit 29 (of_nat n)) =
      ((unat lo + x) div w + (unat hi + y)) mod w"
    unfolding carry by (simp only: ac_simps)
  have "unat lo' + w * unat ((if lo' < lo then hi + 1 else hi) + drop_bit 29 (of_nat n)) =
      (unat lo + x + w * (unat hi + y)) mod (w * w)"
    unfolding lo hi by (rule two_words) (simp add: w_def)
  also have "unat lo + x + w * (unat hi + y) = unat lo + w * unat hi + 8 * n"
    using split by (simp add: algebra_simps)
  also have "w * w = 2 ^ 64" by (simp add: w_def)
  finally show ?thesis by (simp only: w_def)
qed

lemma bytes_pending: "bit_count ctx = 8 * n mod 2 ^ 64 \<Longrightarrow> unat (drop_bit 3 (md_bits0 ctx) AND 0x3f) = n mod 64"
proof -
  assume c: "bit_count ctx = 8 * n mod 2 ^ 64"
  have m: "unat (w AND 0x3f) = unat w mod 64" for w :: "32 word"
  proof -
    have "(0x3f :: 32 word) = mask 6" by (simp add: mask_eq_exp_minus_1)
    then have "w AND 0x3f = take_bit 6 w" by (simp only: take_bit_eq_mask)
    then show ?thesis by (simp only: unsigned_take_bit_eq take_bit_eq_mod [where 'a = nat]) simp
  qed
  have div_mod: "u mod (8 * 64) div 8 = u div 8 mod 64" for u :: nat
    by (simp only: mod_mult2_eq)
  have "unat (md_bits0 ctx) mod 512 = bit_count ctx mod 512"
    by (simp add: bit_count_def mod_add_eq [symmetric] mod_mult_left_eq [symmetric])
  also have "\<dots> = 8 * n mod 512" unfolding c by (rule mod_mod_cancel) simp
  finally have "unat (md_bits0 ctx) mod (8 * 64) = 8 * n mod (8 * 64)" by simp
  then have "unat (md_bits0 ctx) div 8 mod 64 = 8 * n div 8 mod 64"
    by (simp only: div_mod [symmetric])
  then show ?thesis
    by (simp only: m unat_drop_bit_eq drop_bit_eq_div [where 'a = nat]) simp
qed

text \<open>
  A context has absorbed a message: the full blocks are in the state, the rest is in the block
  that is not complete, and the count of bits is that of the message.
\<close>

definition pending :: "md5_state \<Rightarrow> string \<Rightarrow> string \<Rightarrow> bool" where
  "pending st block msg \<longleftrightarrow> (\<exists>full rest. msg = full @ rest \<and> 64 dvd length full \<and> length rest < 64 \<and>
     length block = 64 \<and> st = absorb md5_init full \<and> take (length rest) block = rest)"

definition holds_message :: "MD5Context \<Rightarrow> string \<Rightarrow> bool" where
  "holds_message ctx msg \<longleftrightarrow>
     pending (md_buf ctx) (md_in ctx) msg \<and> bit_count ctx = 8 * length msg mod 2 ^ 64"

lemma pendingI: "64 dvd length full \<Longrightarrow> length rest < 64 \<Longrightarrow> length block = 64 \<Longrightarrow>
    st = absorb md5_init full \<Longrightarrow> take (length rest) block = rest \<Longrightarrow> pending st block (full @ rest)"
  by (auto simp: pending_def)

lemma init_holds: "length fresh = 64 \<Longrightarrow> holds_message (MD5Init fresh) []"
  by (simp add: holds_message_def pending_def MD5Init_def bit_count_def absorb_short)

lemma rest_length: "64 dvd length full \<Longrightarrow> length rest < 64 \<Longrightarrow> length (full @ rest) mod 64 = length rest"
  by (auto elim!: dvdE)

lemma pending_loop:
  assumes "64 dvd length full" and "length block = 64" and "md5_loop (absorb md5_init full) block buf = (st, block')"
  shows "pending st block' (full @ buf)"
proof -
  let ?r = "length buf mod 64"
  let ?a = "take (length buf - ?r) buf" and ?b = "drop (length buf - ?r) buf"
  have r: "?r \<le> length buf" "length ?b = ?r" by simp_all
  have a: "64 dvd length ?a" by (simp add: dvd_minus_mod)
  have l: "st = absorb (absorb md5_init full) buf" "length block' = 64" "take ?r block' = ?b"
    using md5_loop_absorbs [OF assms(2), of "absorb md5_init full" buf] assms(3) by auto
  have "absorb (absorb md5_init full) (?a @ ?b) = absorb (absorb (absorb md5_init full) ?a) ?b"
    by (rule absorb_append [OF a])
  also have "\<dots> = absorb md5_init (full @ ?a)" using absorb_append [OF assms(1)] by (simp add: absorb_short)
  finally have st: "st = absorb md5_init (full @ ?a)" using l(1) by simp
  have "pending st block' ((full @ ?a) @ ?b)"
  proof (rule pendingI)
    show "64 dvd length (full @ ?a)" unfolding length_append by (rule dvd_add [OF assms(1) a])
  qed (use l(2,3) st r(2) in simp_all)
  then show ?thesis by simp
qed

text \<open>The two ways through the body of \<open>MD5Update\<close>, with the bytes that are there already.\<close>

definition update_block :: "nat \<Rightarrow> md5_state \<Rightarrow> string \<Rightarrow> string \<Rightarrow> md5_state \<times> string" where
  "update_block t st block buf =
     (if t \<noteq> 0 \<and> length buf < 64 - t then (st, put_bytes t buf block)
      else if t \<noteq> 0 then
        let b = put_bytes t (take (64 - t) buf) block in
        md5_loop (MD5Transform st (block_words b)) b (drop (64 - t) buf)
      else md5_loop st block buf)"

lemma update_block_pending:
  assumes "pending st block msg" and "update_block (length msg mod 64) st block buf = (st', block')"
  shows "pending st' block' (msg @ buf)"
proof -
  from assms(1) obtain full rest where h: "msg = full @ rest" "64 dvd length full" "length rest < 64"
    "length block = 64" "st = absorb md5_init full" "take (length rest) block = rest"
    by (auto simp: pending_def)
  let ?t = "length rest"
  have u: "update_block ?t st block buf = (st', block')"
    using assms(2) rest_length [OF h(2,3)] h(1) by simp
  consider "?t \<noteq> 0" "length buf < 64 - ?t" | "?t \<noteq> 0" "64 - ?t \<le> length buf" | "?t = 0" by linarith
  then show ?thesis
  proof cases
    case 1
    then have e: "st' = st" "block' = put_bytes ?t buf block" using u by (simp_all add: update_block_def)
    have "take (length (rest @ buf)) block' = rest @ buf"
      using take_put_bytes [of ?t block buf] h(3,4,6) by (simp add: e)
    moreover have "length block' = 64" using 1 h(3,4) by (simp add: e)
    ultimately have "pending st' block' (full @ (rest @ buf))"
      using 1 h(2,5) e(1) by (intro pendingI) simp_all
    then show ?thesis by (simp add: h(1))
  next
    case 2
    let ?head = "take (64 - ?t) buf" and ?tail = "drop (64 - ?t) buf"
    have len: "length ?head = 64 - ?t" using 2 by simp
    have l: "length (put_bytes ?t ?head block) = 64" using h(3,4) len by simp
    have "take (?t + length ?head) (put_bytes ?t ?head block) = rest @ ?head"
      using take_put_bytes [of ?t block ?head] h(3,4,6) by simp
    then have b: "put_bytes ?t ?head block = rest @ ?head" using l len h(3) by simp
    have e: "length (rest @ ?head) = 64" using len h(3) by simp
    have "absorb md5_init (full @ (rest @ ?head)) = MD5Transform st (block_words (rest @ ?head))"
      using absorb_append [OF h(2)] absorb_block [OF e, of _ "[]"] h(5) by (simp add: absorb_short)
    then have "md5_loop (absorb md5_init (full @ rest @ ?head)) (rest @ ?head) ?tail = (st', block')"
      using u 2 by (simp add: update_block_def b Let_def)
    then have "pending st' block' ((full @ rest @ ?head) @ ?tail)"
      by (rule pending_loop [rotated 2]) (use h(2) e in simp_all)
    then show ?thesis by (simp add: h(1))
  next
    case 3
    then have "md5_loop (absorb md5_init full) block buf = (st', block')" using u h(5) by (simp add: update_block_def)
    then have "pending st' block' (full @ buf)" by (rule pending_loop [OF h(2,4)])
    then show ?thesis using 3 h(1) by simp
  qed
qed

lemma update_holds:
  assumes "holds_message ctx msg" and "length buf < 2 ^ 32"
  shows "holds_message (MD5Update ctx buf) (msg @ buf)"
proof -
  let ?len = "of_nat (length buf) :: 32 word"
  let ?lo = "md_bits0 ctx + push_bit 3 ?len"
  define hi where "hi = (if ?lo < md_bits0 ctx then md_bits1 ctx + 1 else md_bits1 ctx) + drop_bit 29 ?len"
  have c: "bit_count ctx = 8 * length msg mod 2 ^ 64" using assms(1) by (simp add: holds_message_def)
  have t: "unat (drop_bit 3 (md_bits0 ctx) AND 0x3f) = length msg mod 64" by (rule bytes_pending [OF c])
  obtain st block where u: "update_block (length msg mod 64) (md_buf ctx) (md_in ctx) buf = (st, block)"
    by (meson surj_pair)
  have run: "MD5Update ctx buf = ctx\<lparr>md_bits0 := ?lo, md_bits1 := hi, md_buf := st, md_in := block\<rparr>"
    using u by (simp add: MD5Update_def update_block_def Let_def t hi_def split_beta split: if_splits)
  have fields: "md_bits0 (MD5Update ctx buf) = ?lo" "md_bits1 (MD5Update ctx buf) = hi"
    by (simp_all add: run)
  have "unat ?lo + 2 ^ 32 * unat hi = (bit_count ctx + 8 * length buf) mod 2 ^ 64"
    unfolding hi_def carry_add [OF assms(2)] by (simp only: bit_count_def)
  also have "\<dots> = 8 * length (msg @ buf) mod 2 ^ 64"
    unfolding c by (simp only: mod_add_left_eq length_append distrib_left)
  finally have "bit_count (MD5Update ctx buf) = 8 * length (msg @ buf) mod 2 ^ 64"
    unfolding bit_count_def fields .
  moreover have "pending (md_buf (MD5Update ctx buf)) (md_in (MD5Update ctx buf)) (msg @ buf)"
    unfolding run using update_block_pending [OF _ u] assms(1) by (simp add: holds_message_def)
  ultimately show ?thesis by (simp only: holds_message_def)
qed

lemma put_next:
  assumes "take i block = p" and "length p = i" and "i + length b \<le> length block"
  shows "take (i + length b) (put_bytes i b block) = p @ b"
  using assms take_put_bytes [of i block b] by simp

lemma count_bytes: "le_bytes 8 (bit_count ctx) = le_bytes 4 (unat (md_bits0 ctx)) @ le_bytes 4 (unat (md_bits1 ctx))"
proof -
  let ?b = "le_bytes 4 (unat (md_bits0 ctx)) @ le_bytes 4 (unat (md_bits1 ctx))"
  have "unat w < 256 ^ 4" for w :: "32 word" using unsigned_less [of w, where 'a = nat] by simp
  then have "le_value ?b = bit_count ctx" by (simp add: le_value_append le_value_bytes bit_count_def)
  moreover have "length ?b = 8" by simp
  ultimately show ?thesis using le_bytes_value [of ?b] by simp
qed

lemma final_digest:
  assumes "holds_message ctx msg"
  shows "fst (MD5Final ctx) = md5_digest msg"
proof -
  from assms obtain full rest where h: "msg = full @ rest" "64 dvd length full" "length rest < 64"
    "length (md_in ctx) = 64" "md_buf ctx = absorb md5_init full" "take (length rest) (md_in ctx) = rest"
    "bit_count ctx = 8 * length msg mod 2 ^ 64"
    by (auto simp: holds_message_def pending_def)
  let ?r = "length rest" and ?lo = "le_bytes 4 (unat (md_bits0 ctx))" and ?hi = "le_bytes 4 (unat (md_bits1 ctx))"
  have r: "length msg mod 64 = ?r" using rest_length [OF h(2,3)] h(1) by simp
  have count: "unat (drop_bit 3 (md_bits0 ctx) AND 0x3F) = ?r" using bytes_pending [OF h(7)] r by simp
  let ?b0 = "put_bytes ?r [CHR 0x80] (md_in ctx)"
  have b0: "take (?r + 1) ?b0 = rest @ [CHR 0x80]" "length ?b0 = 64"
    using put_next [OF h(6) refl, of "[CHR 0x80]"] h(3,4) by simp_all
  have tail: "put_bytes 60 ?hi (put_bytes 56 ?lo b) = p @ ?lo @ ?hi"
    if p: "take 56 b = p" "length p = 56" "length b = 64" for b p
  proof -
    have "take 60 (put_bytes 56 ?lo b) = p @ ?lo" using put_next [OF p(1,2), of ?lo] p(3) by simp
    then have "take 64 (put_bytes 60 ?hi (put_bytes 56 ?lo b)) = (p @ ?lo) @ ?hi"
      using put_next [of 60 "put_bytes 56 ?lo b" "p @ ?lo" ?hi] p(2,3) by simp
    then show ?thesis using p(3) by simp
  qed
  have pad: "msg @ md5_padding (length msg) =
      full @ (rest @ CHR 0x80 # replicate (nat ((55 - int ?r) mod 64)) NUL @ ?lo @ ?hi)"
  proof -
    have "(55 - int (length msg)) mod 64 = (55 - int ?r) mod 64"
      using r by (metis mod_diff_right_eq of_nat_mod of_nat_numeral)
    then show ?thesis using h(1,7) by (simp add: md5_padding_def flip: count_bytes)
  qed
  have absorbed: "absorb md5_init (msg @ md5_padding (length msg)) =
      absorb (md_buf ctx) (rest @ CHR 0x80 # replicate (nat ((55 - int ?r) mod 64)) NUL @ ?lo @ ?hi)"
    unfolding pad h(5) by (rule absorb_append [OF h(2)])
  show ?thesis
  proof (cases "63 - ?r < 8")
    case True
    let ?z = "replicate (63 - ?r) NUL"
    have z: "take 64 (put_bytes (?r + 1) ?z ?b0) = rest @ [CHR 0x80] @ ?z"
      using put_next [OF b0(1), of ?z] b0(2) h(3) by simp
    then have b1: "put_bytes (?r + 1) ?z ?b0 = rest @ [CHR 0x80] @ ?z" using b0(2) h(3) by simp
    let ?b2 = "put_bytes 0 (replicate 56 NUL) (rest @ [CHR 0x80] @ ?z)"
    have b2: "take 56 ?b2 = replicate 56 NUL" "length ?b2 = 64"
      using put_next [of 0 "rest @ [CHR 0x80] @ ?z" "[]" "replicate 56 NUL"] h(3) by simp_all
    have n: "nat ((55 - int ?r) mod 64) = (63 - ?r) + 56"
    proof -
      have "(119 - int ?r) mod 64 = (55 - int ?r) mod 64"
        using mod_add_self2 [of "55 - int ?r" 64] by (simp only: add_diff_eq diff_add_eq) simp
      then show ?thesis using True h(3) by simp
    qed
    have zeros: "replicate (nat ((55 - int ?r) mod 64)) NUL = ?z @ replicate 56 NUL"
      unfolding n by (rule replicate_add)
    have "fst (MD5Final ctx) = state_bytes (MD5Transform (MD5Transform (md_buf ctx)
        (block_words (rest @ [CHR 0x80] @ ?z))) (block_words (replicate 56 NUL @ ?lo @ ?hi)))"
      using True b1 tail [OF b2(1) _ b2(2)] by (simp add: MD5Final_def Let_def count)
    moreover have "absorb (md_buf ctx) (rest @ CHR 0x80 # replicate (nat ((55 - int ?r) mod 64)) NUL @ ?lo @ ?hi) =
        MD5Transform (MD5Transform (md_buf ctx) (block_words (rest @ [CHR 0x80] @ ?z))) (block_words (replicate 56 NUL @ ?lo @ ?hi))"
      using absorb_block [of "rest @ [CHR 0x80] @ ?z" "md_buf ctx" "(replicate 56 NUL @ ?lo @ ?hi)"]
        absorb_block [of "replicate 56 NUL @ ?lo @ ?hi" _ "[]"] h(3)
      unfolding zeros by (simp add: absorb_short)
    ultimately show ?thesis by (simp only: md5_digest_def absorbed)
  next
    case False
    let ?z = "replicate (63 - ?r - 8) NUL"
    let ?b1 = "put_bytes (?r + 1) ?z ?b0"
    have b1: "take 56 ?b1 = rest @ [CHR 0x80] @ ?z" "length ?b1 = 64"
      using put_next [OF b0(1), of ?z] b0(2) h(3) False by simp_all
    have n: "nat ((55 - int ?r) mod 64) = 63 - ?r - 8" using False by simp
    have "fst (MD5Final ctx) = state_bytes (MD5Transform (md_buf ctx)
        (block_words ((rest @ [CHR 0x80] @ ?z) @ ?lo @ ?hi)))"
      using False tail [OF b1(1) _ b1(2)] h(3) by (simp add: MD5Final_def Let_def count)
    moreover have "absorb (md_buf ctx) (rest @ CHR 0x80 # replicate (nat ((55 - int ?r) mod 64)) NUL @ ?lo @ ?hi) =
        MD5Transform (md_buf ctx) (block_words ((rest @ [CHR 0x80] @ ?z) @ ?lo @ ?hi))"
      using absorb_block [of "(rest @ [CHR 0x80] @ ?z) @ ?lo @ ?hi" "md_buf ctx" "[]"] h(3) False
      unfolding n by (simp add: absorb_short)
    ultimately show ?thesis by (simp only: md5_digest_def absorbed)
  qed
qed

text \<open>C23. Feeding a message to \<open>MD5Update\<close> in pieces of any sizes and finishing gives the digest
  of the message: the same as padding it to full blocks first and transforming these one by
  one. The count of bits in two words carries right, and the bytes left over between the
  pieces are neither lost nor doubled.\<close>

theorem md5_in_pieces:
  assumes "length fresh = 64" and "\<forall>b \<in> set bufs. length b < 2 ^ 32"
  shows "fst (MD5Final (foldl MD5Update (MD5Init fresh) bufs)) = md5_digest (concat bufs)"
proof -
  have "holds_message ctx msg \<Longrightarrow> \<forall>b \<in> set bufs. length b < 2 ^ 32 \<Longrightarrow>
      holds_message (foldl MD5Update ctx bufs) (msg @ concat bufs)" for ctx msg
  proof (induction bufs arbitrary: ctx msg)
    case (Cons b bufs)
    then show ?case using update_holds [of ctx msg b] Cons.IH [of "MD5Update ctx b" "msg @ b"] by simp
  qed simp
  then show ?thesis using final_digest [of _ "concat bufs"] init_holds [OF assms(1)] assms(2)
    by (metis append_Nil)
qed

theorem md5_in_pieces_witness:
  "fst (MD5Final (foldl MD5Update (MD5Init (replicate 64 NUL)) [''ab'', ''c''])) = md5_digest ''abc''"
  using md5_in_pieces [of "replicate 64 NUL" "[''ab'', ''c'']"] by simp

end
