(* ===== verification/SbFat.thy ===== *)
theory SbFat
  imports SbVolumes SbFs Md5
begin

text \<open>
  The probing functions of src/lib/libblkid/src/superblocks that follow structures on the device to
  find a label: vfat through its allocation table and root directory, ntfs through its master
  file table, hfs and hfsplus through the catalog.
\<close>

section \<open>FAT\<close>

definition vfat_super_block :: "(string \<times> nat) list" where
  "vfat_super_block = [(''vs_ignored'', 3), (''vs_sysid'', 8), (''vs_sector_size'', 2), (''vs_cluster_size'', 1),
     (''vs_reserved'', 2), (''vs_fats'', 1), (''vs_dir_entries'', 2), (''vs_sectors'', 2), (''vs_media'', 1),
     (''vs_fat_length'', 2), (''vs_secs_track'', 2), (''vs_heads'', 2), (''vs_hidden'', 4),
     (''vs_total_sect'', 4), (''vs_fat32_length'', 4), (''vs_flags'', 2), (''vs_version'', 2),
     (''vs_root_cluster'', 4), (''vs_fsinfo_sector'', 2), (''vs_backup_boot'', 2), (''vs_reserved2'', 12),
     (''vs_unknown'', 3), (''vs_serno'', 4), (''vs_label'', 11), (''vs_magic'', 8),
     (''vs_dummy2'', 0x1fe - 0x5a), (''vs_pmagic'', 2)]"

definition msdos_super_block :: "(string \<times> nat) list" where
  "msdos_super_block = [(''ms_ignored'', 3), (''ms_sysid'', 8), (''ms_sector_size'', 2),
     (''ms_cluster_size'', 1), (''ms_reserved'', 2), (''ms_fats'', 1), (''ms_dir_entries'', 2),
     (''ms_sectors'', 2), (''ms_media'', 1), (''ms_fat_length'', 2), (''ms_secs_track'', 2),
     (''ms_heads'', 2), (''ms_hidden'', 4), (''ms_total_sect'', 4), (''ms_unknown'', 3), (''ms_serno'', 4),
     (''ms_label'', 11), (''ms_magic'', 8), (''ms_dummy2'', 0x1fe - 0x3e), (''ms_pmagic'', 2)]"

definition vfat_dir_entry :: "(string \<times> nat) list" where
  "vfat_dir_entry = [(''name'', 11), (''attr'', 1), (''time_creat'', 2), (''date_creat'', 2), (''time_acc'', 2),
     (''date_acc'', 2), (''cluster_high'', 2), (''time_write'', 2), (''date_write'', 2),
     (''cluster_low'', 2), (''size'', 4)]"

definition fat32_fsinfo :: "(string \<times> nat) list" where
  "fat32_fsinfo = [(''signature1'', 4), (''reserved1'', 480), (''signature2'', 4), (''free_clusters'', 4),
     (''next_cluster'', 4), (''reserved2'', 16)]"

definition FAT12_MAX :: u32 where "FAT12_MAX = 0xFF4"
definition FAT16_MAX :: u32 where "FAT16_MAX = 0xFFF4"
definition FAT32_MAX :: u32 where "FAT32_MAX = 0x0FFFFFF6"

definition no_name :: string where "no_name = ''NO NAME    ''"

definition is_power_of_2 :: "u32 \<Rightarrow> bool" where
  "is_power_of_2 num \<longleftrightarrow> num \<noteq> 0 \<and> num AND (num - 1) = 0"

text \<open>What the search does with one entry of a directory.\<close>

definition is_fat_label :: "string \<Rightarrow> bool" where
  "is_fat_label ent =
     (let attr = le_word vfat_dir_entry ''attr'' ent :: u32 in
      \<not> (ent ! 0 = CHR 0xE5 \<or> le_member vfat_dir_entry ''cluster_high'' ent \<noteq> 0 \<or>
          le_member vfat_dir_entry ''cluster_low'' ent \<noteq> 0 \<or> attr AND 0x3f = 0x0f) \<and>
      attr AND (0x08 OR 0x10) = 0x08)"

fun fat_label_in :: "nat \<Rightarrow> string \<Rightarrow> string option" where
  "fat_label_in 0 dir = None"
| "fat_label_in (Suc n) dir =
     (let ent = take 32 dir in
      if ent ! 0 = NUL then None
      else if is_fat_label ent then Some (take 11 ent)
      else fat_label_in n (drop 32 dir))"

text \<open>On tiny disks every entry is read on its own; \<open>i\<close> is the number of the next one.\<close>

fun fat_label_tiny :: "nat \<Rightarrow> nat \<Rightarrow> int \<Rightarrow> string option prober" where
  "fat_label_tiny 0 i off = ret None"
| "fat_label_tiny (Suc n) i off =
     do {
       b \<leftarrow> blkid_probe_get_buffer (off + int (i * 32)) 32;
       case b of
         NoBuf e \<Rightarrow> ret None
       | Buf ent \<Rightarrow>
           if ent ! 0 = NUL then ret None
           else if is_fat_label ent then ret (Some (take 11 ent))
           else fat_label_tiny n (i + 1) off
     }"

definition search_fat_label :: "int \<Rightarrow> nat \<Rightarrow> string option prober" where
  "search_fat_label off entries =
     do {
       pr \<leftarrow> gets id;
       if blkid_probe_is_tiny pr then fat_label_tiny entries 0 off
       else do {
         b \<leftarrow> blkid_probe_get_buffer off (int entries * 32);
         case b of NoBuf e \<Rightarrow> ret None | Buf dir \<Rightarrow> ret (fat_label_in entries dir)
       }
     }"

text \<open>The number of clusters and the size of the tables, when the superblock is one of a FAT.\<close>

definition fat_valid_superblock :: "idmag \<Rightarrow> string \<Rightarrow> string \<Rightarrow> (u32 \<times> u32) option" where
  "fat_valid_superblock mag ms vs =
     (let m = (\<lambda>name. le_word msdos_super_block name ms :: u32);
          sector_size = m ''ms_sector_size'';
          sect_count = (if m ''ms_sectors'' = 0 then m ''ms_total_sect'' else m ''ms_sectors'');
          fat32_length = le_word vfat_super_block ''vs_fat32_length'' vs;
          fat_length = (if m ''ms_fat_length'' = 0 then fat32_length else m ''ms_fat_length'');
          fat_size = fat_length * m ''ms_fats'';
          dir_size = (m ''ms_dir_entries'' * 32 + (sector_size - 1)) div sector_size;
          cluster_count = (sect_count - (m ''ms_reserved'' + fat_size + dir_size)) div m ''ms_cluster_size'';
          max_count = (if m ''ms_fat_length'' = 0 \<and> fat32_length \<noteq> 0 then FAT32_MAX
                       else if cluster_count > FAT12_MAX then FAT16_MAX else FAT12_MAX) in
      if length (im_magic mag) \<le> 2 \<and> (member msdos_super_block ''ms_pmagic'' ms \<noteq> [CHR 0x55, CHR 0xAA] \<or>
          member msdos_super_block ''ms_magic'' ms \<in> {''JFS     '', ''HPFS    ''}) then None
      else if m ''ms_fats'' = 0 \<or> m ''ms_reserved'' = 0 then None
      else if \<not> (0xf8 \<le> m ''ms_media'' \<or> m ''ms_media'' = 0xf0) then None
      else if \<not> is_power_of_2 (m ''ms_cluster_size'') then None
      else if \<not> is_power_of_2 sector_size \<or> sector_size < 512 \<or> sector_size > 4096 then None
      else if cluster_count > max_count then None
      else Some (cluster_count, fat_size))"

text \<open>Used by the parser of the MBR, which must not take a FAT for a table of partitions.\<close>

definition vfat_magics :: "idmag list" where
  "vfat_magics = [magic_at 0 0x52 ''MSWIN'', magic_at 0 0x52 ''FAT32   '', magic_at 0 0x36 ''MSDOS'',
     magic_at 0 0x36 ''FAT16   '', magic_at 0 0x36 ''FAT12   '', magic_at 0 0x36 ''FAT     '',
     magic_at 0 0 [CHR 0xEB], magic_at 0 0 [CHR 0xE9], magic_at 0 0x1fe [CHR 0x55, CHR 0xAA]]"

text \<open>
  The chain of clusters of a FAT32 root directory, at most 99 of them. The result is the label.
\<close>

fun fat32_loop :: "nat \<Rightarrow> (u32 \<Rightarrow> int) \<Rightarrow> (u32 \<Rightarrow> int) \<Rightarrow> u32 \<Rightarrow> u32 \<Rightarrow> u32 \<Rightarrow> string option prober" where
  "fat32_loop 0 dir_off fat_off buf_size entries next = ret None"
| "fat32_loop (Suc maxloop) dir_off fat_off buf_size entries next =
     (if next = 0 \<or> next \<ge> entries \<or> maxloop = 0 then ret None
      else do {
        l \<leftarrow> search_fat_label (dir_off next) (unat (buf_size div 32));
        case l of
          Some label \<Rightarrow> ret (Some label)
        | None \<Rightarrow> do {
            b \<leftarrow> blkid_probe_get_buffer (fat_off next) (uint buf_size);
            case b of
              NoBuf e \<Rightarrow> ret None
            | Buf s \<Rightarrow> fat32_loop maxloop dir_off fat_off buf_size entries
                (of_nat (le_value (take 4 s)) AND 0x0fffffff)
          }
      })"

definition fat_report :: "string \<Rightarrow> string \<Rightarrow> string option \<Rightarrow> int prober" where
  "fat_report label serno version =
     do {
       (if label \<noteq> no_name then blkid_probe_set_label label else ret 0);
       blkid_probe_sprintf_uuid serno (serial_text serno);
       (case version of Some v \<Rightarrow> blkid_probe_set_version v | None \<Rightarrow> ret 0);
       ret 0
     }"

definition probe_fat16 :: "u32 \<Rightarrow> u32 \<Rightarrow> string \<Rightarrow> string \<Rightarrow> int prober" where
  "probe_fat16 cluster_count fat_size ms vs =
     (let sector_size = le_word msdos_super_block ''ms_sector_size'' ms :: u32;
          reserved = le_word msdos_super_block ''ms_reserved'' ms;
          root_start = (reserved + fat_size) * sector_size in
      do {
        l \<leftarrow> search_fat_label (uint root_start) (le_member vfat_super_block ''vs_dir_entries'' vs);
        let label = (case l of Some n \<Rightarrow> if n = no_name then member msdos_super_block ''ms_label'' ms else n
                     | None \<Rightarrow> member msdos_super_block ''ms_label'' ms);
        blkid_probe_set_value ''SEC_TYPE'' (c_bytes ''msdos'');
        fat_report label (member msdos_super_block ''ms_serno'' ms)
          (if cluster_count < FAT12_MAX then Some ''FAT12''
           else if cluster_count < FAT16_MAX then Some ''FAT16'' else None)
      })"

definition fsinfo_ok :: "string \<Rightarrow> bool" where
  "fsinfo_ok fsinfo \<longleftrightarrow>
     member fat32_fsinfo ''signature1'' fsinfo \<in>
       {[CHR 0x52, CHR 0x52, CHR 0x61, CHR 0x41], [CHR 0x52, CHR 0x52, CHR 0x64, CHR 0x41], [NUL, NUL, NUL, NUL]} \<and>
     member fat32_fsinfo ''signature2'' fsinfo \<in> {[CHR 0x72, CHR 0x72, CHR 0x41, CHR 0x61], [NUL, NUL, NUL, NUL]}"

definition probe_fat32 :: "u32 \<Rightarrow> string \<Rightarrow> string \<Rightarrow> int prober" where
  "probe_fat32 fat_size ms vs =
     (let sector_size = le_word msdos_super_block ''ms_sector_size'' ms :: u32;
          reserved = le_word msdos_super_block ''ms_reserved'' ms :: u32;
          v = (\<lambda>name. le_word vfat_super_block name vs :: u32);
          buf_size = v ''vs_cluster_size'' * sector_size;
          start_data_sect = reserved + fat_size;
          entries = v ''vs_fat32_length'' * sector_size div 4;
          dir_off = (\<lambda>next. uint (start_data_sect + (next - 2) * v ''vs_cluster_size'') * uint sector_size);
          fat_off = (\<lambda>next. uint reserved * uint sector_size + uint (next * 4));
          serno = member vfat_super_block ''vs_serno'' vs;
          fsinfo_sect = le_member vfat_super_block ''vs_fsinfo_sector'' vs in
      do {
        l \<leftarrow> fat32_loop 100 dir_off fat_off buf_size entries (v ''vs_root_cluster'');
        let label = (case l of Some n \<Rightarrow> if n = no_name then member vfat_super_block ''vs_label'' vs else n
                     | None \<Rightarrow> member vfat_super_block ''vs_label'' vs);
        if fsinfo_sect = 0 then fat_report label serno (Some ''FAT32'')
        else with_buf (int fsinfo_sect * uint sector_size) (sizeof fat32_fsinfo) (\<lambda>fsinfo.
          if \<not> fsinfo_ok fsinfo then ret 1 else fat_report label serno (Some ''FAT32''))
      })"

definition probe_vfat :: "idmag option \<Rightarrow> int prober" where
  "probe_vfat mag = with_sb mag (sizeof msdos_super_block) (\<lambda>ms.
     with_sb mag (sizeof vfat_super_block) (\<lambda>vs.
       case mag of
         None \<Rightarrow> ret 1
       | Some g \<Rightarrow>
           case fat_valid_superblock g ms vs of
             None \<Rightarrow> ret 1
           | Some (cluster_count, fat_size) \<Rightarrow>
               if le_member msdos_super_block ''ms_fat_length'' ms \<noteq> 0 then probe_fat16 cluster_count fat_size ms vs
               else if le_member vfat_super_block ''vs_fat32_length'' vs \<noteq> 0 then probe_fat32 fat_size ms vs
               else ret 0))"

definition vfat_idinfo :: idinfo where
  "vfat_idinfo = \<lparr>ii_name = ''vfat'', ii_usage = BLKID_USAGE_FILESYSTEM, ii_flags = 0, ii_minsz = 0,
     ii_probefunc = Some probe_vfat, ii_magics = vfat_magics\<rparr>"

definition blkid_probe_is_vfat :: "int prober" where
  "blkid_probe_is_vfat =
     do {
       (rc, off, mag) \<leftarrow> blkid_probe_get_idmag vfat_idinfo;
       if rc < 0 then ret rc
       else case mag of
         None \<Rightarrow> ret 0
       | Some g \<Rightarrow>
           if rc \<noteq> BLKID_PROBE_OK then ret 0
           else do {
             m \<leftarrow> blkid_probe_get_sb mag (sizeof msdos_super_block);
             case m of
               NoBuf e \<Rightarrow> ret (if e \<noteq> 0 then - e else 0)
             | Buf ms \<Rightarrow> do {
                 v \<leftarrow> blkid_probe_get_sb mag (sizeof vfat_super_block);
                 case v of
                   NoBuf e \<Rightarrow> ret (if e \<noteq> 0 then - e else 0)
                 | Buf vs \<Rightarrow> ret (if fat_valid_superblock g ms vs = None then 0 else 1)
               }
           }
     }"

section \<open>NTFS\<close>

definition ntfs_super_block :: "(string \<times> nat) list" where
  "ntfs_super_block = [(''jump'', 3), (''oem_id'', 8), (''sector_size'', 2), (''sectors_per_cluster'', 1),
     (''reserved_sectors'', 2), (''fats'', 1), (''root_entries'', 2), (''sectors'', 2), (''media_type'', 1),
     (''sectors_per_fat'', 2), (''sectors_per_track'', 2), (''heads'', 2), (''hidden_sectors'', 4),
     (''large_sectors'', 4), (''unused'', 4), (''number_of_sectors'', 8), (''mft_cluster_location'', 8),
     (''mft_mirror_cluster_location'', 8), (''clusters_per_mft_record'', 1), (''reserved1'', 3),
     (''cluster_per_index_record'', 1), (''reserved2'', 3), (''volume_serial'', 8), (''checksum'', 4)]"

definition master_file_table_record :: "(string \<times> nat) list" where
  "master_file_table_record = [(''magic'', 4), (''usa_ofs'', 2), (''usa_count'', 2), (''lsn'', 8),
     (''sequence_number'', 2), (''link_count'', 2), (''attrs_offset'', 2), (''flags'', 2),
     (''bytes_in_use'', 4), (''bytes_allocated'', 4)]"

definition file_attribute :: "(string \<times> nat) list" where
  "file_attribute = [(''type'', 4), (''len'', 4), (''non_resident'', 1), (''name_len'', 1), (''name_offset'', 2),
     (''flags'', 2), (''instance'', 2), (''value_len'', 4), (''value_offset'', 2)]"

text \<open>The checks of the BIOS parameters.\<close>

definition ntfs_bpb_ok :: "string \<Rightarrow> bool" where
  "ntfs_bpb_ok ns =
     (let f = (\<lambda>name. le_member ntfs_super_block name ns); rec = f ''clusters_per_mft_record'' in
      256 \<le> f ''sector_size'' \<and> f ''sector_size'' \<le> 4096 \<and>
      f ''sectors_per_cluster'' \<in> {1, 2, 4, 8, 16, 32, 64, 128} \<and>
      f ''sector_size'' * f ''sectors_per_cluster'' \<le> 64 * 1024 \<and>
      f ''reserved_sectors'' = 0 \<and> f ''root_entries'' = 0 \<and> f ''sectors'' = 0 \<and>
      f ''sectors_per_fat'' = 0 \<and> f ''large_sectors'' = 0 \<and> f ''fats'' = 0 \<and>
      (0xe1 \<le> rec \<and> rec \<le> 0xf7 \<or> rec \<in> {1, 2, 4, 8, 16, 32, 64}))"

text \<open>
  A positive size of a record counts clusters, a negative one is the power of two; the largest
  one allowed overflows the \<open>int\<close> it is computed in.
\<close>

definition ntfs_record_size :: "string \<Rightarrow> nat prober" where
  "ntfs_record_size ns =
     (let f = (\<lambda>name. le_member ntfs_super_block name ns); rec = f ''clusters_per_mft_record'' in
      if rec < 128 then ret (rec * f ''sectors_per_cluster'' * f ''sector_size'')
      else if 256 - rec < 31 then ret (2 ^ (256 - rec))
      else do { fault (Undefined Signed_Overflow); ret (2 ^ 31) })"

text \<open>The search for the name of the volume among the attributes of its record.\<close>

datatype ntfs_name = No_Name | Name_At nat nat | Name_Outside

function ntfs_find :: "string \<Rightarrow> nat \<Rightarrow> nat \<Rightarrow> nat \<Rightarrow> ntfs_name" where
  "ntfs_find buf sz allocated off =
     (if off < sz \<and> off \<le> allocated then
        let attr = drop off buf; len = le_member file_attribute ''len'' attr;
            type = le_member file_attribute ''type'' attr in
        if length attr < 8 then Name_Outside
        else if len = 0 then No_Name
        else if type = 0xffffffff then No_Name
        else if type = 0x60 then
          (if length attr < sizeof file_attribute then Name_Outside
           else Name_At (off + le_member file_attribute ''value_offset'' attr)
                  (le_member file_attribute ''value_len'' attr))
        else if 4294967295 - len < off then No_Name
        else ntfs_find buf sz allocated (off + len)
      else No_Name)"
  by pat_completeness auto
termination by (relation "measure (\<lambda>(buf, sz, allocated, off). sz - off)") auto

declare ntfs_find.simps [simp del]

definition ntfs_label :: "string \<Rightarrow> nat \<Rightarrow> unit prober" where
  "ntfs_label mft sz =
     (case ntfs_find mft sz (le_member master_file_table_record ''bytes_allocated'' mft)
             (le_member master_file_table_record ''attrs_offset'' mft) of
        No_Name \<Rightarrow> ret ()
      | Name_Outside \<Rightarrow> fault (Undefined Out_Of_Bounds)
      | Name_At off len \<Rightarrow> do { utf8label_at mft off len BLKID_ENC_UTF16LE; ret () })"

definition probe_ntfs :: "idmag option \<Rightarrow> int prober" where
  "probe_ntfs mag = with_sb mag (sizeof ntfs_super_block) (\<lambda>ns.
     let f = (\<lambda>name. le_member ntfs_super_block name ns);
         nr_clusters = f ''number_of_sectors'' div f ''sectors_per_cluster'';
         off = f ''mft_cluster_location'' * f ''sector_size'' * f ''sectors_per_cluster'' in
     if \<not> ntfs_bpb_ok ns then ret 1
     else do {
       sz \<leftarrow> ntfs_record_size ns;
       if f ''mft_cluster_location'' > nr_clusters \<or> f ''mft_mirror_cluster_location'' > nr_clusters then ret 1
       else with_buf (to_loff off) sz (\<lambda>mft.
         if take 4 mft \<noteq> ''FILE'' then ret 1
         else with_tail (to_loff (off + 3 * sz mod 2 ^ 32)) sz (\<lambda>mft.
           if take 4 mft \<noteq> ''FILE'' then ret 1
           else do {
             ntfs_label mft sz;
             blkid_probe_sprintf_uuid (member ntfs_super_block ''volume_serial'' ns)
               (hex True 16 (f ''volume_serial''));
             ret 0
           }))
     })"

definition ntfs_idinfo :: idinfo where
  "ntfs_idinfo = \<lparr>ii_name = ''ntfs'', ii_usage = BLKID_USAGE_FILESYSTEM, ii_flags = 0, ii_minsz = 0,
     ii_probefunc = Some probe_ntfs, ii_magics = [magic_at 0 3 ''NTFS    '']\<rparr>"

section \<open>HFS and HFS+\<close>

definition hfs_finder_info :: "(string \<times> nat) list" where
  "hfs_finder_info = [(''boot_folder'', 4), (''start_app'', 4), (''open_folder'', 4), (''os9_folder'', 4),
     (''reserved'', 4), (''osx_folder'', 4), (''id'', 8)]"

definition hfs_mdb :: "(string \<times> nat) list" where
  "hfs_mdb = [(''signature'', 2), (''cr_date'', 4), (''ls_Mod'', 4), (''atrb'', 2), (''nm_fls'', 2),
     (''vbm_st'', 2), (''alloc_ptr'', 2), (''nm_al_blks'', 2), (''al_blk_size'', 4), (''clp_size'', 4),
     (''al_bl_st'', 2), (''nxt_cnid'', 4), (''free_bks'', 2), (''label_len'', 1), (''label'', 27),
     (''vol_bkup'', 4), (''vol_seq_num'', 2), (''wr_cnt'', 4), (''xt_clump_size'', 4),
     (''ct_clump_size'', 4), (''num_root_dirs'', 2), (''file_count'', 4), (''dir_count'', 4),
     (''finder_info'', sizeof hfs_finder_info), (''embed_sig'', 2), (''embed_startblock'', 2),
     (''embed_blockcount'', 2)]"

definition hfsplus_bnode_descriptor :: "(string \<times> nat) list" where
  "hfsplus_bnode_descriptor = [(''next'', 4), (''prev'', 4), (''type'', 1), (''height'', 1), (''num_recs'', 2),
     (''reserved'', 2)]"

definition hfsplus_bheader_record :: "(string \<times> nat) list" where
  "hfsplus_bheader_record = [(''depth'', 2), (''root'', 4), (''leaf_count'', 4), (''leaf_head'', 4),
     (''leaf_tail'', 4), (''node_size'', 2)]"

definition hfsplus_catalog_key :: "(string \<times> nat) list" where
  "hfsplus_catalog_key = [(''key_len'', 2), (''parent_id'', 4), (''unicode_len'', 2), (''unicode'', 510)]"

text \<open>A fork is its sizes and eight extents of a start and a count.\<close>

definition hfsplus_fork :: "(string \<times> nat) list" where
  "hfsplus_fork = [(''total_size'', 8), (''clump_size'', 4), (''total_blocks'', 4), (''extents'', 64)]"

definition hfsplus_vol_header :: "(string \<times> nat) list" where
  "hfsplus_vol_header = [(''signature'', 2), (''version'', 2), (''attributes'', 4), (''last_mount_vers'', 4),
     (''reserved'', 4), (''create_date'', 4), (''modify_date'', 4), (''backup_date'', 4),
     (''checked_date'', 4), (''file_count'', 4), (''folder_count'', 4), (''blocksize'', 4),
     (''total_blocks'', 4), (''free_blocks'', 4), (''next_alloc'', 4), (''rsrc_clump_sz'', 4),
     (''data_clump_sz'', 4), (''next_cnid'', 4), (''write_count'', 4), (''encodings_bmp'', 8),
     (''finder_info'', sizeof hfs_finder_info), (''alloc_file'', sizeof hfsplus_fork),
     (''ext_file'', sizeof hfsplus_fork), (''cat_file'', sizeof hfsplus_fork),
     (''attr_file'', sizeof hfsplus_fork), (''start_file'', sizeof hfsplus_fork)]"

definition hfs_hash_init :: string where
  "hfs_hash_init = [CHR 0xB3, CHR 0xE2, CHR 0x0F, CHR 0x39, CHR 0xF2, CHR 0x92, CHR 0x11, CHR 0xD6,
     CHR 0x97, CHR 0xA4, CHR 0x00, CHR 0x30, CHR 0x65, CHR 0x43, CHR 0xEC, CHR 0xAC]"

definition masked :: "char \<Rightarrow> 8 word \<Rightarrow> 8 word \<Rightarrow> char" where
  "masked c mark keep = char_of (unat (mark OR (of_char c AND keep)))"

text \<open>The UUID of a volume is a digest of its identifier, marked as one of version 3.\<close>

definition hfs_uuid :: "string \<Rightarrow> string" where
  "hfs_uuid hfs_info =
     (let md5c = MD5Init (replicate 64 NUL);
          uuid = fst (MD5Final (MD5Update (MD5Update md5c hfs_hash_init) hfs_info));
          uuid = uuid[6 := masked (uuid ! 6) 0x30 0x0f] in
      uuid[8 := masked (uuid ! 8) 0x80 0x3f])"

definition hfs_set_uuid :: "string \<Rightarrow> int prober" where
  "hfs_set_uuid hfs_info =
     (if hfs_info = replicate (length hfs_info) NUL then ret (- 1)
      else blkid_probe_set_uuid (hfs_uuid hfs_info))"

definition is_hfsplus :: "string \<Rightarrow> bool" where
  "is_hfsplus sig \<longleftrightarrow> sig = ''H+'' \<or> sig = ''HX''"

definition probe_hfs :: "idmag option \<Rightarrow> int prober" where
  "probe_hfs mag = with_sb_tail mag (sizeof hfs_mdb) (\<lambda>hfs.
     if is_hfsplus (member hfs_mdb ''embed_sig'' hfs) then ret 1
     else do {
       hfs_set_uuid (member hfs_finder_info ''id'' (member hfs_mdb ''finder_info'' hfs));
       label_at hfs (offset_of ''label'' hfs_mdb) (le_member hfs_mdb ''label_len'' hfs);
       ret 0
     })"

text \<open>
  The block of the first leaf of the catalog, counted in blocks of the file, is looked up in the
  extents of the file.
\<close>

fun hfs_find_extent :: "nat \<Rightarrow> string \<Rightarrow> u32 \<Rightarrow> u32 option" where
  "hfs_find_extent 0 extents leaf_block = None"
| "hfs_find_extent (Suc n) extents leaf_block =
     (let start = of_nat (be_value (take 4 extents)); count = of_nat (be_value (take 4 (drop 4 extents))) in
      if count = 0 then None
      else if leaf_block < count then Some (start + leaf_block)
      else hfs_find_extent n (drop 8 extents) (leaf_block - count))"

text \<open>A buffer that cannot be read for no error is no failure in the catalog.\<close>

definition with_catalog :: "int \<Rightarrow> nat \<Rightarrow> (string \<Rightarrow> int prober) \<Rightarrow> int prober" where
  "with_catalog off len f =
     do {
       b \<leftarrow> blkid_probe_get_buffer off (int len);
       case b of
         NoBuf e \<Rightarrow> ret (if e \<noteq> 0 then - e else 0)
       | Buf s \<Rightarrow> do {
           behind \<leftarrow> gets (\<lambda>pr. tail_of (pr_area pr) (pr_parents pr) off (int len));
           f (s @ behind)
         }
     }"

definition hfs_leaf :: "string \<Rightarrow> int prober" where
  "hfs_leaf buf =
     do {
       descr \<leftarrow> bytes_from buf 0 (sizeof hfsplus_bnode_descriptor);
       if be_member hfsplus_bnode_descriptor ''num_recs'' descr = 0 then ret 0
       else if le_member hfsplus_bnode_descriptor ''type'' descr \<noteq> 0xff then ret 0
       else do {
         key \<leftarrow> bytes_from buf (sizeof hfsplus_bnode_descriptor) 8;
         if be_member hfsplus_catalog_key ''parent_id'' key \<noteq> 1 then ret 0
         else do {
           utf8label_at buf (sizeof hfsplus_bnode_descriptor + offset_of ''unicode'' hfsplus_catalog_key)
             (be_member hfsplus_catalog_key ''unicode_len'' key * 2) BLKID_ENC_UTF16BE;
           ret 0
         }
       }
     }"

definition hfsplus_volume :: "u32 \<Rightarrow> string \<Rightarrow> int prober" where
  "hfsplus_volume off hfsplus =
     (let blocksize = be_word hfsplus_vol_header ''blocksize'' hfsplus :: u32;
          extents = member hfsplus_fork ''extents'' (member hfsplus_vol_header ''cat_file'' hfsplus);
          cat_block = be_value (take 4 extents) in
      if \<not> is_hfsplus (member hfsplus_vol_header ''signature'' hfsplus) then ret 1
      else do {
        hfs_set_uuid (member hfs_finder_info ''id'' (member hfsplus_vol_header ''finder_info'' hfsplus));
        if blocksize < 512 then ret 1
        else do {
          catalog \<leftarrow> loff (uint off + int cat_block * uint blocksize);
          with_catalog catalog 0x2000 (\<lambda>buf.
            let bnode = drop (sizeof hfsplus_bnode_descriptor) buf;
                leaf_head = be_word hfsplus_bheader_record ''leaf_head'' bnode;
                node_size = be_member hfsplus_bheader_record ''node_size'' bnode in
            if be_member hfsplus_bheader_record ''leaf_count'' bnode = 0 then ret 0
            else case hfs_find_extent 8 extents (leaf_head * of_nat node_size div blocksize) of
              None \<Rightarrow> ret 0
            | Some block \<Rightarrow> with_catalog (uint off + uint (block * blocksize)) node_size hfs_leaf)
        }
      })"

definition probe_hfsplus :: "idmag option \<Rightarrow> int prober" where
  "probe_hfsplus mag = with_sb mag (sizeof hfs_mdb) (\<lambda>sbd.
     if member hfs_mdb ''signature'' sbd = ''BD'' then
       (if \<not> is_hfsplus (member hfs_mdb ''embed_sig'' sbd) then ret 1
        else
          let off = be_word hfs_mdb ''al_bl_st'' sbd * 512 +
                be_word hfs_mdb ''embed_startblock'' sbd * be_word hfs_mdb ''al_blk_size'' sbd;
              kboff = (case mag of Some g \<Rightarrow> im_kboff g | None \<Rightarrow> 0) in
          with_buf (uint (off + of_int (kboff * 1024))) (sizeof hfsplus_vol_header) (hfsplus_volume off))
     else with_sb mag (sizeof hfsplus_vol_header) (hfsplus_volume 0))"

definition hfs_idinfo :: idinfo where
  "hfs_idinfo = \<lparr>ii_name = ''hfs'', ii_usage = BLKID_USAGE_FILESYSTEM, ii_flags = BLKID_IDINFO_TOLERANT,
     ii_minsz = 0, ii_probefunc = Some probe_hfs, ii_magics = [magic_at 1 0 ''BD'']\<rparr>"

definition hfsplus_idinfo :: idinfo where
  "hfsplus_idinfo = \<lparr>ii_name = ''hfsplus'', ii_usage = BLKID_USAGE_FILESYSTEM, ii_flags = 0, ii_minsz = 0,
     ii_probefunc = Some probe_hfsplus,
     ii_magics = [magic_at 1 0 ''BD'', magic_at 1 0 ''H+'', magic_at 1 0 ''HX'']\<rparr>"

section \<open>What the probing functions keep\<close>

context prober_inv
begin

lemma fat_tiny: "keeps I (fat_label_tiny n i off)"
  by (induction n arbitrary: i) (auto intro!: tool_rules)

lemma fat_search: "keeps I (search_fat_label off n)"
  unfolding search_fat_label_def by (intro tool_rules fat_tiny)

lemma fat32: "keeps I (fat32_loop n d f b e x)"
  by (induction n arbitrary: x) (auto intro!: tool_rules fat_search)

lemma fat_reports: "keeps I (fat_report l s v)"
  unfolding fat_report_def by (intro tool_rules)

lemma fat_kinds: "keeps I (probe_fat16 c s ms vs)" "keeps I (probe_fat32 s ms vs)"
  unfolding probe_fat16_def probe_fat32_def by (intro tool_rules fat_search fat32 fat_reports; simp)+

lemma ntfs_parts: "keeps I (ntfs_record_size ns)" "keeps I (ntfs_label mft sz)"
  unfolding ntfs_record_size_def ntfs_label_def
  by (intro tool_rules) (auto split: ntfs_name.split intro!: tool_rules)

lemma catalog: "(\<And>s. keeps I (f s)) \<Longrightarrow> keeps I (with_catalog off len f)"
  unfolding with_catalog_def by (intro tool_rules)

lemma hfs_parts: "keeps I (hfs_set_uuid i)" "keeps I (hfs_leaf buf)"
  unfolding hfs_set_uuid_def hfs_leaf_def by (intro tool_rules)+

lemma hfs_volume: "keeps I (hfsplus_volume off h)"
  unfolding hfsplus_volume_def by (intro tool_rules catalog hfs_parts)

lemma tables:
  "keeps I (probe_vfat mag)" "keeps I (probe_ntfs mag)" "keeps I (probe_hfs mag)" "keeps I (probe_hfsplus mag)"
  "keeps I blkid_probe_is_vfat"
  unfolding probe_vfat_def probe_ntfs_def probe_hfs_def probe_hfsplus_def blkid_probe_is_vfat_def
  by (intro tool_rules fat_kinds ntfs_parts hfs_parts hfs_volume)+

end

lemma tables_behave: "behaves probe_vfat" "behaves probe_ntfs" "behaves probe_hfs" "behaves probe_hfsplus"
  by (rule behavesI, erule prober_inv.tables)+

lemmas fat_idinfos = vfat_idinfo_def ntfs_idinfo_def hfs_idinfo_def hfsplus_idinfo_def

lemma fat_layouts:
  "sizeof vfat_super_block = 512" "sizeof msdos_super_block = 512" "offset_of ''vs_fat32_length'' vfat_super_block = 0x24"
  "offset_of ''vs_magic'' vfat_super_block = 0x52" "offset_of ''ms_magic'' msdos_super_block = 0x36"
  "offset_of ''vs_pmagic'' vfat_super_block = 0x1fe" "sizeof vfat_dir_entry = 32" "sizeof fat32_fsinfo = 512"
  "sizeof ntfs_super_block = 84" "sizeof hfs_mdb = 130" "sizeof hfsplus_vol_header = 512"
  by (simp_all add: sizeof_def vfat_super_block_def msdos_super_block_def vfat_dir_entry_def fat32_fsinfo_def
      ntfs_super_block_def hfs_mdb_def hfs_finder_info_def hfsplus_vol_header_def hfsplus_fork_def)

end
