(* ===== verification/PtDos.thy ===== *)
theory PtDos
  imports PtLabels SbFat SbVolumes
begin

text \<open>
  The MS-DOS partition table with its chain of extended boot records and the tables nested in
  its primary partitions (src/lib/libblkid/src/partitions/dos.c), and the GUID partition table
  with its protective MBR (gpt.c).
\<close>

section \<open>Extended partitions\<close>

definition MBR_GPT_PARTITION :: nat where "MBR_GPT_PARTITION = 0xee"
definition MBR_UNIXWARE_PARTITION :: nat where "MBR_UNIXWARE_PARTITION = 0x63"
definition MBR_SOLARIS_X86_PARTITION :: nat where "MBR_SOLARIS_X86_PARTITION = 0x82"

definition is_extended :: "string \<Rightarrow> bool" where
  "is_extended p \<longleftrightarrow>
     sys_ind p \<in> {MBR_DOS_EXTENDED_PARTITION, MBR_W95_EXTENDED_PARTITION, MBR_LINUX_EXTENDED_PARTITION}"

text \<open>Start and size of an entry in sectors of 512 bytes, by the sector size factor.\<close>

definition dos_start :: "u32 \<Rightarrow> string \<Rightarrow> u32" where
  "dos_start ssf p = dos_partition_get_start p * ssf"

definition dos_size :: "u32 \<Rightarrow> string \<Rightarrow> u32" where
  "dos_size ssf p = dos_partition_get_size p * ssf"

definition dos_added :: "string \<Rightarrow> partref \<Rightarrow> unit prober" where
  "dos_added p par =
     do {
       blkid_partition_set_type par (int (sys_ind p));
       blkid_partition_set_flags par (of_nat (boot_ind p));
       blkid_partition_gen_uuid par;
       ret ()
     }"

text \<open>The entries of an extended boot record that are data: the third and the fourth only if they lie inside.\<close>

record ebr_place =
  ex_start :: u32
  ex_size :: u32
  ex_ssf :: u32

definition ebr_is_data :: "ebr_place \<Rightarrow> u32 \<Rightarrow> u32 \<Rightarrow> nat \<Rightarrow> string \<Rightarrow> bool" where
  "ebr_is_data ex cur_start cur_size i p \<longleftrightarrow>
     (let start = dos_start (ex_ssf ex) p; sz = dos_size (ex_ssf ex) p; abs_start = cur_start + start in
      sz \<noteq> 0 \<and> \<not> is_extended p \<and>
      (i \<ge> 2 \<longrightarrow> start + sz \<le> cur_size \<and> ex_start ex \<le> abs_start \<and> abs_start + sz \<le> ex_start ex + ex_size ex))"

text \<open>The result tells whether there was memory and whether a data partition was added.\<close>

fun ebr_data :: "ebr_place \<Rightarrow> nat \<Rightarrow> u32 \<Rightarrow> u32 \<Rightarrow> string \<Rightarrow> nat list \<Rightarrow> bool \<Rightarrow> (bool \<times> bool) prober" where
  "ebr_data ex tab cur_start cur_size data [] added = ret (True, added)"
| "ebr_data ex tab cur_start cur_size data (i # is) added =
     (let p = mbr_get_partition data i in
      if \<not> ebr_is_data ex cur_start cur_size i p then ebr_data ex tab cur_start cur_size data is added
      else do {
        ok \<leftarrow> add_entry tab (uint (cur_start + dos_start (ex_ssf ex) p)) (uint (dos_size (ex_ssf ex) p)) (dos_added p);
        if ok then ebr_data ex tab cur_start cur_size data is True else ret (False, added)
      })"

definition ebr_link :: "ebr_place \<Rightarrow> string \<Rightarrow> nat option" where
  "ebr_link ex data =
     find (\<lambda>i. let p = mbr_get_partition data i in dos_size (ex_ssf ex) p \<noteq> 0 \<and> is_extended p) [0..<4]"

text \<open>
  The walk along the boot records gives up after 100 of them in a row without a data partition,
  and otherwise goes on as long as there are links.
\<close>

fun parse_dos_extended :: "nat \<Rightarrow> ebr_place \<Rightarrow> nat \<Rightarrow> u32 \<Rightarrow> u32 \<Rightarrow> nat \<Rightarrow> int prober" where
  "parse_dos_extended 0 ex tab cur_start cur_size ct_nodata = do { fault Endless; ret BLKID_PROBE_OK }"
| "parse_dos_extended (Suc n) ex tab cur_start cur_size ct_nodata =
     (if ct_nodata + 1 > 100 then ret BLKID_PROBE_OK
      else do {
        b \<leftarrow> blkid_probe_get_sector (unat cur_start);
        case b of
          NoBuf e \<Rightarrow> ret (if e \<noteq> 0 then - e else BLKID_PROBE_OK)
        | Buf data \<Rightarrow>
            if \<not> mbr_is_valid_magic data then ret BLKID_PROBE_OK
            else do {
              (ok, added) \<leftarrow> ebr_data ex tab cur_start cur_size data [0..<4] False;
              if \<not> ok then ret (- ENOMEM)
              else
                case ebr_link ex data of
                  None \<Rightarrow> ret BLKID_PROBE_OK
                | Some i \<Rightarrow>
                    let p = mbr_get_partition data i in
                    parse_dos_extended n ex tab (ex_start ex + dos_start (ex_ssf ex) p) (dos_size (ex_ssf ex) p)
                      (if added then 0 else ct_nodata + 1)
            }
      })"

text \<open>
  Of 100 rounds in a row at least one adds a partition of 248 bytes to an array of less than
  2^32 bytes, so with the memory of the machine that many rounds are never needed.
\<close>

definition DOS_FUEL :: nat where "DOS_FUEL = 2 ^ 32"

section \<open>The table\<close>

definition dos_nested :: "(nat \<times> idinfo) list" where
  "dos_nested = [(MBR_FREEBSD_PARTITION, bsd_pt_idinfo), (MBR_NETBSD_PARTITION, bsd_pt_idinfo),
     (MBR_OPENBSD_PARTITION, bsd_pt_idinfo), (MBR_UNIXWARE_PARTITION, unixware_pt_idinfo),
     (MBR_SOLARIS_X86_PARTITION, solaris_x86_pt_idinfo), (MBR_MINIX_PARTITION, minix_pt_idinfo)]"

definition dos_primary :: "string \<Rightarrow> u32 \<Rightarrow> nat \<Rightarrow> nat \<Rightarrow> bool prober" where
  "dos_primary data ssf tab i =
     (let p = mbr_get_partition data i; sz = dos_size ssf p in
      if sz = 0 then skip_entry
      else add_entry tab (uint (dos_start ssf p)) (uint sz) (dos_added p))"

text \<open>An error in an extended partition is noticed only if it is -1.\<close>

fun dos_logical :: "string \<Rightarrow> u32 \<Rightarrow> nat \<Rightarrow> nat list \<Rightarrow> int prober" where
  "dos_logical data ssf tab [] = ret BLKID_PROBE_OK"
| "dos_logical data ssf tab (i # is) =
     (let p = mbr_get_partition data i; start = dos_start ssf p; sz = dos_size ssf p in
      if sz = 0 \<or> \<not> is_extended p then dos_logical data ssf tab is
      else do {
        rc \<leftarrow> parse_dos_extended DOS_FUEL \<lparr>ex_start = start, ex_size = sz, ex_ssf = ssf\<rparr> tab start sz 0;
        if rc = - 1 then ret BLKID_PROBE_NONE else dos_logical data ssf tab is
      })"

fun dos_subtypes :: "string \<Rightarrow> nat list \<Rightarrow> int prober" where
  "dos_subtypes data [] = ret BLKID_PROBE_OK"
| "dos_subtypes data (i # is) =
     (let p = mbr_get_partition data i in
      if dos_partition_get_size p = 0 \<or> is_extended p then dos_subtypes data is
      else case map_of dos_nested (sys_ind p) of
        None \<Rightarrow> dos_subtypes data is
      | Some ii \<Rightarrow> do {
          par \<leftarrow> blkid_partlist_get_partition (int i);
          rc \<leftarrow> blkid_partitions_do_subprobe par ii;
          if rc < 0 then ret rc else dos_subtypes data is
        })"

definition dos_details :: "string \<Rightarrow> string \<Rightarrow> int prober" where
  "dos_details data idstr =
     do {
       ssz \<leftarrow> blkid_probe_get_sectorsize;
       let ssf = of_nat (ssz div 512);
       with_parttable ''dos'' (int MBR_PT_OFFSET) (\<lambda>tab. do {
         (if idstr \<noteq> [] then do { blkid_parttable_set_id tab idstr; ret () } else ret ());
         rc \<leftarrow> entries (dos_primary data ssf tab) [0..<4];
         if rc \<noteq> BLKID_PROBE_OK then ret rc
         else do {
           blkid_partlist_set_partno 5;
           rc \<leftarrow> dos_logical data ssf tab [0..<4];
           if rc \<noteq> BLKID_PROBE_OK then ret rc
           else do {
             tiny \<leftarrow> gets blkid_probe_is_tiny;
             if tiny then ret BLKID_PROBE_OK else dos_subtypes data [0..<4]
           }
         }
       })
     }"

definition dos_usable :: "string \<Rightarrow> bool" where
  "dos_usable data \<longleftrightarrow>
     (\<forall>i < 4. boot_ind (mbr_get_partition data i) \<in> {0, 0x80}) \<and>
     (\<forall>i < 4. sys_ind (mbr_get_partition data i) \<noteq> MBR_GPT_PARTITION)"

definition probe_dos_pt :: "idmag option \<Rightarrow> int prober" where
  "probe_dos_pt mag =
     with_sector 0 (\<lambda>data.
       if take 4 data = BLKID_AIX_MAGIC_STRING then ret BLKID_PROBE_NONE
       else do {
         vfat \<leftarrow> blkid_probe_is_vfat;
         if vfat = 1 then ret BLKID_PROBE_NONE
         else if \<not> dos_usable data then ret BLKID_PROBE_NONE
         else do {
           blkid_probe_use_wiper (int MBR_PT_OFFSET) (512 - int MBR_PT_OFFSET);
           let idstr = (if mbr_get_id data \<noteq> 0 then hex False 8 (unat (mbr_get_id data)) else []);
           typeonly \<leftarrow> blkid_partitions_need_typeonly;
           if typeonly then do {
             (if idstr \<noteq> [] then do { blkid_partitions_strcpy_ptuuid idstr; ret () } else ret ());
             ret 0
           }
           else with_partlist (dos_details data idstr)
         }
       })"

definition dos_pt_idinfo :: idinfo where
  "dos_pt_idinfo = \<lparr>ii_name = ''dos'', ii_usage = 0, ii_flags = 0, ii_minsz = 0,
     ii_probefunc = Some probe_dos_pt, ii_magics = [dos_magic]\<rparr>"

section \<open>GPT\<close>

definition GPT_PRIMARY_LBA :: u64 where "GPT_PRIMARY_LBA = 1"
definition GPT_HEADER_SIGNATURE :: nat where "GPT_HEADER_SIGNATURE = 0x5452415020494645"
definition GPT_HEADER_SIGNATURE_STR :: string where "GPT_HEADER_SIGNATURE_STR = ''EFI PART''"

definition gpt_header :: "(string \<times> nat) list" where
  "gpt_header = [(''signature'', 8), (''revision'', 4), (''header_size'', 4), (''header_crc32'', 4), (''reserved1'', 4),
     (''my_lba'', 8), (''alternate_lba'', 8), (''first_usable_lba'', 8), (''last_usable_lba'', 8), (''disk_guid'', 16),
     (''partition_entries_lba'', 8), (''num_partition_entries'', 4), (''sizeof_partition_entry'', 4),
     (''partition_entry_array_crc32'', 4)]"

definition gpt_entry :: "(string \<times> nat) list" where
  "gpt_entry = [(''partition_type_guid'', 16), (''unique_partition_guid'', 16), (''starting_lba'', 8), (''ending_lba'', 8),
     (''attributes'', 8), (''partition_name'', 72)]"

definition GPT_UNUSED_ENTRY_GUID :: string where "GPT_UNUSED_ENTRY_GUID = replicate 16 NUL"

definition gpt64 :: "string \<Rightarrow> string \<Rightarrow> u64" where
  "gpt64 name h = of_nat (le_member gpt_header name h)"

definition count_crc32 :: "string \<Rightarrow> u32" where
  "count_crc32 bytes = crc32 (- 1) bytes XOR (- 1)"

definition swap_efi_guid :: "string \<Rightarrow> string" where
  "swap_efi_guid g = rev (take 4 g) @ rev (take 2 (drop 4 g)) @ rev (take 2 (drop 6 g)) @ drop 8 g"

text \<open>A position given by the number of its block; with the bytes behind the buffer.\<close>

definition lba_offset :: "nat \<Rightarrow> u64 \<Rightarrow> int" where
  "lba_offset ssz lba = to_loff (unat (of_nat ssz * lba))"

definition get_lba_buffer :: "u64 \<Rightarrow> nat \<Rightarrow> (int + string) prober" where
  "get_lba_buffer lba bytes =
     do {
       ssz \<leftarrow> blkid_probe_get_sectorsize;
       b \<leftarrow> blkid_probe_get_buffer (lba_offset ssz lba) (int bytes);
       case b of
         NoBuf e \<Rightarrow> ret (Inl e)
       | Buf s \<Rightarrow> do {
           behind \<leftarrow> gets (\<lambda>pr. tail_of (pr_area pr) (pr_parents pr) (lba_offset ssz lba) (int bytes));
           ret (Inr (s @ behind))
         }
     }"

definition last_lba :: "u64 option prober" where
  "last_lba =
     do {
       sz \<leftarrow> gets pr_size;
       ssz \<leftarrow> blkid_probe_get_sectorsize;
       if sz < int ssz then ret None
       else if ssz = 0 then do { fault (Undefined Division_By_Zero); ret None }
       else ret (Some (of_int (sz div int ssz) - 1))
     }"

text \<open>The result with what is left in \<open>*has\<close>.\<close>

definition is_pmbr_valid :: "(int \<times> bool) prober" where
  "is_pmbr_valid =
     do {
       flags \<leftarrow> blkid_partitions_get_flags;
       if has_flag flags BLKID_PARTS_FORCE_GPT then ret (1, True)
       else do {
         b \<leftarrow> blkid_probe_get_sector 0;
         case b of
           NoBuf e \<Rightarrow> ret (- e, False)
         | Buf data \<Rightarrow>
             if mbr_is_valid_magic data \<and> (\<exists>i < 4. sys_ind (mbr_get_partition data i) = MBR_GPT_PARTITION)
             then ret (1, True) else ret (0, False)
       }
     }"

text \<open>What a header must satisfy, before and after its entries are read.\<close>

definition gpt_header_crc_ok :: "string \<Rightarrow> bool" where
  "gpt_header_crc_ok h \<longleftrightarrow>
     (let hsz = le_member gpt_header ''header_size'' h; off = offset_of ''header_crc32'' gpt_header;
          zeroed = take off h @ replicate 4 NUL @ drop (off + 4) h in
      count_crc32 (take hsz zeroed) = of_nat (le_member gpt_header ''header_crc32'' h))"

definition gpt_range_ok :: "string \<Rightarrow> u64 \<Rightarrow> u64 \<Rightarrow> bool" where
  "gpt_range_ok h lba lastlba \<longleftrightarrow>
     (let fu = gpt64 ''first_usable_lba'' h; lu = gpt64 ''last_usable_lba'' h in
      \<not> (lu < fu \<or> fu > lastlba \<or> lu > lastlba) \<and> \<not> (fu < lba \<and> lba < lu))"

definition gpt_entries_size :: "string \<Rightarrow> nat option" where
  "gpt_entries_size h =
     (let n = le_member gpt_header ''num_partition_entries'' h; e = le_member gpt_header ''sizeof_partition_entry'' h in
      if n = 0 \<or> e = 0 \<or> 4294967295 div n < e then None else Some (n * e))"

text \<open>
  \<open>Inl e\<close> is NULL with the value of \<open>errno\<close>; otherwise the header and the bytes of its entries,
  with what is behind them in the buffer.
\<close>

definition get_gpt_header :: "u64 \<Rightarrow> u64 \<Rightarrow> (int + string \<times> string) prober" where
  "get_gpt_header lba lastlba =
     do {
       ssz \<leftarrow> blkid_probe_get_sectorsize;
       r \<leftarrow> get_lba_buffer lba ssz;
       case r of
         Inl e \<Rightarrow> ret (Inl e)
       | Inr h \<Rightarrow> do {
           sig \<leftarrow> bytes_from h 0 8;
           if le_value sig \<noteq> GPT_HEADER_SIGNATURE then ret (Inl 0)
           else do {
             n \<leftarrow> bytes_from h (offset_of ''header_size'' gpt_header) 4;
             let hsz = le_value n;
             if hsz > ssz \<or> hsz < sizeof gpt_header then ret (Inl 0)
             else if \<not> gpt_header_crc_ok h then ret (Inl 0)
             else if gpt64 ''my_lba'' h \<noteq> lba then ret (Inl 0)
             else if \<not> gpt_range_ok h lba lastlba then ret (Inl 0)
             else case gpt_entries_size h of
               None \<Rightarrow> ret (Inl 0)
             | Some esz \<Rightarrow> do {
                 r \<leftarrow> get_lba_buffer (gpt64 ''partition_entries_lba'' h) esz;
                 case r of
                   Inl e \<Rightarrow> ret (Inl e)
                 | Inr ents \<Rightarrow>
                     if count_crc32 (take esz ents) \<noteq> of_nat (le_member gpt_header ''partition_entry_array_crc32'' h)
                     then ret (Inl 0) else ret (Inr (take (sizeof gpt_header) h, ents))
               }
           }
         }
     }"

definition gpt_num :: "string \<Rightarrow> string \<Rightarrow> u64" where
  "gpt_num name e = of_nat (le_member gpt_entry name e)"

text \<open>Whether an entry is taken: it is used and lies within the usable range.\<close>

definition gpt_entry_used :: "string \<Rightarrow> bool" where
  "gpt_entry_used e \<longleftrightarrow> member gpt_entry ''partition_type_guid'' e \<noteq> GPT_UNUSED_ENTRY_GUID"

definition gpt_entry_size :: "string \<Rightarrow> u64" where
  "gpt_entry_size e = gpt_num ''ending_lba'' e - gpt_num ''starting_lba'' e + 1"

definition gpt_entry_inside :: "string \<Rightarrow> string \<Rightarrow> bool" where
  "gpt_entry_inside h e \<longleftrightarrow>
     (let start = gpt_num ''starting_lba'' e in
      \<not> (start < gpt64 ''first_usable_lba'' h \<or> start + gpt_entry_size e - 1 > gpt64 ''last_usable_lba'' h))"

text \<open>The entries are taken to be 128 bytes apart, whatever size the header gives.\<close>

definition gpt_partition :: "string \<Rightarrow> string \<Rightarrow> u64 \<Rightarrow> nat \<Rightarrow> nat \<Rightarrow> bool prober" where
  "gpt_partition h ents ssf tab i =
     do {
       bytes_from ents (i * sizeof gpt_entry) 48;
       let e = drop (i * sizeof gpt_entry) ents;
       if \<not> gpt_entry_used e then skip_entry
       else if \<not> gpt_entry_inside h e then skip_entry
       else add_entry tab (sint (gpt_num ''starting_lba'' e * ssf)) (sint (gpt_entry_size e * ssf)) (\<lambda>par. do {
         bytes_from ents (i * sizeof gpt_entry) (sizeof gpt_entry);
         blkid_partition_set_utf8name par (member gpt_entry ''partition_name'' e) BLKID_ENC_UTF16LE;
         blkid_partition_set_uuid par (swap_efi_guid (member gpt_entry ''unique_partition_guid'' e));
         blkid_partition_set_type_uuid par (swap_efi_guid (member gpt_entry ''partition_type_guid'' e));
         blkid_partition_set_flags par (gpt_num ''attributes'' e);
         ret ()
       })
     }"

definition gpt_details :: "u64 \<Rightarrow> string \<Rightarrow> string \<Rightarrow> int prober" where
  "gpt_details lba h ents =
     do {
       ssz \<leftarrow> blkid_probe_get_sectorsize;
       with_parttable ''gpt'' (lba_offset ssz lba) (\<lambda>tab. do {
         blkid_parttable_set_uuid tab (swap_efi_guid (member gpt_header ''disk_guid'' h));
         entries (gpt_partition h ents (of_nat (ssz div 512)) tab)
           [0..<le_member gpt_header ''num_partition_entries'' h]
       })
     }"

text \<open>The wiped area is looked for at the number of the block times the size of the device.\<close>

definition gpt_found :: "u64 \<Rightarrow> string \<Rightarrow> string \<Rightarrow> int prober" where
  "gpt_found lba h ents =
     do {
       sz \<leftarrow> gets pr_size;
       blkid_probe_use_wiper (to_loff (unat (lba * of_int sz))) 8;
       ssz \<leftarrow> blkid_probe_get_sectorsize;
       rc \<leftarrow> blkid_probe_set_magic (lba_offset ssz lba) GPT_HEADER_SIGNATURE_STR;
       if rc \<noteq> 0 then ret (- ENOMEM)
       else do {
         typeonly \<leftarrow> blkid_partitions_need_typeonly;
         if typeonly then do {
           blkid_partitions_set_ptuuid (swap_efi_guid (member gpt_header ''disk_guid'' h));
           ret BLKID_PROBE_OK
         } else with_partlist (gpt_details lba h ents)
       }
     }"

definition probe_gpt_pt :: "idmag option \<Rightarrow> int prober" where
  "probe_gpt_pt mag =
     do {
       lastlba \<leftarrow> last_lba;
       case lastlba of
         None \<Rightarrow> ret BLKID_PROBE_NONE
       | Some lastlba \<Rightarrow> do {
           (rc, has) \<leftarrow> is_pmbr_valid;
           if rc < 0 then ret rc
           else if rc = 0 then ret BLKID_PROBE_NONE
           else do {
             h \<leftarrow> get_gpt_header GPT_PRIMARY_LBA lastlba;
             case h of
               Inr (hdr, ents) \<Rightarrow> gpt_found GPT_PRIMARY_LBA hdr ents
             | Inl e \<Rightarrow>
                 if e \<noteq> 0 then ret (- e)
                 else do {
                   h \<leftarrow> get_gpt_header lastlba lastlba;
                   case h of
                     Inr (hdr, ents) \<Rightarrow> gpt_found lastlba hdr ents
                   | Inl e \<Rightarrow> ret (if e \<noteq> 0 then - e else BLKID_PROBE_NONE)
                 }
           }
         }
     }"

definition gpt_pt_idinfo :: idinfo where
  "gpt_pt_idinfo = \<lparr>ii_name = ''gpt'', ii_usage = 0, ii_flags = 0, ii_minsz = 1024 * 1440 + 1,
     ii_probefunc = Some probe_gpt_pt, ii_magics = []\<rparr>"

definition probe_pmbr_pt :: "idmag option \<Rightarrow> int prober" where
  "probe_pmbr_pt mag =
     do {
       lastlba \<leftarrow> last_lba;
       case lastlba of
         None \<Rightarrow> ret 1
       | Some lastlba \<Rightarrow> do {
           (rc, has) \<leftarrow> is_pmbr_valid;
           if \<not> has then ret 1
           else do {
             h \<leftarrow> get_gpt_header GPT_PRIMARY_LBA lastlba;
             case h of
               Inr x \<Rightarrow> ret 1
             | Inl e \<Rightarrow> do {
                 h \<leftarrow> get_gpt_header lastlba lastlba;
                 case h of Inr x \<Rightarrow> ret 1 | Inl e \<Rightarrow> ret 0
               }
           }
         }
     }"

definition pmbr_pt_idinfo :: idinfo where
  "pmbr_pt_idinfo = \<lparr>ii_name = ''PMBR'', ii_usage = 0, ii_flags = 0, ii_minsz = 0,
     ii_probefunc = Some probe_pmbr_pt, ii_magics = [dos_magic]\<rparr>"

section \<open>The table of the chain\<close>

definition pt_idinfos :: "idinfo list" where
  "pt_idinfos = [aix_pt_idinfo, sgi_pt_idinfo, sun_pt_idinfo, dos_pt_idinfo, gpt_pt_idinfo, pmbr_pt_idinfo,
     mac_pt_idinfo, ultrix_pt_idinfo, bsd_pt_idinfo, unixware_pt_idinfo, solaris_x86_pt_idinfo, minix_pt_idinfo]"

section \<open>What the functions keep\<close>

context part_inv
begin

lemma gpt_buffers: "keeps I (get_lba_buffer lba n)" "keeps I last_lba" "keeps I is_pmbr_valid"
  unfolding get_lba_buffer_def last_lba_def is_pmbr_valid_def by (intro part_rules)+

lemma gpt_headers: "keeps I (get_gpt_header lba l)"
  unfolding get_gpt_header_def Let_def by (intro part_rules keeps_sum gpt_buffers)

lemma gpt_loop: "keeps I (gpt_found lba h ents)"
  unfolding gpt_found_def gpt_details_def gpt_partition_def Let_def by (intro label_rules)

lemma gpt: "keeps I (probe_gpt_pt mag)"
  unfolding probe_gpt_pt_def by (intro part_rules keeps_sum gpt_buffers gpt_headers gpt_loop)

lemma pmbr: "keeps I (probe_pmbr_pt mag)"
  unfolding probe_pmbr_pt_def by (intro part_rules keeps_sum gpt_buffers gpt_headers)

lemma dos_members: "keeps I (dos_added p par)"
  unfolding dos_added_def by (intro part_rules)

lemma ebr: "keeps I (ebr_data ex tab s z data is added)"
  by (induction ex tab s z data "is" added rule: ebr_data.induct)
     (simp_all only: ebr_data.simps Let_def, (intro label_rules dos_members; simp)+)

lemma extended: "keeps I (parse_dos_extended n ex tab s z ct)"
proof (induction n arbitrary: s z ct)
  case 0
  then show ?case unfolding parse_dos_extended.simps by (intro part_rules endless)
next
  case (Suc n)
  show ?case unfolding parse_dos_extended.simps Let_def by (intro part_rules ebr Suc)
qed

lemma logical: "keeps I (dos_logical data ssf tab is)"
proof (induction "is")
  case (Cons i "is")
  then show ?case unfolding dos_logical.simps Let_def by (intro part_rules extended) simp_all
qed (simp add: keeps_ret)

lemma primaries: "keeps I (dos_primary data ssf tab i)"
  unfolding dos_primary_def Let_def by (intro label_rules dos_members)

end

lemma nested_io:
  assumes "(t, ii) \<in> set dos_nested"
  shows "io_safe (idinfo_probe ii chn)"
proof -
  from assms consider "ii = bsd_pt_idinfo" | "ii = unixware_pt_idinfo" | "ii = solaris_x86_pt_idinfo" | "ii = minix_pt_idinfo"
    by (auto simp: dos_nested_def)
  then show ?thesis
  proof cases
    case 1
    show ?thesis by (rule leaf_io [where f = probe_bsd_pt]) (erule part_inv.bsd, simp add: 1 bsd_pt_idinfo_def)
  next
    case 2
    show ?thesis by (rule leaf_io [where f = probe_unixware_pt]) (erule part_inv.unixware, simp add: 2 unixware_pt_idinfo_def)
  next
    case 3
    show ?thesis by (rule leaf_io [where f = probe_solaris_pt]) (erule part_inv.solaris, simp add: 3 solaris_x86_pt_idinfo_def)
  next
    case 4
    show ?thesis by (rule leaf_io [where f = probe_minix_pt]) (erule part_inv.minix, simp add: 4 minix_pt_idinfo_def)
  qed
qed

context clone_inv
begin

lemma subtypes: "keeps I (dos_subtypes data is)"
proof (induction "is")
  case (Cons i "is")
  then show ?case unfolding dos_subtypes.simps Let_def
    by (intro part_rules do_subprobe) (auto dest: map_of_SomeD nested_io)
qed (simp add: keeps_ret)

lemma dos: "keeps I (probe_dos_pt mag)"
  unfolding probe_dos_pt_def dos_details_def Let_def
  by (intro label_rules tables primaries logical subtypes)

end

theorem pt_idinfos_behave: "pt_table_behaves pt_idinfos"
  by (simp add: pt_idinfos_def aix_pt_idinfo_def sgi_pt_idinfo_def sun_pt_idinfo_def dos_pt_idinfo_def gpt_pt_idinfo_def
      pmbr_pt_idinfo_def mac_pt_idinfo_def ultrix_pt_idinfo_def bsd_pt_idinfo_def unixware_pt_idinfo_def
      solaris_x86_pt_idinfo_def minix_pt_idinfo_def)
     (intro conjI part_behavesI clone_inv.dos part_inv.labels part_inv.gpt part_inv.pmbr; simp add: clone_inv_def)

end
