(* ===== verification/PtFacts.thy ===== *)
theory PtFacts
  imports PtDos
begin

text \<open>
  What the partitions chain computes: the numbers and the places of the partitions of an MBR and
  of a GPT, the chain of extended boot records that leads to itself, and what is left of a probe
  that was asked whether an area is covered by a partition.
\<close>

section \<open>Adding entries\<close>

lemma on_partlist_run:
  "pr_parts pr = Some ls \<Longrightarrow> run_state (on_partlist d f) pr =
     (case f (md_alloc (pr_medium pr)) ls of
        Inl u \<Rightarrow> (d, snd (run_state (fault (Undefined u)) pr))
      | Inr (x, ls') \<Rightarrow> (x, pr\<lparr>pr_parts := Some ls'\<rparr>))"
  by (auto simp: on_partlist_def blkid_probe_set_partlist_def split: sum.splits prod.splits)

text \<open>A computation that changes the last partition, which it gets a pointer to, by \<open>Q\<close>.\<close>

definition changes_last :: "(partition \<Rightarrow> partition \<Rightarrow> bool) \<Rightarrow> (partref \<Rightarrow> 'a prober) \<Rightarrow> bool" where
  "changes_last Q f \<longleftrightarrow>
     (\<forall>pr ls xs par. pr_parts pr = Some ls \<longrightarrow> pl_parts ls = xs @ [par] \<longrightarrow> pa_tab par < length (pl_tabs ls) \<longrightarrow>
        (\<exists>par'. snd (run_state (f (pl_nparts_max ls, length xs)) pr) =
           pr\<lparr>pr_parts := Some (ls\<lparr>pl_parts := xs @ [par']\<rparr>)\<rparr> \<and> Q par par'))"

lemma changes_lastD:
  assumes "changes_last Q f" and "pr_parts pr = Some ls" and "pl_parts ls = xs @ [par]" and "pa_tab par < length (pl_tabs ls)"
  obtains par' where "snd (run_state (f (pl_nparts_max ls, length xs)) pr) =
      pr\<lparr>pr_parts := Some (ls\<lparr>pl_parts := xs @ [par']\<rparr>)\<rparr>" and "Q par par'"
  using assms unfolding changes_last_def by blast

lemma changes_last_set: "changes_last (\<lambda>par par'. par' = g par) (\<lambda>r. set_partition r g)"
  unfolding changes_last_def
  by (intro allI impI) (simp add: set_partition_def on_partlist_run change_partition_def partition_at_def live_partref_def)

lemma changes_last_bind:
  assumes "changes_last Q f" and "\<And>x. changes_last R (\<lambda>r. g r x)" and "\<And>p q. Q p q \<Longrightarrow> pa_tab q = pa_tab p"
  shows "changes_last (\<lambda>p q. \<exists>m. Q p m \<and> R m q) (\<lambda>r. f r \<bind> g r)"
  unfolding changes_last_def
proof (intro allI impI)
  fix pr :: probe and ls :: partlist and xs and par :: partition
  assume pr: "pr_parts pr = Some ls" "pl_parts ls = xs @ [par]" "pa_tab par < length (pl_tabs ls)"
  let ?r = "(pl_nparts_max ls, length xs)"
  obtain m where m: "snd (run_state (f ?r) pr) = pr\<lparr>pr_parts := Some (ls\<lparr>pl_parts := xs @ [m]\<rparr>)\<rparr>" "Q par m"
    by (rule changes_lastD [OF assms(1) pr])
  obtain x where x: "run_state (f ?r) pr = (x, pr\<lparr>pr_parts := Some (ls\<lparr>pl_parts := xs @ [m]\<rparr>)\<rparr>)"
    using m(1) by (metis prod.collapse)
  have "pa_tab m < length (pl_tabs ls)" using assms(3) m(2) pr(3) by simp
  let ?l = "ls\<lparr>pl_parts := xs @ [m]\<rparr>"
  obtain q where "snd (run_state (g (pl_nparts_max ?l, length xs) x) (pr\<lparr>pr_parts := Some ?l\<rparr>)) =
      pr\<lparr>pr_parts := Some ?l\<rparr>\<lparr>pr_parts := Some (?l\<lparr>pl_parts := xs @ [q]\<rparr>)\<rparr>" "R m q"
    by (rule changes_lastD [OF assms(2) [of x], of "pr\<lparr>pr_parts := Some ?l\<rparr>" ?l xs m])
       (simp_all add: \<open>pa_tab m < length (pl_tabs ls)\<close>)
  then show "\<exists>q. snd (run_state (f ?r \<bind> g ?r) pr) = pr\<lparr>pr_parts := Some (ls\<lparr>pl_parts := xs @ [q]\<rparr>)\<rparr> \<and>
      (\<exists>m. Q par m \<and> R m q)"
    using m(2) by (auto simp: x)
qed

lemma changes_last_weaken: "changes_last Q f \<Longrightarrow> (\<And>p q. Q p q \<Longrightarrow> R p q) \<Longrightarrow> changes_last R f"
  unfolding changes_last_def by meson

lemma changes_last_ret: "changes_last (=) (\<lambda>r. ret x)"
  by (auto simp: changes_last_def)

lemma changes_last_uuid: "changes_last (\<lambda>p q. \<exists>u. q = p\<lparr>pa_uuid := u\<rparr>) blkid_partition_gen_uuid"
  unfolding changes_last_def
proof (intro allI impI)
  fix pr :: probe and ls :: partlist and xs and par :: partition
  assume pr: "pr_parts pr = Some ls" "pl_parts ls = xs @ [par]" "pa_tab par < length (pl_tabs ls)"
  have l: "ls = ls\<lparr>pl_parts := xs @ [par\<lparr>pa_uuid := pa_uuid par\<rparr>]\<rparr>" using pr(2) by simp
  have s: "pr = pr\<lparr>pr_parts := Some ls\<rparr>" using pr(1) by simp
  show "\<exists>q. snd (run_state (blkid_partition_gen_uuid (pl_nparts_max ls, length xs)) pr) =
      pr\<lparr>pr_parts := Some (ls\<lparr>pl_parts := xs @ [q]\<rparr>)\<rparr> \<and> (\<exists>u. q = par\<lparr>pa_uuid := u\<rparr>)"
  proof (cases "pt_id (pl_tabs ls ! pa_tab par) = []")
    case True
    then have "snd (run_state (blkid_partition_gen_uuid (pl_nparts_max ls, length xs)) pr) = pr\<lparr>pr_parts := Some ls\<rparr>"
      using pr by (simp add: blkid_partition_gen_uuid_def on_partlist_run partition_at_def live_partref_def Let_def)
    then show ?thesis using l by metis
  next
    case False
    then show ?thesis
      using pr by (simp add: blkid_partition_gen_uuid_def on_partlist_run partition_at_def change_partition_def live_partref_def Let_def) blast
  qed
qed

text \<open>An entry that is added to a well-formed list.\<close>

lemma add_entry_result:
  assumes "pr_parts pr = Some ls" and "partlist_wf ls" and "changes_last Q f"
    and tab: "\<And>p q. Q p q \<Longrightarrow> pa_tab q = pa_tab p"
    and "run_state (add_entry tab start sz f) pr = (True, q)"
  obtains par par' ls' where "pr_parts q = Some ls'" and "partlist_wf ls'" and "pl_parts ls' = pl_parts ls @ [par']"
    and "Q par par'" and "pa_start par = start" and "pa_size par = sz" and "pa_partno par = pl_next_partno ls"
    and "pa_tab par = tab" and "pl_next_partno ls' = pl_next_partno ls + 1" and "q = pr\<lparr>pr_parts := Some ls'\<rparr>"
    and "length (pl_tabs ls') = length (pl_tabs ls)"
proof -
  let ?add = "partlist_add_partition (md_alloc (pr_medium pr)) ls tab start sz"
  have run: "run_state (blkid_partlist_add_partition tab start sz) pr =
      (case ?add of Inl u \<Rightarrow> (None, snd (run_state (fault (Undefined u)) pr)) | Inr (x, ls') \<Rightarrow> (x, pr\<lparr>pr_parts := Some ls'\<rparr>))"
    using assms(1) by (simp add: blkid_partlist_add_partition_def on_partlist_run)
  obtain r ls1 where a: "?add = Inr (Some r, ls1)"
    using assms(5) by (cases ?add) (auto simp: add_entry_def run split: option.splits)
  note res = add_partition_result [OF assms(2) a]
  obtain par where p: "pl_parts ls1 = pl_parts ls @ [par]" "pa_start par = start" "pa_size par = sz"
    "pa_partno par = pl_next_partno ls" "pa_tab par = tab" using res(4) by blast
  have r: "r = (pl_nparts_max ls1, length (pl_parts ls))" using res(2,3) by (cases r) (auto simp: live_partref_def)
  have "pa_tab par < length (pl_tabs ls1)" using res(1) p(1) by (simp add: partlist_wf_def)
  then obtain par' where c: "snd (run_state (f r) (pr\<lparr>pr_parts := Some ls1\<rparr>)) =
      pr\<lparr>pr_parts := Some (ls1\<lparr>pl_parts := pl_parts ls @ [par']\<rparr>)\<rparr>" "Q par par'"
    using changes_lastD [OF assms(3), of "pr\<lparr>pr_parts := Some ls1\<rparr>" ls1 "pl_parts ls" par] p(1) r by auto
  have q: "q = pr\<lparr>pr_parts := Some (ls1\<lparr>pl_parts := pl_parts ls @ [par']\<rparr>)\<rparr>"
    using assms(5) c(1) by (simp add: add_entry_def run a split_beta)
  have "partlist_wf (ls1\<lparr>pl_parts := pl_parts ls @ [par']\<rparr>)"
    using res(1) tab [OF c(2)] p(1) unfolding partlist_wf_def by simp
  then show thesis using that q p c(2) res(5,6) by simp
qed

text \<open>
  A loop whose body numbers every entry but adds only those that are \<open>used\<close>: the partitions are
  those of the used entries in order, and each is numbered by the place of its entry.
\<close>

definition adds_used :: "nat set \<Rightarrow> (nat \<Rightarrow> bool) \<Rightarrow> (nat \<Rightarrow> partition \<Rightarrow> bool) \<Rightarrow> (nat \<Rightarrow> bool prober) \<Rightarrow> bool" where
  "adds_used A used R f \<longleftrightarrow>
     (\<forall>i \<in> A. \<forall>pr ls q. pr_parts pr = Some ls \<longrightarrow> partlist_wf ls \<longrightarrow> run_state (f i) pr = (True, q) \<longrightarrow>
        (\<exists>ls'. pr_parts q = Some ls' \<and> partlist_wf ls' \<and> pl_next_partno ls' = pl_next_partno ls + 1 \<and>
           (if used i then \<exists>par. pl_parts ls' = pl_parts ls @ [par] \<and> R i par \<and> pa_partno par = pl_next_partno ls
            else pl_parts ls' = pl_parts ls)))"

lemma list_all2_mono_in:
  "list_all2 P xs ys \<Longrightarrow> (\<And>x y. x \<in> set xs \<Longrightarrow> P x y \<Longrightarrow> Q x y) \<Longrightarrow> list_all2 Q xs ys"
  by (induction rule: list_all2_induct) auto

lemma entries_numbered:
  assumes "adds_used A used R f" and "{a..<b} \<subseteq> A" and "run_state (entries f [a..<b]) pr = (BLKID_PROBE_OK, q)" and "a \<le> b"
    and "pr_parts pr = Some ls" and "partlist_wf ls"
  shows "\<exists>ls' new. pr_parts q = Some ls' \<and> partlist_wf ls' \<and> pl_parts ls' = pl_parts ls @ new \<and>
    pl_next_partno ls' = pl_next_partno ls + int (b - a) \<and>
    list_all2 (\<lambda>i par. R i par \<and> pa_partno par = pl_next_partno ls + int (i - a)) (filter used [a..<b]) new"
  using assms(2-)
proof (induction "b - a" arbitrary: a pr ls)
  case 0
  then show ?case by (simp add: BLKID_PROBE_OK_def)
next
  case (Suc k)
  then have ab: "a < b" "[a..<b] = a # [Suc a..<b]" by (simp_all add: upt_conv_Cons)
  obtain ok p where p: "run_state (f a) pr = (ok, p)" by (metis surj_pair)
  have ok: "ok" "run_state (entries f [Suc a..<b]) p = (BLKID_PROBE_OK, q)"
    using Suc.prems(2) by (auto simp: ab(2) p ENOMEM_def BLKID_PROBE_OK_def split: if_splits)
  have "a \<in> A" using Suc.prems(1) ab(1) by auto
  then obtain l where l: "pr_parts p = Some l" "partlist_wf l" "pl_next_partno l = pl_next_partno ls + 1"
    "if used a then \<exists>par. pl_parts l = pl_parts ls @ [par] \<and> R a par \<and> pa_partno par = pl_next_partno ls
     else pl_parts l = pl_parts ls"
    using assms(1) [unfolded adds_used_def, rule_format, of a pr ls p] Suc.prems(4,5) p ok(1) by auto
  have "k = b - Suc a" "Suc a \<le> b" "{Suc a..<b} \<subseteq> A" using Suc.hyps(2) Suc.prems(1) ab(1) by auto
  from Suc.hyps(1) [OF this(1,3) ok(2) this(2) l(1,2)] obtain ls' new where n: "pr_parts q = Some ls'" "partlist_wf ls'"
    "pl_parts ls' = pl_parts l @ new" "pl_next_partno ls' = pl_next_partno l + int (b - Suc a)"
    "list_all2 (\<lambda>i par. R i par \<and> pa_partno par = pl_next_partno l + int (i - Suc a)) (filter used [Suc a..<b]) new"
    by blast
  have later: "list_all2 (\<lambda>i par. R i par \<and> pa_partno par = pl_next_partno ls + int (i - a)) (filter used [Suc a..<b]) new"
    using n(5) by (rule list_all2_mono_in) (auto simp: l(3))
  have num: "pl_next_partno ls' = pl_next_partno ls + int (b - a)" using n(4) l(3) ab(1) by simp
  show ?case
  proof (cases "used a")
    case True
    then obtain par where "pl_parts l = pl_parts ls @ [par]" "R a par" "pa_partno par = pl_next_partno ls" using l(4) by auto
    then show ?thesis using True n later num by (intro exI [of _ ls'] exI [of _ "par # new"]) (simp add: ab(2))
  next
    case False
    then show ?thesis using l(4) n later num by (intro exI [of _ ls'] exI [of _ new]) (simp add: ab(2))
  qed
qed

lemma skip_entry_adds:
  assumes "pr_parts pr = Some ls" and "run_state skip_entry pr = (ok, q)"
  shows "ok \<and> q = pr\<lparr>pr_parts := Some (ls\<lparr>pl_next_partno := pl_next_partno ls + 1\<rparr>)\<rparr>"
  using assms by (auto simp: skip_entry_def blkid_partlist_increment_partno_def partlist_increment_partno_def blkid_probe_set_partlist_def)

lemma skip_or_add:
  assumes "\<And>i. i \<in> A \<Longrightarrow> \<not> used i \<Longrightarrow> f i = skip_entry"
    and "\<And>i. i \<in> A \<Longrightarrow> used i \<Longrightarrow> f i = add_entry tab (start i) (sz i) (g i)"
    and "\<And>i. i \<in> A \<Longrightarrow> changes_last (Q i) (g i)"
    and "\<And>i p q. Q i p q \<Longrightarrow> pa_tab q = pa_tab p \<and> pa_partno q = pa_partno p"
    and "\<And>i p q. Q i p q \<Longrightarrow> pa_start p = start i \<Longrightarrow> pa_size p = sz i \<Longrightarrow> pa_tab p = tab \<Longrightarrow> R i q"
  shows "adds_used A used R f"
  unfolding adds_used_def
proof (intro ballI allI impI)
  fix i pr ls q assume i: "i \<in> A" and s: "pr_parts pr = Some ls" "partlist_wf ls" "run_state (f i) pr = (True, q)"
  show "\<exists>ls'. pr_parts q = Some ls' \<and> partlist_wf ls' \<and> pl_next_partno ls' = pl_next_partno ls + 1 \<and>
      (if used i then \<exists>par. pl_parts ls' = pl_parts ls @ [par] \<and> R i par \<and> pa_partno par = pl_next_partno ls
       else pl_parts ls' = pl_parts ls)"
  proof (cases "used i")
    case True
    then have a: "run_state (add_entry tab (start i) (sz i) (g i)) pr = (True, q)" using s(3) assms(2) i by simp
    show ?thesis
      by (rule add_entry_result [OF s(1,2) assms(3) [OF i] _ a]) (use True assms(4,5) in auto)
  next
    case False
    then show ?thesis
      using skip_entry_adds [OF s(1), of True q] s(2,3) assms(1) i by (auto simp: partlist_wf_def)
  qed
qed

text \<open>The members of a DOS partition.\<close>

definition dos_par :: "string \<Rightarrow> partition \<Rightarrow> partition \<Rightarrow> bool" where
  "dos_par p par q \<longleftrightarrow>
     (\<exists>u. q = par\<lparr>pa_type := int (sys_ind p), pa_flags := of_nat (boot_ind p), pa_uuid := u\<rparr>)"

lemma dos_added_changes: "changes_last (dos_par p) (dos_added p)"
proof -
  have "changes_last (\<lambda>a d. \<exists>b. b = a\<lparr>pa_type := int (sys_ind p)\<rparr> \<and>
      (\<exists>c. c = b\<lparr>pa_flags := of_nat (boot_ind p)\<rparr> \<and> (\<exists>e. (\<exists>u. e = c\<lparr>pa_uuid := u\<rparr>) \<and> e = d))) (dos_added p)"
    unfolding dos_added_def blkid_partition_set_type_def blkid_partition_set_flags_def
    by (intro changes_last_bind changes_last_set changes_last_uuid changes_last_ret) auto
  then show ?thesis by (rule changes_last_weaken) (auto simp: dos_par_def)
qed

section \<open>The primary partitions of an MBR\<close>

definition dos_describes :: "string \<Rightarrow> u32 \<Rightarrow> nat \<Rightarrow> nat \<Rightarrow> partition \<Rightarrow> bool" where
  "dos_describes data ssf tab i par \<longleftrightarrow>
     (let p = mbr_get_partition data i in
      pa_start par = uint (dos_start ssf p) \<and> pa_size par = uint (dos_size ssf p) \<and>
      pa_type par = int (sys_ind p) \<and> pa_flags par = of_nat (boot_ind p) \<and> pa_tab par = tab)"

lemma dos_primary_adds:
  "adds_used UNIV (\<lambda>i. dos_size ssf (mbr_get_partition data i) \<noteq> 0) (dos_describes data ssf tab) (dos_primary data ssf tab)"
  by (rule skip_or_add [where g = "\<lambda>i. dos_added (mbr_get_partition data i)" and
        Q = "\<lambda>i. dos_par (mbr_get_partition data i)"])
     (auto simp: dos_primary_def Let_def dos_par_def dos_describes_def intro: dos_added_changes)


section \<open>The partitions of a GPT\<close>

definition gpt_taken :: "string \<Rightarrow> string \<Rightarrow> nat \<Rightarrow> bool" where
  "gpt_taken h ents i \<longleftrightarrow>
     (let e = drop (i * sizeof gpt_entry) ents in gpt_entry_used e \<and> gpt_entry_inside h e)"

definition gpt_describes :: "string \<Rightarrow> u64 \<Rightarrow> nat \<Rightarrow> nat \<Rightarrow> partition \<Rightarrow> bool" where
  "gpt_describes ents ssf tab i par \<longleftrightarrow>
     (let e = drop (i * sizeof gpt_entry) ents in
      pa_start par = sint (gpt_num ''starting_lba'' e * ssf) \<and> pa_size par = sint (gpt_entry_size e * ssf) \<and>
      pa_uuid par = blkid_unparse_uuid (swap_efi_guid (member gpt_entry ''unique_partition_guid'' e)) 37 \<and>
      pa_typestr par = blkid_unparse_uuid (swap_efi_guid (member gpt_entry ''partition_type_guid'' e)) 37 \<and>
      pa_flags par = gpt_num ''attributes'' e \<and> pa_tab par = tab)"

lemma gpt_partition_adds:
  assumes "A \<subseteq> {i. i * sizeof gpt_entry + sizeof gpt_entry \<le> length ents}"
  shows "adds_used A (gpt_taken h ents) (gpt_describes ents ssf tab) (gpt_partition h ents ssf tab)"
proof -
  have e: "sizeof gpt_entry = 128" by code_simp
  have b: "bytes_from ents (i * 128) 48 = ret (take 48 (drop (i * 128) ents))"
    "bytes_from ents (i * 128) 128 = ret (take 128 (drop (i * 128) ents))" if "i \<in> A" for i
    using assms that by (auto simp: bytes_from_def e)
  let ?e = "\<lambda>i. drop (i * 128) ents"
  let ?g = "\<lambda>i par. do {
     blkid_partition_set_utf8name par (member gpt_entry ''partition_name'' (?e i)) BLKID_ENC_UTF16LE;
     blkid_partition_set_uuid par (swap_efi_guid (member gpt_entry ''unique_partition_guid'' (?e i)));
     blkid_partition_set_type_uuid par (swap_efi_guid (member gpt_entry ''partition_type_guid'' (?e i)));
     blkid_partition_set_flags par (gpt_num ''attributes'' (?e i));
     ret () }"
  let ?Q = "\<lambda>i par q. \<exists>n. q = par\<lparr>pa_name := n,
     pa_uuid := blkid_unparse_uuid (swap_efi_guid (member gpt_entry ''unique_partition_guid'' (?e i))) 37,
     pa_typestr := blkid_unparse_uuid (swap_efi_guid (member gpt_entry ''partition_type_guid'' (?e i))) 37,
     pa_flags := gpt_num ''attributes'' (?e i)\<rparr>"
  have c: "changes_last (?Q i) (?g i)" for i
  proof -
    have "changes_last (\<lambda>p0 p4. \<exists>p1. p1 = p0\<lparr>pa_name := rtrim_whitespace (blkid_encode_to_utf8 BLKID_ENC_UTF16LE 128
          (member gpt_entry ''partition_name'' (?e i)))\<rparr> \<and>
        (\<exists>p2. p2 = p1\<lparr>pa_uuid := blkid_unparse_uuid (swap_efi_guid (member gpt_entry ''unique_partition_guid'' (?e i))) 37\<rparr> \<and>
        (\<exists>p3. p3 = p2\<lparr>pa_typestr := blkid_unparse_uuid (swap_efi_guid (member gpt_entry ''partition_type_guid'' (?e i))) 37\<rparr> \<and>
        (\<exists>p'. p' = p3\<lparr>pa_flags := gpt_num ''attributes'' (?e i)\<rparr> \<and> p' = p4)))) (?g i)"
      unfolding blkid_partition_set_utf8name_def blkid_partition_set_uuid_def blkid_partition_set_type_uuid_def
        blkid_partition_set_flags_def
      by (intro changes_last_bind changes_last_set changes_last_ret) auto
    then show ?thesis by (rule changes_last_weaken) auto
  qed
  show ?thesis
    by (rule skip_or_add [where g = ?g and Q = ?Q])
       (auto simp: gpt_partition_def Let_def gpt_taken_def gpt_describes_def e b intro: c)
qed


section \<open>A boot record that leads to itself\<close>

lemma add_partition_succeeds:
  assumes "\<And>n. alloc n" and "partlist_wf ls" and "tab < length (pl_tabs ls)"
  shows "\<exists>r ls'. partlist_add_partition alloc ls tab start sz = Inr (Some r, ls')"
proof -
  have "with_room alloc ls \<noteq> None" using assms(1) by (simp add: with_room_def)
  then obtain l0 where w: "with_room alloc ls = Some l0" by blast
  note f = with_room_facts [OF w]
  show ?thesis
    using assms(3) f(2,3)
    by (simp add: partlist_add_partition_def new_partition_def w partlist_increment_partno_def Let_def
        change_partition_def partition_at_def live_partref_def)
qed

lemma add_entry_succeeds:
  assumes "\<And>n. md_alloc (pr_medium pr) n" and "pr_parts pr = Some ls" and "partlist_wf ls" and "tab < length (pl_tabs ls)"
  shows "\<exists>q. run_state (add_entry tab start sz f) pr = (True, q)"
proof -
  obtain r ls' where a: "partlist_add_partition (md_alloc (pr_medium pr)) ls tab start sz = Inr (Some r, ls')"
    using add_partition_succeeds [of "md_alloc (pr_medium pr)", OF assms(1,3,4)] by blast
  show ?thesis
    by (simp add: add_entry_def blkid_partlist_add_partition_def on_partlist_run assms(2) a split_beta)
qed

text \<open>A probe on an image, with a list that has at least \<open>n\<close> partitions and the table \<open>tab\<close>.\<close>

definition collecting :: "string \<Rightarrow> nat \<Rightarrow> nat \<Rightarrow> probe \<Rightarrow> bool" where
  "collecting content tab n pr \<longleftrightarrow>
     on_image content pr \<and> pr_fault pr = None \<and>
     (\<exists>ls. pr_parts pr = Some ls \<and> partlist_wf ls \<and> tab < length (pl_tabs ls) \<and> n \<le> length (pl_parts ls))"

lemma collecting_add:
  assumes "collecting content tab n pr"
  obtains q where "run_state (add_entry tab start sz (dos_added p)) pr = (True, q)" and "collecting content tab (n + 1) q"
proof -
  from assms obtain ls where ls: "pr_parts pr = Some ls" "partlist_wf ls" "tab < length (pl_tabs ls)" "n \<le> length (pl_parts ls)"
    by (auto simp: collecting_def)
  have "md_alloc (pr_medium pr) k" for k using assms by (simp add: collecting_def on_image_def image_medium_def)
  then obtain q where q: "run_state (add_entry tab start sz (dos_added p)) pr = (True, q)"
    using add_entry_succeeds ls(1-3) by blast
  have "collecting content tab (n + 1) q"
  proof (rule add_entry_result [OF ls(1,2) dos_added_changes _ q])
    show "pa_tab b = pa_tab a" if "dos_par p a b" for a b using that by (auto simp: dos_par_def)
  next
    fix par par' ls'
    assume "q = pr\<lparr>pr_parts := Some ls'\<rparr>" "partlist_wf ls'" "pl_parts ls' = pl_parts ls @ [par']"
      "length (pl_tabs ls') = length (pl_tabs ls)"
    then show ?thesis using assms ls by (auto simp: collecting_def on_image_def)
  qed
  then show thesis using that q by blast
qed

lemma ebr_data_collects:
  "collecting content tab n pr \<Longrightarrow>
     \<exists>a q. run_state (ebr_data ex tab s z data is added) pr = ((True, a), q) \<and> collecting content tab n q \<and> (added \<longrightarrow> a)"
proof (induction "is" arbitrary: pr added)
  case Nil
  then show ?case by simp
next
  case (Cons i "is")
  show ?case
  proof (cases "ebr_is_data ex s z i (mbr_get_partition data i)")
    case True
    obtain q where q: "run_state (add_entry tab (uint (s + dos_start (ex_ssf ex) (mbr_get_partition data i)))
        (uint (dos_size (ex_ssf ex) (mbr_get_partition data i))) (dos_added (mbr_get_partition data i))) pr = (True, q)"
      "collecting content tab (n + 1) q"
      using collecting_add [OF Cons.prems] by blast
    then have "collecting content tab n q" by (auto simp: collecting_def)
    from Cons.IH [OF this, of True] show ?thesis using True q(1) by (auto simp: Let_def)
  next
    case False
    then show ?thesis using Cons.IH [OF Cons.prems] by (simp add: Let_def)
  qed
qed

text \<open>
  The boot record at sector \<open>s\<close> has a data partition as its first entry, and its link leads back
  to the sector.
\<close>

definition links_to_itself :: "string \<Rightarrow> ebr_place \<Rightarrow> u32 \<Rightarrow> bool" where
  "links_to_itself content ex s \<longleftrightarrow>
     (case direct_read content (int (unat s) * 512) 512 of
        NoBuf e \<Rightarrow> False
      | Buf data \<Rightarrow>
          mbr_is_valid_magic data \<and> dos_size (ex_ssf ex) (mbr_get_partition data 0) \<noteq> 0 \<and>
          \<not> is_extended (mbr_get_partition data 0) \<and>
          (case ebr_link ex data of
             None \<Rightarrow> False | Some i \<Rightarrow> ex_start ex + dos_start (ex_ssf ex) (mbr_get_partition data i) = s))"

lemma get_buffer_parts: "pr_parts (snd (run_state (blkid_probe_get_buffer off len) pr)) = pr_parts pr"
  by (simp add: blkid_probe_get_buffer_def split_beta)

lemma collecting_read:
  assumes "collecting content tab n pr"
  obtains q where "run_state (blkid_probe_get_sector k) pr = (direct_read content (int k * 512) 512, q)"
    and "collecting content tab n q"
proof -
  have l: "0 \<le> int k * 512" "(0::int) < 512" "512 \<le> ULONG_MAX - sizeof_bufinfo" by (simp_all add: ULONG_MAX_def sizeof_bufinfo_def)
  have "on_image content pr" using assms by (simp add: collecting_def)
  from on_image_read [OF this l] obtain q where
    q: "run_state (blkid_probe_get_buffer (int k * 512) 512) pr = (direct_read content (int k * 512) 512, q)"
      "on_image content q" "pr_fault q = pr_fault pr" by blast
  then have "pr_parts q = pr_parts pr" using get_buffer_parts [of "int k * 512" 512 pr] by simp
  then show thesis using that q assms by (simp add: blkid_probe_get_sector_def collecting_def)
qed

text \<open>C16. An extended boot record with a data partition that links to itself keeps
  \<open>parse_dos_extended\<close> busy for as long as memory lasts: whatever number of rounds is allowed, all
  of them are made, and every one adds a partition to the list.\<close>

theorem ebr_loop_grows:
  assumes "links_to_itself content ex s" and "collecting content tab 0 pr"
  shows "collecting content tab n
      ((snd (run_state (parse_dos_extended n ex tab s z 0) pr))\<lparr>pr_fault := None\<rparr>) \<and>
    pr_fault (snd (run_state (parse_dos_extended n ex tab s z 0) pr)) = Some Endless"
proof -
  have "collecting content tab (m + n)
      ((snd (run_state (parse_dos_extended n ex tab s z 0) pr))\<lparr>pr_fault := None\<rparr>) \<and>
    pr_fault (snd (run_state (parse_dos_extended n ex tab s z 0) pr)) = Some Endless"
    if "collecting content tab m pr" for m z pr
    using that
  proof (induction n arbitrary: m z pr)
    case 0
    then show ?case by (auto simp: fault_def collecting_def on_image_def)
  next
    case (Suc n)
    from assms(1) obtain data i where d: "direct_read content (int (unat s) * 512) 512 = Buf data" "mbr_is_valid_magic data"
      "ebr_is_data ex s z 0 (mbr_get_partition data 0)" "ebr_link ex data = Some i"
      "ex_start ex + dos_start (ex_ssf ex) (mbr_get_partition data i) = s"
      by (auto simp: links_to_itself_def ebr_is_data_def Let_def split: buf.splits option.splits)
    obtain q where q: "run_state (blkid_probe_get_sector (unat s)) pr = (Buf data, q)" "collecting content tab m q"
      using collecting_read [OF Suc.prems, of "unat s"] d(1) by auto
    obtain q1 where q1: "run_state (add_entry tab (uint (s + dos_start (ex_ssf ex) (mbr_get_partition data 0)))
        (uint (dos_size (ex_ssf ex) (mbr_get_partition data 0))) (dos_added (mbr_get_partition data 0))) q = (True, q1)"
      "collecting content tab (m + 1) q1"
      using collecting_add [OF q(2)] by blast
    obtain q2 where q2: "run_state (ebr_data ex tab s z data [1, 2, 3] True) q1 = ((True, True), q2)" "collecting content tab (m + 1) q2"
      using ebr_data_collects [OF q1(2), of ex s z data "[1, 2, 3]" True] by auto
    have "[0..<4] = 0 # [1, 2, 3 :: nat]" by (simp add: upt_rec)
    then have "run_state (ebr_data ex tab s z data [0..<4] False) q = ((True, True), q2)"
      using d(3) q1(1) q2(1) by (simp add: Let_def)
    then have "run_state (parse_dos_extended (Suc n) ex tab s z 0) pr =
        run_state (parse_dos_extended n ex tab s (dos_size (ex_ssf ex) (mbr_get_partition data i)) 0) q2"
      using d q(1) by (simp add: Let_def)
    then show ?case using Suc.IH [OF q2(2)] by (simp add: algebra_simps)
  qed
  from this [OF assms(2)] show ?thesis by simp
qed

section \<open>What a GPT header must satisfy\<close>

theorem gpt_header_checked:
  assumes "run_state (get_gpt_header lba lastlba) pr = (Inr (hdr, ents), q)"
  shows "\<exists>h. hdr = take 92 h \<and> gpt_header_crc_ok h \<and> gpt64 ''my_lba'' h = lba \<and>
    gpt64 ''first_usable_lba'' h \<le> gpt64 ''last_usable_lba'' h \<and> gpt64 ''last_usable_lba'' h \<le> lastlba \<and>
    (\<exists>esz. gpt_entries_size h = Some esz \<and>
      count_crc32 (take esz ents) = of_nat (le_member gpt_header ''partition_entry_array_crc32'' h))"
proof -
  have z: "sizeof gpt_header = 92" by code_simp
  obtain ssz p where 1: "run_state blkid_probe_get_sectorsize pr = (ssz, p)" by (metis surj_pair)
  obtain r p1 where 2: "run_state (get_lba_buffer lba ssz) p = (r, p1)" by (metis surj_pair)
  obtain h where r: "r = Inr h" using assms 1 2 by (cases r) (auto simp: get_gpt_header_def)
  obtain sig p2 where 3: "run_state (bytes_from h 0 8) p1 = (sig, p2)" by (metis surj_pair)
  obtain n p3 where 4: "run_state (bytes_from h (offset_of ''header_size'' gpt_header) 4) p2 = (n, p3)" by (metis surj_pair)
  from assms 1 2 r 3 4 obtain esz where c: "gpt_header_crc_ok h" "gpt64 ''my_lba'' h = lba" "gpt_range_ok h lba lastlba"
    "gpt_entries_size h = Some esz"
    by (auto simp: get_gpt_header_def Let_def split: if_splits option.splits)
  obtain r2 p4 where 5: "run_state (get_lba_buffer (gpt64 ''partition_entries_lba'' h) esz) p3 = (r2, p4)" by (metis surj_pair)
  from assms 1 2 r 3 4 c 5 have "hdr = take 92 h \<and> count_crc32 (take esz ents) = of_nat (le_member gpt_header ''partition_entry_array_crc32'' h)"
    by (cases r2) (auto simp: get_gpt_header_def Let_def z split: if_splits)
  then show ?thesis using c by (auto simp: gpt_range_ok_def Let_def not_less)
qed

section \<open>What is left of the probe\<close>

text \<open>A probe stays well-formed whatever the partitions chain finds, nested tables
  and the details of a partition included.\<close>

theorem partitions_keep_wf:
  "run_state (partitions_probe env pt_idinfos) pr = (rc, q) \<Longrightarrow> probe_wf pr \<Longrightarrow> probe_wf q"
  by (rule keeps_run [OF wf_pt.probe [OF pt_idinfos_behave]])

lemma on_clone_rest:
  assumes "run_state (on_clone m) pr = (x, q)"
  shows "pr_vals q = pr_vals pr \<and> pr_parts q = pr_parts pr \<and> pr_topology q = pr_topology pr"
  using assms by (auto simp: on_clone_def resume_def Let_def split: if_splits prod.splits)

lemma covered_run:
  assumes "run_state (blkid_probe_is_covered_by_pt iis off sz) pr = (b, q)"
  obtains "q = pr" "b = False"
  | ls where "run_state (on_clone (blkid_probe_get_partitions iis)) pr = (ls, q)"
    and "b = (case ls of Some (Some l) \<Rightarrow> covered_by l (pr_size pr) off sz | _ \<Rightarrow> False)"
  using assms by (auto simp: blkid_probe_is_covered_by_pt_def split: if_splits option.splits prod.splits)

text \<open>C17. Asking whether an area is covered by a partition leaves the values, the list
  of partitions and the frame of the probe alone, and keeps the cache of buffers in step with the
  device, which the clone that looks for partitions shares.\<close>

theorem covered_leaves_probe:
  assumes "run_state (blkid_probe_is_covered_by_pt pt_idinfos off sz) pr = (b, q)" and "cache_ok content pr"
  shows "pr_vals q = pr_vals pr \<and> pr_parts q = pr_parts pr \<and> probe_frame q = probe_frame pr \<and> cache_ok content q"
proof -
  have "probe_frame q = probe_frame pr"
    by (rule keeps_run [OF frame_clone.covered [OF pt_idinfos_behave] assms(1)]) simp
  moreover have "cache_ok content q"
    by (rule keeps_run [OF cached_clone.covered [OF pt_idinfos_behave] assms])
  moreover have "pr_vals q = pr_vals pr \<and> pr_parts q = pr_parts pr"
    using assms(1) by (rule covered_run) (auto dest: on_clone_rest)
  ultimately show ?thesis by blast
qed

section \<open>Witnesses\<close>

text \<open>
  A boot record with a data partition of one sector and a link to itself, a list with one table,
  and an entry of a GPT.
\<close>

definition ebr_image :: string where
  "ebr_image = replicate 446 NUL @
     [NUL, NUL, NUL, NUL, CHR 0x83, NUL, NUL, NUL, NUL, NUL, NUL, NUL, CHR 0x01, NUL, NUL, NUL] @
     [NUL, NUL, NUL, NUL, CHR 0x05, NUL, NUL, NUL, NUL, NUL, NUL, NUL, CHR 0x01, NUL, NUL, NUL] @
     replicate 32 NUL @ [CHR 0x55, CHR 0xAA]"

definition one_table :: partlist where
  "one_table = zero_partlist\<lparr>pl_next_partno := 1, pl_tabs := [\<lparr>pt_type = ''dos'', pt_offset = 0, pt_nparts = 0,
     pt_parent = None, pt_id = []\<rparr>]\<rparr>"

definition listed_probe :: probe where
  "listed_probe = (image_probe ebr_image [])\<lparr>pr_parts := Some one_table\<rparr>"

lemma one_table_wf: "partlist_wf one_table" "pl_next_partno one_table = 1"
  by (simp_all add: partlist_wf_def one_table_def zero_partlist_def)

lemma listed_probe_facts: "collecting ebr_image 0 0 listed_probe" "pr_parts listed_probe = Some one_table"
proof -
  have "ebr_image \<noteq> []" by (simp add: ebr_image_def)
  then have "on_image ebr_image (image_probe ebr_image [])" by (rule on_image_fresh)
  then show "collecting ebr_image 0 0 listed_probe"
    using one_table_wf
    by (simp add: collecting_def listed_probe_def on_image_def one_table_def image_probe_def blkid_new_probe_def)
qed (simp add: listed_probe_def)

theorem ebr_loop_grows_witness:
  "pr_fault (snd (run_state (parse_dos_extended 1000 \<lparr>ex_start = 0, ex_size = 1, ex_ssf = 1\<rparr> 0 0 1 0) listed_probe)) =
     Some Endless"
proof -
  have "links_to_itself ebr_image \<lparr>ex_start = 0, ex_size = 1, ex_ssf = 1\<rparr> 0" by code_simp
  from ebr_loop_grows [OF this listed_probe_facts(1), of 1000 1] show ?thesis by blast
qed


definition sample_gpt_header :: string where
  "sample_gpt_header = replicate 40 NUL @ le_bytes 8 5 @ le_bytes 8 100 @ replicate 36 NUL"

definition sample_gpt_entry :: string where
  "sample_gpt_entry = replicate 16 CHR 0x01 @ replicate 16 CHR 0x02 @ le_bytes 8 10 @ le_bytes 8 19 @ replicate 80 NUL"


theorem partitions_keep_wf_witness:
  "\<exists>rc q. run_state (partitions_probe \<lparr>pe_disk = (\<lambda>_. None), pe_sysfs = (\<lambda>_. None)\<rparr> pt_idinfos)
      (image_probe [] (map (\<lambda>i. \<lparr>cd_id = i, cd_name = [], cd_dflt_flags = 0, cd_dflt_enabled = True,
        cd_has_fltr = True, cd_idinfos = []\<rparr>) [0, 1, 2])) = (rc, q) \<and> probe_wf q"
proof -
  let ?pr = "image_probe [] (map (\<lambda>i. \<lparr>cd_id = i, cd_name = [], cd_dflt_flags = 0, cd_dflt_enabled = True,
        cd_has_fltr = True, cd_idinfos = []\<rparr>) [0, 1, 2])"
  have w: "probe_wf ?pr"
    by (auto simp: probe_wf_def image_probe_def blkid_new_probe_def BLKID_CHAIN_defs new_chain_def nth_Cons' less_Suc_eq)
  obtain rc q where r: "run_state (partitions_probe \<lparr>pe_disk = (\<lambda>_. None), pe_sysfs = (\<lambda>_. None)\<rparr> pt_idinfos) ?pr = (rc, q)"
    by (metis surj_pair)
  from partitions_keep_wf [OF r w] r show ?thesis by blast
qed

theorem covered_leaves_probe_witness:
  "\<exists>b q. run_state (blkid_probe_is_covered_by_pt pt_idinfos 0 512) listed_probe = (b, q) \<and> pr_parts q = Some one_table"
proof -
  have c: "cache_ok ebr_image listed_probe"
    by (auto simp: listed_probe_def image_probe_def blkid_new_probe_def cache_ok_def image_reads_agree areas_def coherent_def)
  obtain b q where r: "run_state (blkid_probe_is_covered_by_pt pt_idinfos 0 512) listed_probe = (b, q)" by (metis surj_pair)
  from covered_leaves_probe [OF r c] r listed_probe_facts(2) show ?thesis by auto
qed

end
