(* ===== verification/SbRaid.thy ===== *)
theory SbRaid
  imports SbTools
begin

text \<open>
  The probing functions for members of RAID arrays, src/lib/libblkid/src/superblocks/*_raid.c:
  the metadata is in one of the last sectors of a disk, or at a fixed place.
\<close>

section \<open>LSI MegaRAID\<close>

definition lsi_metadata :: "(string \<times> nat) list" where
  "lsi_metadata = [(''sig'', 6)]"

definition probe_lsiraid :: "idmag option \<Rightarrow> int prober" where
  "probe_lsiraid mag = raid_member 0x10000 (do {
     off \<leftarrow> gets (\<lambda>pr. last_sector pr 1);
     with_buf off (sizeof lsi_metadata) (\<lambda>lsi.
       if member lsi_metadata ''sig'' lsi \<noteq> ''$XIDE$'' then ret 1
       else or_none (blkid_probe_set_magic off (member lsi_metadata ''sig'' lsi)) (ret 0))
   })"

definition lsiraid_idinfo :: idinfo where
  "lsiraid_idinfo = \<lparr>ii_name = ''lsi_mega_raid_member'', ii_usage = BLKID_USAGE_RAID, ii_flags = 0,
     ii_minsz = 0, ii_probefunc = Some probe_lsiraid, ii_magics = []\<rparr>"

section \<open>NVIDIA RAID\<close>

definition nv_metadata :: "(string \<times> nat) list" where
  "nv_metadata = [(''vendor'', 8), (''size'', 4), (''chksum'', 4), (''version'', 2)]"

definition probe_nvraid :: "idmag option \<Rightarrow> int prober" where
  "probe_nvraid mag = raid_member 0x10000 (do {
     off \<leftarrow> gets (\<lambda>pr. last_sector pr 2);
     with_buf off (sizeof nv_metadata) (\<lambda>nv.
       if take 6 (member nv_metadata ''vendor'' nv) \<noteq> ''NVIDIA'' then ret 1
       else or_none (blkid_probe_sprintf_version (show_nat (le_member nv_metadata ''version'' nv)))
         (or_none (blkid_probe_set_magic off (member nv_metadata ''vendor'' nv)) (ret 0)))
   })"

definition nvraid_idinfo :: idinfo where
  "nvraid_idinfo = \<lparr>ii_name = ''nvidia_raid_member'', ii_usage = BLKID_USAGE_RAID, ii_flags = 0,
     ii_minsz = 0, ii_probefunc = Some probe_nvraid, ii_magics = []\<rparr>"

section \<open>JMicron RAID\<close>

definition jm_metadata :: "(string \<times> nat) list" where
  "jm_metadata = [(''signature'', 2), (''minor_version'', 1), (''major_version'', 1), (''checksum'', 2)]"

definition probe_jmraid :: "idmag option \<Rightarrow> int prober" where
  "probe_jmraid mag = raid_member 0x10000 (do {
     off \<leftarrow> gets (\<lambda>pr. last_sector pr 1);
     with_buf off (sizeof jm_metadata) (\<lambda>jm.
       if member jm_metadata ''signature'' jm \<noteq> ''JM'' then ret 1
       else or_none (blkid_probe_sprintf_version (show_nat (le_member jm_metadata ''major_version'' jm)
                @ ''.'' @ show_nat (le_member jm_metadata ''minor_version'' jm)))
         (or_none (blkid_probe_set_magic off (member jm_metadata ''signature'' jm)) (ret 0)))
   })"

definition jmraid_idinfo :: idinfo where
  "jmraid_idinfo = \<lparr>ii_name = ''jmicron_raid_member'', ii_usage = BLKID_USAGE_RAID, ii_flags = 0,
     ii_minsz = 0, ii_probefunc = Some probe_jmraid, ii_magics = []\<rparr>"

section \<open>Intel RAID\<close>

definition isw_metadata :: "(string \<times> nat) list" where
  "isw_metadata = [(''sig'', 32), (''check_sum'', 4), (''mpb_size'', 4), (''family_num'', 4),
     (''generation_num'', 4)]"

definition ISW_SIGNATURE :: string where "ISW_SIGNATURE = ''Intel Raid ISM Cfg Sig. ''"

text \<open>The version is a C string that begins inside \<open>sig\<close> and need not end there.\<close>

definition probe_iswraid :: "idmag option \<Rightarrow> int prober" where
  "probe_iswraid mag = raid_member 0x10000 (do {
     off \<leftarrow> gets (\<lambda>pr. last_sector pr 2);
     with_buf off (sizeof isw_metadata) (\<lambda>isw.
       if take (length ISW_SIGNATURE) (member isw_metadata ''sig'' isw) \<noteq> ISW_SIGNATURE then ret 1
       else do {
         let version = drop (length ISW_SIGNATURE) isw;
         flags \<leftarrow> chain_flags;
         (if has_flag flags BLKID_SUBLKS_VERSION then ends_inside version else ret ());
         or_none (blkid_probe_sprintf_version (pad_left 6 (cstr version)))
           (or_none (blkid_probe_set_magic off (member isw_metadata ''sig'' isw)) (ret 0))
       })
   })"

definition iswraid_idinfo :: idinfo where
  "iswraid_idinfo = \<lparr>ii_name = ''isw_raid_member'', ii_usage = BLKID_USAGE_RAID, ii_flags = 0,
     ii_minsz = 0, ii_probefunc = Some probe_iswraid, ii_magics = []\<rparr>"

section \<open>Promise FastTrack\<close>

definition promise_metadata :: "(string \<times> nat) list" where
  "promise_metadata = [(''sig'', 24)]"

definition PDC_SIGNATURE :: string where "PDC_SIGNATURE = ''Promise Technology, Inc.''"

definition pdc_sectors :: "int list" where
  "pdc_sectors = [63, 255, 256, 16, 399, 591, 675, 735, 911, 974, 991, 951, 3087]"

fun pdc_loop :: "int list \<Rightarrow> int prober" where
  "pdc_loop [] = ret 1"
| "pdc_loop (n # ns) =
     do {
       off \<leftarrow> gets (\<lambda>pr. last_sector pr n);
       with_buf off (sizeof promise_metadata) (\<lambda>pdc.
         if member promise_metadata ''sig'' pdc = PDC_SIGNATURE
         then or_none (blkid_probe_set_magic off (member promise_metadata ''sig'' pdc)) (ret 0)
         else pdc_loop ns)
     }"

definition probe_pdcraid :: "idmag option \<Rightarrow> int prober" where
  "probe_pdcraid mag = raid_member 0x40000 (pdc_loop pdc_sectors)"

definition pdcraid_idinfo :: idinfo where
  "pdcraid_idinfo = \<lparr>ii_name = ''promise_fasttrack_raid_member'', ii_usage = BLKID_USAGE_RAID, ii_flags = 0,
     ii_minsz = 0, ii_probefunc = Some probe_pdcraid, ii_magics = []\<rparr>"

section \<open>HighPoint RAID\<close>

definition hpt45x_metadata :: "(string \<times> nat) list" where
  "hpt45x_metadata = [(''magic'', 4)]"

definition probe_highpoint45x :: "idmag option \<Rightarrow> int prober" where
  "probe_highpoint45x mag = raid_member 0x10000 (do {
     off \<leftarrow> gets (\<lambda>pr. last_sector pr 11);
     with_buf off (sizeof hpt45x_metadata) (\<lambda>hpt.
       let magic = le_member hpt45x_metadata ''magic'' hpt in
       if magic \<noteq> 0x5a7816f3 \<and> magic \<noteq> 0x5a7816fd then ret 1
       else or_none (blkid_probe_set_magic off (member hpt45x_metadata ''magic'' hpt)) (ret 0))
   })"

definition probe_highpoint37x :: "idmag option \<Rightarrow> int prober" where
  "probe_highpoint37x mag = disk_or_file (ret 0)"

definition highpoint45x_idinfo :: idinfo where
  "highpoint45x_idinfo = \<lparr>ii_name = ''hpt45x_raid_member'', ii_usage = BLKID_USAGE_RAID, ii_flags = 0,
     ii_minsz = 0, ii_probefunc = Some probe_highpoint45x, ii_magics = []\<rparr>"

definition highpoint37x_idinfo :: idinfo where
  "highpoint37x_idinfo = \<lparr>ii_name = ''hpt37x_raid_member'', ii_usage = BLKID_USAGE_RAID, ii_flags = 0,
     ii_minsz = 0, ii_probefunc = Some probe_highpoint37x,
     ii_magics = [magic_at 4 544 [CHR 0xF0, CHR 0x16, CHR 0x78, CHR 0x5A],
       magic_at 4 544 [CHR 0xFD, CHR 0x16, CHR 0x78, CHR 0x5A]]\<rparr>"

section \<open>VIA RAID\<close>

definition via_metadata :: "(string \<times> nat) list" where
  "via_metadata = [(''signature'', 2), (''version_number'', 1), (''array'', 15),
     (''serial_checksum'', 32), (''checksum'', 1)]"

text \<open>The sum of the first 50 bytes, from the last to the first, in 8 bits.\<close>

fun via_sum :: "nat \<Rightarrow> string \<Rightarrow> 8 word \<Rightarrow> 8 word" where
  "via_sum 0 v cs = cs"
| "via_sum (Suc i) v cs = via_sum i v (cs + of_char (v ! i))"

definition via_checksum :: "string \<Rightarrow> 8 word" where
  "via_checksum v = via_sum 50 v 0"

definition probe_viaraid :: "idmag option \<Rightarrow> int prober" where
  "probe_viaraid mag = raid_member 0x10000 (do {
     off \<leftarrow> gets (\<lambda>pr. last_sector pr 1);
     with_buf off (sizeof via_metadata) (\<lambda>v.
       if le_member via_metadata ''signature'' v \<noteq> 0xAA55 then ret 1
       else if le_member via_metadata ''version_number'' v > 2 then ret 1
       else do {
         ok \<leftarrow> blkid_probe_verify_csum (ucast (via_checksum v)) (of_nat (le_member via_metadata ''checksum'' v));
         if \<not> ok then ret 1
         else or_none (blkid_probe_sprintf_version (show_nat (le_member via_metadata ''version_number'' v)))
           (or_none (blkid_probe_set_magic off (member via_metadata ''signature'' v)) (ret 0))
       })
   })"

definition viaraid_idinfo :: idinfo where
  "viaraid_idinfo = \<lparr>ii_name = ''via_raid_member'', ii_usage = BLKID_USAGE_RAID, ii_flags = 0,
     ii_minsz = 0, ii_probefunc = Some probe_viaraid, ii_magics = []\<rparr>"

section \<open>Adaptec RAID\<close>

definition adaptec_metadata :: "(string \<times> nat) list" where
  "adaptec_metadata =
    [(''b0idcode'', 4), (''lunsave'', 8), (''sdtype'', 2), (''ssavecyl'', 2), (''ssavehed'', 1),
     (''ssavesec'', 1), (''sb0flags'', 1), (''jbodEnable'', 1), (''lundsave'', 1), (''svpdirty'', 1),
     (''biosInfo'', 2), (''svwbskip'', 2), (''svwbcln'', 2), (''svwbmax'', 2), (''res3'', 2),
     (''svwbmin'', 2), (''res4'', 2), (''svrcacth'', 2), (''svwcacth'', 2), (''svwbdly'', 2),
     (''svsdtime'', 1), (''res5'', 1), (''firmval'', 2), (''firmbln'', 2), (''firmblk'', 4),
     (''fstrsvrb'', 4), (''svBlockStorageTid'', 2), (''svtid'', 2), (''svseccfl'', 1), (''res6'', 1),
     (''svhbanum'', 1), (''resver'', 1), (''drivemagic'', 4), (''reserved'', 20), (''testnum'', 1),
     (''testflags'', 1), (''maxErrorCount'', 2), (''count'', 4), (''startTime'', 4), (''interval'', 4),
     (''tstxt0'', 1), (''tstxt1'', 1), (''serNum'', 32), (''res8'', 102), (''fwTestMagic'', 4),
     (''fwTestSeqNum'', 4), (''fwTestRes'', 8), (''smagic'', 4), (''raidtbl'', 4), (''raidline'', 2),
     (''res9'', 246)]"

definition probe_adraid :: "idmag option \<Rightarrow> int prober" where
  "probe_adraid mag = raid_member 0x10000 (do {
     off \<leftarrow> gets (\<lambda>pr. last_sector pr 1);
     with_buf off (sizeof adaptec_metadata) (\<lambda>ad.
       if be_member adaptec_metadata ''smagic'' ad \<noteq> 0x4450544D then ret 1
       else if be_member adaptec_metadata ''b0idcode'' ad \<noteq> 0x37FC4D1E then ret 1
       else or_none (blkid_probe_sprintf_version (show_nat (le_member adaptec_metadata ''resver'' ad)))
         (or_none (blkid_probe_set_magic off (member adaptec_metadata ''b0idcode'' ad)) (ret 0)))
   })"

definition adraid_idinfo :: idinfo where
  "adraid_idinfo = \<lparr>ii_name = ''adaptec_raid_member'', ii_usage = BLKID_USAGE_RAID, ii_flags = 0,
     ii_minsz = 0, ii_probefunc = Some probe_adraid, ii_magics = []\<rparr>"

section \<open>Silicon Image Medley\<close>

definition silicon_metadata :: "(string \<times> nat) list" where
  "silicon_metadata =
    [(''unknown0'', 46), (''ascii_version'', 8), (''diskname'', 32), (''unknown1'', 10), (''magic'', 4),
     (''unknown1a'', 8), (''array_sectors_low'', 4), (''array_sectors_high'', 4), (''unknown2'', 4),
     (''thisdisk_sectors'', 4), (''unknown3'', 132), (''unknown4'', 4), (''product_id'', 2),
     (''vendor_id'', 2), (''minor_ver'', 2), (''major_ver'', 2), (''seconds'', 1), (''minutes'', 1),
     (''hour'', 1), (''day'', 1), (''month'', 1), (''year'', 1), (''raid0_stride'', 2), (''unknown6'', 2),
     (''disk_number'', 1), (''type'', 1), (''drives_per_striped_set'', 1), (''striped_set_number'', 1),
     (''drives_per_mirrored_set'', 1), (''mirrored_set_number'', 1), (''rebuild_ptr_low'', 4),
     (''rebuild_ptr_high'', 4), (''incarnation_no'', 4), (''member_status'', 1),
     (''mirrored_set_state'', 1), (''reported_device_location'', 1), (''idechannel'', 1),
     (''auto_rebuild'', 1), (''unknown8'', 1), (''text_type'', 16), (''checksum1'', 2),
     (''assumed_zeros'', 190), (''checksum2'', 2)]"

text \<open>The sum of \<open>count\<close> little-endian 16 bit words.\<close>

fun sum_le16 :: "nat \<Rightarrow> string \<Rightarrow> int \<Rightarrow> int" where
  "sum_le16 0 p acc = acc"
| "sum_le16 (Suc count) p acc = sum_le16 count (drop 2 p) (acc + int (le_value (take 2 p)))"

definition silraid_checksum :: "string \<Rightarrow> 16 word" where
  "silraid_checksum sil = word_of_int (- sum_le16 (offset_of ''checksum1'' silicon_metadata div 2) sil 0)"

definition probe_silraid :: "idmag option \<Rightarrow> int prober" where
  "probe_silraid mag = raid_member 0x10000 (do {
     off \<leftarrow> gets (\<lambda>pr. last_sector pr 1);
     with_buf off (sizeof silicon_metadata) (\<lambda>sil.
       if le_member silicon_metadata ''magic'' sil \<noteq> 0x2F000000 then ret 1
       else if le_member silicon_metadata ''disk_number'' sil \<ge> 8 then ret 1
       else do {
         ok \<leftarrow> blkid_probe_verify_csum (ucast (silraid_checksum sil))
                 (of_nat (le_member silicon_metadata ''checksum1'' sil));
         if \<not> ok then ret 1
         else or_none (blkid_probe_sprintf_version (show_nat (le_member silicon_metadata ''major_ver'' sil)
                  @ ''.'' @ show_nat (le_member silicon_metadata ''minor_ver'' sil)))
           (or_none (blkid_probe_set_magic (off + int (offset_of ''magic'' silicon_metadata))
                  (member silicon_metadata ''magic'' sil)) (ret 0))
       })
   })"

definition silraid_idinfo :: idinfo where
  "silraid_idinfo = \<lparr>ii_name = ''silicon_medley_raid_member'', ii_usage = BLKID_USAGE_RAID, ii_flags = 0,
     ii_minsz = 0, ii_probefunc = Some probe_silraid, ii_magics = []\<rparr>"

section \<open>SNIA DDF\<close>

definition ddf_header :: "(string \<times> nat) list" where
  "ddf_header =
    [(''signature'', 4), (''crc'', 4), (''guid'', 24), (''ddf_rev'', 8), (''seq'', 4), (''timestamp'', 4),
     (''openflag'', 1), (''foreignflag'', 1), (''enforcegroups'', 1), (''pad0'', 1), (''pad1'', 12),
     (''header_ext'', 32), (''primary_lba'', 8), (''secondary_lba'', 8), (''type'', 1), (''pad2'', 3),
     (''workspace_len'', 4), (''workspace_lba'', 8), (''max_pd_entries'', 2), (''max_vd_entries'', 2),
     (''max_partitions'', 2), (''config_record_len'', 2), (''max_primary_element_entries'', 2),
     (''pad3'', 54), (''controller_section_offset'', 4), (''controller_section_length'', 4),
     (''phys_section_offset'', 4), (''phys_section_length'', 4), (''virt_section_offset'', 4),
     (''virt_section_length'', 4), (''config_section_offset'', 4), (''config_section_length'', 4),
     (''data_section_offset'', 4), (''data_section_length'', 4), (''bbm_section_offset'', 4),
     (''bbm_section_length'', 4), (''diag_space_offset'', 4), (''diag_space_length'', 4),
     (''vendor_offset'', 4), (''vendor_length'', 4), (''pad4'', 256)]"

definition DDF_MAGIC :: nat where "DDF_MAGIC = 0xDE11DE11"

definition ddf_big :: "string \<Rightarrow> bool" where
  "ddf_big ddf \<longleftrightarrow> be_member ddf_header ''signature'' ddf = DDF_MAGIC"

definition ddf_signed :: "string \<Rightarrow> bool" where
  "ddf_signed ddf \<longleftrightarrow> ddf_big ddf \<or> le_member ddf_header ''signature'' ddf = DDF_MAGIC"

text \<open>What follows the loop over \<open>hdrs\<close>, when a header has been found at \<open>off\<close>.\<close>

definition ddf_report :: "int \<Rightarrow> string \<Rightarrow> int prober" where
  "ddf_report off ddf =
     do {
       blkid_probe_strncpy_uuid (member ddf_header ''guid'' ddf) 24;
       or_none (blkid_probe_set_version (cstr (member ddf_header ''ddf_rev'' ddf)))
         (or_none (blkid_probe_set_magic off (member ddf_header ''signature'' ddf)) (ret 0))
     }"

text \<open>A 64 bit offset that is computed unsigned and passed on as a \<open>blkid_loff_t\<close>.\<close>

definition ddf_check :: "int \<Rightarrow> string \<Rightarrow> int prober" where
  "ddf_check off ddf =
     (let lba = (if ddf_big ddf then be_member ddf_header ''primary_lba'' ddf
                 else le_member ddf_header ''primary_lba'' ddf) in
      if lba > 0 then
        with_buf (to_loff (lba * 512)) 4 (\<lambda>buf.
          if buf \<noteq> member ddf_header ''signature'' ddf then ret 1 else ddf_report off ddf)
      else ddf_report off ddf)"

fun ddf_loop :: "int list \<Rightarrow> int prober" where
  "ddf_loop [] = ret 1"
| "ddf_loop (n # hdrs) =
     do {
       off \<leftarrow> gets (\<lambda>pr. last_sector pr n);
       with_buf off (sizeof ddf_header) (\<lambda>ddf.
         if ddf_signed ddf then ddf_check off ddf else ddf_loop hdrs)
     }"

definition probe_ddf :: "idmag option \<Rightarrow> int prober" where
  "probe_ddf mag =
     do {
       pr \<leftarrow> gets id;
       if pr_size pr < 0x30000 then ret 1 else ddf_loop [1, 257]
     }"

definition ddfraid_idinfo :: idinfo where
  "ddfraid_idinfo = \<lparr>ii_name = ''ddf_raid_member'', ii_usage = BLKID_USAGE_RAID, ii_flags = 0,
     ii_minsz = 0, ii_probefunc = Some probe_ddf, ii_magics = []\<rparr>"

section \<open>DRBD\<close>

definition md_on_disk_08 :: "(string \<times> nat) list" where
  "md_on_disk_08 =
    [(''la_sect'', 8), (''uuid'', 32), (''device_uuid'', 8), (''reserved_u64_1'', 8), (''flags'', 4),
     (''magic'', 4), (''md_size_sect'', 4), (''al_offset'', 4), (''al_nr_extents'', 4),
     (''bm_offset'', 4), (''bm_bytes_per_bit'', 4), (''reserved_u32'', 16), (''reserved'', 3996)]"

definition DRBD_MAGIC :: nat where "DRBD_MAGIC = 0x83740267"

definition probe_drbd :: "idmag option \<Rightarrow> int prober" where
  "probe_drbd mag =
     do {
       pr \<leftarrow> gets id;
       let off = pr_size pr - int (sizeof md_on_disk_08);
       if pr_size pr < 0x10000 then ret 1
       else with_buf off (sizeof md_on_disk_08) (\<lambda>md.
         let magic = be_member md_on_disk_08 ''magic'' md in
         if magic \<noteq> DRBD_MAGIC + 4 \<and> magic \<noteq> DRBD_MAGIC + 5 then ret 1
         else do {
           blkid_probe_sprintf_uuid (member md_on_disk_08 ''device_uuid'' md)
             (show_hex (be_member md_on_disk_08 ''device_uuid'' md));
           blkid_probe_set_version ''v08'';
           or_none (blkid_probe_set_magic (off + int (offset_of ''magic'' md_on_disk_08))
               (member md_on_disk_08 ''magic'' md)) (ret 0)
         })
     }"

definition drbd_idinfo :: idinfo where
  "drbd_idinfo = \<lparr>ii_name = ''drbd'', ii_usage = BLKID_USAGE_RAID, ii_flags = 0,
     ii_minsz = 0, ii_probefunc = Some probe_drbd, ii_magics = []\<rparr>"

definition log_header_t :: "(string \<times> nat) list" where
  "log_header_t = [(''magic'', 8), (''version'', 8), (''uuid'', 16), (''flags'', 8)]"

text \<open>The version is printed as a signed number.\<close>

definition probe_drbdproxy_datalog :: "idmag option \<Rightarrow> int prober" where
  "probe_drbdproxy_datalog mag =
     with_buf 0 (sizeof log_header_t) (\<lambda>lh. do {
       blkid_probe_set_uuid (member log_header_t ''uuid'' lh);
       blkid_probe_sprintf_version (''v'' @ show_int (to_loff (le_member log_header_t ''version'' lh)));
       ret 0
     })"

definition drbdproxy_datalog_idinfo :: idinfo where
  "drbdproxy_datalog_idinfo = \<lparr>ii_name = ''drbdproxy_datalog'', ii_usage = BLKID_USAGE_FILESYSTEM,
     ii_flags = 0, ii_minsz = 16 * 1024, ii_probefunc = Some probe_drbdproxy_datalog,
     ii_magics = [magic_at 0 0 ''DRBDdlh*'']\<rparr>"

section \<open>What the probing functions keep\<close>

context prober_inv
begin

lemma pdc_loop: "keeps I (pdc_loop ns)"
  by (induction ns) (auto intro!: tool_rules)

lemma ddf_report: "keeps I (ddf_report off ddf)"
  unfolding ddf_report_def by (intro tool_rules)

lemma ddf_check: "keeps I (ddf_check off ddf)"
  unfolding ddf_check_def by (intro tool_rules ddf_report)

lemma ddf_loop: "keeps I (ddf_loop hdrs)"
  by (induction hdrs) (auto intro!: tool_rules ddf_check)

lemma raids:
  "keeps I (probe_lsiraid mag)" "keeps I (probe_nvraid mag)" "keeps I (probe_jmraid mag)"
  "keeps I (probe_iswraid mag)" "keeps I (probe_pdcraid mag)" "keeps I (probe_highpoint45x mag)"
  "keeps I (probe_highpoint37x mag)" "keeps I (probe_viaraid mag)" "keeps I (probe_adraid mag)"
  "keeps I (probe_silraid mag)" "keeps I (probe_ddf mag)" "keeps I (probe_drbd mag)"
  "keeps I (probe_drbdproxy_datalog mag)"
  unfolding probe_lsiraid_def probe_nvraid_def probe_jmraid_def probe_iswraid_def probe_pdcraid_def
    probe_highpoint45x_def probe_highpoint37x_def probe_viaraid_def probe_adraid_def probe_silraid_def
    probe_ddf_def probe_drbd_def probe_drbdproxy_datalog_def
  by (intro tool_rules pdc_loop ddf_loop)+

end

lemma raids_behave:
  "behaves probe_lsiraid" "behaves probe_nvraid" "behaves probe_jmraid" "behaves probe_iswraid"
  "behaves probe_pdcraid" "behaves probe_highpoint45x" "behaves probe_highpoint37x" "behaves probe_viaraid"
  "behaves probe_adraid" "behaves probe_silraid" "behaves probe_ddf" "behaves probe_drbd"
  "behaves probe_drbdproxy_datalog"
  by (rule behavesI, erule prober_inv.raids)+

lemmas raid_idinfos = lsiraid_idinfo_def nvraid_idinfo_def jmraid_idinfo_def iswraid_idinfo_def
  pdcraid_idinfo_def highpoint45x_idinfo_def highpoint37x_idinfo_def viaraid_idinfo_def adraid_idinfo_def
  silraid_idinfo_def ddfraid_idinfo_def drbd_idinfo_def drbdproxy_datalog_idinfo_def

text \<open>The layouts agree with the sizes and offsets that the code relies on.\<close>

lemma raid_layouts:
  "sizeof via_metadata = 51" "sizeof adaptec_metadata = 512" "sizeof silicon_metadata = 512"
  "offset_of ''checksum1'' silicon_metadata = 0x13E" "offset_of ''magic'' silicon_metadata = 0x60"
  "sizeof ddf_header = 512" "sizeof md_on_disk_08 = 4096" "offset_of ''magic'' md_on_disk_08 = 60"
  by (simp_all add: sizeof_def via_metadata_def adaptec_metadata_def silicon_metadata_def
      ddf_header_def md_on_disk_08_def)

end
