(* ===== verification/SbMd.thy ===== *)
theory SbMd
  imports PtFacts SbRaid
begin

text \<open>
  The probing function for members of Linux RAID arrays,
  src/lib/libblkid/src/superblocks/linux_raid.c. A superblock of version 0 lies at the end of its
  device, where the superblock of a member that is the last partition lies as well; the function
  therefore asks the partitions chain whether the area belongs to a partition.
\<close>

definition mdp0_super_block :: "(string \<times> nat) list" where
  "mdp0_super_block = [(''md_magic'', 4), (''major_version'', 4), (''minor_version'', 4), (''patch_version'', 4),
     (''gvalid_words'', 4), (''set_uuid0'', 4), (''ctime'', 4), (''level'', 4), (''size'', 4), (''nr_disks'', 4),
     (''raid_disks'', 4), (''md_minor'', 4), (''not_persistent'', 4), (''set_uuid1'', 4), (''set_uuid2'', 4),
     (''set_uuid3'', 4)]"

text \<open>The struct of version 1 is not packed, but its members are aligned without gaps.\<close>

definition mdp1_super_block :: "(string \<times> nat) list" where
  "mdp1_super_block = [(''magic'', 4), (''major_version'', 4), (''feature_map'', 4), (''pad0'', 4), (''set_uuid'', 16),
     (''set_name'', 32), (''ctime'', 8), (''level'', 4), (''layout'', 4), (''size'', 8), (''chunksize'', 4),
     (''raid_disks'', 4), (''bitmap_offset'', 4), (''new_level'', 4), (''reshape_position'', 8), (''delta_disks'', 4),
     (''new_layout'', 4), (''new_chunk'', 4), (''pad1'', 4), (''data_offset'', 8), (''data_size'', 8),
     (''super_offset'', 8), (''recovery_offset'', 8), (''dev_number'', 4), (''cnt_corrected_read'', 4),
     (''device_uuid'', 16), (''devflags'', 1), (''pad2'', 7), (''utime'', 8), (''events'', 8), (''resync_offset'', 8),
     (''sb_csum'', 4), (''max_dev'', 4), (''pad3'', 32)]"

definition MD_RESERVED_BYTES :: int where "MD_RESERVED_BYTES = 0x10000"
definition MD_SB_MAGIC :: nat where "MD_SB_MAGIC = 0xa92b4efc"

section \<open>Version 0\<close>

text \<open>
  The numbers of a superblock are in the byte order of the machine that wrote it, the magic tells
  which; the words of the UUID are put in big-endian order.
\<close>

definition md0_order :: "string \<Rightarrow> bool option" where
  "md0_order mdp0 =
     (if le_member mdp0_super_block ''md_magic'' mdp0 = MD_SB_MAGIC then Some False
      else if be_member mdp0_super_block ''md_magic'' mdp0 = MD_SB_MAGIC then Some True
      else None)"

definition md0_num :: "bool \<Rightarrow> string \<Rightarrow> string \<Rightarrow> nat" where
  "md0_num big name mdp0 = (if big then be_member mdp0_super_block name mdp0 else le_member mdp0_super_block name mdp0)"

definition md0_uuid :: "bool \<Rightarrow> string \<Rightarrow> string" where
  "md0_uuid big mdp0 =
     (let word = (\<lambda>name. if big then member mdp0_super_block name mdp0 else rev (member mdp0_super_block name mdp0)) in
      word ''set_uuid0'' @
      (if md0_num big ''minor_version'' mdp0 \<ge> 90 then word ''set_uuid1'' @ word ''set_uuid2'' @ word ''set_uuid3''
       else replicate 12 NUL))"

definition md0_version :: "bool \<Rightarrow> string \<Rightarrow> string" where
  "md0_version big mdp0 = show_nat (md0_num big ''major_version'' mdp0) @ ''.'' @
     show_nat (md0_num big ''minor_version'' mdp0) @ ''.'' @ show_nat (md0_num big ''patch_version'' mdp0)"

definition md0_size :: "bool \<Rightarrow> string \<Rightarrow> int" where
  "md0_size big mdp0 = int (md0_num big ''size'' mdp0) * 1024"

text \<open>The superblock is not that of a partition.\<close>

definition md0_own :: "int \<Rightarrow> int \<Rightarrow> int prober \<Rightarrow> int prober" where
  "md0_own off sz m =
     do {
       pr \<leftarrow> gets id;
       whole \<leftarrow> (if S_ISREG (pr_mode pr) then ret True else blkid_probe_is_wholedisk);
       covered \<leftarrow> (if whole then blkid_probe_is_covered_by_pt pt_idinfos (off - sz) (sz + MD_RESERVED_BYTES)
                   else ret False);
       if covered then ret 1 else m
     }"

definition probe_raid0 :: "int \<Rightarrow> int prober" where
  "probe_raid0 off =
     do {
       pr \<leftarrow> gets id;
       if pr_size pr < MD_RESERVED_BYTES then ret 1
       else with_buf off (sizeof mdp0_super_block) (\<lambda>mdp0.
         case md0_order mdp0 of
           None \<Rightarrow> ret 1
         | Some big \<Rightarrow>
             let sz = md0_size big mdp0 in
             if pr_size pr < 0 \<or> pr_size pr < sz + MD_RESERVED_BYTES then ret 1
             else if off < 0 \<or> off < sz then ret 1
             else md0_own off sz
               (or_none (blkid_probe_sprintf_version (md0_version big mdp0))
               (or_none (blkid_probe_set_uuid (md0_uuid big mdp0))
               (or_none (blkid_probe_set_magic off (member mdp0_super_block ''md_magic'' mdp0)) (ret 0)))))
     }"

section \<open>Version 1\<close>

definition probe_raid1 :: "int \<Rightarrow> int prober" where
  "probe_raid1 off =
     with_buf off (sizeof mdp1_super_block) (\<lambda>mdp1.
       if le_member mdp1_super_block ''magic'' mdp1 \<noteq> MD_SB_MAGIC then ret 1
       else if le_member mdp1_super_block ''major_version'' mdp1 \<noteq> 1 then ret 1
       else if int (le_member mdp1_super_block ''super_offset'' mdp1) \<noteq> off div 512 then ret 1
       else
         or_none (blkid_probe_set_uuid (member mdp1_super_block ''set_uuid'' mdp1))
         (or_none (blkid_probe_set_uuid_as (member mdp1_super_block ''device_uuid'' mdp1) (Some ''UUID_SUB''))
         (or_none (blkid_probe_set_label (member mdp1_super_block ''set_name'' mdp1))
         (or_none (blkid_probe_set_magic off (member mdp1_super_block ''magic'' mdp1)) (ret 0)))))"

definition md_version_is :: "string \<Rightarrow> int prober" where
  "md_version_is ver = do { blkid_probe_set_version ver; ret BLKID_PROBE_OK }"

definition probe_raid_start :: "int prober" where
  "probe_raid_start =
     do {
       rc \<leftarrow> probe_raid1 0;
       if rc = 0 then md_version_is ''1.1''
       else if rc = BLKID_PROBE_NONE then do {
         rc \<leftarrow> probe_raid1 0x1000;
         if rc = 0 then md_version_is ''1.2'' else ret rc
       }
       else ret rc
     }"

definition probe_raid :: "idmag option \<Rightarrow> int prober" where
  "probe_raid mag =
     do {
       pr \<leftarrow> gets id;
       if pr_size pr > MD_RESERVED_BYTES then do {
         rc \<leftarrow> probe_raid0 (pr_size pr div MD_RESERVED_BYTES * MD_RESERVED_BYTES - MD_RESERVED_BYTES);
         if rc < 1 then ret rc
         else do {
           rc \<leftarrow> probe_raid1 (pr_size pr div 0x1000 * 0x1000 - 0x2000);
           if rc < 0 then ret rc
           else if rc = 0 then md_version_is ''1.0''
           else probe_raid_start
         }
       }
       else probe_raid_start
     }"

definition linuxraid_idinfo :: idinfo where
  "linuxraid_idinfo = \<lparr>ii_name = ''linux_raid_member'', ii_usage = BLKID_USAGE_RAID, ii_flags = 0,
     ii_minsz = 0, ii_probefunc = Some probe_raid, ii_magics = []\<rparr>"

section \<open>What it keeps\<close>

lemma md_layouts:
  "sizeof mdp0_super_block = 64" "sizeof mdp1_super_block = 256" "offset_of ''set_uuid1'' mdp0_super_block = 52"
  "offset_of ''super_offset'' mdp1_super_block = 144" "offset_of ''device_uuid'' mdp1_super_block = 168"
  by (simp_all add: sizeof_def mdp0_super_block_def mdp1_super_block_def)

context clone_inv
begin

lemma md0_owns: "keeps I m \<Longrightarrow> keeps I (md0_own off sz m)"
  unfolding md0_own_def by (intro tool_rules covered pt_idinfos_behave)

lemma md0: "keeps I (probe_raid0 off)"
  unfolding probe_raid0_def Let_def by (intro tool_rules keeps_sum md0_owns)

lemma md1: "keeps I (probe_raid1 off)"
  unfolding probe_raid1_def by (intro tool_rules) auto

lemma md: "keeps I (probe_raid mag)"
  unfolding probe_raid_def probe_raid_start_def md_version_is_def by (intro tool_rules md0 md1)

end

end
