(* ===== verification/SbExfat.thy ===== *)
theory SbExfat
  imports SbFat
begin

text \<open>
  The probing function for exFAT volumes (src/lib/libblkid/src/superblocks/exfat.c). It looks
  for the entry with the label in the clusters of the root directory, which it follows through
  the file allocation table for as long as they go on: a table with a cycle and no such entry
  is followed forever, so this function may leave \<open>Endless\<close> behind. Its loop has fuel for all
  pairs of a 64 bit offset and a 32 bit cluster, which is all of its state.
\<close>

definition exfat_super_block :: "(string \<times> nat) list" where
  "exfat_super_block = [(''jump'', 3), (''oem_name'', 8), (''__unused1'', 53), (''block_start'', 8),
     (''block_count'', 8), (''fat_block_start'', 4), (''fat_block_count'', 4), (''cluster_block_start'', 4),
     (''cluster_count'', 4), (''rootdir_cluster'', 4), (''volume_serial'', 4), (''minor'', 1), (''major'', 1),
     (''volume_state'', 2), (''block_bits'', 1), (''bpc_bits'', 1), (''fat_count'', 1), (''drive_no'', 1),
     (''allocated_percent'', 1)]"

definition exfat_entry_label :: "(string \<times> nat) list" where
  "exfat_entry_label = [(''type'', 1), (''length'', 1), (''name'', 30)]"

definition EXFAT_FIRST_DATA_CLUSTER :: u32 where "EXFAT_FIRST_DATA_CLUSTER = 2"
definition EXFAT_LAST_DATA_CLUSTER :: u32 where "EXFAT_LAST_DATA_CLUSTER = 0xffffff6"
definition EXFAT_ENTRY_SIZE :: int where "EXFAT_ENTRY_SIZE = 32"
definition EXFAT_ENTRY_EOD :: nat where "EXFAT_ENTRY_EOD = 0x00"
definition EXFAT_ENTRY_LABEL :: nat where "EXFAT_ENTRY_LABEL = 0x83"

text \<open>A shift to the left in a signed type of \<open>w\<close> bits.\<close>

definition shift_left :: "nat \<Rightarrow> int \<Rightarrow> nat \<Rightarrow> int prober" where
  "shift_left w v n =
     (if n \<ge> w then do { fault (Undefined Bad_Shift); ret 0 }
      else if v * 2 ^ n \<ge> 2 ^ (w - 1) then do { fault (Undefined Signed_Overflow); ret 0 }
      else ret (v * 2 ^ n))"

definition exfat_cluster_size :: "string \<Rightarrow> int prober" where
  "exfat_cluster_size sb =
     do {
       block \<leftarrow> shift_left 32 1 (le_member exfat_super_block ''block_bits'' sb);
       shift_left 32 block (le_member exfat_super_block ''bpc_bits'' sb)
     }"

definition block_to_offset :: "string \<Rightarrow> int \<Rightarrow> int prober" where
  "block_to_offset sb block = shift_left 64 block (le_member exfat_super_block ''block_bits'' sb)"

definition cluster_to_block :: "string \<Rightarrow> u32 \<Rightarrow> int prober" where
  "cluster_to_block sb cluster =
     do {
       n \<leftarrow> shift_left 64 (uint (cluster - EXFAT_FIRST_DATA_CLUSTER)) (le_member exfat_super_block ''bpc_bits'' sb);
       loff (int (le_member exfat_super_block ''cluster_block_start'' sb) + n)
     }"

definition cluster_to_offset :: "string \<Rightarrow> u32 \<Rightarrow> int prober" where
  "cluster_to_offset sb cluster = do { block \<leftarrow> cluster_to_block sb cluster; block_to_offset sb block }"

text \<open>The next cluster, or the error number of a table that cannot be read.\<close>

definition next_cluster :: "string \<Rightarrow> u32 \<Rightarrow> (int + u32) prober" where
  "next_cluster sb cluster =
     do {
       fat \<leftarrow> block_to_offset sb (int (le_member exfat_super_block ''fat_block_start'' sb));
       fat_offset \<leftarrow> loff (fat + uint cluster * 4);
       b \<leftarrow> blkid_probe_get_buffer fat_offset 4;
       ret (case b of NoBuf e \<Rightarrow> Inl e | Buf s \<Rightarrow> Inr (of_nat (le_value s)))
     }"

text \<open>\<open>Inl\<close> is a NULL together with the \<open>errno\<close> that the last read leaves.\<close>

fun find_label :: "nat \<Rightarrow> string \<Rightarrow> u32 \<Rightarrow> int \<Rightarrow> (int + string) prober" where
  "find_label 0 sb cluster offset = do { fault Endless; ret (Inl 0) }"
| "find_label (Suc n) sb cluster offset =
     do {
       b \<leftarrow> blkid_probe_get_buffer offset EXFAT_ENTRY_SIZE;
       case b of
         NoBuf e \<Rightarrow> ret (Inl e)
       | Buf entry \<Rightarrow>
           if le_member exfat_entry_label ''type'' entry = EXFAT_ENTRY_EOD then ret (Inl 0)
           else if le_member exfat_entry_label ''type'' entry = EXFAT_ENTRY_LABEL then ret (Inr entry)
           else do {
             offset \<leftarrow> loff (offset + EXFAT_ENTRY_SIZE);
             size \<leftarrow> exfat_cluster_size sb;
             if offset mod size = 0 then do {
               c \<leftarrow> next_cluster sb cluster;
               case c of
                 Inl e \<Rightarrow> ret (Inl e)
               | Inr cluster \<Rightarrow>
                   if cluster < EXFAT_FIRST_DATA_CLUSTER then ret (Inl 0)
                   else if cluster > EXFAT_LAST_DATA_CLUSTER then ret (Inl 0)
                   else do {
                     offset \<leftarrow> cluster_to_offset sb cluster;
                     find_label n sb cluster offset
                   }
             } else find_label n sb cluster offset
           }
     }"

definition EXFAT_FUEL :: nat where "EXFAT_FUEL = 2 ^ 96"

definition exfat_find_label :: "nat \<Rightarrow> string \<Rightarrow> (int + string) prober" where
  "exfat_find_label n sb =
     do {
       let cluster = of_nat (le_member exfat_super_block ''rootdir_cluster'' sb);
       offset \<leftarrow> cluster_to_offset sb cluster;
       find_label n sb cluster offset
     }"

definition exfat_reports :: "string \<Rightarrow> int prober" where
  "exfat_reports sb =
     do {
       let serial = member exfat_super_block ''volume_serial'' sb;
       blkid_probe_sprintf_uuid serial (serial_text serial);
       blkid_probe_sprintf_version (show_nat (le_member exfat_super_block ''major'' sb) @ ''.'' @
         show_nat (le_member exfat_super_block ''minor'' sb));
       ret BLKID_PROBE_OK
     }"

definition probe_exfat :: "idmag option \<Rightarrow> int prober" where
  "probe_exfat mag = with_sb mag (sizeof exfat_super_block) (\<lambda>sb. do {
     label \<leftarrow> exfat_find_label EXFAT_FUEL sb;
     case label of
       Inr entry \<Rightarrow> do {
         blkid_probe_set_utf8label
           (take (min (le_member exfat_entry_label ''length'' entry * 2) 30) (member exfat_entry_label ''name'' entry))
           BLKID_ENC_UTF16LE;
         exfat_reports sb
       }
     | Inl errno \<Rightarrow> if errno \<noteq> 0 then ret (- errno) else exfat_reports sb
   })"

definition exfat_idinfo :: idinfo where
  "exfat_idinfo = \<lparr>ii_name = ''exfat'', ii_usage = BLKID_USAGE_FILESYSTEM, ii_flags = 0, ii_minsz = 0,
     ii_probefunc = Some probe_exfat, ii_magics = [magic_at 0 3 ''EXFAT   '']\<rparr>"

section \<open>What the probing function keeps\<close>

context endless_inv
begin

lemma shifts: "keeps I (shift_left w v n)"
  unfolding shift_left_def by (intro tool_rules)

lemma cluster_parts:
  "keeps I (exfat_cluster_size sb)" "keeps I (cluster_to_offset sb c)" "keeps I (next_cluster sb c)"
  unfolding exfat_cluster_size_def cluster_to_offset_def cluster_to_block_def block_to_offset_def next_cluster_def
  by (intro tool_rules shifts)+

lemma label_loop: "keeps I (find_label n sb c off)"
  by (induction n arbitrary: c off)
     (auto split: sum.split intro!: tool_rules cluster_parts endless)

lemma exfat: "keeps I (probe_exfat mag)"
  unfolding probe_exfat_def exfat_find_label_def exfat_reports_def
  by (intro tool_rules) (auto split: sum.split intro!: tool_rules cluster_parts label_loop)

end

section \<open>A cycle in the file allocation table\<close>

definition passes_entry :: "string \<Rightarrow> int \<Rightarrow> bool" where
  "passes_entry content off \<longleftrightarrow>
     (case direct_read content off EXFAT_ENTRY_SIZE of
        Buf e \<Rightarrow> le_member exfat_entry_label ''type'' e \<notin> {EXFAT_ENTRY_EOD, EXFAT_ENTRY_LABEL}
      | NoBuf e \<Rightarrow> False)"

text \<open>
  What makes the loop come back to where it is: the cluster at \<open>base\<close> is \<open>k\<close> entries long, no
  entry of it is the end or the label, and the table, read at \<open>fat\<close>, names the cluster itself
  as the one that follows.
\<close>

definition own_successor :: "string \<Rightarrow> string \<Rightarrow> u32 \<Rightarrow> int \<Rightarrow> nat \<Rightarrow> int \<Rightarrow> bool" where
  "own_successor content sb cluster base k fat \<longleftrightarrow>
     0 < k \<and> 0 \<le> base \<and> base + int k * 32 < 2 ^ 63 \<and> base mod (int k * 32) = 0 \<and>
     exfat_cluster_size sb = ret (int k * 32) \<and> cluster_to_offset sb cluster = ret base \<and>
     (\<forall>i < k. passes_entry content (base + int i * 32)) \<and>
     block_to_offset sb (int (le_member exfat_super_block ''fat_block_start'' sb)) = ret fat \<and>
     0 \<le> fat \<and> fat + uint cluster * 4 < 2 ^ 63 \<and>
     direct_read content (fat + uint cluster * 4) 4 = Buf (le_bytes 4 (unat cluster)) \<and>
     EXFAT_FIRST_DATA_CLUSTER \<le> cluster \<and> cluster \<le> EXFAT_LAST_DATA_CLUSTER"

lemma loff_fits: "- (2 ^ 63) \<le> v \<Longrightarrow> v < 2 ^ 63 \<Longrightarrow> loff v = ret v"
  by (simp add: loff_def)

lemma passed_entry:
  assumes "on_image content pr" and "0 \<le> off" and "passes_entry content off"
  obtains e q where "run_state (blkid_probe_get_buffer off EXFAT_ENTRY_SIZE) pr = (Buf e, q)"
    and "le_member exfat_entry_label ''type'' e \<noteq> EXFAT_ENTRY_EOD"
    and "le_member exfat_entry_label ''type'' e \<noteq> EXFAT_ENTRY_LABEL"
    and "on_image content q" and "pr_fault q = pr_fault pr"
proof -
  have l: "0 < EXFAT_ENTRY_SIZE" "EXFAT_ENTRY_SIZE \<le> ULONG_MAX - sizeof_bufinfo"
    by (simp_all add: EXFAT_ENTRY_SIZE_def ULONG_MAX_def sizeof_bufinfo_def)
  from on_image_read [OF assms(1,2) l] obtain q where
    q: "run_state (blkid_probe_get_buffer off EXFAT_ENTRY_SIZE) pr = (direct_read content off EXFAT_ENTRY_SIZE, q)"
      "on_image content q" "pr_fault q = pr_fault pr" by blast
  show thesis using that q assms(3) by (cases "direct_read content off EXFAT_ENTRY_SIZE") (auto simp: passes_entry_def)
qed

lemma next_in_cycle:
  assumes "on_image content pr" and "own_successor content sb cluster base k fat"
  obtains q where "run_state (next_cluster sb cluster) pr = (Inr cluster, q)"
    and "on_image content q" and "pr_fault q = pr_fault pr"
proof -
  have l: "(0::int) < 4" "4 \<le> ULONG_MAX - sizeof_bufinfo" by (simp_all add: ULONG_MAX_def sizeof_bufinfo_def)
  have f: "block_to_offset sb (int (le_member exfat_super_block ''fat_block_start'' sb)) = ret fat"
    "loff (fat + uint cluster * 4) = ret (fat + uint cluster * 4)" "0 \<le> fat + uint cluster * 4"
    "direct_read content (fat + uint cluster * 4) 4 = Buf (le_bytes 4 (unat cluster))"
    using assms(2) uint_ge_0 [of cluster] by (auto simp: own_successor_def intro!: loff_fits intro: order_trans [of _ 0])
  from on_image_read [OF assms(1) f(3) l] obtain q where
    q: "run_state (blkid_probe_get_buffer (fat + uint cluster * 4) 4) pr = (Buf (le_bytes 4 (unat cluster)), q)"
      "on_image content q" "pr_fault q = pr_fault pr" unfolding f(4) by blast
  have "le_value (le_bytes 4 (unat cluster)) = unat cluster"
    using unsigned_less [of cluster, where 'a = nat] by (intro le_value_bytes) simp
  then show thesis using that q by (simp add: next_cluster_def f(1,2))
qed

lemma cycle_goes_on:
  assumes "own_successor content sb cluster base k fat"
  shows "on_image content pr \<Longrightarrow> i < k \<Longrightarrow> pr_fault pr = None \<Longrightarrow>
    pr_fault (snd (run_state (find_label n sb cluster (base + int i * 32)) pr)) = Some Endless"
proof (induction n arbitrary: i pr)
  case 0
  then show ?case by (simp add: fault_def)
next
  case (Suc n)
  note s = assms [unfolded own_successor_def]
  have p: "0 \<le> base + int i * 32" "passes_entry content (base + int i * 32)" using s Suc.prems(2) by simp_all
  from passed_entry [OF Suc.prems(1) p] obtain e q where
    q: "run_state (blkid_probe_get_buffer (base + int i * 32) EXFAT_ENTRY_SIZE) pr = (Buf e, q)"
      "le_member exfat_entry_label ''type'' e \<noteq> EXFAT_ENTRY_EOD"
      "le_member exfat_entry_label ''type'' e \<noteq> EXFAT_ENTRY_LABEL"
      "on_image content q" "pr_fault q = pr_fault pr" by blast
  have next_off: "base + int i * 32 + EXFAT_ENTRY_SIZE = base + int (Suc i) * 32"
    by (simp add: EXFAT_ENTRY_SIZE_def)
  have fits: "loff (base + int (Suc i) * 32) = ret (base + int (Suc i) * 32)"
  proof (rule loff_fits)
    have "int (Suc i) * 32 \<le> int k * 32" using Suc.prems(2) by simp
    then show "base + int (Suc i) * 32 < 2 ^ 63" using s by linarith
  qed (use s in linarith)
  have size: "exfat_cluster_size sb = ret (int k * 32)" "cluster_to_offset sb cluster = ret base" using s by simp_all
  show ?case
  proof (cases "Suc i < k")
    case True
    have "base + int (Suc i) * 32 = base + (int (Suc i) * 32)" by simp
    then have "(base + int (Suc i) * 32) mod (int k * 32) = int (Suc i) * 32 mod (int k * 32)"
      using s by (metis mod_add_left_eq add_0)
    also have "\<dots> \<noteq> 0" using True by simp
    finally show ?thesis
      using Suc.IH [OF q(4) True] Suc.prems(3) q by (simp add: next_off fits size del: of_nat_Suc)
  next
    case False
    then have k: "Suc i = k" using Suc.prems(2) by simp
    have m: "(base + int (Suc i) * 32) mod (int k * 32) = 0" using s unfolding k by simp
    from next_in_cycle [OF q(4) assms] obtain q' where
      q': "run_state (next_cluster sb cluster) q = (Inr cluster, q')" "on_image content q'" "pr_fault q' = pr_fault q"
      by blast
    have "\<not> cluster < EXFAT_FIRST_DATA_CLUSTER" "\<not> cluster > EXFAT_LAST_DATA_CLUSTER" using s by (simp_all add: not_less)
    then show ?thesis
      using Suc.IH [OF q'(2), of 0] s Suc.prems(3) q q' m by (simp add: next_off fits size del: of_nat_Suc)
  qed
qed

interpretation stays_endless: prober_inv "\<lambda>pr. pr_fault pr = Some Endless"
  by unfold_locales
     (rule keepsI, simp add: get_buffer_fields,
      (rule keepsI; auto simp: blkid_probe_assign_value_def fill_value_def
        blkid_probe_reset_last_value_def chain_reset_vals_filter blkid_probe_set_wiper_def
        blkid_probe_get_wholedisk_devno_def blkid_probe_get_sectorsize_def fault_def Let_def
        split: option.splits)+)

text \<open>An exFAT volume whose root directory is a cluster of ordinary entries that the file
  allocation table chains to itself keeps the search for the label busy forever: it ends with
  no amount of fuel, so neither does the probing of such a volume.\<close>

theorem exfat_cycle_endless:
  assumes "on_image content pr" and "pr_fault pr = None"
    and "sizeof exfat_super_block \<le> length content" and "sb = take (sizeof exfat_super_block) content"
    and "own_successor content sb (of_nat (le_member exfat_super_block ''rootdir_cluster'' sb)) base k fat"
    and "mag = magic_at 0 3 ''EXFAT   ''"
  shows "(\<forall>n. pr_fault (snd (run_state (exfat_find_label n sb) pr)) = Some Endless) \<and>
    pr_fault (snd (run_state (probe_exfat (Some mag)) pr)) = Some Endless"
proof
  have size: "sizeof exfat_super_block = 113" by (simp add: sizeof_def exfat_super_block_def)
  have search: "pr_fault (snd (run_state (exfat_find_label n sb) q)) = Some Endless"
    if "on_image content q" "pr_fault q = None" for n q
    using cycle_goes_on [OF assms(5) that(1), of 0 n] that(2) assms(5)
    by (simp add: exfat_find_label_def own_successor_def)
  show "\<forall>n. pr_fault (snd (run_state (exfat_find_label n sb) pr)) = Some Endless"
    using search assms(1,2) by blast
  have l: "(0::int) \<le> 0" "0 < int (sizeof exfat_super_block)"
    "int (sizeof exfat_super_block) \<le> ULONG_MAX - sizeof_bufinfo"
    by (simp_all add: size ULONG_MAX_def sizeof_bufinfo_def)
  from on_image_read [OF assms(1) l] obtain q where
    q: "run_state (blkid_probe_get_buffer 0 (int (sizeof exfat_super_block))) pr =
        (direct_read content 0 (int (sizeof exfat_super_block)), q)"
      "on_image content q" "pr_fault q = pr_fault pr" by blast
  have b: "direct_read content 0 (int (sizeof exfat_super_block)) = Buf sb"
    using assms(3,4) by (simp add: direct_read_def dev_bytes_def size)
  obtain x q' where x: "run_state (exfat_find_label EXFAT_FUEL sb) q = (x, q')" by (metis surj_pair)
  have e: "pr_fault q' = Some Endless" using search [of q EXFAT_FUEL] q assms(2) x by simp
  have rest: "keeps (\<lambda>pr. pr_fault pr = Some Endless) (exfat_reports sb)"
    unfolding exfat_reports_def by (intro stays_endless.tool_rules)
  note kept = keepsD [OF rest] keepsD [OF stays_endless.sb_set_utf8label]
  show "pr_fault (snd (run_state (probe_exfat (Some mag)) pr)) = Some Endless"
    using e x q b
    by (auto simp: probe_exfat_def with_sb_def blkid_probe_get_sb_def assms(6) magic_at_def split_beta
        split: sum.split intro!: kept)
qed

text \<open>A volume of nine blocks of 32 bytes: the table in the fifth, the root directory in the last.\<close>

definition cyclic_image :: string where
  "cyclic_image = (replicate 288 NUL)
     [80 := CHR 4, 88 := CHR 8, 96 := CHR 2, 108 := CHR 5, 136 := CHR 2, 256 := CHR 0x81]"

definition cyclic_sb :: string where
  "cyclic_sb = take (sizeof exfat_super_block) cyclic_image"

lemma cyclic_fields:
  "le_member exfat_super_block ''block_bits'' cyclic_sb = 5"
  "le_member exfat_super_block ''bpc_bits'' cyclic_sb = 0"
  "le_member exfat_super_block ''fat_block_start'' cyclic_sb = 4"
  "le_member exfat_super_block ''cluster_block_start'' cyclic_sb = 8"
  "le_member exfat_super_block ''rootdir_cluster'' cyclic_sb = 2"
  by code_simp+

lemma cyclic_reads:
  "direct_read cyclic_image 136 4 = Buf (le_bytes 4 2)"
  "passes_entry cyclic_image 256"
  by code_simp+

theorem exfat_cycle_endless_witness:
  "pr_fault (snd (run_state (probe_exfat (Some (magic_at 0 3 ''EXFAT   ''))) (image_probe cyclic_image []))) =
    Some Endless"
proof -
  have l: "length cyclic_image = 288" by (simp add: cyclic_image_def)
  then have i: "cyclic_image \<noteq> []" by auto
  have c: "own_successor cyclic_image cyclic_sb 2 256 1 128"
    using cyclic_reads
    by (simp add: own_successor_def exfat_cluster_size_def cluster_to_offset_def cluster_to_block_def
        block_to_offset_def cyclic_fields shift_left_def loff_def EXFAT_FIRST_DATA_CLUSTER_def
        EXFAT_LAST_DATA_CLUSTER_def)
  have f: "pr_fault (image_probe cyclic_image []) = None" by (simp add: image_probe_def blkid_new_probe_def)
  have n: "sizeof exfat_super_block \<le> length cyclic_image" by (simp add: l sizeof_def exfat_super_block_def)
  have "own_successor cyclic_image cyclic_sb (of_nat (le_member exfat_super_block ''rootdir_cluster'' cyclic_sb)) 256 1 128"
    using c by (simp only: cyclic_fields) simp
  then show ?thesis
    by (rule exfat_cycle_endless [OF on_image_fresh [OF i] f n cyclic_sb_def _ refl, THEN conjunct2])
qed

end
