(* ===== verification/SbOptical.thy ===== *)
theory SbOptical
  imports SbVolumes
begin

text \<open>
  The probing functions for optical media: ISO 9660 with its Joliet extension and the older
  High Sierra format (src/lib/libblkid/src/superblocks/iso9660.c), and UDF (udf.c), which takes
  its label from an ISO 9660 header when there is one.
\<close>

section \<open>ISO 9660\<close>

definition iso9660_date :: "(string \<times> nat) list" where
  "iso9660_date = [(''year'', 4), (''month'', 2), (''day'', 2), (''hour'', 2), (''minute'', 2), (''second'', 2),
     (''hundredth'', 2), (''offset'', 1)]"

definition iso_volume_descriptor :: "(string \<times> nat) list" where
  "iso_volume_descriptor = [(''vd_type'', 1), (''vd_id'', 5), (''vd_version'', 1), (''flags'', 1),
     (''system_id'', 32), (''volume_id'', 32), (''unused'', 8), (''space_size'', 8), (''escape_sequences'', 8),
     (''unused1'', 222), (''publisher_id'', 128), (''unused2'', 128), (''application_id'', 128),
     (''unused3'', 111), (''created'', sizeof iso9660_date), (''modified'', sizeof iso9660_date)]"

definition boot_record :: "(string \<times> nat) list" where
  "boot_record = [(''vd_type'', 1), (''vd_id'', 5), (''vd_version'', 1), (''boot_system_id'', 32),
     (''boot_id'', 32), (''unused'', 1)]"

definition high_sierra_volume_descriptor :: "(string \<times> nat) list" where
  "high_sierra_volume_descriptor = [(''foo'', 8), (''type'', 1), (''id'', 5), (''version'', 1), (''unused1'', 1),
     (''system_id'', 32), (''volume_id'', 32)]"

definition ISO_SUPERBLOCK_OFFSET :: int where "ISO_SUPERBLOCK_OFFSET = 0x8000"
definition ISO_SECTOR_SIZE :: int where "ISO_SECTOR_SIZE = 0x800"
definition ISO_VD_OFFSET :: int where "ISO_VD_OFFSET = ISO_SUPERBLOCK_OFFSET + ISO_SECTOR_SIZE"
definition ISO_VD_BOOT_RECORD :: nat where "ISO_VD_BOOT_RECORD = 0x0"
definition ISO_VD_SUPPLEMENTARY :: nat where "ISO_VD_SUPPLEMENTARY = 0x2"
definition ISO_VD_END :: nat where "ISO_VD_END = 0xff"
definition ISO_VD_MAX :: nat where "ISO_VD_MAX = 16"

fun ascii_eq_utf16be :: "string \<Rightarrow> string \<Rightarrow> bool" where
  "ascii_eq_utf16be (a # ascii) (hi # lo # utf16) \<longleftrightarrow> hi = NUL \<and> a = lo \<and> ascii_eq_utf16be ascii utf16"
| "ascii_eq_utf16be ascii utf16 \<longleftrightarrow> True"

definition probe_iso9660_hsfs :: "idmag option \<Rightarrow> int prober" where
  "probe_iso9660_hsfs mag = with_sb mag (sizeof high_sierra_volume_descriptor) (\<lambda>iso. do {
     blkid_probe_set_version ''High Sierra'';
     blkid_probe_set_label (member high_sierra_volume_descriptor ''volume_id'' iso);
     ret 0
   })"

text \<open>The digits of a date, as they follow each other and with dashes between the fields.\<close>

definition iso_date_text :: "string \<Rightarrow> string" where
  "iso_date_text date =
     (let f = (\<lambda>name. member iso9660_date name date) in
      f ''year'' @ ''-'' @ f ''month'' @ ''-'' @ f ''day'' @ ''-'' @ f ''hour'' @ ''-'' @ f ''minute'' @ ''-'' @
      f ''second'' @ ''-'' @ f ''hundredth'')"

definition probe_iso9660_set_uuid :: "string \<Rightarrow> bool prober" where
  "probe_iso9660_set_uuid date =
     (let buffer = take 16 date in
      if length (filter (\<lambda>c. c = CHR ''0'') buffer) = 16 \<and> le_member iso9660_date ''offset'' date = 0 then ret False
      else do { blkid_probe_sprintf_uuid buffer (iso_date_text date); ret True })"

definition is_str_empty :: "string \<Rightarrow> bool" where
  "is_str_empty str \<longleftrightarrow> str ! 0 = NUL \<or> list_all isspace str"

definition iso_id :: "string \<Rightarrow> string \<Rightarrow> unit prober" where
  "iso_id name text =
     (if is_str_empty text then ret () else do { blkid_probe_set_id_label name text; ret () })"

definition is_joliet :: "string \<Rightarrow> bool" where
  "is_joliet vd \<longleftrightarrow> take 3 (member iso_volume_descriptor ''escape_sequences'' vd) \<in> {''%/@'', ''%/C'', ''%/E''}"

text \<open>The descriptors behind the first one; the result tells whether the label has been set.\<close>

fun iso_descriptors :: "nat \<Rightarrow> string \<Rightarrow> int \<Rightarrow> bool prober" where
  "iso_descriptors 0 label off = ret False"
| "iso_descriptors (Suc i) label off =
     do {
       b \<leftarrow> blkid_probe_get_buffer off (int (max (sizeof boot_record) (sizeof iso_volume_descriptor)));
       case b of
         NoBuf e \<Rightarrow> ret False
       | Buf vd \<Rightarrow>
           let vd_type = le_member iso_volume_descriptor ''vd_type'' vd in
           if vd_type = ISO_VD_END then ret False
           else if vd_type = ISO_VD_BOOT_RECORD then do {
             iso_id ''BOOT_SYSTEM_ID'' (member boot_record ''boot_system_id'' vd);
             iso_descriptors i label (off + ISO_SECTOR_SIZE)
           }
           else if vd_type \<noteq> ISO_VD_SUPPLEMENTARY then iso_descriptors i label (off + ISO_SECTOR_SIZE)
           else if is_joliet vd then do {
             blkid_probe_set_version ''Joliet Extension'';
             let volume_id = member iso_volume_descriptor ''volume_id'' vd;
             if ascii_eq_utf16be label volume_id then ret False
             else do { blkid_probe_set_utf8label volume_id BLKID_ENC_UTF16BE; ret True }
           }
           else iso_descriptors i label (off + ISO_SECTOR_SIZE)
     }"

definition probe_iso9660_cd :: "idmag option \<Rightarrow> int prober" where
  "probe_iso9660_cd mag = with_sb mag (sizeof iso_volume_descriptor) (\<lambda>iso. do {
     let f = (\<lambda>name. member iso_volume_descriptor name iso);
     iso_id ''SYSTEM_ID'' (f ''system_id'');
     iso_id ''PUBLISHER_ID'' (f ''publisher_id'');
     iso_id ''APPLICATION_ID'' (f ''application_id'');
     dated \<leftarrow> probe_iso9660_set_uuid (f ''modified'');
     (if \<not> dated then do { probe_iso9660_set_uuid (f ''created''); ret () } else ret ());
     has_label \<leftarrow> iso_descriptors ISO_VD_MAX (f ''volume_id'') ISO_VD_OFFSET;
     (if has_label then ret () else do { blkid_probe_set_label (f ''volume_id''); ret () });
     ret 0
   })"

definition probe_iso9660 :: "idmag option \<Rightarrow> int prober" where
  "probe_iso9660 mag =
     (case mag of
        None \<Rightarrow> do { fault (Undefined Null_Deref); ret 1 }
      | Some g \<Rightarrow> if im_magic g = ''CDROM'' then probe_iso9660_hsfs mag else probe_iso9660_cd mag)"

definition iso9660_idinfo :: idinfo where
  "iso9660_idinfo = \<lparr>ii_name = ''iso9660'', ii_usage = BLKID_USAGE_FILESYSTEM, ii_flags = BLKID_IDINFO_TOLERANT,
     ii_minsz = 0, ii_probefunc = Some probe_iso9660,
     ii_magics = [magic_at 32 1 ''CD001'', magic_at 32 9 ''CDROM'']\<rparr>"

section \<open>UDF\<close>

text \<open>A descriptor is a tag with an anchor or a primary descriptor behind it.\<close>

definition descriptor_tag :: "(string \<times> nat) list" where
  "descriptor_tag = [(''id'', 2), (''version'', 2), (''checksum'', 1), (''reserved'', 1), (''serial'', 2),
     (''crc'', 2), (''crc_len'', 2), (''location'', 4)]"

definition anchor_descriptor :: "(string \<times> nat) list" where
  "anchor_descriptor = [(''length'', 4), (''location'', 4)]"

definition primary_descriptor :: "(string \<times> nat) list" where
  "primary_descriptor = [(''seq_num'', 4), (''desc_num'', 4), (''clen'', 1), (''c'', 31)]"

definition volume_descriptor :: "(string \<times> nat) list" where
  "volume_descriptor = [(''tag'', sizeof descriptor_tag),
     (''type'', max (sizeof anchor_descriptor) (sizeof primary_descriptor))]"

definition volume_structure_descriptor :: "(string \<times> nat) list" where
  "volume_structure_descriptor = [(''type'', 1), (''id'', 5), (''version'', 1)]"

definition UDF_VSD_OFFSET :: int where "UDF_VSD_OFFSET = 0x8000"

fun udf_find_vsd :: "nat \<Rightarrow> int \<Rightarrow> int prober \<Rightarrow> int prober" where
  "udf_find_vsd 0 b nsr = ret 1"
| "udf_find_vsd (Suc n) b nsr = with_buf (UDF_VSD_OFFSET + b) (sizeof volume_structure_descriptor) (\<lambda>vsd.
     if member volume_structure_descriptor ''id'' vsd ! 0 \<noteq> NUL then nsr else udf_find_vsd n (b + 0x800) nsr)"

fun udf_find_nsr :: "nat \<Rightarrow> int \<Rightarrow> int prober \<Rightarrow> int prober" where
  "udf_find_nsr 0 b anchor = ret 1"
| "udf_find_nsr (Suc n) b anchor = with_buf (UDF_VSD_OFFSET + b) (sizeof volume_structure_descriptor) (\<lambda>vsd.
     let vid = member volume_structure_descriptor ''id'' vsd in
     if vid ! 0 = NUL then ret 1
     else if vid \<in> {''NSR02'', ''NSR03''} then anchor
     else udf_find_nsr n (b + 0x800) anchor)"

text \<open>The anchor, for the block size of the device and then for that of an optical medium.\<close>

fun udf_find_anchor :: "u32 list \<Rightarrow> (u32 \<Rightarrow> string \<Rightarrow> int prober) \<Rightarrow> int prober" where
  "udf_find_anchor [] f = ret 0"
| "udf_find_anchor (bs # pbs) f = with_buf (uint (256 * bs)) (sizeof volume_descriptor) (\<lambda>vd.
     if le_member descriptor_tag ''id'' vd = 2 then f bs vd else udf_find_anchor pbs f)"

definition udf_block :: "u32 \<Rightarrow> u32 \<Rightarrow> (string \<Rightarrow> int prober) \<Rightarrow> int prober" where
  "udf_block bs block f = with_buf (uint block * uint bs) (sizeof volume_descriptor) f"

fun udf_usable :: "nat \<Rightarrow> u32 \<Rightarrow> u32 \<Rightarrow> int prober \<Rightarrow> int prober" where
  "udf_usable 0 bs block k = k"
| "udf_usable (Suc n) bs block k = udf_block bs block (\<lambda>vd. udf_usable n bs (block + 1) k)"

fun udf_find_label :: "nat \<Rightarrow> u32 \<Rightarrow> u32 \<Rightarrow> int prober" where
  "udf_find_label 0 bs block = ret 0"
| "udf_find_label (Suc n) bs block = udf_block bs block (\<lambda>vd.
     let tag = member volume_descriptor ''tag'' vd; primary = member volume_descriptor ''type'' vd;
         type = le_member descriptor_tag ''id'' tag;
         clen = le_member primary_descriptor ''clen'' primary; c = member primary_descriptor ''c'' primary in
     if type = 0 then ret 0
     else if le_word descriptor_tag ''location'' tag \<noteq> block then ret 0
     else if type = 1 \<and> clen = 8 then do { blkid_probe_set_label c; ret 0 }
     else if type = 1 \<and> clen = 16 then do { blkid_probe_set_utf8label c BLKID_ENC_UTF16BE; ret 0 }
     else udf_find_label n bs (block + 1))"

definition udf_volume :: "idmag option \<Rightarrow> u32 \<Rightarrow> string \<Rightarrow> int prober" where
  "udf_volume mag bs vd =
     (let anchor = member volume_descriptor ''type'' vd;
          count = le_member anchor_descriptor ''length'' anchor div unat bs;
          loc = le_word anchor_descriptor ''location'' anchor in
      do {
        (if bs = 0 then fault (Undefined Division_By_Zero) else ret ());
        udf_usable count bs loc (do {
          rc \<leftarrow> probe_iso9660 mag;
          pr \<leftarrow> gets id;
          if rc = 0 \<and> blkid_probe_lookup_value pr ''LABEL'' \<noteq> None then ret 0
          else udf_find_label count bs loc
        })
      })"

definition probe_udf :: "idmag option \<Rightarrow> int prober" where
  "probe_udf mag =
     do {
       bs \<leftarrow> blkid_probe_get_sectorsize;
       udf_find_vsd 16 0 (udf_find_nsr 64 0 (udf_find_anchor [of_nat bs, 0x800] (udf_volume mag)))
     }"

definition udf_idinfo :: idinfo where
  "udf_idinfo = \<lparr>ii_name = ''udf'', ii_usage = BLKID_USAGE_FILESYSTEM, ii_flags = BLKID_IDINFO_TOLERANT,
     ii_minsz = 0, ii_probefunc = Some probe_udf,
     ii_magics = [magic_at 32 1 ''BEA01'', magic_at 32 1 ''BOOT2'', magic_at 32 1 ''CD001'', magic_at 32 1 ''CDW02'',
       magic_at 32 1 ''NSR02'', magic_at 32 1 ''NSR03'', magic_at 32 1 ''TEA01'']\<rparr>"

section \<open>What the probing functions keep\<close>

context prober_inv
begin

lemma iso_parts:
  "keeps I (probe_iso9660_set_uuid date)"
  "name \<noteq> ''TYPE'' \<Longrightarrow> keeps I (iso_id name text)"
  "keeps I (probe_iso9660_hsfs mag)"
  unfolding probe_iso9660_set_uuid_def iso_id_def probe_iso9660_hsfs_def by (intro tool_rules; simp)+

lemma iso_rest: "keeps I (iso_descriptors i label off)"
  by (induction i arbitrary: off) (auto split: buf.split intro!: tool_rules iso_parts)

lemma iso9660: "keeps I (probe_iso9660 mag)"
  unfolding probe_iso9660_def probe_iso9660_cd_def by (intro tool_rules iso_parts iso_rest; simp)

lemma udf_descriptors:
  "keeps I k \<Longrightarrow> keeps I (udf_find_vsd n b k)" "keeps I k \<Longrightarrow> keeps I (udf_find_nsr n b k)"
  by (induction n arbitrary: b) (auto intro!: tool_rules)

lemma udf_anchor: "(\<And>bs vd. keeps I (f bs vd)) \<Longrightarrow> keeps I (udf_find_anchor pbs f)"
  by (induction pbs) (auto intro!: tool_rules)

lemma udf_loops: "keeps I k \<Longrightarrow> keeps I (udf_usable n bs block k)" "keeps I (udf_find_label n bs block)"
  by (induction n arbitrary: block) (auto simp: udf_block_def intro!: tool_rules)

lemma udf: "keeps I (probe_udf mag)"
  unfolding probe_udf_def udf_volume_def by (intro tool_rules udf_descriptors udf_anchor udf_loops iso9660)

end

lemma optical_behave: "behaves probe_iso9660" "behaves probe_udf"
  by (rule behavesI, erule prober_inv.iso9660 prober_inv.udf)+

lemmas optical_idinfos = iso9660_idinfo_def udf_idinfo_def

lemma optical_layouts: "sizeof iso_volume_descriptor = 847" "sizeof boot_record = 72" "sizeof volume_descriptor = 56"
  by (simp_all add: sizeof_def iso_volume_descriptor_def iso9660_date_def boot_record_def volume_descriptor_def
      descriptor_tag_def anchor_descriptor_def primary_descriptor_def)

end
