(* ===== verification/SbUnix.thy ===== *)
theory SbUnix
  imports SbFat
begin

text \<open>
  The probing functions for UFS (src/lib/libblkid/src/superblocks/ufs.c) and ZFS (zfs.c). The
  latter turns the byte order of the numbers it reads where they are, in the buffer that the
  probe keeps, so that they are turned back when it runs again before the buffers are given up.
\<close>

section \<open>UFS\<close>

definition ufs_csum :: "(string \<times> nat) list" where
  "ufs_csum = [(''cs_ndir'', 4), (''cs_nbfree'', 4), (''cs_nifree'', 4), (''cs_nffree'', 4)]"

text \<open>The member \<open>fs_u2\<close> of the union \<open>fs_u11\<close>, and the union behind it, as long as \<open>fs_44\<close>.\<close>

definition ufs2_part :: "(string \<times> nat) list" where
  "ufs2_part = [(''fs_fsmnt'', 468), (''fs_volname'', 32), (''fs_swuid'', 8), (''fs_pad'', 4),
     (''fs_cgrotor'', 4), (''fs_ocsp'', 112), (''fs_contigdirs'', 4), (''fs_csp'', 4), (''fs_maxcluster'', 4),
     (''fs_active'', 4), (''fs_old_cpc'', 4), (''fs_maxbsize'', 4), (''fs_sparecon64'', 136),
     (''fs_sblockloc'', 8), (''fs_cstotal'', 64), (''fs_time'', 8), (''fs_size'', 8), (''fs_dsize'', 8),
     (''fs_csaddr'', 8), (''fs_pendingblocks'', 8), (''fs_pendinginodes'', 4)]"

definition ufs_44 :: "(string \<times> nat) list" where
  "ufs_44 = [(''fs_sparecon'', 200), (''fs_contigsumsize'', 4), (''fs_maxsymlinklen'', 4), (''fs_inodefmt'', 4),
     (''fs_maxfilesize'', 8), (''fs_qbmask'', 8), (''fs_qfmask'', 8), (''fs_state'', 4)]"

definition ufs_super_block :: "(string \<times> nat) list" where
  "ufs_super_block = [(''fs_link'', 4), (''fs_rlink'', 4), (''fs_sblkno'', 4), (''fs_cblkno'', 4),
     (''fs_iblkno'', 4), (''fs_dblkno'', 4), (''fs_cgoffset'', 4), (''fs_cgmask'', 4), (''fs_time'', 4),
     (''fs_size'', 4), (''fs_dsize'', 4), (''fs_ncg'', 4), (''fs_bsize'', 4), (''fs_fsize'', 4), (''fs_frag'', 4),
     (''fs_minfree'', 4), (''fs_rotdelay'', 4), (''fs_rps'', 4), (''fs_bmask'', 4), (''fs_fmask'', 4),
     (''fs_bshift'', 4), (''fs_fshift'', 4), (''fs_maxcontig'', 4), (''fs_maxbpg'', 4), (''fs_fragshift'', 4),
     (''fs_fsbtodb'', 4), (''fs_sbsize'', 4), (''fs_csmask'', 4), (''fs_csshift'', 4), (''fs_nindir'', 4),
     (''fs_inopb'', 4), (''fs_nspf'', 4), (''fs_optim'', 4), (''fs_npsect_state'', 4), (''fs_interleave'', 4),
     (''fs_trackskew'', 4), (''fs_id'', 8), (''fs_csaddr'', 4), (''fs_cssize'', 4), (''fs_cgsize'', 4),
     (''fs_ntrak'', 4), (''fs_nsect'', 4), (''fs_spc'', 4), (''fs_ncyl'', 4), (''fs_cpg'', 4), (''fs_ipg'', 4),
     (''fs_fpg'', 4), (''fs_cstotal'', sizeof ufs_csum), (''fs_fmod'', 1), (''fs_clean'', 1), (''fs_ronly'', 1),
     (''fs_flags'', 1), (''fs_u11'', sizeof ufs2_part), (''fs_u2'', sizeof ufs_44), (''fs_postblformat'', 4),
     (''fs_nrpos'', 4), (''fs_postbloff'', 4), (''fs_rotbloff'', 4), (''fs_magic'', 4), (''fs_space'', 1)]"

definition UFS_MAGIC :: u32 where "UFS_MAGIC = 0x00011954"
definition UFS2_MAGIC :: u32 where "UFS2_MAGIC = 0x19540119"
definition UFS_MAGIC_FEA :: u32 where "UFS_MAGIC_FEA = 0x00195612"
definition UFS_MAGIC_LFN :: u32 where "UFS_MAGIC_LFN = 0x00095014"
definition UFS_MAGIC_SEC :: u32 where "UFS_MAGIC_SEC = 0x00612195"
definition UFS_MAGIC_4GB :: u32 where "UFS_MAGIC_4GB = 0x05231994"

definition ufs_mags :: "u32 list" where
  "ufs_mags = [UFS2_MAGIC, UFS_MAGIC, UFS_MAGIC_FEA, UFS_MAGIC_LFN, UFS_MAGIC_SEC, UFS_MAGIC_4GB]"

text \<open>The first magic number that is found, in one byte order or the other.\<close>

definition ufs_magic :: "string \<Rightarrow> (u32 \<times> bool) option" where
  "ufs_magic ufs =
     (let magBE = be_word ufs_super_block ''fs_magic'' ufs; magLE = le_word ufs_super_block ''fs_magic'' ufs in
      map_option (\<lambda>magic. (magic, magBE = magic)) (find (\<lambda>m. magLE = m \<or> magBE = m) ufs_mags))"

definition ufs_found :: "int \<Rightarrow> string \<Rightarrow> u32 \<Rightarrow> bool \<Rightarrow> int prober" where
  "ufs_found kboff ufs magic is_be =
     (let fs_id = member ufs_super_block ''fs_id'' ufs; num = (if is_be then be_value else le_value) in
      do {
        (if magic = UFS2_MAGIC then do {
           blkid_probe_set_version ''2'';
           blkid_probe_set_label (member ufs2_part ''fs_volname'' (member ufs_super_block ''fs_u11'' ufs))
         } else blkid_probe_set_version ''1'');
        (if le_value fs_id \<noteq> 0
         then blkid_probe_sprintf_uuid fs_id (hex False 8 (num (take 4 fs_id)) @ hex False 8 (num (drop 4 fs_id)))
         else ret 0);
        or_none (blkid_probe_set_magic (kboff * 1024 + int (offset_of ''fs_magic'' ufs_super_block))
          (member ufs_super_block ''fs_magic'' ufs)) (ret 0)
      })"

fun ufs_search :: "int list \<Rightarrow> int prober" where
  "ufs_search [] = ret 1"
| "ufs_search (kboff # offsets) = with_buf (kboff * 1024) (sizeof ufs_super_block) (\<lambda>ufs.
     case ufs_magic ufs of
       None \<Rightarrow> ufs_search offsets
     | Some (magic, is_be) \<Rightarrow> ufs_found kboff ufs magic is_be)"

definition probe_ufs :: "idmag option \<Rightarrow> int prober" where
  "probe_ufs mag = ufs_search [0, 8, 64, 256]"

definition ufs_idinfo :: idinfo where
  "ufs_idinfo = \<lparr>ii_name = ''ufs'', ii_usage = BLKID_USAGE_FILESYSTEM, ii_flags = 0, ii_minsz = 0,
     ii_probefunc = Some probe_ufs, ii_magics = []\<rparr>"

section \<open>Writing to a buffer\<close>

text \<open>
  The first buffer that serves a request for \<open>len\<close> bytes at \<open>off\<close> gets \<open>bytes\<close> from \<open>off\<close> on; as
  in \<open>area_buffer\<close> it may belong to an ancestor.
\<close>

fun poke_bufs :: "int \<Rightarrow> int \<Rightarrow> string \<Rightarrow> bufinfo list \<Rightarrow> bufinfo list" where
  "poke_bufs off len bytes [] = []"
| "poke_bufs off len bytes (bf # bfs) =
     (if buf_holds off len bf
      then bf\<lparr>bf_data := put_bytes (nat (if off \<noteq> 0 then off - bf_off bf else 0)) bytes (bf_data bf)\<rparr> # bfs
      else bf # poke_bufs off len bytes bfs)"

fun poke_areas :: "area \<Rightarrow> area list \<Rightarrow> int \<Rightarrow> int \<Rightarrow> string \<Rightarrow> area \<times> area list" where
  "poke_areas a [] off len bytes = (a\<lparr>ar_bufs := poke_bufs off len bytes (ar_bufs a)\<rparr>, [])"
| "poke_areas a (p # ps) off len bytes =
     (if shares p a then
        let (p, ps) = poke_areas p ps (ar_off a + off - ar_off p) len bytes in (a, p # ps)
      else (a\<lparr>ar_bufs := poke_bufs off len bytes (ar_bufs a)\<rparr>, p # ps))"

definition poke_buffer :: "int \<Rightarrow> int \<Rightarrow> string \<Rightarrow> unit prober" where
  "poke_buffer off len bytes =
     modify (\<lambda>pr. let (a, ps) = poke_areas (pr_area pr) (pr_parents pr) off len bytes
       in pr\<lparr>pr_area := a, pr_parents := ps\<rparr>)"

section \<open>ZFS\<close>

definition VDEV_LABEL_UBERBLOCK :: int where "VDEV_LABEL_UBERBLOCK = 128 * 1024"
definition VDEV_LABEL_NVPAIR :: int where "VDEV_LABEL_NVPAIR = 16 * 1024"
definition VDEV_LABEL_SIZE :: int where "VDEV_LABEL_SIZE = 256 * 1024"
definition UBERBLOCK_MAGIC :: nat where "UBERBLOCK_MAGIC = 0x00bab10c"

definition zfs_uberblock :: "(string \<times> nat) list" where
  "zfs_uberblock = [(''ub_magic'', 8), (''ub_version'', 8), (''ub_txg'', 8), (''ub_guid_sum'', 8),
     (''ub_timestamp'', 8), (''ub_rootbp'', 1)]"

definition ZFS_TRIES :: nat where "ZFS_TRIES = 64"
definition ZFS_WANT :: nat where "ZFS_WANT = 4"
definition DATA_TYPE_UINT64 :: u32 where "DATA_TYPE_UINT64 = 8"
definition DATA_TYPE_STRING :: u32 where "DATA_TYPE_STRING = 9"

definition nvpair :: "(string \<times> nat) list" where
  "nvpair = [(''nvp_size'', 4), (''nvp_unkown'', 4), (''nvp_namelen'', 4)]"

definition nvstring :: "(string \<times> nat) list" where
  "nvstring = [(''nvs_type'', 4), (''nvs_elem'', 4), (''nvs_strlen'', 4)]"

definition nvuint64 :: "(string \<times> nat) list" where
  "nvuint64 = [(''nvu_type'', 4), (''nvu_elem'', 4), (''nvu_value'', 8)]"

definition nvlist :: "(string \<times> nat) list" where
  "nvlist = [(''nvl_unknown'', 12), (''nvl_nvpair'', sizeof nvpair)]"

text \<open>A big-endian number at some place, which is then turned to the byte order of the machine.\<close>

definition be32_at :: "string \<Rightarrow> nat \<Rightarrow> u32" where
  "be32_at s p = of_nat (be_value (take 4 (drop p s)))"

definition turned :: "nat \<Rightarrow> string \<Rightarrow> string" where
  "turned p s = put_bytes p (rev (take 4 (drop p s))) s"

text \<open>
  \<open>strncmp (s, key, n) = 0\<close> for the text \<open>key\<close>; no answer when the comparison leaves the bytes
  at hand.
\<close>

fun same_prefix :: "nat \<Rightarrow> string \<Rightarrow> string \<Rightarrow> bool option" where
  "same_prefix 0 s key = Some True"
| "same_prefix (Suc n) [] key = None"
| "same_prefix (Suc n) (c # s) [] = Some (c = NUL)"
| "same_prefix (Suc n) (c # s) (d # key) = (if c = d then same_prefix n s key else Some False)"

definition nv_named :: "string \<Rightarrow> nat \<Rightarrow> u32 \<Rightarrow> string \<Rightarrow> bool prober" where
  "nv_named s p namelen key =
     (case same_prefix (unat namelen) (drop (p + sizeof nvpair) s) key of
        Some b \<Rightarrow> ret b
      | None \<Rightarrow> do { fault (Undefined Out_Of_Bounds); ret False })"

text \<open>
  One pair: what is left of the pair in \<open>avail\<close> after its header and its name, where the
  value starts. The result is the list with the numbers turned, and whether the pair counts;
  none when the search stops.
\<close>

definition nv_string :: "string \<Rightarrow> nat \<Rightarrow> u32 \<Rightarrow> (string \<times> bool) option prober" where
  "nv_string s v avail =
     (let type = be32_at s v; strlen = be32_at s (v + 8); s = turned (v + 8) (turned v s) in
      if strlen > 0xffffffff - of_nat (sizeof nvstring) then ret None
      else do {
         (if type = DATA_TYPE_STRING \<and> 0 \<le> sint (avail - (strlen + of_nat (sizeof nvstring)))
          then label_at s (v + sizeof nvstring) (unat strlen) else ret 0);
         ret (Some (s, True))
      })"

definition nv_uint64 :: "string \<Rightarrow> nat \<Rightarrow> u32 \<Rightarrow> (nat \<Rightarrow> int prober) \<Rightarrow> (string \<times> bool) option prober" where
  "nv_uint64 s v avail report =
     (let type = be32_at s v; num = be_value (take 8 (drop (v + 8) s)); s = turned v s in do {
       (if type = DATA_TYPE_UINT64 \<and> 0 \<le> sint (avail - of_nat (sizeof nvuint64)) then report num else ret 0);
       ret (Some (s, True))
     })"

definition nv_value :: "string \<Rightarrow> int \<Rightarrow> nat \<Rightarrow> (nat \<Rightarrow> (string \<times> bool) option prober) \<Rightarrow>
    (string \<times> bool) option prober" where
  "nv_value s v n f =
     (if 0 \<le> v \<and> nat v + n \<le> length s then f (nat v)
      else do { fault (Undefined Out_Of_Bounds); ret None })"

definition zfs_pair :: "string \<Rightarrow> nat \<Rightarrow> u32 \<Rightarrow> u32 \<Rightarrow> (string \<times> bool) option prober" where
  "zfs_pair s p namelen avail =
     do {
       let v = int (p + sizeof nvpair) + sint ((namelen + 3) AND NOT 3);
       is_name \<leftarrow> nv_named s p namelen ''name'';
       if is_name then nv_value s v (sizeof nvstring) (\<lambda>v. nv_string s v avail)
       else do {
         is_guid \<leftarrow> nv_named s p namelen ''guid'';
         if is_guid then nv_value s v (sizeof nvuint64) (\<lambda>v. nv_uint64 s v avail
           (\<lambda>num. blkid_probe_sprintf_value ''UUID_SUB'' (show_nat num)))
         else do {
           is_pool \<leftarrow> nv_named s p namelen ''pool_guid'';
           if is_pool then nv_value s v (sizeof nvuint64) (\<lambda>v. nv_uint64 s v avail
             (\<lambda>num. blkid_probe_sprintf_uuid (le_bytes 8 num) (show_nat num)))
           else ret (Some (s, False))
         }
       }
     }"

text \<open>
  The pairs from \<open>p\<close> on. \<open>left\<close> starts with the length of the whole list although the first
  pair does not start with it, so the last pairs may lie behind the bytes that were asked for.
\<close>

function zfs_pairs :: "nat \<Rightarrow> nat \<Rightarrow> nat \<Rightarrow> string \<Rightarrow> string prober" where
  "zfs_pairs left found p s =
     (if left \<le> sizeof nvpair then ret s
      else if length s < p + sizeof nvpair then do { fault (Undefined Out_Of_Bounds); ret s }
      else if be32_at s p = 0 \<or> found \<ge> 3 then ret s
      else
        let size = be32_at s p; namelen = be32_at s (p + 8);
            avail = size - namelen - of_nat (sizeof nvpair); s = turned (p + 8) (turned p s) in
        if left < unat size \<or> sint avail < 0 then ret s
        else do {
          r \<leftarrow> zfs_pair s p namelen avail;
          case r of
            None \<Rightarrow> ret s
          | Some (s, counts) \<Rightarrow>
              zfs_pairs (if left > unat size then left - unat size else 0)
                (if counts then found + 1 else found) (p + unat size) s
        })"
  by pat_completeness auto
termination
  by (relation "measure (\<lambda>(left, found, p, s). left)") (auto simp: unat_gt_0 intro!: diff_less)

declare zfs_pairs.simps [simp del]

definition zfs_extract_guid_name :: "int \<Rightarrow> unit prober" where
  "zfs_extract_guid_name offset =
     do {
       let off = (offset div VDEV_LABEL_SIZE) * VDEV_LABEL_SIZE + VDEV_LABEL_NVPAIR;
       b \<leftarrow> blkid_probe_get_buffer off 4096;
       case b of
         NoBuf e \<Rightarrow> ret ()
       | Buf nvl \<Rightarrow> do {
           behind \<leftarrow> gets (\<lambda>pr. tail_of (pr_area pr) (pr_parents pr) off 4096);
           s \<leftarrow> zfs_pairs 4096 0 (offset_of ''nvl_nvpair'' nvlist) (nvl @ behind);
           poke_buffer off 4096 s
         }
     }"

text \<open>The search for four root blocks; \<open>ub\<close> is the last one looked at.\<close>

fun zfs_scan :: "nat \<Rightarrow> nat \<Rightarrow> nat \<Rightarrow> int \<Rightarrow> int \<Rightarrow> string \<Rightarrow> (nat \<Rightarrow> int \<Rightarrow> int \<Rightarrow> string \<Rightarrow> int prober) \<Rightarrow>
    int prober" where
  "zfs_scan 0 tried found offset ub_offset ub k = k found offset ub_offset ub"
| "zfs_scan (Suc n) tried found offset ub_offset ub k =
     (if found \<ge> ZFS_WANT then k found offset ub_offset ub
      else
        let offset = (if tried = ZFS_TRIES div 2 then VDEV_LABEL_SIZE + VDEV_LABEL_UBERBLOCK else offset) in
        with_buf offset (sizeof zfs_uberblock) (\<lambda>ub.
          if member zfs_uberblock ''ub_magic'' ub \<in> {le_bytes 8 UBERBLOCK_MAGIC, be_bytes 8 UBERBLOCK_MAGIC}
          then zfs_scan n (tried + 1) (found + 1) (offset + 4096) offset ub k
          else zfs_scan n (tried + 1) found (offset + 4096) ub_offset ub k))"

definition probe_zfs :: "idmag option \<Rightarrow> int prober" where
  "probe_zfs mag = zfs_scan ZFS_TRIES 0 0 VDEV_LABEL_UBERBLOCK 0 [] (\<lambda>found offset ub_offset ub.
     if found < 4 then ret 1
     else do {
       let swab_endian = (member zfs_uberblock ''ub_magic'' ub = be_bytes 8 UBERBLOCK_MAGIC);
       blkid_probe_sprintf_version (show_nat ((if swab_endian then be_member else le_member)
         zfs_uberblock ''ub_version'' ub));
       zfs_extract_guid_name offset;
       or_none (blkid_probe_set_magic ub_offset (member zfs_uberblock ''ub_magic'' ub)) (ret 0)
     })"

definition zfs_idinfo :: idinfo where
  "zfs_idinfo = \<lparr>ii_name = ''zfs_member'', ii_usage = BLKID_USAGE_RAID, ii_flags = 0,
     ii_minsz = 64 * 1024 * 1024, ii_probefunc = Some probe_zfs, ii_magics = []\<rparr>"

section \<open>What the probing functions keep\<close>

text \<open>An invariant that does not depend on what the buffers hold.\<close>

locale poking_inv = prober_inv +
  assumes poke: "keeps I (poke_buffer off len bytes)"

context prober_inv
begin

lemma ufs_parts: "keeps I (ufs_found kboff ufs magic is_be)"
  unfolding ufs_found_def by (intro tool_rules)

lemma ufs: "keeps I (probe_ufs mag)"
proof -
  have "keeps I (ufs_search offs)" for offs by (induction offs) (auto intro!: tool_rules ufs_parts)
  then show ?thesis unfolding probe_ufs_def .
qed

lemma nv_values:
  "(\<And>v. keeps I (f v)) \<Longrightarrow> keeps I (nv_value s p n f)" "keeps I (nv_string s v avail)" "keeps I (nv_named s q l key)"
  "(\<And>n. keeps I (g n)) \<Longrightarrow> keeps I (nv_uint64 s v avail g)"
  unfolding nv_value_def nv_string_def nv_uint64_def nv_named_def by (intro tool_rules; simp)+

lemma zfs_one: "keeps I (zfs_pair s p namelen avail)"
  unfolding zfs_pair_def by (intro tool_rules nv_values; simp)

lemma zfs_list: "keeps I (zfs_pairs left found p s)"
proof (induction left found p s rule: zfs_pairs.induct)
  case (1 left found p s)
  show ?case
    unfolding zfs_pairs.simps [of left found p s] Let_def
    by (intro tool_rules zfs_one) (rule 1; (assumption | rule refl))
qed

lemma zfs_loop: "(\<And>f o' u b. keeps I (k f o' u b)) \<Longrightarrow> keeps I (zfs_scan n t f o' u b k)"
  by (induction n arbitrary: t f o' u b) (auto simp: Let_def intro!: tool_rules)

end

context poking_inv
begin

lemma zfs: "keeps I (probe_zfs mag)"
  unfolding probe_zfs_def zfs_extract_guid_name_def
  by (intro zfs_loop tool_rules zfs_list poke)

end

lemma poke_keeps_area:
  "poke_areas a ps off len bytes = (a', ps') \<Longrightarrow> ar_size a' = ar_size a \<and> ar_off a' = ar_off a \<and> ar_devno a' = ar_devno a"
  by (cases ps) (auto split: if_splits prod.splits)

lemma poke_run:
  "run_state (poke_buffer off len bytes) pr =
     ((), case poke_areas (pr_area pr) (pr_parents pr) off len bytes of
            (a, ps) \<Rightarrow> pr\<lparr>pr_area := a, pr_parents := ps\<rparr>)"
  by (simp add: poke_buffer_def)

interpretation wf_poking: poking_inv probe_wf
proof unfold_locales
  show "keeps probe_wf (poke_buffer off len bytes)" for off len bytes
    by (rule keepsI) (simp add: poke_run probe_wf_def split_beta)
qed

interpretation ends_poking: poking_inv "\<lambda>pr. pr_fault pr \<noteq> Some Endless"
proof unfold_locales
  show "keeps (\<lambda>pr. pr_fault pr \<noteq> Some Endless) (poke_buffer off len bytes)" for off len bytes
    by (rule keepsI) (simp add: poke_run split_beta)
qed

interpretation frame_poking: poking_inv "\<lambda>pr. probe_frame pr = f" for f
proof unfold_locales
  show "keeps (\<lambda>pr. probe_frame pr = f) (poke_buffer off len bytes)" for off len bytes
  proof (rule keepsI)
    fix pr assume f: "probe_frame pr = f"
    obtain a ps where e: "poke_areas (pr_area pr) (pr_parents pr) off len bytes = (a, ps)" by (metis surj_pair)
    show "probe_frame (snd (run_state (poke_buffer off len bytes) pr)) = f"
      using poke_keeps_area [OF e] f by (simp add: poke_run e probe_frame_def pr_size_def pr_off_def pr_devno_def)
  qed
qed

lemma ufs_behaves: "behaves probe_ufs"
  by (rule behavesI, erule prober_inv.ufs)

lemmas unix_idinfos = ufs_idinfo_def zfs_idinfo_def

lemma unix_layouts: "offset_of ''fs_id'' ufs_super_block = 144" "offset_of ''fs_magic'' ufs_super_block = 1372"
  "sizeof ufs_super_block = 1377" "sizeof ufs2_part = 904" "sizeof ufs_44 = 240" "sizeof zfs_uberblock = 41"
  by code_simp+

end
