(* ===== verification/SbBefs.thy ===== *)
theory SbBefs
  imports SbExfat SbUnix
begin

text \<open>
  The probing function for BeFS volumes (src/lib/libblkid/src/superblocks/befs.c). The identifier
  of a volume is an attribute of its root directory: one of the small ones behind the inode, or
  one that is found through the B+ tree of the attribute directory. Offsets are shifted by
  amounts that the disk gives, and the way down the tree has no bound, so the function may run
  forever on a tree whose nodes lead back; its fuel covers all 64 bit node pointers.
\<close>

section \<open>Layouts and numbers\<close>

definition block_run :: "(string \<times> nat) list" where
  "block_run = [(''allocation_group'', 4), (''start'', 2), (''len'', 2)]"

definition befs_super_block :: "(string \<times> nat) list" where
  "befs_super_block = [(''name'', 32), (''magic1'', 4), (''fs_byte_order'', 4), (''block_size'', 4),
     (''block_shift'', 4), (''num_blocks'', 8), (''used_blocks'', 8), (''inode_size'', 4), (''magic2'', 4),
     (''blocks_per_ag'', 4), (''ag_shift'', 4), (''num_ags'', 4), (''flags'', 4), (''log_blocks'', 8),
     (''log_start'', 8), (''log_end'', 8), (''magic3'', 4), (''root_dir'', 8), (''indices'', 8), (''pad'', 32)]"

definition data_stream :: "(string \<times> nat) list" where
  "data_stream = [(''direct'', 96), (''max_direct_range'', 8), (''indirect'', 8), (''max_indirect_range'', 8),
     (''double_indirect'', 8), (''max_double_indirect_range'', 8), (''size'', 8)]"

definition befs_inode :: "(string \<times> nat) list" where
  "befs_inode = [(''magic1'', 4), (''inode_num'', 8), (''uid'', 4), (''gid'', 4), (''mode'', 4), (''flags'', 4),
     (''create_time'', 8), (''last_modified_time'', 8), (''parent'', 8), (''attributes'', 8), (''type'', 4),
     (''inode_size'', 4), (''etc'', 4), (''data'', sizeof data_stream), (''pad'', 16)]"

definition small_data :: "(string \<times> nat) list" where
  "small_data = [(''type'', 4), (''name_size'', 2), (''data_size'', 2)]"

definition bplustree_header :: "(string \<times> nat) list" where
  "bplustree_header = [(''magic'', 4), (''node_size'', 4), (''max_number_of_levels'', 4), (''data_type'', 4),
     (''root_node_pointer'', 8), (''free_node_pointer'', 8), (''maximum_size'', 8)]"

definition bplustree_node :: "(string \<times> nat) list" where
  "bplustree_node = [(''left_link'', 8), (''right_link'', 8), (''overflow_link'', 8), (''all_key_count'', 2),
     (''all_key_length'', 2)]"

definition SUPER_BLOCK_MAGIC1 :: nat where "SUPER_BLOCK_MAGIC1 = 0x42465331"
definition SUPER_BLOCK_MAGIC2 :: nat where "SUPER_BLOCK_MAGIC2 = 0xdd121031"
definition SUPER_BLOCK_MAGIC3 :: nat where "SUPER_BLOCK_MAGIC3 = 0x15b6830e"
definition SUPER_BLOCK_FS_ENDIAN :: nat where "SUPER_BLOCK_FS_ENDIAN = 0x42494745"
definition INODE_MAGIC1 :: nat where "INODE_MAGIC1 = 0x3bbe0ad9"
definition BPLUSTREE_MAGIC :: nat where "BPLUSTREE_MAGIC = 0x69f6c2e8"
definition BPLUSTREE_NULL :: int where "BPLUSTREE_NULL = -1"
definition NUM_DIRECT_BLOCKS :: nat where "NUM_DIRECT_BLOCKS = 12"
definition B_UINT64_TYPE :: nat where "B_UINT64_TYPE = 0x554c4c47"
definition KEY_NAME :: string where "KEY_NAME = ''be:volume_id''"
definition KEY_SIZE :: nat where "KEY_SIZE = 8"
definition E_NOENT :: int where "E_NOENT = 2"

text \<open>The macros \<open>FS16_TO_CPU\<close>, \<open>FS32_TO_CPU\<close> and \<open>FS64_TO_CPU\<close>, applied to some bytes.\<close>

definition fs_to_cpu :: "bool \<Rightarrow> string \<Rightarrow> nat" where
  "fs_to_cpu fs_le s = (if fs_le then le_value s else be_value s)"

definition fs64_signed :: "bool \<Rightarrow> string \<Rightarrow> int" where
  "fs64_signed fs_le s = to_loff (fs_to_cpu fs_le s)"

text \<open>A member of a struct that may reach behind the bytes at hand.\<close>

definition member_at :: "(string \<times> nat) list \<Rightarrow> string \<Rightarrow> string \<Rightarrow> nat \<Rightarrow> string prober" where
  "member_at layout name s p = bytes_from s (p + offset_of name layout) (length (member layout name (replicate (sizeof layout) NUL)))"

definition fs_field :: "bool \<Rightarrow> (string \<times> nat) list \<Rightarrow> string \<Rightarrow> string \<Rightarrow> nat prober" where
  "fs_field fs_le layout name s = do { b \<leftarrow> member_at layout name s 0; ret (fs_to_cpu fs_le b) }"

definition sb_num :: "bool \<Rightarrow> string \<Rightarrow> string \<Rightarrow> nat" where
  "sb_num fs_le name bs = fs_to_cpu fs_le (member befs_super_block name bs)"

definition run_num :: "bool \<Rightarrow> string \<Rightarrow> string \<Rightarrow> nat" where
  "run_num fs_le name br = fs_to_cpu fs_le (member block_run name br)"

section \<open>Runs of blocks\<close>

text \<open>\<open>Inl\<close> is the NULL of a buffer that cannot be read, with the error number.\<close>

definition tail_buffer :: "int \<Rightarrow> int \<Rightarrow> (int + string) prober" where
  "tail_buffer off len =
     do {
       b \<leftarrow> blkid_probe_get_buffer off len;
       behind \<leftarrow> gets (\<lambda>pr. tail_of (pr_area pr) (pr_parents pr) off len);
       ret (case b of NoBuf e \<Rightarrow> Inl e | Buf s \<Rightarrow> Inr (s @ behind))
     }"

definition in_blocks :: "bool \<Rightarrow> string \<Rightarrow> nat \<Rightarrow> int prober" where
  "in_blocks fs_le bs n = shift_left 64 (int n) (sb_num fs_le ''block_shift'' bs)"

definition run_start :: "bool \<Rightarrow> string \<Rightarrow> string \<Rightarrow> int prober" where
  "run_start fs_le bs br =
     do {
       group \<leftarrow> shift_left 64 (int (run_num fs_le ''allocation_group'' br)) (sb_num fs_le ''ag_shift'' bs);
       group \<leftarrow> shift_left 64 group (sb_num fs_le ''block_shift'' bs);
       start \<leftarrow> in_blocks fs_le bs (run_num fs_le ''start'' br);
       loff (group + start)
     }"

definition get_block_run :: "bool \<Rightarrow> string \<Rightarrow> string \<Rightarrow> (int + string) prober" where
  "get_block_run fs_le bs br =
     do {
       off \<leftarrow> run_start fs_le bs br;
       len \<leftarrow> in_blocks fs_le bs (run_num fs_le ''len'' br);
       tail_buffer off len
     }"

definition get_custom_block_run :: "bool \<Rightarrow> string \<Rightarrow> string \<Rightarrow> int \<Rightarrow> nat \<Rightarrow> (int + string) prober" where
  "get_custom_block_run fs_le bs br offset len =
     do {
       last \<leftarrow> loff (offset + int len);
       run_len \<leftarrow> in_blocks fs_le bs (run_num fs_le ''len'' br);
       if last > run_len then ret (Inl 0)
       else do {
         start \<leftarrow> run_start fs_le bs br;
         off \<leftarrow> loff (start + offset);
         tail_buffer off (int len)
       }
     }"

text \<open>The run in which \<open>start\<close> lies, among the first \<open>n\<close> of a list of runs.\<close>

fun in_runs :: "nat \<Rightarrow> bool \<Rightarrow> string \<Rightarrow> string \<Rightarrow> nat \<Rightarrow> int \<Rightarrow> nat \<Rightarrow> (int + string) prober" where
  "in_runs 0 fs_le bs runs p start len = ret (Inl 0)"
| "in_runs (Suc n) fs_le bs runs p start len =
     do {
       br \<leftarrow> bytes_from runs p (sizeof block_run);
       br_len \<leftarrow> in_blocks fs_le bs (run_num fs_le ''len'' br);
       if start < br_len then get_custom_block_run fs_le bs br start len
       else in_runs n fs_le bs runs (p + sizeof block_run) (start - br_len) len
     }"

definition on_success :: "(int + 'a) prober \<Rightarrow> ('a \<Rightarrow> (int + 'b) prober) \<Rightarrow> (int + 'b) prober" where
  "on_success m f = do { r \<leftarrow> m; case r of Inl e \<Rightarrow> ret (Inl e) | Inr x \<Rightarrow> f x }"

definition in_double_indirect :: "bool \<Rightarrow> string \<Rightarrow> string \<Rightarrow> int \<Rightarrow> nat \<Rightarrow> (int + string) prober" where
  "in_double_indirect fs_le bs di start len =
     do {
       di_br_size \<leftarrow> in_blocks fs_le bs (run_num fs_le ''len'' di);
       let br_per_di_br = di_br_size div 8;
       if br_per_di_br = 0 then ret (Inl 0)
       else do {
         all \<leftarrow> loff (br_per_di_br * di_br_size);
         on_success (get_block_run fs_le bs di) (\<lambda>s. do {
           br \<leftarrow> bytes_from s (nat (start div all) * 8) 8;
           on_success (get_block_run fs_le bs br) (\<lambda>s. do {
             br \<leftarrow> bytes_from s (nat (start mod all div di_br_size) * 8) 8;
             get_custom_block_run fs_le bs br (start mod all mod di_br_size) len
           })
         })
       }
     }"

definition get_tree_node :: "bool \<Rightarrow> string \<Rightarrow> string \<Rightarrow> int \<Rightarrow> nat \<Rightarrow> (int + string) prober" where
  "get_tree_node fs_le bs ds start len =
     (let range = (\<lambda>name. fs64_signed fs_le (member data_stream name ds)) in
      if start < range ''max_direct_range'' then
        in_runs NUM_DIRECT_BLOCKS fs_le bs (member data_stream ''direct'' ds) 0 start len
      else if start < range ''max_indirect_range'' then
        do {
          max_br \<leftarrow> in_blocks fs_le bs (run_num fs_le ''len'' (member data_stream ''indirect'' ds));
          on_success (get_block_run fs_le bs (member data_stream ''indirect'' ds)) (\<lambda>s.
            in_runs (nat (max_br div 8)) fs_le bs s 0 (sint (of_int (start - range ''max_direct_range'') :: u64)) len)
        }
      else if start < range ''max_double_indirect_range'' then
        do {
          rest \<leftarrow> loff (start - range ''max_indirect_range'');
          in_double_indirect fs_le bs (member data_stream ''double_indirect'' ds) rest len
        }
      else ret (Inl 0))"

section \<open>The B+ tree\<close>

definition u16_at :: "bool \<Rightarrow> string \<Rightarrow> int \<Rightarrow> nat prober" where
  "u16_at fs_le bn p =
     (if 0 \<le> p then do { b \<leftarrow> bytes_from bn (nat p) 2; ret (fs_to_cpu fs_le b) }
      else do { fault (Undefined Out_Of_Bounds); ret 0 })"

text \<open>\<open>strncmp\<close> of at most \<open>n\<close> bytes with a text of at least \<open>n\<close> bytes.\<close>

fun compare_prefix :: "nat \<Rightarrow> string \<Rightarrow> string \<Rightarrow> int option" where
  "compare_prefix 0 s key = Some 0"
| "compare_prefix (Suc n) [] key = None"
| "compare_prefix (Suc n) (c # s) [] = Some (of_char c)"
| "compare_prefix (Suc n) (c # s) (d # key) =
     (if c = d then compare_prefix n s key else Some (of_char c - of_char d))"

definition compare_keys :: "bool \<Rightarrow> string \<Rightarrow> int \<Rightarrow> int \<Rightarrow> string \<Rightarrow> int prober" where
  "compare_keys fs_le bn keylengths index key =
     do {
       before \<leftarrow> (if index = 0 then ret 0 else u16_at fs_le bn (keylengths + 2 * (index - 1)));
       upto \<leftarrow> u16_at fs_le bn (keylengths + 2 * index);
       let keylength1 = unat (of_nat upto - of_nat before :: 16 word);
       case compare_prefix (min keylength1 (length key)) (drop (sizeof bplustree_node + before) bn) key of
         None \<Rightarrow> do { fault (Undefined Out_Of_Bounds); ret 0 }
       | Some r \<Rightarrow> ret (if r = 0 then int keylength1 - int (length key) else r)
     }"

definition value_at :: "bool \<Rightarrow> string \<Rightarrow> int \<Rightarrow> int \<Rightarrow> int prober" where
  "value_at fs_le bn values i =
     (let p = values + 8 * i in
      if 0 \<le> p then do { b \<leftarrow> bytes_from bn (nat p) 8; ret (fs64_signed fs_le b) }
      else do { fault (Undefined Out_Of_Bounds); ret 0 })"

text \<open>The binary search; the result is \<open>mid\<close> and \<open>cmp\<close> as it leaves them.\<close>

function key_search :: "bool \<Rightarrow> string \<Rightarrow> int \<Rightarrow> string \<Rightarrow> int \<Rightarrow> int \<Rightarrow> int \<Rightarrow> int \<Rightarrow> (int \<times> int) prober" where
  "key_search fs_le bn keylengths key low high mid cmp =
     (if low \<le> high then do {
        let mid = (low + high) div 2;
        cmp \<leftarrow> compare_keys fs_le bn keylengths mid key;
        if cmp = 0 then ret (mid, cmp)
        else if cmp < 0 then key_search fs_le bn keylengths key (mid + 1) high mid cmp
        else key_search fs_le bn keylengths key low (mid - 1) mid cmp
      } else ret (mid, cmp))"
  by pat_completeness auto
termination
  by (relation "measure (\<lambda>(fs_le, bn, kl, key, low, high, mid, cmp). nat (high - low + 1))") auto

declare key_search.simps [simp del]

text \<open>One node: the value of the key, or the node to go on with.\<close>

datatype tree_step = Value int | Go_On int

definition search_node :: "bool \<Rightarrow> string \<Rightarrow> string \<Rightarrow> int \<Rightarrow> tree_step prober" where
  "search_node fs_le bn key overflow =
     do {
       count \<leftarrow> fs_field fs_le bplustree_node ''all_key_count'' bn;
       len \<leftarrow> fs_field fs_le bplustree_node ''all_key_length'' bn;
       let keylengths = int ((sizeof bplustree_node + len + 7) div 8 * 8);
       let values = keylengths + 2 * int count;
       let high = int count - 1;
       cmp \<leftarrow> compare_keys fs_le bn keylengths high key;
       if cmp = 0 then do {
         v \<leftarrow> value_at fs_le bn values high;
         ret (if overflow = BPLUSTREE_NULL then Value v else Go_On v)
       }
       else if cmp < 0 then ret (Go_On overflow)
       else do {
         (mid, cmp) \<leftarrow> key_search fs_le bn keylengths key 0 high 0 cmp;
         v \<leftarrow> value_at fs_le bn values (if cmp < 0 then mid + 1 else mid);
         ret (if cmp = 0 \<and> overflow = BPLUSTREE_NULL then Value v else Go_On v)
       }
     }"

fun search_tree :: "nat \<Rightarrow> bool \<Rightarrow> string \<Rightarrow> string \<Rightarrow> string \<Rightarrow> nat \<Rightarrow> int \<Rightarrow> int prober" where
  "search_tree 0 fs_le bs ds key node_size node_pointer = do { fault Endless; ret 0 }"
| "search_tree (Suc n) fs_le bs ds key node_size node_pointer =
     do {
       r \<leftarrow> get_tree_node fs_le bs ds node_pointer node_size;
       case r of
         Inl e \<Rightarrow> ret (if e \<noteq> 0 then - e else - E_NOENT)
       | Inr bn \<Rightarrow> do {
           link \<leftarrow> member_at bplustree_node ''overflow_link'' bn 0;
           let overflow = fs64_signed fs_le link;
           step \<leftarrow> search_node fs_le bn key overflow;
           case step of
             Value v \<Rightarrow> ret v
           | Go_On p \<Rightarrow> if overflow \<noteq> BPLUSTREE_NULL then search_tree n fs_le bs ds key node_size p else ret 0
         }
     }"

definition TREE_FUEL :: nat where "TREE_FUEL = 2 ^ 64"

definition get_key_value :: "nat \<Rightarrow> bool \<Rightarrow> string \<Rightarrow> string \<Rightarrow> string \<Rightarrow> int prober" where
  "get_key_value fuel fs_le bs ds key =
     do {
       r \<leftarrow> get_tree_node fs_le bs ds 0 (sizeof bplustree_header);
       case r of
         Inl e \<Rightarrow> ret (if e \<noteq> 0 then - e else - E_NOENT)
       | Inr bh \<Rightarrow>
           if fs_to_cpu fs_le (member bplustree_header ''magic'' bh) \<noteq> BPLUSTREE_MAGIC then ret (- E_NOENT)
           else search_tree fuel fs_le bs ds key
             (fs_to_cpu fs_le (member bplustree_header ''node_size'' bh))
             (fs64_signed fs_le (member bplustree_header ''root_node_pointer'' bh))
     }"

section \<open>The identifier\<close>

text \<open>The small attributes behind an inode, from \<open>p\<close> on; \<open>high\<close> is where they end.\<close>

function small_uuid :: "bool \<Rightarrow> string \<Rightarrow> nat \<Rightarrow> int \<Rightarrow> string prober" where
  "small_uuid fs_le bi p high =
     do {
       sd \<leftarrow> bytes_from bi p (sizeof small_data);
       let type = fs_to_cpu fs_le (member small_data ''type'' sd);
       let name_size = fs_to_cpu fs_le (member small_data ''name_size'' sd);
       let data_size = fs_to_cpu fs_le (member small_data ''data_size'' sd);
       let at_name = p + sizeof small_data;
       named \<leftarrow> (if type = B_UINT64_TYPE \<and> name_size = length KEY_NAME \<and> data_size = KEY_SIZE
         then case same_prefix (length KEY_NAME + 1) (drop at_name bi) KEY_NAME of
                Some b \<Rightarrow> ret b
              | None \<Rightarrow> do { fault (Undefined Out_Of_Bounds); ret False }
         else ret False);
       if named then bytes_from bi (at_name + name_size + 3) 8
       else if type = 0 \<and> name_size = 0 \<and> data_size = 0 then ret (replicate 8 NUL)
       else let q = at_name + name_size + 3 + data_size + 1 in
         if int q < high then small_uuid fs_le bi q high else ret (replicate 8 NUL)
     }"
  by pat_completeness auto
termination
  by (relation "measure (\<lambda>(fs_le, bi, p, high). nat (high - int p))") auto

declare small_uuid.simps [simp del]

text \<open>\<open>Inl\<close> is a code to return, \<open>Inr\<close> the eight bytes of the identifier.\<close>

definition with_inode :: "(int + string) \<Rightarrow> bool \<Rightarrow> (string \<Rightarrow> (int + string) prober) \<Rightarrow> (int + string) prober" where
  "with_inode r fs_le f =
     (case r of
        Inl e \<Rightarrow> ret (Inl (buf_error e))
      | Inr bi \<Rightarrow> do {
          magic1 \<leftarrow> fs_field fs_le befs_inode ''magic1'' bi;
          if magic1 \<noteq> INODE_MAGIC1 then ret (Inl BLKID_PROBE_NONE) else f bi
        })"

definition inode_uuid :: "bool \<Rightarrow> string \<Rightarrow> string \<Rightarrow> (int + string) prober" where
  "inode_uuid fs_le bs bi =
     do {
       type \<leftarrow> fs_field fs_le befs_inode ''type'' bi;
       data \<leftarrow> member_at befs_inode ''data'' bi 0;
       let br = take 8 (member data_stream ''direct'' data);
       if type = B_UINT64_TYPE \<and> fs_to_cpu fs_le (member data_stream ''size'' data) = KEY_SIZE \<and>
          run_num fs_le ''len'' br = 1 then do {
         r \<leftarrow> get_block_run fs_le bs br;
         case r of
           Inl e \<Rightarrow> ret (Inl (buf_error e))
         | Inr s \<Rightarrow> do { b \<leftarrow> bytes_from s 0 8; ret (Inr b) }
       } else ret (Inr (replicate 8 NUL))
     }"

definition attribute_uuid :: "bool \<Rightarrow> string \<Rightarrow> string \<Rightarrow> (int + string) prober" where
  "attribute_uuid fs_le bs bi =
     do {
       data \<leftarrow> member_at befs_inode ''data'' bi 0;
       v \<leftarrow> get_key_value TREE_FUEL fs_le bs data KEY_NAME;
       if v < 0 then
         (let rc = (if v = - E_NOENT then BLKID_PROBE_NONE else sint (of_int v :: u32)) in
          ret (if rc = 0 then Inr (replicate 8 NUL) else Inl rc))
       else if v = 0 then ret (Inr (replicate 8 NUL))
       else do {
         off \<leftarrow> shift_left 64 v (sb_num fs_le ''block_shift'' bs);
         r \<leftarrow> tail_buffer off (int (sb_num fs_le ''block_size'' bs));
         with_inode r fs_le (inode_uuid fs_le bs)
       }
     }"

definition befs_get_uuid :: "bool \<Rightarrow> string \<Rightarrow> (int + string) prober" where
  "befs_get_uuid fs_le bs =
     do {
       r \<leftarrow> get_block_run fs_le bs (member befs_super_block ''root_dir'' bs);
       with_inode r fs_le (\<lambda>bi. do {
         size \<leftarrow> fs_field fs_le befs_inode ''inode_size'' bi;
         uuid \<leftarrow> small_uuid fs_le bi (sizeof befs_inode) (sint (of_nat size :: u32) - int (sizeof small_data));
         attributes \<leftarrow> member_at befs_inode ''attributes'' bi 0;
         if le_value uuid = 0 \<and> le_value attributes \<noteq> 0 then do {
           r \<leftarrow> get_block_run fs_le bs attributes;
           with_inode r fs_le (attribute_uuid fs_le bs)
         } else ret (Inr uuid)
       })
     }"

text \<open>The byte order of a superblock, if it is one.\<close>

definition befs_order :: "string \<Rightarrow> bool option" where
  "befs_order bs =
     (let ok = (\<lambda>fs_le. sb_num fs_le ''magic1'' bs = SUPER_BLOCK_MAGIC1 \<and> sb_num fs_le ''magic2'' bs = SUPER_BLOCK_MAGIC2 \<and>
            sb_num fs_le ''magic3'' bs = SUPER_BLOCK_MAGIC3 \<and>
            sb_num fs_le ''fs_byte_order'' bs = SUPER_BLOCK_FS_ENDIAN) in
      if ok True then Some True else if ok False then Some False else None)"

definition befs_report :: "bool \<Rightarrow> string \<Rightarrow> string \<Rightarrow> int prober" where
  "befs_report fs_le bs volume_id =
     do {
       label_if_set (member befs_super_block ''name'' bs);
       blkid_probe_set_version (if fs_le then ''little-endian'' else ''big-endian'');
       (if le_value volume_id \<noteq> 0
        then blkid_probe_sprintf_uuid volume_id (hex False 16 (fs_to_cpu fs_le volume_id)) else ret 0);
       ret BLKID_PROBE_OK
     }"

definition probe_befs :: "idmag option \<Rightarrow> int prober" where
  "probe_befs mag =
     (case mag of
        None \<Rightarrow> do { fault (Undefined Null_Deref); ret 1 }
      | Some g \<Rightarrow> with_buf ((int (im_sboff g) - 32) mod 2 ^ 32) (sizeof befs_super_block) (\<lambda>bs.
          case befs_order bs of
            None \<Rightarrow> ret BLKID_PROBE_NONE
          | Some fs_le \<Rightarrow> do {
              r \<leftarrow> befs_get_uuid fs_le bs;
              case r of
                Inl rc \<Rightarrow> ret rc
              | Inr volume_id \<Rightarrow> befs_report fs_le bs volume_id
            }))"

definition befs_idinfo :: idinfo where
  "befs_idinfo = \<lparr>ii_name = ''befs'', ii_usage = BLKID_USAGE_FILESYSTEM, ii_flags = 0, ii_minsz = 1024 * 1440,
     ii_probefunc = Some probe_befs,
     ii_magics = [magic_at 0 0x20 ''BFS1'', magic_at 0 0x20 ''1SFB'', magic_at 0 0x220 ''BFS1'',
       magic_at 0 0x220 ''1SFB'']\<rparr>"

section \<open>What the probing function keeps\<close>

context endless_inv
begin

lemma befs_fields:
  "keeps I (member_at layout name s p)" "keeps I (fs_field fs_le layout name s)" "keeps I (u16_at fs_le bn p')"
  "keeps I (value_at fs_le bn p' i)" "keeps I (tail_buffer off len)" "keeps I (in_blocks fs_le bs n)"
  unfolding member_at_def fs_field_def u16_at_def value_at_def tail_buffer_def in_blocks_def
  by (intro tool_rules shifts)+

lemma sum_cases: "(\<And>e. keeps I (f e)) \<Longrightarrow> (\<And>x. keeps I (g x)) \<Longrightarrow> keeps I (case r of Inl e \<Rightarrow> f e | Inr x \<Rightarrow> g x)"
  by (cases r) auto

lemmas befs_rules = sum_cases befs_fields shifts tool_rules

lemma runs:
  "keeps I (get_block_run fs_le bs br)" "keeps I (get_custom_block_run fs_le bs br off len)"
  "keeps I m \<Longrightarrow> (\<And>x. keeps I (f x)) \<Longrightarrow> keeps I (on_success m f)"
  unfolding get_block_run_def get_custom_block_run_def run_start_def on_success_def by (intro befs_rules; simp)+

lemma run_search: "keeps I (in_runs n fs_le bs rs p start len)"
  by (induction n arbitrary: p start) (auto intro!: befs_rules runs)

lemma tree_node: "keeps I (get_tree_node fs_le bs ds start len)"
  unfolding get_tree_node_def in_double_indirect_def by (intro befs_rules runs run_search)

lemma keys: "keeps I (compare_keys fs_le bn kl i key)"
  unfolding compare_keys_def by (intro befs_rules)

lemma key_searches: "keeps I (key_search fs_le bn kl key low high mid cmp)"
proof (induction fs_le bn kl key low high mid cmp rule: key_search.induct)
  case (1 fs_le bn kl key low high mid cmp)
  show ?case
    unfolding key_search.simps [of fs_le bn kl key low high mid cmp] Let_def
    by (intro befs_rules keys) (rule 1; (assumption | rule refl))+
qed

lemma node_search: "keeps I (search_node fs_le bn key overflow)"
  unfolding search_node_def by (intro befs_rules keys key_searches)

lemma step_cases: "(\<And>v. keeps I (f v)) \<Longrightarrow> (\<And>p. keeps I (g p)) \<Longrightarrow> keeps I (case s of Value v \<Rightarrow> f v | Go_On p \<Rightarrow> g p)"
  by (cases s) auto

lemma tree_search: "keeps I (search_tree n fs_le bs ds key sz p)"
  by (induction n arbitrary: p) (auto intro!: befs_rules tree_node node_search step_cases endless)

lemma key_value: "keeps I (get_key_value fuel fs_le bs ds key)"
  unfolding get_key_value_def by (intro befs_rules tree_node tree_search)

lemma small: "keeps I (small_uuid fs_le bi p high)"
proof (induction fs_le bi p high rule: small_uuid.induct)
  case (1 fs_le bi p high)
  show ?case
    unfolding small_uuid.simps [of fs_le bi p high] Let_def
    by (intro befs_rules) (rule 1; (assumption | rule refl))
qed

lemma inodes: "(\<And>s. keeps I (f s)) \<Longrightarrow> keeps I (with_inode r fs_le f)"
  unfolding with_inode_def by (intro befs_rules)

lemma befs: "keeps I (probe_befs mag)"
  unfolding probe_befs_def befs_get_uuid_def attribute_uuid_def inode_uuid_def befs_report_def
  by (intro befs_rules runs key_value small inodes)

end

lemma befs_layouts: "sizeof befs_super_block = 164" "sizeof befs_inode = 232" "sizeof data_stream = 144"
  "sizeof bplustree_node = 28" "offset_of ''attributes'' befs_inode = 52"
  by code_simp+

end
