(* ===== verification/Sysfs.thy ===== *)
theory Sysfs
  imports Partitions Uevent
begin

text \<open>
  What the kernel says about block devices in /sys, src/lib/libblkid/lib/sysfs.c. The file system
  is a parameter: what \<open>stat\<close> and reading find at a path, links followed, and what \<open>readlink\<close>
  gives. It does not change, a path that leads nowhere fails with ENOENT, and allocations succeed.
\<close>

datatype node = File string | Directory "string list" | Block_Device nat

record files =
  fl_node :: "string \<Rightarrow> node option"
  fl_link :: "string \<Rightarrow> string option"

definition file_text :: "files \<Rightarrow> string \<Rightarrow> string option" where
  "file_text fs path = (case fl_node fs path of Some (File t) \<Rightarrow> Some t | _ \<Rightarrow> None)"

text \<open>The entries that \<open>xreaddir\<close> lets through.\<close>

definition dir_entries :: "files \<Rightarrow> string \<Rightarrow> string list option" where
  "dir_entries fs path =
     (case fl_node fs path of Some (Directory ns) \<Rightarrow> Some (filter (\<lambda>n. n \<noteq> ''.'' \<and> n \<noteq> ''..'') ns) | _ \<Rightarrow> None)"

text \<open>\<open>readlink\<close> into a buffer of \<open>n\<close> bytes.\<close>

definition read_link :: "files \<Rightarrow> string \<Rightarrow> nat \<Rightarrow> string option" where
  "read_link fs path n = map_option (take n) (fl_link fs path)"

definition makedev :: "nat \<Rightarrow> nat \<Rightarrow> nat" where
  "makedev major minor =
     major mod 4096 * 256 + minor mod 256 + minor div 256 mod 4096 * 1048576"

section \<open>Contexts\<close>

record sysfs_cxt =
  sc_devno :: nat
  sc_path :: string
  sc_parent :: "string option"

definition SYS_DEVBLOCK :: string where "SYS_DEVBLOCK = ''/sys/dev/block''"

definition in_buffer :: "nat \<Rightarrow> string \<Rightarrow> string option" where
  "in_buffer bufsiz s = (if length s + 1 > bufsiz then None else Some s)"

definition sysfs_devno_attribute_path :: "nat \<Rightarrow> nat \<Rightarrow> string option \<Rightarrow> string option" where
  "sysfs_devno_attribute_path devno bufsiz attr =
     (let path = SYS_DEVBLOCK @ ''/'' @ show_nat (dev_major devno) @ '':'' @ show_nat (dev_minor devno) in
      in_buffer bufsiz (case attr of Some a \<Rightarrow> path @ ''/'' @ a | None \<Rightarrow> path))"

definition sysfs_devno_path :: "nat \<Rightarrow> nat \<Rightarrow> string option" where
  "sysfs_devno_path devno bufsiz = sysfs_devno_attribute_path devno bufsiz None"

definition sysfs_devno_has_attribute :: "files \<Rightarrow> nat \<Rightarrow> string \<Rightarrow> bool" where
  "sysfs_devno_has_attribute fs devno attr =
     (case sysfs_devno_attribute_path devno PATH_MAX (Some attr) of
        None \<Rightarrow> False | Some path \<Rightarrow> fl_node fs path \<noteq> None)"

definition sysfs_init :: "files \<Rightarrow> nat \<Rightarrow> string option \<Rightarrow> sysfs_cxt option" where
  "sysfs_init fs devno parent =
     (case sysfs_devno_path devno PATH_MAX of
        None \<Rightarrow> None
      | Some path \<Rightarrow>
          if fl_node fs path = None then None
          else Some \<lparr>sc_devno = devno, sc_path = path, sc_parent = parent\<rparr>)"

definition under :: "string \<Rightarrow> string \<Rightarrow> string" where
  "under dir name = dir @ ''/'' @ name"

text \<open>The file of an attribute: attributes of the queue are found at the parent too.\<close>

definition sysfs_file :: "files \<Rightarrow> sysfs_cxt \<Rightarrow> string \<Rightarrow> string" where
  "sysfs_file fs cxt attr =
     (if fl_node fs (under (sc_path cxt) attr) = None \<and> has_prefix attr ''queue/''
      then (case sc_parent cxt of Some p \<Rightarrow> under p attr | None \<Rightarrow> under (sc_path cxt) attr)
      else under (sc_path cxt) attr)"

definition sysfs_stat :: "files \<Rightarrow> sysfs_cxt \<Rightarrow> string \<Rightarrow> node option" where
  "sysfs_stat fs cxt attr = fl_node fs (sysfs_file fs cxt attr)"

definition sysfs_has_attribute :: "files \<Rightarrow> sysfs_cxt \<Rightarrow> string \<Rightarrow> bool" where
  "sysfs_has_attribute fs cxt attr \<longleftrightarrow> sysfs_stat fs cxt attr \<noteq> None"

definition sysfs_readlink :: "files \<Rightarrow> sysfs_cxt \<Rightarrow> string option \<Rightarrow> nat \<Rightarrow> string option" where
  "sysfs_readlink fs cxt attr bufsiz =
     read_link fs (case attr of Some a \<Rightarrow> under (sc_path cxt) a | None \<Rightarrow> sc_path cxt) bufsiz"

definition sysfs_opendir :: "files \<Rightarrow> sysfs_cxt \<Rightarrow> string option \<Rightarrow> string list option" where
  "sysfs_opendir fs cxt attr =
     dir_entries fs (case attr of Some a \<Rightarrow> sysfs_file fs cxt a | None \<Rightarrow> sc_path cxt)"

section \<open>Values of attributes\<close>

text \<open>The stream of an attribute; a directory can be opened, but not read.\<close>

definition sysfs_fopen :: "files \<Rightarrow> sysfs_cxt \<Rightarrow> string \<Rightarrow> string option" where
  "sysfs_fopen fs cxt attr = file_text fs (sysfs_file fs cxt attr)"

text \<open>A number at the start of a stream, and what is left.\<close>

definition scan_num :: "string \<Rightarrow> (int \<times> string) option" where
  "scan_num s =
     (let (neg, s1) = strip_sign (dropWhile isspace s); ds = takeWhile is_digit s1;
          v = int (digits_value 10 0 ds)
      in if ds = [] then None else Some (if neg then - v else v, dropWhile is_digit s1))"

definition sysfs_read_s64 :: "files \<Rightarrow> sysfs_cxt \<Rightarrow> string \<Rightarrow> int option" where
  "sysfs_read_s64 fs cxt attr =
     (case sysfs_fopen fs cxt attr of
        None \<Rightarrow> None | Some s \<Rightarrow> map_option (\<lambda>(n, _). saturate (- (2 ^ 63)) (2 ^ 63 - 1) n) (scan_num s))"

definition sysfs_read_u64 :: "files \<Rightarrow> sysfs_cxt \<Rightarrow> string \<Rightarrow> u64 option" where
  "sysfs_read_u64 fs cxt attr =
     (case sysfs_fopen fs cxt attr of
        None \<Rightarrow> None
      | Some s \<Rightarrow> map_option (\<lambda>(n, _). if abs n \<ge> 2 ^ 64 then - 1 else of_int n) (scan_num s))"

definition sysfs_read_int :: "files \<Rightarrow> sysfs_cxt \<Rightarrow> string \<Rightarrow> int option" where
  "sysfs_read_int fs cxt attr =
     (case sysfs_fopen fs cxt attr of
        None \<Rightarrow> None | Some s \<Rightarrow> map_option (\<lambda>(n, _). saturate (- (2 ^ 31)) (2 ^ 31 - 1) n) (scan_num s))"

text \<open>\<open>%1023[^\n]\<close> takes one character at least.\<close>

definition scan_line :: "nat \<Rightarrow> string \<Rightarrow> string option" where
  "scan_line n s = (let l = take n (takeWhile (\<lambda>c. c \<noteq> NL) s) in if l = [] then None else Some (cstr l))"

definition sysfs_strdup :: "files \<Rightarrow> sysfs_cxt \<Rightarrow> string \<Rightarrow> string option" where
  "sysfs_strdup fs cxt attr = (case sysfs_fopen fs cxt attr of None \<Rightarrow> None | Some s \<Rightarrow> scan_line 1023 s)"

text \<open>\<open>%d:%d\<close>.\<close>

definition scan_devno :: "string \<Rightarrow> (int \<times> int) option" where
  "scan_devno s =
     (case scan_num s of
        Some (maj, CHR '':'' # r) \<Rightarrow>
          (case scan_num r of
             Some (mi, _) \<Rightarrow> Some (saturate (- (2 ^ 31)) (2 ^ 31 - 1) maj, saturate (- (2 ^ 31)) (2 ^ 31 - 1) mi)
           | None \<Rightarrow> None)
      | _ \<Rightarrow> None)"

definition makedev_int :: "int \<Rightarrow> int \<Rightarrow> nat" where
  "makedev_int maj mi = makedev (nat (maj mod 2 ^ 32)) (nat (mi mod 2 ^ 32))"

section \<open>Names and numbers of devices\<close>

definition SYS_BLOCK :: string where "SYS_BLOCK = ''/sys/block''"

text \<open>The number in the file \<open>dev\<close> of a device, 0 when there is none.\<close>

definition devno_from_file :: "files \<Rightarrow> string \<Rightarrow> nat" where
  "devno_from_file fs path =
     (case in_buffer PATH_MAX path of
        None \<Rightarrow> 0
      | Some path \<Rightarrow>
          (case file_text fs path of
             None \<Rightarrow> 0
           | Some t \<Rightarrow> (case scan_devno t of Some (maj, mi) \<Rightarrow> makedev_int maj mi | None \<Rightarrow> 0)))"

text \<open>\<open>stat\<close> on anything but a block device leaves 0 in \<open>st_rdev\<close>.\<close>

definition sysfs_devname_to_devno :: "files \<Rightarrow> string \<Rightarrow> string option \<Rightarrow> nat" where
  "sysfs_devname_to_devno fs name parent =
     (let (dev, name) =
            (if has_prefix name ''/dev/'' then
               (case fl_node fs name of
                  Some (Block_Device d) \<Rightarrow> (d, name)
                | Some _ \<Rightarrow> (0, name)
                | None \<Rightarrow> (0, drop 5 name))
             else (0, name)) in
      if dev \<noteq> 0 then dev
      else case parent of
        Some p \<Rightarrow>
          if \<not> has_prefix name ''dm-'' then devno_from_file fs (SYS_BLOCK @ ''/'' @ p @ ''/'' @ name @ ''/dev'')
          else devno_from_file fs (SYS_BLOCK @ ''/'' @ name @ ''/dev'')
      | None \<Rightarrow> devno_from_file fs (SYS_BLOCK @ ''/'' @ name @ ''/dev''))"

text \<open>The part of a path behind its last slash and the part before it.\<close>

definition last_slash :: "string \<Rightarrow> (string \<times> string) option" where
  "last_slash path =
     (if CHR ''/'' \<in> set path
      then Some (rev (tl (dropWhile (\<lambda>c. c \<noteq> CHR ''/'') (rev path))), rev (takeWhile (\<lambda>c. c \<noteq> CHR ''/'') (rev path)))
      else None)"

definition sysfs_get_devname :: "files \<Rightarrow> sysfs_cxt \<Rightarrow> nat \<Rightarrow> string option" where
  "sysfs_get_devname fs cxt bufsiz =
     (case sysfs_readlink fs cxt None (bufsiz - 1) of
        None \<Rightarrow> None | Some link \<Rightarrow> map_option snd (last_slash (cstr link)))"

definition sysfs_devno_to_devpath :: "files \<Rightarrow> nat \<Rightarrow> nat \<Rightarrow> string option" where
  "sysfs_devno_to_devpath fs devno bufsiz =
     (case sysfs_init fs devno None of
        None \<Rightarrow> None
      | Some cxt \<Rightarrow>
          (case sysfs_get_devname fs cxt bufsiz of
             None \<Rightarrow> None
           | Some name \<Rightarrow>
               if length name + 6 > bufsiz then None
               else if fl_node fs (''/dev/'' @ name) = Some (Block_Device devno) then Some (''/dev/'' @ name)
               else None))"

text \<open>The entry of a directory as \<open>readdir\<close> types it: links are not followed.\<close>

definition is_dir_or_link :: "files \<Rightarrow> string \<Rightarrow> bool" where
  "is_dir_or_link fs path \<longleftrightarrow>
     fl_link fs path \<noteq> None \<or> (case fl_node fs path of Some (Directory _) \<Rightarrow> True | _ \<Rightarrow> False)"

definition char_at :: "string \<Rightarrow> nat \<Rightarrow> char" where
  "char_at s n = (if n < length s then s ! n else NUL)"

definition sysfs_is_partition_dirent :: "files \<Rightarrow> string \<Rightarrow> string \<Rightarrow> string option \<Rightarrow> bool" where
  "sysfs_is_partition_dirent fs dir d parent_name =
     (if \<not> is_dir_or_link fs (under dir d) then False
      else case parent_name of
        Some pn \<Rightarrow>
          (case (if has_prefix pn ''/'' then map_option snd (last_slash pn) else Some pn) of
             None \<Rightarrow> False
           | Some p \<Rightarrow>
               length p < length d \<and> has_prefix d p \<and>
               (char_at d (length p) = CHR ''p'' \<and> is_digit (char_at d (length p + 1)) \<or> is_digit (char_at d (length p))))
      | None \<Rightarrow> fl_node fs (under dir (snprintf 256 (d @ ''/start''))) \<noteq> None)"

text \<open>The first partition with the number; the loop ends there even if its device is unknown.\<close>

fun partno_loop :: "files \<Rightarrow> sysfs_cxt \<Rightarrow> int \<Rightarrow> string list \<Rightarrow> nat" where
  "partno_loop fs cxt partno [] = 0"
| "partno_loop fs cxt partno (d # ds) =
     (if \<not> sysfs_is_partition_dirent fs (sc_path cxt) d None then partno_loop fs cxt partno ds
      else case sysfs_read_int fs cxt (snprintf 256 (d @ ''/partition'')) of
        None \<Rightarrow> partno_loop fs cxt partno ds
      | Some n \<Rightarrow>
          if n = partno then
            (case sysfs_fopen fs cxt (snprintf 256 (d @ ''/dev'')) of
               None \<Rightarrow> 0
             | Some t \<Rightarrow> (case scan_devno t of Some (maj, mi) \<Rightarrow> makedev_int maj mi | None \<Rightarrow> 0))
          else partno_loop fs cxt partno ds)"

definition sysfs_partno_to_devno :: "files \<Rightarrow> sysfs_cxt \<Rightarrow> int \<Rightarrow> nat" where
  "sysfs_partno_to_devno fs cxt partno =
     (case sysfs_opendir fs cxt None of None \<Rightarrow> 0 | Some ds \<Rightarrow> partno_loop fs cxt partno ds)"

definition sysfs_count_dirents :: "files \<Rightarrow> sysfs_cxt \<Rightarrow> string option \<Rightarrow> nat" where
  "sysfs_count_dirents fs cxt attr = (case sysfs_opendir fs cxt attr of None \<Rightarrow> 0 | Some ds \<Rightarrow> length ds)"

definition sysfs_count_partitions :: "files \<Rightarrow> sysfs_cxt \<Rightarrow> string option \<Rightarrow> nat" where
  "sysfs_count_partitions fs cxt parent =
     (case sysfs_opendir fs cxt None of
        None \<Rightarrow> 0 | Some ds \<Rightarrow> length (filter (\<lambda>d. sysfs_is_partition_dirent fs (sc_path cxt) d parent) ds))"

definition sysfs_get_slave :: "files \<Rightarrow> sysfs_cxt \<Rightarrow> string option" where
  "sysfs_get_slave fs cxt = (case sysfs_opendir fs cxt (Some ''slaves'') of Some [d] \<Rightarrow> Some d | _ \<Rightarrow> None)"

section \<open>The subsystems of a device\<close>

text \<open>The content of the link is put behind the directory it was read from.\<close>

definition sysfs_get_devchain :: "files \<Rightarrow> sysfs_cxt \<Rightarrow> nat \<Rightarrow> string option" where
  "sysfs_get_devchain fs cxt bufsz =
     (case sysfs_readlink fs cxt None bufsz of
        None \<Rightarrow> None
      | Some link \<Rightarrow>
          if link = [] \<or> length link + length SYS_DEVBLOCK + 2 > bufsz then None
          else Some (SYS_DEVBLOCK @ ''/'' @ cstr link))"

lemma last_slash_shorter: "last_slash path = Some (dir, name) \<Longrightarrow> length dir < length path"
proof -
  assume a: "last_slash path = Some (dir, name)"
  then have s: "CHR ''/'' \<in> set path" and d: "dir = rev (tl (dropWhile (\<lambda>c. c \<noteq> CHR ''/'') (rev path)))"
    by (auto simp: last_slash_def split: if_splits)
  have "dropWhile (\<lambda>c. c \<noteq> CHR ''/'') (rev path) \<noteq> []" using s by (auto simp: dropWhile_eq_Nil_conv)
  moreover have "length (dropWhile (\<lambda>c. c \<noteq> CHR ''/'') (rev path)) \<le> length path"
    by (metis length_dropWhile_le length_rev)
  ultimately show ?thesis using d by (cases "dropWhile (\<lambda>c. c \<noteq> CHR ''/'') (rev path)") auto
qed

text \<open>The loop of \<open>get_subsystem\<close>; the second component is what is left of the chain.\<close>

function subsystem_loop :: "files \<Rightarrow> string \<Rightarrow> nat \<Rightarrow> (string \<times> string) option" where
  "subsystem_loop fs chain bufsz =
     (let found = read_link fs (chain @ ''/subsystem'') (bufsz - 1) in
      case last_slash chain of
        Some (dir, _) \<Rightarrow>
          (case found of
             Some (c # cs) \<Rightarrow> Some (basename (cstr (c # cs)), dir)
           | _ \<Rightarrow> subsystem_loop fs dir bufsz)
      | None \<Rightarrow> (case found of Some (c # cs) \<Rightarrow> Some (basename (cstr (c # cs)), chain) | _ \<Rightarrow> None))"
  by pat_completeness auto
termination
  by (relation "measure (\<lambda>(fs, chain, bufsz). length chain)") (auto dest!: last_slash_shorter)

declare subsystem_loop.simps [simp del]

definition get_subsystem :: "files \<Rightarrow> string \<Rightarrow> nat \<Rightarrow> (string \<times> string) option" where
  "get_subsystem fs chain bufsz =
     (if chain = [] \<or> length chain + 11 > PATH_MAX then None else subsystem_loop fs chain bufsz)"

definition hotplug_subsystems :: "string list" where
  "hotplug_subsystems = [''usb'', ''ieee1394'', ''pcmcia'', ''mmc'', ''ccw'']"

definition is_hotpluggable_subsystem :: "string \<Rightarrow> bool" where
  "is_hotpluggable_subsystem name \<longleftrightarrow> name \<in> set hotplug_subsystems"

definition sysfs_next_subsystem :: "files \<Rightarrow> string \<Rightarrow> (string \<times> string) option" where
  "sysfs_next_subsystem fs chain = get_subsystem fs chain PATH_MAX"

text \<open>
  The loop of \<open>sysfs_is_hotpluggable\<close>. A chain without a slash is not shortened; \<open>None\<close> stands
  for a loop that is still running.
\<close>

fun hotplug_loop :: "nat \<Rightarrow> files \<Rightarrow> string \<Rightarrow> bool option" where
  "hotplug_loop 0 fs chain = None"
| "hotplug_loop (Suc n) fs chain =
     (case sysfs_next_subsystem fs chain of
        None \<Rightarrow> Some False
      | Some (sub, rest) \<Rightarrow> if is_hotpluggable_subsystem sub then Some True else hotplug_loop n fs rest)"

text \<open>The loop leaves the result of its last test; without a chain that is the value of \<open>removable\<close>.\<close>

definition sysfs_is_hotpluggable :: "files \<Rightarrow> sysfs_cxt \<Rightarrow> int option" where
  "sysfs_is_hotpluggable fs cxt =
     (let removable = sysfs_read_int fs cxt ''removable''; rc = (case removable of Some n \<Rightarrow> n | None \<Rightarrow> 0) in
      if removable = Some 1 then Some 1
      else case sysfs_get_devchain fs cxt PATH_MAX of
        None \<Rightarrow> Some rc
      | Some chain \<Rightarrow>
          if sysfs_next_subsystem fs chain = None then Some rc
          else map_option (\<lambda>b. if b then 1 else 0) (hotplug_loop (Suc (length chain)) fs chain))"

section \<open>Whole disks\<close>

text \<open>\<open>strsep\<close> at the first hyphen, and the comparison with \<open>part\<close>, whatever the case.\<close>

definition dm_prefix :: "string \<Rightarrow> string" where
  "dm_prefix uuid = takeWhile (\<lambda>c. c \<noteq> CHR ''-'') uuid"

definition is_dm_part :: "string option \<Rightarrow> bool" where
  "is_dm_part uuid \<longleftrightarrow> (case uuid of None \<Rightarrow> False | Some u \<Rightarrow> map tolower (take 4 (dm_prefix u)) = ''part'')"

text \<open>A result is the name and the number of the disk.\<close>

definition get_dm_wholedisk :: "files \<Rightarrow> sysfs_cxt \<Rightarrow> (string \<times> nat) option" where
  "get_dm_wholedisk fs cxt =
     (case sysfs_get_slave fs cxt of
        None \<Rightarrow> None
      | Some name \<Rightarrow>
          let disk = sysfs_devname_to_devno fs name None in if disk = 0 then None else Some (name, disk))"

definition stripoff_last_component :: "string \<Rightarrow> string \<times> string option" where
  "stripoff_last_component path =
     (case last_slash path of Some (dir, name) \<Rightarrow> (dir, Some name) | None \<Rightarrow> (path, None))"

definition parent_in_link :: "files \<Rightarrow> sysfs_cxt \<Rightarrow> string option" where
  "parent_in_link fs cxt =
     (case sysfs_readlink fs cxt None (PATH_MAX - 1) of
        None \<Rightarrow> None
      | Some link \<Rightarrow> snd (stripoff_last_component (fst (stripoff_last_component (cstr link)))))"

text \<open>\<open>sysfs_devno_to_wholedisk\<close> when the caller asks for the number only.\<close>

definition sysfs_devno_to_wholedisk :: "files \<Rightarrow> nat \<Rightarrow> nat option" where
  "sysfs_devno_to_wholedisk fs dev =
     (if dev = 0 then None
      else case sysfs_init fs dev None of
        None \<Rightarrow> None
      | Some cxt \<Rightarrow>
          if sysfs_has_attribute fs cxt ''partition'' then
            (case parent_in_link fs cxt of
               None \<Rightarrow> None
             | Some name \<Rightarrow> let disk = sysfs_devname_to_devno fs name None in if disk = 0 then None else Some disk)
          else
            (case (if is_dm_part (sysfs_strdup fs cxt ''dm/uuid'') then get_dm_wholedisk fs cxt else None) of
               Some (_, disk) \<Rightarrow> Some disk
             | None \<Rightarrow> Some dev))"

definition sysfs_devno_is_wholedisk :: "files \<Rightarrow> nat \<Rightarrow> int" where
  "sysfs_devno_is_wholedisk fs devno =
     (case sysfs_devno_to_wholedisk fs devno of None \<Rightarrow> - 1 | Some disk \<Rightarrow> if devno = disk then 1 else 0)"

text \<open>LVM-<uuid>-<name>: only private devices have a part behind a second hyphen.\<close>

definition sysfs_devno_is_lvm_private :: "files \<Rightarrow> nat \<Rightarrow> bool" where
  "sysfs_devno_is_lvm_private fs devno =
     (case sysfs_init fs devno None of
        None \<Rightarrow> False
      | Some cxt \<Rightarrow>
          (case sysfs_strdup fs cxt ''dm/uuid'' of
             None \<Rightarrow> False
           | Some uuid \<Rightarrow>
               has_prefix uuid ''LVM-'' \<and> CHR ''-'' \<in> set (drop 4 uuid) \<and>
               takeWhile (\<lambda>c. c \<noteq> CHR ''-'') (rev uuid) \<noteq> []))"

section \<open>SCSI devices\<close>

fun scan_colon_nums :: "nat \<Rightarrow> string \<Rightarrow> u32 list option" where
  "scan_colon_nums 0 s = Some []"
| "scan_colon_nums (Suc n) s =
     (case scan_unsigned s of
        None \<Rightarrow> None
      | Some (v, r) \<Rightarrow>
          if n = 0 then Some [v]
          else (case r of CHR '':'' # r \<Rightarrow> map_option (\<lambda>vs. v # vs) (scan_colon_nums n r) | _ \<Rightarrow> None))"

text \<open>Host, channel, target and unit, kept in the context once they are known.\<close>

definition sysfs_scsi_get_hctl :: "files \<Rightarrow> sysfs_cxt \<Rightarrow> u32 list option" where
  "sysfs_scsi_get_hctl fs cxt =
     (case sysfs_readlink fs cxt (Some ''device'') (PATH_MAX - 1) of
        None \<Rightarrow> None
      | Some link \<Rightarrow> (case last_slash (cstr link) of None \<Rightarrow> None | Some (_, hctl) \<Rightarrow> scan_colon_nums 4 hctl))"

definition show_num :: "u32 \<Rightarrow> string" where
  "show_num v = show_int (sint v)"

definition sysfs_scsi_host_attribute_path :: "files \<Rightarrow> sysfs_cxt \<Rightarrow> string \<Rightarrow> nat \<Rightarrow> string option \<Rightarrow> string option" where
  "sysfs_scsi_host_attribute_path fs cxt type bufsz attr =
     (case sysfs_scsi_get_hctl fs cxt of
        None \<Rightarrow> None
      | Some hctl \<Rightarrow>
          let path = ''/sys/class/'' @ type @ ''_host/host'' @ show_num (hctl ! 0) in
          in_buffer bufsz (case attr of Some a \<Rightarrow> path @ ''/'' @ a | None \<Rightarrow> path))"

definition sysfs_scsi_host_strdup_attribute :: "files \<Rightarrow> sysfs_cxt \<Rightarrow> string \<Rightarrow> string \<Rightarrow> string option" where
  "sysfs_scsi_host_strdup_attribute fs cxt type attr =
     (case sysfs_scsi_host_attribute_path fs cxt type 1024 (Some attr) of
        None \<Rightarrow> None
      | Some path \<Rightarrow> (case file_text fs path of None \<Rightarrow> None | Some s \<Rightarrow> scan_line 1023 s))"

definition sysfs_scsi_host_is :: "files \<Rightarrow> sysfs_cxt \<Rightarrow> string \<Rightarrow> bool" where
  "sysfs_scsi_host_is fs cxt type =
     (case sysfs_scsi_host_attribute_path fs cxt type PATH_MAX None of
        None \<Rightarrow> False
      | Some path \<Rightarrow> (case fl_node fs path of Some (Directory _) \<Rightarrow> True | _ \<Rightarrow> False))"

definition sysfs_scsi_attribute_path :: "files \<Rightarrow> sysfs_cxt \<Rightarrow> nat \<Rightarrow> string option \<Rightarrow> string option" where
  "sysfs_scsi_attribute_path fs cxt bufsz attr =
     (case sysfs_scsi_get_hctl fs cxt of
        None \<Rightarrow> None
      | Some hctl \<Rightarrow>
          let path = ''/sys/bus/scsi/devices/'' @ join (CHR '':'') (map show_num hctl) in
          in_buffer bufsz (case attr of Some a \<Rightarrow> path @ ''/'' @ a | None \<Rightarrow> path))"

definition sysfs_scsi_has_attribute :: "files \<Rightarrow> sysfs_cxt \<Rightarrow> string \<Rightarrow> bool" where
  "sysfs_scsi_has_attribute fs cxt attr =
     (case sysfs_scsi_attribute_path fs cxt PATH_MAX (Some attr) of None \<Rightarrow> False | Some path \<Rightarrow> fl_node fs path \<noteq> None)"

definition sysfs_scsi_path_contains :: "files \<Rightarrow> sysfs_cxt \<Rightarrow> string \<Rightarrow> bool" where
  "sysfs_scsi_path_contains fs cxt pattern =
     (case sysfs_scsi_attribute_path fs cxt PATH_MAX None of
        None \<Rightarrow> False
      | Some path \<Rightarrow>
          fl_node fs path \<noteq> None \<and>
          (case read_link fs path (PATH_MAX - 1) of None \<Rightarrow> False | Some link \<Rightarrow> contains (cstr link) pattern))"

section \<open>What the searches find\<close>

lemma devname_is_device: "sysfs_devno_to_devpath fs devno n = Some path \<Longrightarrow> fl_node fs path = Some (Block_Device devno)"
  by (auto simp: sysfs_devno_to_devpath_def split: option.splits if_splits)

lemma last_slash_append:
  "CHR ''/'' \<notin> set name \<Longrightarrow> last_slash (dir @ CHR ''/'' # name) = Some (dir, name)"
  by (simp add: last_slash_def takeWhile_append dropWhile_append)

lemma last_slash_parts: "last_slash path = Some (dir, name) \<Longrightarrow> path = dir @ CHR ''/'' # name \<and> CHR ''/'' \<notin> set name"
proof -
  assume a: "last_slash path = Some (dir, name)"
  then have "CHR ''/'' \<in> set (rev path)" by (auto simp: last_slash_def split: if_splits)
  then obtain ys zs where r: "rev path = ys @ CHR ''/'' # zs" "CHR ''/'' \<notin> set ys" by (meson split_list_first)
  then have p: "path = rev zs @ CHR ''/'' # rev ys" by (metis append.assoc append_Cons append_Nil rev.simps(2) rev_append rev_rev_ident)
  have "last_slash path = Some (rev zs, rev ys)" unfolding p using r(2) by (intro last_slash_append) simp
  then have "dir = rev zs" "name = rev ys" using a by simp_all
  then show ?thesis using p r(2) by simp
qed

text \<open>What the kernel shows for a partition: a link of the form dir/disk/partition.\<close>

lemma partition_parent:
  assumes "fl_link fs (sc_path cxt) = Some (dir @ ''/'' @ disk @ ''/'' @ part)"
    and "NUL \<notin> set (dir @ disk @ part)" and "CHR ''/'' \<notin> set (disk @ part)"
    and "length (dir @ disk @ part) + 3 \<le> PATH_MAX"
  shows "parent_in_link fs cxt = Some disk"
proof -
  let ?l = "dir @ ''/'' @ disk @ ''/'' @ part"
  have t: "take (PATH_MAX - 1) ?l = ?l" using assms(4) by simp
  have c: "cstr ?l = ?l" using assms(2) by (intro cstr_id) auto
  have "stripoff_last_component ?l = (dir @ ''/'' @ disk, Some part)"
    using last_slash_append [of part "dir @ ''/'' @ disk"] assms(3) by (simp add: stripoff_last_component_def)
  moreover have "stripoff_last_component (dir @ ''/'' @ disk) = (dir, Some disk)"
    using last_slash_append [of disk dir] assms(3) by (simp add: stripoff_last_component_def)
  ultimately show ?thesis
    unfolding parent_in_link_def sysfs_readlink_def read_link_def using assms(1) t c by simp
qed

text \<open>The number of a device is printed by the kernel and read back.\<close>

lemma scan_num_show:
  assumes "r = [] \<or> \<not> is_digit (hd r)"
  shows "scan_num (show_nat n @ r) = Some (int n, r)"
proof -
  obtain c cs where s: "show_nat n = c # cs" by (cases "show_nat n") simp_all
  have d: "is_digit x" if "x \<in> set (show_nat n)" for x using that by (rule show_nat_digits)
  have c: "\<not> isspace c" "c \<noteq> CHR ''-''" "c \<noteq> CHR ''+''"
    using d [of c] s is_digit_not_space by (auto simp: is_digit_def)
  have "dropWhile isspace (show_nat n @ r) = show_nat n @ r" using c(1) s by simp
  moreover have "strip_sign (show_nat n @ r) = (False, show_nat n @ r)" using c s by simp
  moreover have "takeWhile is_digit (show_nat n @ r) = show_nat n" "dropWhile is_digit (show_nat n @ r) = r"
    using d assms by (auto simp: takeWhile_append dropWhile_append takeWhile_eq_Nil_iff dropWhile_eq_self_iff)
  ultimately show ?thesis by (simp add: scan_num_def digits_value_show_nat)
qed

definition devno_text :: "nat \<Rightarrow> nat \<Rightarrow> string" where
  "devno_text maj mi = show_nat maj @ '':'' @ show_nat mi @ [NL]"

lemma scan_devno_text: "maj < 2 ^ 31 \<Longrightarrow> mi < 2 ^ 31 \<Longrightarrow> scan_devno (devno_text maj mi) = Some (int maj, int mi)"
  by (simp add: scan_devno_def devno_text_def scan_num_show is_digit_def saturate_def)

lemma dev_numbers:
  assumes "maj < 4096" and "mi < 1048576"
  shows "dev_major (makedev maj mi) = maj \<and> dev_minor (makedev maj mi) = mi"
proof -
  have e: "makedev maj mi = maj * 256 + mi mod 256 + mi div 256 * 1048576"
    using assms by (simp add: makedev_def less_mult_imp_div_less)
  then have f: "makedev maj mi = mi mod 256 + (maj + mi div 256 * 4096) * 256" by simp
  have "makedev maj mi div 256 = maj + mi div 256 * 4096" "makedev maj mi mod 256 = mi mod 256"
    unfolding f by (simp_all only: div_mult_self1 mod_mult_self1) simp_all
  moreover have "makedev maj mi div 1048576 = mi div 256"
  proof -
    have "maj * 256 + mi mod 256 < 1048576" using assms(1) mod_less_divisor [of 256 mi] by linarith
    then show ?thesis unfolding e by simp
  qed
  ultimately show ?thesis using assms by (simp add: dev_major_def dev_minor_def)
qed

section \<open>The disk of a partition\<close>

text \<open>A partition as the kernel shows it: its directory, the file that says so, and the link.\<close>

definition shows_partition :: "files \<Rightarrow> nat \<Rightarrow> string \<Rightarrow> bool" where
  "shows_partition fs dev disk \<longleftrightarrow>
     (\<exists>path dir part. sysfs_devno_path dev PATH_MAX = Some path \<and> fl_node fs path \<noteq> None \<and>
       fl_node fs (under path ''partition'') \<noteq> None \<and>
       fl_link fs path = Some (dir @ ''/'' @ disk @ ''/'' @ part) \<and>
       NUL \<notin> set (dir @ disk @ part) \<and> CHR ''/'' \<notin> set (disk @ part) \<and> length (dir @ disk @ part) + 3 \<le> PATH_MAX)"

text \<open>A disk: its number is in its file, and it is neither a partition nor mapped.\<close>

definition shows_disk :: "files \<Rightarrow> string \<Rightarrow> nat \<Rightarrow> nat \<Rightarrow> bool" where
  "shows_disk fs disk maj mi \<longleftrightarrow>
     maj < 4096 \<and> mi < 1048576 \<and> makedev maj mi \<noteq> 0 \<and> length disk \<le> 255 \<and> \<not> has_prefix disk ''/dev/'' \<and>
     file_text fs (SYS_BLOCK @ ''/'' @ disk @ ''/dev'') = Some (devno_text maj mi) \<and>
     (\<exists>path. sysfs_devno_path (makedev maj mi) PATH_MAX = Some path \<and> fl_node fs path \<noteq> None \<and>
       fl_node fs (under path ''partition'') = None \<and> fl_node fs (under path ''dm/uuid'') = None)"

lemma makedev_int_id: "maj < 2 ^ 32 \<Longrightarrow> mi < 2 ^ 32 \<Longrightarrow> makedev_int (int maj) (int mi) = makedev maj mi"
  by (simp add: makedev_int_def)

lemma disk_number: "shows_disk fs disk maj mi \<Longrightarrow> sysfs_devname_to_devno fs disk None = makedev maj mi"
  by (auto simp: shows_disk_def sysfs_devname_to_devno_def devno_from_file_def in_buffer_def scan_devno_text
      makedev_int_id SYS_BLOCK_def PATH_MAX_def)

text \<open>C20. The whole disk of a partition, as the kernel shows it, is the disk its link lies
  under, with the number printed in the file of the disk; and the whole disk of that disk is the disk itself.\<close>

theorem wholedisk_of_partition:
  assumes "shows_partition fs dev disk" and "shows_disk fs disk maj mi" and "dev \<noteq> 0"
  shows "sysfs_devno_to_wholedisk fs dev = Some (makedev maj mi) \<and>
    sysfs_devno_to_wholedisk fs (makedev maj mi) = Some (makedev maj mi) \<and>
    sysfs_devno_is_wholedisk fs (makedev maj mi) = 1"
proof -
  obtain path dir part where p: "sysfs_devno_path dev PATH_MAX = Some path" "fl_node fs path \<noteq> None"
    "fl_node fs (under path ''partition'') \<noteq> None" "fl_link fs path = Some (dir @ ''/'' @ disk @ ''/'' @ part)"
    "NUL \<notin> set (dir @ disk @ part)" "CHR ''/'' \<notin> set (disk @ part)" "length (dir @ disk @ part) + 3 \<le> PATH_MAX"
    using assms(1) unfolding shows_partition_def by blast
  let ?c = "\<lparr>sc_devno = dev, sc_path = path, sc_parent = None\<rparr>"
  have l: "fl_link fs (sc_path ?c) = Some (dir @ ''/'' @ disk @ ''/'' @ part)" using p(4) by simp
  from partition_parent [OF l p(5-7)] have "parent_in_link fs ?c = Some disk" .
  moreover have "sysfs_has_attribute fs ?c ''partition''"
    using p(3) by (simp add: sysfs_has_attribute_def sysfs_stat_def sysfs_file_def has_prefix_def)
  moreover have "makedev maj mi \<noteq> 0" using assms(2) by (simp add: shows_disk_def)
  ultimately have 1: "sysfs_devno_to_wholedisk fs dev = Some (makedev maj mi)"
    using p(1,2) assms(3) disk_number [OF assms(2)] by (simp add: sysfs_devno_to_wholedisk_def sysfs_init_def)
  obtain q where q: "sysfs_devno_path (makedev maj mi) PATH_MAX = Some q" "fl_node fs q \<noteq> None"
    "fl_node fs (under q ''partition'') = None" "fl_node fs (under q ''dm/uuid'') = None"
    using assms(2) unfolding shows_disk_def by blast
  then have 2: "sysfs_devno_to_wholedisk fs (makedev maj mi) = Some (makedev maj mi)"
    using assms(2)
    by (simp add: sysfs_devno_to_wholedisk_def sysfs_init_def sysfs_has_attribute_def sysfs_stat_def sysfs_file_def
        has_prefix_def sysfs_strdup_def sysfs_fopen_def file_text_def is_dm_part_def shows_disk_def)
  show ?thesis using 1 2 by (simp add: sysfs_devno_is_wholedisk_def)
qed

definition demo_files :: files where
  "demo_files = \<lparr>
     fl_node = (\<lambda>p. map_of [(''/sys/dev/block/8:1'', Directory [''dev'', ''partition'']),
       (''/sys/dev/block/8:1/partition'', File (''1'' @ [NL])), (''/sys/dev/block/8:0'', Directory [''dev'']),
       (''/sys/block/sda/dev'', File (''8:0'' @ [NL]))] p),
     fl_link = (\<lambda>p. map_of [(''/sys/dev/block/8:1'', ''../../devices/sda/sda1'')] p)\<rparr>"

theorem wholedisk_of_partition_witness:
  "sysfs_devno_to_wholedisk demo_files (makedev 8 1) = Some (makedev 8 0) \<and>
   sysfs_devno_to_wholedisk demo_files (makedev 8 0) = Some (makedev 8 0) \<and>
   sysfs_devno_is_wholedisk demo_files (makedev 8 0) = 1"
proof (rule wholedisk_of_partition)
  have n: "show_nat 8 = ''8''" "show_nat 1 = ''1''" "show_nat 0 = ''0''" by (subst show_nat.simps, simp add: digit_char_def)+
  have k: "makedev 8 1 = 2049" "makedev 8 0 = 2048" by (simp_all add: makedev_def)
  have v: "dev_major 2049 = 8" "dev_minor 2049 = 1" "dev_major 2048 = 8" "dev_minor 2048 = 0"
    by (simp_all add: dev_major_def dev_minor_def)
  have "sysfs_devno_path 2049 PATH_MAX = in_buffer PATH_MAX ''/sys/dev/block/8:1''"
    "sysfs_devno_path 2048 PATH_MAX = in_buffer PATH_MAX ''/sys/dev/block/8:0''"
    unfolding sysfs_devno_path_def sysfs_devno_attribute_path_def v n SYS_DEVBLOCK_def Let_def option.case append.simps
    by (rule refl)+
  moreover have "in_buffer PATH_MAX s = Some s" if "length s < 100" for s using that by (simp add: in_buffer_def PATH_MAX_def)
  ultimately have d: "sysfs_devno_path (makedev 8 1) PATH_MAX = Some ''/sys/dev/block/8:1''"
    "sysfs_devno_path (makedev 8 0) PATH_MAX = Some ''/sys/dev/block/8:0''"
    unfolding k by simp_all
  have l: "length (''../../devices'' @ ''sda'' @ ''sda1'') + 3 \<le> PATH_MAX" by (simp add: PATH_MAX_def)
  have a: "fl_node demo_files ''/sys/dev/block/8:1'' \<noteq> None" by (simp add: demo_files_def)
  have b: "fl_node demo_files (under ''/sys/dev/block/8:1'' ''partition'') \<noteq> None"
    unfolding under_def append.simps by (simp add: demo_files_def)
  have c: "fl_link demo_files ''/sys/dev/block/8:1'' = Some (''../../devices'' @ ''/'' @ ''sda'' @ ''/'' @ ''sda1'')"
    by (simp add: demo_files_def)
  have e: "NUL \<notin> set (''../../devices'' @ ''sda'' @ ''sda1'')" "CHR ''/'' \<notin> set (''sda'' @ ''sda1'')" by simp_all
  show "shows_partition demo_files (makedev 8 1) ''sda''"
    unfolding shows_partition_def
    by (rule exI [of _ "''/sys/dev/block/8:1''"], rule exI [of _ "''../../devices''"], rule exI [of _ "''sda1''"])
       (intro conjI d(1) a b c e l)
  have t: "devno_text 8 0 = ''8:0'' @ [NL]" unfolding devno_text_def n by simp
  show "shows_disk demo_files ''sda'' 8 0"
    unfolding shows_disk_def t d(2) by (simp add: demo_files_def under_def file_text_def has_prefix_def SYS_BLOCK_def k)
  show "makedev 8 1 \<noteq> 0" by (simp add: makedev_def)
qed

end
