(* ===== verification/Devno.thy ===== *)
theory Devno
  imports Sysfs
begin

text \<open>
  Names of block devices and the numbers of drivers, src/lib/libblkid/src/devno.c, over the file
  system of \<open>Sysfs\<close>.
\<close>

definition blkid_strconcat :: "string option \<Rightarrow> string option \<Rightarrow> string option \<Rightarrow> string option" where
  "blkid_strconcat a b c =
     (let text = (\<lambda>s. case s of Some t \<Rightarrow> t | None \<Rightarrow> []); res = text a @ text b @ text c in
      if res = [] then None else Some res)"

text \<open>A directory in front of the list.\<close>

definition add_to_dirlist :: "string option \<Rightarrow> string option \<Rightarrow> string list \<Rightarrow> string list" where
  "add_to_dirlist dir subdir list =
     (case (if subdir \<noteq> None then blkid_strconcat dir (Some ''/'') subdir else dir) of
        None \<Rightarrow> list | Some name \<Rightarrow> name # list)"

text \<open>
  The loop over the entries of a directory: the name of the device, or the list with the
  subdirectories that are to be searched.
\<close>

fun scan_entries :: "files \<Rightarrow> string \<Rightarrow> nat \<Rightarrow> string list \<Rightarrow> string list \<Rightarrow> string option \<times> string list" where
  "scan_entries fs dirname devno [] list = (None, list)"
| "scan_entries fs dirname devno (d # ds) list =
     (let path = under dirname d in
      case fl_node fs path of
        None \<Rightarrow> scan_entries fs dirname devno ds list
      | Some (File _) \<Rightarrow> scan_entries fs dirname devno ds list
      | Some (Block_Device dev) \<Rightarrow>
          if dev = devno then (blkid_strconcat (Some dirname) (Some ''/'') (Some d), list)
          else scan_entries fs dirname devno ds list
      | Some (Directory _) \<Rightarrow>
          if fl_link fs path \<noteq> None then scan_entries fs dirname devno ds list
          else if has_prefix d ''.'' \<or> d = ''shm'' then scan_entries fs dirname devno ds list
          else scan_entries fs dirname devno ds (add_to_dirlist (Some dirname) (Some d) list))"

definition blkid__scan_dir :: "files \<Rightarrow> string \<Rightarrow> nat \<Rightarrow> string list \<Rightarrow> string option \<times> string list" where
  "blkid__scan_dir fs dirname devno list =
     (case dir_entries fs dirname of None \<Rightarrow> (None, list) | Some ds \<Rightarrow> scan_entries fs dirname devno ds list)"

definition devdirs :: "string list" where
  "devdirs = [''/devices'', ''/devfs'', ''/dev'']"

text \<open>
  The search goes level by level: \<open>new_list\<close> is the next level. \<open>None\<close> stands for a search that is
  still running after \<open>n\<close> directories.
\<close>

fun scandev_loop :: "nat \<Rightarrow> files \<Rightarrow> nat \<Rightarrow> string list \<Rightarrow> string list \<Rightarrow> string option option" where
  "scandev_loop n fs devno [] new_list = Some None"
| "scandev_loop 0 fs devno (cur # list) new_list = None"
| "scandev_loop (Suc n) fs devno (cur # list) new_list =
     (case blkid__scan_dir fs cur devno new_list of
        (Some path, _) \<Rightarrow> Some (Some path)
      | (None, new_list) \<Rightarrow>
          if list = [] then scandev_loop n fs devno new_list []
          else scandev_loop n fs devno list new_list)"

definition scandev_devno_to_devpath :: "nat \<Rightarrow> files \<Rightarrow> nat \<Rightarrow> string option option" where
  "scandev_devno_to_devpath n fs devno =
     scandev_loop n fs devno (fold (\<lambda>dir list. add_to_dirlist (Some dir) None list) devdirs []) []"

definition blkid_devno_to_devname :: "nat \<Rightarrow> files \<Rightarrow> nat \<Rightarrow> string option option" where
  "blkid_devno_to_devname n fs devno =
     (case sysfs_devno_to_devpath fs devno PATH_MAX of
        Some path \<Rightarrow> Some (Some path) | None \<Rightarrow> scandev_devno_to_devpath n fs devno)"

definition blkid_devno_to_wholedisk :: "files \<Rightarrow> nat \<Rightarrow> nat option" where
  "blkid_devno_to_wholedisk fs dev = sysfs_devno_to_wholedisk fs dev"

section \<open>Drivers\<close>

definition driver_line :: "string \<Rightarrow> (int \<times> string) option" where
  "driver_line buf =
     (case scan_num buf of
        None \<Rightarrow> None
      | Some (maj, r) \<Rightarrow>
          let name = take 64 (takeWhile (\<lambda>c. c \<noteq> NL \<and> c \<noteq> SPC) (dropWhile isspace r)) in
          if name = [] then None else Some (saturate (- (2 ^ 31)) (2 ^ 31 - 1) maj, name))"

definition blkid_driver_has_major :: "files \<Rightarrow> string \<Rightarrow> nat \<Rightarrow> bool" where
  "blkid_driver_has_major fs drvname major =
     (case file_text fs ''/proc/devices'' of
        None \<Rightarrow> False
      | Some text \<Rightarrow>
          let ls = dropWhile (\<lambda>l. l \<noteq> ''Block devices:'' @ [NL]) (fgets_all 127 text) in
          (\<exists>l \<in> set (tl ls). driver_line l = Some (int major, drvname)))"

section \<open>What the search finds\<close>

lemma scan_entries_device:
  "scan_entries fs dirname devno ds list = (Some path, list') \<Longrightarrow> fl_node fs path = Some (Block_Device devno)"
  by (induction fs dirname devno ds list rule: scan_entries.induct)
     (auto simp: Let_def blkid_strconcat_def under_def split: option.splits node.splits if_splits)

lemma scandev_device: "scandev_loop n fs devno list new = Some (Some path) \<Longrightarrow> fl_node fs path = Some (Block_Device devno)"
  by (induction n fs devno list new rule: scandev_loop.induct)
     (auto simp: blkid__scan_dir_def split: option.splits prod.splits if_splits intro: scan_entries_device)

text \<open>The search ends when there is a bound on the length of the names of directories.\<close>

lemma scan_entries_lengths:
  assumes "scan_entries fs dirname devno ds list = (r, list')" and "x \<in> set list'"
  shows "x \<in> set list \<or> length dirname < length x \<and> (\<exists>ns. fl_node fs x = Some (Directory ns))"
  using assms
  by (induction fs dirname devno ds list rule: scan_entries.induct)
     (fastforce simp: Let_def blkid_strconcat_def add_to_dirlist_def under_def split: option.splits node.splits if_splits)+

lemma scan_dir_lengths:
  assumes "blkid__scan_dir fs cur devno new = (r, new')" and "x \<in> set new'"
  shows "x \<in> set new \<or> length cur < length x \<and> (\<exists>ns. fl_node fs x = Some (Directory ns))"
  using assms by (auto simp: blkid__scan_dir_def split: option.splits dest: scan_entries_lengths)

definition level :: "files \<Rightarrow> nat \<Rightarrow> nat \<Rightarrow> string list \<Rightarrow> bool" where
  "level fs L k xs \<longleftrightarrow> (\<forall>x \<in> set xs. k \<le> length x \<and> length x \<le> L)"

lemma scandev_ends_at:
  assumes "\<And>p ns. fl_node fs p = Some (Directory ns) \<Longrightarrow> length p \<le> L"
    and "level fs L k xs" and "level fs L (Suc k) ys"
  shows "\<exists>n r. scandev_loop n fs devno xs ys = Some r"
  using assms(2,3)
proof (induction "Suc L - k" arbitrary: k xs ys rule: less_induct)
  case less
  from less.prems show ?case
  proof (induction xs arbitrary: ys)
    case Nil
    have "scandev_loop 0 fs devno [] ys = Some None" by simp
    then show ?case by blast
  next
    case (Cons cur list)
    obtain r new where s: "blkid__scan_dir fs cur devno ys = (r, new)" by (metis surj_pair)
    have new: "level fs L (Suc k) new"
      using Cons.prems scan_dir_lengths [OF s] assms(1) by (fastforce simp: level_def)
    show ?case
    proof (cases r)
      case (Some path)
      then have "scandev_loop 1 fs devno (cur # list) ys = Some (Some path)" using s by simp
      then show ?thesis by blast
    next
      case None
      have "\<exists>n r. scandev_loop n fs devno (if list = [] then new else list) (if list = [] then [] else new) = Some r"
      proof (cases "list = []")
        case True
        have "k \<le> L" using Cons.prems by (auto simp: level_def)
        then have "Suc L - Suc k < Suc L - k" by simp
        from less.hyps [OF this new] show ?thesis using True by (simp add: level_def)
      next
        case False
        have "level fs L k list" using Cons.prems by (simp add: level_def)
        from Cons.IH [OF this new] show ?thesis using False by simp
      qed
      then obtain n r' where "scandev_loop n fs devno (if list = [] then new else list) (if list = [] then [] else new) = Some r'"
        by blast
      then have "scandev_loop (Suc n) fs devno (cur # list) ys = Some r'" using s None by (simp split: if_splits)
      then show ?thesis by blast
    qed
  qed
qed

text \<open>C33. A name that is found for a device number belongs to a block device with that
  number, wherever the search found it.\<close>

theorem devname_found:
  assumes "blkid_devno_to_devname n fs devno = Some (Some path)"
  shows "fl_node fs path = Some (Block_Device devno)"
  using assms by (auto simp: blkid_devno_to_devname_def scandev_devno_to_devpath_def
      split: option.splits intro: devname_is_device scandev_device)

text \<open>The search ends on every file system that has a longest directory name.\<close>

theorem devname_search_ends:
  assumes "\<And>p ns. fl_node fs p = Some (Directory ns) \<Longrightarrow> length p \<le> L"
  shows "\<exists>n r. blkid_devno_to_devname n fs devno = Some r"
proof (cases "sysfs_devno_to_devpath fs devno PATH_MAX")
  case None
  let ?ds = "fold (\<lambda>dir list. add_to_dirlist (Some dir) None list) devdirs []"
  have "level fs (max L 10) 0 ?ds" "level fs (max L 10) 1 []" by (auto simp: level_def add_to_dirlist_def devdirs_def)
  moreover have "length p \<le> max L 10" if "fl_node fs p = Some (Directory ns)" for p ns using assms [OF that] by simp
  ultimately have "\<exists>n r. scandev_loop n fs devno ?ds [] = Some r" by (intro scandev_ends_at) auto
  then show ?thesis using None by (auto simp: blkid_devno_to_devname_def scandev_devno_to_devpath_def)
qed (auto simp: blkid_devno_to_devname_def)

text \<open>A machine without sysfs, where the search has to go through /dev.\<close>

definition dev_files :: files where
  "dev_files = \<lparr>
     fl_node = (\<lambda>p. if p = ''/dev'' then Some (Directory [''.'', ''..'', ''block''])
       else if p = ''/dev/block'' then Some (Directory [''null'', ''mmcblk0p1''])
       else if p = ''/dev/block/mmcblk0p1'' then Some (Block_Device 45825) else None),
     fl_link = (\<lambda>p. None)\<rparr>"

theorem devname_found_witness:
  "blkid_devno_to_devname 4 dev_files 45825 = Some (Some ''/dev/block/mmcblk0p1'') \<and>
   fl_node dev_files ''/dev/block/mmcblk0p1'' = Some (Block_Device 45825)"
proof -
  have p: "sysfs_devno_path 45825 PATH_MAX = in_buffer PATH_MAX (''/sys/dev/block/'' @ r)"
    if "r = show_nat (dev_major 45825) @ '':'' @ show_nat (dev_minor 45825)" for r
    by (simp add: sysfs_devno_path_def sysfs_devno_attribute_path_def SYS_DEVBLOCK_def that)
  have "fl_node dev_files (''/sys/dev/block/'' @ r) = None" for r by (simp add: dev_files_def)
  then have "sysfs_init dev_files 45825 None = None"
    using p by (auto simp: sysfs_init_def in_buffer_def split: option.splits if_splits)
  then have "sysfs_devno_to_devpath dev_files 45825 PATH_MAX = None" by (simp add: sysfs_devno_to_devpath_def)
  moreover have "scandev_devno_to_devpath (Suc (Suc (Suc (Suc 0)))) dev_files 45825 = Some (Some ''/dev/block/mmcblk0p1'')"
    by (simp add: scandev_devno_to_devpath_def add_to_dirlist_def devdirs_def blkid__scan_dir_def
        dir_entries_def dev_files_def under_def blkid_strconcat_def has_prefix_def)
  moreover have "Suc (Suc (Suc (Suc 0))) = 4" by simp
  ultimately have "blkid_devno_to_devname 4 dev_files 45825 = Some (Some ''/dev/block/mmcblk0p1'')"
    by (simp only: blkid_devno_to_devname_def option.case)
  with devname_found [OF this] show ?thesis by blast
qed

end
