(* ===== verification/Topology.thy ===== *)
theory Topology
  imports Devno PtFacts
begin

text \<open>
  The topology chain, src/lib/libblkid/src/topology: sizes of input and output of a block device,
  from the first of six sources that knows them. What the kernel and the tools of the system say
  is a parameter.
\<close>

text \<open>
  The answers to the requests of ioctl.c, the file system for sysfs and /proc, the path of a
  device, the stripes of an EVMS device, level, disks and chunk of an MD array (asked through the
  descriptor of the probe or through a path; \<open>None\<close> when it cannot be opened either), and the output
  of dmsetup and lvdisplay (\<open>None\<close> when the program cannot be run).
\<close>

datatype tp_val = Alignment_Offset | Minimum_Io_Size | Optimal_Io_Size | Physical_Sector_Size | Logical_Sector_Size

record md_array_info =
  md_level :: u32
  md_raid_disks :: u32
  md_chunk_size :: u32

record tp_env =
  te_ioctl :: "tp_val \<Rightarrow> u32 option"
  te_files :: files
  te_devname :: "nat \<Rightarrow> string option"
  te_evms :: "(u32 \<times> u32) option"
  te_md :: "string option \<Rightarrow> md_array_info option"
  te_dmsetup :: "nat \<Rightarrow> nat \<Rightarrow> string option"
  te_lvdisplay :: "string \<Rightarrow> string option"

section \<open>Values\<close>

definition zero_topology :: topology where
  "zero_topology = \<lparr>tp_alignment_offset = 0, tp_minimum_io_size = 0, tp_optimal_io_size = 0,
     tp_logical_sector_size = 0, tp_physical_sector_size = 0\<rparr>"

definition sizeof_topology :: int where "sizeof_topology = 20"

definition set_topology :: "topology option \<Rightarrow> unit prober" where
  "set_topology tp = modify (\<lambda>pr. pr\<lparr>pr_topology := tp\<rparr>)"

primrec tp_name :: "tp_val \<Rightarrow> string" where
  "tp_name Alignment_Offset = ''ALIGNMENT_OFFSET''"
| "tp_name Minimum_Io_Size = ''MINIMUM_IO_SIZE''"
| "tp_name Optimal_Io_Size = ''OPTIMAL_IO_SIZE''"
| "tp_name Physical_Sector_Size = ''PHYSICAL_SECTOR_SIZE''"
| "tp_name Logical_Sector_Size = ''LOGICAL_SECTOR_SIZE''"

primrec tp_store :: "tp_val \<Rightarrow> nat \<Rightarrow> topology \<Rightarrow> topology" where
  "tp_store Alignment_Offset n tp = tp\<lparr>tp_alignment_offset := n\<rparr>"
| "tp_store Minimum_Io_Size n tp = tp\<lparr>tp_minimum_io_size := n\<rparr>"
| "tp_store Optimal_Io_Size n tp = tp\<lparr>tp_optimal_io_size := n\<rparr>"
| "tp_store Physical_Sector_Size n tp = tp\<lparr>tp_physical_sector_size := n\<rparr>"
| "tp_store Logical_Sector_Size n tp = tp\<lparr>tp_logical_sector_size := n\<rparr>"

definition topology_set_value :: "tp_val \<Rightarrow> u32 \<Rightarrow> int prober" where
  "topology_set_value v num =
     do {
       pr \<leftarrow> gets id;
       case pr_cur_chain pr of
         None \<Rightarrow> ret (- 1)
       | Some c \<Rightarrow>
           if num = 0 then ret 0
           else if ch_binary (chain_at pr c) then
             (case pr_topology pr of
                None \<Rightarrow> do { fault (Undefined Null_Deref); ret 0 }
              | Some tp \<Rightarrow> do { set_topology (Some (tp_store v (unat num) tp)); ret 0 })
           else blkid_probe_vsprintf_value (tp_name v) (show_u32 num)
     }"

definition topology_is_complete :: "probe \<Rightarrow> bool" where
  "topology_is_complete pr \<longleftrightarrow>
     (case pr_cur_chain pr of
        None \<Rightarrow> False
      | Some c \<Rightarrow>
          (ch_binary (chain_at pr c) \<and> (case pr_topology pr of Some tp \<Rightarrow> tp_minimum_io_size tp \<noteq> 0 | None \<Rightarrow> False)) \<or>
          blkid_probe_lookup_value pr ''MINIMUM_IO_SIZE'' \<noteq> None)"

definition blkid_topology_set_alignment_offset :: "int \<Rightarrow> int prober" where
  "blkid_topology_set_alignment_offset val = topology_set_value Alignment_Offset (if val < 0 then 0 else of_int val)"

definition blkid_topology_set_minimum_io_size :: "u32 \<Rightarrow> int prober" where
  "blkid_topology_set_minimum_io_size val = topology_set_value Minimum_Io_Size val"

definition blkid_topology_set_optimal_io_size :: "u32 \<Rightarrow> int prober" where
  "blkid_topology_set_optimal_io_size val = topology_set_value Optimal_Io_Size val"

definition blkid_topology_set_physical_sector_size :: "u32 \<Rightarrow> int prober" where
  "blkid_topology_set_physical_sector_size val = topology_set_value Physical_Sector_Size val"

definition topology_set_logical_sector_size :: "int prober" where
  "topology_set_logical_sector_size =
     do {
       val \<leftarrow> blkid_probe_get_sectorsize;
       if (of_nat val :: u32) = 0 then ret (- 1) else topology_set_value Logical_Sector_Size (of_nat val)
     }"

text \<open>The functions of the tables: one takes an \<open>int\<close>, the others an \<open>unsigned long\<close>.\<close>

definition tp_setter :: "tp_val \<Rightarrow> u32 \<Rightarrow> int prober" where
  "tp_setter v num =
     (case v of
        Alignment_Offset \<Rightarrow> blkid_topology_set_alignment_offset (sint num)
      | Minimum_Io_Size \<Rightarrow> blkid_topology_set_minimum_io_size num
      | Optimal_Io_Size \<Rightarrow> blkid_topology_set_optimal_io_size num
      | Physical_Sector_Size \<Rightarrow> blkid_topology_set_physical_sector_size num
      | Logical_Sector_Size \<Rightarrow> topology_set_value Logical_Sector_Size num)"

section \<open>The kernel's requests\<close>

definition ioctl_topology_vals :: "tp_val list" where
  "ioctl_topology_vals = [Alignment_Offset, Minimum_Io_Size, Optimal_Io_Size, Physical_Sector_Size]"

fun ioctl_loop :: "tp_env \<Rightarrow> tp_val list \<Rightarrow> int prober" where
  "ioctl_loop env [] = ret 0"
| "ioctl_loop env (v # vs) =
     (case te_ioctl env v of
        None \<Rightarrow> ret 1
      | Some num \<Rightarrow> do { rc \<leftarrow> tp_setter v num; if rc \<noteq> 0 then ret (- 1) else ioctl_loop env vs })"

definition probe_ioctl_tp :: "tp_env \<Rightarrow> int prober" where
  "probe_ioctl_tp env = ioctl_loop env ioctl_topology_vals"

section \<open>The attributes in sysfs\<close>

definition sysfs_topology_vals :: "(string \<times> tp_val) list" where
  "sysfs_topology_vals = [(''alignment_offset'', Alignment_Offset), (''queue/minimum_io_size'', Minimum_Io_Size),
     (''queue/optimal_io_size'', Optimal_Io_Size), (''queue/physical_block_size'', Physical_Sector_Size)]"

definition sysfs_value :: "files \<Rightarrow> sysfs_cxt \<Rightarrow> string \<Rightarrow> tp_val \<Rightarrow> u32 option" where
  "sysfs_value fs cxt attr v =
     (if v = Alignment_Offset then map_option of_int (sysfs_read_s64 fs cxt attr)
      else map_option ucast (sysfs_read_u64 fs cxt attr))"

text \<open>
  One attribute: it is looked for at the disk once that of the device was not found. \<open>Inr\<close> is the
  result of an iteration that leaves the loop, \<open>Inl\<close> the context and the disk for the next one,
  with the return code so far.
\<close>

definition sysfs_lookup :: "files \<Rightarrow> nat \<Rightarrow> sysfs_cxt \<Rightarrow> nat \<Rightarrow> string \<Rightarrow> (bool \<times> sysfs_cxt \<times> nat) option prober" where
  "sysfs_lookup fs dev cxt disk attr =
     (if sysfs_has_attribute fs cxt attr then ret (Some (True, cxt, disk))
      else if disk \<noteq> 0 then ret (Some (False, cxt, disk))
      else do {
        disk \<leftarrow> blkid_probe_get_wholedisk_devno;
        if disk \<noteq> 0 \<and> disk \<noteq> dev then
          (case sysfs_init fs disk None of
             None \<Rightarrow> ret None
           | Some parent \<Rightarrow>
               let cxt = cxt\<lparr>sc_parent := Some (sc_path parent)\<rparr> in
               ret (Some (sysfs_has_attribute fs cxt attr, cxt, disk)))
        else ret (Some (False, cxt, disk))
      })"

definition tp_result :: "nat \<Rightarrow> int \<Rightarrow> int" where
  "tp_result count res = (if count \<noteq> 0 then 0 else res)"

fun sysfs_loop :: "files \<Rightarrow> nat \<Rightarrow> sysfs_cxt \<Rightarrow> nat \<Rightarrow> nat \<Rightarrow> int \<Rightarrow> (string \<times> tp_val) list \<Rightarrow> int prober" where
  "sysfs_loop fs dev cxt disk count res [] = ret (tp_result count res)"
| "sysfs_loop fs dev cxt disk count res ((attr, v) # vs) =
     do {
       r \<leftarrow> sysfs_lookup fs dev cxt disk attr;
       case r of
         None \<Rightarrow> ret (tp_result count 1)
       | Some (False, cxt, disk) \<Rightarrow> sysfs_loop fs dev cxt disk count 1 vs
       | Some (True, cxt, disk) \<Rightarrow>
           (case sysfs_value fs cxt attr v of
              None \<Rightarrow> sysfs_loop fs dev cxt disk count 1 vs
            | Some num \<Rightarrow> do {
                rc \<leftarrow> tp_setter v num;
                if rc < 0 then ret (tp_result count rc)
                else sysfs_loop fs dev cxt disk (if rc = 0 then count + 1 else count) rc vs
              })
     }"

definition probe_sysfs_tp :: "tp_env \<Rightarrow> int prober" where
  "probe_sysfs_tp env =
     do {
       dev \<leftarrow> gets pr_devno;
       case (if dev = 0 then None else sysfs_init (te_files env) dev None) of
         None \<Rightarrow> ret 1
       | Some cxt \<Rightarrow> sysfs_loop (te_files env) dev cxt 0 0 1 sysfs_topology_vals
     }"

section \<open>MD, EVMS, LVM and the device mapper\<close>

definition set_io_sizes :: "u32 \<Rightarrow> u32 \<Rightarrow> int prober" where
  "set_io_sizes minimum optimal =
     do { blkid_topology_set_minimum_io_size minimum; blkid_topology_set_optimal_io_size optimal; ret 0 }"

text \<open>\<open>if (!devno) goto nothing; if (!is_..._device(devno)) goto nothing\<close>.\<close>

definition with_device :: "(nat \<Rightarrow> bool) \<Rightarrow> (nat \<Rightarrow> int prober) \<Rightarrow> int prober" where
  "with_device is_device f =
     do { devno \<leftarrow> gets pr_devno; if devno = 0 \<or> \<not> is_device devno then ret 1 else f devno }"

definition is_md_device :: "files \<Rightarrow> nat \<Rightarrow> bool" where
  "is_md_device fs devno \<longleftrightarrow> dev_major devno = 9 \<or> blkid_driver_has_major fs ''md'' (dev_major devno)"

text \<open>The disks that hold data, for the levels with stripes.\<close>

definition md_data_disks :: "md_array_info \<Rightarrow> u32 option" where
  "md_data_disks md =
     (if md_level md = 6 then Some (md_raid_disks md - 2)
      else if md_level md \<in> {4, 5} then Some (md_raid_disks md - 1)
      else if md_level md \<in> {0, 1, 10} then Some (md_raid_disks md)
      else None)"

definition probe_md_tp :: "tp_env \<Rightarrow> int prober" where
  "probe_md_tp env =
     with_device (is_md_device (te_files env)) (\<lambda>devno. do {
       pr \<leftarrow> gets id;
       case md_wholedisk (pr_medium pr) devno of
         None \<Rightarrow> ret 1
       | Some disk \<Rightarrow>
           (case (if disk = devno then te_md env None
                  else case te_devname env disk of None \<Rightarrow> None | Some path \<Rightarrow> te_md env (Some path)) of
              None \<Rightarrow> ret 1
            | Some md \<Rightarrow>
                (case md_data_disks md of
                   None \<Rightarrow> ret 1 | Some disks \<Rightarrow> set_io_sizes (md_chunk_size md) (md_chunk_size md * disks)))
     })"

definition is_evms_device :: "files \<Rightarrow> nat \<Rightarrow> bool" where
  "is_evms_device fs devno \<longleftrightarrow> dev_major devno = 117 \<or> blkid_driver_has_major fs ''evms'' (dev_major devno)"

definition probe_evms_tp :: "tp_env \<Rightarrow> int prober" where
  "probe_evms_tp env =
     with_device (is_evms_device (te_files env)) (\<lambda>devno.
       case te_evms env of
         None \<Rightarrow> ret 1
       | Some (stripe, width) \<Rightarrow> set_io_sizes (push_bit 9 stripe) (push_bit 9 (stripe * width)))"

text \<open>Arithmetic on \<open>int\<close>: a result out of range is undefined, and so is a negative shifted to the left.\<close>

definition int_times :: "int \<Rightarrow> int \<Rightarrow> int prober" where
  "int_times a b =
     (if a * b < - (2 ^ 31) \<or> 2 ^ 31 \<le> a * b then do { fault (Undefined Signed_Overflow); ret (to_int32 (a * b)) }
      else ret (a * b))"

definition int_shift :: "int \<Rightarrow> nat \<Rightarrow> int prober" where
  "int_shift a n =
     (if a < 0 \<or> 2 ^ 31 \<le> a * 2 ^ n then do { fault (Undefined Signed_Overflow); ret (to_int32 (a * 2 ^ n)) }
      else ret (a * 2 ^ n))"

definition set_stripes :: "int \<Rightarrow> int \<Rightarrow> nat \<Rightarrow> int prober" where
  "set_stripes stripes stripesize n =
     do {
       minimum \<leftarrow> int_shift stripesize n;
       blkid_topology_set_minimum_io_size (of_int minimum);
       total \<leftarrow> int_times stripes stripesize;
       optimal \<leftarrow> int_shift total n;
       blkid_topology_set_optimal_io_size (of_int optimal);
       ret 0
     }"

definition is_dm_device :: "files \<Rightarrow> nat \<Rightarrow> bool" where
  "is_dm_device fs devno \<longleftrightarrow> blkid_driver_has_major fs ''device-mapper'' (dev_major devno)"

text \<open>
  What \<open>fscanf\<close> returns for a format that starts with a number: EOF at the end of the stream, 0
  when there is no number, otherwise how many conversions were made, one at least.
\<close>

definition dm_no_number :: "string \<Rightarrow> bool" where
  "dm_no_number text \<longleftrightarrow> dropWhile isspace text \<noteq> [] \<and> scan_num text = None"

text \<open>The code goes on when the result is 0, with variables that were never set.\<close>

definition probe_dm_tp :: "tp_env \<Rightarrow> int prober" where
  "probe_dm_tp env =
     with_device (is_dm_device (te_files env)) (\<lambda>devno.
       case te_dmsetup env (dev_major devno) (dev_minor devno) of
         None \<Rightarrow> ret 1
       | Some text \<Rightarrow>
           if \<not> dm_no_number text then ret 1
           else do { fault (Undefined Indeterminate); ret 0 })"

definition is_lvm_device :: "files \<Rightarrow> nat \<Rightarrow> bool" where
  "is_lvm_device fs devno \<longleftrightarrow> dev_major devno = 58 \<or> blkid_driver_has_major fs ''lvm'' (dev_major devno)"

text \<open>A format of words between which any white space may stand, then a number.\<close>

fun scan_words :: "string list \<Rightarrow> string \<Rightarrow> int option" where
  "scan_words [] s = (case scan_num s of Some (n, _) \<Rightarrow> Some (saturate (- (2 ^ 31)) (2 ^ 31 - 1) n) | None \<Rightarrow> None)"
| "scan_words (w # ws) s =
     (if has_prefix s w then scan_words ws (dropWhile isspace (drop (length w) s)) else None)"

definition lv_line :: "string \<Rightarrow> int \<times> int \<Rightarrow> int \<times> int" where
  "lv_line buf st =
     (let (stripes, stripesize) = st;
          stripes = (if has_prefix buf ''Stripes''
                     then (case scan_words [''Stripes''] buf of Some n \<Rightarrow> n | None \<Rightarrow> stripes) else stripes);
          stripesize = (if has_prefix buf ''Stripe size''
                        then (case scan_words [''Stripe'', ''size'', ''(KByte)''] buf of Some n \<Rightarrow> n | None \<Rightarrow> stripesize)
                        else stripesize)
      in (stripes, stripesize))"

definition probe_lvm_tp :: "tp_env \<Rightarrow> int prober" where
  "probe_lvm_tp env =
     with_device (is_lvm_device (te_files env)) (\<lambda>devno.
       case te_devname env devno of
         None \<Rightarrow> ret 1
       | Some path \<Rightarrow>
           (case te_lvdisplay env path of
              None \<Rightarrow> ret 1
            | Some text \<Rightarrow>
                let (stripes, stripesize) = fold lv_line (fgets_all 1023 text) (0, 0) in
                if stripes = 0 then ret 1 else set_stripes stripes stripesize 10))"

section \<open>The chain\<close>

definition tp_functions :: "tp_env \<Rightarrow> (string \<times> int prober) list" where
  "tp_functions env = [(''ioctl'', probe_ioctl_tp env), (''sysfs'', probe_sysfs_tp env), (''md'', probe_md_tp env),
     (''dm'', probe_dm_tp env), (''lvm'', probe_lvm_tp env), (''evms'', probe_evms_tp env)]"

text \<open>The functions ignore the magic and need no filter, so a table entry is a name and a function.\<close>

fun topology_loop :: "nat \<Rightarrow> (string \<times> int prober) list \<Rightarrow> int prober" where
  "topology_loop i [] = ret BLKID_PROBE_NONE"
| "topology_loop i ((name, f) # fns) =
     do {
       set_chain BLKID_CHAIN_TOPLGY (\<lambda>chn. chn\<lparr>ch_idx := int i\<rparr>);
       rc \<leftarrow> f;
       complete \<leftarrow> gets topology_is_complete;
       if rc \<noteq> 0 \<or> \<not> complete then topology_loop (i + 1) fns
       else do { topology_set_logical_sector_size; ret BLKID_PROBE_OK }
     }"

definition topology_init_data :: "bool prober" where
  "topology_init_data =
     do {
       pr \<leftarrow> gets id;
       if pr_topology pr \<noteq> None \<or> md_alloc (pr_medium pr) sizeof_topology
       then do { set_topology (Some zero_topology); ret True } else ret False
     }"

definition topology_probe :: "(string \<times> int prober) list \<Rightarrow> int prober" where
  "topology_probe fns =
     do {
       pr \<leftarrow> gets id;
       let chn = chain_at pr BLKID_CHAIN_TOPLGY;
       if ch_idx chn < - 1 then ret (- 1)
       else if \<not> S_ISBLK (pr_mode pr) then ret (- EINVAL)
       else do {
         ok \<leftarrow> (if ch_binary chn then topology_init_data else ret True);
         if \<not> ok then ret (- ENOMEM)
         else do {
           blkid_probe_chain_reset_vals BLKID_CHAIN_TOPLGY;
           let i = (if ch_idx chn < 0 then 0 else nat (ch_idx chn) + 1);
           topology_loop i (drop i fns)
         }
       }
     }"

definition blkid_probe_enable_topology :: "bool \<Rightarrow> int prober" where
  "blkid_probe_enable_topology enable = do { set_chain BLKID_CHAIN_TOPLGY (\<lambda>chn. chn\<lparr>ch_enabled := enable\<rparr>); ret 0 }"

definition blkid_probe_get_topology :: "tp_env \<Rightarrow> topology option prober" where
  "blkid_probe_get_topology env =
     do {
       valid \<leftarrow> blkid_probe_get_binary_data BLKID_CHAIN_TOPLGY (topology_probe (tp_functions env));
       if valid then gets pr_topology else ret None
     }"

definition topology_drv :: "tp_env \<Rightarrow> chaindrv" where
  "topology_drv env =
     \<lparr>cd_id = BLKID_CHAIN_TOPLGY, cd_name = ''topology'', cd_dflt_flags = 0, cd_dflt_enabled = False,
      cd_has_fltr = False, cd_idinfos = map fst (tp_functions env)\<rparr>"

definition topology_ops :: "tp_env \<Rightarrow> chain_ops" where
  "topology_ops env = \<lparr>co_probe = topology_probe (tp_functions env), co_safeprobe = topology_probe (tp_functions env)\<rparr>"

section \<open>What the chain keeps\<close>

locale topology_inv = prober_inv +
  assumes topology: "keeps I (set_topology tp)"
    and set_topology_idx: "keeps I (set_chain BLKID_CHAIN_TOPLGY (\<lambda>chn. chn\<lparr>ch_idx := idx\<rparr>))"
begin

lemma tp_name_not_type: "tp_name v \<noteq> ''TYPE''"
  by (cases v) simp_all

lemma tp_value: "keeps I (topology_set_value v num)"
  unfolding topology_set_value_def using tp_name_not_type [of v] by (intro tool_rules topology) auto

lemma tp_setters: "keeps I (tp_setter v num)" "keeps I (blkid_topology_set_minimum_io_size num)"
  "keeps I (blkid_topology_set_optimal_io_size num)"
  unfolding tp_setter_def blkid_topology_set_alignment_offset_def blkid_topology_set_minimum_io_size_def
    blkid_topology_set_optimal_io_size_def blkid_topology_set_physical_sector_size_def
  by (cases v; simp add: tp_value)+

lemma tp_sector_size: "keeps I topology_set_logical_sector_size"
  unfolding topology_set_logical_sector_size_def by (intro tool_rules tp_value)

lemma tp_ioctl_loop: "keeps I (ioctl_loop env vs)"
  by (induction vs) (auto intro!: tool_rules tp_setters split: option.splits)

lemma tp_sysfs_lookup: "keeps I (sysfs_lookup fs dev cxt disk attr)"
  unfolding sysfs_lookup_def Let_def by (intro tool_rules)

lemma tp_sysfs_loop: "keeps I (sysfs_loop fs dev cxt disk count res vs)"
proof (induction vs arbitrary: cxt disk count res)
  case (Cons a vs)
  show ?case
    by (cases a) (auto intro!: tool_rules tp_sysfs_lookup tp_setters Cons split: option.splits prod.splits bool.splits)
qed (auto intro: tool_rules)

lemma tp_stripes: "keeps I (set_stripes a b n)" "keeps I (set_io_sizes x y)"
  unfolding set_stripes_def set_io_sizes_def int_shift_def int_times_def by (intro tool_rules tp_setters)+

lemma tp_device: "(\<And>d. keeps I (f d)) \<Longrightarrow> keeps I (with_device P f)"
  unfolding with_device_def by (intro tool_rules)

lemma tp_function: "(name, f) \<in> set (tp_functions env) \<Longrightarrow> keeps I f"
  unfolding tp_functions_def probe_ioctl_tp_def probe_sysfs_tp_def probe_md_tp_def probe_evms_tp_def
    probe_dm_tp_def probe_lvm_tp_def Let_def
  by (auto intro!: tool_rules tp_ioctl_loop tp_sysfs_loop tp_device tp_stripes split: option.splits prod.splits)

lemma tp_chain_loop: "(\<And>name f. (name, f) \<in> set fns \<Longrightarrow> keeps I f) \<Longrightarrow> keeps I (topology_loop i fns)"
proof (induction fns arbitrary: i)
  case (Cons a fns)
  have f: "keeps I (snd a)" using Cons.prems [of "fst a" "snd a"] by simp
  have r: "keeps I (topology_loop (i + 1) fns)" by (rule Cons.IH) (auto intro: Cons.prems)
  show ?case using f r by (cases a) (auto intro!: tool_rules set_topology_idx tp_sector_size)
qed (auto intro: tool_rules)

lemma tp_init_data: "keeps I topology_init_data"
  unfolding topology_init_data_def by (intro tool_rules topology)

lemma tp_probe: "keeps I (topology_probe (tp_functions env))"
  unfolding topology_probe_def Let_def
  by (intro tool_rules tp_init_data tp_chain_loop) (auto dest: in_set_dropD intro: tp_function)

end

interpretation wf_tp: topology_inv probe_wf
proof unfold_locales
  show "keeps probe_wf (set_topology tp)" for tp
    unfolding set_topology_def by (rule keeps_modify) (simp add: probe_wf_def)
  show "keeps probe_wf (set_chain BLKID_CHAIN_TOPLGY (\<lambda>chn. chn\<lparr>ch_idx := idx\<rparr>))" for idx
    unfolding set_chain_def by (rule keeps_modify) (auto simp: probe_wf_def BLKID_CHAIN_defs nth_list_update)
qed

interpretation cached_tp: topology_inv "cache_ok content" for content
  by unfold_locales (simp_all add: set_topology_def set_chain_def keeps_def cache_ok_def areas_def)

section \<open>What a result holds\<close>

lemma show_u32_bounds: "show_u32 w \<noteq> []" "length (show_u32 w) < BLKID_PROBVAL_BUFSIZ"
proof -
  have "unat w < 10 ^ 10" using unsigned_less [of w, where 'a = nat] by simp
  then have "length (show_u32 w) \<le> 10" unfolding show_u32_def by (intro length_show_nat) simp_all
  then show "length (show_u32 w) < BLKID_PROBVAL_BUFSIZ" by (simp add: BLKID_PROBVAL_BUFSIZ_def)
qed (simp add: show_u32_def)

lemma topology_set_value_run:
  assumes "pr_cur_chain pr = Some c" and "\<not> ch_binary (chain_at pr c)" and "length (pr_vals pr) < BLKID_NVALS"
  shows "run_state (topology_set_value v num) pr =
    (0, if num = 0 then pr else pr\<lparr>pr_vals := pr_vals pr @
      [\<lparr>pv_name = tp_name v, pv_data = c_bytes (show_u32 num), pv_chain = Some c\<rparr>]\<rparr>)"
  using assms show_u32_bounds [of num] by (simp add: topology_set_value_def vsprintf_value_run not_le)

text \<open>What the kernel's answer is worth as a value: negative alignments are hidden.\<close>

definition tp_shown :: "tp_val \<Rightarrow> u32 \<Rightarrow> u32" where
  "tp_shown v num = (if v = Alignment_Offset \<and> sint num < 0 then 0 else num)"

lemma tp_setter_shown: "tp_setter v num = topology_set_value v (tp_shown v num)"
  by (cases v) (simp_all add: tp_setter_def tp_shown_def blkid_topology_set_alignment_offset_def
      blkid_topology_set_minimum_io_size_def blkid_topology_set_optimal_io_size_def
      blkid_topology_set_physical_sector_size_def)

definition tp_value :: "nat \<Rightarrow> (tp_val \<Rightarrow> u32) \<Rightarrow> tp_val \<Rightarrow> prval" where
  "tp_value c g v = \<lparr>pv_name = tp_name v, pv_data = c_bytes (show_u32 (tp_shown v (g v))), pv_chain = Some c\<rparr>"

lemma ioctl_loop_run:
  assumes "pr_cur_chain pr = Some c" and "\<not> ch_binary (chain_at pr c)" and "length (pr_vals pr) + length vs \<le> BLKID_NVALS"
    and "\<And>v. v \<in> set vs \<Longrightarrow> te_ioctl env v = Some (g v)"
  shows "run_state (ioctl_loop env vs) pr =
    (0, pr\<lparr>pr_vals := pr_vals pr @ map (tp_value c g) (filter (\<lambda>v. tp_shown v (g v) \<noteq> 0) vs)\<rparr>)"
  using assms
proof (induction vs arbitrary: pr)
  case (Cons v vs)
  let ?q = "if tp_shown v (g v) = 0 then pr else pr\<lparr>pr_vals := pr_vals pr @ [tp_value c g v]\<rparr>"
  have s: "run_state (tp_setter v (g v)) pr = (0, ?q)"
    unfolding tp_setter_shown using topology_set_value_run [OF Cons.prems(1,2), of v "tp_shown v (g v)"] Cons.prems(3)
    by (simp add: tp_value_def)
  have q: "pr_cur_chain ?q = Some c" "\<not> ch_binary (chain_at ?q c)" "length (pr_vals ?q) + length vs \<le> BLKID_NVALS"
    using Cons.prems by (simp_all add: chain_at_def)
  from Cons.IH [OF q] Cons.prems(4) s show ?case by simp
qed simp

text \<open>C21. With the kernel's four answers the first source of the topology chain sets the
  values that are not zero, in the order of the table, each as a decimal number; a negative
  alignment is left out.\<close>

theorem ioctl_reports:
  assumes "pr_cur_chain pr = Some c" and "\<not> ch_binary (chain_at pr c)" and "length (pr_vals pr) + 4 \<le> BLKID_NVALS"
    and "\<And>v. v \<in> set ioctl_topology_vals \<Longrightarrow> te_ioctl env v = Some (g v)"
  shows "run_state (probe_ioctl_tp env) pr =
    (0, pr\<lparr>pr_vals := pr_vals pr @ map (tp_value c g) (filter (\<lambda>v. tp_shown v (g v) \<noteq> 0) ioctl_topology_vals)\<rparr>)"
  unfolding probe_ioctl_tp_def
  using assms by (intro ioctl_loop_run) (auto simp: ioctl_topology_vals_def)


text \<open>A topology is never reported without the size that all sources provide.\<close>

lemma sector_size_keeps_complete:
  assumes "topology_is_complete pr"
  shows "topology_is_complete (snd (run_state topology_set_logical_sector_size pr))"
proof -
  obtain n p where s: "run_state blkid_probe_get_sectorsize pr = (n, p)" by (metis surj_pair)
  have p: "pr_cur_chain p = pr_cur_chain pr" "pr_chains p = pr_chains pr" "pr_vals p = pr_vals pr" "pr_topology p = pr_topology pr"
    using s by (auto simp: blkid_probe_get_sectorsize_def split: if_splits option.splits)
  have c: "topology_is_complete p"
    using assms by (simp only: topology_is_complete_def blkid_probe_lookup_value_def chain_at_def p)
  have "topology_is_complete (snd (run_state (topology_set_value Logical_Sector_Size w) p))" for w
  proof (cases "pr_cur_chain p")
    case None
    then show ?thesis using c by (simp add: topology_set_value_def)
  next
    case (Some c)
    then show ?thesis
      using \<open>topology_is_complete p\<close>
      by (auto simp: topology_set_value_def topology_is_complete_def vsprintf_value_run set_topology_def fault_def
          blkid_probe_lookup_value_def find_append chain_at_def split: option.splits if_splits)
  qed
  then show ?thesis using s c by (simp add: topology_set_logical_sector_size_def)
qed

lemma topology_loop_complete: "run_state (topology_loop i fns) pr = (0, q) \<Longrightarrow> topology_is_complete q"
proof (induction fns arbitrary: i pr)
  case Nil
  then show ?case by (simp add: BLKID_PROBE_NONE_def)
next
  case (Cons a fns)
  obtain name f where a: "a = (name, f)" by (cases a)
  let ?p = "snd (run_state (set_chain BLKID_CHAIN_TOPLGY (\<lambda>chn. chn\<lparr>ch_idx := int i\<rparr>)) pr)"
  obtain rc p where f: "run_state f ?p = (rc, p)" by (metis surj_pair)
  show ?case
  proof (cases "rc \<noteq> 0 \<or> \<not> topology_is_complete p")
    case True
    then show ?thesis using Cons f a by (auto simp: split_beta)
  next
    case False
    then have "q = snd (run_state topology_set_logical_sector_size p)" using Cons.prems f a by (auto simp: split_beta)
    then show ?thesis using sector_size_keeps_complete False by simp
  qed
qed

theorem topology_result_complete: "run_state (topology_probe fns) pr = (0, q) \<Longrightarrow> topology_is_complete q"
  by (auto simp: topology_probe_def Let_def EINVAL_def ENOMEM_def split: if_splits prod.splits
      dest: topology_loop_complete)

section \<open>Witnesses\<close>

definition sample_env :: "string option \<Rightarrow> tp_env" where
  "sample_env dm = \<lparr>
     te_ioctl = (\<lambda>v. Some (case v of Alignment_Offset \<Rightarrow> - 1 | Minimum_Io_Size \<Rightarrow> 4096 | Optimal_Io_Size \<Rightarrow> 0 | _ \<Rightarrow> 512)),
     te_files = \<lparr>fl_node = (\<lambda>p. if p = ''/proc/devices'' then Some (File (''Block devices:'' @ [NL] @ ''253 device-mapper'' @ [NL]))
        else None), fl_link = (\<lambda>_. None)\<rparr>,
     te_devname = (\<lambda>_. None), te_evms = None, te_md = (\<lambda>_. None), te_dmsetup = (\<lambda>_ _. dm), te_lvdisplay = (\<lambda>_. None)\<rparr>"

definition tp_probe_at :: "nat \<Rightarrow> probe" where
  "tp_probe_at devno = (let pr = image_probe [] (replicate 3 \<lparr>cd_id = 1, cd_name = [], cd_dflt_flags = 0,
       cd_dflt_enabled = True, cd_has_fltr = False, cd_idinfos = []\<rparr>) in
     pr\<lparr>pr_cur_chain := Some 1, pr_area := (pr_area pr)\<lparr>ar_devno := devno\<rparr>\<rparr>)"

theorem ioctl_reports_witness:
  "map (\<lambda>v. (pv_name v, pv_data v)) (pr_vals (snd (run_state (probe_ioctl_tp (sample_env None)) (tp_probe_at 1)))) =
     [(''MINIMUM_IO_SIZE'', c_bytes (show_u32 4096)), (''PHYSICAL_SECTOR_SIZE'', c_bytes (show_u32 512))]"
proof -
  let ?g = "\<lambda>v. case v of Alignment_Offset \<Rightarrow> - 1 | Minimum_Io_Size \<Rightarrow> 4096 | Optimal_Io_Size \<Rightarrow> 0 | _ \<Rightarrow> 512"
  have c: "pr_cur_chain (tp_probe_at 1) = Some 1" "\<not> ch_binary (chain_at (tp_probe_at 1) 1)"
    "pr_vals (tp_probe_at 1) = []"
    by (simp_all add: tp_probe_at_def image_probe_def blkid_new_probe_def chain_at_def new_chain_def Let_def)
  have e: "te_ioctl (sample_env None) v = Some (?g v)" for v by (simp add: sample_env_def)
  have "filter (\<lambda>v. tp_shown v (?g v) \<noteq> 0) ioctl_topology_vals = [Minimum_Io_Size, Physical_Sector_Size]"
    by (simp add: ioctl_topology_vals_def tp_shown_def)
  with ioctl_reports [OF c(1,2) _ e] c(3) show ?thesis by (simp add: tp_value_def tp_shown_def BLKID_NVALS_eq)
qed


end
