(* ===== verification/Chains.thy ===== *)
theory Chains
  imports SbRun SbExt SbMd SbExfat SbOptical SbUnix SbBefs SbVolumes SbFat SbFs Topology
begin

text \<open>
  The prober with its three chains: the table of the superblocks chain
  (src/lib/libblkid/src/superblocks/superblocks.c), the drivers in probe.c, and what every way of
  running them keeps.
\<close>

definition sb_idinfos :: "idinfo list" where
  "sb_idinfos = [
     linuxraid_idinfo, ddfraid_idinfo, iswraid_idinfo, lsiraid_idinfo, viaraid_idinfo, silraid_idinfo, nvraid_idinfo,
     pdcraid_idinfo, highpoint45x_idinfo, highpoint37x_idinfo, adraid_idinfo, jmraid_idinfo,
     bcache_idinfo, drbd_idinfo, drbdproxy_datalog_idinfo, lvm2_idinfo, lvm1_idinfo, snapcow_idinfo, verity_hash_idinfo,
     luks_idinfo, vmfs_volume_idinfo,
     vfat_idinfo, swsuspend_idinfo, swap_idinfo, xfs_idinfo, xfs_log_idinfo, ext4dev_idinfo, ext4_idinfo, ext3_idinfo,
     ext2_idinfo, jbd_idinfo, reiser_idinfo, reiser4_idinfo, jfs_idinfo, udf_idinfo, iso9660_idinfo, zfs_idinfo,
     hfsplus_idinfo, hfs_idinfo, ufs_idinfo, hpfs_idinfo, sysv_idinfo, xenix_idinfo, ntfs_idinfo, refs_idinfo,
     cramfs_idinfo, romfs_idinfo, minix_idinfo, gfs_idinfo, gfs2_idinfo, ocfs_idinfo, ocfs2_idinfo, oracleasm_idinfo,
     vxfs_idinfo, squashfs_idinfo, squashfs3_idinfo, netware_idinfo, btrfs_idinfo, ubifs_idinfo, bfs_idinfo,
     vmfs_fs_idinfo, befs_idinfo, nilfs2_idinfo, exfat_idinfo, f2fs_idinfo]"

definition chains_drvs :: "tp_env \<Rightarrow> chaindrv list" where
  "chains_drvs tenv = [superblocks_drv sb_idinfos, topology_drv tenv, partitions_drv pt_idinfos]"

definition chains_ops :: "tp_env \<Rightarrow> parts_env \<Rightarrow> chain_ops list" where
  "chains_ops tenv env = [superblocks_ops sb_idinfos, topology_ops tenv, partitions_ops env pt_idinfos]"

section \<open>The table of the superblocks chain\<close>

definition keeps_wf :: "idinfo \<Rightarrow> bool" where
  "keeps_wf ii \<longleftrightarrow> (\<forall>f mag. ii_probefunc ii = Some f \<longrightarrow> keeps probe_wf (f mag))"

lemma keeps_wfI: "behaves f \<Longrightarrow> keeps probe_wf (f mag)"
  by (rule behavesD [OF _ wf.prober_inv_axioms])

lemma raid_tables_wf:
  "keeps_wf linuxraid_idinfo" "keeps_wf ddfraid_idinfo" "keeps_wf iswraid_idinfo" "keeps_wf lsiraid_idinfo"
  "keeps_wf viaraid_idinfo" "keeps_wf silraid_idinfo" "keeps_wf nvraid_idinfo" "keeps_wf pdcraid_idinfo"
  "keeps_wf highpoint45x_idinfo" "keeps_wf highpoint37x_idinfo" "keeps_wf adraid_idinfo" "keeps_wf jmraid_idinfo"
  "keeps_wf drbd_idinfo" "keeps_wf drbdproxy_datalog_idinfo"
  by (simp_all add: keeps_wf_def raid_idinfos linuxraid_idinfo_def wf_clone.md keeps_wfI raids_behave)

lemma volume_tables_wf:
  "keeps_wf bcache_idinfo" "keeps_wf lvm2_idinfo" "keeps_wf lvm1_idinfo" "keeps_wf snapcow_idinfo"
  "keeps_wf verity_hash_idinfo" "keeps_wf xfs_idinfo" "keeps_wf xfs_log_idinfo" "keeps_wf nilfs2_idinfo"
  "keeps_wf ocfs_idinfo" "keeps_wf ocfs2_idinfo" "keeps_wf oracleasm_idinfo"
  by (simp_all add: keeps_wf_def volume_idinfos keeps_wfI volumes_behave)

lemma filesystem_tables_wf:
  "keeps_wf luks_idinfo" "keeps_wf vmfs_volume_idinfo" "keeps_wf swsuspend_idinfo" "keeps_wf swap_idinfo"
  "keeps_wf reiser_idinfo" "keeps_wf reiser4_idinfo" "keeps_wf jfs_idinfo" "keeps_wf hpfs_idinfo"
  "keeps_wf sysv_idinfo" "keeps_wf xenix_idinfo" "keeps_wf refs_idinfo" "keeps_wf cramfs_idinfo"
  "keeps_wf romfs_idinfo" "keeps_wf minix_idinfo" "keeps_wf gfs_idinfo" "keeps_wf gfs2_idinfo"
  "keeps_wf vxfs_idinfo" "keeps_wf squashfs_idinfo" "keeps_wf squashfs3_idinfo" "keeps_wf netware_idinfo"
  "keeps_wf btrfs_idinfo" "keeps_wf ubifs_idinfo" "keeps_wf bfs_idinfo" "keeps_wf vmfs_fs_idinfo" "keeps_wf f2fs_idinfo"
  by (simp_all add: keeps_wf_def fs_idinfos keeps_wfI filesystems_behave)

lemma other_tables_wf:
  "keeps_wf vfat_idinfo" "keeps_wf ntfs_idinfo" "keeps_wf hfs_idinfo" "keeps_wf hfsplus_idinfo"
  "keeps_wf ext4dev_idinfo" "keeps_wf ext4_idinfo" "keeps_wf ext3_idinfo" "keeps_wf ext2_idinfo" "keeps_wf jbd_idinfo"
  "keeps_wf udf_idinfo" "keeps_wf iso9660_idinfo" "keeps_wf ufs_idinfo" "keeps_wf zfs_idinfo" "keeps_wf befs_idinfo"
  "keeps_wf exfat_idinfo"
  by (simp_all add: keeps_wf_def fat_idinfos unix_idinfos optical_idinfos befs_idinfo_def exfat_idinfo_def
      ext4dev_idinfo_def ext4_idinfo_def ext3_idinfo_def ext2_idinfo_def jbd_idinfo_def
      keeps_wfI tables_behave exts_behave optical_behave ufs_behaves wf_poking.zfs wf_endless.befs wf_endless.exfat)

lemma functions_keep_wf: "functions_keep probe_wf iis \<longleftrightarrow> list_all keeps_wf iis"
  by (simp add: functions_keep_def keeps_wf_def list_all_iff)

lemma sb_idinfos_wf: "functions_keep probe_wf sb_idinfos"
  unfolding functions_keep_wf sb_idinfos_def
  by (simp only: list.pred_inject raid_tables_wf volume_tables_wf filesystem_tables_wf other_tables_wf)

section \<open>Running the chains\<close>

text \<open>What the operations on the chains keep, whatever the chains do.\<close>

lemma wf_modify_cur: "i < BLKID_NCHAINS \<Longrightarrow> keeps probe_wf (modify (\<lambda>pr. pr\<lparr>pr_cur_chain := Some i\<rparr>))"
  by (rule keeps_modify) (simp add: probe_wf_def)

lemma driver_update:
  "(\<And>chn. ch_driver (f chn) = ch_driver chn) \<Longrightarrow> i < length xs \<Longrightarrow> ch_driver (xs[c := f (xs ! c)] ! i) = ch_driver (xs ! i)"
  by (cases "c = i") simp_all

lemma wf_set_chain:
  assumes "\<And>chn. ch_driver (f chn) = ch_driver chn"
  shows "keeps probe_wf (set_chain c f)"
  unfolding set_chain_def
proof (rule keeps_modify)
  fix pr :: probe assume w: "probe_wf pr"
  have "ch_driver ((pr_chains pr)[c := f (pr_chains pr ! c)] ! i) = ch_driver (pr_chains pr ! i)" if "i < BLKID_NCHAINS" for i
    using driver_update [OF assms, of i "pr_chains pr" c] that w by (simp add: probe_wf_def)
  then show "probe_wf (pr\<lparr>pr_chains := (pr_chains pr)[c := f (pr_chains pr ! c)]\<rparr>)" using w by (simp add: probe_wf_def)
qed

lemma wf_start_end: "keeps probe_wf blkid_probe_start" "keeps probe_wf blkid_probe_end"
  by (rule keepsI; simp add: probe_wf_def blkid_probe_start_def blkid_probe_end_def blkid_probe_set_wiper_def)+

lemma wf_reset_position: "keeps probe_wf (blkid_probe_chain_reset_position c)"
  unfolding blkid_probe_chain_reset_position_def by (rule wf_set_chain) simp

lemma wf_next_chain: "keeps probe_wf (next_chain r)"
  unfolding next_chain_def Let_def
  by (intro keeps_rules wf_start_end wf_modify_cur) (simp_all add: BLKID_NCHAINS_def)

lemma wf_endless: "keeps probe_wf (fault e)"
  by (rule keepsI) (simp add: fault_def probe_wf_def)

lemma keeps_bind_post:
  assumes "keeps I m" and "\<And>pr. I pr \<Longrightarrow> Q (fst (run_state m pr))" and "\<And>x. Q x \<Longrightarrow> keeps I (f x)"
  shows "keeps I (m \<bind> f)"
  using assms by (force simp: keeps_def split: prod.splits)

lemma next_chain_bound: "probe_wf pr \<Longrightarrow> case fst (run_state (next_chain r) pr) of Some c \<Rightarrow> c < BLKID_NCHAINS | None \<Rightarrow> True"
  by (auto simp: next_chain_def Let_def probe_wf_def BLKID_NCHAINS_def split_beta split: option.splits)

lemma wf_do_probe_loop:
  assumes "\<And>c. c < BLKID_NCHAINS \<Longrightarrow> keeps probe_wf (co_probe (ops ! c))"
  shows "keeps probe_wf (do_probe_loop n ops r)"
proof (induction n arbitrary: r)
  case 0
  then show ?case by (simp only: do_probe_loop.simps) (intro keeps_rules wf_endless)
next
  case (Suc n)
  show ?case unfolding do_probe_loop.simps
  proof (rule keeps_bind_post [where Q = "\<lambda>nc. case nc of Some c \<Rightarrow> c < BLKID_NCHAINS | None \<Rightarrow> True"],
      rule wf_next_chain, erule next_chain_bound)
    fix nc :: "nat option" assume nc: "case nc of Some c \<Rightarrow> c < BLKID_NCHAINS | None \<Rightarrow> True"
    show "keeps probe_wf (case nc of None \<Rightarrow> ret 1
      | Some c \<Rightarrow> set_chain c (\<lambda>chn. chn\<lparr>ch_binary := False\<rparr>) \<bind> (\<lambda>_. gets (\<lambda>pr. ch_enabled (chain_at pr c)) \<bind>
          (\<lambda>enabled. (if enabled then co_probe (ops ! c) else ret r) \<bind>
            (\<lambda>rc. if rc = 1 then do_probe_loop n ops rc else ret rc))))"
      using nc by (intro keeps_rules wf_set_chain Suc assms) simp_all
  qed
qed

lemma wf_chains_loop:
  assumes "\<And>c. c < BLKID_NCHAINS \<Longrightarrow> keeps probe_wf (f (ops ! c))" and "\<forall>i \<in> set is. i < BLKID_NCHAINS"
  shows "keeps probe_wf (chains_loop f ops is count r)"
  using assms(2)
  by (induction "is" arbitrary: count r)
     (simp_all only: chains_loop.simps, (intro keeps_rules wf_modify_cur wf_set_chain wf_reset_position assms(1); simp)+)

lemma wf_probe_chains: "(\<And>c. c < BLKID_NCHAINS \<Longrightarrow> keeps probe_wf (f (ops ! c))) \<Longrightarrow> keeps probe_wf (probe_chains f ops)"
  unfolding probe_chains_def by (intro keeps_rules wf_start_end wf_chains_loop) auto

lemma chains_wf:
  assumes "c < BLKID_NCHAINS"
  shows "keeps probe_wf (co_probe (chains_ops tenv env ! c))" "keeps probe_wf (co_safeprobe (chains_ops tenv env ! c))"
proof -
  have "c = 0 \<or> c = 1 \<or> c = 2" using assms by (auto simp: BLKID_NCHAINS_def)
  then show "keeps probe_wf (co_probe (chains_ops tenv env ! c))" "keeps probe_wf (co_safeprobe (chains_ops tenv env ! c))"
    by (auto simp: chains_ops_def superblocks_ops_def topology_ops_def partitions_ops_def
        intro: wf_chain.functions_probe [OF sb_idinfos_wf] safeprobe_wf [OF sb_idinfos_wf] wf_tp.tp_probe
          wf_pt.probe [OF pt_idinfos_behave])
qed

text \<open>C19. Whatever is on the device and whatever the system says, the three ways of probing with
  the program's own tables leave a well-formed probe: no more than 36 values in their buffers, and
  every pointer to a chain points to one of the three.\<close>

theorem probing_keeps_wf:
  assumes "probe_wf pr"
  shows "probe_wf (snd (run_state (blkid_do_probe (chains_ops tenv env)) pr)) \<and>
    probe_wf (snd (run_state (blkid_do_safeprobe (chains_ops tenv env)) pr)) \<and>
    probe_wf (snd (run_state (blkid_do_fullprobe (chains_ops tenv env)) pr))"
proof -
  have "keeps probe_wf (blkid_do_probe (chains_ops tenv env))"
    unfolding blkid_do_probe_def by (intro keeps_rules wf_do_probe_loop chains_wf)
  moreover have "keeps probe_wf (blkid_do_safeprobe (chains_ops tenv env))"
    unfolding blkid_do_safeprobe_def by (intro wf_probe_chains chains_wf)
  moreover have "keeps probe_wf (blkid_do_fullprobe (chains_ops tenv env))"
    unfolding blkid_do_fullprobe_def by (intro wf_probe_chains chains_wf)
  ultimately show ?thesis using keepsD assms by blast
qed

lemma new_probe_wf: "probe_wf (blkid_new_probe (chains_drvs tenv))"
  by (auto simp: probe_wf_def blkid_new_probe_def chains_drvs_def BLKID_CHAIN_defs new_chain_def nth_Cons' less_Suc_eq
      superblocks_drv_def topology_drv_def partitions_drv_def)

theorem probing_keeps_wf_witness:
  "\<forall>tenv env. probe_wf (snd (run_state (blkid_do_safeprobe (chains_ops tenv env)) (blkid_new_probe (chains_drvs tenv))))"
  using probing_keeps_wf [OF new_probe_wf] by blast

end
