(* ===== verification/Spec2Isabelle.thy ===== *)
theory Spec2Isabelle
  imports Boot Chains
begin

text \<open>
  A model of the multiboot init of grub4android, with the theorems that make it correct.

  The program is the first process of an Android system. It reads the kernel command line, finds
  the partition an installed system lives on, prepares directories, images and loop devices for
  the partitions that system is to see, rewrites its fstabs, and starts the real /init, either
  directly or traced, so that accesses to the real partitions are redirected while it runs.

  Parts, in the order of their dependence:

    Prelude, CString, CNumber: machine integers of an ILP32 target, undefined behaviour as
      values of \<open>ub + 'a\<close>, C strings, printf and sscanf conversions, strtol.
    Os: the environment. Everything outside the program (kernel, stdio, libblkid, tracy) is
      one parameter, a function that answers a call from the calls made before it. The
      program's side is a \<open>world\<close>: the trail of calls and errno. Calls that fail set errno,
      and library calls that may touch it leave any value.
    Klog, Cmdline: src/lib/klog.c and src/lib/cmdline.c.
    UtilString, UtilPath, Exec: src/src/util.c.
    FsFlags, Fstab, FsMount: src/lib/fs_mgr, its flag parser, its fstab files and lookups,
      its mounts.
    Uevent: src/lib/uevent.c, the table of block devices.
    ExtFs: src/lib/fs, the detection of a format by comparing two ext4 superblocks.
    Modules: src/src/modules.c and the data the modules share.
    FstabPatcher, EnvPrepare, Redirection with Hooks: the three modules in src/src/modules.
    Rounds: a traced child as a step relation, one step per system call, each the hook before
      the call, the kernel's result and the hook after it.
    MultibootInit, Startup, Program: src/src/multiboot_init.c. \<open>prog\<close> holds its static
      variables; \<open>stop\<close> are the ways in which a run ends before \<open>main\<close> returns.
    Boot: what a run of \<open>main\<close> asks of the system.

  The prober of libblkid, which finds out what is on a block device (src/lib/libblkid):

    Bytes: members of the packed structs on the disk, little and big endian.
    Uuid: libuuid/src, UUIDs packed, printed, parsed, compared and generated.
    Encode: src/encode.c, labels in UTF-16, names with escapes.
    Probe, ProbeFacts: src/probe.c. A \<open>probe\<close> is the struct of that name, a device is a
      \<open>medium\<close> that answers seeks, allocations and reads; operations are state monads over
      it. What goes wrong is the field \<open>pr_fault\<close>: undefined behaviour, or a loop whose
      fuel is used up.
    Superblocks, SbFacts, SbRun: src/superblocks/superblocks.c, with the table of probing
      functions as an argument and what every such function keeps as \<open>table_behaves\<close>.
    Crc, Md5: lib/crc32.c, lib/crc64.c and lib/md5.c, the checksums and the digest that the
      probing functions use.
    SbTools, SbRaid, SbExt, SbFs, SbVolumes, SbFat, SbExfat, SbOptical, SbUnix, SbBefs: the
      probing functions in src/superblocks, one definition per function, struct and
      \<open>blkid_idinfo\<close>, each proved to behave, except those of exFAT and BeFS, which may not end,
      and of ZFS, which writes to the cached buffer.
    Partlist: the list of partitions in src/partitions/partitions.c. A pointer to a partition is
      the capacity of the array and an index, so that it is stale once the array has moved.
    Partitions, PartFacts: the partitions chain, nested tables on a clone of the prober, the
      details of a partition, the test for areas that are covered by partitions.
    PtLabels, PtDos, PtFacts: the probing functions in src/partitions and their table.
    SbMd: the members of Linux RAID arrays, which asks the partitions chain.
    Sysfs, Devno: lib/sysfs.c and src/devno.c, over a file system that is a parameter.
    Topology: src/topology, its chain and its six sources; what the kernel and the tools of the
      system answer is a parameter.
    Chains: the tables and drivers of the three chains, and the three ways of running them.

  Interfaces are locales, interpreted on the definitions of the model: \<open>preserving\<close> (runs of
  a step and what each step keeps, for the log), \<open>block_table\<close> (a lookup with canonical
  names, for the block device table; the fstab translation rests on it) and \<open>line_codec\<close>
  (lines that are written and read back, for both formats of the fstab). In the prober
  \<open>prober_inv\<close> is the contract between its operations and an invariant of the probe, and
  \<open>chain_inv\<close> extends it to the chains; both are interpreted for the well-formed probes,
  the buffer cache and the frame of the values. \<open>part_inv\<close>, \<open>clone_inv\<close> and \<open>pt_chain_inv\<close>
  extend it to the operations on the list of partitions, to work on a clone and to the
  partitions chain; \<open>topology_inv\<close> to the topology chain; \<open>endless_inv\<close> to functions that may use up their fuel.

  What the lemmas show: a traced child is clean between its calls (Rounds); which path is
  redirected and where to (Redirection, Hooks); when a format is noticed and what it empties
  (ExtFs, Hooks); the parsers of flags, fstabs, uevents, options against specifications and
  round trips with what is printed (FsFlags, Fstab, FstabPatcher, Uevent, Boot); that loops
  end (UtilPath, FsMount, Boot); the bounds of buffers (UtilString, Klog, FsMount, Exec); and
  the effects of known defects, each stated as the code behaves. For the prober: that the
  cache of buffers does not show, that a probe stays well-formed, that probing ends, what the
  verdict of the safe probe is (ProbeFacts, SbRun), which ext function accepts which superblock
  (SbExt), the round trips of labels and UUIDs (Encode, Uuid), that the tables of the checksums
  hold what dividing bit by bit gives (Crc), that MD5 does not depend on how its message is cut
  (Md5), and which exFAT volumes keep the prober busy forever (SbExfat). For the partitions:
  which partitions an MBR and a GPT give, which extended records never end, what a pointer
  into a full list is worth (Partlist, PtFacts). For the devices: which disk a partition is on,
  what a name that was found is worth (Sysfs, Devno), what the topology reports (Topology).

  Fuel occurs in several places. \<open>wait_for_file\<close> takes rounds of 10 ms: with a clock that advances at
  least a second in a hundred rounds 100 rounds per second of timeout and one more suffice.
  The last loop of \<open>main\<close> needs one round more than \<open>waitpid\<close> has results to give. The loop of
  \<open>blkid_do_probe\<close> goes at most once through each chain, and the safe probe finds at most
  as many results as there are probing functions; both are proved. The search for the label of
  an exFAT volume has fuel for every pair of an offset and a cluster, more than it can need
  unless it runs in a circle; likewise the walk down the attribute tree of BeFS. The chain of
  extended boot records has \<open>DOS_FUEL\<close> rounds, the list would have filled the memory
  of a 32-bit machine long before; the map of a Mac disk has one round for every number of a
  block. Every other recursion is proved to terminate.

  Values the code reads before it sets them are arguments of the definitions: the numbers of
  a by-name lookup, the flag values of a TWRP fstab, one return code, the content of a fresh
  heap block, the room an allocation has beyond its size.

  Not modelled: the text of log messages; kperror; freeing of memory, except
  where it may be undefined in the reader of fstabs; failing allocations; free_block_devices,
  which is never called; the cache of tags and the partitioning tool libfdisk under
  src/lib/libblkid; writing to sysfs; starting dmsetup and lvdisplay through a pipe; and the tracy library, whose calls are parameters.
  The prober is modelled for a medium whose answers do not change, with debugging output
  left out, and with off_t of 64 bits. The prober of a whole disk is opened anew for each partition
  instead of being kept. A directory or a file is delivered as a
  whole by one reply, and does not change between the two passes of the fstab reader.
\<close>

section \<open>Properties of the program\<close>


definition plain_os :: "string \<Rightarrow> os" where
  "plain_os text cs c =
     (case c of Fd (Read _ _) \<Rightarrow> (ok_reply (int (length text)))\<lparr>data := text\<rparr> | _ \<Rightarrow> ok_reply 0)"

lemma plain_os_text: "length text < 1024 \<Longrightarrow> NUL \<notin> set text \<Longrightarrow> text \<noteq> [] \<Longrightarrow> last text \<noteq> NL \<Longrightarrow>
    fst (cmdline_text (plain_os text) w) = text"
  by (simp add: cmdline_text_def plain_os_def Let_def split_beta)


text \<open>C7. The option \<open>multiboot.source=(hdN,M)path\<close> selects the partition it names: when the
  block device table has an entry for it, the source record gets that entry's device number and
  canonical path, for all 32-bit N and M, although the numbers are printed as signed ones.\<close>

theorem source_option_selects:
  assumes "path \<noteq> []" and "\<forall>c\<in>set path. \<not> isspace c"
    and "find (\<lambda>e. part_major e = dev \<and> part_minor e = part) tbl = Some e"
  shows "\<exists>q r. import_kernel_nv os r0 (''multiboot.source='' @ source_value dev part path) p = Inr q \<and>
    multiboot_enabled (p_data q) \<and> multiboot_path (p_data q) = Some path \<and>
    prepare_device indet (Some tbl) ''/multiboot/mnt/source'' (multiboot_device (p_data q)) = Inr r \<and>
    blk_device r = Some (mmc_path dev part) \<and> stat_rdev r = (linux_major e, linux_minor e) \<and>
    replacement_bind r \<and> replacement_device r = Some ''/multiboot/mnt/source''"
  using import_source [OF assms(1,2), of os r0 dev part p] prepare_device_mmc [OF _ assms(3)]
  by simp

theorem source_option_selects_witness:
  "\<exists>q r. import_kernel_nv (plain_os []) 0 (''multiboot.source='' @ source_value 0 14 ''/cm'') demo_prog = Inr q \<and>
    prepare_device (0, 0) (Some [zero_event\<lparr>linux_major := 179, linux_minor := 14, part_minor := 14\<rparr>])
      ''/multiboot/mnt/source'' (multiboot_device (p_data q)) = Inr r \<and> stat_rdev r = (179, 14)"
proof -
  let ?e = "zero_event\<lparr>linux_major := 179, linux_minor := 14, part_minor := 14\<rparr>"
  have e: "find (\<lambda>e. part_major e = 0 \<and> part_minor e = 14) [?e] = Some ?e"
    "linux_major ?e = 179" "linux_minor ?e = 14" by (simp_all add: zero_event_def)
  have "''/cm'' \<noteq> []" "\<forall>c\<in>set ''/cm''. \<not> isspace c" by (simp_all add: isspace_def)
  from source_option_selects [OF this e(1), of "plain_os []" 0 demo_prog "(0, 0)"]
  show ?thesis unfolding e(2,3) by blast
qed

text \<open>The voldwrapper runs vold when it can be executed; when it cannot, the process that
  was to be vold goes on with the program's own setup, as if it were started as init.\<close>

theorem voldwrapper_outcome:
  assumes "wraps_vold cmd"
  shows "((\<forall>cs. 0 \<le> rc (env M cs vold_exec)) \<longrightarrow>
      (\<exists>w. main fuel M ms cmd p = Inl (Replaced w) \<and> last (trail w) = vold_exec)) \<and>
    ((\<forall>cs. rc (env M cs vold_exec) < 0) \<longrightarrow>
      (\<exists>q. last (trail (p_world q)) = vold_exec \<and> main fuel M ms cmd p = main fuel M ms [] q))"
proof (intro conjI impI)
  assume "\<forall>cs. 0 \<le> rc (env M cs vold_exec)"
  with voldwrapper_runs [of "env M" p] show
    "\<exists>w. main fuel M ms cmd p = Inl (Replaced w) \<and> last (trail w) = vold_exec"
    by (auto simp: main_voldwrapper [OF assms])
next
  assume "\<forall>cs. rc (env M cs vold_exec) < 0"
  with voldwrapper_fails [of "env M" p] obtain q where
    "voldwrapper (env M) p = Inr q" "last (trail (p_world q)) = vold_exec" by blast
  then show "\<exists>q. last (trail (p_world q)) = vold_exec \<and> main fuel M ms cmd p = main fuel M ms [] q"
    by (intro exI [of _ q]) (simp add: main_voldwrapper [OF assms])
qed

theorem voldwrapper_outcome_witness:
  "\<exists>w. main 0 (demo_machine (plain_os []) id) [] [''x'', ''voldwrapper''] demo_prog = Inl (Replaced w) \<and>
     last (trail w) = vold_exec"
  using voldwrapper_outcome [of "[''x'', ''voldwrapper'']" "demo_machine (plain_os []) id" 0 "[]" demo_prog]
  by (simp add: wraps_vold_def plain_os_def vold_exec_def)

text \<open>The loop that ends \<open>main\<close> returns once no children are left: if \<open>waitpid\<close> reports
  ECHILD from the \<open>k\<close>-th call of the run on, at most \<open>k + 1\<close> waits are made.\<close>

theorem wait_children_ends:
  assumes "\<And>cs. k \<le> length cs \<Longrightarrow> rc (os cs (Proc (Waitpid (- 1)))) < 0 \<and>
      eno (os cs (Proc (Waitpid (- 1)))) = ECHILD"
  shows "\<exists>w' m. wait_children (Suc k) os w = Some w' \<and> 0 < m \<and> m \<le> Suc k \<and>
    trail w' = trail w @ replicate m (Proc (Waitpid (- 1)))"
  using wait_children_result [of k os w k] assms by simp

theorem wait_children_ends_witness:
  "\<exists>w' m. wait_children 3 (\<lambda>cs c. if length cs < 2 then ok_reply 7 else err_reply ECHILD) initial_world = Some w' \<and>
     m \<le> 3 \<and> trail w' = replicate m (Proc (Waitpid (- 1)))"
  using wait_children_ends [of 2 "\<lambda>cs c. if length cs < 2 then ok_reply 7 else err_reply ECHILD" initial_world]
  by (auto simp: initial_world_def numeral_3_eq_3)

end
